(* ===== verification/Prelude.thy ===== *)
theory Prelude
  imports Main "HOL-Library.Word"
begin

unbundle bit_operations_syntax

text \<open>
  What the components of the development share: the types of the Qt values the
  sources use (bytes, byte arrays, strings), the big-endian reads and writes of
  \<^verbatim>\<open>QDataStream\<close>, the string operations of \<^verbatim>\<open>QString\<close> the sources call, an
  unsigned decimal reader and printer, and the generic lemmas about them.

  A \<^verbatim>\<open>QByteArray\<close> is a list of 8-bit words.  A \<^verbatim>\<open>QString\<close> is a \<^typ>\<open>string\<close>: every
  operation modelled here looks at code units one at a time and compares them with
  ASCII characters only.  A null \<^verbatim>\<open>QString\<close> or \<^verbatim>\<open>QByteArray\<close> is the empty list;
  the sources modelled here never distinguish null from empty.

  Reading past the end of a \<^verbatim>\<open>QDataStream\<close> yields the value 0 and leaves the stream at
  its end; \<^verbatim>\<open>readRawData\<close> and \<^verbatim>\<open>skipRawData\<close> take what is left.
\<close>

named_theorems wire_simps \<open>reading back what was written to a byte stream\<close>
named_theorems qstring_simps \<open>string searching and splitting\<close>

type_synonym byte = "8 word"
type_synonym bytes = "byte list"
type_synonym qstring = string

section \<open>Big-endian integers\<close>

definition be16 :: "16 word \<Rightarrow> bytes" where
  "be16 w = [ucast (drop_bit 8 w), ucast w]"

definition be32 :: "32 word \<Rightarrow> bytes" where
  "be32 w = [ucast (drop_bit 24 w), ucast (drop_bit 16 w), ucast (drop_bit 8 w), ucast w]"

definition of_be16 :: "byte \<Rightarrow> byte \<Rightarrow> 16 word" where
  "of_be16 a b = push_bit 8 (ucast a) OR ucast b"

definition of_be32 :: "byte \<Rightarrow> byte \<Rightarrow> byte \<Rightarrow> byte \<Rightarrow> 32 word" where
  "of_be32 a b c d =
     push_bit 24 (ucast a) OR push_bit 16 (ucast b) OR push_bit 8 (ucast c) OR ucast d"

fun read_u8 :: "bytes \<Rightarrow> 8 word \<times> bytes" where
  "read_u8 (a # r) = (a, r)"
| "read_u8 [] = (0, [])"

fun read_u16 :: "bytes \<Rightarrow> 16 word \<times> bytes" where
  "read_u16 (a # b # r) = (of_be16 a b, r)"
| "read_u16 _ = (0, [])"

fun read_u32 :: "bytes \<Rightarrow> 32 word \<times> bytes" where
  "read_u32 (a # b # c # d # r) = (of_be32 a b c d, r)"
| "read_u32 _ = (0, [])"

definition read_raw :: "nat \<Rightarrow> bytes \<Rightarrow> bytes \<times> bytes" where
  "read_raw n bs = (take n bs, drop n bs)"

definition skip_raw :: "nat \<Rightarrow> bytes \<Rightarrow> bytes" where
  "skip_raw n bs = drop n bs"

lemma length_be [simp]: "length (be16 w) = 2" "length (be32 v) = 4"
  by (simp_all add: be16_def be32_def)

lemma of_be16_be16: "of_be16 (ucast (drop_bit 8 w)) (ucast w) = w"
  unfolding of_be16_def
  by (rule bit_word_eqI) (auto simp: bit_simps)

lemma of_be32_be32:
  "of_be32 (ucast (drop_bit 24 w)) (ucast (drop_bit 16 w)) (ucast (drop_bit 8 w)) (ucast w) = w"
proof (rule bit_word_eqI)
  fix n
  assume "n < LENGTH(32)"
  then consider "n < 8" | "8 \<le> n" "n < 16" | "16 \<le> n" "n < 24" | "24 \<le> n" "n < 32"
    by fastforce
  then show "bit (of_be32 (ucast (drop_bit 24 w)) (ucast (drop_bit 16 w)) (ucast (drop_bit 8 w))
      (ucast w)) n = bit w n"
    unfolding of_be32_def
    by cases (auto simp: bit_simps)
qed

lemma read_u8_Cons [wire_simps]: "read_u8 (a # r) = (a, r)"
  by simp

lemma read_u16_be16 [wire_simps]: "read_u16 (be16 w @ r) = (w, r)"
  by (simp add: be16_def of_be16_be16)

lemma read_u32_be32 [wire_simps]: "read_u32 (be32 w @ r) = (w, r)"
  by (simp add: be32_def of_be32_be32)

lemma read_raw_append [wire_simps]: "n = length xs \<Longrightarrow> read_raw n (xs @ r) = (xs, r)"
  by (simp add: read_raw_def)

lemma skip_raw_append [wire_simps]: "n = length xs \<Longrightarrow> skip_raw n (xs @ r) = r"
  by (simp add: skip_raw_def)

lemma skip_raw_0 [wire_simps]: "skip_raw 0 r = r"
  by (simp add: skip_raw_def)

section \<open>Strings\<close>

text \<open>\<^verbatim>\<open>QString::indexOf\<close> of one character; \<^term>\<open>None\<close> stands for -1.\<close>

fun index_of :: "'a \<Rightarrow> 'a list \<Rightarrow> nat option" where
  "index_of c [] = None"
| "index_of c (x # xs) = (if x = c then Some 0 else map_option Suc (index_of c xs))"

text \<open>\<^verbatim>\<open>QString::split\<close> on one character, empty parts kept: the result is never empty.\<close>

fun split_on :: "'a \<Rightarrow> 'a list \<Rightarrow> 'a list list" where
  "split_on c [] = [[]]"
| "split_on c (x # xs) =
     (if x = c then [] # split_on c xs
      else (case split_on c xs of [] \<Rightarrow> [[x]] | y # ys \<Rightarrow> (x # y) # ys))"

fun join_with :: "'a \<Rightarrow> 'a list list \<Rightarrow> 'a list" where
  "join_with c [] = []"
| "join_with c [x] = x"
| "join_with c (x # y # ys) = x @ c # join_with c (y # ys)"

lemma index_of_None [qstring_simps]: "index_of c xs = None \<longleftrightarrow> c \<notin> set xs"
  by (induction xs) auto

lemma index_of_append [qstring_simps]:
  "c \<notin> set xs \<Longrightarrow> index_of c (xs @ c # ys) = Some (length xs)"
  by (induction xs) auto

lemma index_of_Some:
  "index_of c xs = Some n \<Longrightarrow> n < length xs \<and> xs ! n = c \<and> c \<notin> set (take n xs)"
  by (induction xs arbitrary: n) (auto split: if_splits)

lemma index_of_split:
  assumes "index_of c xs = Some n"
  shows "xs = take n xs @ c # drop (Suc n) xs"
  using index_of_Some [OF assms] id_take_nth_drop [of n xs] by simp

lemma split_on_not_Nil [simp]: "split_on c xs \<noteq> []"
  by (induction xs) (auto split: list.splits)

lemma split_on_single [qstring_simps]: "c \<notin> set xs \<Longrightarrow> split_on c xs = [xs]"
  by (induction xs) auto

lemma split_on_append [qstring_simps]:
  "c \<notin> set xs \<Longrightarrow> split_on c (xs @ c # ys) = xs # split_on c ys"
  by (induction xs) auto

lemma join_split: "join_with c (split_on c xs) = xs"
proof (induction xs)
  case (Cons x xs)
  then show ?case
    by (cases "split_on c xs"; cases "tl (split_on c xs)") auto
qed simp

lemma split_on_parts: "p \<in> set (split_on c xs) \<Longrightarrow> c \<notin> set p"
proof (induction xs arbitrary: p)
  case (Cons x xs)
  then show ?case
    by (cases "split_on c xs") (auto split: if_splits)
qed simp

lemma split_join [qstring_simps]:
  "ps \<noteq> [] \<Longrightarrow> \<forall>p \<in> set ps. c \<notin> set p \<Longrightarrow> split_on c (join_with c ps) = ps"
  by (induction c ps rule: join_with.induct) (auto simp: qstring_simps)

section \<open>Digits\<close>

definition is_digit :: "char \<Rightarrow> bool" where
  "is_digit c \<longleftrightarrow> 48 \<le> (of_char c :: nat) \<and> (of_char c :: nat) \<le> 57"

definition digit_val :: "char \<Rightarrow> nat" where
  "digit_val c = of_char c - 48"

definition digit_char :: "nat \<Rightarrow> char" where
  "digit_char n = char_of (48 + n)"

lemma of_char_digit_char: "n < 10 \<Longrightarrow> of_char (digit_char n) = 48 + n"
  by (simp add: digit_char_def)

lemma digit_char_facts [simp]:
  assumes "n < 10"
  shows "is_digit (digit_char n)" and "digit_val (digit_char n) = n"
  using assms by (auto simp: is_digit_def digit_val_def of_char_digit_char)

section \<open>Maps\<close>

text \<open>A \<^verbatim>\<open>QMap\<close> is the list of its entries in key order.\<close>

text \<open>\<^verbatim>\<open>QMap::insert\<close>: in key order, an existing value is replaced.\<close>

fun qmap_insert :: "'k::linorder \<Rightarrow> 'v \<Rightarrow> ('k \<times> 'v) list \<Rightarrow> ('k \<times> 'v) list" where
  "qmap_insert k v [] = [(k, v)]"
| "qmap_insert k v ((k', v') # m) =
     (if k < k' then (k, v) # (k', v') # m
      else if k = k' then (k, v) # m else (k', v') # qmap_insert k v m)"

lemma qmap_insert_last: "\<forall>k' \<in> fst ` set m. k' < k \<Longrightarrow> qmap_insert k v m = m @ [(k, v)]"
  by (induction m) auto

lemma map_of_qmap_insert [simp]: "map_of (qmap_insert k v m) = (map_of m)(k \<mapsto> v)"
  by (induction m) (auto simp: fun_eq_iff)

lemma fst_qmap_insert [simp]: "fst ` set (qmap_insert k v m) = insert k (fst ` set m)"
proof (induction m)
  case (Cons kv m)
  then show ?case by (cases kv) (simp add: insert_commute)
qed simp

lemma sorted_qmap_insert: "sorted_wrt (<) (map fst m) \<Longrightarrow> sorted_wrt (<) (map fst (qmap_insert k v m))"
proof (induction m)
  case (Cons kv m)
  obtain k' v' where kv: "kv = (k', v')" by force
  have "\<forall>x \<in> fst ` set (qmap_insert k v m). k' < x" if "k' < k"
    unfolding fst_qmap_insert using Cons.prems that by (auto simp: kv)
  with Cons show ?case by (auto simp: kv)
qed simp

text \<open>Inserting the entries of a map in key order rebuilds the map.\<close>

lemma fold_qmap_insert_append:
  "sorted_wrt (<) (map fst (m @ kvs)) \<Longrightarrow> fold (\<lambda>(k, v). qmap_insert k v) kvs m = m @ kvs"
proof (induction kvs arbitrary: m)
  case (Cons kv kvs)
  have "qmap_insert (fst kv) (snd kv) m = m @ [kv]"
    using Cons.prems qmap_insert_last [of m "fst kv" "snd kv"] by (auto simp: sorted_wrt_append)
  then show ?case using Cons.IH [of "m @ [kv]"] Cons.prems by (simp add: case_prod_beta)
qed simp

section \<open>Text in byte arrays\<close>

definition ascii :: "string \<Rightarrow> bytes" where
  "ascii s = map (\<lambda>c. of_nat (of_char c)) s"

lemma ascii_inject [simp]: "ascii a = ascii b \<longleftrightarrow> a = b"
proof -
  have "inj (\<lambda>c :: char. of_nat (of_char c) :: byte)"
  proof (rule injI)
    fix c d :: char
    assume "(of_nat (of_char c) :: byte) = of_nat (of_char d)"
    then have "unat (of_nat (of_char c) :: byte) = unat (of_nat (of_char d) :: byte)" by simp
    then show "c = d" by (simp add: unat_of_nat)
  qed
  then show ?thesis by (simp add: ascii_def inj_map_eq_map)
qed

text \<open>What precedes and what follows the first occurrence of a value.\<close>

fun split_first :: "'a \<Rightarrow> 'a list \<Rightarrow> ('a list \<times> 'a list) option" where
  "split_first c [] = None"
| "split_first c (x # xs) = (if x = c then Some ([], xs) else map_option (apfst (Cons x)) (split_first c xs))"

lemma split_first_append: "c \<notin> set xs \<Longrightarrow> split_first c (xs @ c # ys) = Some (xs, ys)"
  by (induction xs) auto

lemma split_first_None: "split_first c xs = None \<longleftrightarrow> c \<notin> set xs"
  by (induction xs) auto

lemma split_first_Some: "split_first c xs = Some (a, b) \<Longrightarrow> xs = a @ c # b"
  by (induction xs arbitrary: a) (auto split: if_splits)

end
