(* ===== verification/Utils.thy ===== *)
theory Utils
  imports Prelude
begin

text \<open>
  The functions of \<^verbatim>\<open>src/base/QXmppUtils.cpp\<close>: taking a JID apart, the timezone
  offsets of XEP-0082, HMAC over a hash function of
  \<^verbatim>\<open>QCryptographicHash\<close> (a parameter here) and the bounded random integers.  HMAC
  is shown to be that of RFC 2104 on the first block of the key, the JID and timezone
  functions to invert each other, the random integers to be in range and when they are not.
\<close>

unbundle bit_operations_syntax

section \<open>JIDs\<close>

definition jidToBareJid :: "qstring \<Rightarrow> qstring" where
  "jidToBareJid jid = (case index_of CHR ''/'' jid of None \<Rightarrow> jid | Some pos \<Rightarrow> take pos jid)"

definition jidToResource :: "qstring \<Rightarrow> qstring" where
  "jidToResource jid = (case index_of CHR ''/'' jid of None \<Rightarrow> [] | Some pos \<Rightarrow> drop (pos + 1) jid)"

definition jidToUser :: "qstring \<Rightarrow> qstring" where
  "jidToUser jid = (case index_of CHR ''@'' jid of None \<Rightarrow> [] | Some pos \<Rightarrow> take pos jid)"

definition jidToDomain :: "qstring \<Rightarrow> qstring" where
  "jidToDomain jid = last (split_on CHR ''@'' (jidToBareJid jid))"

section \<open>Timezone offsets\<close>

datatype tz_match = TzZulu | TzOffset char nat nat

text \<open>The regular expression \<^verbatim>\<open>(Z|([+-])([0-9]{2}):([0-9]{2}))\<close> at one position.\<close>

fun tz_at :: "qstring \<Rightarrow> tz_match option" where
  "tz_at (s # h1 # h2 # c # m1 # m2 # r) =
     (if s = CHR ''Z'' then Some TzZulu
      else if (s = CHR ''+'' \<or> s = CHR ''-'') \<and> is_digit h1 \<and> is_digit h2 \<and> c = CHR '':'' \<and>
              is_digit m1 \<and> is_digit m2
           then Some (TzOffset s (10 * digit_val h1 + digit_val h2) (10 * digit_val m1 + digit_val m2))
           else None)"
| "tz_at (s # r) = (if s = CHR ''Z'' then Some TzZulu else None)"
| "tz_at [] = None"

text \<open>\<^verbatim>\<open>QRegularExpression::match\<close> is not anchored: the leftmost match counts.\<close>

fun tz_search :: "qstring \<Rightarrow> tz_match option" where
  "tz_search [] = None"
| "tz_search (c # r) = (case tz_at (c # r) of Some m \<Rightarrow> Some m | None \<Rightarrow> tz_search r)"

definition timezoneOffsetFromString :: "qstring \<Rightarrow> int" where
  "timezoneOffsetFromString str =
     (case tz_search str of
        None \<Rightarrow> 0
      | Some TzZulu \<Rightarrow> 0
      | Some (TzOffset s h m) \<Rightarrow>
          (let offset = int h * 3600 + int m * 60
           in if s = CHR ''-'' then - offset else offset))"

definition two_digits :: "nat \<Rightarrow> qstring" where
  "two_digits n = [digit_char (n div 10), digit_char (n mod 10)]"

text \<open>\<^verbatim>\<open>QTime(0,0,0).addSecs\<close> wraps at midnight; \<^verbatim>\<open>hh:mm\<close> prints two digits each.\<close>

definition timezoneOffsetToString :: "int \<Rightarrow> qstring" where
  "timezoneOffsetToString secs =
     (if secs = 0 then ''Z''
      else let t = nat \<bar>secs\<bar> mod 86400
           in (if secs < 0 then ''-'' else ''+'') @ two_digits (t div 3600) @ '':'' @
              two_digits (t div 60 mod 60))"

section \<open>HMAC\<close>

text \<open>
  \<^verbatim>\<open>QByteArray(B - key.size(), 0)\<close> is empty when the size is negative, as the
  subtraction on \<^typ>\<open>nat\<close> is here.
\<close>

definition generateHmac :: "(bytes \<Rightarrow> bytes) \<Rightarrow> bytes \<Rightarrow> bytes \<Rightarrow> bytes" where
  "generateHmac hash key msg =
     (let kpad = key @ replicate (64 - length key) 0;
          ba = map (\<lambda>i. kpad ! i XOR 0x5c) [0..<64];
          tmp = map (\<lambda>i. kpad ! i XOR 0x36) [0..<64]
      in hash (ba @ hash (tmp @ msg)))"

text \<open>\<^verbatim>\<open>QCryptographicHash\<close> with the algorithm Sha1 resp. Md5 is the parameter.\<close>

definition generateHmacSha1 :: "(bytes \<Rightarrow> bytes) \<Rightarrow> bytes \<Rightarrow> bytes \<Rightarrow> bytes" where
  "generateHmacSha1 sha1 key msg = generateHmac sha1 key msg"

definition generateHmacMd5 :: "(bytes \<Rightarrow> bytes) \<Rightarrow> bytes \<Rightarrow> bytes \<Rightarrow> bytes" where
  "generateHmacMd5 md5 key msg = generateHmac md5 key msg"

section \<open>Random integers\<close>

text \<open>
  \<^verbatim>\<open>RAND_MAX\<close> is a parameter, and so is the stream of 32-bit values that
  \<^verbatim>\<open>QRandomGenerator::global()->generate()\<close> delivers.  One draw is the unsigned quotient
  stored into an \<^verbatim>\<open>int\<close>; the loop draws again while \<^verbatim>\<open>N <= val\<close>.  The result carries the
  index of the next value of the stream, \<^term>\<open>None\<close> means that the loop does not end.
\<close>

definition random_draw :: "int \<Rightarrow> int \<Rightarrow> 32 word \<Rightarrow> int" where
  "random_draw RAND_MAX N g = sint (g div word_of_int (RAND_MAX div N))"

partial_function (option) generateRandomInteger ::
    "int \<Rightarrow> (nat \<Rightarrow> 32 word) \<Rightarrow> int \<Rightarrow> nat \<Rightarrow> (int \<times> nat) option" where
  "generateRandomInteger RAND_MAX gen N i =
     (let val = random_draw RAND_MAX N (gen i)
      in if N \<le> val then generateRandomInteger RAND_MAX gen N (Suc i) else Some (val, Suc i))"

section \<open>Lemmas: JIDs\<close>

lemma jidToBareJid_no_slash: "CHR ''/'' \<notin> set (jidToBareJid jid)"
  using index_of_Some [of "CHR ''/''" jid]
  by (auto simp: jidToBareJid_def index_of_None split: option.splits)

lemma jidToBareJid_idem [simp]: "jidToBareJid (jidToBareJid jid) = jidToBareJid jid"
  using jidToBareJid_no_slash [of jid]
  by (simp add: jidToBareJid_def [of "jidToBareJid jid"] index_of_None [THEN iffD2])

lemma jid_reassemble:
  "CHR ''/'' \<in> set jid \<Longrightarrow> jid = jidToBareJid jid @ CHR ''/'' # jidToResource jid"
  using index_of_split [of "CHR ''/''" jid]
  by (cases "index_of CHR ''/'' jid") (auto simp: jidToBareJid_def jidToResource_def index_of_None)

lemma jidToBareJid_full [simp]:
  "CHR ''/'' \<notin> set bare \<Longrightarrow> jidToBareJid (bare @ CHR ''/'' # res) = bare"
  by (simp add: jidToBareJid_def qstring_simps)

lemma jidToBareJid_bare [simp]: "CHR ''/'' \<notin> set bare \<Longrightarrow> jidToBareJid bare = bare"
  by (simp add: jidToBareJid_def index_of_None [THEN iffD2])

lemma jidToResource_full [simp]:
  "CHR ''/'' \<notin> set bare \<Longrightarrow> jidToResource (bare @ CHR ''/'' # res) = res"
  by (simp add: jidToResource_def qstring_simps)

lemma jidToDomain_bare [simp]: "jidToDomain (jidToBareJid jid) = jidToDomain jid"
  by (simp add: jidToDomain_def)

text \<open>
  The accessors invert the composition of a JID: for a local part without \<^verbatim>\<open>@\<close> and
  \<^verbatim>\<open>/\<close>, a domain without \<^verbatim>\<open>@\<close> and \<^verbatim>\<open>/\<close> and any resource (which may contain both
  characters), user, domain, resource and bare JID are read back exactly.
\<close>

lemma jid_parts_roundtrip:
  assumes "set user \<inter> {CHR ''@'', CHR ''/''} = {}" and "set domain \<inter> {CHR ''@'', CHR ''/''} = {}"
  shows "jidToUser (user @ ''@'' @ domain @ ''/'' @ res) = user \<and>
    jidToDomain (user @ ''@'' @ domain @ ''/'' @ res) = domain \<and>
    jidToResource (user @ ''@'' @ domain @ ''/'' @ res) = res \<and>
    jidToBareJid (user @ ''@'' @ domain @ ''/'' @ res) = user @ ''@'' @ domain"
proof -
  let ?bare = "user @ CHR ''@'' # domain"
  have slash: "CHR ''/'' \<notin> set ?bare" and at: "CHR ''@'' \<notin> set user" "CHR ''@'' \<notin> set domain"
    using assms by auto
  have jid: "user @ ''@'' @ domain @ ''/'' @ res = ?bare @ CHR ''/'' # res" by simp
  have bare: "jidToBareJid (user @ ''@'' @ domain @ ''/'' @ res) = ?bare"
    unfolding jid by (rule jidToBareJid_full [OF slash])
  have "jidToUser (user @ ''@'' @ domain @ ''/'' @ res) = user"
    using at by (simp add: jidToUser_def qstring_simps)
  moreover have "jidToResource (user @ ''@'' @ domain @ ''/'' @ res) = res"
    unfolding jid by (rule jidToResource_full [OF slash])
  moreover have "jidToDomain (user @ ''@'' @ domain @ ''/'' @ res) = domain"
    unfolding jidToDomain_def bare using at by (simp add: qstring_simps)
  ultimately show ?thesis using bare by simp
qed

lemma jid_parts_roundtrip_witness:
  "jidToUser ''romeo@montague.lit/orch@rd/1'' = ''romeo'' \<and>
   jidToDomain ''romeo@montague.lit/orch@rd/1'' = ''montague.lit'' \<and>
   jidToResource ''romeo@montague.lit/orch@rd/1'' = ''orch@rd/1'' \<and>
   jidToBareJid ''romeo@montague.lit/orch@rd/1'' = ''romeo@montague.lit''"
  using jid_parts_roundtrip [of "''romeo''" "''montague.lit''" "''orch@rd/1''"] by simp

section \<open>Lemmas: timezone offsets\<close>

lemma tz_search_printed:
  assumes "s = CHR ''+'' \<or> s = CHR ''-''" and "h < 100" and "m < 100"
  shows "tz_search (s # two_digits h @ '':'' @ two_digits m) = Some (TzOffset s h m)"
proof -
  have "h div 10 < 10" and "m div 10 < 10"
    using assms(2,3) by (simp_all add: div_less_iff_less_mult)
  then have "tz_at (s # two_digits h @ '':'' @ two_digits m) = Some (TzOffset s h m)"
    using assms(1) by (auto simp: two_digits_def)
  then show ?thesis by simp
qed

text \<open>
  Printing a timezone offset and reading it back gives the offset with its seconds cut
  off, reduced modulo a day; it is exact for every offset of whole minutes below 24 hours.
\<close>

lemma timezone_roundtrip:
  "timezoneOffsetFromString (timezoneOffsetToString secs) = sgn secs * (\<bar>secs\<bar> mod 86400 div 60 * 60)"
proof (cases "secs = 0")
  case True
  then show ?thesis
    by (simp add: timezoneOffsetToString_def timezoneOffsetFromString_def)
next
  case False
  define t where "t = nat \<bar>secs\<bar> mod 86400"
  have t: "int t = \<bar>secs\<bar> mod 86400" by (simp add: t_def zmod_int)
  have t': "int (t div 60 * 60) = \<bar>secs\<bar> mod 86400 div 60 * 60"
    by (simp only: of_nat_mult zdiv_int t) simp
  have match: "tz_search (s # two_digits (t div 3600) @ '':'' @ two_digits (t div 60 mod 60)) =
      Some (TzOffset s (t div 3600) (t div 60 mod 60))" if "s = CHR ''+'' \<or> s = CHR ''-''" for s
    using that by (rule tz_search_printed) (simp_all add: t_def div_less_iff_less_mult)
  have str: "timezoneOffsetToString secs = (if secs < 0 then CHR ''-'' else CHR ''+'') #
      two_digits (t div 3600) @ '':'' @ two_digits (t div 60 mod 60)"
    using False by (simp add: timezoneOffsetToString_def t_def Let_def)
  obtain a b where ab: "a = t div 3600" "b = t div 60 mod 60" by simp
  have "a = t div 60 div 60" by (simp add: ab div_mult2_eq [symmetric])
  then have "a * 60 + b = t div 60" by (simp only: ab(2) div_mult_mod_eq)
  then have "a * 3600 + b * 60 = t div 60 * 60" by linarith
  then have sum: "int a * 3600 + int b * 60 = int (t div 60 * 60)"
    by linarith
  have "timezoneOffsetFromString (timezoneOffsetToString secs) =
      (if secs < 0 then - int (t div 60 * 60) else int (t div 60 * 60))"
    unfolding timezoneOffsetFromString_def str sum [symmetric] ab by (subst match) (simp_all add: Let_def)
  then show ?thesis
    unfolding t' using False by (cases "secs < 0") (simp_all only: sgn_neg sgn_pos linorder_neq_iff
      if_True if_False mult_1 mult_minus1 simp_thms)
qed

section \<open>Lemmas: HMAC\<close>

text \<open>HMAC as RFC 2104 defines it for a hash with 64-byte blocks: longer keys are hashed first.\<close>

definition rfc2104 :: "(bytes \<Rightarrow> bytes) \<Rightarrow> bytes \<Rightarrow> bytes \<Rightarrow> bytes" where
  "rfc2104 H key msg =
     (let k = (if 64 < length key then H key else key);
          kpad = k @ replicate (64 - length k) 0
      in H (map (\<lambda>b. b XOR 0x5c) kpad @ H (map (\<lambda>b. b XOR 0x36) kpad @ msg)))"

lemma map_nth_prefix: "length xs = n \<Longrightarrow> map (\<lambda>i. f ((xs @ ys) ! i)) [0..<n] = map f xs"
  by (rule nth_equalityI) (simp_all add: nth_append)

lemma generateHmac_short:
  assumes "length key \<le> 64"
  shows "generateHmac H key msg = rfc2104 H key msg"
proof -
  let ?kpad = "key @ replicate (64 - length key) 0"
  have pad: "map (\<lambda>i. ?kpad ! i XOR c) [0..<64] = map (\<lambda>b. b XOR c) ?kpad" for c
    using map_nth_prefix [of ?kpad 64 "\<lambda>b. b XOR c" "[]"] assms by simp
  show ?thesis
    using assms unfolding generateHmac_def rfc2104_def Let_def pad by simp
qed

lemma generateHmac_long:
  assumes "64 \<le> length key"
  shows "generateHmac H key msg = generateHmac H (take 64 key) msg"
proof -
  have cut: "map (\<lambda>i. key ! i XOR c) [0..<64] = map (\<lambda>i. take 64 key ! i XOR c) [0..<64]" for c
    by simp
  from assms have "key @ replicate (64 - length key) 0 = key"
    and "take 64 key @ replicate (64 - length (take 64 key)) 0 = take 64 key" by simp_all
  then show ?thesis
    unfolding generateHmac_def Let_def by (simp only: cut)
qed

text \<open>
  For keys of at most 64 bytes the source computes the HMAC of RFC 2104 over the given
  hash; a longer key is cut to its first 64 bytes, where RFC 2104 hashes the key.
\<close>

lemma generateHmac_characterisation:
  "generateHmac H key msg = rfc2104 H (take 64 key) msg"
proof (cases "length key \<le> 64")
  case True
  then show ?thesis by (simp add: generateHmac_short)
next
  case False
  then show ?thesis
    using generateHmac_long [of key H msg] generateHmac_short [of "take 64 key" H msg] by simp
qed

section \<open>Lemmas: random integers\<close>

lemma random_draw_small:
  assumes "1 \<le> N" and "2 * N \<le> RAND_MAX" and "RAND_MAX < 2 ^ 31"
  shows "random_draw RAND_MAX N g = uint g div (RAND_MAX div N)"
proof -
  let ?q = "RAND_MAX div N"
  have q2: "2 \<le> ?q"
    using zdiv_mono1 [OF assms(2), of N] assms(1) by simp
  have "?q \<le> RAND_MAX div 1" using assms by (intro zdiv_mono2) auto
  then have uq: "uint (word_of_int ?q :: 32 word) = ?q"
    using q2 assms(3) by (simp add: uint_word_of_int)
  have "uint g < 2 ^ 32" using uint_lt2p [of g] by simp
  have "uint g div ?q \<le> uint g div 2" using q2 by (intro zdiv_mono2) auto
  then have "uint g div ?q < 2 ^ 31" using \<open>uint g < 2 ^ 32\<close> by auto
  moreover have "0 \<le> uint g div ?q" using q2 by (simp add: pos_imp_zdiv_nonneg_iff)
  moreover have "uint (g div word_of_int ?q) = uint g div ?q" by (simp add: uint_div uq)
  ultimately show ?thesis
    by (simp add: random_draw_def sint_uint signed_take_bit_int_eq_self)
qed

lemma random_draw_nonneg:
  assumes "1 \<le> N" and "2 * N \<le> RAND_MAX" and "RAND_MAX < 2 ^ 31"
  shows "0 \<le> random_draw RAND_MAX N g"
proof -
  have "0 \<le> RAND_MAX div N" using assms by (intro pos_imp_zdiv_nonneg_iff [THEN iffD2]) auto
  then show ?thesis
    unfolding random_draw_small [OF assms] by (cases "RAND_MAX div N = 0") (auto simp: pos_imp_zdiv_nonneg_iff)
qed

text \<open>
  \<^verbatim>\<open>generateRandomInteger\<close> keeps its contract for every \<open>N\<close> up to half of
  \<^verbatim>\<open>RAND_MAX\<close>: as soon as the generator delivers a value below
  \<^verbatim>\<open>N * (RAND_MAX / N)\<close> the loop has ended, with a result between 0 and \<open>N - 1\<close>.
\<close>

lemma generateRandomInteger_in_range:
  assumes "1 \<le> N" and "2 * N \<le> RAND_MAX" and "RAND_MAX < 2 ^ 31"
    and "i \<le> k" and "uint (gen k) < N * (RAND_MAX div N)"
  shows "\<exists>v j. generateRandomInteger RAND_MAX gen N i = Some (v, j) \<and> 0 \<le> v \<and> v < N \<and> i < j \<and> j \<le> Suc k"
  using assms(4)
proof (induction "k - i" arbitrary: i)
  case 0
  have "0 < RAND_MAX div N" using assms by (simp add: pos_imp_zdiv_pos_iff)
  moreover have "uint (gen k) div (RAND_MAX div N) * (RAND_MAX div N) \<le> uint (gen k)"
    by (metis div_mult_mod_eq le_add_same_cancel1 calculation pos_mod_sign)
  ultimately have "random_draw RAND_MAX N (gen k) < N"
    unfolding random_draw_small [OF assms(1-3)] using assms(5)
    by (meson mult_less_cancel_right_pos order_le_less_trans)
  then show ?case
    using 0 random_draw_nonneg [OF assms(1-3)]
    by (subst generateRandomInteger.simps) (auto simp: Let_def)
next
  case (Suc d)
  then have "d = k - Suc i" and "Suc i \<le> k" by arith+
  from Suc.hyps(1) [OF this] obtain v j
    where "generateRandomInteger RAND_MAX gen N (Suc i) = Some (v, j)"
      and "0 \<le> v" "v < N" "i < j" "j \<le> Suc k"
    by auto
  then show ?case
    using random_draw_nonneg [OF assms(1-3), of "gen i"] Suc.prems
    by (subst generateRandomInteger.simps) (auto simp: Let_def)
qed

lemma generateRandomInteger_in_range_witness:
  "\<exists>v j. generateRandomInteger 2147483647 (\<lambda>i. word_of_nat (77 + i)) 256 0 = Some (v, j) \<and>
     0 \<le> v \<and> v < 256"
  using generateRandomInteger_in_range [of 256 2147483647 0 0 "\<lambda>i. word_of_nat (77 + i)"] by auto

text \<open>
  Above half of \<^verbatim>\<open>RAND_MAX\<close> the contract is broken although the assertion
  \<^verbatim>\<open>N <= RAND_MAX\<close> holds: the quotient no longer fits an \<^verbatim>\<open>int\<close> and a negative number
  is returned.
\<close>

lemma generateRandomInteger_negative:
  "generateRandomInteger 2147483647 (\<lambda>_. 0xffffffff) (2 ^ 30) 0 = Some (-1, 1)"
  by (subst generateRandomInteger.simps) (simp add: random_draw_def)

end
