(* ===== verification/Crc32.thy ===== *)
theory Crc32
  imports Prelude
begin

text \<open>
  \<^verbatim>\<open>QXmppUtils::generateCrc32\<close> and its table of 256 entries, and the proof that they
  compute the bit-serial CRC-32.  The table is shown to be the linear span of its entries at
  the powers of two, which are eight steps of the bit-serial register each.
\<close>

unbundle bit_operations_syntax

section \<open>CRC-32\<close>

definition crctable :: "32 word list" where
  "crctable =
    [
     0x00000000, 0x77073096, 0xEE0E612C, 0x990951BA,
     0x076DC419, 0x706AF48F, 0xE963A535, 0x9E6495A3,
     0x0EDB8832, 0x79DCB8A4, 0xE0D5E91E, 0x97D2D988,
     0x09B64C2B, 0x7EB17CBD, 0xE7B82D07, 0x90BF1D91,
     0x1DB71064, 0x6AB020F2, 0xF3B97148, 0x84BE41DE,
     0x1ADAD47D, 0x6DDDE4EB, 0xF4D4B551, 0x83D385C7,
     0x136C9856, 0x646BA8C0, 0xFD62F97A, 0x8A65C9EC,
     0x14015C4F, 0x63066CD9, 0xFA0F3D63, 0x8D080DF5,
     0x3B6E20C8, 0x4C69105E, 0xD56041E4, 0xA2677172,
     0x3C03E4D1, 0x4B04D447, 0xD20D85FD, 0xA50AB56B,
     0x35B5A8FA, 0x42B2986C, 0xDBBBC9D6, 0xACBCF940,
     0x32D86CE3, 0x45DF5C75, 0xDCD60DCF, 0xABD13D59,
     0x26D930AC, 0x51DE003A, 0xC8D75180, 0xBFD06116,
     0x21B4F4B5, 0x56B3C423, 0xCFBA9599, 0xB8BDA50F,
     0x2802B89E, 0x5F058808, 0xC60CD9B2, 0xB10BE924,
     0x2F6F7C87, 0x58684C11, 0xC1611DAB, 0xB6662D3D,
     0x76DC4190, 0x01DB7106, 0x98D220BC, 0xEFD5102A,
     0x71B18589, 0x06B6B51F, 0x9FBFE4A5, 0xE8B8D433,
     0x7807C9A2, 0x0F00F934, 0x9609A88E, 0xE10E9818,
     0x7F6A0DBB, 0x086D3D2D, 0x91646C97, 0xE6635C01,
     0x6B6B51F4, 0x1C6C6162, 0x856530D8, 0xF262004E,
     0x6C0695ED, 0x1B01A57B, 0x8208F4C1, 0xF50FC457,
     0x65B0D9C6, 0x12B7E950, 0x8BBEB8EA, 0xFCB9887C,
     0x62DD1DDF, 0x15DA2D49, 0x8CD37CF3, 0xFBD44C65,
     0x4DB26158, 0x3AB551CE, 0xA3BC0074, 0xD4BB30E2,
     0x4ADFA541, 0x3DD895D7, 0xA4D1C46D, 0xD3D6F4FB,
     0x4369E96A, 0x346ED9FC, 0xAD678846, 0xDA60B8D0,
     0x44042D73, 0x33031DE5, 0xAA0A4C5F, 0xDD0D7CC9,
     0x5005713C, 0x270241AA, 0xBE0B1010, 0xC90C2086,
     0x5768B525, 0x206F85B3, 0xB966D409, 0xCE61E49F,
     0x5EDEF90E, 0x29D9C998, 0xB0D09822, 0xC7D7A8B4,
     0x59B33D17, 0x2EB40D81, 0xB7BD5C3B, 0xC0BA6CAD,
     0xEDB88320, 0x9ABFB3B6, 0x03B6E20C, 0x74B1D29A,
     0xEAD54739, 0x9DD277AF, 0x04DB2615, 0x73DC1683,
     0xE3630B12, 0x94643B84, 0x0D6D6A3E, 0x7A6A5AA8,
     0xE40ECF0B, 0x9309FF9D, 0x0A00AE27, 0x7D079EB1,
     0xF00F9344, 0x8708A3D2, 0x1E01F268, 0x6906C2FE,
     0xF762575D, 0x806567CB, 0x196C3671, 0x6E6B06E7,
     0xFED41B76, 0x89D32BE0, 0x10DA7A5A, 0x67DD4ACC,
     0xF9B9DF6F, 0x8EBEEFF9, 0x17B7BE43, 0x60B08ED5,
     0xD6D6A3E8, 0xA1D1937E, 0x38D8C2C4, 0x4FDFF252,
     0xD1BB67F1, 0xA6BC5767, 0x3FB506DD, 0x48B2364B,
     0xD80D2BDA, 0xAF0A1B4C, 0x36034AF6, 0x41047A60,
     0xDF60EFC3, 0xA867DF55, 0x316E8EEF, 0x4669BE79,
     0xCB61B38C, 0xBC66831A, 0x256FD2A0, 0x5268E236,
     0xCC0C7795, 0xBB0B4703, 0x220216B9, 0x5505262F,
     0xC5BA3BBE, 0xB2BD0B28, 0x2BB45A92, 0x5CB36A04,
     0xC2D7FFA7, 0xB5D0CF31, 0x2CD99E8B, 0x5BDEAE1D,
     0x9B64C2B0, 0xEC63F226, 0x756AA39C, 0x026D930A,
     0x9C0906A9, 0xEB0E363F, 0x72076785, 0x05005713,
     0x95BF4A82, 0xE2B87A14, 0x7BB12BAE, 0x0CB61B38,
     0x92D28E9B, 0xE5D5BE0D, 0x7CDCEFB7, 0x0BDBDF21,
     0x86D3D2D4, 0xF1D4E242, 0x68DDB3F8, 0x1FDA836E,
     0x81BE16CD, 0xF6B9265B, 0x6FB077E1, 0x18B74777,
     0x88085AE6, 0xFF0F6A70, 0x66063BCA, 0x11010B5C,
     0x8F659EFF, 0xF862AE69, 0x616BFFD3, 0x166CCF45,
     0xA00AE278, 0xD70DD2EE, 0x4E048354, 0x3903B3C2,
     0xA7672661, 0xD06016F7, 0x4969474D, 0x3E6E77DB,
     0xAED16A4A, 0xD9D65ADC, 0x40DF0B66, 0x37D83BF0,
     0xA9BCAE53, 0xDEBB9EC5, 0x47B2CF7F, 0x30B5FFE9,
     0xBDBDF21C, 0xCABAC28A, 0x53B39330, 0x24B4A3A6,
     0xBAD03605, 0xCDD70693, 0x54DE5729, 0x23D967BF,
     0xB3667A2E, 0xC4614AB8, 0x5D681B02, 0x2A6F2B94,
     0xB40BBE37, 0xC30C8EA1, 0x5A05DF1B, 0x2D02EF8D]"

definition generateCrc32 :: "bytes \<Rightarrow> 32 word" where
  "generateCrc32 inp =
     foldl (\<lambda>result n. drop_bit 8 result XOR crctable ! unat ((result AND 0xff) XOR ucast n))
       0xffffffff inp XOR 0xffffffff"

section \<open>Lemmas: CRC-32\<close>

text \<open>The bit-serial definition of the reflected CRC-32.\<close>

definition crc_bit :: "32 word \<Rightarrow> 32 word" where
  "crc_bit r = (if bit r 0 then drop_bit 1 r XOR 0xEDB88320 else drop_bit 1 r)"

definition crc_serial :: "bytes \<Rightarrow> 32 word" where
  "crc_serial inp = foldl (\<lambda>r n. (crc_bit ^^ 8) (r XOR ucast n)) 0xffffffff inp XOR 0xffffffff"

lemma crc_bit_xor: "crc_bit (a XOR b) = crc_bit a XOR crc_bit b"
proof -
  have "drop_bit 1 (a XOR b) = drop_bit 1 a XOR drop_bit 1 b" by (rule bit_word_eqI) (simp add: bit_simps)
  then show ?thesis
    by (auto simp: crc_bit_def bit_xor_iff ac_simps xor.left_commute)
qed

lemma crc_bits_xor: "(crc_bit ^^ k) (a XOR b) = (crc_bit ^^ k) a XOR (crc_bit ^^ k) b"
  by (induction k) (simp_all add: crc_bit_xor)

lemma low_byte_mask: "(0xff :: 32 word) = mask 8"
  by (simp add: mask_eq_exp_minus_1)

lemma crc_bits_high: "k \<le> 8 \<Longrightarrow> (crc_bit ^^ k) (r AND NOT 0xff) = drop_bit k (r AND NOT 0xff)"
proof (induction k)
  case (Suc k)
  have "\<not> bit (drop_bit k (r AND NOT 0xff :: 32 word)) 0"
    using Suc.prems by (simp add: bit_simps low_byte_mask)
  then show ?case
    using Suc by (simp add: crc_bit_def)
qed simp

definition xor_span :: "32 word list \<Rightarrow> 32 word list" where
  "xor_span bs = foldl (\<lambda>t b. t @ map (\<lambda>x. x XOR b) t) [0] bs"

lemma crctable_span:
  "crctable = xor_span [0x77073096, 0xEE0E612C, 0x076DC419, 0x0EDB8832, 0x1DB71064, 0x3B6E20C8,
     0x76DC4190, 0xEDB88320]"
  unfolding xor_span_def crctable_def
  by (simp only: foldl.simps list.map append.simps xor_self_eq) simp

lemma crc_bits_powers:
  "map (\<lambda>k. (crc_bit ^^ 8) (2 ^ k)) [0..<8] = [0x77073096, 0xEE0E612C, 0x076DC419, 0x0EDB8832, 0x1DB71064, 0x3B6E20C8,
     0x76DC4190, 0xEDB88320]"
  by (simp add: upt_rec numeral_eq_Suc) (simp add: crc_bit_def)

lemma word_of_nat_high_bit:
  assumes "i < 2 ^ k" and "k < 32"
  shows "(word_of_nat (i + 2 ^ k) :: 32 word) = word_of_nat i XOR 2 ^ k"
proof -
  have "(word_of_nat i :: 32 word) AND 2 ^ k = 0"
  proof (rule bit_word_eqI)
    fix n
    have "\<not> bit i k" using assms(1) by (simp add: bit_iff_odd)
    then show "bit ((word_of_nat i :: 32 word) AND 2 ^ k) n = bit (0 :: 32 word) n"
      by (auto simp: bit_simps)
  qed
  then have "(word_of_nat i :: 32 word) + 2 ^ k = word_of_nat i XOR 2 ^ k"
    by (rule disjunctive_add_eq_xor)
  then show ?thesis by simp
qed

lemma xor_span_linear:
  fixes f :: "32 word \<Rightarrow> 32 word"
  assumes "\<And>a b. f (a XOR b) = f a XOR f b" and "k \<le> 32"
  shows "xor_span (map (\<lambda>j. f (2 ^ j)) [0..<k]) = map (\<lambda>i. f (word_of_nat i)) [0..<2 ^ k]"
  using assms(2)
proof (induction k)
  case 0
  have "f 0 = 0" using assms(1) [of 0 0] by simp
  then show ?case by (simp add: xor_span_def)
next
  case (Suc k)
  have upt: "[0..<2 ^ Suc k] = [0..<2 ^ k] @ map (\<lambda>i. i + 2 ^ k) [0..<2 ^ k]"
    by (simp only: map_add_upt power_Suc mult_2) (simp add: upt_add_eq_append [of 0 "2 ^ k" "2 ^ k", simplified])
  have "f (word_of_nat (i + 2 ^ k)) = f (word_of_nat i) XOR f (2 ^ k)" if "i < 2 ^ k" for i
    using word_of_nat_high_bit [OF that] Suc.prems assms(1) by (metis Suc_le_lessD)
  then have "map (\<lambda>i. f (word_of_nat (i + 2 ^ k))) [0..<2 ^ k] =
      map (\<lambda>x. x XOR f (2 ^ k)) (map (\<lambda>i. f (word_of_nat i)) [0..<2 ^ k])"
    by (simp only: map_map comp_def) (auto intro: map_cong)
  moreover have "xor_span (map (\<lambda>j. f (2 ^ j)) [0..<Suc k]) =
      (let t = xor_span (map (\<lambda>j. f (2 ^ j)) [0..<k]) in t @ map (\<lambda>x. x XOR f (2 ^ k)) t)"
    by (simp add: xor_span_def Let_def)
  ultimately show ?case
    using Suc.IH Suc.prems by (simp only: upt map_append map_map comp_def Let_def Suc_leD)
qed
lemma crctable_nth: "i < 256 \<Longrightarrow> crctable ! i = (crc_bit ^^ 8) (word_of_nat i)"
proof -
  assume "i < 256"
  have "crctable = map (\<lambda>i. (crc_bit ^^ 8) (word_of_nat i)) [0..<2 ^ 8]"
    using xor_span_linear [of "crc_bit ^^ 8" 8, OF crc_bits_xor] crc_bits_powers crctable_span by simp
  then have "crctable ! i = map (\<lambda>i. (crc_bit ^^ 8) (word_of_nat i)) [0..<2 ^ 8] ! i"
    by (rule arg_cong)
  also have "\<dots> = (crc_bit ^^ 8) (word_of_nat ([0..<2 ^ 8] ! i))"
    using \<open>i < 256\<close> by (intro nth_map) simp
  also have "[0..<2 ^ 8] ! i = i"
    using \<open>i < 256\<close> nth_upt [of 0 i "2 ^ 8"] by simp
  finally show ?thesis .
qed

lemma crc_byte_step:
  fixes n :: byte
  shows "(crc_bit ^^ 8) (r XOR ucast n) = drop_bit 8 r XOR crctable ! unat ((r AND 0xff) XOR ucast n)"
proof -
  let ?i = "(r AND 0xff) XOR ucast (n :: byte) :: 32 word"
  have r: "r XOR ucast n = (r AND NOT 0xff) XOR ?i"
    by (rule bit_word_eqI) (auto simp: bit_simps)
  have "?i = ?i AND 0xff"
    by (rule bit_word_eqI) (auto simp: bit_simps low_byte_mask dest: bit_imp_le_length)
  then have "?i \<le> 0xff" by (metis word_and_le1)
  then have "unat ?i < 256" by (simp add: word_le_nat_alt)
  then have "crctable ! unat ?i = (crc_bit ^^ 8) ?i" by (simp add: crctable_nth)
  moreover have "drop_bit 8 (r AND NOT 0xff) = drop_bit 8 r"
    by (rule bit_word_eqI) (auto simp: bit_simps low_byte_mask dest: bit_imp_le_length)
  moreover have "(crc_bit ^^ 8) (r AND NOT 0xff) = drop_bit 8 (r AND NOT 0xff)"
    by (rule crc_bits_high) simp
  ultimately show ?thesis
    unfolding r crc_bits_xor [of 8 "r AND NOT 0xff"] by (simp only:)
qed

text \<open>
  C14.  The table-driven CRC-32 of the source equals the bit-serial CRC-32 with the reflected
  polynomial 0xEDB88320 on every input: all 256 entries of the table and the way the loop
  indexes it are right.
\<close>

theorem generateCrc32_serial: "generateCrc32 inp = crc_serial inp"
  by (simp add: generateCrc32_def crc_serial_def crc_byte_step)

end
