(* ===== verification/Dom.thy ===== *)
theory Dom
  imports Prelude
begin

text \<open>
  XML elements as the sources see them: the read access of \<^verbatim>\<open>QDomElement\<close> with the
  helpers of \<^verbatim>\<open>src/base/QXmppUtils_p.h\<close>, the element writer of
  \<^verbatim>\<open>src/base/XmlWriter.h\<close>, and the number and boolean syntax both sides use.

  An element carries its tag, its namespace, its attributes and its child nodes.  A null
  \<^verbatim>\<open>QDomElement\<close> is \<^term>\<open>None\<close>.  What a \<^verbatim>\<open>toXml\<close> writes is a list of items: attributes,
  character data and nested elements; an element written without a namespace takes the
  default namespace in force around it, as it does when the text is read back.  Characters
  outside markup and the escaping of markup are the business of \<^verbatim>\<open>QXmlStreamWriter\<close> and the
  XML parser and are not modelled: an item list stands for the element a parser reads back.
\<close>

section \<open>Reading\<close>

datatype dom = Text qstring | Elem (tagName: qstring) (namespaceURI: qstring)
    (attributes: "(qstring \<times> qstring) list") (childNodes: "dom list")

fun isElement :: "dom \<Rightarrow> bool" where
  "isElement (Text _) = False"
| "isElement (Elem _ _ _ _) = True"

text \<open>\<^verbatim>\<open>QDomElement::attribute\<close>: the empty string when the attribute is missing.\<close>

definition attr :: "qstring \<Rightarrow> dom \<Rightarrow> qstring" where
  "attr k el = (case map_of (attributes el) k of None \<Rightarrow> [] | Some v \<Rightarrow> v)"

definition hasAttribute :: "qstring \<Rightarrow> dom \<Rightarrow> bool" where
  "hasAttribute k el \<longleftrightarrow> map_of (attributes el) k \<noteq> None"

fun dom_text :: "dom \<Rightarrow> qstring" where
  "dom_text (Text s) = s"
| "dom_text (Elem _ _ _ cs) = concat (map dom_text cs)"

definition matches :: "qstring \<Rightarrow> qstring \<Rightarrow> dom \<Rightarrow> bool" where
  "matches tag ns el \<longleftrightarrow> isElement el \<and> (ns = [] \<or> namespaceURI el = ns) \<and> (tag = [] \<or> tagName el = tag)"

text \<open>The loop over following siblings, shared by the two searches of the source.\<close>

fun find_sibling :: "dom list \<Rightarrow> qstring \<Rightarrow> qstring \<Rightarrow> (dom \<times> dom list) option" where
  "find_sibling [] tag ns = None"
| "find_sibling (child # rest) tag ns =
     (if isElement child \<and> (ns = [] \<or> namespaceURI child = ns)
      then if tag = [] \<or> tagName child = tag then Some (child, rest)
           else find_sibling rest tag ns
      else find_sibling rest tag ns)"

definition firstChildElement :: "dom \<Rightarrow> qstring \<Rightarrow> qstring \<Rightarrow> dom option" where
  "firstChildElement el tag ns = map_option fst (find_sibling (childNodes el) tag ns)"

text \<open>The position of an element among its siblings is what follows it.\<close>

definition nextSiblingElement :: "dom list \<Rightarrow> qstring \<Rightarrow> qstring \<Rightarrow> (dom \<times> dom list) option" where
  "nextSiblingElement following tag ns = find_sibling following tag ns"

definition hasChild :: "dom \<Rightarrow> qstring \<Rightarrow> qstring \<Rightarrow> bool" where
  "hasChild el tag ns \<longleftrightarrow> firstChildElement el tag ns \<noteq> None"

lemma find_sibling_length: "find_sibling cs tag ns = Some (e, r) \<Longrightarrow> length r < length cs"
  by (induction cs) (auto split: if_splits intro: less_SucI)

text \<open>\<^verbatim>\<open>DomChildElements\<close>: begin at the first child, advance to the next sibling.\<close>

function iter_siblings :: "dom list \<Rightarrow> qstring \<Rightarrow> qstring \<Rightarrow> dom list" where
  "iter_siblings cs tag ns =
     (case nextSiblingElement cs tag ns of None \<Rightarrow> [] | Some (e, r) \<Rightarrow> e # iter_siblings r tag ns)"
  by pat_completeness auto
termination
  by (relation "measure (\<lambda>(cs, _). length cs)") (auto simp: nextSiblingElement_def find_sibling_length)

declare iter_siblings.simps [simp del]

definition iterChildElements :: "dom \<Rightarrow> qstring \<Rightarrow> qstring \<Rightarrow> dom list" where
  "iterChildElements el tag ns = iter_siblings (childNodes el) tag ns"

definition tag_of :: "dom option \<Rightarrow> qstring" where
  "tag_of el = (case el of None \<Rightarrow> [] | Some e \<Rightarrow> tagName e)"

definition elementXmlTag :: "dom option \<Rightarrow> qstring \<times> qstring" where
  "elementXmlTag el = (case el of None \<Rightarrow> ([], []) | Some e \<Rightarrow> (tagName e, namespaceURI e))"

definition iqPayloadXmlTag :: "dom \<Rightarrow> qstring \<times> qstring" where
  "iqPayloadXmlTag el =
     (if tagName el = ''iq'' then elementXmlTag (firstChildElement el [] []) else ([], []))"

definition parseChildElements :: "(dom \<Rightarrow> 'a option) \<Rightarrow> dom \<Rightarrow> qstring \<Rightarrow> qstring \<Rightarrow> 'a list" where
  "parseChildElements parse el tag ns =
     concat (map (\<lambda>c. case parse c of None \<Rightarrow> [] | Some v \<Rightarrow> [v]) (iterChildElements el tag ns))"

definition parseTextElements :: "dom \<Rightarrow> qstring \<Rightarrow> qstring \<Rightarrow> qstring list" where
  "parseTextElements el tag ns = map dom_text (iterChildElements el tag ns)"

definition parseSingleAttributeElements :: "dom \<Rightarrow> qstring \<Rightarrow> qstring \<Rightarrow> qstring \<Rightarrow> qstring list" where
  "parseSingleAttributeElements el tag ns k = map (attr k) (iterChildElements el tag ns)"

text \<open>The text of the first matching child; a null element has none.\<close>

definition child_text :: "dom \<Rightarrow> qstring \<Rightarrow> qstring \<Rightarrow> qstring" where
  "child_text el tag ns = (case firstChildElement el tag ns of None \<Rightarrow> [] | Some c \<Rightarrow> dom_text c)"

definition parseOptionalChildElement :: "(dom \<Rightarrow> 'a option) \<Rightarrow> dom \<Rightarrow> qstring \<Rightarrow> qstring \<Rightarrow> 'a option" where
  "parseOptionalChildElement parse el tag ns =
     (case firstChildElement el tag ns of None \<Rightarrow> None | Some c \<Rightarrow> parse c)"

section \<open>Writing\<close>

datatype item = Attribute qstring qstring | Characters qstring | Node "qstring \<Rightarrow> dom"

fun item_attrs :: "item \<Rightarrow> (qstring \<times> qstring) list" where
  "item_attrs (Attribute k v) = [(k, v)]"
| "item_attrs _ = []"

fun item_nodes :: "qstring \<Rightarrow> item \<Rightarrow> dom list" where
  "item_nodes ns (Attribute _ _) = []"
| "item_nodes ns (Characters s) = [Text s]"
| "item_nodes ns (Node f) = [f ns]"

definition build :: "qstring \<Rightarrow> qstring \<Rightarrow> item list \<Rightarrow> dom" where
  "build tag ns items = Elem tag ns (concat (map item_attrs items)) (concat (map (item_nodes ns) items))"

text \<open>An element with a namespace of its own resp. with the surrounding one.\<close>

definition Element :: "qstring \<Rightarrow> qstring \<Rightarrow> item list \<Rightarrow> item" where
  "Element tag ns items = Node (\<lambda>_. build tag ns items)"

definition ElementInherit :: "qstring \<Rightarrow> item list \<Rightarrow> item" where
  "ElementInherit tag items = Node (\<lambda>ns. build tag ns items)"

definition OptionalAttribute :: "qstring \<Rightarrow> qstring \<Rightarrow> item list" where
  "OptionalAttribute k v = (if v = [] then [] else [Attribute k v])"

definition OptionalContent :: "bool \<Rightarrow> item list \<Rightarrow> item list" where
  "OptionalContent c items = (if c then items else [])"

definition DefaultedBoolAttribute :: "qstring \<Rightarrow> bool \<Rightarrow> bool \<Rightarrow> item list" where
  "DefaultedBoolAttribute k v d =
     (if v \<noteq> d then [Attribute k (if v then ''true'' else ''false'')] else [])"

definition writeTextOrEmptyElement :: "qstring \<Rightarrow> qstring \<Rightarrow> item" where
  "writeTextOrEmptyElement tag v = ElementInherit tag (if v \<noteq> [] then [Characters v] else [])"

text \<open>The same with a namespace of its own.\<close>

definition TextElementNs :: "qstring \<Rightarrow> qstring \<Rightarrow> qstring \<Rightarrow> item" where
  "TextElementNs tag ns v = Element tag ns (if v \<noteq> [] then [Characters v] else [])"

text \<open>An optional value with a \<^verbatim>\<open>toXml\<close> of its own.\<close>

definition optional_item :: "('a \<Rightarrow> item) \<Rightarrow> 'a option \<Rightarrow> item list" where
  "optional_item f x = (case x of None \<Rightarrow> [] | Some v \<Rightarrow> [f v])"

definition TextElement :: "qstring \<Rightarrow> qstring \<Rightarrow> item" where
  "TextElement tag v = writeTextOrEmptyElement tag v"

definition TextElements :: "qstring \<Rightarrow> qstring list \<Rightarrow> item list" where
  "TextElements tag vs = map (TextElement tag) vs"

definition OptionalTextElement :: "qstring \<Rightarrow> qstring \<Rightarrow> item list" where
  "OptionalTextElement tag v = (if v = [] then [] else [writeTextOrEmptyElement tag v])"

definition SingleAttributeElements :: "qstring \<Rightarrow> qstring \<Rightarrow> qstring list \<Rightarrow> item list" where
  "SingleAttributeElements tag k vs = map (\<lambda>v. ElementInherit tag [Attribute k v]) vs"

text \<open>The element a parser reads back from what an item wrote.\<close>

definition written :: "item \<Rightarrow> dom" where
  "written i = hd (item_nodes [] i)"

section \<open>Enumerations\<close>

text \<open>
  \<^verbatim>\<open>Enums::fromString\<close> and \<^verbatim>\<open>Enums::toString\<close>: the first entry with the string, and the
  entry at the position of the enumerator, which the compile-time order check makes the
  entry of that enumerator.
\<close>

definition enum_fromString :: "('e \<times> qstring) list \<Rightarrow> qstring \<Rightarrow> 'e option" where
  "enum_fromString vals str = map_option fst (List.find (\<lambda>v. snd v = str) vals)"

definition enum_toString :: "('e \<times> qstring) list \<Rightarrow> 'e \<Rightarrow> qstring" where
  "enum_toString vals e = (case map_of vals e of None \<Rightarrow> [] | Some s \<Rightarrow> s)"

section \<open>Numbers and booleans\<close>

text \<open>\<^verbatim>\<open>QString::number\<close> of an unsigned value.\<close>

fun number :: "nat \<Rightarrow> qstring" where
  "number n = (if n < 10 then [digit_char n] else number (n div 10) @ [digit_char (n mod 10)])"

declare number.simps [simp del]

definition digits_val :: "qstring \<Rightarrow> nat" where
  "digits_val ds = foldl (\<lambda>a c. 10 * a + digit_val c) 0 ds"

definition is_space :: "char \<Rightarrow> bool" where
  "is_space c \<longleftrightarrow> (of_char c :: nat) \<in> {9, 10, 11, 12, 13, 32, 133, 160}"

definition trimmed :: "qstring \<Rightarrow> qstring" where
  "trimmed s = rev (dropWhile is_space (rev (dropWhile is_space s)))"

text \<open>
  The conversions \<^verbatim>\<open>toUShort\<close>, \<^verbatim>\<open>toUInt\<close>, \<^verbatim>\<open>toULongLong\<close> resp. \<^verbatim>\<open>toShort\<close>,
  \<^verbatim>\<open>toInt\<close>, \<^verbatim>\<open>toLongLong\<close> of a string for a type of the given number of bits: surrounding
  white space is ignored, a sign may precede the digits (only a plus for unsigned types), and
  a value that does not fit is an error.
\<close>

definition to_unsigned :: "nat \<Rightarrow> qstring \<Rightarrow> nat option" where
  "to_unsigned bits str =
     (let s = trimmed str; ds = (if take 1 s = ''+'' then drop 1 s else s)
      in if ds \<noteq> [] \<and> list_all is_digit ds \<and> digits_val ds < 2 ^ bits then Some (digits_val ds) else None)"

definition to_signed :: "nat \<Rightarrow> qstring \<Rightarrow> int option" where
  "to_signed bits str =
     (let s = trimmed str; neg = (take 1 s = ''-'');
          ds = (if neg \<or> take 1 s = ''+'' then drop 1 s else s);
          v = (if neg then - int (digits_val ds) else int (digits_val ds))
      in if ds \<noteq> [] \<and> list_all is_digit ds \<and> - (2 ^ (bits - 1)) \<le> v \<and> v < 2 ^ (bits - 1)
         then Some v else None)"

definition or_zero :: "nat option \<Rightarrow> nat" where
  "or_zero x = (case x of None \<Rightarrow> 0 | Some n \<Rightarrow> n)"

datatype int_type = Int8 | UInt8 | Int16 | UInt16 | Int32 | UInt32 | Int64 | UInt64

text \<open>
  \<^verbatim>\<open>stringToInt\<close> and \<^verbatim>\<open>parseInt\<close>.  For \<^verbatim>\<open>uint8_t\<close> the source compares with the maximum of
  \<^verbatim>\<open>int8_t\<close>.
\<close>

fun parseInt :: "int_type \<Rightarrow> qstring \<Rightarrow> int option" where
  "parseInt Int8 s =
     (case to_signed 16 s of Some r \<Rightarrow> if r \<le> 127 \<and> r \<ge> -128 then Some r else None | None \<Rightarrow> None)"
| "parseInt UInt8 s =
     (case to_unsigned 16 s of Some r \<Rightarrow> if r \<le> 127 then Some (int r) else None | None \<Rightarrow> None)"
| "parseInt Int16 s = to_signed 16 s"
| "parseInt UInt16 s = map_option int (to_unsigned 16 s)"
| "parseInt Int32 s = to_signed 32 s"
| "parseInt UInt32 s = map_option int (to_unsigned 32 s)"
| "parseInt Int64 s = to_signed 64 s"
| "parseInt UInt64 s = map_option int (to_unsigned 64 s)"

text \<open>\<^verbatim>\<open>serializeInt\<close>, that is \<^verbatim>\<open>QString::number\<close>.\<close>

definition serializeInt :: "int \<Rightarrow> qstring" where
  "serializeInt n = (if n < 0 then CHR ''-'' # number (nat (- n)) else number (nat n))"

definition parseBoolean :: "qstring \<Rightarrow> bool option" where
  "parseBoolean str =
     (if str = ''1'' \<or> str = ''true'' then Some True
      else if str = ''0'' \<or> str = ''false'' then Some False else None)"

definition serializeBoolean :: "bool \<Rightarrow> qstring" where
  "serializeBoolean v = (if v then ''true'' else ''false'')"

section \<open>Lemmas: reading\<close>

named_theorems dom_simps \<open>reading back written elements\<close>

lemma find_sibling_filter:
  "find_sibling cs tag ns =
     (case dropWhile (\<lambda>c. \<not> matches tag ns c) cs of [] \<Rightarrow> None | e # r \<Rightarrow> Some (e, r))"
  by (induction cs) (auto simp: matches_def)

lemma dropWhile_filter_Cons:
  "dropWhile (\<lambda>c. \<not> P c) xs = e # r \<Longrightarrow> filter P xs = e # filter P r"
  by (induction xs) (auto split: if_splits)

lemma iter_siblings_filter: "iter_siblings cs tag ns = filter (matches tag ns) cs"
proof (induction cs tag ns rule: iter_siblings.induct)
  case (1 cs tag ns)
  show ?case
  proof (cases "dropWhile (\<lambda>c. \<not> matches tag ns c) cs")
    case Nil
    then have "filter (matches tag ns) cs = []" by (simp add: dropWhile_eq_Nil_conv filter_empty_conv)
    moreover have "nextSiblingElement cs tag ns = None"
      using Nil by (simp add: nextSiblingElement_def find_sibling_filter del: dropWhile_eq_Nil_conv)
    ultimately show ?thesis by (subst iter_siblings.simps) simp
  next
    case (Cons e r)
    then have "nextSiblingElement cs tag ns = Some (e, r)"
      by (simp add: nextSiblingElement_def find_sibling_filter)
    with 1 Cons show ?thesis
      by (subst iter_siblings.simps) (simp add: dropWhile_filter_Cons)
  qed
qed

lemma iterChildElements_filter [dom_simps]:
  "iterChildElements el tag ns = filter (matches tag ns) (childNodes el)"
  by (simp add: iterChildElements_def iter_siblings_filter)

lemma find_sibling_find: "map_option fst (find_sibling cs tag ns) = List.find (matches tag ns) cs"
  by (induction cs) (auto simp: matches_def)

lemma firstChildElement_find [dom_simps]:
  "firstChildElement el tag ns = List.find (matches tag ns) (childNodes el)"
  by (simp add: firstChildElement_def find_sibling_find)

lemma concat_map_Nil [simp]: "concat (map (\<lambda>_. []) xs) = []"
  by (induction xs) auto

section \<open>Lemmas: composition\<close>

text \<open>
  An item that writes one element with a tag and a namespace of its own, whatever surrounds
  it.  A nested \<^verbatim>\<open>toXml\<close> of this kind is found again among the children of the outer element.
\<close>

definition self_contained :: "qstring \<Rightarrow> qstring \<Rightarrow> item \<Rightarrow> bool" where
  "self_contained tag ns i \<longleftrightarrow> (\<exists>as cs. i = Node (\<lambda>_. Elem tag ns as cs))"

lemma self_contained_Element [intro, simp]: "self_contained tag ns (Element tag ns items)"
  by (auto simp: self_contained_def Element_def build_def)

lemma self_contained_written:
  assumes "self_contained tag ns i"
  shows "item_nodes n i = [written i]" "item_attrs i = []"
    "matches t n (written i) \<longleftrightarrow> (n = [] \<or> ns = n) \<and> (t = [] \<or> tag = t)"
    "tagName (written i) = tag" "namespaceURI (written i) = ns" "isElement (written i)"
  using assms by (auto simp: self_contained_def written_def matches_def)

lemma optional_item_nodes:
  assumes "\<And>x. self_contained tag ns (f x)"
  shows "concat (map (item_nodes n) (optional_item f x)) = (case x of None \<Rightarrow> [] | Some v \<Rightarrow> [written (f v)])"
    "concat (map item_attrs (optional_item f x)) = []"
  using self_contained_written [OF assms] by (auto simp: optional_item_def split: option.splits)

lemma find_append: "List.find P (xs @ ys) = (case List.find P xs of None \<Rightarrow> List.find P ys | Some x \<Rightarrow> Some x)"
  by (induction xs) auto

lemma find_optional:
  "List.find P (case x of None \<Rightarrow> [] | Some v \<Rightarrow> [g v]) =
     (case x of None \<Rightarrow> None | Some v \<Rightarrow> if P (g v) then Some (g v) else None)"
  by (cases x) auto

lemma written_Element [simp]: "written (Element tag ns items) = build tag ns items"
  by (simp add: written_def Element_def)

lemma matches_build: "matches t n (build tag ns items) \<longleftrightarrow> (n = [] \<or> ns = n) \<and> (t = [] \<or> tag = t)"
  by (auto simp: matches_def build_def)

text \<open>A nested optional value is read back when nothing before it matches.\<close>

lemma parse_optional_back:
  assumes "List.find (matches tag ns) (childNodes el) = (case x of None \<Rightarrow> None | Some v \<Rightarrow> Some (written (f v)))"
    and "\<And>v. x = Some v \<Longrightarrow> parse (written (f v)) = Some v"
  shows "parseOptionalChildElement parse el tag ns = x"
  using assms by (auto simp: parseOptionalChildElement_def firstChildElement_find split: option.splits)

section \<open>Lemmas: numbers\<close>

lemma digit_char_not_space [simp]: "n < 10 \<Longrightarrow> \<not> is_space (digit_char n)"
  by (auto simp: is_space_def of_char_digit_char)

lemma number_digits: "list_all is_digit (number n) \<and> number n \<noteq> [] \<and> list_all (\<lambda>c. \<not> is_space c) (number n)"
proof (induction n rule: number.induct)
  case (1 n)
  then show ?case by (cases "n < 10") (simp_all add: number.simps [of n])
qed

lemma digits_val_snoc: "digits_val (ds @ [c]) = 10 * digits_val ds + digit_val c"
  by (simp add: digits_val_def)

lemma digits_val_number [simp]: "digits_val (number n) = n"
proof (induction n rule: number.induct)
  case (1 n)
  show ?case
  proof (cases "n < 10")
    case True
    then show ?thesis by (simp add: number.simps [of n] digits_val_def)
  next
    case False
    with 1 have "digits_val (number n) = 10 * (n div 10) + n mod 10"
      by (simp add: number.simps [of n] digits_val_snoc)
    then show ?thesis by simp
  qed
qed

lemma dropWhile_none: "list_all (\<lambda>c. \<not> P c) xs \<Longrightarrow> dropWhile P xs = xs"
  by (cases xs) auto

lemma trimmed_no_space: "list_all (\<lambda>c. \<not> is_space c) s \<Longrightarrow> trimmed s = s"
  by (simp add: trimmed_def dropWhile_none list_all_rev)

lemma trimmed_number [simp]: "trimmed (number n) = number n"
  using number_digits [of n] by (simp add: trimmed_no_space)

lemma number_no_sign: "take 1 (number n) \<noteq> ''+''" "take 1 (number n) \<noteq> ''-''"
  using number_digits [of n] by (cases "number n"; force simp: is_digit_def)+

lemma to_unsigned_number [simp]: "n < 2 ^ bits \<Longrightarrow> to_unsigned bits (number n) = Some n"
  using number_digits [of n] number_no_sign [of n] by (simp add: to_unsigned_def)

lemma number_not_Nil [simp]: "number n \<noteq> []"
  using number_digits [of n] by simp

lemma trimmed_minus: "trimmed (CHR ''-'' # number n) = CHR ''-'' # number n"
  using number_digits [of n] by (intro trimmed_no_space) (simp add: is_space_def)

lemma to_signed_serializeInt:
  "- (2 ^ (bits - 1)) \<le> n \<Longrightarrow> n < 2 ^ (bits - 1) \<Longrightarrow> to_signed bits (serializeInt n) = Some n"
  using number_digits [of "nat n"] number_digits [of "nat (- n)"] number_no_sign [of "nat n"]
  by (auto simp: to_signed_def serializeInt_def Let_def trimmed_minus)

definition int_type_range :: "int_type \<Rightarrow> int \<times> int" where
  "int_type_range t = (case t of Int8 \<Rightarrow> (-128, 127) | UInt8 \<Rightarrow> (0, 255) | Int16 \<Rightarrow> (-(2^15), 2^15 - 1)
     | UInt16 \<Rightarrow> (0, 2^16 - 1) | Int32 \<Rightarrow> (-(2^31), 2^31 - 1) | UInt32 \<Rightarrow> (0, 2^32 - 1)
     | Int64 \<Rightarrow> (-(2^63), 2^63 - 1) | UInt64 \<Rightarrow> (0, 2^64 - 1))"

text \<open>
  Integers survive serialisation: for every integer type but \<^verbatim>\<open>uint8_t\<close>, parsing the
  printed form of a value of the type gives the value back.
\<close>

lemma parseInt_serializeInt:
  assumes "t \<noteq> UInt8" and "fst (int_type_range t) \<le> n" and "n \<le> snd (int_type_range t)"
  shows "parseInt t (serializeInt n) = Some n"
  using assms to_signed_serializeInt [of 16 n] to_signed_serializeInt [of 32 n] to_signed_serializeInt [of 64 n]
  by (cases t) (auto simp: int_type_range_def serializeInt_def nat_less_iff)

lemma parseInt_serializeInt_witness:
  "parseInt Int64 (serializeInt (-9223372036854775808)) = Some (-9223372036854775808)"
  using parseInt_serializeInt [of Int64 "-9223372036854775808"] by (simp add: int_type_range_def)

text \<open>
  The reader of \<^verbatim>\<open>uint8_t\<close> values rejects the upper half of the type: no value from 128
  to 255 is ever read back.
\<close>

lemma parseInt_uint8_rejects:
  "128 \<le> n \<Longrightarrow> n \<le> snd (int_type_range UInt8) \<Longrightarrow> parseInt UInt8 (serializeInt n) = None"
  by (auto simp: serializeInt_def int_type_range_def nat_less_iff)

lemma parseInt_uint8_rejects_witness: "parseInt UInt8 (serializeInt 200) = None"
  using parseInt_uint8_rejects [of 200] by (simp add: int_type_range_def)

lemma parseBoolean_serializeBoolean [simp]: "parseBoolean (serializeBoolean b) = Some b"
  by (simp add: parseBoolean_def serializeBoolean_def)

end
