(* ===== verification/StreamManagement.thy ===== *)
theory StreamManagement
  imports Dom "HOL-Library.Multiset"
begin

text \<open>
  XEP-0198 stream management, \<^verbatim>\<open>src/base/QXmppStreamManagement.cpp\<close>: the seven nonzas with
  their parsers and serialisers, and \<^verbatim>\<open>StreamAckManager\<close>, which numbers outgoing stanzas,
  keeps them until the server acknowledges them and reports the outcome of every send.

  The state of the manager is a record with the fields of the class, the log of everything
  handed to the socket (\<open>sock\<close>) and the log of the results delivered to the callers
  (\<open>reports\<close>).  A \<^verbatim>\<open>QXmppPacket\<close> has an identity, that of its promise.  Whether the socket
  accepted the data is an argument of \<open>internalSend\<close>, the only place that looks at it.
  The \<^verbatim>\<open>QMap\<close> of unacknowledged stanzas is an association list in ascending key order.
\<close>

section \<open>Stanza error conditions\<close>

datatype Condition = NoCondition | BadRequest | Conflict | FeatureNotImplemented | Forbidden | Gone
  | InternalServerError | ItemNotFound | JidMalformed | NotAcceptable | NotAllowed | NotAuthorized
  | PaymentRequired | RecipientUnavailable | Redirect | RegistrationRequired | RemoteServerNotFound
  | RemoteServerTimeout | ResourceConstraint | ServiceUnavailable | SubscriptionRequired
  | UndefinedCondition | UnexpectedRequest | PolicyViolation

definition Condition_Values :: "(Condition \<times> qstring) list" where
  "Condition_Values =
    [(NoCondition, []), (BadRequest, ''bad-request''), (Conflict, ''conflict''),
     (FeatureNotImplemented, ''feature-not-implemented''), (Forbidden, ''forbidden''), (Gone, ''gone''),
     (InternalServerError, ''internal-server-error''), (ItemNotFound, ''item-not-found''),
     (JidMalformed, ''jid-malformed''), (NotAcceptable, ''not-acceptable''),
     (NotAllowed, ''not-allowed''), (NotAuthorized, ''not-authorized''),
     (PaymentRequired, ''payment-required''), (RecipientUnavailable, ''recipient-unavailable''),
     (Redirect, ''redirect''), (RegistrationRequired, ''registration-required''),
     (RemoteServerNotFound, ''remote-server-not-found''),
     (RemoteServerTimeout, ''remote-server-timeout''), (ResourceConstraint, ''resource-constraint''),
     (ServiceUnavailable, ''service-unavailable''), (SubscriptionRequired, ''subscription-required''),
     (UndefinedCondition, ''undefined-condition''), (UnexpectedRequest, ''unexpected-request''),
     (PolicyViolation, ''policy-violation'')]"

section \<open>Nonzas\<close>

definition ns_stream_management :: qstring where
  "ns_stream_management = ''urn:xmpp:sm:3''"

definition ns_stanza :: qstring where
  "ns_stanza = ''urn:ietf:params:xml:ns:xmpp-stanzas''"

record SmEnable =
  enable_resume :: bool
  enable_max :: "64 word"

record SmEnabled =
  enabled_resume :: bool
  enabled_id :: qstring
  enabled_max :: "64 word"
  enabled_location :: qstring

record SmResume =
  resume_h :: "32 word"
  resume_previd :: qstring

record SmResumed =
  resumed_h :: "32 word"
  resumed_previd :: qstring

record SmFailed =
  failed_error :: "Condition option"

record SmAck =
  ack_seqNo :: "32 word"

definition read_bool_attr :: "qstring \<Rightarrow> bool" where
  "read_bool_attr s \<longleftrightarrow> s = ''true'' \<or> s = ''1''"

definition to_u32 :: "qstring \<Rightarrow> 32 word" where
  "to_u32 s = word_of_nat (or_zero (to_unsigned 32 s))"

definition to_u64 :: "qstring \<Rightarrow> 64 word" where
  "to_u64 s = word_of_nat (or_zero (to_unsigned 64 s))"

definition SmEnable_fromDom :: "dom \<Rightarrow> SmEnable option" where
  "SmEnable_fromDom el =
     (if tagName el \<noteq> ''enable'' \<or> namespaceURI el \<noteq> ns_stream_management then None
      else Some \<lparr>enable_resume = read_bool_attr (attr ''resume'' el), enable_max = to_u64 (attr ''max'' el)\<rparr>)"

definition SmEnable_toXml :: "SmEnable \<Rightarrow> item" where
  "SmEnable_toXml e = Element ''enable'' ns_stream_management
     (DefaultedBoolAttribute ''resume'' (enable_resume e) False @
      OptionalContent (enable_max e > 0) [Attribute ''max'' (number (unat (enable_max e)))])"

definition SmEnabled_fromDom :: "dom \<Rightarrow> SmEnabled option" where
  "SmEnabled_fromDom el =
     (if tagName el \<noteq> ''enabled'' \<or> namespaceURI el \<noteq> ns_stream_management then None
      else Some \<lparr>enabled_resume = read_bool_attr (attr ''resume'' el), enabled_id = attr ''id'' el,
                 enabled_max = to_u64 (attr ''max'' el), enabled_location = attr ''location'' el\<rparr>)"

definition SmEnabled_toXml :: "SmEnabled \<Rightarrow> item" where
  "SmEnabled_toXml e = Element ''enabled'' ns_stream_management
     (DefaultedBoolAttribute ''resume'' (enabled_resume e) False @
      OptionalAttribute ''id'' (enabled_id e) @
      OptionalContent (enabled_max e > 0) [Attribute ''max'' (number (unat (enabled_max e)))] @
      OptionalAttribute ''location'' (enabled_location e))"

definition SmResume_fromDom :: "dom \<Rightarrow> SmResume option" where
  "SmResume_fromDom el =
     (if tagName el \<noteq> ''resume'' \<or> namespaceURI el \<noteq> ns_stream_management then None
      else Some \<lparr>resume_h = to_u32 (attr ''h'' el), resume_previd = attr ''previd'' el\<rparr>)"

definition SmResume_toXml :: "SmResume \<Rightarrow> item" where
  "SmResume_toXml r = Element ''resume'' ns_stream_management
     [Attribute ''h'' (number (unat (resume_h r))), Attribute ''previd'' (resume_previd r)]"

definition SmResumed_fromDom :: "dom \<Rightarrow> SmResumed option" where
  "SmResumed_fromDom el =
     (if tagName el \<noteq> ''resumed'' \<or> namespaceURI el \<noteq> ns_stream_management then None
      else Some \<lparr>resumed_h = to_u32 (attr ''h'' el), resumed_previd = attr ''previd'' el\<rparr>)"

definition SmResumed_toXml :: "SmResumed \<Rightarrow> item" where
  "SmResumed_toXml r = Element ''resumed'' ns_stream_management
     [Attribute ''h'' (number (unat (resumed_h r))), Attribute ''previd'' (resumed_previd r)]"

definition SmFailed_fromDom :: "dom \<Rightarrow> SmFailed option" where
  "SmFailed_fromDom el =
     (if tagName el \<noteq> ''failed'' \<or> namespaceURI el \<noteq> ns_stream_management then None
      else Some \<lparr>failed_error =
        enum_fromString Condition_Values (tag_of (firstChildElement el [] ns_stanza))\<rparr>)"

definition SmFailed_toXml :: "SmFailed \<Rightarrow> item" where
  "SmFailed_toXml f = Element ''failed'' ns_stream_management
     (case failed_error f of None \<Rightarrow> []
      | Some c \<Rightarrow> [Element (enum_toString Condition_Values c) ns_stanza []])"

definition SmAck_fromDom :: "dom \<Rightarrow> SmAck option" where
  "SmAck_fromDom el =
     (if elementXmlTag (Some el) = (''a'', ns_stream_management)
      then Some \<lparr>ack_seqNo = to_u32 (attr ''h'' el)\<rparr> else None)"

definition SmAck_toXml :: "SmAck \<Rightarrow> item" where
  "SmAck_toXml a = Element ''a'' ns_stream_management [Attribute ''h'' (number (unat (ack_seqNo a)))]"

definition SmRequest_fromDom :: "dom \<Rightarrow> unit option" where
  "SmRequest_fromDom el =
     (if elementXmlTag (Some el) = (''r'', ns_stream_management) then Some () else None)"

definition SmRequest_toXml :: item where
  "SmRequest_toXml = Element ''r'' ns_stream_management []"

section \<open>The acknowledgement manager\<close>

record QXmppPacket =
  packet_id :: nat
  packet_data :: bytes
  isXmppStanza :: bool

datatype SendResult = SendSuccess (acknowledged: bool) | SocketWriteError | Disconnected

datatype sock_out = Raw bytes | Xml dom

record StreamAckManager =
  m_enabled :: bool
  m_unacknowledgedStanzas :: "(32 word \<times> QXmppPacket) list"
  m_lastOutgoingSequenceNumber :: "32 word"
  m_lastIncomingSequenceNumber :: "32 word"
  sock :: "sock_out list"
  reports :: "(nat \<times> SendResult) list"

definition initial_ack_manager :: StreamAckManager where
  "initial_ack_manager = \<lparr>m_enabled = False, m_unacknowledgedStanzas = [],
     m_lastOutgoingSequenceNumber = 0, m_lastIncomingSequenceNumber = 0, sock = [], reports = []\<rparr>"

definition sendData :: "sock_out \<Rightarrow> StreamAckManager \<Rightarrow> StreamAckManager" where
  "sendData d s = s\<lparr>sock := sock s @ [d]\<rparr>"

definition reportFinished :: "QXmppPacket \<Rightarrow> SendResult \<Rightarrow> StreamAckManager \<Rightarrow> StreamAckManager" where
  "reportFinished p r s = s\<lparr>reports := reports s @ [(packet_id p, r)]\<rparr>"

definition sendAcknowledgement :: "StreamAckManager \<Rightarrow> StreamAckManager" where
  "sendAcknowledgement s =
     (if \<not> m_enabled s then s
      else sendData (Xml (written (SmAck_toXml \<lparr>ack_seqNo = m_lastIncomingSequenceNumber s\<rparr>))) s)"

definition sendAcknowledgementRequest :: "StreamAckManager \<Rightarrow> StreamAckManager" where
  "sendAcknowledgementRequest s =
     (if \<not> m_enabled s then s else sendData (Xml (written SmRequest_toXml)) s)"

text \<open>The loop reports and erases from the smallest key on and breaks at the first larger one.\<close>

fun ack_loop :: "32 word \<Rightarrow> (32 word \<times> QXmppPacket) list \<Rightarrow> StreamAckManager \<Rightarrow> StreamAckManager" where
  "ack_loop h [] s = s\<lparr>m_unacknowledgedStanzas := []\<rparr>"
| "ack_loop h ((k, p) # m) s =
     (if k \<le> h then ack_loop h m (reportFinished p (SendSuccess True) s)
      else s\<lparr>m_unacknowledgedStanzas := (k, p) # m\<rparr>)"

definition setAcknowledgedSequenceNumber :: "32 word \<Rightarrow> StreamAckManager \<Rightarrow> StreamAckManager" where
  "setAcknowledgedSequenceNumber h s = ack_loop h (m_unacknowledgedStanzas s) s"

definition handleAcknowledgement :: "SmAck \<Rightarrow> StreamAckManager \<Rightarrow> StreamAckManager" where
  "handleAcknowledgement ack s =
     (if \<not> m_enabled s then s else setAcknowledgedSequenceNumber (ack_seqNo ack) s)"

definition handleStanza :: "dom \<Rightarrow> StreamAckManager \<Rightarrow> bool \<times> StreamAckManager" where
  "handleStanza stanza s =
     (case SmAck_fromDom stanza of
        Some ack \<Rightarrow> (True, handleAcknowledgement ack s)
      | None \<Rightarrow>
         (case SmRequest_fromDom stanza of
            Some _ \<Rightarrow> (True, sendAcknowledgement s)
          | None \<Rightarrow>
              (False,
               if tagName stanza = ''message'' \<or> tagName stanza = ''presence'' \<or> tagName stanza = ''iq''
               then s\<lparr>m_lastIncomingSequenceNumber := m_lastIncomingSequenceNumber s + 1\<rparr> else s)))"

definition onSessionClosed :: "StreamAckManager \<Rightarrow> StreamAckManager" where
  "onSessionClosed s = s\<lparr>m_enabled := False\<rparr>"

definition insertNext :: "QXmppPacket \<Rightarrow> StreamAckManager \<Rightarrow> StreamAckManager" where
  "insertNext p s =
     (let n = m_lastOutgoingSequenceNumber s + 1
      in s\<lparr>m_lastOutgoingSequenceNumber := n,
           m_unacknowledgedStanzas := qmap_insert n p (m_unacknowledgedStanzas s)\<rparr>)"

definition resendOld :: "QXmppPacket \<Rightarrow> StreamAckManager \<Rightarrow> StreamAckManager" where
  "resendOld p s = sendData (Raw (packet_data p)) (insertNext p s)"

definition enableStreamManagement :: "bool \<Rightarrow> StreamAckManager \<Rightarrow> StreamAckManager" where
  "enableStreamManagement resetSequenceNumber s0 =
     (let s = s0\<lparr>m_enabled := True\<rparr>
      in if resetSequenceNumber
         then let s1 = s\<lparr>m_lastOutgoingSequenceNumber := 0, m_lastIncomingSequenceNumber := 0\<rparr>
              in if m_unacknowledgedStanzas s1 \<noteq> []
                 then let old = map snd (m_unacknowledgedStanzas s1)
                      in sendAcknowledgementRequest (fold resendOld old (s1\<lparr>m_unacknowledgedStanzas := []\<rparr>))
                 else s1
         else if m_unacknowledgedStanzas s \<noteq> []
              then sendAcknowledgementRequest
                     (fold (\<lambda>p. sendData (Raw (packet_data p))) (map snd (m_unacknowledgedStanzas s)) s)
              else s)"

definition internalSend :: "bool \<Rightarrow> QXmppPacket \<Rightarrow> StreamAckManager \<Rightarrow> bool \<times> StreamAckManager" where
  "internalSend writtenToSocket packet s0 =
     (let s = sendData (Raw (packet_data packet)) s0
      in (writtenToSocket,
          if m_enabled s \<and> isXmppStanza packet
          then sendAcknowledgementRequest (insertNext packet s)
          else if writtenToSocket then reportFinished packet (SendSuccess False) s
               else reportFinished packet SocketWriteError s))"

definition sendPacketCompat :: "bool \<Rightarrow> QXmppPacket \<Rightarrow> StreamAckManager \<Rightarrow> bool" where
  "sendPacketCompat w p s = fst (internalSend w p s)"

definition resetCache :: "StreamAckManager \<Rightarrow> StreamAckManager" where
  "resetCache s =
     (fold (\<lambda>p. reportFinished p Disconnected) (map snd (m_unacknowledgedStanzas s)) s)
       \<lparr>m_unacknowledgedStanzas := []\<rparr>"

section \<open>Lemmas: nonzas\<close>

named_theorems sm_xml \<open>definitions of the stream management serialisers\<close>

lemmas [sm_xml] = written_def Element_def build_def OptionalAttribute_def OptionalContent_def
  DefaultedBoolAttribute_def attr_def elementXmlTag_def read_bool_attr_def to_u32_def to_u64_def
  or_zero_def

lemma unat_u32_lt [simp]: "unat (w :: 32 word) < 4294967296"
  using unsigned_less [of w, where ?'a = nat] by simp

lemma unat_of_nat_inverse: "word_of_nat (unat w) = (w :: 'a::len word)"
  by simp

lemma unat_u64_lt [simp]: "unat (w :: 64 word) < 18446744073709551616"
  using unsigned_less [of w, where ?'a = nat] by simp

lemma to_unsigned_unat [simp]:
  "to_unsigned 32 (number (unat (w :: 32 word))) = Some (unat w)"
  "to_unsigned 64 (number (unat (v :: 64 word))) = Some (unat v)"
  by simp_all

lemma to_unsigned_empty [simp]: "to_unsigned bits [] = None"
  by (simp add: to_unsigned_def trimmed_def)

lemma SmEnable_roundtrip: "SmEnable_fromDom (written (SmEnable_toXml e)) = Some e"
  by (cases e) (auto simp: sm_xml SmEnable_fromDom_def SmEnable_toXml_def word_gt_0)

lemma SmEnabled_roundtrip: "SmEnabled_fromDom (written (SmEnabled_toXml e)) = Some e"
  by (cases e) (auto simp: sm_xml SmEnabled_fromDom_def SmEnabled_toXml_def word_gt_0)

lemma SmResume_roundtrip: "SmResume_fromDom (written (SmResume_toXml r)) = Some r"
  by (cases r) (simp add: sm_xml SmResume_fromDom_def SmResume_toXml_def)

lemma SmResumed_roundtrip: "SmResumed_fromDom (written (SmResumed_toXml r)) = Some r"
  by (cases r) (simp add: sm_xml SmResumed_fromDom_def SmResumed_toXml_def)

lemma SmAck_roundtrip: "SmAck_fromDom (written (SmAck_toXml a)) = Some a"
  by (cases a) (simp add: sm_xml SmAck_fromDom_def SmAck_toXml_def)

lemma SmRequest_roundtrip: "SmRequest_fromDom (written SmRequest_toXml) = Some ()"
  by (simp add: sm_xml SmRequest_fromDom_def SmRequest_toXml_def)

lemma SmFailed_roundtrip:
  "failed_error f = Some c \<Longrightarrow> SmFailed_fromDom (written (SmFailed_toXml f)) = Some f"
  by (cases f; cases c)
     (simp_all add: sm_xml SmFailed_fromDom_def SmFailed_toXml_def dom_simps matches_def tag_of_def
       enum_toString_def enum_fromString_def Condition_Values_def)

text \<open>
  Every stream management nonza is read back as it was written, for all field values; a
  \<^verbatim>\<open><failed/>\<close> whenever it carries a condition.
\<close>

lemma sm_nonzas_roundtrip:
  "SmEnable_fromDom (written (SmEnable_toXml e)) = Some e \<and>
   SmEnabled_fromDom (written (SmEnabled_toXml e')) = Some e' \<and>
   SmResume_fromDom (written (SmResume_toXml r)) = Some r \<and>
   SmResumed_fromDom (written (SmResumed_toXml r')) = Some r' \<and>
   SmAck_fromDom (written (SmAck_toXml a)) = Some a \<and>
   SmRequest_fromDom (written SmRequest_toXml) = Some () \<and>
   SmFailed_fromDom (written (SmFailed_toXml \<lparr>failed_error = Some c\<rparr>)) = Some \<lparr>failed_error = Some c\<rparr>"
  by (simp add: SmEnable_roundtrip SmEnabled_roundtrip SmResume_roundtrip SmResumed_roundtrip
      SmAck_roundtrip SmRequest_roundtrip SmFailed_roundtrip)

text \<open>
  A \<^verbatim>\<open><failed/>\<close> without a condition does not come back: the missing child has the empty
  tag name, which the enumeration table lists as the name of \<^const>\<open>NoCondition\<close>, so the
  parser reports a condition and serialising the result writes an element with an empty name.
\<close>

lemma SmFailed_empty_not_preserved:
  "SmFailed_fromDom (written (SmFailed_toXml \<lparr>failed_error = None\<rparr>)) = Some \<lparr>failed_error = Some NoCondition\<rparr> \<and>
   childNodes (written (SmFailed_toXml \<lparr>failed_error = Some NoCondition\<rparr>)) = [Elem [] ns_stanza [] []]"
  by (simp add: sm_xml SmFailed_fromDom_def SmFailed_toXml_def dom_simps tag_of_def enum_fromString_def
      enum_toString_def Condition_Values_def)

section \<open>Lemmas: numbering\<close>

definition pending :: "StreamAckManager \<Rightarrow> QXmppPacket list" where
  "pending s = map snd (m_unacknowledgedStanzas s)"

text \<open>
  The sequence numbers of the kept stanzas are consecutive and end at the last number given
  out; number 0 is never used.
\<close>

definition sm_inv :: "StreamAckManager \<Rightarrow> bool" where
  "sm_inv s \<longleftrightarrow>
     (let n = length (m_unacknowledgedStanzas s); l = unat (m_lastOutgoingSequenceNumber s)
      in n \<le> l \<and> map fst (m_unacknowledgedStanzas s) = map word_of_nat [Suc l - n..<Suc l])"

lemma map_unat_word_of_nat:
  "\<forall>i \<in> set is. i < 4294967296 \<Longrightarrow> map unat (map (word_of_nat :: nat \<Rightarrow> 32 word) is) = is"
  by (induction "is") (auto simp: unat_of_nat)

lemma word_of_nat_le_u32: "a \<le> b \<Longrightarrow> b < 2 ^ 32 \<Longrightarrow> (word_of_nat a :: 32 word) \<le> word_of_nat b"
  by (simp add: word_le_nat_alt unat_of_nat)

lemma word_of_nat_less_u32: "a < b \<Longrightarrow> b < 2 ^ 32 \<Longrightarrow> (word_of_nat a :: 32 word) < word_of_nat b"
  by (simp add: word_less_nat_alt unat_of_nat)

lemma unat_inc_u32: "(w :: 32 word) \<noteq> - 1 \<Longrightarrow> unat (w + 1) = Suc (unat w)"
  using unatSuc [of w] by (metis add.commute add_eq_0_iff)

lemma sm_inv_keys:
  "sm_inv s \<Longrightarrow> k \<in> fst ` set (m_unacknowledgedStanzas s) \<Longrightarrow>
     \<exists>i. i \<le> unat (m_lastOutgoingSequenceNumber s) \<and> k = word_of_nat i"
  unfolding sm_inv_def Let_def set_map [symmetric] by (auto simp del: upt_Suc simp: less_Suc_eq_le)

lemma insertNext_keys:
  assumes "sm_inv s" and "m_lastOutgoingSequenceNumber s \<noteq> - 1"
  shows "m_unacknowledgedStanzas (insertNext p s) =
    m_unacknowledgedStanzas s @ [(m_lastOutgoingSequenceNumber s + 1, p)]"
proof -
  have "k < m_lastOutgoingSequenceNumber s + 1" if k: "k \<in> fst ` set (m_unacknowledgedStanzas s)" for k
  proof -
    let ?l = "unat (m_lastOutgoingSequenceNumber s)"
    from sm_inv_keys [OF assms(1) k] obtain i where "i \<le> ?l" and "k = word_of_nat i" by blast
    then show ?thesis
      using unat_inc_u32 [OF assms(2)] unat_u32_lt [of "m_lastOutgoingSequenceNumber s"]
      by (simp add: word_less_nat_alt unat_of_nat)
  qed
  then show ?thesis
    by (simp add: insertNext_def Let_def qmap_insert_last)
qed

lemma insertNext_inv:
  assumes "sm_inv s" and "m_lastOutgoingSequenceNumber s \<noteq> - 1"
  shows "sm_inv (insertNext p s)"
proof -
  let ?l = "unat (m_lastOutgoingSequenceNumber s)" and ?n = "length (m_unacknowledgedStanzas s)"
  have last: "m_lastOutgoingSequenceNumber (insertNext p s) = m_lastOutgoingSequenceNumber s + 1"
    by (simp add: insertNext_def Let_def)
  have w: "m_lastOutgoingSequenceNumber s + 1 = word_of_nat (Suc ?l)"
    using unat_inc_u32 [OF assms(2)] by (metis unat_of_nat_inverse)
  show ?thesis
    using assms(1) unat_inc_u32 [OF assms(2)]
    by (simp add: sm_inv_def Let_def insertNext_keys [OF assms] last w Suc_diff_le)
qed

lemma ack_loop_split:
  "sorted (map fst m) \<Longrightarrow>
   ack_loop h m s = s\<lparr>m_unacknowledgedStanzas := filter (\<lambda>(k, p). h < k) m,
     reports := reports s @ map (\<lambda>(k, p). (packet_id p, SendSuccess True)) (filter (\<lambda>(k, p). k \<le> h) m)\<rparr>"
proof (induction h m s rule: ack_loop.induct)
  case (2 h k p m s)
  show ?case
  proof (cases "k \<le> h")
    case True
    then show ?thesis using 2 by (simp add: reportFinished_def)
  next
    case False
    then have "\<forall>(k', p') \<in> set m. h < k'" using 2(2) by fastforce
    then have "filter (\<lambda>(k, p). h < k) m = m" and "filter (\<lambda>(k, p). k \<le> h) m = []"
      by (auto simp: filter_id_conv filter_empty_conv)
    with False show ?thesis by simp
  qed
qed simp

lemma sm_inv_sorted: "sm_inv s \<Longrightarrow> sorted (map fst (m_unacknowledgedStanzas s))"
proof -
  assume inv: "sm_inv s"
  let ?l = "unat (m_lastOutgoingSequenceNumber s)"
  have "sorted (map (word_of_nat :: nat \<Rightarrow> 32 word) [Suc ?l - n..<Suc ?l])" for n
    by (intro sorted_map_mono mono_onI word_of_nat_le_u32)
       (auto simp: less_Suc_eq_le simp del: upt_Suc intro: le_less_trans [OF _ unat_u32_lt])
  then show ?thesis using inv by (simp add: sm_inv_def Let_def)
qed

text \<open>
  An acknowledgement with sequence number \<open>h\<close> settles exactly the kept stanzas numbered up
  to \<open>h\<close>: they are reported as acknowledged, in sending order, and the others stay queued; the
  rest of the state is untouched.
\<close>

lemma setAcknowledgedSequenceNumber_exact:
  assumes "sm_inv s"
  shows "setAcknowledgedSequenceNumber h s = s\<lparr>
    m_unacknowledgedStanzas := filter (\<lambda>(k, p). h < k) (m_unacknowledgedStanzas s),
    reports := reports s @ map (\<lambda>(k, p). (packet_id p, SendSuccess True))
      (filter (\<lambda>(k, p). k \<le> h) (m_unacknowledgedStanzas s))\<rparr>"
  unfolding setAcknowledgedSequenceNumber_def by (rule ack_loop_split [OF sm_inv_sorted [OF assms]])

section \<open>Lemmas: operations\<close>

lemma sendData_simps [simp]:
  "m_unacknowledgedStanzas (sendData d s) = m_unacknowledgedStanzas s"
  "m_lastOutgoingSequenceNumber (sendData d s) = m_lastOutgoingSequenceNumber s"
  "m_enabled (sendData d s) = m_enabled s" "reports (sendData d s) = reports s"
  "sock (sendData d s) = sock s @ [d]"
  by (simp_all add: sendData_def)

lemma reportFinished_simps [simp]:
  "m_unacknowledgedStanzas (reportFinished p r s) = m_unacknowledgedStanzas s"
  "m_lastOutgoingSequenceNumber (reportFinished p r s) = m_lastOutgoingSequenceNumber s"
  "reports (reportFinished p r s) = reports s @ [(packet_id p, r)]"
  by (simp_all add: reportFinished_def)

lemma sendAck_simps [simp]:
  "m_unacknowledgedStanzas (sendAcknowledgementRequest s) = m_unacknowledgedStanzas s"
  "m_lastOutgoingSequenceNumber (sendAcknowledgementRequest s) = m_lastOutgoingSequenceNumber s"
  "reports (sendAcknowledgementRequest s) = reports s"
  "m_unacknowledgedStanzas (sendAcknowledgement s) = m_unacknowledgedStanzas s"
  "m_lastOutgoingSequenceNumber (sendAcknowledgement s) = m_lastOutgoingSequenceNumber s"
  "reports (sendAcknowledgement s) = reports s"
  by (simp_all add: sendAcknowledgementRequest_def sendAcknowledgement_def)

lemma insertNext_simps [simp]:
  "m_lastOutgoingSequenceNumber (insertNext p s) = m_lastOutgoingSequenceNumber s + 1"
  "reports (insertNext p s) = reports s" "m_enabled (insertNext p s) = m_enabled s"
  "sock (insertNext p s) = sock s"
  by (simp_all add: insertNext_def Let_def)

lemma pending_simps [simp]:
  "pending (sendData d s) = pending s" "pending (reportFinished p r s) = pending s"
  "pending (sendAcknowledgementRequest s) = pending s" "pending (sendAcknowledgement s) = pending s"
  by (simp_all add: pending_def)

lemma sm_inv_simps [simp]:
  "sm_inv (sendData d s) = sm_inv s" "sm_inv (reportFinished p r s) = sm_inv s"
  "sm_inv (sendAcknowledgementRequest s) = sm_inv s" "sm_inv (sendAcknowledgement s) = sm_inv s"
  by (simp_all add: sm_inv_def)

lemma sm_inv_cong:
  "m_unacknowledgedStanzas s = m_unacknowledgedStanzas t \<Longrightarrow>
   m_lastOutgoingSequenceNumber s = m_lastOutgoingSequenceNumber t \<Longrightarrow> sm_inv s = sm_inv t"
  by (simp add: sm_inv_def)

lemma sm_inv_nonempty_tail:
  assumes "sm_inv s" and "m_unacknowledgedStanzas s = m @ m'"
  shows "sm_inv (s\<lparr>m_unacknowledgedStanzas := m'\<rparr>)"
proof -
  let ?l = "unat (m_lastOutgoingSequenceNumber s)" and ?n = "length (m @ m')"
  have "map fst m' = drop (length m) (map word_of_nat [Suc ?l - ?n..<Suc ?l])"
    using assms by (simp add: sm_inv_def Let_def append_eq_conv_conj)
  also have "\<dots> = map word_of_nat [Suc ?l - length m'..<Suc ?l]"
    using assms by (simp add: sm_inv_def Let_def drop_map del: upt_Suc)
  finally show ?thesis
    using assms by (simp add: sm_inv_def Let_def)
qed

lemma sorted_filter_suffix:
  "sorted (map fst m) \<Longrightarrow> \<exists>m0. m = m0 @ filter (\<lambda>(k, p). h < k) m"
proof (induction m)
  case (Cons a m)
  show ?case
  proof (cases "h < fst a")
    case True
    then have "filter (\<lambda>(k, p). h < k) (a # m) = a # m"
      using Cons.prems by (auto simp: filter_id_conv)
    then show ?thesis by simp
  next
    case False
    with Cons show ?thesis by (auto simp: case_prod_unfold) (metis append_Cons)
  qed
qed simp

lemma setAcknowledged_inv:
  assumes "sm_inv s"
  shows "sm_inv (setAcknowledgedSequenceNumber h s)"
proof -
  obtain m0 where "m_unacknowledgedStanzas s = m0 @ filter (\<lambda>(k, p). h < k) (m_unacknowledgedStanzas s)"
    using sorted_filter_suffix [OF sm_inv_sorted [OF assms]] by blast
  from sm_inv_nonempty_tail [OF assms this] show ?thesis
    unfolding setAcknowledgedSequenceNumber_def ack_loop_split [OF sm_inv_sorted [OF assms]]
    by (rule sm_inv_cong [THEN iffD1, rotated 2]) simp_all
qed

lemma fold_resendOld:
  assumes "sm_inv s" and "unat (m_lastOutgoingSequenceNumber s) + length ps < 2 ^ 32"
  shows "sm_inv (fold resendOld ps s) \<and> pending (fold resendOld ps s) = pending s @ ps \<and>
    reports (fold resendOld ps s) = reports s \<and> m_enabled (fold resendOld ps s) = m_enabled s \<and>
    sock (fold resendOld ps s) = sock s @ map (Raw \<circ> packet_data) ps \<and>
    unat (m_lastOutgoingSequenceNumber (fold resendOld ps s)) =
      unat (m_lastOutgoingSequenceNumber s) + length ps"
  using assms
proof (induction ps arbitrary: s)
  case (Cons p ps)
  have last: "m_lastOutgoingSequenceNumber s \<noteq> - 1"
    using Cons.prems(2) by (auto simp: unsigned_minus_1_eq_mask mask_eq_exp_minus_1)
  have inv: "sm_inv (resendOld p s)"
    using insertNext_inv [OF Cons.prems(1) last, of p]
    unfolding resendOld_def by (rule sm_inv_cong [THEN iffD1, rotated 2]) simp_all
  have n: "unat (m_lastOutgoingSequenceNumber (resendOld p s)) = Suc (unat (m_lastOutgoingSequenceNumber s))"
    by (simp add: resendOld_def unat_inc_u32 [OF last])
  show ?case
    using Cons.IH [OF inv] Cons.prems(2) n insertNext_keys [OF Cons.prems(1) last, of p]
    by (simp add: resendOld_def pending_def)
qed simp

lemma fold_sendData:
  "fold (\<lambda>p. sendData (Raw (packet_data p))) ps s = s\<lparr>sock := sock s @ map (Raw \<circ> packet_data) ps\<rparr>"
  by (induction ps arbitrary: s) (simp_all add: sendData_def)

lemma fold_reportFinished:
  "fold (\<lambda>p. reportFinished p r) ps s = s\<lparr>reports := reports s @ map (\<lambda>p. (packet_id p, r)) ps\<rparr>"
  by (induction ps arbitrary: s) (simp_all add: reportFinished_def)

section \<open>Runs of the manager\<close>

text \<open>
  \<open>sm_reach ps s\<close>: the manager can be in state \<open>s\<close> after \<open>ps\<close> were handed to it for sending, in
  any interleaving with incoming elements, connection events and resumptions.  The guard of
  \<open>send\<close> is that the 32-bit counter of outgoing stanzas has not reached its maximum since
  it was last reset.
\<close>

inductive sm_reach :: "QXmppPacket list \<Rightarrow> StreamAckManager \<Rightarrow> bool" where
  init: "sm_reach [] initial_ack_manager"
| send: "sm_reach ps s \<Longrightarrow> m_lastOutgoingSequenceNumber s \<noteq> - 1 \<Longrightarrow>
    sm_reach (ps @ [p]) (snd (internalSend w p s))"
| stanza: "sm_reach ps s \<Longrightarrow> sm_reach ps (snd (handleStanza el s))"
| enable: "sm_reach ps s \<Longrightarrow> sm_reach ps (enableStreamManagement b s)"
| resumed: "sm_reach ps s \<Longrightarrow> sm_reach ps (setAcknowledgedSequenceNumber h s)"
| closed: "sm_reach ps s \<Longrightarrow> sm_reach ps (onSessionClosed s)"
| reset: "sm_reach ps s \<Longrightarrow> sm_reach ps (resetCache s)"

text \<open>Every send is either reported or kept: the two together are the packets handed over.\<close>

definition accounted :: "QXmppPacket list \<Rightarrow> StreamAckManager \<Rightarrow> bool" where
  "accounted ps s \<longleftrightarrow>
     mset (map fst (reports s)) + mset (map packet_id (pending s)) = mset (map packet_id ps)"

lemma mset_filter_split: "mset (map f (filter (\<lambda>(k, p). k \<le> h) m)) + mset (map f (filter (\<lambda>(k, p). h < k) m)) =
    mset (map f m)" for h :: "32 word"
  by (induction m) (auto simp: not_le)

lemma setAcknowledged_accounted:
  assumes "sm_inv s" and "accounted ps s"
  shows "accounted ps (setAcknowledgedSequenceNumber h s)"
proof -
  let ?m = "m_unacknowledgedStanzas s" and ?s = "setAcknowledgedSequenceNumber h s"
  have ids: "map fst (map (\<lambda>(k, p). (packet_id p, SendSuccess True)) m) = map (\<lambda>x. packet_id (snd x)) m"
    for m :: "(32 word \<times> QXmppPacket) list" by (induction m) auto
  note s' = setAcknowledgedSequenceNumber_def ack_loop_split [OF sm_inv_sorted [OF assms(1)]]
  have "map fst (reports ?s) = map fst (reports s) @ map (\<lambda>x. packet_id (snd x)) (filter (\<lambda>(k, p). k \<le> h) ?m)"
    unfolding s' by (simp add: ids del: map_map)
  moreover have "map packet_id (pending ?s) = map (\<lambda>x. packet_id (snd x)) (filter (\<lambda>(k, p). h < k) ?m)"
    unfolding s' by (simp add: pending_def)
  ultimately show ?thesis
    using assms(2) mset_filter_split [of "\<lambda>x. packet_id (snd x)" h ?m]
    by (simp only: accounted_def mset_append add.assoc) (simp add: pending_def comp_def)
qed

lemma internalSend_inv:
  assumes "sm_inv s" "accounted ps s" "m_lastOutgoingSequenceNumber s \<noteq> - 1"
  shows "sm_inv (snd (internalSend w p s)) \<and> accounted (ps @ [p]) (snd (internalSend w p s))"
proof (cases "m_enabled s \<and> isXmppStanza p")
  case True
  let ?t = "sendData (Raw (packet_data p)) s"
  have t: "sm_inv ?t" using assms(1) by simp
  have "sm_inv (insertNext p ?t)" by (rule insertNext_inv [OF t]) (simp add: assms(3))
  moreover have "m_unacknowledgedStanzas (insertNext p ?t) =
      m_unacknowledgedStanzas s @ [(m_lastOutgoingSequenceNumber s + 1, p)]"
    using insertNext_keys [OF t, of p] assms(3) by simp
  ultimately show ?thesis
    using True assms(2) by (simp add: internalSend_def Let_def accounted_def pending_def)
next
  case False
  then show ?thesis
    using assms by (auto simp: internalSend_def Let_def accounted_def)
qed

lemma enable_reset_state:
  assumes "sm_inv s"
  shows "sm_inv (enableStreamManagement True s) \<and> pending (enableStreamManagement True s) = pending s \<and>
    reports (enableStreamManagement True s) = reports s \<and>
    unat (m_lastOutgoingSequenceNumber (enableStreamManagement True s)) = length (pending s) \<and>
    sock (enableStreamManagement True s) = sock s @ map (Raw \<circ> packet_data) (pending s) @
      (if pending s = [] then [] else [Xml (written SmRequest_toXml)])"
proof -
  let ?s = "s\<lparr>m_enabled := True, m_lastOutgoingSequenceNumber := 0, m_lastIncomingSequenceNumber := 0,
    m_unacknowledgedStanzas := []\<rparr>"
  have "sm_inv ?s" by (simp add: sm_inv_def)
  moreover have "unat (m_lastOutgoingSequenceNumber ?s) + length (pending s) < 2 ^ 32"
    using assms le_less_trans [OF _ unat_u32_lt] by (auto simp: sm_inv_def Let_def pending_def)
  ultimately have f: "sm_inv (fold resendOld (pending s) ?s) \<and> pending (fold resendOld (pending s) ?s) = pending s \<and>
      reports (fold resendOld (pending s) ?s) = reports s \<and> m_enabled (fold resendOld (pending s) ?s) \<and>
      sock (fold resendOld (pending s) ?s) = sock s @ map (Raw \<circ> packet_data) (pending s) \<and>
      unat (m_lastOutgoingSequenceNumber (fold resendOld (pending s) ?s)) = length (pending s)"
    using fold_resendOld [of ?s "pending s"] by (simp add: pending_def [of ?s])
  show ?thesis
  proof (cases "pending s = []")
    case True
    then show ?thesis by (simp add: enableStreamManagement_def Let_def sm_inv_def pending_def)
  next
    case False
    then have "enableStreamManagement True s = sendData (Xml (written SmRequest_toXml)) (fold resendOld (pending s) ?s)"
      using f by (simp add: enableStreamManagement_def Let_def sendAcknowledgementRequest_def pending_def)
    then show ?thesis using f False by simp
  qed
qed

lemma enable_resume_state:
  "m_unacknowledgedStanzas (enableStreamManagement False s) = m_unacknowledgedStanzas s \<and>
   m_lastOutgoingSequenceNumber (enableStreamManagement False s) = m_lastOutgoingSequenceNumber s \<and>
   reports (enableStreamManagement False s) = reports s \<and>
   sock (enableStreamManagement False s) = sock s @ map (Raw \<circ> packet_data) (pending s) @
      (if pending s = [] then [] else [Xml (written SmRequest_toXml)])"
  by (simp add: enableStreamManagement_def Let_def fold_sendData sendAcknowledgementRequest_def sendData_def
      pending_def)

lemma handleStanza_inv:
  assumes "sm_inv s" "accounted ps s"
  shows "sm_inv (snd (handleStanza el s)) \<and> accounted ps (snd (handleStanza el s))"
  using assms setAcknowledged_inv [OF assms(1)] setAcknowledged_accounted [OF assms]
  by (auto simp: handleStanza_def handleAcknowledgement_def split: option.split)
     (simp_all add: sm_inv_def accounted_def pending_def)

lemma sm_reach_inv: "sm_reach ps s \<Longrightarrow> sm_inv s \<and> accounted ps s"
proof (induction rule: sm_reach.induct)
  case init
  show ?case by (simp add: sm_inv_def accounted_def initial_ack_manager_def pending_def)
next
  case (enable ps s b)
  then show ?case
    using enable_reset_state [of s] enable_resume_state [of s]
    by (cases b) (auto simp: accounted_def pending_def [of "enableStreamManagement False s"] pending_def [of s]
      cong: sm_inv_cong)
next
  case (reset ps s)
  then show ?case
    by (simp add: resetCache_def fold_reportFinished sm_inv_def accounted_def comp_def pending_def)
next
  case (send ps s p w)
  then show ?case using internalSend_inv [of s ps w p] by blast
next
  case (stanza ps s el)
  then show ?case using handleStanza_inv [of s ps el] by blast
next
  case (resumed ps s h)
  then show ?case by (simp add: setAcknowledged_inv setAcknowledged_accounted)
next
  case (closed ps s)
  then show ?case by (simp add: onSessionClosed_def sm_inv_def accounted_def pending_def)
qed

text \<open>
  C6.  No send result is lost and none is delivered twice: in every reachable state the
  results delivered so far together with the packets still waiting for an acknowledgement are
  exactly the packets handed to the manager, counted with multiplicity.
\<close>

theorem every_send_accounted_once:
  assumes "sm_reach ps s"
  shows "mset (map fst (reports s)) + mset (map packet_id (pending s)) = mset (map packet_id ps)"
  using sm_reach_inv [OF assms] by (simp add: accounted_def)

text \<open>
  C7.  In every reachable state the kept stanzas carry consecutive sequence numbers that end
  with the last number given out, in the order of sending.
\<close>

theorem sequence_numbers_consecutive:
  assumes "sm_reach ps s"
  shows "map (\<lambda>x. unat (fst x)) (m_unacknowledgedStanzas s) =
    [Suc (unat (m_lastOutgoingSequenceNumber s)) - length (m_unacknowledgedStanzas s)..<
     Suc (unat (m_lastOutgoingSequenceNumber s))]"
proof -
  let ?l = "unat (m_lastOutgoingSequenceNumber s)" and ?m = "m_unacknowledgedStanzas s"
  have "map fst ?m = map word_of_nat [Suc ?l - length ?m..<Suc ?l]"
    using sm_reach_inv [OF assms] by (simp add: sm_inv_def Let_def)
  then have "map unat (map fst ?m) = map unat (map (word_of_nat :: nat \<Rightarrow> 32 word) [Suc ?l - length ?m..<Suc ?l])"
    by (rule arg_cong)
  also have "\<dots> = [Suc ?l - length ?m..<Suc ?l]"
    by (rule map_unat_word_of_nat)
       (auto simp: less_Suc_eq_le simp del: upt_Suc intro: le_less_trans [OF _ unat_u32_lt])
  finally show ?thesis by (simp add: comp_def)
qed

definition sm_example :: StreamAckManager where
  "sm_example = snd (handleStanza (written (SmAck_toXml \<lparr>ack_seqNo = 1\<rparr>))
     (snd (internalSend False \<lparr>packet_id = 8, packet_data = [3, 4], isXmppStanza = True\<rparr>
       (snd (internalSend True \<lparr>packet_id = 7, packet_data = [1, 2], isXmppStanza = True\<rparr>
         (enableStreamManagement True initial_ack_manager))))))"

lemma sm_example_reach:
  "sm_reach [\<lparr>packet_id = 7, packet_data = [1, 2], isXmppStanza = True\<rparr>,
             \<lparr>packet_id = 8, packet_data = [3, 4], isXmppStanza = True\<rparr>] sm_example"
proof -
  let ?p = "\<lparr>packet_id = 7, packet_data = [1, 2], isXmppStanza = True\<rparr>"
  let ?s0 = "enableStreamManagement True initial_ack_manager"
  let ?s1 = "snd (internalSend True ?p ?s0)"
  note defs = enableStreamManagement_def initial_ack_manager_def internalSend_def Let_def
  have 0: "sm_reach [] ?s0" by (intro sm_reach.intros)
  have "m_lastOutgoingSequenceNumber ?s0 \<noteq> - 1" by (simp add: defs)
  from sm_reach.send [OF 0 this] have 1: "sm_reach [?p] ?s1" by simp
  have "m_lastOutgoingSequenceNumber ?s1 \<noteq> - 1" by (simp add: defs)
  from sm_reach.send [OF 1 this] show ?thesis
    unfolding sm_example_def by (simp add: sm_reach.stanza)
qed

text \<open>The example run: the first packet is acknowledged, the second still waits.\<close>

lemma sm_example_value:
  "reports sm_example = [(7, SendSuccess True)]"
  "m_unacknowledgedStanzas sm_example = [(2, \<lparr>packet_id = 8, packet_data = [3, 4], isXmppStanza = True\<rparr>)]"
  by (simp_all add: sm_example_def enableStreamManagement_def initial_ack_manager_def internalSend_def Let_def
      handleStanza_def SmAck_roundtrip handleAcknowledgement_def insertNext_def sendData_def reportFinished_def
      setAcknowledgedSequenceNumber_def sendAcknowledgementRequest_def word_le_nat_alt)

theorem every_send_accounted_once_witness:
  "reports sm_example = [(7, SendSuccess True)] \<and>
   mset (map fst (reports sm_example)) + mset (map packet_id (pending sm_example)) = {#7, 8#}"
  using every_send_accounted_once [OF sm_example_reach] by (simp add: sm_example_value)

theorem sequence_numbers_consecutive_witness:
  "map (\<lambda>x. unat (fst x)) (m_unacknowledgedStanzas sm_example) =
    [Suc (unat (m_lastOutgoingSequenceNumber sm_example)) - 1..<
     Suc (unat (m_lastOutgoingSequenceNumber sm_example))]"
  using sequence_numbers_consecutive [OF sm_example_reach] by (simp add: sm_example_value)

lemma setAcknowledgedSequenceNumber_exact_witness:
  "m_unacknowledgedStanzas (setAcknowledgedSequenceNumber 2 sm_example) = [] \<and>
   reports (setAcknowledgedSequenceNumber 2 sm_example) = [(7, SendSuccess True), (8, SendSuccess True)]"
  using setAcknowledgedSequenceNumber_exact [OF sm_reach_inv [OF sm_example_reach, THEN conjunct1], of 2]
  by (simp add: sm_example_value)

text \<open>
  C12.  A new session (\<open>True\<close>) and a resumed one (\<open>False\<close>) both send every kept stanza again,
  once, in the original order, followed by one acknowledgement request; no result is reported
  and none of the stanzas is dropped.  The new session renumbers them from 1.
\<close>

theorem enableStreamManagement_resends:
  assumes "sm_reach ps s"
  shows "sock (enableStreamManagement b s) = sock s @ map (Raw \<circ> packet_data) (pending s) @
      (if pending s = [] then [] else [Xml (written SmRequest_toXml)]) \<and>
    pending (enableStreamManagement b s) = pending s \<and> reports (enableStreamManagement b s) = reports s \<and>
    (b \<longrightarrow> unat (m_lastOutgoingSequenceNumber (enableStreamManagement b s)) = length (pending s))"
  using enable_reset_state [of s] enable_resume_state [of s] sm_reach_inv [OF assms]
  by (cases b) (simp_all add: pending_def [of "enableStreamManagement False s"] pending_def [of s])

theorem enableStreamManagement_resends_witness:
  "sock (enableStreamManagement True sm_example) =
     sock sm_example @ [Raw [3, 4], Xml (written SmRequest_toXml)]"
  using enableStreamManagement_resends [OF sm_example_reach, of True]
  by (simp add: sm_example_value pending_def)

text \<open>
  The comparison \<^verbatim>\<open>it.key() <= sequenceNumber\<close> ignores that sequence numbers are counted
  modulo \<open>2 ^ 32\<close>: once the counter has wrapped, an acknowledgement of the stanza numbered
  \<open>2 ^ 32 - 1\<close> also settles the later stanza numbered 0, although the server has not
  acknowledged it.
\<close>

lemma ack_wraparound:
  assumes "m_enabled s" "m_unacknowledgedStanzas s = []" "m_lastOutgoingSequenceNumber s = - 2"
    and "isXmppStanza p" "isXmppStanza q"
  shows "reports (setAcknowledgedSequenceNumber (- 1) (snd (internalSend w q (snd (internalSend w p s))))) =
    reports s @ [(packet_id q, SendSuccess True), (packet_id p, SendSuccess True)]"
  using assms
  by (simp add: internalSend_def Let_def insertNext_def setAcknowledgedSequenceNumber_def
      sendAcknowledgementRequest_def sendData_def reportFinished_def word_gt_0)

lemma ack_wraparound_witness:
  "reports (setAcknowledgedSequenceNumber (- 1)
     (snd (internalSend True \<lparr>packet_id = 2, packet_data = [], isXmppStanza = True\<rparr>
       (snd (internalSend True \<lparr>packet_id = 1, packet_data = [], isXmppStanza = True\<rparr>
         (initial_ack_manager\<lparr>m_enabled := True, m_lastOutgoingSequenceNumber := - 2\<rparr>)))))) =
   [(2, SendSuccess True), (1, SendSuccess True)]"
  using ack_wraparound [of "initial_ack_manager\<lparr>m_enabled := True, m_lastOutgoingSequenceNumber := - 2\<rparr>"
      "\<lparr>packet_id = 1, packet_data = [], isXmppStanza = True\<rparr>"
      "\<lparr>packet_id = 2, packet_data = [], isXmppStanza = True\<rparr>" True]
  by (simp add: initial_ack_manager_def)

end
