(* ===== verification/TrustStorage.thy ===== *)
theory TrustStorage
  imports Prelude
begin

text \<open>
  The trust storage of end-to-end encryption: the interface \<^verbatim>\<open>QXmppTrustStorage\<close> as a locale
  of laws, and the implementation \<^verbatim>\<open>QXmppTrustMemoryStorage\<close> with its extension
  \<^verbatim>\<open>QXmppAtmTrustMemoryStorage\<close> for the trust decisions that Automatic Trust Management
  postpones, from \<^verbatim>\<open>src/client/QXmppTrustMemoryStorage.cpp\<close> and
  \<^verbatim>\<open>src/client/QXmppAtmTrustMemoryStorage.cpp\<close>.

  The extension of the class is an extension of the record.  A \<^verbatim>\<open>QMultiHash\<close> that is only
  ever read and written under one key at a time is a function to lists, the most recently
  inserted value first, which is the order in which \<^verbatim>\<open>find\<close> and \<^verbatim>\<open>values\<close> visit the
  values of a key.  A \<^verbatim>\<open>QMultiHash\<close> passed as an argument is the list of its pairs in the
  order of iteration; the order is arbitrary, and the lemmas hold for every list.
  The tasks the methods return are ready at once, so a call is the function's result.
\<close>

section \<open>Data\<close>

datatype TrustLevel = Undecided | AutomaticallyDistrusted | ManuallyDistrusted | AutomaticallyTrusted
  | ManuallyTrusted | Authenticated

datatype TrustSecurityPolicy = NoSecurityPolicy | Toakafa

type_synonym jid = qstring
type_synonym keyid = bytes
type_synonym owned_keys = "(jid \<times> keyid) list"

record Key =
  key_id :: keyid
  key_ownerJid :: jid
  key_trustLevel :: TrustLevel

record UnprocessedKey =
  u_id :: keyid
  u_ownerJid :: jid
  u_senderKeyId :: keyid
  u_trust :: bool

record QXmppTrustMemoryStorage =
  securityPolicies :: "qstring \<rightharpoonup> TrustSecurityPolicy"
  ownKeys :: "qstring \<rightharpoonup> keyid"
  stored_keys :: "qstring \<Rightarrow> Key list"

record QXmppAtmTrustMemoryStorage = QXmppTrustMemoryStorage +
  unprocessed :: "qstring \<Rightarrow> UnprocessedKey list"

record QXmppTrustMessageKeyOwner =
  owner_jid :: jid
  trustedKeys :: "keyid list"
  distrustedKeys :: "keyid list"

definition empty_storage :: QXmppAtmTrustMemoryStorage where
  "empty_storage = \<lparr>securityPolicies = Map.empty, ownKeys = Map.empty, stored_keys = (\<lambda>_. []), unprocessed = (\<lambda>_. [])\<rparr>"

section \<open>Policies and own keys\<close>

definition setSecurityPolicy :: "qstring \<Rightarrow> TrustSecurityPolicy \<Rightarrow> 'a QXmppTrustMemoryStorage_scheme \<Rightarrow>
    'a QXmppTrustMemoryStorage_scheme" where
  "setSecurityPolicy enc pol s = s\<lparr>securityPolicies := (securityPolicies s)(enc \<mapsto> pol)\<rparr>"

definition resetSecurityPolicy :: "qstring \<Rightarrow> 'a QXmppTrustMemoryStorage_scheme \<Rightarrow> 'a QXmppTrustMemoryStorage_scheme" where
  "resetSecurityPolicy enc s = s\<lparr>securityPolicies := (securityPolicies s)(enc := None)\<rparr>"

text \<open>\<^verbatim>\<open>QMap::value\<close> gives a default-constructed value for a missing key.\<close>

definition securityPolicy :: "qstring \<Rightarrow> 'a QXmppTrustMemoryStorage_scheme \<Rightarrow> TrustSecurityPolicy" where
  "securityPolicy enc s = (case securityPolicies s enc of None \<Rightarrow> NoSecurityPolicy | Some p \<Rightarrow> p)"

definition setOwnKey :: "qstring \<Rightarrow> keyid \<Rightarrow> 'a QXmppTrustMemoryStorage_scheme \<Rightarrow> 'a QXmppTrustMemoryStorage_scheme" where
  "setOwnKey enc k s = s\<lparr>ownKeys := (ownKeys s)(enc \<mapsto> k)\<rparr>"

definition resetOwnKey :: "qstring \<Rightarrow> 'a QXmppTrustMemoryStorage_scheme \<Rightarrow> 'a QXmppTrustMemoryStorage_scheme" where
  "resetOwnKey enc s = s\<lparr>ownKeys := (ownKeys s)(enc := None)\<rparr>"

text \<open>\<^verbatim>\<open>QMap::operator[]\<close> inserts the default value it returns for a missing key.\<close>

definition ownKey :: "qstring \<Rightarrow> 'a QXmppTrustMemoryStorage_scheme \<Rightarrow> keyid \<times> 'a QXmppTrustMemoryStorage_scheme" where
  "ownKey enc s = (case ownKeys s enc of Some k \<Rightarrow> (k, s)
                   | None \<Rightarrow> ([], s\<lparr>ownKeys := (ownKeys s)(enc \<mapsto> [])\<rparr>))"

section \<open>Keys\<close>

definition insert_key :: "qstring \<Rightarrow> Key \<Rightarrow> 'a QXmppTrustMemoryStorage_scheme \<Rightarrow> 'a QXmppTrustMemoryStorage_scheme" where
  "insert_key enc k s = s\<lparr>stored_keys := (stored_keys s)(enc := k # stored_keys s enc)\<rparr>"

definition addKeys :: "qstring \<Rightarrow> jid \<Rightarrow> keyid list \<Rightarrow> TrustLevel \<Rightarrow> 'a QXmppTrustMemoryStorage_scheme \<Rightarrow>
    'a QXmppTrustMemoryStorage_scheme" where
  "addKeys enc j ids l s = fold (\<lambda>i. insert_key enc \<lparr>key_id = i, key_ownerJid = j, key_trustLevel = l\<rparr>) ids s"

definition filter_keys :: "qstring \<Rightarrow> (Key \<Rightarrow> bool) \<Rightarrow> 'a QXmppTrustMemoryStorage_scheme \<Rightarrow> 'a QXmppTrustMemoryStorage_scheme" where
  "filter_keys enc P s = s\<lparr>stored_keys := (stored_keys s)(enc := filter P (stored_keys s enc))\<rparr>"

definition removeKeys_ids :: "qstring \<Rightarrow> keyid list \<Rightarrow> 'a QXmppTrustMemoryStorage_scheme \<Rightarrow> 'a QXmppTrustMemoryStorage_scheme" where
  "removeKeys_ids enc ids s = filter_keys enc (\<lambda>k. key_id k \<notin> set ids) s"

definition removeKeys_owner :: "qstring \<Rightarrow> jid \<Rightarrow> 'a QXmppTrustMemoryStorage_scheme \<Rightarrow> 'a QXmppTrustMemoryStorage_scheme" where
  "removeKeys_owner enc j s = filter_keys enc (\<lambda>k. key_ownerJid k \<noteq> j) s"

definition removeKeys_all :: "qstring \<Rightarrow> 'a QXmppTrustMemoryStorage_scheme \<Rightarrow> 'a QXmppTrustMemoryStorage_scheme" where
  "removeKeys_all enc s = s\<lparr>stored_keys := (stored_keys s)(enc := [])\<rparr>"

text \<open>
  The flags \<^verbatim>\<open>TrustLevels\<close> are the set of levels they contain; no flag selects every level.
  The resulting hashes are functions from the level (resp. owner) to the pairs inserted.
\<close>

definition selected :: "TrustLevel list \<Rightarrow> TrustLevel \<Rightarrow> bool" where
  "selected levels l \<longleftrightarrow> l \<in> set levels \<or> levels = []"

definition keys_by_level :: "qstring \<Rightarrow> TrustLevel list \<Rightarrow> 'a QXmppTrustMemoryStorage_scheme \<Rightarrow> TrustLevel \<Rightarrow> owned_keys" where
  "keys_by_level enc levels s l =
     rev (map (\<lambda>k. (key_ownerJid k, key_id k))
       (filter (\<lambda>k. key_trustLevel k = l \<and> selected levels (key_trustLevel k)) (stored_keys s enc)))"

definition keys_by_owner :: "qstring \<Rightarrow> jid list \<Rightarrow> TrustLevel list \<Rightarrow> 'a QXmppTrustMemoryStorage_scheme \<Rightarrow>
    jid \<Rightarrow> (keyid \<rightharpoonup> TrustLevel)" where
  "keys_by_owner enc jids levels s j =
     map_of (rev (map (\<lambda>k. (key_id k, key_trustLevel k))
       (filter (\<lambda>k. key_ownerJid k = j \<and> j \<in> set jids \<and> selected levels (key_trustLevel k)) (stored_keys s enc))))"

fun hasKey_loop :: "Key list \<Rightarrow> jid \<Rightarrow> TrustLevel list \<Rightarrow> bool" where
  "hasKey_loop [] j levels = False"
| "hasKey_loop (k # ks) j levels =
     (if key_ownerJid k = j \<and> key_trustLevel k \<in> set levels then True else hasKey_loop ks j levels)"

definition hasKey :: "qstring \<Rightarrow> jid \<Rightarrow> TrustLevel list \<Rightarrow> 'a QXmppTrustMemoryStorage_scheme \<Rightarrow> bool" where
  "hasKey enc j levels s = hasKey_loop (stored_keys s enc) j levels"

section \<open>Trust levels\<close>

text \<open>
  The inner loop of \<^verbatim>\<open>setTrustLevel\<close>: the first entry of the key is updated, and reported
  when its level differs.  \<^term>\<open>None\<close> means that no entry was found.
\<close>

fun set_first :: "jid \<Rightarrow> keyid \<Rightarrow> TrustLevel \<Rightarrow> Key list \<Rightarrow> (bool \<times> Key list) option" where
  "set_first j i l [] = None"
| "set_first j i l (k # ks) =
     (if key_id k = i \<and> key_ownerJid k = j
      then Some (key_trustLevel k \<noteq> l, k\<lparr>key_trustLevel := l\<rparr> # ks)
      else map_option (\<lambda>(m, ks'). (m, k # ks')) (set_first j i l ks))"

definition setTrustLevel_one :: "qstring \<Rightarrow> TrustLevel \<Rightarrow> jid \<times> keyid \<Rightarrow>
    owned_keys \<times> 'a QXmppTrustMemoryStorage_scheme \<Rightarrow> owned_keys \<times> 'a QXmppTrustMemoryStorage_scheme" where
  "setTrustLevel_one enc l ji ms =
     (case ji of (j, i) \<Rightarrow> case ms of (modified, s) \<Rightarrow>
        (case set_first j i l (stored_keys s enc) of
           Some (m, ks) \<Rightarrow> (if m then (j, i) # modified else modified, s\<lparr>stored_keys := (stored_keys s)(enc := ks)\<rparr>)
         | None \<Rightarrow> ((j, i) # modified, insert_key enc \<lparr>key_id = i, key_ownerJid = j, key_trustLevel = l\<rparr> s)))"

definition setTrustLevel_keys :: "qstring \<Rightarrow> owned_keys \<Rightarrow> TrustLevel \<Rightarrow> 'a QXmppTrustMemoryStorage_scheme \<Rightarrow>
    owned_keys \<times> 'a QXmppTrustMemoryStorage_scheme" where
  "setTrustLevel_keys enc keyIds l s = fold (setTrustLevel_one enc l) keyIds ([], s)"

definition setTrustLevel_owners :: "qstring \<Rightarrow> jid list \<Rightarrow> TrustLevel \<Rightarrow> TrustLevel \<Rightarrow>
    'a QXmppTrustMemoryStorage_scheme \<Rightarrow> owned_keys \<times> 'a QXmppTrustMemoryStorage_scheme" where
  "setTrustLevel_owners enc jids old new s =
     (let hit = (\<lambda>k. key_ownerJid k \<in> set jids \<and> key_trustLevel k = old)
      in (rev (map (\<lambda>k. (key_ownerJid k, key_id k)) (filter hit (stored_keys s enc))),
          s\<lparr>stored_keys := (stored_keys s)(enc :=
             map (\<lambda>k. if hit k then k\<lparr>key_trustLevel := new\<rparr> else k) (stored_keys s enc))\<rparr>))"

fun trustLevel_loop :: "Key list \<Rightarrow> jid \<Rightarrow> keyid \<Rightarrow> TrustLevel" where
  "trustLevel_loop [] j i = Undecided"
| "trustLevel_loop (k # ks) j i =
     (if key_id k = i \<and> key_ownerJid k = j then key_trustLevel k else trustLevel_loop ks j i)"

definition trustLevel :: "qstring \<Rightarrow> jid \<Rightarrow> keyid \<Rightarrow> 'a QXmppTrustMemoryStorage_scheme \<Rightarrow> TrustLevel" where
  "trustLevel enc j i s = trustLevel_loop (stored_keys s enc) j i"

definition resetAll :: "qstring \<Rightarrow> 'a QXmppTrustMemoryStorage_scheme \<Rightarrow> 'a QXmppTrustMemoryStorage_scheme" where
  "resetAll enc s = s\<lparr>securityPolicies := (securityPolicies s)(enc := None), ownKeys := (ownKeys s)(enc := None),
     stored_keys := (stored_keys s)(enc := [])\<rparr>"

section \<open>Postponed trust decisions\<close>

fun postpone_update :: "keyid \<Rightarrow> jid \<Rightarrow> keyid \<Rightarrow> bool \<Rightarrow> UnprocessedKey list \<Rightarrow> UnprocessedKey list option" where
  "postpone_update i j snd_key t [] = None"
| "postpone_update i j snd_key t (u # us) =
     (if u_id u = i \<and> u_ownerJid u = j \<and> u_senderKeyId u = snd_key
      then Some (u\<lparr>u_trust := t\<rparr> # us)
      else map_option ((#) u) (postpone_update i j snd_key t us))"

definition postpone_one :: "keyid \<Rightarrow> jid \<Rightarrow> bool \<Rightarrow> keyid \<Rightarrow> UnprocessedKey list \<Rightarrow> UnprocessedKey list" where
  "postpone_one snd_key j t i us =
     (case postpone_update i j snd_key t us of
        Some us' \<Rightarrow> us'
      | None \<Rightarrow> \<lparr>u_id = i, u_ownerJid = j, u_senderKeyId = snd_key, u_trust = t\<rparr> # us)"

definition addKeysForPostponedTrustDecisions :: "qstring \<Rightarrow> keyid \<Rightarrow> QXmppTrustMessageKeyOwner list \<Rightarrow>
    QXmppAtmTrustMemoryStorage \<Rightarrow> QXmppAtmTrustMemoryStorage" where
  "addKeysForPostponedTrustDecisions enc snd_key owners s =
     s\<lparr>unprocessed := (unprocessed s)(enc :=
       fold (\<lambda>ko us. fold (postpone_one snd_key (owner_jid ko) False) (distrustedKeys ko)
                       (fold (postpone_one snd_key (owner_jid ko) True) (trustedKeys ko) us))
         owners (unprocessed s enc))\<rparr>"

definition filter_unprocessed :: "qstring \<Rightarrow> (UnprocessedKey \<Rightarrow> bool) \<Rightarrow> QXmppAtmTrustMemoryStorage \<Rightarrow>
    QXmppAtmTrustMemoryStorage" where
  "filter_unprocessed enc P s = s\<lparr>unprocessed := (unprocessed s)(enc := filter P (unprocessed s enc))\<rparr>"

definition removePostponed_keys :: "qstring \<Rightarrow> keyid list \<Rightarrow> keyid list \<Rightarrow> QXmppAtmTrustMemoryStorage \<Rightarrow>
    QXmppAtmTrustMemoryStorage" where
  "removePostponed_keys enc auth distr s =
     filter_unprocessed enc (\<lambda>u. \<not> ((u_trust u \<and> u_id u \<in> set auth) \<or> (\<not> u_trust u \<and> u_id u \<in> set distr))) s"

definition removePostponed_senders :: "qstring \<Rightarrow> keyid list \<Rightarrow> QXmppAtmTrustMemoryStorage \<Rightarrow>
    QXmppAtmTrustMemoryStorage" where
  "removePostponed_senders enc snd_keys s = filter_unprocessed enc (\<lambda>u. u_senderKeyId u \<notin> set snd_keys) s"

definition removePostponed_all :: "qstring \<Rightarrow> QXmppAtmTrustMemoryStorage \<Rightarrow> QXmppAtmTrustMemoryStorage" where
  "removePostponed_all enc s = s\<lparr>unprocessed := (unprocessed s)(enc := [])\<rparr>"

definition keysForPostponedTrustDecisions :: "qstring \<Rightarrow> keyid list \<Rightarrow> QXmppAtmTrustMemoryStorage \<Rightarrow>
    bool \<Rightarrow> owned_keys" where
  "keysForPostponedTrustDecisions enc snd_keys s t =
     rev (map (\<lambda>u. (u_ownerJid u, u_id u))
       (filter (\<lambda>u. u_trust u = t \<and> (u_senderKeyId u \<in> set snd_keys \<or> snd_keys = [])) (unprocessed s enc)))"

definition resetAll_atm :: "qstring \<Rightarrow> QXmppAtmTrustMemoryStorage \<Rightarrow> QXmppAtmTrustMemoryStorage" where
  "resetAll_atm enc s = (resetAll enc s)\<lparr>unprocessed := (unprocessed s)(enc := [])\<rparr>"

section \<open>The interface\<close>

text \<open>
  What the managers rely on: a level per key, \<^const>\<open>Undecided\<close> when nothing is stored, and two
  ways to change levels, by listing keys and by owner and old level.
\<close>

locale trust_storage =
  fixes level :: "qstring \<Rightarrow> jid \<Rightarrow> keyid \<Rightarrow> 's \<Rightarrow> TrustLevel"
    and set_keys :: "qstring \<Rightarrow> owned_keys \<Rightarrow> TrustLevel \<Rightarrow> 's \<Rightarrow> 's"
    and set_owners :: "qstring \<Rightarrow> jid list \<Rightarrow> TrustLevel \<Rightarrow> TrustLevel \<Rightarrow> 's \<Rightarrow> 's"
  assumes level_set_keys:
      "level e j i (set_keys enc ks l s) = (if e = enc \<and> (j, i) \<in> set ks then l else level e j i s)"
    and level_set_owners: "old \<noteq> Undecided \<Longrightarrow>
      level e j i (set_owners enc js old new s) =
        (if e = enc \<and> j \<in> set js \<and> level e j i s = old then new else level e j i s)"
begin

lemma set_keys_idem: "level e j i (set_keys enc ks l (set_keys enc ks l s)) = level e j i (set_keys enc ks l s)"
  by (simp add: level_set_keys)

text \<open>Keys are authenticated first and distrusted afterwards, so distrust wins.\<close>

lemma decide_level:
  "level e j i (set_keys enc ds ManuallyDistrusted (set_keys enc as Authenticated s)) =
     (if e = enc \<and> (j, i) \<in> set ds then ManuallyDistrusted
      else if e = enc \<and> (j, i) \<in> set as then Authenticated else level e j i s)"
  by (simp add: level_set_keys)

text \<open>Under TOAKAFA no key of an owner with an authenticated key stays automatically trusted.\<close>

lemma toakafa_level:
  "j \<in> set js \<Longrightarrow>
   level enc j i (set_owners enc js AutomaticallyTrusted AutomaticallyDistrusted s) \<noteq> AutomaticallyTrusted"
  by (simp add: level_set_owners)

lemma toakafa_frame:
  "j \<notin> set js \<Longrightarrow> level e j i (set_owners enc js AutomaticallyTrusted AutomaticallyDistrusted s) = level e j i s"
  by (simp add: level_set_owners)

end

section \<open>Lemmas: the memory storage implements the interface\<close>

lemma set_first_None: "set_first j i l ks = None \<longleftrightarrow> (\<forall>k \<in> set ks. \<not> (key_id k = i \<and> key_ownerJid k = j))"
  by (induction ks) auto

lemma trustLevel_set_first:
  "set_first j i l ks = Some (m, ks') \<Longrightarrow>
   trustLevel_loop ks' j' i' = (if j' = j \<and> i' = i then l else trustLevel_loop ks j' i')"
  by (induction ks arbitrary: ks') (auto split: if_splits)

lemma trustLevel_setTrustLevel_one:
  "trustLevel e j i (snd (setTrustLevel_one enc l ji ms)) =
     (if e = enc \<and> (j, i) = ji then l else trustLevel e j i (snd ms))"
  by (cases ji; cases ms)
     (auto simp: setTrustLevel_one_def trustLevel_def insert_key_def trustLevel_set_first split: option.splits)

lemma trustLevel_fold_one:
  "trustLevel e j i (snd (fold (setTrustLevel_one enc l) ks ms)) =
     (if e = enc \<and> (j, i) \<in> set ks then l else trustLevel e j i (snd ms))"
  by (induction ks arbitrary: ms) (auto simp: trustLevel_setTrustLevel_one)

lemma trustLevel_setTrustLevel_keys:
  "trustLevel e j i (snd (setTrustLevel_keys enc ks l s)) =
     (if e = enc \<and> (j, i) \<in> set ks then l else trustLevel e j i s)"
  by (simp add: setTrustLevel_keys_def trustLevel_fold_one)

lemma trustLevel_map_owners:
  "old \<noteq> Undecided \<Longrightarrow>
   trustLevel_loop (map (\<lambda>k. if key_ownerJid k \<in> J \<and> key_trustLevel k = old then k\<lparr>key_trustLevel := new\<rparr> else k) ks) j i =
     (if j \<in> J \<and> trustLevel_loop ks j i = old then new else trustLevel_loop ks j i)"
  by (induction ks) auto

lemma trustLevel_setTrustLevel_owners:
  "old \<noteq> Undecided \<Longrightarrow>
   trustLevel e j i (snd (setTrustLevel_owners enc js old new s)) =
     (if e = enc \<and> j \<in> set js \<and> trustLevel e j i s = old then new else trustLevel e j i s)"
  by (auto simp: setTrustLevel_owners_def Let_def trustLevel_def trustLevel_map_owners)

interpretation mem: trust_storage trustLevel
  "\<lambda>enc ks l s. snd (setTrustLevel_keys enc ks l s)"
  "\<lambda>enc js old new s. snd (setTrustLevel_owners enc js old new s)"
  by unfold_locales (auto simp: trustLevel_setTrustLevel_keys trustLevel_setTrustLevel_owners)

definition is_stored :: "qstring \<Rightarrow> jid \<Rightarrow> keyid \<Rightarrow> 'a QXmppTrustMemoryStorage_scheme \<Rightarrow> bool" where
  "is_stored enc j i s \<longleftrightarrow> (\<exists>k \<in> set (stored_keys s enc). key_id k = i \<and> key_ownerJid k = j)"

lemma set_first_stored:
  "set_first j i l ks = Some (m, ks') \<Longrightarrow>
   (\<exists>k \<in> set ks'. key_id k = i' \<and> key_ownerJid k = j') = (\<exists>k \<in> set ks. key_id k = i' \<and> key_ownerJid k = j')"
  by (induction ks arbitrary: ks') (auto split: if_splits)

lemma set_first_modified:
  "set_first j i l ks = Some (m, ks') \<Longrightarrow> m = (trustLevel_loop ks j i \<noteq> l)"
  by (induction ks arbitrary: ks') (auto split: if_splits)

lemma is_stored_setTrustLevel_one:
  "is_stored enc j i (snd (setTrustLevel_one enc l ji ms)) = (is_stored enc j i (snd ms) \<or> (j, i) = ji)"
proof (cases ji; cases ms)
  fix j' i' md s
  assume ji: "ji = (j', i')" and ms: "ms = (md, s)"
  show ?thesis
  proof (cases "set_first j' i' l (stored_keys s enc)")
    case None
    then show ?thesis by (auto simp: ji ms setTrustLevel_one_def is_stored_def insert_key_def)
  next
    case (Some r)
    obtain m ks' where r: "r = (m, ks')" by (cases r)
    have "\<exists>k \<in> set (stored_keys s enc). key_id k = i' \<and> key_ownerJid k = j'"
      using Some set_first_None [of j' i' l "stored_keys s enc"] by auto
    then show ?thesis
      using set_first_stored [of j' i' l "stored_keys s enc" m ks' i j] Some
      by (auto simp: ji ms r setTrustLevel_one_def is_stored_def)
  qed
qed

lemma modified_setTrustLevel_one:
  "set (fst (setTrustLevel_one enc l (j, i) (md, s))) =
     (if is_stored enc j i s \<and> trustLevel enc j i s = l then set md else insert (j, i) (set md))"
proof (cases "set_first j i l (stored_keys s enc)")
  case None
  then have "\<not> is_stored enc j i s" by (auto simp: is_stored_def set_first_None)
  then show ?thesis using None by (simp add: setTrustLevel_one_def)
next
  case (Some r)
  then have "is_stored enc j i s"
    using set_first_None [of j i l "stored_keys s enc"] by (auto simp: is_stored_def)
  then show ?thesis
    using Some set_first_modified [of j i l "stored_keys s enc" "fst r" "snd r"]
    by (cases r) (auto simp: setTrustLevel_one_def trustLevel_def)
qed

lemma modified_fold_one:
  "set (fst (fold (setTrustLevel_one enc l) ks (md, s))) =
     set md \<union> {(j, i) \<in> set ks. \<not> (is_stored enc j i s \<and> trustLevel enc j i s = l)}"
proof (induction ks arbitrary: md s)
  case (Cons ji ks)
  obtain j i where ji: "ji = (j, i)" by (cases ji)
  obtain md' s' where one: "setTrustLevel_one enc l (j, i) (md, s) = (md', s')"
    by (cases "setTrustLevel_one enc l (j, i) (md, s)")
  have "set md' = (if is_stored enc j i s \<and> trustLevel enc j i s = l then set md else insert (j, i) (set md))"
    using modified_setTrustLevel_one [of enc l j i md s] one by simp
  moreover have "is_stored enc j' i' s' = (is_stored enc j' i' s \<or> (j', i') = (j, i))" for j' i'
    using is_stored_setTrustLevel_one [of enc j' i' l "(j, i)" "(md, s)"] one by simp
  moreover have "trustLevel enc j' i' s' = (if (j', i') = (j, i) then l else trustLevel enc j' i' s)" for j' i'
    using trustLevel_setTrustLevel_one [of enc j' i' enc l "(j, i)" "(md, s)"] one by simp
  ultimately show ?case
    using Cons.IH [of md' s'] by (auto simp: ji one)
qed simp

text \<open>
  Setting trust levels in the memory storage: afterwards exactly the listed keys have the
  given level and all other keys keep theirs, for every encryption protocol, and the keys
  reported as modified are exactly the listed keys that were not stored with that level before.
\<close>

lemma setTrustLevel_keys_correct:
  "trustLevel e j i (snd (setTrustLevel_keys enc ks l s)) =
     (if e = enc \<and> (j, i) \<in> set ks then l else trustLevel e j i s) \<and>
   set (fst (setTrustLevel_keys enc ks l s)) =
     {(j, i) \<in> set ks. \<not> (is_stored enc j i s \<and> trustLevel enc j i s = l)}"
  using mem.level_set_keys [of e j i enc ks l s] modified_fold_one [of enc l ks "[]" s]
  by (simp add: setTrustLevel_keys_def)

text \<open>
  Adding a key a second time leaves two entries, and the two readers then disagree:
  \<^verbatim>\<open>trustLevel\<close> returns the level of the newest entry, \<^verbatim>\<open>keys\<close> by owner that of the oldest.
\<close>

lemma duplicate_key_readers_disagree:
  "trustLevel enc j i (addKeys enc j [i] l2 (addKeys enc j [i] l1 empty_storage)) = l2 \<and>
   keys_by_owner enc [j] [] (addKeys enc j [i] l2 (addKeys enc j [i] l1 empty_storage)) j i = Some l1"
  by (simp add: trustLevel_def keys_by_owner_def addKeys_def insert_key_def empty_storage_def selected_def)

end
