(* ===== verification/AtmManager.thy ===== *)
theory AtmManager
  imports TrustStorage Utils "HOL-Library.List_Lexorder" "HOL-Library.Char_ord"
begin

text \<open>
  Automatic Trust Management (XEP-0450), \<^verbatim>\<open>src/client/QXmppAtmManager.cpp\<close>, on top of the
  setters of \<^verbatim>\<open>QXmppTrustManager\<close> and the memory storage.  The state of a manager is the
  storage, the signals \<^verbatim>\<open>trustLevelsChanged\<close> it emitted and the trust messages it asked the
  client to send.  Since the tasks of the memory storage are ready at once, a chain of
  \<^verbatim>\<open>then\<close> continuations is the sequence of its steps.

  \<^verbatim>\<open>authenticate\<close>, \<^verbatim>\<open>makePostponedTrustDecisions\<close> and \<^verbatim>\<open>makeTrustDecisions\<close> call each
  other; they terminate because every round takes entries out of the store of postponed
  decisions.
\<close>

definition ns_atm :: qstring where
  "ns_atm = ''urn:xmpp:atm:1''"

record atm_config =
  cfg_jid :: jid
  cfg_jidBare :: jid
  cfg_carbonsEnabled :: bool

record TrustMessageElement =
  tme_usage :: qstring
  tme_encryption :: qstring
  tme_keyOwners :: "QXmppTrustMessageKeyOwner list"

record atm_message =
  msg_from :: jid
  msg_trustMessageElement :: "TrustMessageElement option"
  msg_senderKey :: "keyid option"

record QXmppAtmManager =
  storage :: QXmppAtmTrustMemoryStorage
  trustLevelsChanged :: "(qstring \<times> owned_keys) list"
  sentTrustMessages :: "(qstring \<times> QXmppTrustMessageKeyOwner list \<times> jid) list"

section \<open>QXmppTrustManager\<close>

definition tm_setTrustLevel_keys :: "qstring \<Rightarrow> owned_keys \<Rightarrow> TrustLevel \<Rightarrow> QXmppAtmManager \<Rightarrow> QXmppAtmManager" where
  "tm_setTrustLevel_keys enc ks l s =
     (case setTrustLevel_keys enc ks l (storage s) of (modifiedKeys, st) \<Rightarrow>
        s\<lparr>storage := st, trustLevelsChanged := trustLevelsChanged s @ [(enc, modifiedKeys)]\<rparr>)"

definition tm_setTrustLevel_owners :: "qstring \<Rightarrow> jid list \<Rightarrow> TrustLevel \<Rightarrow> TrustLevel \<Rightarrow> QXmppAtmManager \<Rightarrow> QXmppAtmManager" where
  "tm_setTrustLevel_owners enc js old new s =
     (case setTrustLevel_owners enc js old new (storage s) of (modifiedKeys, st) \<Rightarrow>
        s\<lparr>storage := st, trustLevelsChanged := trustLevelsChanged s @ [(enc, modifiedKeys)]\<rparr>)"

section \<open>Trust decisions\<close>

definition distrustAutomaticallyTrustedKeys :: "qstring \<Rightarrow> jid list \<Rightarrow> QXmppAtmManager \<Rightarrow> QXmppAtmManager" where
  "distrustAutomaticallyTrustedKeys enc js s =
     tm_setTrustLevel_owners enc js AutomaticallyTrusted AutomaticallyDistrusted s"

definition distrust :: "qstring \<Rightarrow> owned_keys \<Rightarrow> QXmppAtmManager \<Rightarrow> QXmppAtmManager" where
  "distrust enc ks s =
     (if ks = [] then s
      else let s1 = tm_setTrustLevel_keys enc ks ManuallyDistrusted s
           in s1\<lparr>storage := removePostponed_senders enc (map snd ks) (storage s1)\<rparr>)"

definition postponed_count :: "qstring \<Rightarrow> QXmppAtmManager \<Rightarrow> nat" where
  "postponed_count enc s = length (unprocessed (storage s) enc)"

text \<open>What \<^verbatim>\<open>authenticate\<close> does before it turns to the postponed decisions.\<close>

definition authenticate_levels :: "qstring \<Rightarrow> owned_keys \<Rightarrow> QXmppAtmManager \<Rightarrow> QXmppAtmManager" where
  "authenticate_levels enc ks s =
     (let s1 = tm_setTrustLevel_keys enc ks Authenticated s
      in if securityPolicy enc (storage s1) = Toakafa
         then distrustAutomaticallyTrustedKeys enc (remdups (map fst ks)) s1 else s1)"

lemma unprocessed_setTrustLevel_one [simp]:
  "unprocessed (snd (setTrustLevel_one enc l ji ms)) = unprocessed (snd ms)"
  by (cases ji; cases ms) (auto simp: setTrustLevel_one_def insert_key_def split: option.splits)

lemma unprocessed_setTrustLevel_keys [simp]:
  fixes st :: QXmppAtmTrustMemoryStorage
  shows "unprocessed (snd (setTrustLevel_keys enc ks l st)) = unprocessed st"
proof -
  have "unprocessed (snd (fold (setTrustLevel_one enc l) ks ms)) = unprocessed (snd ms)"
    for ms :: "owned_keys \<times> QXmppAtmTrustMemoryStorage"
    by (induction ks arbitrary: ms) auto
  then show ?thesis by (simp add: setTrustLevel_keys_def)
qed

lemma storage_tm [simp]:
  "storage (tm_setTrustLevel_keys enc ks l s) = snd (setTrustLevel_keys enc ks l (storage s))"
  "storage (tm_setTrustLevel_owners enc js old new s) = snd (setTrustLevel_owners enc js old new (storage s))"
  by (simp_all add: tm_setTrustLevel_keys_def tm_setTrustLevel_owners_def split: prod.split)

lemma unprocessed_authenticate_levels [simp]:
  "unprocessed (storage (authenticate_levels enc ks s)) = unprocessed (storage s)"
  by (simp add: authenticate_levels_def Let_def distrustAutomaticallyTrustedKeys_def setTrustLevel_owners_def)

lemma removePostponed_keys_decreases:
  assumes "keysForPostponedTrustDecisions enc snds st True \<noteq> []"
  shows "length (unprocessed (removePostponed_keys enc
      (map snd (keysForPostponedTrustDecisions enc snds st True)) ds st) enc) < length (unprocessed st enc)"
proof -
  from assms obtain u where u: "u \<in> set (unprocessed st enc)" "u_trust u"
    and "u_senderKeyId u \<in> set snds \<or> snds = []"
    by (auto simp: keysForPostponedTrustDecisions_def filter_empty_conv)
  then have "(u_ownerJid u, u_id u) \<in> set (keysForPostponedTrustDecisions enc snds st True)"
    by (auto simp: keysForPostponedTrustDecisions_def)
  then have "u_id u \<in> set (map snd (keysForPostponedTrustDecisions enc snds st True))" by force
  with u show ?thesis
    unfolding removePostponed_keys_def filter_unprocessed_def
    by (auto intro!: length_filter_less [of u])
qed

definition atm_measure ::
    "(qstring \<times> owned_keys \<times> QXmppAtmManager) +
     (qstring \<times> keyid list \<times> QXmppAtmManager) + (qstring \<times> owned_keys \<times> owned_keys \<times> QXmppAtmManager) \<Rightarrow> nat" where
  "atm_measure x = (case x of
      Inl (enc, ks, s) \<Rightarrow> if ks = [] then 0 else 3 * postponed_count enc s + 3
    | Inr (Inl (enc, snds, s)) \<Rightarrow> 3 * postponed_count enc s + 2
    | Inr (Inr (enc, auth, distr, s)) \<Rightarrow> if auth = [] then 1 else 3 * postponed_count enc s + 4)"

function authenticate :: "qstring \<Rightarrow> owned_keys \<Rightarrow> QXmppAtmManager \<Rightarrow> QXmppAtmManager"
  and makePostponedTrustDecisions :: "qstring \<Rightarrow> keyid list \<Rightarrow> QXmppAtmManager \<Rightarrow> QXmppAtmManager"
  and makeTrustDecisions :: "qstring \<Rightarrow> owned_keys \<Rightarrow> owned_keys \<Rightarrow> QXmppAtmManager \<Rightarrow> QXmppAtmManager" where
  "authenticate enc ks s =
     (if ks = [] then s
      else makePostponedTrustDecisions enc (map snd ks) (authenticate_levels enc ks s))"
| "makePostponedTrustDecisions enc snds s =
     (let auth = keysForPostponedTrustDecisions enc snds (storage s) True;
          distr = keysForPostponedTrustDecisions enc snds (storage s) False
      in makeTrustDecisions enc auth distr
           (s\<lparr>storage := removePostponed_keys enc (map snd auth) (map snd distr) (storage s)\<rparr>))"
| "makeTrustDecisions enc auth distr s = distrust enc distr (authenticate enc auth s)"
  by pat_completeness auto

termination
proof (relation "measure atm_measure")
  show "wf (measure atm_measure)" by simp
next
  fix enc snds x xa and s :: QXmppAtmManager
  assume x: "x = keysForPostponedTrustDecisions enc snds (storage s) True"
  show "(Inr (Inr (enc, x, xa, s\<lparr>storage := removePostponed_keys enc (map snd x) (map snd xa) (storage s)\<rparr>)),
      Inr (Inl (enc, snds, s))) \<in> measure atm_measure"
    using removePostponed_keys_decreases [of enc snds "storage s" "map snd xa"]
    by (auto simp: atm_measure_def postponed_count_def x)
qed (auto simp: atm_measure_def postponed_count_def)

declare authenticate.simps [simp del] makePostponedTrustDecisions.simps [simp del]
  makeTrustDecisions.simps [simp del]

section \<open>Incoming trust messages\<close>

record atm_decisions =
  being_authenticated :: owned_keys
  being_distrusted :: owned_keys
  being_postponed :: "QXmppTrustMessageKeyOwner list"

text \<open>One round of the loop over the key owners of a trust message.\<close>

definition handle_keyOwner :: "bool \<Rightarrow> bool \<Rightarrow> jid \<Rightarrow> QXmppTrustMessageKeyOwner \<Rightarrow> atm_decisions \<Rightarrow> atm_decisions" where
  "handle_keyOwner isOwnTrustMessage isSenderKeyAuthenticated senderJid ko d =
     (let keyOwnerJid = owner_jid ko;
          isSenderQualifiedForTrustDecisions = (isOwnTrustMessage \<or> senderJid = keyOwnerJid)
      in if isSenderQualifiedForTrustDecisions
         then if isSenderKeyAuthenticated
              then d\<lparr>being_authenticated := rev (map (\<lambda>k. (keyOwnerJid, k)) (trustedKeys ko)) @ being_authenticated d,
                     being_distrusted := rev (map (\<lambda>k. (keyOwnerJid, k)) (distrustedKeys ko)) @ being_distrusted d\<rparr>
              else d\<lparr>being_postponed := being_postponed d @ [ko]\<rparr>
         else d)"

definition collect_decisions :: "bool \<Rightarrow> bool \<Rightarrow> jid \<Rightarrow> QXmppTrustMessageKeyOwner list \<Rightarrow> atm_decisions" where
  "collect_decisions isOwn isAuth senderJid owners =
     fold (handle_keyOwner isOwn isAuth senderJid) owners
       \<lparr>being_authenticated = [], being_distrusted = [], being_postponed = []\<rparr>"

definition handleMessage :: "atm_config \<Rightarrow> atm_message \<Rightarrow> QXmppAtmManager \<Rightarrow> QXmppAtmManager" where
  "handleMessage cfg message s =
     (case msg_trustMessageElement message of
        None \<Rightarrow> s
      | Some tme \<Rightarrow>
          if tme_usage tme = ns_atm \<and> msg_from message \<noteq> cfg_jid cfg
          then let senderJid = jidToBareJid (msg_from message);
                   senderKey = (case msg_senderKey message of Some k \<Rightarrow> k | None \<Rightarrow> []);
                   enc = tme_encryption tme;
                   isSenderKeyAuthenticated = (trustLevel enc senderJid senderKey (storage s) = Authenticated);
                   isOwnTrustMessage = (senderJid = cfg_jidBare cfg);
                   d = collect_decisions isOwnTrustMessage isSenderKeyAuthenticated senderJid (tme_keyOwners tme);
                   s1 = s\<lparr>storage := addKeysForPostponedTrustDecisions enc senderKey (being_postponed d) (storage s)\<rparr>
               in makeTrustDecisions enc (being_authenticated d) (being_distrusted d) s1
          else s)"

section \<open>Manual trust decisions\<close>

definition sendTrustMessage :: "qstring \<Rightarrow> QXmppTrustMessageKeyOwner list \<Rightarrow> jid \<Rightarrow> QXmppAtmManager \<Rightarrow> QXmppAtmManager" where
  "sendTrustMessage enc owners recipient s =
     s\<lparr>sentTrustMessages := sentTrustMessages s @ [(enc, owners, recipient)]\<rparr>"

text \<open>\<^verbatim>\<open>QMultiHash::values\<close> of a key and \<^verbatim>\<open>uniqueKeys\<close>.\<close>

definition values_of :: "owned_keys \<Rightarrow> jid \<Rightarrow> keyid list" where
  "values_of ks j = map snd (filter (\<lambda>k. fst k = j) ks)"

definition uniqueKeys :: "owned_keys \<Rightarrow> jid list" where
  "uniqueKeys ks = remdups (map fst ks)"

definition without_owner :: "jid \<Rightarrow> owned_keys \<Rightarrow> owned_keys" where
  "without_owner j ks = filter (\<lambda>k. fst k \<noteq> j) ks"

text \<open>The message with all authenticated and distrusted keys for a newly authenticated own endpoint.\<close>

definition sendAllKeys :: "qstring \<Rightarrow> jid \<Rightarrow> QXmppTrustMessageKeyOwner \<Rightarrow> QXmppTrustMessageKeyOwner \<Rightarrow>
    owned_keys \<Rightarrow> owned_keys \<Rightarrow> QXmppAtmManager \<Rightarrow> QXmppAtmManager" where
  "sendAllKeys enc ownJid keyOwner ownKeyOwner authenticatedKeys manuallyDistrustedKeys s =
     (if trustedKeys keyOwner = [] then s
      else let contactsAuthenticatedKeys = without_owner ownJid authenticatedKeys;
               contactsManuallyDistrustedKeys = without_owner ownJid manuallyDistrustedKeys;
               contactJids = remdups_adj (sort (uniqueKeys contactsManuallyDistrustedKeys @
                                                uniqueKeys contactsAuthenticatedKeys));
               contactsKeyOwners = map (\<lambda>j. \<lparr>owner_jid = j, trustedKeys = values_of contactsAuthenticatedKeys j,
                   distrustedKeys = (if contactsManuallyDistrustedKeys \<noteq> []
                                     then values_of contactsManuallyDistrustedKeys j else [])\<rparr>) contactJids;
               allKeyOwners = contactsKeyOwners @
                 (if \<not> (trustedKeys ownKeyOwner = [] \<and> distrustedKeys ownKeyOwner = []) then [ownKeyOwner] else [])
           in if allKeyOwners \<noteq> [] then sendTrustMessage enc allKeyOwners ownJid s else s)"

definition makeTrustDecisions_manual :: "atm_config \<Rightarrow> qstring \<Rightarrow> jid \<Rightarrow> keyid list \<Rightarrow> keyid list \<Rightarrow>
    QXmppAtmManager \<Rightarrow> QXmppAtmManager" where
  "makeTrustDecisions_manual cfg enc keyOwnerJid authIds distrIds s =
     (let keys = keys_by_level enc [Authenticated, ManuallyDistrusted] (storage s);
          authenticatedKeys = keys Authenticated;
          manuallyDistrustedKeys = keys ManuallyDistrusted;
          ownJid = cfg_jidBare cfg;
          ownAuthenticatedKeys = values_of authenticatedKeys ownJid;
          modifiedAuthenticatedKeys = filter (\<lambda>k. (keyOwnerJid, k) \<notin> set authenticatedKeys) authIds;
          modifiedManuallyDistrustedKeys = filter (\<lambda>k. (keyOwnerJid, k) \<notin> set manuallyDistrustedKeys) distrIds
      in if modifiedAuthenticatedKeys = [] \<and> modifiedManuallyDistrustedKeys = [] then s
         else let keyOwner = \<lparr>owner_jid = keyOwnerJid, trustedKeys = modifiedAuthenticatedKeys,
                              distrustedKeys = modifiedManuallyDistrustedKeys\<rparr>;
                  keysBeingAuthenticated = rev (map (\<lambda>k. (keyOwnerJid, k)) modifiedAuthenticatedKeys);
                  keysBeingDistrusted = rev (map (\<lambda>k. (keyOwnerJid, k)) modifiedManuallyDistrustedKeys);
                  ownKeyOwner = \<lparr>owner_jid = ownJid, trustedKeys = ownAuthenticatedKeys,
                                 distrustedKeys = values_of manuallyDistrustedKeys ownJid\<rparr>
              in if keyOwnerJid = ownJid
                 then let contactsAuthenticatedKeys = without_owner ownJid authenticatedKeys;
                          s1 = fold (sendTrustMessage enc [keyOwner]) (uniqueKeys contactsAuthenticatedKeys) s;
                          s2 = (if \<not> cfg_carbonsEnabled cfg \<or>
                                   (contactsAuthenticatedKeys = [] \<and> ownAuthenticatedKeys \<noteq> [])
                                then sendTrustMessage enc [keyOwner] ownJid s1 else s1);
                          s3 = makeTrustDecisions enc keysBeingAuthenticated keysBeingDistrusted s2
                      in sendAllKeys enc ownJid keyOwner ownKeyOwner authenticatedKeys manuallyDistrustedKeys s3
                 else let s1 = (if ownAuthenticatedKeys \<noteq> [] then sendTrustMessage enc [keyOwner] ownJid s else s);
                          s2 = makeTrustDecisions enc keysBeingAuthenticated keysBeingDistrusted s1
                      in if trustedKeys keyOwner \<noteq> [] \<and>
                            \<not> (trustedKeys ownKeyOwner = [] \<and> distrustedKeys ownKeyOwner = [])
                         then sendTrustMessage enc [ownKeyOwner] keyOwnerJid s2 else s2)"

section \<open>Lemmas: levels\<close>

abbreviation lvl :: "qstring \<Rightarrow> jid \<Rightarrow> keyid \<Rightarrow> QXmppAtmManager \<Rightarrow> TrustLevel" where
  "lvl enc j i s \<equiv> trustLevel enc j i (storage s)"

lemma trustLevel_unprocessed [simp]:
  "trustLevel e j i (filter_unprocessed enc P st) = trustLevel e j i st"
  "trustLevel e j i (removePostponed_keys enc as ds st) = trustLevel e j i st"
  "trustLevel e j i (removePostponed_senders enc sk st) = trustLevel e j i st"
  "trustLevel e j i (addKeysForPostponedTrustDecisions enc k owners st) = trustLevel e j i st"
  by (simp_all add: trustLevel_def filter_unprocessed_def removePostponed_keys_def removePostponed_senders_def
      addKeysForPostponedTrustDecisions_def)

lemma lvl_distrust:
  "lvl e j i (distrust enc ks s) = (if e = enc \<and> (j, i) \<in> set ks then ManuallyDistrusted else lvl e j i s)"
  by (simp add: distrust_def Let_def mem.level_set_keys)

lemma lvl_authenticate_levels:
  "lvl e j i (authenticate_levels enc ks s) =
     (if e = enc \<and> (j, i) \<in> set ks then Authenticated
      else if e = enc \<and> j \<in> fst ` set ks \<and> securityPolicy enc (storage s) = Toakafa \<and>
              lvl e j i s = AutomaticallyTrusted then AutomaticallyDistrusted
      else lvl e j i s)"
proof -
  have "securityPolicies (snd (fold (setTrustLevel_one enc l) ks ms)) = securityPolicies (snd ms)"
    for l and ms :: "owned_keys \<times> QXmppAtmTrustMemoryStorage"
    by (induction ks arbitrary: ms)
       (auto simp: setTrustLevel_one_def insert_key_def split: option.splits prod.splits)
  then have "securityPolicy enc (snd (setTrustLevel_keys enc ks l (storage s))) = securityPolicy enc (storage s)" for l
    by (simp add: securityPolicy_def setTrustLevel_keys_def)
  then show ?thesis
    by (auto simp: authenticate_levels_def Let_def distrustAutomaticallyTrustedKeys_def mem.level_set_owners
        mem.level_set_keys)
qed

text \<open>
  A set of levels that trust decisions do not leave: they only ever assign
  \<^const>\<open>Authenticated\<close>, \<^const>\<open>ManuallyDistrusted\<close> and, in place of
  \<^const>\<open>AutomaticallyTrusted\<close>, \<^const>\<open>AutomaticallyDistrusted\<close>.
\<close>

definition closed_levels :: "TrustLevel set \<Rightarrow> bool" where
  "closed_levels L \<longleftrightarrow> Authenticated \<in> L \<and> ManuallyDistrusted \<in> L \<and>
     (AutomaticallyTrusted \<in> L \<longrightarrow> AutomaticallyDistrusted \<in> L)"

lemmas atm_induct = authenticate_makePostponedTrustDecisions_makeTrustDecisions.induct

lemma lvl_removePostponed [simp]:
  "lvl e j i (s\<lparr>storage := removePostponed_keys enc as ds (storage s)\<rparr>) = lvl e j i s"
  by simp

lemma levels_closed:
  assumes "closed_levels L"
  shows "lvl e j i s \<in> L \<Longrightarrow> lvl e j i (authenticate enc ks s) \<in> L"
    and "lvl e j i s \<in> L \<Longrightarrow> lvl e j i (makePostponedTrustDecisions enc snds s) \<in> L"
    and "lvl e j i s \<in> L \<Longrightarrow> lvl e j i (makeTrustDecisions enc auth distr s) \<in> L"
proof (induction enc ks s and enc snds s and enc auth distr s rule: atm_induct)
  case (1 enc ks s)
  have "lvl e j i (authenticate_levels enc ks s) \<in> L"
    using 1(2) assms by (auto simp: lvl_authenticate_levels closed_levels_def)
  then show ?case using 1 by (subst authenticate.simps) simp
next
  case (2 enc snds s)
  then show ?case by (subst makePostponedTrustDecisions.simps) (simp add: Let_def)
next
  case (3 enc auth distr s)
  then show ?case using assms by (simp add: makeTrustDecisions.simps lvl_distrust closed_levels_def)
qed

text \<open>Keys whose owner is neither listed nor waiting in the store keep their level.\<close>

definition owner_waiting :: "qstring \<Rightarrow> jid \<Rightarrow> QXmppAtmManager \<Rightarrow> bool" where
  "owner_waiting enc j s \<longleftrightarrow> (\<exists>u \<in> set (unprocessed (storage s) enc). u_ownerJid u = j)"

lemma owner_waiting_authenticate_levels [simp]:
  "owner_waiting enc j (authenticate_levels enc' ks s) = owner_waiting enc j s"
  by (simp add: owner_waiting_def)

lemma owner_waiting_remove:
  "owner_waiting enc j (s\<lparr>storage := removePostponed_keys enc' as ds (storage s)\<rparr>) \<Longrightarrow> owner_waiting enc j s"
  by (auto simp: owner_waiting_def removePostponed_keys_def filter_unprocessed_def split: if_splits)

lemma postponed_owner_waiting:
  "(j, i) \<in> set (keysForPostponedTrustDecisions enc snds (storage s) t) \<Longrightarrow> owner_waiting enc j s"
  by (auto simp: owner_waiting_def keysForPostponedTrustDecisions_def)

lemma levels_frame:
  shows "e \<noteq> enc \<or> j \<notin> fst ` set ks \<and> \<not> owner_waiting enc j s \<Longrightarrow>
      lvl e j i (authenticate enc ks s) = lvl e j i s"
    and "e \<noteq> enc \<or> \<not> owner_waiting enc j s \<Longrightarrow>
      lvl e j i (makePostponedTrustDecisions enc snds s) = lvl e j i s"
    and "e \<noteq> enc \<or> j \<notin> fst ` set auth \<and> j \<notin> fst ` set distr \<and> \<not> owner_waiting enc j s \<Longrightarrow>
      lvl e j i (makeTrustDecisions enc auth distr s) = lvl e j i s"
proof (induction enc ks s and enc snds s and enc auth distr s rule: atm_induct)
  case (1 enc ks s)
  then show ?case
    by (subst authenticate.simps) (force simp: lvl_authenticate_levels)
next
  case (2 enc snds s)
  have "lvl e j i (makeTrustDecisions enc
      (keysForPostponedTrustDecisions enc snds (storage s) True)
      (keysForPostponedTrustDecisions enc snds (storage s) False)
      (s\<lparr>storage := removePostponed_keys enc
        (map snd (keysForPostponedTrustDecisions enc snds (storage s) True))
        (map snd (keysForPostponedTrustDecisions enc snds (storage s) False)) (storage s)\<rparr>)) = lvl e j i s"
    using 2(2) by (subst 2(1) [OF refl refl]) (auto dest: postponed_owner_waiting owner_waiting_remove)
  then show ?case by (subst makePostponedTrustDecisions.simps) (simp add: Let_def)
next
  case (3 enc auth distr s)
  then show ?case by (force simp: makeTrustDecisions.simps lvl_distrust)
qed

lemma unprocessed_shrinks:
  shows "set (unprocessed (storage (authenticate enc ks s)) e) \<subseteq> set (unprocessed (storage s) e)"
    and "set (unprocessed (storage (makePostponedTrustDecisions enc snds s)) e) \<subseteq> set (unprocessed (storage s) e)"
    and "set (unprocessed (storage (makeTrustDecisions enc auth distr s)) e) \<subseteq> set (unprocessed (storage s) e)"
proof (induction enc ks s and enc snds s and enc auth distr s rule: atm_induct)
  case (1 enc ks s)
  then show ?case by (subst authenticate.simps) simp
next
  case (2 enc snds s)
  then show ?case
    by (subst makePostponedTrustDecisions.simps)
       (fastforce simp: Let_def removePostponed_keys_def filter_unprocessed_def split: if_splits)
next
  case (3 enc auth distr s)
  then show ?case
    by (auto simp: makeTrustDecisions.simps distrust_def Let_def removePostponed_senders_def filter_unprocessed_def)
qed

section \<open>Lemmas: trust messages\<close>

lemma makeTrustDecisions_nothing [simp]: "makeTrustDecisions enc [] [] s = s"
  by (simp add: makeTrustDecisions.simps authenticate.simps distrust_def)

lemma collect_fold:
  "fold (handle_keyOwner isOwn isAuth j) owners d = d' \<Longrightarrow>
   (\<not> isAuth \<longrightarrow> being_authenticated d' = being_authenticated d \<and> being_distrusted d' = being_distrusted d) \<and>
   (isAuth \<longrightarrow> being_postponed d' = being_postponed d) \<and>
   (\<not> isOwn \<longrightarrow> fst ` set (being_authenticated d') \<subseteq> insert j (fst ` set (being_authenticated d)) \<and>
     fst ` set (being_distrusted d') \<subseteq> insert j (fst ` set (being_distrusted d)) \<and>
     owner_jid ` set (being_postponed d') \<subseteq> insert j (owner_jid ` set (being_postponed d)))"
proof (induction owners arbitrary: d)
  case (Cons ko owners)
  define d1 where "d1 = handle_keyOwner isOwn isAuth j ko d"
  have "fold (handle_keyOwner isOwn isAuth j) owners d1 = d'" using Cons.prems by (simp add: d1_def)
  from Cons.IH [OF this] show ?case
    by (cases isOwn; cases isAuth) (auto simp: d1_def handle_keyOwner_def Let_def split: if_splits)
qed auto

lemma collect_unauthenticated [simp]:
  "being_authenticated (collect_decisions isOwn False j owners) = []"
  "being_distrusted (collect_decisions isOwn False j owners) = []"
  using collect_fold [of isOwn False j owners] by (simp_all add: collect_decisions_def)

lemma collect_authenticated [simp]: "being_postponed (collect_decisions isOwn True j owners) = []"
  using collect_fold [of isOwn True j owners] by (simp add: collect_decisions_def)

lemma collect_contact:
  "fst ` set (being_authenticated (collect_decisions False isAuth j owners)) \<subseteq> {j}"
  "fst ` set (being_distrusted (collect_decisions False isAuth j owners)) \<subseteq> {j}"
  "owner_jid ` set (being_postponed (collect_decisions False isAuth j owners)) \<subseteq> {j}"
  using collect_fold [of False isAuth j owners "\<lparr>being_authenticated = [], being_distrusted = [], being_postponed = []\<rparr>"]
  by (simp_all add: collect_decisions_def)

lemma addPostponed_nothing [simp]: "addKeysForPostponedTrustDecisions enc k [] st = st"
  by (simp add: addKeysForPostponedTrustDecisions_def)

definition sender_key :: "atm_message \<Rightarrow> keyid" where
  "sender_key message = (case msg_senderKey message of Some k \<Rightarrow> k | None \<Rightarrow> [])"

lemma handleMessage_unauthenticated:
  assumes "msg_trustMessageElement message = Some tme" and "tme_usage tme = ns_atm"
    and "msg_from message \<noteq> cfg_jid cfg"
    and "lvl (tme_encryption tme) (jidToBareJid (msg_from message)) (sender_key message) s \<noteq> Authenticated"
  shows "handleMessage cfg message s = s\<lparr>storage := addKeysForPostponedTrustDecisions (tme_encryption tme)
      (sender_key message) (being_postponed (collect_decisions (jidToBareJid (msg_from message) = cfg_jidBare cfg)
        False (jidToBareJid (msg_from message)) (tme_keyOwners tme))) (storage s)\<rparr>"
  using assms by (simp add: handleMessage_def Let_def sender_key_def)

lemma handleMessage_authenticated:
  assumes "msg_trustMessageElement message = Some tme" and "tme_usage tme = ns_atm"
    and "msg_from message \<noteq> cfg_jid cfg"
    and "lvl (tme_encryption tme) (jidToBareJid (msg_from message)) (sender_key message) s = Authenticated"
  shows "handleMessage cfg message s = (let d = collect_decisions (jidToBareJid (msg_from message) = cfg_jidBare cfg)
        True (jidToBareJid (msg_from message)) (tme_keyOwners tme)
      in makeTrustDecisions (tme_encryption tme) (being_authenticated d) (being_distrusted d) s)"
  using assms by (simp add: handleMessage_def Let_def sender_key_def)

lemma handleMessage_inactive:
  "\<not> (\<exists>tme. msg_trustMessageElement message = Some tme \<and> tme_usage tme = ns_atm \<and> msg_from message \<noteq> cfg_jid cfg) \<Longrightarrow>
   handleMessage cfg message s = s"
  by (auto simp: handleMessage_def split: option.split)

lemma unauthenticated_lvl:
  assumes "\<And>tme. msg_trustMessageElement message = Some tme \<Longrightarrow>
    lvl (tme_encryption tme) (jidToBareJid (msg_from message)) (sender_key message) s \<noteq> Authenticated"
  shows "lvl e j i (handleMessage cfg message s) = lvl e j i s"
proof (cases "msg_trustMessageElement message")
  case None
  then show ?thesis by (simp add: handleMessage_def)
next
  case (Some tme)
  show ?thesis
  proof (cases "tme_usage tme = ns_atm \<and> msg_from message \<noteq> cfg_jid cfg")
    case True
    then show ?thesis
      using handleMessage_unauthenticated [OF Some _ _ assms [OF Some], of cfg] by simp
  next
    case False
    with Some show ?thesis by (simp add: handleMessage_inactive)
  qed
qed

section \<open>Properties\<close>

text \<open>
  C9.  A trust message changes no trust level at all unless the key that encrypted it is
  authenticated for the sender at that moment; it is at most remembered for later.
\<close>

theorem unauthenticated_sender_changes_no_level:
  assumes "\<And>tme. msg_trustMessageElement message = Some tme \<Longrightarrow>
    trustLevel (tme_encryption tme) (jidToBareJid (msg_from message)) (sender_key message) (storage s) \<noteq> Authenticated"
  shows "trustLevel e j i (storage (handleMessage cfg message s)) = trustLevel e j i (storage s)"
  using assms by (rule unauthenticated_lvl)

text \<open>
  C10.  A trust message from a contact can change trust levels only of keys of that contact and
  of owners for whom a decision was already waiting in the store of postponed decisions; the
  keys of everyone else keep their levels.
\<close>

theorem contact_message_scope:
  assumes "jidToBareJid (msg_from message) \<noteq> cfg_jidBare cfg" and "j \<noteq> jidToBareJid (msg_from message)"
    and "\<And>enc u. u \<in> set (unprocessed (storage s) enc) \<Longrightarrow> u_ownerJid u \<noteq> j"
  shows "trustLevel e j i (storage (handleMessage cfg message s)) = trustLevel e j i (storage s)"
proof (cases "\<exists>tme. msg_trustMessageElement message = Some tme \<and>
    lvl (tme_encryption tme) (jidToBareJid (msg_from message)) (sender_key message) s = Authenticated")
  case False
  then show ?thesis by (intro unauthenticated_lvl) auto
next
  case True
  then obtain tme where tme: "msg_trustMessageElement message = Some tme"
    and auth: "lvl (tme_encryption tme) (jidToBareJid (msg_from message)) (sender_key message) s = Authenticated"
    by blast
  show ?thesis
  proof (cases "tme_usage tme = ns_atm \<and> msg_from message \<noteq> cfg_jid cfg")
    case active: True
    let ?d = "collect_decisions False True (jidToBareJid (msg_from message)) (tme_keyOwners tme)"
    have "\<not> owner_waiting (tme_encryption tme) j s" using assms(3) by (auto simp: owner_waiting_def)
    moreover have "j \<notin> fst ` set (being_authenticated ?d)" "j \<notin> fst ` set (being_distrusted ?d)"
      using collect_contact [of True "jidToBareJid (msg_from message)" "tme_keyOwners tme"] assms(2) by blast+
    ultimately have "lvl e j i (makeTrustDecisions (tme_encryption tme) (being_authenticated ?d) (being_distrusted ?d) s) =
        lvl e j i s"
      by (intro levels_frame(3)) simp
    then show ?thesis
      using handleMessage_authenticated [OF tme _ _ auth, of cfg] active assms(1) by (simp add: Let_def)
  next
    case False
    with tme show ?thesis by (simp add: handleMessage_inactive)
  qed
qed

text \<open>The decisions that waited for the listed sender keys are taken out of the store.\<close>

lemma makePostponed_consumes:
  assumes "snds \<noteq> []" and "u \<in> set (unprocessed (storage (makePostponedTrustDecisions enc snds s)) enc)"
  shows "u_senderKeyId u \<notin> set snds"
proof
  assume snd: "u_senderKeyId u \<in> set snds"
  let ?k = "\<lambda>t. keysForPostponedTrustDecisions enc snds (storage s) t"
  let ?st = "removePostponed_keys enc (map snd (?k True)) (map snd (?k False)) (storage s)"
  have "u \<in> set (unprocessed ?st enc)"
    using assms(2) unprocessed_shrinks(3) [of enc "?k True" "?k False" "s\<lparr>storage := ?st\<rparr>" enc]
    by (subst (asm) makePostponedTrustDecisions.simps) (auto simp: Let_def)
  then have u: "u \<in> set (unprocessed (storage s) enc)"
      "\<not> (u_trust u \<and> u_id u \<in> set (map snd (?k True)))" "\<not> (\<not> u_trust u \<and> u_id u \<in> set (map snd (?k False)))"
    by (auto simp: removePostponed_keys_def filter_unprocessed_def)
  have "(u_ownerJid u, u_id u) \<in> set (?k (u_trust u))"
    using u(1) snd by (auto simp: keysForPostponedTrustDecisions_def)
  then have "u_id u \<in> set (map snd (?k (u_trust u)))" by force
  with u(2,3) show False by (cases "u_trust u") auto
qed

lemma authenticate_consumes:
  assumes "u \<in> set (unprocessed (storage (authenticate enc ks s)) enc)"
  shows "u_senderKeyId u \<notin> snd ` set ks"
  using assms makePostponed_consumes [of "map snd ks" u enc "authenticate_levels enc ks s"]
  by (subst (asm) authenticate.simps) (auto split: if_splits)

lemma distrust_consumes:
  assumes "u \<in> set (unprocessed (storage (distrust enc ks s)) enc)"
  shows "u_senderKeyId u \<notin> snd ` set ks \<and> u \<in> set (unprocessed (storage s) enc)"
  using assms by (auto simp: distrust_def Let_def removePostponed_senders_def filter_unprocessed_def split: if_splits)

lemma authenticated_or_distrusted:
  assumes "(j, i) \<in> set ks"
  shows "lvl enc j i (authenticate enc ks s) \<in> {Authenticated, ManuallyDistrusted}"
proof -
  have "lvl enc j i (makePostponedTrustDecisions enc (map snd ks) (authenticate_levels enc ks s))
      \<in> {Authenticated, ManuallyDistrusted}"
    using assms by (intro levels_closed(2)) (auto simp: closed_levels_def lvl_authenticate_levels)
  then show ?thesis using assms by (subst authenticate.simps) auto
qed

text \<open>A configuration and two states for the examples.\<close>

definition alice_config :: atm_config where
  "alice_config = \<lparr>cfg_jid = ''alice@a/pc'', cfg_jidBare = ''alice@a'', cfg_carbonsEnabled = False\<rparr>"

definition trust_msg :: "jid \<Rightarrow> keyid \<Rightarrow> jid \<Rightarrow> keyid list \<Rightarrow> keyid list \<Rightarrow> atm_message" where
  "trust_msg from_jid k owner ts ds = \<lparr>msg_from = from_jid,
     msg_trustMessageElement = Some \<lparr>tme_usage = ns_atm, tme_encryption = ''omemo'',
       tme_keyOwners = [\<lparr>owner_jid = owner, trustedKeys = ts, distrustedKeys = ds\<rparr>]\<rparr>,
     msg_senderKey = Some k\<rparr>"

definition bob_authenticated :: QXmppAtmManager where
  "bob_authenticated = \<lparr>storage = setSecurityPolicy ''omemo'' Toakafa
       (addKeys ''omemo'' ''bob@b'' [[1]] Authenticated (addKeys ''omemo'' ''bob@b'' [[2], [3]] AutomaticallyTrusted empty_storage)),
     trustLevelsChanged = [], sentTrustMessages = []\<rparr>"

theorem unauthenticated_sender_changes_no_level_witness:
  "trustLevel ''omemo'' ''bob@b'' [3] (storage (handleMessage alice_config
     (trust_msg ''bob@b/x'' [2] ''bob@b'' [[3]] []) bob_authenticated)) =
   trustLevel ''omemo'' ''bob@b'' [3] (storage bob_authenticated)"
  by (rule unauthenticated_sender_changes_no_level)
     (simp add: trust_msg_def sender_key_def bob_authenticated_def jidToBareJid_def, code_simp)

theorem contact_message_scope_witness:
  "trustLevel ''omemo'' ''carol@c'' [5] (storage (handleMessage alice_config
     (trust_msg ''bob@b/x'' [1] ''bob@b'' [[3]] []) bob_authenticated)) =
   trustLevel ''omemo'' ''carol@c'' [5] (storage bob_authenticated)"
proof (rule contact_message_scope)
  show "jidToBareJid (msg_from (trust_msg ''bob@b/x'' [1] ''bob@b'' [[3]] [])) \<noteq> cfg_jidBare alice_config"
    and "''carol@c'' \<noteq> jidToBareJid (msg_from (trust_msg ''bob@b/x'' [1] ''bob@b'' [[3]] []))"
    by code_simp+
qed (simp add: bob_authenticated_def empty_storage_def addKeys_def insert_key_def setSecurityPolicy_def)



text \<open>
  C11.  Under the security policy TOAKAFA, trust on the first key ends with the first
  authentication: once a key of an owner was authenticated, no key of that owner is
  automatically trusted, whatever postponed decisions the authentication released.
\<close>

theorem toakafa_ends_automatic_trust:
  assumes "securityPolicy enc (storage s) = Toakafa" and "j \<in> fst ` set ks"
  shows "trustLevel enc j i (storage (authenticate enc ks s)) \<noteq> AutomaticallyTrusted"
proof -
  have "lvl enc j i (authenticate_levels enc ks s) \<in> - {AutomaticallyTrusted}"
    using assms by (auto simp: lvl_authenticate_levels)
  then have "lvl enc j i (makePostponedTrustDecisions enc (map snd ks) (authenticate_levels enc ks s)) \<in> - {AutomaticallyTrusted}"
    by (rule levels_closed(2) [rotated]) (simp add: closed_levels_def)
  then show ?thesis using assms(2) by (subst authenticate.simps) auto
qed

theorem toakafa_ends_automatic_trust_witness:
  "trustLevel ''omemo'' ''bob@b'' [2] (storage bob_authenticated) = AutomaticallyTrusted \<and>
   trustLevel ''omemo'' ''bob@b'' [2] (storage (authenticate ''omemo'' [(''bob@b'', [3])] bob_authenticated))
     \<noteq> AutomaticallyTrusted"
proof
  show "trustLevel ''omemo'' ''bob@b'' [2] (storage bob_authenticated) = AutomaticallyTrusted" by code_simp
  show "trustLevel ''omemo'' ''bob@b'' [2] (storage (authenticate ''omemo'' [(''bob@b'', [3])] bob_authenticated))
      \<noteq> AutomaticallyTrusted"
    by (rule toakafa_ends_automatic_trust) (code_simp, simp)
qed

text \<open>
  The postponed decisions are stored under the sender's key only, not under its owner: a
  decision that an unauthenticated endpoint of the own account asked for is carried out as soon
  as a contact, whose key is authenticated, lists that key as one of the contact's own.  A key of
  a third person becomes authenticated although the endpoint that vouched for it never was.
\<close>

lemma contact_releases_foreign_decision:
  "let s1 = handleMessage alice_config (trust_msg ''alice@a/rogue'' [9] ''carol@c'' [[7]] []) bob_authenticated;
       s2 = handleMessage alice_config (trust_msg ''bob@b/x'' [1] ''bob@b'' [[9]] []) s1
   in trustLevel ''omemo'' ''carol@c'' [7] (storage s1) = Undecided \<and>
      trustLevel ''omemo'' ''alice@a'' [9] (storage s2) = Undecided \<and>
      trustLevel ''omemo'' ''carol@c'' [7] (storage s2) = Authenticated"
  by code_simp

end
