(* ===== verification/StunMessage.thy ===== *)
theory StunMessage
  imports Dom Crc32 Utils
begin

unbundle bit_operations_syntax

text \<open>
  STUN and TURN messages, \<^verbatim>\<open>QXmppStunMessage\<close> of \<^verbatim>\<open>src/base/QXmppStun.cpp\<close>: the fields
  and setters, the encoder with its optional MESSAGE-INTEGRITY and FINGERPRINT, the decoder
  with its loop over the attributes, and the priorities and address tests of ICE candidates.

  What the code takes from elsewhere is collected in an environment: the hash function
  SHA-1, the conversions of strings to and from UTF-8, and the contents of memory that a
  \<^verbatim>\<open>resize\<close> or a local array leaves uninitialised.
\<close>

section \<open>Data\<close>

record stun_env =
  sha1 :: "bytes \<Rightarrow> bytes"
  toUtf8 :: "qstring \<Rightarrow> bytes"
  fromUtf8 :: "bytes \<Rightarrow> qstring"
  uninit :: "nat \<Rightarrow> byte"

definition STUN_ID_SIZE :: nat where "STUN_ID_SIZE = 12"
definition STUN_MAGIC :: "32 word" where "STUN_MAGIC = 0x2112A442"
definition STUN_HEADER :: nat where "STUN_HEADER = 20"
definition STUN_IPV4 :: byte where "STUN_IPV4 = 1"
definition STUN_IPV6 :: byte where "STUN_IPV6 = 2"

datatype AttributeType = MappedAddress | ChangeRequest | SourceAddress | ChangedAddress | Username
  | MessageIntegrity | ErrorCode | ChannelNumber | Lifetime | XorPeerAddress | DataAttr | Realm | Nonce
  | XorRelayedAddress | EvenPort | RequestedTransport | XorMappedAddress | ReservationToken | Priority
  | UseCandidate | Software | Fingerprint | IceControlled | IceControlling | OtherAddress

fun attr_code :: "AttributeType \<Rightarrow> 16 word" where
  "attr_code MappedAddress = 0x0001"
| "attr_code ChangeRequest = 0x0003"
| "attr_code SourceAddress = 0x0004"
| "attr_code ChangedAddress = 0x0005"
| "attr_code Username = 0x0006"
| "attr_code MessageIntegrity = 0x0008"
| "attr_code ErrorCode = 0x0009"
| "attr_code ChannelNumber = 0x000c"
| "attr_code Lifetime = 0x000d"
| "attr_code XorPeerAddress = 0x0012"
| "attr_code DataAttr = 0x0013"
| "attr_code Realm = 0x0014"
| "attr_code Nonce = 0x0015"
| "attr_code XorRelayedAddress = 0x0016"
| "attr_code EvenPort = 0x0018"
| "attr_code RequestedTransport = 0x0019"
| "attr_code XorMappedAddress = 0x0020"
| "attr_code ReservationToken = 0x0022"
| "attr_code Priority = 0x0024"
| "attr_code UseCandidate = 0x0025"
| "attr_code Software = 0x8022"
| "attr_code Fingerprint = 0x8028"
| "attr_code IceControlled = 0x8029"
| "attr_code IceControlling = 0x802a"
| "attr_code OtherAddress = 0x802c"

text \<open>
  \<^verbatim>\<open>QHostAddress\<close>: the null address, the wildcard of both protocols, an IPv4 address and
  the 16 bytes of an IPv6 address.
\<close>

datatype host = NullHost | AnyHost | IPv4 "32 word" | IPv6 bytes

datatype protocol = UnknownProtocol | AnyIPProtocol | IPv4Protocol | IPv6Protocol

fun host_protocol :: "host \<Rightarrow> protocol" where
  "host_protocol NullHost = UnknownProtocol"
| "host_protocol AnyHost = AnyIPProtocol"
| "host_protocol (IPv4 _) = IPv4Protocol"
| "host_protocol (IPv6 _) = IPv6Protocol"

text \<open>\<^verbatim>\<open>toIPv4Address\<close> also converts an IPv4-mapped IPv6 address; it is 0 for any other.\<close>

fun toIPv4Address :: "host \<Rightarrow> 32 word" where
  "toIPv4Address (IPv4 a) = a"
| "toIPv4Address (IPv6 b) =
     (if take 12 b = replicate 10 0 @ [0xff, 0xff] then fst (read_u32 (drop 12 b)) else 0)"
| "toIPv4Address _ = 0"

fun toIPv6Address :: "host \<Rightarrow> bytes" where
  "toIPv6Address (IPv6 b) = b"
| "toIPv6Address (IPv4 a) = replicate 10 0 @ [0xff, 0xff] @ be32 a"
| "toIPv6Address _ = replicate 16 0"

section \<open>Candidates and addresses\<close>

datatype candidate_type = HostType | PeerReflexiveType | ServerReflexiveType | RelayedType

definition type_preference :: "candidate_type \<Rightarrow> int" where
  "type_preference t = (case t of HostType \<Rightarrow> 126 | PeerReflexiveType \<Rightarrow> 110 | ServerReflexiveType \<Rightarrow> 100 | _ \<Rightarrow> 0)"

text \<open>The arithmetic is that of \<^verbatim>\<open>int\<close>; the result is converted to 32 bits.\<close>

definition candidatePriority :: "candidate_type \<Rightarrow> int \<Rightarrow> int \<Rightarrow> 32 word" where
  "candidatePriority t component localPref =
     word_of_int (2 ^ 24 * type_preference t + 2 ^ 8 * localPref + (256 - component))"

definition isIPv6LinkLocalAddress :: "host \<Rightarrow> bool" where
  "isIPv6LinkLocalAddress addr =
     (if host_protocol addr \<noteq> IPv6Protocol then False
      else let ipv6addr = toIPv6Address addr
           in (push_bit 8 (ucast (ipv6addr ! 0)) + ucast (ipv6addr ! 1) :: 32 word) AND 0xffc0 = 0xfe80)"

definition isLoopbackAddress :: "host \<Rightarrow> bool" where
  "isLoopbackAddress addr \<longleftrightarrow> toIPv4Address addr AND 0xff000000 = 0x7f000000"

definition isCompatibleAddress :: "host \<Rightarrow> host \<Rightarrow> bool" where
  "isCompatibleAddress a1 a2 \<longleftrightarrow>
     host_protocol a1 = host_protocol a2 \<and> isIPv6LinkLocalAddress a1 = isIPv6LinkLocalAddress a2"

text \<open>The 16 bytes XORed to an IPv6 address, and the 16 bits XORed to a port.\<close>

definition xpad :: "bytes \<Rightarrow> bytes" where
  "xpad xorId = be32 STUN_MAGIC @ xorId"

definition xor_bytes :: "bytes \<Rightarrow> bytes \<Rightarrow> bytes" where
  "xor_bytes = map2 (XOR)"

definition xport :: "16 word" where
  "xport = ucast (drop_bit 16 STUN_MAGIC)"

text \<open>
  \<^verbatim>\<open>QByteArray::resize\<close>, which does not initialise the bytes it adds, and \<^verbatim>\<open>readRawData\<close>
  into given memory, of which the bytes the stream cannot provide keep their contents.
\<close>

definition resize :: "stun_env \<Rightarrow> nat \<Rightarrow> bytes \<Rightarrow> bytes" where
  "resize env n old = take n old @ map (uninit env) [length old..<n]"

definition read_into :: "bytes \<Rightarrow> bytes \<Rightarrow> bytes \<times> bytes" where
  "read_into mem s = (take (length mem) s @ drop (length s) mem, drop (length mem) s)"

text \<open>Success, the address and port as the call leaves them, and the rest of the stream.\<close>

definition decodeAddress :: "stun_env \<Rightarrow> nat \<Rightarrow> host \<Rightarrow> 16 word \<Rightarrow> bytes \<Rightarrow> bytes \<Rightarrow> bool \<times> host \<times> 16 word \<times> bytes" where
  "decodeAddress env a_length address port xorId s =
     (if a_length < 4 then (False, address, port, s)
      else let (reserved, s) = read_u8 s; (protocol, s) = read_u8 s; (rawPort, s) = read_u16 s;
               port = (if xorId = [] then rawPort else rawPort XOR xport)
           in if protocol = STUN_IPV4
              then if a_length \<noteq> 8 then (False, address, port, s)
                   else let (addr, s) = read_u32 s
                        in (True, IPv4 (if xorId = [] then addr else addr XOR STUN_MAGIC), port, s)
              else if protocol = STUN_IPV6
              then if a_length \<noteq> 20 then (False, address, port, s)
                   else let (addr, s) = read_into (resize env 16 []) s
                        in (True, IPv6 (if xorId = [] then addr else xor_bytes addr (xpad xorId)), port, s)
              else (False, address, port, s))"

definition encodeAddress :: "16 word \<Rightarrow> host \<Rightarrow> 16 word \<Rightarrow> bytes \<Rightarrow> bytes" where
  "encodeAddress type address port xorId =
     (if host_protocol address = IPv4Protocol
      then let addr = toIPv4Address address
           in be16 type @ be16 8 @ [0] @ [STUN_IPV4] @
              be16 (if xorId \<noteq> [] then port XOR xport else port) @
              be32 (if xorId \<noteq> [] then addr XOR STUN_MAGIC else addr)
      else if host_protocol address = IPv6Protocol
      then let addr = toIPv6Address address
           in be16 type @ be16 20 @ [0] @ [STUN_IPV6] @
              be16 (if xorId \<noteq> [] then port XOR xport else port) @
              (if xorId \<noteq> [] then xor_bytes addr (xpad xorId) else addr)
      else [])"

definition addAddress :: "16 word \<Rightarrow> host \<Rightarrow> 16 word \<Rightarrow> bytes \<Rightarrow> bytes" where
  "addAddress type host port xorId =
     (if port \<noteq> 0 \<and> host \<noteq> NullHost \<and> (host_protocol host = IPv4Protocol \<or> host_protocol host = IPv6Protocol)
      then encodeAddress type host port xorId else [])"

definition padding :: "nat \<Rightarrow> bytes" where
  "padding n = (if n mod 4 \<noteq> 0 then replicate (4 - n mod 4) 0 else [])"

definition encodeString :: "stun_env \<Rightarrow> 16 word \<Rightarrow> qstring \<Rightarrow> bytes" where
  "encodeString env type s =
     (let utf8string = toUtf8 env s
      in be16 type @ be16 (of_nat (length utf8string)) @ utf8string @ padding (length utf8string))"

text \<open>Overwrites bytes 2 and 3 of a buffer of at least four bytes.\<close>

definition setBodyLength :: "bytes \<Rightarrow> 16 word \<Rightarrow> bytes" where
  "setBodyLength buffer len = take 2 buffer @ be16 len @ drop 4 buffer"

section \<open>The message\<close>

record QXmppStunMessage =
  errorCode :: int
  errorPhrase :: qstring
  iceControlling :: bytes
  iceControlled :: bytes
  changedHost :: host
  changedPort :: "16 word"
  mappedHost :: host
  mappedPort :: "16 word"
  otherHost :: host
  otherPort :: "16 word"
  sourceHost :: host
  sourcePort :: "16 word"
  xorMappedHost :: host
  xorMappedPort :: "16 word"
  xorPeerHost :: host
  xorPeerPort :: "16 word"
  xorRelayedHost :: host
  xorRelayedPort :: "16 word"
  useCandidate :: bool
  m_cookie :: "32 word"
  m_id :: bytes
  m_type :: "16 word"
  m_attributes :: "AttributeType set"
  m_changeRequest :: "32 word"
  m_channelNumber :: "16 word"
  m_data :: bytes
  m_lifetime :: "32 word"
  m_nonce :: bytes
  m_priority :: "32 word"
  m_realm :: qstring
  m_requestedTransport :: byte
  m_reservationToken :: bytes
  m_software :: qstring
  m_username :: qstring

text \<open>The constructor leaves \<^verbatim>\<open>m_requestedTransport\<close> uninitialised.\<close>

definition new_StunMessage :: "stun_env \<Rightarrow> QXmppStunMessage" where
  "new_StunMessage env =
     \<lparr>errorCode = 0, errorPhrase = [], iceControlling = [], iceControlled = [], changedHost = NullHost, changedPort = 0,
      mappedHost = NullHost, mappedPort = 0, otherHost = NullHost, otherPort = 0, sourceHost = NullHost, sourcePort = 0,
      xorMappedHost = NullHost, xorMappedPort = 0, xorPeerHost = NullHost, xorPeerPort = 0, xorRelayedHost = NullHost,
      xorRelayedPort = 0, useCandidate = False, m_cookie = STUN_MAGIC, m_id = replicate STUN_ID_SIZE 0, m_type = 0,
      m_attributes = {}, m_changeRequest = 0, m_channelNumber = 0, m_data = [], m_lifetime = 0, m_nonce = [],
      m_priority = 0, m_realm = [], m_requestedTransport = uninit env 0, m_reservationToken = [], m_software = [],
      m_username = []\<rparr>"

definition messageClass :: "QXmppStunMessage \<Rightarrow> 16 word" where
  "messageClass m = m_type m AND 0x0110"

definition messageMethod :: "QXmppStunMessage \<Rightarrow> 16 word" where
  "messageMethod m = m_type m AND 0x3eef"

text \<open>The setters that record the attribute as present.\<close>

definition setChangeRequest :: "32 word \<Rightarrow> QXmppStunMessage \<Rightarrow> QXmppStunMessage" where
  "setChangeRequest v m = m\<lparr>m_changeRequest := v, m_attributes := insert ChangeRequest (m_attributes m)\<rparr>"

definition setChannelNumber :: "16 word \<Rightarrow> QXmppStunMessage \<Rightarrow> QXmppStunMessage" where
  "setChannelNumber v m = m\<lparr>m_channelNumber := v, m_attributes := insert ChannelNumber (m_attributes m)\<rparr>"

definition setData :: "bytes \<Rightarrow> QXmppStunMessage \<Rightarrow> QXmppStunMessage" where
  "setData v m = m\<lparr>m_data := v, m_attributes := insert DataAttr (m_attributes m)\<rparr>"

definition setLifetime :: "32 word \<Rightarrow> QXmppStunMessage \<Rightarrow> QXmppStunMessage" where
  "setLifetime v m = m\<lparr>m_lifetime := v, m_attributes := insert Lifetime (m_attributes m)\<rparr>"

definition setNonce :: "bytes \<Rightarrow> QXmppStunMessage \<Rightarrow> QXmppStunMessage" where
  "setNonce v m = m\<lparr>m_nonce := v, m_attributes := insert Nonce (m_attributes m)\<rparr>"

definition setPriority :: "32 word \<Rightarrow> QXmppStunMessage \<Rightarrow> QXmppStunMessage" where
  "setPriority v m = m\<lparr>m_priority := v, m_attributes := insert Priority (m_attributes m)\<rparr>"

definition setRealm :: "qstring \<Rightarrow> QXmppStunMessage \<Rightarrow> QXmppStunMessage" where
  "setRealm v m = m\<lparr>m_realm := v, m_attributes := insert Realm (m_attributes m)\<rparr>"

definition setRequestedTransport :: "byte \<Rightarrow> QXmppStunMessage \<Rightarrow> QXmppStunMessage" where
  "setRequestedTransport v m = m\<lparr>m_requestedTransport := v, m_attributes := insert RequestedTransport (m_attributes m)\<rparr>"

text \<open>The token is cut or extended to 8 bytes; the bytes it is extended by are uninitialised.\<close>

definition setReservationToken :: "stun_env \<Rightarrow> bytes \<Rightarrow> QXmppStunMessage \<Rightarrow> QXmppStunMessage" where
  "setReservationToken env v m =
     m\<lparr>m_reservationToken := resize env 8 v,
       m_attributes := insert ReservationToken (m_attributes m)\<rparr>"

definition setSoftware :: "qstring \<Rightarrow> QXmppStunMessage \<Rightarrow> QXmppStunMessage" where
  "setSoftware v m = m\<lparr>m_software := v, m_attributes := insert Software (m_attributes m)\<rparr>"

definition setUsername :: "qstring \<Rightarrow> QXmppStunMessage \<Rightarrow> QXmppStunMessage" where
  "setUsername v m = m\<lparr>m_username := v, m_attributes := insert Username (m_attributes m)\<rparr>"

section \<open>Decoding\<close>

record decoder =
  d_msg :: QXmppStunMessage
  d_stream :: bytes
  d_errors :: "qstring list"

definition add_error :: "qstring \<Rightarrow> decoder \<Rightarrow> decoder" where
  "add_error e d = d\<lparr>d_errors := d_errors d @ [e]\<rparr>"

text \<open>
  The body of the loop for one attribute that is not skipped: \<^term>\<open>Some b\<close> when it returns
  \<^term>\<open>b\<close>; else whether only FINGERPRINT may follow.
\<close>

definition decode_address :: "stun_env \<Rightarrow> nat \<Rightarrow> host \<Rightarrow> 16 word \<Rightarrow> bytes \<Rightarrow>
    (host \<Rightarrow> 16 word \<Rightarrow> QXmppStunMessage \<Rightarrow> QXmppStunMessage) \<Rightarrow> qstring \<Rightarrow> decoder \<Rightarrow> bool option \<times> bool \<times> decoder" where
  "decode_address env a_length h p xorId upd err d =
     (case decodeAddress env a_length h p xorId (d_stream d) of (ok, h', p', s) \<Rightarrow>
        let d' = d\<lparr>d_msg := upd h' p' (d_msg d), d_stream := s\<rparr>
        in if ok then (None, False, d') else (Some False, False, add_error err d'))"

definition decode_attribute :: "stun_env \<Rightarrow> bytes \<Rightarrow> bytes \<Rightarrow> nat \<Rightarrow> 16 word \<Rightarrow> nat \<Rightarrow> decoder \<Rightarrow>
    bool option \<times> bool \<times> decoder" where
  "decode_attribute env buffer key done a_type a_length d =
     (let m = d_msg d; s = d_stream d; fail = (Some False, False, d);
          present = (\<lambda>a. insert a (m_attributes m))
      in if a_type = attr_code Priority then
           if a_length \<noteq> 4 then fail
           else let (v, s) = read_u32 s
                in (None, False, d\<lparr>d_msg := m\<lparr>m_priority := v, m_attributes := present Priority\<rparr>, d_stream := s\<rparr>)
         else if a_type = attr_code ErrorCode then
           if a_length < 4 then fail
           else let (reserved, s) = read_u16 s; (errorCodeHigh, s) = read_u8 s; (errorCodeLow, s) = read_u8 s;
                    (phrase, s) = read_into (replicate (a_length - 4) 0) s
                in (None, False, d\<lparr>d_msg := m\<lparr>errorCode := uint errorCodeHigh * 100 + uint errorCodeLow,
                                             errorPhrase := fromUtf8 env phrase\<rparr>, d_stream := s\<rparr>)
         else if a_type = attr_code UseCandidate then
           if a_length \<noteq> 0 then fail
           else (None, False, d\<lparr>d_msg := m\<lparr>useCandidate := True\<rparr>\<rparr>)
         else if a_type = attr_code ChannelNumber then
           if a_length \<noteq> 4 then fail
           else let (v, s) = read_u16 s
                in (None, False, d\<lparr>d_msg := m\<lparr>m_channelNumber := v, m_attributes := present ChannelNumber\<rparr>,
                                   d_stream := skip_raw 2 s\<rparr>)
         else if a_type = attr_code DataAttr then
           let (v, s) = read_into (resize env a_length (m_data m)) s
           in (None, False, d\<lparr>d_msg := m\<lparr>m_data := v, m_attributes := present DataAttr\<rparr>, d_stream := s\<rparr>)
         else if a_type = attr_code Lifetime then
           if a_length \<noteq> 4 then fail
           else let (v, s) = read_u32 s
                in (None, False, d\<lparr>d_msg := m\<lparr>m_lifetime := v, m_attributes := present Lifetime\<rparr>, d_stream := s\<rparr>)
         else if a_type = attr_code Nonce then
           let (v, s) = read_into (resize env a_length (m_nonce m)) s
           in (None, False, d\<lparr>d_msg := m\<lparr>m_nonce := v, m_attributes := present Nonce\<rparr>, d_stream := s\<rparr>)
         else if a_type = attr_code Realm then
           let (v, s) = read_into (replicate a_length 0) s
           in (None, False, d\<lparr>d_msg := m\<lparr>m_realm := fromUtf8 env v, m_attributes := present Realm\<rparr>, d_stream := s\<rparr>)
         else if a_type = attr_code RequestedTransport then
           if a_length \<noteq> 4 then fail
           else let (v, s) = read_u8 s
                in (None, False, d\<lparr>d_msg := m\<lparr>m_requestedTransport := v, m_attributes := present RequestedTransport\<rparr>,
                                   d_stream := skip_raw 3 s\<rparr>)
         else if a_type = attr_code ReservationToken then
           if a_length \<noteq> 8 then fail
           else let (v, s) = read_into (resize env a_length (m_reservationToken m)) s
                in (None, False, d\<lparr>d_msg := m\<lparr>m_reservationToken := v, m_attributes := present ReservationToken\<rparr>,
                                   d_stream := s\<rparr>)
         else if a_type = attr_code Software then
           let (v, s) = read_into (replicate a_length 0) s
           in (None, False, d\<lparr>d_msg := m\<lparr>m_software := fromUtf8 env v, m_attributes := present Software\<rparr>, d_stream := s\<rparr>)
         else if a_type = attr_code Username then
           let (v, s) = read_into (replicate a_length 0) s
           in (None, False, d\<lparr>d_msg := m\<lparr>m_username := fromUtf8 env v, m_attributes := present Username\<rparr>, d_stream := s\<rparr>)
         else if a_type = attr_code MappedAddress then
           decode_address env a_length (mappedHost m) (mappedPort m) []
             (\<lambda>h p m. m\<lparr>mappedHost := h, mappedPort := p\<rparr>) ''Bad MAPPED-ADDRESS'' d
         else if a_type = attr_code ChangeRequest then
           if a_length \<noteq> 4 then fail
           else let (v, s) = read_u32 s
                in (None, False, d\<lparr>d_msg := m\<lparr>m_changeRequest := v, m_attributes := present ChangeRequest\<rparr>, d_stream := s\<rparr>)
         else if a_type = attr_code SourceAddress then
           decode_address env a_length (sourceHost m) (sourcePort m) []
             (\<lambda>h p m. m\<lparr>sourceHost := h, sourcePort := p\<rparr>) ''Bad SOURCE-ADDRESS'' d
         else if a_type = attr_code ChangedAddress then
           decode_address env a_length (changedHost m) (changedPort m) []
             (\<lambda>h p m. m\<lparr>changedHost := h, changedPort := p\<rparr>) ''Bad CHANGED-ADDRESS'' d
         else if a_type = attr_code OtherAddress then
           decode_address env a_length (otherHost m) (otherPort m) []
             (\<lambda>h p m. m\<lparr>otherHost := h, otherPort := p\<rparr>) ''Bad OTHER-ADDRESS'' d
         else if a_type = attr_code XorMappedAddress then
           decode_address env a_length (xorMappedHost m) (xorMappedPort m) (m_id m)
             (\<lambda>h p m. m\<lparr>xorMappedHost := h, xorMappedPort := p\<rparr>) ''Bad XOR-MAPPED-ADDRESS'' d
         else if a_type = attr_code XorPeerAddress then
           decode_address env a_length (xorPeerHost m) (xorPeerPort m) (m_id m)
             (\<lambda>h p m. m\<lparr>xorPeerHost := h, xorPeerPort := p\<rparr>) ''Bad XOR-PEER-ADDRESS'' d
         else if a_type = attr_code XorRelayedAddress then
           decode_address env a_length (xorRelayedHost m) (xorRelayedPort m) (m_id m)
             (\<lambda>h p m. m\<lparr>xorRelayedHost := h, xorRelayedPort := p\<rparr>) ''Bad XOR-RELAYED-ADDRESS'' d
         else if a_type = attr_code MessageIntegrity then
           if a_length \<noteq> 20 then fail
           else let (integrity, s) = read_into (replicate 20 0) s;
                    copy = setBodyLength (take (STUN_HEADER + done) buffer) (of_nat (done + 24))
                in if key \<noteq> [] \<and> integrity \<noteq> generateHmacSha1 (sha1 env) key copy
                   then (Some False, False, add_error ''Bad message integrity'' (d\<lparr>d_stream := s\<rparr>))
                   else (None, True, d\<lparr>d_stream := s\<rparr>)
         else if a_type = attr_code Fingerprint then
           if a_length \<noteq> 4 then fail
           else let (fingerprint, s) = read_u32 s;
                    copy = setBodyLength (take (STUN_HEADER + done) buffer) (of_nat (done + 8));
                    expected = generateCrc32 copy XOR 0x5354554e
                in if fingerprint \<noteq> expected
                   then (Some False, False, add_error ''Bad fingerprint'' (d\<lparr>d_stream := s\<rparr>))
                   else (Some True, False, d\<lparr>d_stream := s\<rparr>)
         else if a_type = attr_code IceControlling then
           if a_length \<noteq> 8 then fail
           else let (v, s) = read_into (resize env a_length (iceControlling m)) s
                in (None, False, d\<lparr>d_msg := m\<lparr>iceControlling := v\<rparr>, d_stream := s\<rparr>)
         else if a_type = attr_code IceControlled then
           if a_length \<noteq> 8 then fail
           else let (v, s) = read_into (resize env a_length (iceControlled m)) s
                in (None, False, d\<lparr>d_msg := m\<lparr>iceControlled := v\<rparr>, d_stream := s\<rparr>)
         else (None, False, add_error (''Skipping unknown attribute '' @ number (unat a_type))
                              (d\<lparr>d_stream := skip_raw a_length s\<rparr>)))"

definition pad_length :: "nat \<Rightarrow> nat" where
  "pad_length a_length = 4 * ((a_length + 3) div 4) - a_length"

text \<open>
  An attribute of another type than FINGERPRINT can only be reached while
  \<^verbatim>\<open>after_integrity\<close> is false, and FINGERPRINT always returns; so the flag after an
  attribute is the one \<^const>\<open>decode_attribute\<close> gives.
\<close>

function decode_loop :: "stun_env \<Rightarrow> bytes \<Rightarrow> bytes \<Rightarrow> nat \<Rightarrow> nat \<Rightarrow> bool \<Rightarrow> decoder \<Rightarrow> bool \<times> decoder" where
  "decode_loop env buffer key len done after_integrity d =
     (if done < len
      then let (a_type, s) = read_u16 (d_stream d); (a_len, s) = read_u16 s; a_length = unat a_len;
               d1 = d\<lparr>d_stream := s\<rparr>; done' = done + 4 + a_length + pad_length a_length
           in if after_integrity \<and> a_type \<noteq> attr_code Fingerprint
              then decode_loop env buffer key len done' after_integrity
                     (add_error (''Skipping attribute '' @ number (unat a_type) @ '' after MESSAGE-INTEGRITY'')
                        (d1\<lparr>d_stream := skip_raw (a_length + pad_length a_length) s\<rparr>))
              else (case decode_attribute env buffer key done a_type a_length d1 of
                      (Some b, _, d2) \<Rightarrow> (b, d2)
                    | (None, after, d2) \<Rightarrow> decode_loop env buffer key len done' after
                        (d2\<lparr>d_stream := skip_raw (pad_length a_length) (d_stream d2)\<rparr>))
      else (True, d))"
  by pat_completeness auto
termination
  by (relation "measure (\<lambda>(env, buffer, key, len, done, ai, d). len - done)") auto

declare decode_loop.simps [simp del]

definition decode :: "stun_env \<Rightarrow> bytes \<Rightarrow> bytes \<Rightarrow> QXmppStunMessage \<Rightarrow> bool \<times> QXmppStunMessage \<times> qstring list" where
  "decode env buffer key m =
     (if length buffer < STUN_HEADER then (False, m, [''Received a truncated STUN packet''])
      else let (type, s) = read_u16 buffer; (len, s) = read_u16 s; (cookie, s) = read_u32 s;
               (ident, s) = read_into (m_id m) s;
               m1 = m\<lparr>m_type := type, m_cookie := cookie, m_id := ident\<rparr>
           in if unat len \<noteq> length buffer - STUN_HEADER then (False, m1, [''Received an invalid STUN packet''])
              else (case decode_loop env buffer key (unat len) 0 False \<lparr>d_msg = m1, d_stream = s, d_errors = []\<rparr> of
                      (b, d) \<Rightarrow> (b, d_msg d, d_errors d)))"

text \<open>The type, and the cookie and transaction id as the call leaves them.\<close>

definition peekType :: "stun_env \<Rightarrow> bytes \<Rightarrow> 32 word \<Rightarrow> bytes \<Rightarrow> 16 word \<times> 32 word \<times> bytes" where
  "peekType env buffer cookie ident =
     (if length buffer < STUN_HEADER then (0, cookie, ident)
      else let (type, s) = read_u16 buffer; (len, s) = read_u16 s; (cookie, s) = read_u32 s
           in if unat len \<noteq> length buffer - STUN_HEADER then (0, cookie, ident)
              else let (ident, s) = read_into (resize env STUN_ID_SIZE ident) s in (type, cookie, ident))"

section \<open>Encoding\<close>

text \<open>Integer division and remainder of C++ round towards zero.\<close>

definition cdiv :: "int \<Rightarrow> int \<Rightarrow> int" where
  "cdiv a b = sgn a * sgn b * (\<bar>a\<bar> div \<bar>b\<bar>)"

definition cmod :: "int \<Rightarrow> int \<Rightarrow> int" where
  "cmod a b = a - b * cdiv a b"

definition encode_attributes :: "stun_env \<Rightarrow> QXmppStunMessage \<Rightarrow> bytes" where
  "encode_attributes env m =
     addAddress (attr_code MappedAddress) (mappedHost m) (mappedPort m) [] @
     (if ChangeRequest \<in> m_attributes m
      then be16 (attr_code ChangeRequest) @ be16 4 @ be32 (m_changeRequest m) else []) @
     addAddress (attr_code SourceAddress) (sourceHost m) (sourcePort m) [] @
     addAddress (attr_code ChangedAddress) (changedHost m) (changedPort m) [] @
     addAddress (attr_code OtherAddress) (otherHost m) (otherPort m) [] @
     addAddress (attr_code XorMappedAddress) (xorMappedHost m) (xorMappedPort m) (m_id m) @
     addAddress (attr_code XorPeerAddress) (xorPeerHost m) (xorPeerPort m) (m_id m) @
     addAddress (attr_code XorRelayedAddress) (xorRelayedHost m) (xorRelayedPort m) (m_id m) @
     (if errorCode m \<noteq> 0
      then let phrase = toUtf8 env (errorPhrase m)
           in be16 (attr_code ErrorCode) @ be16 (of_nat (length phrase + 4)) @ be16 0 @
              [word_of_int (cdiv (errorCode m) 100)] @ [word_of_int (cmod (errorCode m) 100)] @
              phrase @ padding (length phrase) else []) @
     (if Priority \<in> m_attributes m
      then be16 (attr_code Priority) @ be16 4 @ be32 (m_priority m) else []) @
     (if useCandidate m then be16 (attr_code UseCandidate) @ be16 0 else []) @
     (if ChannelNumber \<in> m_attributes m
      then be16 (attr_code ChannelNumber) @ be16 4 @ be16 (m_channelNumber m) @ be16 0 else []) @
     (if DataAttr \<in> m_attributes m
      then be16 (attr_code DataAttr) @ be16 (of_nat (length (m_data m))) @ m_data m @ padding (length (m_data m)) else []) @
     (if Lifetime \<in> m_attributes m
      then be16 (attr_code Lifetime) @ be16 4 @ be32 (m_lifetime m) else []) @
     (if Nonce \<in> m_attributes m
      then be16 (attr_code Nonce) @ be16 (of_nat (length (m_nonce m))) @ m_nonce m @ padding (length (m_nonce m)) else []) @
     (if Realm \<in> m_attributes m then encodeString env (attr_code Realm) (m_realm m) else []) @
     (if RequestedTransport \<in> m_attributes m
      then be16 (attr_code RequestedTransport) @ be16 4 @ [m_requestedTransport m] @ replicate 3 0 else []) @
     (if ReservationToken \<in> m_attributes m
      then be16 (attr_code ReservationToken) @ be16 (of_nat (length (m_reservationToken m))) @ m_reservationToken m else []) @
     (if Software \<in> m_attributes m then encodeString env (attr_code Software) (m_software m) else []) @
     (if Username \<in> m_attributes m then encodeString env (attr_code Username) (m_username m) else []) @
     (if iceControlling m \<noteq> []
      then be16 (attr_code IceControlling) @ be16 (of_nat (length (iceControlling m))) @ iceControlling m
      else if iceControlled m \<noteq> []
      then be16 (attr_code IceControlled) @ be16 (of_nat (length (iceControlled m))) @ iceControlled m else [])"

text \<open>The size of a buffer without the header, as a 16-bit number.\<close>

definition body_size :: "bytes \<Rightarrow> 16 word" where
  "body_size buffer = of_nat (length buffer) - of_nat STUN_HEADER"

definition encode :: "stun_env \<Rightarrow> bytes \<Rightarrow> bool \<Rightarrow> QXmppStunMessage \<Rightarrow> bytes" where
  "encode env key addFingerprint m =
     (let buffer = be16 (m_type m) @ be16 0 @ be32 (m_cookie m) @ m_id m @ encode_attributes env m;
          buffer = setBodyLength buffer (body_size buffer);
          buffer = (if key \<noteq> []
                    then let b = setBodyLength buffer (body_size buffer + 24);
                             integrity = generateHmacSha1 (sha1 env) key b
                         in b @ be16 (attr_code MessageIntegrity) @ be16 (of_nat (length integrity)) @ integrity
                    else buffer);
          buffer = (if addFingerprint
                    then let b = setBodyLength buffer (body_size buffer + 8)
                         in b @ be16 (attr_code Fingerprint) @ be16 4 @ be32 (generateCrc32 b XOR 0x5354554e)
                    else buffer)
      in buffer)"

section \<open>Abstract syntax of the body\<close>

text \<open>
  A specification of the wire format: a body is a sequence of attributes.  The encoder
  writes the sequence of a message, the decoder replays a sequence on a message.
\<close>

datatype attribute =
    AMapped host "16 word" | AChangeRequest "32 word" | ASource host "16 word" | AChanged host "16 word"
  | AOther host "16 word" | AXorMapped host "16 word" | AXorPeer host "16 word" | AXorRelayed host "16 word"
  | AErrorCode int qstring | APriority "32 word" | AUseCandidate | AChannelNumber "16 word" | AData bytes
  | ALifetime "32 word" | ANonce bytes | ARealm qstring | ARequestedTransport byte | AReservationToken bytes
  | ASoftware qstring | AUsername qstring | AIceControlling bytes | AIceControlled bytes

fun attr_type :: "attribute \<Rightarrow> AttributeType" where
  "attr_type (AMapped h p) = MappedAddress"
| "attr_type (AChangeRequest v) = ChangeRequest"
| "attr_type (ASource h p) = SourceAddress"
| "attr_type (AChanged h p) = ChangedAddress"
| "attr_type (AOther h p) = OtherAddress"
| "attr_type (AXorMapped h p) = XorMappedAddress"
| "attr_type (AXorPeer h p) = XorPeerAddress"
| "attr_type (AXorRelayed h p) = XorRelayedAddress"
| "attr_type (AErrorCode c t) = ErrorCode"
| "attr_type (APriority v) = Priority"
| "attr_type AUseCandidate = UseCandidate"
| "attr_type (AChannelNumber v) = ChannelNumber"
| "attr_type (AData b) = DataAttr"
| "attr_type (ALifetime v) = Lifetime"
| "attr_type (ANonce b) = Nonce"
| "attr_type (ARealm t) = Realm"
| "attr_type (ARequestedTransport v) = RequestedTransport"
| "attr_type (AReservationToken b) = ReservationToken"
| "attr_type (ASoftware t) = Software"
| "attr_type (AUsername t) = Username"
| "attr_type (AIceControlling b) = IceControlling"
| "attr_type (AIceControlled b) = IceControlled"

text \<open>The contents of an address attribute: what \<^const>\<open>encodeAddress\<close> writes after type and size.\<close>

definition address_payload :: "host \<Rightarrow> 16 word \<Rightarrow> bytes \<Rightarrow> bytes" where
  "address_payload h p xorId = drop 4 (encodeAddress 0 h p xorId)"

fun attr_payload :: "stun_env \<Rightarrow> bytes \<Rightarrow> attribute \<Rightarrow> bytes" where
  "attr_payload env i (AMapped h p) = address_payload h p []"
| "attr_payload env i (AChangeRequest v) = be32 v"
| "attr_payload env i (ASource h p) = address_payload h p []"
| "attr_payload env i (AChanged h p) = address_payload h p []"
| "attr_payload env i (AOther h p) = address_payload h p []"
| "attr_payload env i (AXorMapped h p) = address_payload h p i"
| "attr_payload env i (AXorPeer h p) = address_payload h p i"
| "attr_payload env i (AXorRelayed h p) = address_payload h p i"
| "attr_payload env i (AErrorCode c t) = be16 0 @ [word_of_int (c div 100)] @ [word_of_int (c mod 100)] @ toUtf8 env t"
| "attr_payload env i (APriority v) = be32 v"
| "attr_payload env i AUseCandidate = []"
| "attr_payload env i (AChannelNumber v) = be16 v @ be16 0"
| "attr_payload env i (AData b) = b"
| "attr_payload env i (ALifetime v) = be32 v"
| "attr_payload env i (ANonce b) = b"
| "attr_payload env i (ARealm t) = toUtf8 env t"
| "attr_payload env i (ARequestedTransport v) = [v, 0, 0, 0]"
| "attr_payload env i (AReservationToken b) = b"
| "attr_payload env i (ASoftware t) = toUtf8 env t"
| "attr_payload env i (AUsername t) = toUtf8 env t"
| "attr_payload env i (AIceControlling b) = b"
| "attr_payload env i (AIceControlled b) = b"

definition attr_bytes :: "stun_env \<Rightarrow> bytes \<Rightarrow> attribute \<Rightarrow> bytes" where
  "attr_bytes env i a = (let c = attr_payload env i a
     in be16 (attr_code (attr_type a)) @ be16 (of_nat (length c)) @ c @ padding (length c))"

fun apply_attr :: "attribute \<Rightarrow> QXmppStunMessage \<Rightarrow> QXmppStunMessage" where
  "apply_attr (AMapped h p) m = m\<lparr>mappedHost := h, mappedPort := p\<rparr>"
| "apply_attr (AChangeRequest v) m = setChangeRequest v m"
| "apply_attr (ASource h p) m = m\<lparr>sourceHost := h, sourcePort := p\<rparr>"
| "apply_attr (AChanged h p) m = m\<lparr>changedHost := h, changedPort := p\<rparr>"
| "apply_attr (AOther h p) m = m\<lparr>otherHost := h, otherPort := p\<rparr>"
| "apply_attr (AXorMapped h p) m = m\<lparr>xorMappedHost := h, xorMappedPort := p\<rparr>"
| "apply_attr (AXorPeer h p) m = m\<lparr>xorPeerHost := h, xorPeerPort := p\<rparr>"
| "apply_attr (AXorRelayed h p) m = m\<lparr>xorRelayedHost := h, xorRelayedPort := p\<rparr>"
| "apply_attr (AErrorCode c t) m = m\<lparr>errorCode := c, errorPhrase := t\<rparr>"
| "apply_attr (APriority v) m = setPriority v m"
| "apply_attr AUseCandidate m = m\<lparr>useCandidate := True\<rparr>"
| "apply_attr (AChannelNumber v) m = setChannelNumber v m"
| "apply_attr (AData b) m = setData b m"
| "apply_attr (ALifetime v) m = setLifetime v m"
| "apply_attr (ANonce b) m = setNonce b m"
| "apply_attr (ARealm t) m = setRealm t m"
| "apply_attr (ARequestedTransport v) m = setRequestedTransport v m"
| "apply_attr (AReservationToken b) m = m\<lparr>m_reservationToken := b, m_attributes := insert ReservationToken (m_attributes m)\<rparr>"
| "apply_attr (ASoftware t) m = setSoftware t m"
| "apply_attr (AUsername t) m = setUsername t m"
| "apply_attr (AIceControlling b) m = m\<lparr>iceControlling := b\<rparr>"
| "apply_attr (AIceControlled b) m = m\<lparr>iceControlled := b\<rparr>"

text \<open>Which attributes fit the format: IPv6 addresses of 16 bytes, sizes of 16 bits, codes of two bytes.\<close>

fun host_ok :: "host \<Rightarrow> bool" where
  "host_ok (IPv4 _) = True"
| "host_ok (IPv6 b) = (length b = 16)"
| "host_ok _ = False"

fun attr_ok :: "stun_env \<Rightarrow> attribute \<Rightarrow> bool" where
  "attr_ok env (AMapped h p) = host_ok h"
| "attr_ok env (ASource h p) = host_ok h"
| "attr_ok env (AChanged h p) = host_ok h"
| "attr_ok env (AOther h p) = host_ok h"
| "attr_ok env (AXorMapped h p) = host_ok h"
| "attr_ok env (AXorPeer h p) = host_ok h"
| "attr_ok env (AXorRelayed h p) = host_ok h"
| "attr_ok env (AErrorCode c t) = (0 \<le> c \<and> c < 25600 \<and> length (toUtf8 env t) + 4 < 2 ^ 16)"
| "attr_ok env (AData b) = (length b < 2 ^ 16)"
| "attr_ok env (ANonce b) = (length b < 2 ^ 16)"
| "attr_ok env (ARealm t) = (length (toUtf8 env t) < 2 ^ 16)"
| "attr_ok env (AReservationToken b) = (length b = 8)"
| "attr_ok env (ASoftware t) = (length (toUtf8 env t) < 2 ^ 16)"
| "attr_ok env (AUsername t) = (length (toUtf8 env t) < 2 ^ 16)"
| "attr_ok env (AIceControlling b) = (length b = 8)"
| "attr_ok env (AIceControlled b) = (length b = 8)"
| "attr_ok env _ = True"

section \<open>Lemmas\<close>

lemma xor_xor_self [simp]: "(x XOR y) XOR y = (x :: 'a::len word)"
  by (simp add: xor.assoc)

lemma xor_bytes_self: "length a = length k \<Longrightarrow> xor_bytes (xor_bytes a k) k = a"
  unfolding xor_bytes_def by (induction a k rule: list_induct2) simp_all

lemma length_padding: "length (padding n) = pad_length n"
  unfolding padding_def pad_length_def by (auto; presburger)

lemma pad_length_add4: "pad_length (n + 4) = pad_length n"
  unfolding pad_length_def by presburger

lemma unat_of_nat16: "n < 2 ^ 16 \<Longrightarrow> unat (of_nat n :: 16 word) = n"
  by (simp add: unat_of_nat take_bit_nat_eq_self)

lemma length_resize [simp]: "length (resize env n old) = n"
  by (simp add: resize_def min_def)

lemma read_into_append [wire_simps]: "length mem = length xs \<Longrightarrow> read_into mem (xs @ r) = (xs, r)"
  by (simp add: read_into_def)

lemma decodeAddress_encode4:
  "decodeAddress env 8 h0 p0 xorId (0 # STUN_IPV4 # be16 (if xorId \<noteq> [] then p XOR xport else p) @
      be32 (if xorId \<noteq> [] then a XOR STUN_MAGIC else a) @ r) = (True, IPv4 a, p, r)"
  by (simp add: decodeAddress_def wire_simps STUN_IPV4_def STUN_IPV6_def)

lemma decodeAddress_encode6:
  assumes "length a = 16" and "xorId = [] \<or> length xorId = 12"
  shows "decodeAddress env 20 h0 p0 xorId (0 # STUN_IPV6 # be16 (if xorId \<noteq> [] then p XOR xport else p) @
      (if xorId \<noteq> [] then xor_bytes a (xpad xorId) else a) @ r) = (True, IPv6 a, p, r)"
proof -
  have "length (if xorId \<noteq> [] then xor_bytes a (xpad xorId) else a) = 16"
    using assms by (auto simp: xor_bytes_def xpad_def)
  then show ?thesis
    using assms by (auto simp: decodeAddress_def wire_simps STUN_IPV4_def STUN_IPV6_def xor_bytes_self xpad_def Let_def)
qed

lemma decode_loop_attribute:
  assumes "done < len" and "n < 2 ^ 16" and "length pad = pad_length n"
    and "decode_attribute env buffer key done t n \<lparr>d_msg = m, d_stream = payload @ pad @ rest, d_errors = errs\<rparr> =
      (None, after, \<lparr>d_msg = m', d_stream = pad @ rest, d_errors = errs\<rparr>)"
  shows "decode_loop env buffer key len done False
      \<lparr>d_msg = m, d_stream = be16 t @ be16 (of_nat n) @ payload @ pad @ rest, d_errors = errs\<rparr> =
    decode_loop env buffer key len (done + 4 + n + pad_length n) after \<lparr>d_msg = m', d_stream = rest, d_errors = errs\<rparr>"
  using assms by (subst decode_loop.simps) (simp add: wire_simps Let_def unat_of_nat16)

lemmas setter_defs = setChangeRequest_def setChannelNumber_def setData_def setLifetime_def setNonce_def
  setPriority_def setRealm_def setRequestedTransport_def setReservationToken_def setSoftware_def setUsername_def

lemma encodeAddress_payload:
  "host_ok h \<Longrightarrow> xorId = [] \<or> length xorId = 12 \<Longrightarrow>
   encodeAddress t h p xorId = be16 t @ be16 (of_nat (length (address_payload h p xorId))) @ address_payload h p xorId"
  by (cases h) (auto simp: address_payload_def encodeAddress_def be16_def xor_bytes_def xpad_def)

lemma decode_address_payload:
  assumes "host_ok h" and "xorId = [] \<or> length xorId = 12"
  shows "decode_address env (length (address_payload h p xorId)) h0 p0 xorId upd err
      \<lparr>d_msg = m, d_stream = address_payload h p xorId @ rest, d_errors = errs\<rparr> =
    (None, False, \<lparr>d_msg = upd h p m, d_stream = rest, d_errors = errs\<rparr>)"
proof (cases h)
  case (IPv4 a)
  have "length (address_payload h p xorId) = 8" by (simp add: address_payload_def encodeAddress_def IPv4 be16_def)
  then show ?thesis
    using decodeAddress_encode4 [of env h0 p0 xorId p a rest]
    by (simp add: decode_address_def IPv4 address_payload_def encodeAddress_def be16_def)
next
  case (IPv6 b)
  have "length (address_payload h p xorId) = 20"
    using assms by (auto simp: address_payload_def encodeAddress_def IPv6 be16_def xor_bytes_def xpad_def)
  then show ?thesis
    using decodeAddress_encode6 [of b xorId env h0 p0 p rest] assms
    by (simp add: decode_address_def IPv6 address_payload_def encodeAddress_def be16_def)
qed (use assms in simp_all)

lemma length_address_payload:
  "host_ok h \<Longrightarrow> xorId = [] \<or> length xorId = 12 \<Longrightarrow> length (address_payload h p xorId) \<in> {8, 20}"
  by (cases h) (auto simp: address_payload_def encodeAddress_def be16_def xor_bytes_def xpad_def)

lemma address_payload_bound:
  "host_ok h \<Longrightarrow> xorId = [] \<or> length xorId = 12 \<Longrightarrow> length (address_payload h p xorId) < 65536"
  using length_address_payload [of h xorId p] by auto

lemma attr_payload_bound: "attr_ok env a \<Longrightarrow> length i = 12 \<Longrightarrow> length (attr_payload env i a) < 2 ^ 16"
  by (cases a) (simp_all add: address_payload_bound)

lemma code_of_bytes: "0 \<le> c \<Longrightarrow> c < 25600 \<Longrightarrow> c div 100 mod 256 * 100 + c mod 100 = (c :: int)"
proof -
  assume "0 \<le> c" "c < 25600"
  then have "c div 100 mod 256 = c div 100" by (intro mod_pos_pos_trivial) simp_all
  then show ?thesis by simp
qed

lemma decode_payload:
  assumes "attr_ok env a" and "m_id m = i" and "length i = 12" and "\<And>t. fromUtf8 env (toUtf8 env t) = t"
  shows "decode_attribute env buffer key done (attr_code (attr_type a)) (length (attr_payload env i a))
      \<lparr>d_msg = m, d_stream = attr_payload env i a @ rest, d_errors = errs\<rparr> =
    (None, False, \<lparr>d_msg = apply_attr a m, d_stream = rest, d_errors = errs\<rparr>)"
proof (cases a)
  case (AErrorCode c t)
  have "uint (word_of_int (c div 100) :: byte) * 100 + uint (word_of_int (c mod 100) :: byte) = c"
    using assms(1) by (simp add: AErrorCode uint_word_of_int take_bit_eq_mod code_of_bytes)
  then show ?thesis
    by (simp add: AErrorCode decode_attribute_def wire_simps Let_def assms(4))
qed (use assms in \<open>simp_all add: decode_attribute_def wire_simps Let_def setter_defs
    decode_address_payload
    skip_raw_def\<close>)

lemma m_id_apply_attr [simp]: "m_id (apply_attr a m) = m_id m"
  by (cases a) (simp_all add: setter_defs)

lemma m_id_fold_apply [simp]: "m_id (fold apply_attr as m) = m_id m"
  by (induction as arbitrary: m) simp_all

lemma attr_bytes_length: "length (attr_bytes env i a) = 4 + length (attr_payload env i a) + pad_length (length (attr_payload env i a))"
  by (simp add: attr_bytes_def Let_def length_padding)

lemma decode_loop_attr_bytes:
  assumes "attr_ok env a" and "length (m_id m) = 12" and "\<And>t. fromUtf8 env (toUtf8 env t) = t" and "done < len"
  shows "decode_loop env buffer key len done False
      \<lparr>d_msg = m, d_stream = attr_bytes env (m_id m) a @ rest, d_errors = errs\<rparr> =
    decode_loop env buffer key len (done + length (attr_bytes env (m_id m) a)) False
      \<lparr>d_msg = apply_attr a m, d_stream = rest, d_errors = errs\<rparr>"
  using decode_loop_attribute [OF assms(4) attr_payload_bound [OF assms(1,2)] length_padding
      decode_payload [OF assms(1) refl assms(2,3), of buffer key "done" "padding (length (attr_payload env (m_id m) a)) @ rest" errs]]
  by (simp add: attr_bytes_length) (simp add: attr_bytes_def Let_def add.assoc)

lemma decode_loop_attributes:
  assumes "list_all (attr_ok env) as" and "length (m_id m) = 12" and "\<And>t. fromUtf8 env (toUtf8 env t) = t"
    and "done + length (concat (map (attr_bytes env (m_id m)) as)) \<le> len"
  shows "decode_loop env buffer key len done False
      \<lparr>d_msg = m, d_stream = concat (map (attr_bytes env (m_id m)) as) @ rest, d_errors = errs\<rparr> =
    decode_loop env buffer key len (done + length (concat (map (attr_bytes env (m_id m)) as))) False
      \<lparr>d_msg = fold apply_attr as m, d_stream = rest, d_errors = errs\<rparr>"
  using assms
proof (induction as arbitrary: m "done")
  case (Cons a as)
  have "done < len" using Cons.prems(4) attr_bytes_length [of env "m_id m" a] by simp
  then have step: "decode_loop env buffer key len done False
      \<lparr>d_msg = m, d_stream = attr_bytes env (m_id m) a @ concat (map (attr_bytes env (m_id m)) as) @ rest, d_errors = errs\<rparr> =
    decode_loop env buffer key len (done + length (attr_bytes env (m_id m) a)) False
      \<lparr>d_msg = apply_attr a m, d_stream = concat (map (attr_bytes env (m_id m)) as) @ rest, d_errors = errs\<rparr>"
    using Cons.prems by (intro decode_loop_attr_bytes) simp_all
  also have "\<dots> = decode_loop env buffer key len
      (done + length (attr_bytes env (m_id m) a) + length (concat (map (attr_bytes env (m_id m)) as))) False
      \<lparr>d_msg = fold apply_attr as (apply_attr a m), d_stream = rest, d_errors = errs\<rparr>"
    using Cons.IH [of "apply_attr a m" "done + length (attr_bytes env (m_id m) a)"] Cons.prems by simp
  finally show ?case by (simp add: add.assoc)
qed simp

section \<open>Messages as sequences of attributes\<close>

definition opt :: "bool \<Rightarrow> 'a \<Rightarrow> 'a list" where
  "opt c x = (if c then [x] else [])"

definition sends_address :: "host \<Rightarrow> 16 word \<Rightarrow> bool" where
  "sends_address h p \<longleftrightarrow> p \<noteq> 0 \<and> host_protocol h \<in> {IPv4Protocol, IPv6Protocol}"

definition attributes_of :: "QXmppStunMessage \<Rightarrow> attribute list" where
  "attributes_of m =
     opt (sends_address (mappedHost m) (mappedPort m)) (AMapped (mappedHost m) (mappedPort m)) @
     opt (ChangeRequest \<in> m_attributes m) (AChangeRequest (m_changeRequest m)) @
     opt (sends_address (sourceHost m) (sourcePort m)) (ASource (sourceHost m) (sourcePort m)) @
     opt (sends_address (changedHost m) (changedPort m)) (AChanged (changedHost m) (changedPort m)) @
     opt (sends_address (otherHost m) (otherPort m)) (AOther (otherHost m) (otherPort m)) @
     opt (sends_address (xorMappedHost m) (xorMappedPort m)) (AXorMapped (xorMappedHost m) (xorMappedPort m)) @
     opt (sends_address (xorPeerHost m) (xorPeerPort m)) (AXorPeer (xorPeerHost m) (xorPeerPort m)) @
     opt (sends_address (xorRelayedHost m) (xorRelayedPort m)) (AXorRelayed (xorRelayedHost m) (xorRelayedPort m)) @
     opt (errorCode m \<noteq> 0) (AErrorCode (errorCode m) (errorPhrase m)) @
     opt (Priority \<in> m_attributes m) (APriority (m_priority m)) @
     opt (useCandidate m) AUseCandidate @
     opt (ChannelNumber \<in> m_attributes m) (AChannelNumber (m_channelNumber m)) @
     opt (DataAttr \<in> m_attributes m) (AData (m_data m)) @
     opt (Lifetime \<in> m_attributes m) (ALifetime (m_lifetime m)) @
     opt (Nonce \<in> m_attributes m) (ANonce (m_nonce m)) @
     opt (Realm \<in> m_attributes m) (ARealm (m_realm m)) @
     opt (RequestedTransport \<in> m_attributes m) (ARequestedTransport (m_requestedTransport m)) @
     opt (ReservationToken \<in> m_attributes m) (AReservationToken (m_reservationToken m)) @
     opt (Software \<in> m_attributes m) (ASoftware (m_software m)) @
     opt (Username \<in> m_attributes m) (AUsername (m_username m)) @
     opt (iceControlling m \<noteq> []) (AIceControlling (iceControlling m)) @
     opt (iceControlling m = [] \<and> iceControlled m \<noteq> []) (AIceControlled (iceControlled m))"

definition wf_message :: "stun_env \<Rightarrow> QXmppStunMessage \<Rightarrow> bool" where
  "wf_message env m \<longleftrightarrow> length (m_id m) = STUN_ID_SIZE \<and> list_all (attr_ok env) (attributes_of m)"

lemma concat_opt: "concat (map f (opt c x)) = (if c then f x else [])"
  by (simp add: opt_def)

lemma list_all_opt: "list_all P (opt c x) \<longleftrightarrow> (c \<longrightarrow> P x)"
  by (simp add: opt_def)

lemma addAddress_bytes:
  assumes "sends_address h p \<longrightarrow> host_ok h" and "xorId = [] \<or> length xorId = 12"
  shows "addAddress t h p xorId = (if sends_address h p then be16 t @ be16 (of_nat (length (address_payload h p xorId))) @
      address_payload h p xorId @ padding (length (address_payload h p xorId)) else [])"
proof (cases "sends_address h p")
  case True
  then have "length (address_payload h p xorId) \<in> {8, 20}" using assms by (intro length_address_payload) auto
  then have "padding (length (address_payload h p xorId)) = []" by (auto simp: padding_def)
  then show ?thesis
    using True assms encodeAddress_payload [of h xorId t p] by (auto simp: addAddress_def sends_address_def)
qed (auto simp: addAddress_def sends_address_def)

lemma cdiv_nonneg: "0 \<le> c \<Longrightarrow> cdiv c 100 = c div 100" "0 \<le> c \<Longrightarrow> cmod c 100 = c mod 100"
  by (simp_all add: cmod_def cdiv_def sgn_if minus_mult_div_eq_mod)

lemma if_else_append: "(if c then A else if d then B else []) = (if c then A else []) @ (if \<not> c \<and> d then B else [])"
  by simp

lemma attr_ok_opt: "list_all (attr_ok env) (attributes_of m) \<Longrightarrow> x \<in> set (attributes_of m) \<Longrightarrow> attr_ok env x"
  by (simp add: list_all_iff)

lemma padding_simps: "padding 0 = []" "padding 4 = []" "padding 8 = []" "padding (Suc (Suc (Suc (Suc n)))) = padding n"
proof -
  have "Suc (Suc (Suc (Suc n))) mod 4 = n mod 4" by presburger
  then show "padding (Suc (Suc (Suc (Suc n)))) = padding n" unfolding padding_def by presburger
qed (simp_all add: padding_def)

lemma encode_attributes_attr_bytes:
  assumes "wf_message env m"
  shows "encode_attributes env m = concat (map (attr_bytes env (m_id m)) (attributes_of m))"
proof -
  have i: "length (m_id m) = 12" using assms by (simp add: wf_message_def STUN_ID_SIZE_def)
  have ok: "list_all (attr_ok env) (attributes_of m)" using assms by (simp add: wf_message_def)
  note ok = ok [unfolded attributes_of_def list_all_append list_all_opt attr_ok.simps]
  show ?thesis
    unfolding encode_attributes_def attributes_of_def map_append concat_append concat_opt if_else_append
    by (intro arg_cong2 [where f = "(@)"])
       (insert ok i, simp_all only: attr_bytes_def attr_payload.simps attr_type.simps Let_def
          simp_thms if_True if_False, 
        simp_all add: Let_def add.commute addAddress_bytes cdiv_nonneg encodeString_def padding_simps numeral_3_eq_3)
qed


text \<open>A packet: header with a size, and body.\<close>

definition packet :: "QXmppStunMessage \<Rightarrow> 16 word \<Rightarrow> bytes \<Rightarrow> bytes" where
  "packet m len body = be16 (m_type m) @ be16 len @ be32 (m_cookie m) @ m_id m @ body"

lemma setBodyLength_packet [simp]: "setBodyLength (packet m l body) l' = packet m l' body"
  by (simp add: setBodyLength_def packet_def be16_def)

lemma packet_append [simp]: "packet m l body @ r = packet m l (body @ r)"
  by (simp add: packet_def)

lemma length_packet: "length (m_id m) = 12 \<Longrightarrow> length (packet m l body) = 20 + length body"
  by (simp add: packet_def)

lemma body_size_packet: "length (m_id m) = 12 \<Longrightarrow> body_size (packet m l body) = of_nat (length body)"
  by (simp add: body_size_def STUN_HEADER_def length_packet)

lemma take_packet: "length (m_id m) = 12 \<Longrightarrow> take (STUN_HEADER + length a) (packet m l (a @ b)) = packet m l a"
  by (simp add: packet_def STUN_HEADER_def take_append)

definition integrity_attr :: "stun_env \<Rightarrow> bytes \<Rightarrow> QXmppStunMessage \<Rightarrow> bytes \<Rightarrow> bytes" where
  "integrity_attr env key m body = (if key \<noteq> []
     then be16 (attr_code MessageIntegrity) @ be16 20 @ generateHmacSha1 (sha1 env) key (packet m (of_nat (length body + 24)) body)
     else [])"

definition fingerprint_attr :: "bool \<Rightarrow> QXmppStunMessage \<Rightarrow> bytes \<Rightarrow> bytes" where
  "fingerprint_attr fp m body = (if fp
     then be16 (attr_code Fingerprint) @ be16 4 @ be32 (generateCrc32 (packet m (of_nat (length body + 8)) body) XOR 0x5354554e)
     else [])"

lemma length_hmac: "(\<And>x. length (H x) = 20) \<Longrightarrow> length (generateHmacSha1 H key text) = 20"
  by (simp add: generateHmacSha1_def generateHmac_def Let_def)

lemma encode_packet:
  assumes "length (m_id m) = 12" and "\<And>x. length (sha1 env x) = 20"
  shows "encode env key fp m = (let body = encode_attributes env m; b1 = body @ integrity_attr env key m body;
      b2 = b1 @ fingerprint_attr fp m b1 in packet m (of_nat (length b2)) b2)"
proof -
  have "be16 (m_type m) @ be16 0 @ be32 (m_cookie m) @ m_id m @ encode_attributes env m = packet m 0 (encode_attributes env m)"
    by (simp add: packet_def)
  then show ?thesis
    using assms
    by (simp add: encode_def Let_def body_size_packet integrity_attr_def fingerprint_attr_def length_hmac of_nat_add)
qed

definition decode_from :: "stun_env \<Rightarrow> bytes \<Rightarrow> bytes \<Rightarrow> nat \<Rightarrow> bool \<Rightarrow> QXmppStunMessage \<Rightarrow> bytes \<Rightarrow> bool \<times> QXmppStunMessage \<times> qstring list" where
  "decode_from env buffer key n ai m s =
     (case decode_loop env buffer key (length buffer - STUN_HEADER) n ai \<lparr>d_msg = m, d_stream = s, d_errors = []\<rparr> of
        (b, d) \<Rightarrow> (b, d_msg d, d_errors d))"

lemma decode_packet:
  assumes "length (m_id m) = 12" and "length (m_id m0) = 12" and "length body < 2 ^ 16"
  shows "decode env (packet m (of_nat (length body)) body) key m0 =
    decode_from env (packet m (of_nat (length body)) body) key 0 False
      (m0\<lparr>m_type := m_type m, m_cookie := m_cookie m, m_id := m_id m\<rparr>) body"
  using assms length_packet [OF assms(1)]
  by (simp add: decode_def decode_from_def STUN_HEADER_def unat_of_nat16)
     (simp add: packet_def wire_simps Let_def unat_of_nat16)

lemma decode_from_end:
  assumes "length buffer \<le> 20 + n"
  shows "decode_from env buffer key n ai m s = (True, m, [])"
proof -
  have "\<not> n < length buffer - 20" using assms by simp
  then show ?thesis by (simp add: decode_from_def STUN_HEADER_def decode_loop.simps)
qed

lemma read_be32_end [wire_simps]: "read_u32 (be32 w) = (w, [])"
  using read_u32_be32 [of w "[]"] by simp

lemma unat_sizes [simp]: "unat (4 :: 16 word) = 4" "unat (20 :: 16 word) = 20"
  by simp_all

lemma decode_from_fingerprint:
  assumes "length (m_id m) = 12"
  shows "decode_from env (packet m l (body @ fingerprint_attr True m body)) key (length body) ai m' (fingerprint_attr True m body) =
    (True, m', [])"
  using assms
  by (simp add: decode_from_def length_packet fingerprint_attr_def STUN_HEADER_def)
     (subst decode_loop.simps, simp add: wire_simps Let_def decode_attribute_def
       take_packet [unfolded STUN_HEADER_def] STUN_HEADER_def)

lemma decode_from_integrity:
  assumes "length (m_id m) = 12" and "\<And>x. length (sha1 env x) = 20" and "key \<noteq> []"
  shows "decode_from env (packet m l (body @ integrity_attr env key m body @ r)) key' (length body) False m'
      (integrity_attr env key m body @ r) =
    (if key' = [] \<or> generateHmacSha1 (sha1 env) key' (packet m (of_nat (length body + 24)) body) =
                   generateHmacSha1 (sha1 env) key (packet m (of_nat (length body + 24)) body)
     then decode_from env (packet m l (body @ integrity_attr env key m body @ r)) key' (length body + 24) True m' r
     else (False, m', [''Bad message integrity'']))"
  unfolding decode_from_def
  by (subst decode_loop.simps)
     (use assms in \<open>simp add: length_packet integrity_attr_def STUN_HEADER_def wire_simps Let_def decode_attribute_def
       length_hmac take_packet [unfolded STUN_HEADER_def] pad_length_def add_error_def\<close>)

definition carried :: "AttributeType set" where
  "carried = {ChangeRequest, Priority, ChannelNumber, DataAttr, Lifetime, Nonce, Realm, RequestedTransport,
     ReservationToken, Software, Username}"

text \<open>The message a receiver ends up with: the fields that were sent, the others as constructed.\<close>

definition sent_host :: "host \<Rightarrow> 16 word \<Rightarrow> host" where
  "sent_host h p = (if sends_address h p then h else NullHost)"

definition sent_port :: "host \<Rightarrow> 16 word \<Rightarrow> 16 word" where
  "sent_port h p = (if sends_address h p then p else 0)"

definition sent :: "stun_env \<Rightarrow> QXmppStunMessage \<Rightarrow> QXmppStunMessage" where
  "sent env m = 
     \<lparr>errorCode = errorCode m, errorPhrase = (if errorCode m \<noteq> 0 then errorPhrase m else []),
      iceControlling = iceControlling m, iceControlled = (if iceControlling m = [] then iceControlled m else []),
      changedHost = sent_host (changedHost m) (changedPort m), changedPort = sent_port (changedHost m) (changedPort m),
      mappedHost = sent_host (mappedHost m) (mappedPort m), mappedPort = sent_port (mappedHost m) (mappedPort m),
      otherHost = sent_host (otherHost m) (otherPort m), otherPort = sent_port (otherHost m) (otherPort m),
      sourceHost = sent_host (sourceHost m) (sourcePort m), sourcePort = sent_port (sourceHost m) (sourcePort m),
      xorMappedHost = sent_host (xorMappedHost m) (xorMappedPort m),
      xorMappedPort = sent_port (xorMappedHost m) (xorMappedPort m),
      xorPeerHost = sent_host (xorPeerHost m) (xorPeerPort m), xorPeerPort = sent_port (xorPeerHost m) (xorPeerPort m),
      xorRelayedHost = sent_host (xorRelayedHost m) (xorRelayedPort m),
      xorRelayedPort = sent_port (xorRelayedHost m) (xorRelayedPort m),
      useCandidate = useCandidate m, m_cookie = m_cookie m, m_id = m_id m, m_type = m_type m,
      m_attributes = m_attributes m \<inter> carried,
      m_changeRequest = (if ChangeRequest \<in> m_attributes m then m_changeRequest m else 0),
      m_channelNumber = (if ChannelNumber \<in> m_attributes m then m_channelNumber m else 0),
      m_data = (if DataAttr \<in> m_attributes m then m_data m else []),
      m_lifetime = (if Lifetime \<in> m_attributes m then m_lifetime m else 0),
      m_nonce = (if Nonce \<in> m_attributes m then m_nonce m else []),
      m_priority = (if Priority \<in> m_attributes m then m_priority m else 0),
      m_realm = (if Realm \<in> m_attributes m then m_realm m else []),
      m_requestedTransport = (if RequestedTransport \<in> m_attributes m then m_requestedTransport m else uninit env 0),
      m_reservationToken = (if ReservationToken \<in> m_attributes m then m_reservationToken m else []),
      m_software = (if Software \<in> m_attributes m then m_software m else []),
      m_username = (if Username \<in> m_attributes m then m_username m else [])\<rparr>"

text \<open>Replaying an optional attribute, as one record update.\<close>

lemma replay_opt:
  "fold apply_attr (opt c (AMapped h p)) m = m\<lparr>mappedHost := (if c then h else mappedHost m), mappedPort := (if c then p else mappedPort m)\<rparr>"
  "fold apply_attr (opt c (ASource h p)) m = m\<lparr>sourceHost := (if c then h else sourceHost m), sourcePort := (if c then p else sourcePort m)\<rparr>"
  "fold apply_attr (opt c (AChanged h p)) m = m\<lparr>changedHost := (if c then h else changedHost m), changedPort := (if c then p else changedPort m)\<rparr>"
  "fold apply_attr (opt c (AOther h p)) m = m\<lparr>otherHost := (if c then h else otherHost m), otherPort := (if c then p else otherPort m)\<rparr>"
  "fold apply_attr (opt c (AXorMapped h p)) m = m\<lparr>xorMappedHost := (if c then h else xorMappedHost m), xorMappedPort := (if c then p else xorMappedPort m)\<rparr>"
  "fold apply_attr (opt c (AXorPeer h p)) m = m\<lparr>xorPeerHost := (if c then h else xorPeerHost m), xorPeerPort := (if c then p else xorPeerPort m)\<rparr>"
  "fold apply_attr (opt c (AXorRelayed h p)) m = m\<lparr>xorRelayedHost := (if c then h else xorRelayedHost m), xorRelayedPort := (if c then p else xorRelayedPort m)\<rparr>"
  "fold apply_attr (opt c (AChangeRequest x7)) m = m\<lparr>m_changeRequest := (if c then x7 else m_changeRequest m), m_attributes := (if c then {ChangeRequest} else {}) \<union> m_attributes m\<rparr>"
  "fold apply_attr (opt c (APriority x8)) m = m\<lparr>m_priority := (if c then x8 else m_priority m), m_attributes := (if c then {Priority} else {}) \<union> m_attributes m\<rparr>"
  "fold apply_attr (opt c (AChannelNumber x9)) m = m\<lparr>m_channelNumber := (if c then x9 else m_channelNumber m), m_attributes := (if c then {ChannelNumber} else {}) \<union> m_attributes m\<rparr>"
  "fold apply_attr (opt c (AData x10)) m = m\<lparr>m_data := (if c then x10 else m_data m), m_attributes := (if c then {DataAttr} else {}) \<union> m_attributes m\<rparr>"
  "fold apply_attr (opt c (ALifetime x11)) m = m\<lparr>m_lifetime := (if c then x11 else m_lifetime m), m_attributes := (if c then {Lifetime} else {}) \<union> m_attributes m\<rparr>"
  "fold apply_attr (opt c (ANonce x12)) m = m\<lparr>m_nonce := (if c then x12 else m_nonce m), m_attributes := (if c then {Nonce} else {}) \<union> m_attributes m\<rparr>"
  "fold apply_attr (opt c (ARealm x13)) m = m\<lparr>m_realm := (if c then x13 else m_realm m), m_attributes := (if c then {Realm} else {}) \<union> m_attributes m\<rparr>"
  "fold apply_attr (opt c (ARequestedTransport x14)) m = m\<lparr>m_requestedTransport := (if c then x14 else m_requestedTransport m), m_attributes := (if c then {RequestedTransport} else {}) \<union> m_attributes m\<rparr>"
  "fold apply_attr (opt c (AReservationToken x15)) m = m\<lparr>m_reservationToken := (if c then x15 else m_reservationToken m), m_attributes := (if c then {ReservationToken} else {}) \<union> m_attributes m\<rparr>"
  "fold apply_attr (opt c (ASoftware x16)) m = m\<lparr>m_software := (if c then x16 else m_software m), m_attributes := (if c then {Software} else {}) \<union> m_attributes m\<rparr>"
  "fold apply_attr (opt c (AUsername x17)) m = m\<lparr>m_username := (if c then x17 else m_username m), m_attributes := (if c then {Username} else {}) \<union> m_attributes m\<rparr>"
  "fold apply_attr (opt c (AErrorCode n t)) m = m\<lparr>errorCode := (if c then n else errorCode m), errorPhrase := (if c then t else errorPhrase m)\<rparr>"
  "fold apply_attr (opt c AUseCandidate) m = m\<lparr>useCandidate := (c \<or> useCandidate m)\<rparr>"
  "fold apply_attr (opt c (AIceControlling b)) m = m\<lparr>iceControlling := (if c then b else iceControlling m)\<rparr>"
  "fold apply_attr (opt c (AIceControlled b)) m = m\<lparr>iceControlled := (if c then b else iceControlled m)\<rparr>"
  by (simp_all add: opt_def setter_defs)

lemma if_singleton: "(if x \<in> A then {x} else {}) = A \<inter> {x}"
  by simp

lemma replay_sent:
  "fold apply_attr (attributes_of m) ((new_StunMessage env)\<lparr>m_type := m_type m, m_cookie := m_cookie m, m_id := m_id m\<rparr>) = sent env m"
  by (simp add: attributes_of_def replay_opt sent_def new_StunMessage_def sent_host_def sent_port_def if_singleton
      carried_def cong: if_cong)
     blast

lemma decode_from_attributes:
  assumes "wf_message env m" and "m_id m1 = m_id m" and "\<And>t. fromUtf8 env (toUtf8 env t) = t"
    and "length buffer = 20 + length (encode_attributes env m) + length rest"
  shows "decode_from env buffer key 0 False m1 (encode_attributes env m @ rest) =
    decode_from env buffer key (length (encode_attributes env m)) False (fold apply_attr (attributes_of m) m1) rest"
  using decode_loop_attributes [of env "attributes_of m" m1 0 "length buffer - 20" buffer key rest "[]"] assms
  by (simp add: decode_from_def STUN_HEADER_def encode_attributes_attr_bytes wf_message_def STUN_ID_SIZE_def)

text \<open>The bytes the message integrity code covers: the packet up to it, with the size that includes it.\<close>

definition encode_covered :: "stun_env \<Rightarrow> QXmppStunMessage \<Rightarrow> bytes" where
  "encode_covered env m = (let body = encode_attributes env m in packet m (of_nat (length body + 24)) body)"

lemma decode_encode:
  fixes env key m
  defines "body \<equiv> encode_attributes env m"
  defines "copy \<equiv> encode_covered env m"
  assumes "wf_message env m" and "\<And>t. fromUtf8 env (toUtf8 env t) = t" and "\<And>x. length (sha1 env x) = 20"
    and "length (encode env key fp m) < 2 ^ 16 + 20"
  shows "decode env (encode env key fp m) key' (new_StunMessage env) =
    (if key = [] \<or> key' = [] \<or> generateHmacSha1 (sha1 env) key' copy = generateHmacSha1 (sha1 env) key copy
     then (True, sent env m, []) else (False, sent env m, [''Bad message integrity'']))"
proof -
  let ?b1 = "body @ integrity_attr env key m body"
  let ?b2 = "?b1 @ fingerprint_attr fp m ?b1"
  let ?p = "packet m (of_nat (length ?b2)) ?b2"
  have i: "length (m_id m) = 12" using assms(3) by (simp add: wf_message_def STUN_ID_SIZE_def)
  have enc: "encode env key fp m = ?p"
    using encode_packet [OF i assms(5), of key fp] by (simp only: Let_def body_def)
  define p where "p = ?p"
  have lenp: "length p = 20 + length body + length (integrity_attr env key m body @ fingerprint_attr fp m ?b1)"
    by (simp add: p_def length_packet [OF i])
  have "decode env p key' (new_StunMessage env) = decode_from env p key' 0 False
      ((new_StunMessage env)\<lparr>m_type := m_type m, m_cookie := m_cookie m, m_id := m_id m\<rparr>) ?b2"
    unfolding p_def
    using assms(6) i by (intro decode_packet) (simp_all add: enc length_packet new_StunMessage_def STUN_ID_SIZE_def)
  also have "\<dots> = decode_from env p key' (length body) False (sent env m)
      (integrity_attr env key m body @ fingerprint_attr fp m ?b1)"
    using decode_from_attributes [OF assms(3) _ assms(4) lenp [unfolded body_def],
        of "(new_StunMessage env)\<lparr>m_type := m_type m, m_cookie := m_cookie m, m_id := m_id m\<rparr>" key']
    by (simp add: body_def replay_sent)
  finally have start: "decode env p key' (new_StunMessage env) = decode_from env p key' (length body) False (sent env m)
      (integrity_attr env key m body @ fingerprint_attr fp m ?b1)" .
  have len: "key \<noteq> [] \<Longrightarrow> length ?b1 = length body + 24"
    by (simp add: integrity_attr_def length_hmac assms(5))
  have finish: "decode_from env p key' (length ?b1) ai (sent env m) (fingerprint_attr fp m ?b1) = (True, sent env m, [])" for ai
  proof (cases fp)
    case True
    then show ?thesis using decode_from_fingerprint [OF i, of env _ ?b1 key' ai "sent env m"] by (simp add: p_def)
  next
    case False
    then show ?thesis by (intro decode_from_end) (simp add: lenp fingerprint_attr_def)
  qed
  have check: "decode_from env p key' (length body) False (sent env m) (integrity_attr env key m body @ fingerprint_attr fp m ?b1) =
    (if key' = [] \<or> generateHmacSha1 (sha1 env) key' copy = generateHmacSha1 (sha1 env) key copy
     then decode_from env p key' (length ?b1) True (sent env m) (fingerprint_attr fp m ?b1)
     else (False, sent env m, [''Bad message integrity'']))" if "key \<noteq> []"
    using decode_from_integrity [OF i assms(5) that, of "of_nat (length ?b2)" body "fingerprint_attr fp m ?b1" key' "sent env m"]
    unfolding len [OF that] copy_def encode_covered_def body_def [symmetric] Let_def p_def append_assoc .
  show ?thesis
  proof (cases "key = []")
    case True
    then show ?thesis unfolding enc p_def [symmetric] start using finish [of False] by (simp add: integrity_attr_def)
  next
    case False
    then show ?thesis unfolding enc p_def [symmetric] start check [OF False] finish by simp
  qed
qed

section \<open>Properties\<close>

text \<open>
  C5.  What a STUN message encodes to is decoded to the message again: the decoder accepts the
  packet without a complaint and restores every field that was set, XORed IPv4 and IPv6
  addresses, padded strings and byte arrays, MESSAGE-INTEGRITY and FINGERPRINT included,
  provided the receiver has the sender's key or none is used.  The message must fit the format
  (sizes of 16 bits, a 12 byte id, an error code of two bytes).
\<close>

theorem stun_roundtrip:
  assumes "wf_message env m" and "\<And>t. fromUtf8 env (toUtf8 env t) = t" and "\<And>x. length (sha1 env x) = 20"
    and "length (encode env key fp m) < 2 ^ 16 + 20" and "key' = key \<or> key' = []"
  shows "decode env (encode env key fp m) key' (new_StunMessage env) = (True, sent env m, [])"
  using decode_encode [OF assms(1-4), of key'] assms(5) by auto

definition ascii_env :: stun_env where
  "ascii_env = \<lparr>sha1 = (\<lambda>x. take 20 (x @ replicate 20 0)), toUtf8 = map (\<lambda>c. of_nat (of_char c)),
     fromUtf8 = map (\<lambda>b. char_of (unat b)), uninit = (\<lambda>_. 0)\<rparr>"

lemma ascii_env_laws: "fromUtf8 ascii_env (toUtf8 ascii_env t) = t" "length (sha1 ascii_env x) = 20"
  by (simp_all add: ascii_env_def comp_def map_idI unat_of_nat)

definition binding_request :: QXmppStunMessage where
  "binding_request = setUsername ''bob'' (setPriority 5 ((new_StunMessage ascii_env)\<lparr>m_type := 1, m_id := [1,2,3,4,5,6,7,8,9,10,11,12],
     xorMappedHost := IPv4 0xC0A80001, xorMappedPort := 3478, iceControlling := [1,2,3,4,5,6,7,8]\<rparr>))"

lemma binding_request_fits:
  "wf_message ascii_env binding_request" "length (encode ascii_env key fp binding_request) < 2 ^ 16 + 20"
proof -
  show wf: "wf_message ascii_env binding_request"
    by (simp add: wf_message_def binding_request_def STUN_ID_SIZE_def attributes_of_def opt_def sends_address_def
        new_StunMessage_def setter_defs ascii_env_def)
  have "length (m_id binding_request) = 12" using wf by (simp add: wf_message_def STUN_ID_SIZE_def)
  moreover have "length (encode_attributes ascii_env binding_request) = 40"
    by (simp add: binding_request_def encode_attributes_def new_StunMessage_def setter_defs addAddress_def encodeAddress_def
        encodeString_def ascii_env_def padding_def)
  ultimately show "length (encode ascii_env key fp binding_request) < 2 ^ 16 + 20"
    by (simp add: encode_packet ascii_env_laws Let_def length_packet integrity_attr_def fingerprint_attr_def length_hmac)
qed

theorem stun_roundtrip_witness:
  "decode ascii_env (encode ascii_env [7] True binding_request) [7] (new_StunMessage ascii_env) =
     (True, sent ascii_env binding_request, [])"
  by (rule stun_roundtrip) (simp_all add: binding_request_fits [simplified] ascii_env_laws)

text \<open>
  C13.  A packet whose MESSAGE-INTEGRITY was computed with another key is refused with the error
  \<^verbatim>\<open>Bad message integrity\<close>, unless the two keys give the same code for it.
\<close>

theorem stun_wrong_key_refused:
  assumes "wf_message env m" and "\<And>t. fromUtf8 env (toUtf8 env t) = t" and "\<And>x. length (sha1 env x) = 20"
    and "length (encode env key fp m) < 2 ^ 16 + 20" and "key \<noteq> []" and "key' \<noteq> []"
    and "generateHmacSha1 (sha1 env) key' (encode_covered env m) \<noteq> generateHmacSha1 (sha1 env) key (encode_covered env m)"
  shows "decode env (encode env key fp m) key' (new_StunMessage env) = (False, sent env m, [''Bad message integrity''])"
  using decode_encode [OF assms(1-4), of key'] assms(5-7) by simp

theorem stun_wrong_key_refused_witness:
  "fst (decode ascii_env (encode ascii_env [7] True binding_request) [8] (new_StunMessage ascii_env)) = False"
proof -
  have "generateHmacSha1 (sha1 ascii_env) [8] t \<noteq> generateHmacSha1 (sha1 ascii_env) [7] t" for t
    by (simp add: generateHmacSha1_def generateHmac_def ascii_env_def Let_def upt_conv_Cons)
  then show ?thesis
    using stun_wrong_key_refused [of ascii_env binding_request "[7]" True "[8]"] binding_request_fits ascii_env_laws by simp
qed

text \<open>
  A packet without MESSAGE-INTEGRITY is accepted whatever key the receiver gives: the
  decoder checks the code only where the attribute is present, and does not report that it is
  missing.
\<close>

lemma stun_missing_integrity_accepted:
  assumes "wf_message env m" and "\<And>t. fromUtf8 env (toUtf8 env t) = t" and "\<And>x. length (sha1 env x) = 20"
    and "length (encode env [] fp m) < 2 ^ 16 + 20"
  shows "decode env (encode env [] fp m) key' (new_StunMessage env) = (True, sent env m, [])"
  using decode_encode [OF assms, of key'] by simp

lemma stun_missing_integrity_accepted_witness:
  "decode ascii_env (encode ascii_env [] True binding_request) [9, 9] (new_StunMessage ascii_env) =
     (True, sent ascii_env binding_request, [])"
  by (rule stun_missing_integrity_accepted) (simp_all add: binding_request_fits [simplified] ascii_env_laws)

lemma type_preference_bounds: "0 \<le> type_preference t" "type_preference t \<le> 126"
  by (cases t; simp add: type_preference_def)+

lemma uint_candidatePriority:
  assumes "1 \<le> c" "c \<le> 256" "0 \<le> l" "l < 65536"
  shows "uint (candidatePriority t c l) = 2 ^ 24 * type_preference t + 2 ^ 8 * l + (256 - c)"
    and "2 ^ 24 * type_preference t + 2 ^ 8 * l + (256 - c) < 2 ^ 31"
proof -
  show lt: "2 ^ 24 * type_preference t + 2 ^ 8 * l + (256 - c) < 2 ^ 31"
    using assms type_preference_bounds [of t] by simp
  then show "uint (candidatePriority t c l) = 2 ^ 24 * type_preference t + 2 ^ 8 * l + (256 - c)"
    using assms type_preference_bounds [of t]
    unfolding candidatePriority_def uint_word_of_int by (intro mod_pos_pos_trivial) simp_all
qed

text \<open>
  The priority of a candidate is computed without overflow and orders candidates by their
  kind first, host before peer reflexive before server reflexive before relayed, then by local
  preference, then by component with the lowest number first.
\<close>

lemma candidatePriority_order:
  assumes "1 \<le> c" "c \<le> 256" "0 \<le> l" "l < 65536" "1 \<le> c'" "c' \<le> 256" "0 \<le> l'" "l' < 65536"
  shows "candidatePriority t c l < candidatePriority t' c' l' \<longleftrightarrow>
    type_preference t < type_preference t' \<or>
    type_preference t = type_preference t' \<and> (l < l' \<or> l = l' \<and> c' < c)"
  using assms unfolding word_less_def by (simp add: uint_candidatePriority) linarith

lemma candidatePriority_order_witness:
  "candidatePriority RelayedType 1 65535 < candidatePriority HostType 2 0"
  by (subst candidatePriority_order) (simp_all add: type_preference_def)

end
