(* ===== verification/DigestMd5.thy ===== *)
theory DigestMd5
  imports Prelude "HOL-Library.List_Lexorder"
begin

text \<open>
  The messages of the mechanism DIGEST-MD5: \<^verbatim>\<open>QXmppSaslDigestMd5::parseMessage\<close> and
  \<^verbatim>\<open>serializeMessage\<close>, and the digest \<^verbatim>\<open>calculateDigest\<close>, from \<^verbatim>\<open>src/base/QXmppSasl.cpp\<close>.
  The index into the message that the parser advances is represented by what follows it.
\<close>

section \<open>Definitions\<close>

type_synonym digest_map = "(bytes \<times> bytes) list"

abbreviation quot :: byte where "quot \<equiv> 34"
abbreviation comma :: byte where "comma \<equiv> 44"
abbreviation equals :: byte where "equals \<equiv> 61"
abbreviation backslash :: byte where "backslash \<equiv> 92"

text \<open>\<^verbatim>\<open>QByteArray::trimmed\<close>, \<^verbatim>\<open>replace\<close> of a character and \<^verbatim>\<open>replace\<close> of a pair of characters.\<close>

definition byte_space :: "byte \<Rightarrow> bool" where
  "byte_space b \<longleftrightarrow> b \<in> {9, 10, 11, 12, 13, 32}"

definition trimmed_bytes :: "bytes \<Rightarrow> bytes" where
  "trimmed_bytes s = rev (dropWhile byte_space (rev (dropWhile byte_space s)))"

definition replace1 :: "byte \<Rightarrow> bytes \<Rightarrow> bytes \<Rightarrow> bytes" where
  "replace1 c r s = concat (map (\<lambda>x. if x = c then r else [x]) s)"

fun replace2 :: "byte \<Rightarrow> byte \<Rightarrow> bytes \<Rightarrow> bytes \<Rightarrow> bytes" where
  "replace2 a b r (x # y # s) = (if x = a \<and> y = b then r @ replace2 a b r s else x # replace2 a b r (y # s))"
| "replace2 a b r s = s"

text \<open>
  The search for the closing quote: the first quote that does not follow a backslash.  The
  first argument is the byte before, the opening quote at the start.
\<close>

fun close_quote :: "byte \<Rightarrow> bytes \<Rightarrow> (bytes \<times> bytes) option" where
  "close_quote prev [] = None"
| "close_quote prev (x # xs) =
     (if x = quot \<and> prev \<noteq> backslash then Some ([], xs) else map_option (apfst (Cons x)) (close_quote x xs))"

lemma close_quote_length: "close_quote p s = Some (v, r) \<Longrightarrow> length r < length s"
  by (induction s arbitrary: p v) (auto split: if_splits intro: less_SucI)

lemma split_first_length: "split_first c s = Some (a, r) \<Longrightarrow> length r < length s"
  by (drule split_first_Some) simp

definition unquote :: "bytes \<Rightarrow> bytes" where
  "unquote v = replace2 backslash backslash [backslash] (replace2 backslash quot [quot] v)"

function parse_loop :: "bytes \<Rightarrow> digest_map \<Rightarrow> digest_map" where
  "parse_loop ba m =
     (case split_first equals ba of
        None \<Rightarrow> m
      | Some (k, rest) \<Rightarrow>
          let key = trimmed_bytes k
          in (case rest of
                [] \<Rightarrow> qmap_insert key [] m
              | c # rest' \<Rightarrow>
                  if c = quot
                  then (case close_quote quot rest' of
                          None \<Rightarrow> m
                        | Some (v, after) \<Rightarrow> parse_loop (drop 1 after) (qmap_insert key (unquote v) m))
                  else (case split_first comma rest of
                          None \<Rightarrow> qmap_insert key rest m
                        | Some (v, after) \<Rightarrow> parse_loop after (qmap_insert key v m))))"
  by pat_completeness auto
termination
  by (relation "measure (\<lambda>(ba, m). length ba)")
     (auto dest!: split_first_length close_quote_length split: if_splits)

declare parse_loop.simps [simp del]

definition parseMessage :: "bytes \<Rightarrow> digest_map" where
  "parseMessage ba = parse_loop ba []"

definition separators :: bytes where
  "separators = ascii ''()<>@,;:'' @ [backslash, quot] @ ascii ''/[]?={} '' @ [9]"

definition quote_value :: "bytes \<Rightarrow> bytes" where
  "quote_value value =
     (if list_ex (\<lambda>c. c \<in> set value) separators
      then [quot] @ replace1 quot [backslash, quot] (replace1 backslash [backslash, backslash] value) @ [quot]
      else value)"

definition serializeMessage :: "digest_map \<Rightarrow> bytes" where
  "serializeMessage m =
     fold (\<lambda>(key, value) ba. (if ba \<noteq> [] then ba @ [comma] else ba) @ key @ [equals] @ quote_value value) m []"

text \<open>The digest, with MD5 and the hexadecimal rendering as parameters.\<close>

definition calculateDigest :: "(bytes \<Rightarrow> bytes) \<Rightarrow> (bytes \<Rightarrow> bytes) \<Rightarrow> bytes \<Rightarrow> bytes \<Rightarrow> bytes \<Rightarrow> bytes \<Rightarrow> bytes \<Rightarrow> bytes \<Rightarrow> bytes" where
  "calculateDigest md5 toHex mthd digestUri secret nonce cnonce nc =
     (let A1 = secret @ ascii '':'' @ nonce @ ascii '':'' @ cnonce;
          A2 = mthd @ ascii '':'' @ digestUri;
          HA1 = toHex (md5 A1);
          HA2 = toHex (md5 A2);
          KD = HA1 @ ascii '':'' @ nonce @ ascii '':'' @ nc @ ascii '':'' @ cnonce @ ascii '':auth:'' @ HA2
      in toHex (md5 KD))"

section \<open>Lemmas\<close>

definition escape :: "bytes \<Rightarrow> bytes" where
  "escape v = replace1 quot [backslash, quot] (replace1 backslash [backslash, backslash] v)"

lemma replace1_simps [simp]:
  "replace1 c r [] = []" "replace1 c r (x # s) = (if x = c then r else [x]) @ replace1 c r s"
  by (simp_all add: replace1_def)

lemma replace1_append: "replace1 c r (s @ t) = replace1 c r s @ replace1 c r t"
  by (simp add: replace1_def)

lemma escape_simps [simp]:
  "escape [] = []"
  "escape (x # s) = (if x = backslash then [backslash, backslash] else if x = quot then [backslash, quot] else [x]) @ escape s"
  by (simp_all add: escape_def replace1_append)

lemma escape_no_quote_first: "escape v = y # t \<Longrightarrow> y \<noteq> quot"
  by (cases v) (auto split: if_splits)

lemma replace2_keep: "x \<noteq> a \<or> s = [] \<or> hd s \<noteq> b \<Longrightarrow> replace2 a b r (x # s) = x # replace2 a b r s"
  by (cases s) auto

lemma unescape_quotes: "replace2 backslash quot [quot] (escape v) = replace1 backslash [backslash, backslash] v"
proof (induction v)
  case (Cons x v)
  have "escape v = [] \<or> hd (escape v) \<noteq> quot"
    using escape_no_quote_first [of v] by (cases "escape v") auto
  then show ?case using Cons by (auto simp: replace2_keep)
qed simp

lemma unescape_backslashes: "replace2 backslash backslash [backslash] (replace1 backslash [backslash, backslash] v) = v"
  by (induction v) (auto simp: replace2_keep)

lemma unquote_escape: "unquote (escape v) = v"
  by (simp add: unquote_def unescape_quotes unescape_backslashes)

lemma close_quote_escape:
  "(v = [] \<Longrightarrow> prev \<noteq> backslash) \<Longrightarrow> (v \<noteq> [] \<Longrightarrow> last v \<noteq> backslash) \<Longrightarrow>
   close_quote prev (escape v @ quot # r) = Some (escape v, r)"
  by (induction v arbitrary: prev) (auto split: if_splits)

text \<open>The messages that survive: keys without \<^verbatim>\<open>=\<close> and outer space, no value ends in a backslash.\<close>

definition wf_digest :: "digest_map \<Rightarrow> bool" where
  "wf_digest m \<longleftrightarrow> sorted_wrt (<) (map fst m) \<and>
     list_all (\<lambda>(k, v). equals \<notin> set k \<and> trimmed_bytes k = k \<and> (v = [] \<or> last v \<noteq> backslash)) m"

fun joined :: "digest_map \<Rightarrow> bytes" where
  "joined [] = []"
| "joined [(k, v)] = k @ equals # quote_value v"
| "joined ((k, v) # kv # m) = k @ equals # quote_value v @ comma # joined (kv # m)"

lemma serialize_fold:
  "ba \<noteq> [] \<Longrightarrow> fold (\<lambda>(key, value) ba. (if ba \<noteq> [] then ba @ [comma] else ba) @ key @ [equals] @ quote_value value) m ba =
     ba @ (if m = [] then [] else comma # joined m)"
proof (induction m arbitrary: ba)
  case (Cons kv m)
  obtain k v where kv: "kv = (k, v)" by force
  show ?case using Cons by (cases m) (auto simp: kv)
qed simp

lemma serializeMessage_joined: "serializeMessage m = joined m"
proof (cases m)
  case (Cons kv m')
  obtain k v where kv: "kv = (k, v)" by force
  show ?thesis
    unfolding serializeMessage_def using serialize_fold [of "k @ equals # quote_value v" m']
    by (cases m') (auto simp: Cons kv)
qed (simp add: serializeMessage_def)

lemma separators_mem: "{quot, comma} \<subseteq> set separators"
  by (simp add: separators_def ascii_def)

text \<open>One pair: the parser reads back the pair and goes on behind the comma.\<close>

lemma parse_pair:
  assumes "equals \<notin> set k" and "trimmed_bytes k = k" and "v = [] \<or> last v \<noteq> backslash"
  shows "parse_loop (k @ equals # quote_value v) m = qmap_insert k v m \<and>
    parse_loop (k @ equals # quote_value v @ comma # r) m = parse_loop r (qmap_insert k v m)"
proof -
  have key: "split_first equals (k @ equals # x) = Some (k, x)" for x
    using assms(1) by (rule split_first_append)
  have nil: "parse_loop [] m' = m'" for m' by (simp add: parse_loop.simps)
  show ?thesis
  proof (cases "list_ex (\<lambda>c. c \<in> set v) separators")
    case True
    then have q: "quote_value v @ x = quot # escape v @ quot # x" for x by (simp add: quote_value_def escape_def)
    have "close_quote quot (escape v @ quot # x) = Some (escape v, x)" for x
      using assms(3) by (intro close_quote_escape) auto
    then show ?thesis
      using q [of "[]"] q [of "comma # r"] assms(2) nil
      by (subst (1 2) parse_loop.simps) (simp add: key Let_def unquote_escape)
  next
    case False
    then have v: "quote_value v = v" "comma \<notin> set v" "quot \<notin> set v"
      using separators_mem by (auto simp: quote_value_def list_ex_iff)
    then have "v = [] \<or> hd v \<noteq> quot" by (cases v) auto
    then show ?thesis
      using v split_first_append [OF v(2), of r] assms(2) split_first_None [of comma v]
      by (subst (1 2) parse_loop.simps) (auto simp: key Let_def split: list.split)
  qed
qed

lemma parse_joined:
  "list_all (\<lambda>(k, v). equals \<notin> set k \<and> trimmed_bytes k = k \<and> (v = [] \<or> last v \<noteq> backslash)) m \<Longrightarrow>
   parse_loop (joined m) m0 = fold (\<lambda>(k, v). qmap_insert k v) m m0"
proof (induction m arbitrary: m0 rule: joined.induct)
  case 1
  then show ?case by (simp add: parse_loop.simps)
qed (simp_all add: parse_pair)

lemma parse_serialize: "wf_digest m \<Longrightarrow> parseMessage (serializeMessage m) = m"
  using fold_qmap_insert_append [of "[]" m]
  by (simp add: parseMessage_def serializeMessage_joined wf_digest_def parse_joined)

text \<open>Keys and values that may be inserted.\<close>

definition digest_key_ok :: "bytes \<Rightarrow> bool" where
  "digest_key_ok k \<longleftrightarrow> equals \<notin> set k \<and> trimmed_bytes k = k"

definition digest_value_ok :: "bytes \<Rightarrow> bool" where
  "digest_value_ok v \<longleftrightarrow> v = [] \<or> last v \<noteq> backslash"

lemma set_qmap_insert: "set (qmap_insert k v m) \<subseteq> insert (k, v) (set m)"
  by (induction m) (auto split: if_splits)

lemma wf_digest_insert: "wf_digest m \<Longrightarrow> digest_key_ok k \<Longrightarrow> digest_value_ok v \<Longrightarrow> wf_digest (qmap_insert k v m)"
  unfolding wf_digest_def digest_key_ok_def digest_value_ok_def list_all_iff
  using set_qmap_insert [of k v m] sorted_qmap_insert [of m k v] by blast

lemma wf_digest_fold:
  "wf_digest m \<Longrightarrow> list_all (\<lambda>(k, v). digest_key_ok (ascii k) \<and> digest_value_ok v) kvs \<Longrightarrow>
   wf_digest (fold (\<lambda>(k, v). qmap_insert (ascii k) v) kvs m)"
  by (induction kvs arbitrary: m) (auto simp: wf_digest_insert)

lemma wf_digest_Nil [simp]: "wf_digest []"
  by (simp add: wf_digest_def)

section \<open>Properties\<close>

text \<open>
  A DIGEST-MD5 message is parsed to the map it was serialized from, with every value quoted
  and escaped as needed, as long as no value ends in a backslash and the keys contain no
  equals sign and no outer space.
\<close>

lemma digest_message_roundtrip:
  assumes "wf_digest m"
  shows "parseMessage (serializeMessage m) = m"
  using assms by (rule parse_serialize)

lemma digest_message_roundtrip_witness:
  "parseMessage (serializeMessage [(ascii ''nonce'', ascii ''a,b'' @ [backslash, quot] @ ascii ''c''), (ascii ''qop'', ascii ''auth'')]) =
     [(ascii ''nonce'', ascii ''a,b'' @ [backslash, quot] @ ascii ''c''), (ascii ''qop'', ascii ''auth'')]"
  by (rule digest_message_roundtrip) (simp add: wf_digest_def ascii_def trimmed_bytes_def byte_space_def list_less_def)

text \<open>
  A value that ends in a backslash and needs quotes is lost: the parser takes the closing
  quote, which follows the escaped backslash, for an escaped one and gives up.
\<close>

lemma digest_trailing_backslash_lost:
  "parseMessage (serializeMessage [(ascii ''username'', [97, backslash])]) = []"
  by code_simp

end
