(* ===== verification/SaslMechanism.thy ===== *)
theory SaslMechanism
  imports Dom
begin

text \<open>
  The SASL mechanisms of \<^verbatim>\<open>src/base/QXmppSasl.cpp\<close> and \<^verbatim>\<open>QXmppSasl_p.h\<close>: their names, the
  order of preference, which of them a client has credentials for, and the choice of one of
  the mechanisms a server offers (\<^verbatim>\<open>chooseMechanism\<close> of \<^verbatim>\<open>src/client/QXmppSaslManager.cpp\<close>).
\<close>

section \<open>Mechanisms\<close>

datatype IanaHashAlgorithm = Sha256 | Sha384 | Sha512 | Sha3_224 | Sha3_256 | Sha3_384 | Sha3_512
  | Blake2s_256 | Blake2b_256 | Blake2b_512

definition IanaHashAlgorithm_Values :: "(IanaHashAlgorithm \<times> qstring) list" where
  "IanaHashAlgorithm_Values = [(Sha256, ''SHA-256''), (Sha384, ''SHA-384''), (Sha512, ''SHA-512''),
     (Sha3_224, ''SHA3-224''), (Sha3_256, ''SHA3-256''), (Sha3_384, ''SHA3-384''), (Sha3_512, ''SHA3-512''),
     (Blake2s_256, ''BLAKE2S-256''), (Blake2b_256, ''BLAKE2B-256''), (Blake2b_512, ''BLAKE2B-512'')]"

datatype ScramAlgorithm = Scram_Sha1 | Scram_Sha256 | Scram_Sha512 | Scram_Sha3_512

definition ScramAlgorithm_Values :: "(ScramAlgorithm \<times> qstring) list" where
  "ScramAlgorithm_Values = [(Scram_Sha1, ''SCRAM-SHA-1''), (Scram_Sha256, ''SCRAM-SHA-256''),
     (Scram_Sha512, ''SCRAM-SHA-512''), (Scram_Sha3_512, ''SCRAM-SHA3-512'')]"

datatype ChannelBindingType = TlsServerEndpoint | TlsUnique | TlsExporter | NoBinding

definition ChannelBindingType_Values :: "(ChannelBindingType \<times> qstring) list" where
  "ChannelBindingType_Values = [(TlsServerEndpoint, ''ENDP''), (TlsUnique, ''UNIQ''), (TlsExporter, ''EXPR''),
     (NoBinding, ''NONE'')]"

record SaslHtMechanism =
  hashAlgorithm :: IanaHashAlgorithm
  channelBindingType :: ChannelBindingType

text \<open>The alternatives of the variant, in the order of increasing preference.\<close>

datatype SaslMechanism = SaslXGoogleMechanism | SaslXWindowsLiveMechanism | SaslXFacebookMechanism
  | SaslAnonymousMechanism | SaslPlainMechanism | SaslDigestMd5Mechanism
  | SaslScramMechanism ScramAlgorithm | SaslHtMechanism SaslHtMechanism

text \<open>\<^verbatim>\<open>QCryptographicHash::Algorithm\<close>, as far as it is used.\<close>

datatype qt_hash = Qt_Md5 | Qt_Sha1 | Qt_Iana IanaHashAlgorithm

definition ianaHashAlgorithmToQt :: "IanaHashAlgorithm \<Rightarrow> qt_hash" where
  "ianaHashAlgorithmToQt alg = Qt_Iana alg"

fun qtAlgorithm :: "ScramAlgorithm \<Rightarrow> qt_hash" where
  "qtAlgorithm Scram_Sha1 = Qt_Sha1"
| "qtAlgorithm Scram_Sha256 = Qt_Iana Sha256"
| "qtAlgorithm Scram_Sha512 = Qt_Iana Sha512"
| "qtAlgorithm Scram_Sha3_512 = Qt_Iana Sha3_512"

section \<open>Names\<close>

definition startsWith :: "'a list \<Rightarrow> 'a list \<Rightarrow> bool" where
  "startsWith s p \<longleftrightarrow> take (length p) s = p"

text \<open>
  The loop over the hash algorithms: it does not stop at the first that matches, so further
  names may be taken off the string.
\<close>

definition ht_algorithm_step :: "IanaHashAlgorithm \<times> qstring \<Rightarrow> IanaHashAlgorithm option \<times> qstring \<Rightarrow>
    IanaHashAlgorithm option \<times> qstring" where
  "ht_algorithm_step v st = (case v of (alg, name) \<Rightarrow> case st of (algorithm, s) \<Rightarrow>
     if startsWith s name then (Some alg, drop (length name) s) else (algorithm, s))"

definition SaslHtMechanism_fromString :: "qstring \<Rightarrow> SaslHtMechanism option" where
  "SaslHtMechanism_fromString s0 =
     (if \<not> startsWith s0 ''HT-'' then None
      else case fold ht_algorithm_step IanaHashAlgorithm_Values (None, drop 3 s0) of
             (None, _) \<Rightarrow> None
           | (Some algorithm, s) \<Rightarrow>
               if \<not> startsWith s ''-'' then None
               else (case enum_fromString ChannelBindingType_Values (drop 1 s) of
                       None \<Rightarrow> None
                     | Some cbType \<Rightarrow> Some \<lparr>hashAlgorithm = algorithm, channelBindingType = cbType\<rparr>))"

definition SaslHtMechanism_toString :: "SaslHtMechanism \<Rightarrow> qstring" where
  "SaslHtMechanism_toString ht = ''HT-'' @ enum_toString IanaHashAlgorithm_Values (hashAlgorithm ht) @ ''-'' @
     enum_toString ChannelBindingType_Values (channelBindingType ht)"

definition SaslMechanism_fromString :: "qstring \<Rightarrow> SaslMechanism option" where
  "SaslMechanism_fromString str =
     (if startsWith str ''SCRAM-'' then map_option SaslScramMechanism (enum_fromString ScramAlgorithm_Values str)
      else if startsWith str ''HT-'' then map_option SaslHtMechanism (SaslHtMechanism_fromString str)
      else if str = ''DIGEST-MD5'' then Some SaslDigestMd5Mechanism
      else if str = ''PLAIN'' then Some SaslPlainMechanism
      else if str = ''ANONYMOUS'' then Some SaslAnonymousMechanism
      else if str = ''X-FACEBOOK-PLATFORM'' then Some SaslXFacebookMechanism
      else if str = ''X-MESSENGER-OAUTH2'' then Some SaslXWindowsLiveMechanism
      else if str = ''X-OAUTH2'' then Some SaslXGoogleMechanism
      else None)"

fun SaslMechanism_toString :: "SaslMechanism \<Rightarrow> qstring" where
  "SaslMechanism_toString (SaslScramMechanism scram) = enum_toString ScramAlgorithm_Values scram"
| "SaslMechanism_toString (SaslHtMechanism ht) = SaslHtMechanism_toString ht"
| "SaslMechanism_toString SaslDigestMd5Mechanism = ''DIGEST-MD5''"
| "SaslMechanism_toString SaslPlainMechanism = ''PLAIN''"
| "SaslMechanism_toString SaslAnonymousMechanism = ''ANONYMOUS''"
| "SaslMechanism_toString SaslXFacebookMechanism = ''X-FACEBOOK-PLATFORM''"
| "SaslMechanism_toString SaslXWindowsLiveMechanism = ''X-MESSENGER-OAUTH2''"
| "SaslMechanism_toString SaslXGoogleMechanism = ''X-OAUTH2''"

section \<open>Preference\<close>

text \<open>
  The default comparison of the variant: by alternative, then by its contents, where
  enumerators compare by their position.
\<close>

definition enum_rank :: "('e \<times> qstring) list \<Rightarrow> 'e \<Rightarrow> nat" where
  "enum_rank vals e = length (takeWhile (\<lambda>v. fst v \<noteq> e) vals)"

fun mechanism_rank :: "SaslMechanism \<Rightarrow> nat" where
  "mechanism_rank SaslXGoogleMechanism = 0"
| "mechanism_rank SaslXWindowsLiveMechanism = 1"
| "mechanism_rank SaslXFacebookMechanism = 2"
| "mechanism_rank SaslAnonymousMechanism = 3"
| "mechanism_rank SaslPlainMechanism = 4"
| "mechanism_rank SaslDigestMd5Mechanism = 5"
| "mechanism_rank (SaslScramMechanism a) = 6 + enum_rank ScramAlgorithm_Values a"
| "mechanism_rank (SaslHtMechanism ht) = 10 + 4 * enum_rank IanaHashAlgorithm_Values (hashAlgorithm ht) +
     enum_rank ChannelBindingType_Values (channelBindingType ht)"

lemma enum_rank_scram: "enum_rank ScramAlgorithm_Values a < 4"
  "enum_rank ScramAlgorithm_Values a = enum_rank ScramAlgorithm_Values b \<longleftrightarrow> a = b"
  by (cases a; cases b; simp add: enum_rank_def ScramAlgorithm_Values_def)+

lemma enum_rank_binding: "enum_rank ChannelBindingType_Values a < 4"
  "enum_rank ChannelBindingType_Values a = enum_rank ChannelBindingType_Values b \<longleftrightarrow> a = b"
  by (cases a; cases b; simp add: enum_rank_def ChannelBindingType_Values_def)+

lemma enum_rank_hash:
  "enum_rank IanaHashAlgorithm_Values a = enum_rank IanaHashAlgorithm_Values b \<longleftrightarrow> a = b"
  by (cases a; cases b; simp add: enum_rank_def IanaHashAlgorithm_Values_def)

lemma four_times_plus: "x < 4 \<Longrightarrow> y < 4 \<Longrightarrow> 4 * a + x = 4 * b + y \<longleftrightarrow> a = b \<and> x = (y :: nat)"
  by presburger

lemma mechanism_rank_inj: "mechanism_rank m = mechanism_rank m' \<longleftrightarrow> m = m'"
proof -
  have scram: "6 + enum_rank ScramAlgorithm_Values a < 10" for a using enum_rank_scram(1) [of a] by simp
  have ht: "mechanism_rank (SaslHtMechanism h) = mechanism_rank (SaslHtMechanism h') \<longleftrightarrow> h = h'" for h h'
    by (cases h; cases h') (simp add: four_times_plus enum_rank_binding enum_rank_hash)
  show ?thesis
    using scram ht enum_rank_scram
    by (cases m; cases m'; simp; metis less_add_same_cancel1 not_add_less1 nat_neq_iff add.assoc)
qed

instantiation SaslMechanism :: linorder
begin

definition less_eq_SaslMechanism :: "SaslMechanism \<Rightarrow> SaslMechanism \<Rightarrow> bool" where
  "less_eq_SaslMechanism m m' \<longleftrightarrow> mechanism_rank m \<le> mechanism_rank m'"

definition less_SaslMechanism :: "SaslMechanism \<Rightarrow> SaslMechanism \<Rightarrow> bool" where
  "less_SaslMechanism m m' \<longleftrightarrow> mechanism_rank m < mechanism_rank m'"

instance
  by standard (auto simp: less_eq_SaslMechanism_def less_SaslMechanism_def mechanism_rank_inj [symmetric])

end

section \<open>Credentials and the choice of a mechanism\<close>

text \<open>A \<^verbatim>\<open>QDateTime\<close> is a number of milliseconds, or none when it is not valid.\<close>

type_synonym datetime = "int option"

record HtToken =
  ht_mechanism :: SaslHtMechanism
  ht_secret :: qstring
  ht_expiry :: datetime

record Credentials =
  password :: qstring
  htToken :: "HtToken option"
  facebookAccessToken :: qstring
  facebookAppId :: qstring
  googleAccessToken :: qstring
  windowsLiveAccessToken :: qstring

fun isMechanismAvailable :: "SaslMechanism \<Rightarrow> Credentials \<Rightarrow> bool" where
  "isMechanismAvailable (SaslHtMechanism ht) c =
     (case htToken c of None \<Rightarrow> False | Some t \<Rightarrow> ht_mechanism t = ht \<and> channelBindingType ht = NoBinding)"
| "isMechanismAvailable (SaslScramMechanism _) c = (password c \<noteq> [])"
| "isMechanismAvailable SaslDigestMd5Mechanism c = (password c \<noteq> [])"
| "isMechanismAvailable SaslPlainMechanism c = (password c \<noteq> [])"
| "isMechanismAvailable SaslXFacebookMechanism c = (facebookAccessToken c \<noteq> [] \<and> facebookAppId c \<noteq> [])"
| "isMechanismAvailable SaslXWindowsLiveMechanism c = (windowsLiveAccessToken c \<noteq> [])"
| "isMechanismAvailable SaslXGoogleMechanism c = (googleAccessToken c \<noteq> [])"
| "isMechanismAvailable SaslAnonymousMechanism c = True"

text \<open>The part of \<^verbatim>\<open>QXmppConfiguration\<close> that authentication reads.\<close>

record sasl_config =
  disabledSaslMechanisms :: "qstring list"
  saslAuthMechanism :: qstring
  credentialData :: Credentials
  cfg_domain :: qstring
  cfg_user :: qstring

definition usable_mechanisms :: "sasl_config \<Rightarrow> qstring list \<Rightarrow> SaslMechanism list" where
  "usable_mechanisms config availableMechanisms =
     filter (\<lambda>m. isMechanismAvailable m (credentialData config))
       (List.map_filter SaslMechanism_fromString
         (filter (\<lambda>s. s \<notin> set (disabledSaslMechanisms config)) availableMechanisms))"

text \<open>
  The mechanism and the offered mechanisms that are disabled, which the error message lists.
  They are collected when the view is evaluated, and left out with a configured mechanism.
\<close>

definition chooseMechanism :: "sasl_config \<Rightarrow> qstring list \<Rightarrow> SaslMechanism option \<times> qstring list" where
  "chooseMechanism config availableMechanisms =
     (let disabledAvailable = filter (\<lambda>s. s \<in> set (disabledSaslMechanisms config)) availableMechanisms
      in case usable_mechanisms config availableMechanisms of
           [] \<Rightarrow> (None, disabledAvailable)
         | m # ms \<Rightarrow>
             (case (if saslAuthMechanism config \<noteq> [] then SaslMechanism_fromString (saslAuthMechanism config) else None) of
                Some preferred \<Rightarrow> if preferred \<in> set (m # ms) then (Some preferred, []) else (Some (fold max ms m), disabledAvailable)
              | None \<Rightarrow> (Some (fold max ms m), disabledAvailable)))"

section \<open>Lemmas\<close>

lemma fold_max_Max: "fold max ms m = Max (set (m # ms))"
  by (metis Max.set_eq_fold)

lemma usable_mechanisms_iff:
  "m \<in> set (usable_mechanisms config offered) \<longleftrightarrow>
   (\<exists>s \<in> set offered. s \<notin> set (disabledSaslMechanisms config) \<and> SaslMechanism_fromString s = Some m) \<and>
   isMechanismAvailable m (credentialData config)"
  by (auto simp: usable_mechanisms_def map_filter_def) force

lemma chooseMechanism_cases:
  "fst (chooseMechanism config offered) =
     (let ms = set (usable_mechanisms config offered);
          preferred = (if saslAuthMechanism config \<noteq> [] then SaslMechanism_fromString (saslAuthMechanism config) else None)
      in if ms = {} then None
         else if \<exists>p \<in> ms. preferred = Some p then preferred else Some (Max ms))"
  unfolding chooseMechanism_def Let_def fold_max_Max
  by (auto split: list.split option.split)

section \<open>Properties\<close>

text \<open>
  C23.  The client authenticates with a mechanism only if the server offered it under a name that
  is not disabled and the client has credentials for it; and unless the configured mechanism is
  among these, the choice is the one most preferred of them.
\<close>

theorem chooseMechanism_strongest:
  assumes "fst (chooseMechanism config offered) = Some m"
  shows "(\<exists>s \<in> set offered. s \<notin> set (disabledSaslMechanisms config) \<and> SaslMechanism_fromString s = Some m) \<and>
    isMechanismAvailable m (credentialData config) \<and>
    (SaslMechanism_fromString (saslAuthMechanism config) = Some m \<or>
     (\<forall>m' \<in> set (usable_mechanisms config offered). m' \<le> m))"
proof -
  let ?ms = "set (usable_mechanisms config offered)"
  have ms: "?ms \<noteq> {}" using assms by (auto simp: chooseMechanism_cases Let_def)
  then have "Max ?ms \<in> ?ms" "\<forall>m' \<in> ?ms. m' \<le> Max ?ms" by (simp_all del: set_empty)
  then have "m \<in> ?ms \<and> (SaslMechanism_fromString (saslAuthMechanism config) = Some m \<or> (\<forall>m' \<in> ?ms. m' \<le> m))"
    using assms ms by (auto simp: chooseMechanism_cases Let_def split: if_splits)
  then show ?thesis by (simp add: usable_mechanisms_iff)
qed

definition password_config :: sasl_config where
  "password_config = \<lparr>disabledSaslMechanisms = [''PLAIN''], saslAuthMechanism = [],
     credentialData = \<lparr>password = ''pw'', htToken = None, facebookAccessToken = [], facebookAppId = [],
       googleAccessToken = [], windowsLiveAccessToken = []\<rparr>, cfg_domain = ''a'', cfg_user = ''u''\<rparr>"

theorem chooseMechanism_strongest_witness:
  "isMechanismAvailable (SaslScramMechanism Scram_Sha256) (credentialData password_config) \<and>
   fst (chooseMechanism password_config [''PLAIN'', ''SCRAM-SHA-1'', ''SCRAM-SHA-256'', ''DIGEST-MD5'']) =
     Some (SaslScramMechanism Scram_Sha256)"
proof -
  have "fst (chooseMechanism password_config [''PLAIN'', ''SCRAM-SHA-1'', ''SCRAM-SHA-256'', ''DIGEST-MD5'']) =
     Some (SaslScramMechanism Scram_Sha256)"
    by code_simp
  then show ?thesis using chooseMechanism_strongest by blast
qed

lemma fromString_toString: "SaslMechanism_fromString (SaslMechanism_toString m) = Some m"
proof (cases m)
  case (SaslScramMechanism a)
  then show ?thesis
    by (cases a) (simp_all add: SaslMechanism_fromString_def startsWith_def ScramAlgorithm_Values_def enum_fromString_def
        enum_toString_def)
next
  case (SaslHtMechanism ht)
  obtain a c where ht: "ht = \<lparr>hashAlgorithm = a, channelBindingType = c\<rparr>" by (cases ht)
  have "SaslHtMechanism_fromString (SaslHtMechanism_toString ht) = Some ht"
    by (cases a; cases c; simp add: ht; code_simp)
  then show ?thesis by (simp add: SaslHtMechanism SaslMechanism_fromString_def SaslHtMechanism_toString_def startsWith_def)
qed (simp_all add: SaslMechanism_fromString_def startsWith_def)

text \<open>Every mechanism is recognised by the name it prints.\<close>

lemma mechanism_name_roundtrip: "SaslMechanism_fromString (SaslMechanism_toString m) = Some m"
  by (rule fromString_toString)

text \<open>
  The name of a hashed-token mechanism is not parsed strictly: names of several hash
  functions in a row are accepted, and the last one counts.
\<close>

lemma ht_name_two_hashes:
  "SaslMechanism_fromString ''HT-SHA-256SHA3-512-NONE'' =
     Some (SaslHtMechanism \<lparr>hashAlgorithm = Sha3_512, channelBindingType = NoBinding\<rparr>)"
  by code_simp

end
