(* ===== verification/SaslNonzas.thy ===== *)
theory SaslNonzas
  imports StreamManagement SaslMechanism
begin

text \<open>
  The elements of SASL (RFC 6120), SASL 2 (XEP-0388), Bind 2 (XEP-0386) and FAST (XEP-0484),
  each with its \<^verbatim>\<open>fromDom\<close> and \<^verbatim>\<open>toXml\<close>, from \<^verbatim>\<open>src/base/QXmppSasl.cpp\<close>.

  Base64 and the texts of dates and UUIDs are Qt's and parameters; \<^verbatim>\<open>nonza_laws\<close> states
  what their documentation promises and the round trips need.
\<close>

section \<open>Parameters\<close>

record nonza_env =
  serializeBase64 :: "bytes \<Rightarrow> qstring"
  parseBase64 :: "qstring \<Rightarrow> bytes option"
  datetimeToString :: "datetime \<Rightarrow> qstring"
  datetimeFromString :: "qstring \<Rightarrow> datetime"
  uuidToString :: "128 word \<Rightarrow> qstring"
  uuidFromString :: "qstring \<Rightarrow> 128 word"

definition nonza_laws :: "nonza_env \<Rightarrow> bool" where
  "nonza_laws e \<longleftrightarrow> (\<forall>x. parseBase64 e (serializeBase64 e x) = Some x) \<and> serializeBase64 e [] = [] \<and>
     (\<forall>t. datetimeFromString e (datetimeToString e t) = t) \<and>
     (\<forall>u. u \<noteq> 0 \<longrightarrow> uuidFromString e (uuidToString e u) = u) \<and> uuidFromString e [] = 0"

definition ns_sasl :: qstring where "ns_sasl = ''urn:ietf:params:xml:ns:xmpp-sasl''"
definition ns_sasl_2 :: qstring where "ns_sasl_2 = ''urn:xmpp:sasl:2''"
definition ns_bind2 :: qstring where "ns_bind2 = ''urn:xmpp:bind:0''"
definition ns_csi :: qstring where "ns_csi = ''urn:xmpp:csi:0''"
definition ns_carbons :: qstring where "ns_carbons = ''urn:xmpp:carbons:2''"
definition ns_fast :: qstring where "ns_fast = ''urn:xmpp:fast:0''"

section \<open>SASL\<close>

datatype ErrorCondition = Aborted | AccountDisabled | CredentialsExpired | EncryptionRequired | IncorrectEncoding
  | InvalidAuthzid | InvalidMechanism | MalformedRequest | MechanismTooWeak | SaslNotAuthorized | TemporaryAuthFailure

definition ErrorCondition_Values :: "(ErrorCondition \<times> qstring) list" where
  "ErrorCondition_Values = [(Aborted, ''aborted''), (AccountDisabled, ''account-disabled''),
     (CredentialsExpired, ''credentials-expired''), (EncryptionRequired, ''encryption-required''),
     (IncorrectEncoding, ''incorrect-encoding''), (InvalidAuthzid, ''invalid-authzid''),
     (InvalidMechanism, ''invalid-mechanism''), (MalformedRequest, ''malformed-request''),
     (MechanismTooWeak, ''mechanism-too-weak''), (SaslNotAuthorized, ''not-authorized''),
     (TemporaryAuthFailure, ''temporary-auth-failure'')]"

record Sasl_Auth =
  auth_mechanism :: qstring
  auth_value :: bytes

record Sasl_Failure =
  failure_condition :: "ErrorCondition option"
  failure_text :: qstring

definition has_tag :: "qstring \<Rightarrow> qstring \<Rightarrow> dom \<Rightarrow> bool" where
  "has_tag tag ns el \<longleftrightarrow> tagName el = tag \<and> namespaceURI el = ns"

definition Sasl_Auth_fromDom :: "nonza_env \<Rightarrow> dom \<Rightarrow> Sasl_Auth option" where
  "Sasl_Auth_fromDom e el =
     (if \<not> has_tag ''auth'' ns_sasl el then None
      else case parseBase64 e (dom_text el) of None \<Rightarrow> None
           | Some v \<Rightarrow> Some \<lparr>auth_mechanism = attr ''mechanism'' el, auth_value = v\<rparr>)"

definition Sasl_Auth_toXml :: "nonza_env \<Rightarrow> Sasl_Auth \<Rightarrow> item" where
  "Sasl_Auth_toXml e a = Element ''auth'' ns_sasl ([Attribute ''mechanism'' (auth_mechanism a)] @
     (if auth_value a \<noteq> [] then [Characters (serializeBase64 e (auth_value a))] else []))"

definition Sasl_Challenge_fromDom :: "nonza_env \<Rightarrow> dom \<Rightarrow> bytes option" where
  "Sasl_Challenge_fromDom e el = (if \<not> has_tag ''challenge'' ns_sasl el then None else parseBase64 e (dom_text el))"

definition Sasl_Challenge_toXml :: "nonza_env \<Rightarrow> bytes \<Rightarrow> item" where
  "Sasl_Challenge_toXml e v = TextElementNs ''challenge'' ns_sasl (serializeBase64 e v)"

definition Sasl_Failure_fromDom :: "dom \<Rightarrow> Sasl_Failure option" where
  "Sasl_Failure_fromDom el =
     (if \<not> has_tag ''failure'' ns_sasl el then None
      else let errorConditionString = tag_of (firstChildElement el [] []);
               condition = enum_fromString ErrorCondition_Values errorConditionString
           in Some \<lparr>failure_condition =
                      (if condition = None \<and> errorConditionString = ''bad-auth'' then Some SaslNotAuthorized else condition),
                    failure_text = child_text el ''text'' []\<rparr>)"

definition Sasl_Failure_toXml :: "Sasl_Failure \<Rightarrow> item" where
  "Sasl_Failure_toXml f = Element ''failure'' ns_sasl
     ((case failure_condition f of None \<Rightarrow> [] | Some c \<Rightarrow> [ElementInherit (enum_toString ErrorCondition_Values c) []]) @
      OptionalContent (failure_text f \<noteq> [])
        [ElementInherit ''text'' [Attribute ''xml:lang'' ''en'', Characters (failure_text f)]])"

definition Sasl_Response_fromDom :: "nonza_env \<Rightarrow> dom \<Rightarrow> bytes option" where
  "Sasl_Response_fromDom e el = (if \<not> has_tag ''response'' ns_sasl el then None else parseBase64 e (dom_text el))"

definition Sasl_Response_toXml :: "nonza_env \<Rightarrow> bytes \<Rightarrow> item" where
  "Sasl_Response_toXml e v = TextElementNs ''response'' ns_sasl (serializeBase64 e v)"

definition Sasl_Success_fromDom :: "dom \<Rightarrow> unit option" where
  "Sasl_Success_fromDom el = (if has_tag ''success'' ns_sasl el then Some () else None)"

definition Sasl_Success_toXml :: item where
  "Sasl_Success_toXml = Element ''success'' ns_sasl []"

section \<open>Bind 2\<close>

definition Bind2Feature_fromDom :: "dom \<Rightarrow> qstring list option" where
  "Bind2Feature_fromDom el =
     (if \<not> has_tag ''bind'' ns_bind2 el then None
      else Some (case firstChildElement el ''inline'' ns_bind2 of None \<Rightarrow> []
                 | Some inlineElement \<Rightarrow> parseSingleAttributeElements inlineElement ''feature'' ns_bind2 ''var''))"

definition Bind2Feature_toXml :: "qstring list \<Rightarrow> item" where
  "Bind2Feature_toXml features =
     Element ''bind'' ns_bind2 [ElementInherit ''inline'' (SingleAttributeElements ''feature'' ''var'' features)]"

record Bind2Request =
  bind_tag :: qstring
  csiInactive :: bool
  carbonsEnable :: bool
  smEnable :: "SmEnable option"

definition Bind2Request_fromDom :: "dom \<Rightarrow> Bind2Request option" where
  "Bind2Request_fromDom el =
     (if \<not> has_tag ''bind'' ns_bind2 el then None
      else Some \<lparr>bind_tag = child_text el ''tag'' ns_bind2,
                 csiInactive = (firstChildElement el ''inactive'' ns_csi \<noteq> None),
                 carbonsEnable = (firstChildElement el ''enable'' ns_carbons \<noteq> None),
                 smEnable = parseOptionalChildElement SmEnable_fromDom el ''enable'' ns_stream_management\<rparr>)"

definition Bind2Request_toXml :: "Bind2Request \<Rightarrow> item" where
  "Bind2Request_toXml b = Element ''bind'' ns_bind2
     (OptionalTextElement ''tag'' (bind_tag b) @
      OptionalContent (csiInactive b) [Element ''inactive'' ns_csi []] @
      OptionalContent (carbonsEnable b) [Element ''enable'' ns_carbons []] @
      optional_item SmEnable_toXml (smEnable b))"

record Bind2Bound =
  bound_smFailed :: "SmFailed option"
  bound_smEnabled :: "SmEnabled option"

definition Bind2Bound_fromDom :: "dom \<Rightarrow> Bind2Bound option" where
  "Bind2Bound_fromDom el =
     (if \<not> has_tag ''bound'' ns_bind2 el then None
      else Some \<lparr>bound_smFailed = parseOptionalChildElement SmFailed_fromDom el ''failed'' ns_stream_management,
                 bound_smEnabled = parseOptionalChildElement SmEnabled_fromDom el ''enabled'' ns_stream_management\<rparr>)"

definition Bind2Bound_toXml :: "Bind2Bound \<Rightarrow> item" where
  "Bind2Bound_toXml b = Element ''bound'' ns_bind2
     (optional_item SmFailed_toXml (bound_smFailed b) @ optional_item SmEnabled_toXml (bound_smEnabled b))"

section \<open>FAST\<close>

record FastFeature =
  fast_mechanisms :: "qstring list"
  tls0rtt :: bool

definition FastFeature_fromDom :: "dom \<Rightarrow> FastFeature option" where
  "FastFeature_fromDom el =
     (if \<not> has_tag ''fast'' ns_fast el then None
      else Some \<lparr>fast_mechanisms = parseTextElements el ''mechanism'' ns_fast,
                 tls0rtt = (case parseBoolean (attr ''tls-0rtt'' el) of None \<Rightarrow> False | Some b \<Rightarrow> b)\<rparr>)"

definition FastFeature_toXml :: "FastFeature \<Rightarrow> item" where
  "FastFeature_toXml f = Element ''fast'' ns_fast (TextElements ''mechanism'' (fast_mechanisms f))"

definition FastTokenRequest_fromDom :: "dom \<Rightarrow> qstring option" where
  "FastTokenRequest_fromDom el = (if \<not> has_tag ''request-token'' ns_fast el then None else Some (attr ''mechanism'' el))"

definition FastTokenRequest_toXml :: "qstring \<Rightarrow> item" where
  "FastTokenRequest_toXml mechanism = Element ''request-token'' ns_fast [Attribute ''mechanism'' mechanism]"

record FastToken =
  token_expiry :: datetime
  token_token :: qstring

definition FastToken_fromDom :: "nonza_env \<Rightarrow> dom \<Rightarrow> FastToken option" where
  "FastToken_fromDom e el =
     (if \<not> has_tag ''token'' ns_fast el then None
      else Some \<lparr>token_expiry = datetimeFromString e (attr ''expiry'' el), token_token = attr ''token'' el\<rparr>)"

definition FastToken_toXml :: "nonza_env \<Rightarrow> FastToken \<Rightarrow> item" where
  "FastToken_toXml e t = Element ''token'' ns_fast
     [Attribute ''expiry'' (datetimeToString e (token_expiry t)), Attribute ''token'' (token_token t)]"

record FastRequest =
  fast_count :: "64 word option"
  fast_invalidate :: bool

definition FastRequest_fromDom :: "dom \<Rightarrow> FastRequest option" where
  "FastRequest_fromDom el =
     (if \<not> has_tag ''fast'' ns_fast el then None
      else Some \<lparr>fast_count = map_option word_of_int (parseInt UInt64 (attr ''count'' el)),
                 fast_invalidate = (case parseBoolean (attr ''invalidate'' el) of None \<Rightarrow> False | Some b \<Rightarrow> b)\<rparr>)"

definition FastRequest_toXml :: "FastRequest \<Rightarrow> item" where
  "FastRequest_toXml f = Element ''fast'' ns_fast
     ((case fast_count f of None \<Rightarrow> [] | Some n \<Rightarrow> [Attribute ''count'' (number (unat n))]) @
      DefaultedBoolAttribute ''invalidate'' (fast_invalidate f) False)"

section \<open>SASL 2\<close>

record Sasl2_StreamFeature =
  sf_mechanisms :: "qstring list"
  bind2Feature :: "qstring list option"
  sf_fast :: "FastFeature option"
  streamResumptionAvailable :: bool

definition Sasl2_StreamFeature_fromDom :: "dom \<Rightarrow> Sasl2_StreamFeature option" where
  "Sasl2_StreamFeature_fromDom el =
     (if \<not> has_tag ''authentication'' ns_sasl_2 el then None
      else let feature = \<lparr>sf_mechanisms = parseTextElements el ''mechanism'' ns_sasl_2, bind2Feature = None,
                          sf_fast = None, streamResumptionAvailable = False\<rparr>
           in case firstChildElement el ''inline'' ns_sasl_2 of
                None \<Rightarrow> Some feature
              | Some inlineEl \<Rightarrow> Some (feature\<lparr>
                  bind2Feature := parseOptionalChildElement Bind2Feature_fromDom inlineEl ''bind'' ns_bind2,
                  sf_fast := parseOptionalChildElement FastFeature_fromDom inlineEl ''fast'' ns_fast,
                  streamResumptionAvailable := hasChild inlineEl ''sm'' ns_stream_management\<rparr>))"

definition Sasl2_StreamFeature_toXml :: "Sasl2_StreamFeature \<Rightarrow> item" where
  "Sasl2_StreamFeature_toXml f = Element ''authentication'' ns_sasl_2
     (TextElements ''mechanism'' (sf_mechanisms f) @
      OptionalContent (bind2Feature f \<noteq> None \<or> sf_fast f \<noteq> None \<or> streamResumptionAvailable f)
        [ElementInherit ''inline'' (optional_item Bind2Feature_toXml (bind2Feature f) @
           optional_item FastFeature_toXml (sf_fast f) @
           OptionalContent (streamResumptionAvailable f) [Element ''sm'' ns_stream_management []])])"

record Sasl2_UserAgent =
  ua_id :: "128 word"
  ua_software :: qstring
  ua_device :: qstring

definition Sasl2_UserAgent_fromDom :: "nonza_env \<Rightarrow> dom \<Rightarrow> Sasl2_UserAgent option" where
  "Sasl2_UserAgent_fromDom e el =
     (if \<not> has_tag ''user-agent'' ns_sasl_2 el then None
      else Some \<lparr>ua_id = uuidFromString e (attr ''id'' el), ua_software = child_text el ''software'' ns_sasl_2,
                 ua_device = child_text el ''device'' ns_sasl_2\<rparr>)"

definition Sasl2_UserAgent_toXml :: "nonza_env \<Rightarrow> Sasl2_UserAgent \<Rightarrow> item" where
  "Sasl2_UserAgent_toXml e u = ElementInherit ''user-agent''
     ((if ua_id u \<noteq> 0 then [Attribute ''id'' (uuidToString e (ua_id u))] else []) @
      OptionalTextElement ''software'' (ua_software u) @ OptionalTextElement ''device'' (ua_device u))"

record Sasl2_Authenticate =
  authenticate_mechanism :: qstring
  initialResponse :: bytes
  userAgent :: "Sasl2_UserAgent option"
  bindRequest :: "Bind2Request option"
  auth_smResume :: "SmResume option"
  tokenRequest :: "qstring option"
  auth_fast :: "FastRequest option"

text \<open>The text of an optional element, written when its value is not empty.\<close>

definition OptionalBase64Element :: "nonza_env \<Rightarrow> qstring \<Rightarrow> bytes \<Rightarrow> item list" where
  "OptionalBase64Element e tag v = (if v = [] then [] else [writeTextOrEmptyElement tag (serializeBase64 e v)])"

definition Sasl2_Authenticate_fromDom :: "nonza_env \<Rightarrow> dom \<Rightarrow> Sasl2_Authenticate option" where
  "Sasl2_Authenticate_fromDom e el =
     (if \<not> has_tag ''authenticate'' ns_sasl_2 el then None
      else Some \<lparr>authenticate_mechanism = attr ''mechanism'' el,
        initialResponse = (case parseBase64 e (child_text el ''initial-response'' ns_sasl_2) of None \<Rightarrow> [] | Some v \<Rightarrow> v),
        userAgent = parseOptionalChildElement (Sasl2_UserAgent_fromDom e) el ''user-agent'' ns_sasl_2,
        bindRequest = parseOptionalChildElement Bind2Request_fromDom el ''bind'' ns_bind2,
        auth_smResume = parseOptionalChildElement SmResume_fromDom el ''resume'' ns_stream_management,
        tokenRequest = parseOptionalChildElement FastTokenRequest_fromDom el ''request-token'' ns_fast,
        auth_fast = parseOptionalChildElement FastRequest_fromDom el ''fast'' ns_fast\<rparr>)"

definition Sasl2_Authenticate_toXml :: "nonza_env \<Rightarrow> Sasl2_Authenticate \<Rightarrow> item" where
  "Sasl2_Authenticate_toXml e a = Element ''authenticate'' ns_sasl_2
     ([Attribute ''mechanism'' (authenticate_mechanism a)] @
      OptionalBase64Element e ''initial-response'' (initialResponse a) @
      optional_item (Sasl2_UserAgent_toXml e) (userAgent a) @
      optional_item Bind2Request_toXml (bindRequest a) @
      optional_item SmResume_toXml (auth_smResume a) @
      optional_item FastTokenRequest_toXml (tokenRequest a) @
      optional_item FastRequest_toXml (auth_fast a))"

definition Sasl2_Challenge_fromDom :: "nonza_env \<Rightarrow> dom \<Rightarrow> bytes option" where
  "Sasl2_Challenge_fromDom e el = (if \<not> has_tag ''challenge'' ns_sasl_2 el then None else parseBase64 e (dom_text el))"

definition Sasl2_Challenge_toXml :: "nonza_env \<Rightarrow> bytes \<Rightarrow> item" where
  "Sasl2_Challenge_toXml e v = TextElementNs ''challenge'' ns_sasl_2 (serializeBase64 e v)"

definition Sasl2_Response_fromDom :: "nonza_env \<Rightarrow> dom \<Rightarrow> bytes option" where
  "Sasl2_Response_fromDom e el = (if \<not> has_tag ''response'' ns_sasl_2 el then None else parseBase64 e (dom_text el))"

definition Sasl2_Response_toXml :: "nonza_env \<Rightarrow> bytes \<Rightarrow> item" where
  "Sasl2_Response_toXml e v = TextElementNs ''response'' ns_sasl_2 (serializeBase64 e v)"

record Sasl2_Success =
  additionalData :: "bytes option"
  authorizationIdentifier :: qstring
  success_bound :: "Bind2Bound option"
  success_smResumed :: "SmResumed option"
  success_smFailed :: "SmFailed option"
  success_token :: "FastToken option"

text \<open>Optional Base64 data: \<^term>\<open>None\<close> when it is present and malformed.\<close>

definition read_additional_data :: "nonza_env \<Rightarrow> dom \<Rightarrow> bytes option option" where
  "read_additional_data e el =
     (case firstChildElement el ''additional-data'' ns_sasl_2 of
        None \<Rightarrow> Some None
      | Some subEl \<Rightarrow> (case parseBase64 e (dom_text subEl) of None \<Rightarrow> None | Some v \<Rightarrow> Some (Some v)))"

definition Sasl2_Success_fromDom :: "nonza_env \<Rightarrow> dom \<Rightarrow> Sasl2_Success option" where
  "Sasl2_Success_fromDom e el =
     (if \<not> has_tag ''success'' ns_sasl_2 el then None
      else case read_additional_data e el of
             None \<Rightarrow> None
           | Some ad \<Rightarrow> Some \<lparr>additionalData = ad,
               authorizationIdentifier = child_text el ''authorization-identifier'' ns_sasl_2,
               success_bound = parseOptionalChildElement Bind2Bound_fromDom el ''bound'' ns_bind2,
               success_smResumed = parseOptionalChildElement SmResumed_fromDom el ''resumed'' ns_stream_management,
               success_smFailed = parseOptionalChildElement SmFailed_fromDom el ''failed'' ns_stream_management,
               success_token = parseOptionalChildElement (FastToken_fromDom e) el ''token'' ns_fast\<rparr>)"

definition Sasl2_Success_toXml :: "nonza_env \<Rightarrow> Sasl2_Success \<Rightarrow> item" where
  "Sasl2_Success_toXml e s = Element ''success'' ns_sasl_2
     ((case additionalData s of None \<Rightarrow> [] | Some v \<Rightarrow> [writeTextOrEmptyElement ''additional-data'' (serializeBase64 e v)]) @
      [TextElement ''authorization-identifier'' (authorizationIdentifier s)] @
      optional_item Bind2Bound_toXml (success_bound s) @
      optional_item SmResumed_toXml (success_smResumed s) @
      optional_item SmFailed_toXml (success_smFailed s) @
      optional_item (FastToken_toXml e) (success_token s))"

record Sasl2_Failure =
  sasl2_condition :: ErrorCondition
  sasl2_text :: qstring

definition Sasl2_Failure_fromDom :: "dom \<Rightarrow> Sasl2_Failure option" where
  "Sasl2_Failure_fromDom el =
     (if \<not> has_tag ''failure'' ns_sasl_2 el then None
      else case enum_fromString ErrorCondition_Values (tag_of (firstChildElement el [] ns_sasl)) of
             None \<Rightarrow> None
           | Some c \<Rightarrow> Some \<lparr>sasl2_condition = c, sasl2_text = child_text el ''text'' ns_sasl_2\<rparr>)"

definition Sasl2_Failure_toXml :: "Sasl2_Failure \<Rightarrow> item" where
  "Sasl2_Failure_toXml f = Element ''failure'' ns_sasl_2
     ([Element (enum_toString ErrorCondition_Values (sasl2_condition f)) ns_sasl []] @
      OptionalTextElement ''text'' (sasl2_text f))"

record Sasl2_Continue =
  continue_additionalData :: bytes
  continue_tasks :: "qstring list"
  continue_text :: qstring

definition Sasl2_Continue_fromDom :: "nonza_env \<Rightarrow> dom \<Rightarrow> Sasl2_Continue option" where
  "Sasl2_Continue_fromDom e el =
     (if \<not> has_tag ''continue'' ns_sasl_2 el then None
      else case read_additional_data e el of
             None \<Rightarrow> None
           | Some ad \<Rightarrow>
               let tasks = (case firstChildElement el ''tasks'' ns_sasl_2 of None \<Rightarrow> []
                            | Some t \<Rightarrow> parseTextElements t ''task'' ns_sasl_2)
               in if tasks = [] then None
                  else Some \<lparr>continue_additionalData = (case ad of None \<Rightarrow> [] | Some v \<Rightarrow> v), continue_tasks = tasks,
                             continue_text = child_text el ''text'' ns_sasl_2\<rparr>)"

definition Sasl2_Continue_toXml :: "nonza_env \<Rightarrow> Sasl2_Continue \<Rightarrow> item" where
  "Sasl2_Continue_toXml e c = Element ''continue'' ns_sasl_2
     (OptionalBase64Element e ''additional-data'' (continue_additionalData c) @
      [ElementInherit ''tasks'' (TextElements ''task'' (continue_tasks c))] @
      OptionalTextElement ''text'' (continue_text c))"

definition Sasl2_Abort_fromDom :: "dom \<Rightarrow> qstring option" where
  "Sasl2_Abort_fromDom el = (if \<not> has_tag ''abort'' ns_sasl_2 el then None else Some (child_text el ''text'' ns_sasl_2))"

definition Sasl2_Abort_toXml :: "qstring \<Rightarrow> item" where
  "Sasl2_Abort_toXml t = Element ''abort'' ns_sasl_2 (OptionalTextElement ''text'' t)"

end
