(* ===== verification/SaslRoundtrip.thy ===== *)
theory SaslRoundtrip
  imports SaslNonzas
begin

text \<open>
  The elements of SASL, SASL 2, Bind 2 and FAST come back as they were written: one lemma per
  element, then the elements that nest others.  A nested element is found because it has a tag
  and a namespace of its own (\<^verbatim>\<open>self_contained\<close>).  What does not come back is a stream
  management failure without a condition and the \<^verbatim>\<open>tls-0rtt\<close> flag of the FAST feature,
  which \<^verbatim>\<open>FastFeature::toXml\<close> does not write.
\<close>

section \<open>Single elements\<close>

lemmas nonza_defs = written_def Element_def ElementInherit_def build_def OptionalAttribute_def OptionalContent_def
  DefaultedBoolAttribute_def TextElementNs_def TextElement_def TextElements_def OptionalTextElement_def
  writeTextOrEmptyElement_def SingleAttributeElements_def OptionalBase64Element_def has_tag_def attr_def child_text_def

lemmas ns_defs = ns_sasl_def ns_sasl_2_def ns_bind2_def ns_csi_def ns_carbons_def ns_fast_def ns_stream_management_def ns_stanza_def

lemma condition_roundtrip: "enum_fromString ErrorCondition_Values (enum_toString ErrorCondition_Values c) = Some c"
  by (cases c) (simp_all add: enum_fromString_def enum_toString_def ErrorCondition_Values_def)

lemma condition_not_text: "enum_toString ErrorCondition_Values c \<noteq> ''text''" "enum_toString ErrorCondition_Values c \<noteq> []"
  by (cases c; simp add: enum_toString_def ErrorCondition_Values_def)+

lemma base64_laws:
  assumes "nonza_laws e"
  shows "parseBase64 e (serializeBase64 e x) = Some x" "serializeBase64 e x = [] \<longleftrightarrow> x = []" "parseBase64 e [] = Some []"
    "datetimeFromString e (datetimeToString e t) = t" "u \<noteq> 0 \<Longrightarrow> uuidFromString e (uuidToString e u) = u"
    "uuidFromString e [] = 0" "serializeBase64 e [] = []"
  using assms unfolding nonza_laws_def by (auto, metis option.inject, metis option.inject)

lemma Sasl_Auth_roundtrip: "nonza_laws e \<Longrightarrow> Sasl_Auth_fromDom e (written (Sasl_Auth_toXml e a)) = Some a"
  by (cases a) (simp add: Sasl_Auth_fromDom_def Sasl_Auth_toXml_def nonza_defs base64_laws)

lemma Sasl_Challenge_roundtrip: "nonza_laws e \<Longrightarrow> Sasl_Challenge_fromDom e (written (Sasl_Challenge_toXml e v)) = Some v"
  by (simp add: Sasl_Challenge_fromDom_def Sasl_Challenge_toXml_def nonza_defs base64_laws)

lemma Sasl_Response_roundtrip: "nonza_laws e \<Longrightarrow> Sasl_Response_fromDom e (written (Sasl_Response_toXml e v)) = Some v"
  by (simp add: Sasl_Response_fromDom_def Sasl_Response_toXml_def nonza_defs base64_laws)

lemma Sasl_Failure_roundtrip:
  "failure_condition f \<noteq> None \<Longrightarrow> Sasl_Failure_fromDom (written (Sasl_Failure_toXml f)) = Some f"
  by (cases f) (auto simp: Sasl_Failure_fromDom_def Sasl_Failure_toXml_def nonza_defs dom_simps matches_def tag_of_def
      condition_roundtrip condition_not_text Let_def)

lemma Bind2Feature_roundtrip: "Bind2Feature_fromDom (written (Bind2Feature_toXml fs)) = Some fs"
  by (simp add: Bind2Feature_fromDom_def Bind2Feature_toXml_def nonza_defs dom_simps matches_def
      parseSingleAttributeElements_def comp_def filter_map)

lemma Bind2Request_roundtrip: "Bind2Request_fromDom (written (Bind2Request_toXml b)) = Some b"
  using SmEnable_roundtrip [of "the (smEnable b)"]
  by (cases b)
     (auto simp: Bind2Request_fromDom_def Bind2Request_toXml_def nonza_defs dom_simps matches_def
      parseOptionalChildElement_def optional_item_def SmEnable_toXml_def ns_defs split: option.splits)



lemma nested_items:
  "self_contained ''enable'' ns_stream_management (SmEnable_toXml a)"
  "self_contained ''enabled'' ns_stream_management (SmEnabled_toXml b)"
  "self_contained ''failed'' ns_stream_management (SmFailed_toXml c)"
  "self_contained ''resume'' ns_stream_management (SmResume_toXml d)"
  "self_contained ''resumed'' ns_stream_management (SmResumed_toXml f)"
  "self_contained ''bind'' ns_bind2 (Bind2Feature_toXml g)"
  "self_contained ''bind'' ns_bind2 (Bind2Request_toXml h)"
  "self_contained ''bound'' ns_bind2 (Bind2Bound_toXml i)"
  "self_contained ''fast'' ns_fast (FastFeature_toXml j)"
  "self_contained ''fast'' ns_fast (FastRequest_toXml k)"
  "self_contained ''request-token'' ns_fast (FastTokenRequest_toXml l)"
  "self_contained ''token'' ns_fast (FastToken_toXml e m)"
  by (simp_all add: SmEnable_toXml_def SmEnabled_toXml_def SmFailed_toXml_def SmResume_toXml_def SmResumed_toXml_def
      Bind2Feature_toXml_def Bind2Request_toXml_def Bind2Bound_toXml_def FastFeature_toXml_def FastRequest_toXml_def
      FastTokenRequest_toXml_def FastToken_toXml_def)

text \<open>The nested stream management elements that come back: a failure needs a condition.\<close>

definition bound_ok :: "Bind2Bound \<Rightarrow> bool" where
  "bound_ok b \<longleftrightarrow> (\<forall>f. bound_smFailed b = Some f \<longrightarrow> failed_error f \<noteq> None)"

lemma Bind2Bound_roundtrip: "bound_ok b \<Longrightarrow> Bind2Bound_fromDom (written (Bind2Bound_toXml b)) = Some b"
proof -
  assume ok: "bound_ok b"
  let ?el = "written (Bind2Bound_toXml b)"
  have cs: "childNodes ?el = (case bound_smFailed b of None \<Rightarrow> [] | Some v \<Rightarrow> [written (SmFailed_toXml v)]) @
      (case bound_smEnabled b of None \<Rightarrow> [] | Some v \<Rightarrow> [written (SmEnabled_toXml v)])"
    by (simp add: Bind2Bound_toXml_def build_def optional_item_nodes [OF nested_items(3)] optional_item_nodes [OF nested_items(2)])
  have "parseOptionalChildElement SmFailed_fromDom ?el ''failed'' ns_stream_management = bound_smFailed b"
    by (rule parse_optional_back [where f = SmFailed_toXml])
       (use ok in \<open>auto simp: cs find_append find_optional self_contained_written [OF nested_items(2)]
          self_contained_written [OF nested_items(3)]
          SmFailed_roundtrip bound_ok_def split: option.splits\<close>)
  moreover have "parseOptionalChildElement SmEnabled_fromDom ?el ''enabled'' ns_stream_management = bound_smEnabled b"
    by (rule parse_optional_back [where f = SmEnabled_toXml])
       (auto simp: cs find_append find_optional self_contained_written [OF nested_items(2)]
          self_contained_written [OF nested_items(3)] SmEnabled_roundtrip split: option.splits)
  ultimately show ?thesis
    by (simp add: Bind2Bound_fromDom_def has_tag_def self_contained_written [OF nested_items(8)])
qed

section \<open>FAST and SASL 2\<close>

lemma written_text [simp]:
  "concat (map dom_text (concat (map (item_nodes ns) (if x \<noteq> [] then [Characters x] else [])))) = x"
  by simp

lemma FastFeature_roundtrip: "FastFeature_fromDom (written (FastFeature_toXml f)) = Some (f\<lparr>tls0rtt := False\<rparr>)"
  by (cases f) (simp add: FastFeature_fromDom_def FastFeature_toXml_def nonza_defs dom_simps matches_def
      parseTextElements_def comp_def filter_map parseBoolean_def)

lemma FastToken_roundtrip: "nonza_laws e \<Longrightarrow> FastToken_fromDom e (written (FastToken_toXml e t)) = Some t"
  by (cases t) (simp add: FastToken_fromDom_def FastToken_toXml_def nonza_defs base64_laws)

lemma FastTokenRequest_roundtrip: "FastTokenRequest_fromDom (written (FastTokenRequest_toXml m)) = Some m"
  by (simp add: FastTokenRequest_fromDom_def FastTokenRequest_toXml_def nonza_defs)

lemma to_unsigned_unat64: "to_unsigned 64 (number (unat (n :: 64 word))) = Some (unat n)"
  using unsigned_less [of n, where ?'a = nat] by (intro to_unsigned_number) simp

lemma FastRequest_roundtrip: "FastRequest_fromDom (written (FastRequest_toXml f)) = Some f"
proof -
  have count: "map_option word_of_int (parseInt UInt64 (case map_of (case c of None \<Rightarrow> [] | Some n \<Rightarrow> [(''count'', number (unat n))]) ''count''
      of None \<Rightarrow> [] | Some v \<Rightarrow> v)) = (c :: 64 word option)" for c
  proof (cases c)
    case None
    then show ?thesis by (simp add: to_unsigned_def trimmed_def)
  next
    case (Some n)
    have "parseInt UInt64 (number (unat n)) = Some (int (unat n))" by (simp add: to_unsigned_unat64)
    then show ?thesis by (simp add: Some del: parseInt.simps)
  qed
  show ?thesis
    by (cases f; cases "fast_count f"; cases "fast_invalidate f")
       (use count [of "fast_count f"] in \<open>simp_all add: FastRequest_fromDom_def FastRequest_toXml_def nonza_defs
          parseBoolean_def del: parseInt.simps\<close>)
qed

definition agent_node :: "nonza_env \<Rightarrow> Sasl2_UserAgent \<Rightarrow> dom" where
  "agent_node e u = hd (item_nodes ns_sasl_2 (Sasl2_UserAgent_toXml e u))"

lemma agent_node_facts:
  "item_nodes ns_sasl_2 (Sasl2_UserAgent_toXml e u) = [agent_node e u]"
  "item_attrs (Sasl2_UserAgent_toXml e u) = []"
  "matches t n (agent_node e u) \<longleftrightarrow> (n = [] \<or> ns_sasl_2 = n) \<and> (t = [] \<or> ''user-agent'' = t)"
  by (auto simp: agent_node_def Sasl2_UserAgent_toXml_def ElementInherit_def build_def matches_def)

lemma UserAgent_roundtrip: "nonza_laws e \<Longrightarrow> Sasl2_UserAgent_fromDom e (agent_node e u) = Some u"
  by (cases u) (auto simp: Sasl2_UserAgent_fromDom_def Sasl2_UserAgent_toXml_def agent_node_def nonza_defs dom_simps
      matches_def base64_laws)

lemma Sasl2_Challenge_roundtrip: "nonza_laws e \<Longrightarrow> Sasl2_Challenge_fromDom e (written (Sasl2_Challenge_toXml e v)) = Some v"
  by (simp add: Sasl2_Challenge_fromDom_def Sasl2_Challenge_toXml_def nonza_defs base64_laws)

lemma Sasl2_Response_roundtrip: "nonza_laws e \<Longrightarrow> Sasl2_Response_fromDom e (written (Sasl2_Response_toXml e v)) = Some v"
  by (simp add: Sasl2_Response_fromDom_def Sasl2_Response_toXml_def nonza_defs base64_laws)

lemma Sasl2_Failure_roundtrip: "Sasl2_Failure_fromDom (written (Sasl2_Failure_toXml f)) = Some f"
  by (cases f) (auto simp: Sasl2_Failure_fromDom_def Sasl2_Failure_toXml_def nonza_defs dom_simps matches_def tag_of_def
      condition_roundtrip condition_not_text ns_defs)

lemma Sasl2_Abort_roundtrip: "Sasl2_Abort_fromDom (written (Sasl2_Abort_toXml t)) = Some t"
  by (simp add: Sasl2_Abort_fromDom_def Sasl2_Abort_toXml_def nonza_defs dom_simps matches_def)

lemma Sasl2_Continue_roundtrip:
  "nonza_laws e \<Longrightarrow> continue_tasks c \<noteq> [] \<Longrightarrow> Sasl2_Continue_fromDom e (written (Sasl2_Continue_toXml e c)) = Some c"
  by (cases c) (auto simp: Sasl2_Continue_fromDom_def Sasl2_Continue_toXml_def nonza_defs dom_simps matches_def
      read_additional_data_def base64_laws parseTextElements_def comp_def filter_map Let_def)

section \<open>Elements that nest others\<close>

lemmas nested_written = nested_items(1) [THEN self_contained_written(3)] nested_items(2) [THEN self_contained_written(3)]
  nested_items(3) [THEN self_contained_written(3)] nested_items(4) [THEN self_contained_written(3)]
  nested_items(5) [THEN self_contained_written(3)] nested_items(6) [THEN self_contained_written(3)]
  nested_items(7) [THEN self_contained_written(3)] nested_items(8) [THEN self_contained_written(3)]
  nested_items(9) [THEN self_contained_written(3)] nested_items(10) [THEN self_contained_written(3)]
  nested_items(11) [THEN self_contained_written(3)] nested_items(12) [THEN self_contained_written(3)]

lemmas nested_nodes = nested_items(1) [THEN optional_item_nodes(1)] nested_items(2) [THEN optional_item_nodes(1)]
  nested_items(3) [THEN optional_item_nodes(1)] nested_items(4) [THEN optional_item_nodes(1)]
  nested_items(5) [THEN optional_item_nodes(1)] nested_items(6) [THEN optional_item_nodes(1)]
  nested_items(7) [THEN optional_item_nodes(1)] nested_items(8) [THEN optional_item_nodes(1)]
  nested_items(9) [THEN optional_item_nodes(1)] nested_items(10) [THEN optional_item_nodes(1)]
  nested_items(11) [THEN optional_item_nodes(1)] nested_items(12) [THEN optional_item_nodes(1)]

lemmas nested_attrs = nested_items(1) [THEN optional_item_nodes(2)] nested_items(2) [THEN optional_item_nodes(2)]
  nested_items(3) [THEN optional_item_nodes(2)] nested_items(4) [THEN optional_item_nodes(2)]
  nested_items(5) [THEN optional_item_nodes(2)] nested_items(6) [THEN optional_item_nodes(2)]
  nested_items(7) [THEN optional_item_nodes(2)] nested_items(8) [THEN optional_item_nodes(2)]
  nested_items(9) [THEN optional_item_nodes(2)] nested_items(10) [THEN optional_item_nodes(2)]
  nested_items(11) [THEN optional_item_nodes(2)] nested_items(12) [THEN optional_item_nodes(2)]

lemma agent_nodes: "concat (map (item_nodes ns_sasl_2) (optional_item (Sasl2_UserAgent_toXml e) x)) =
    (case x of None \<Rightarrow> [] | Some v \<Rightarrow> [agent_node e v])"
  "concat (map item_attrs (optional_item (Sasl2_UserAgent_toXml e) x)) = []"
  by (auto simp: optional_item_def agent_node_facts split: option.splits)

definition text_node :: "qstring \<Rightarrow> qstring \<Rightarrow> qstring \<Rightarrow> dom" where
  "text_node tag ns v = Elem tag ns [] (if v = [] then [] else [Text v])"

lemma text_node_facts [simp]:
  "matches t n (text_node tag ns v) \<longleftrightarrow> (n = [] \<or> ns = n) \<and> (t = [] \<or> tag = t)"
  "dom_text (text_node tag ns v) = v"
  by (auto simp: text_node_def matches_def)

lemma writeText_nodes [simp]:
  "item_nodes ns (writeTextOrEmptyElement tag v) = [text_node tag ns v]" "item_attrs (writeTextOrEmptyElement tag v) = []"
  by (auto simp: writeTextOrEmptyElement_def ElementInherit_def build_def text_node_def)

definition authenticate_children :: "nonza_env \<Rightarrow> Sasl2_Authenticate \<Rightarrow> dom list" where
  "authenticate_children e a =
     (if initialResponse a = [] then [] else [text_node ''initial-response'' ns_sasl_2 (serializeBase64 e (initialResponse a))]) @
     (case userAgent a of None \<Rightarrow> [] | Some v \<Rightarrow> [agent_node e v]) @
     (case bindRequest a of None \<Rightarrow> [] | Some v \<Rightarrow> [written (Bind2Request_toXml v)]) @
     (case auth_smResume a of None \<Rightarrow> [] | Some v \<Rightarrow> [written (SmResume_toXml v)]) @
     (case tokenRequest a of None \<Rightarrow> [] | Some v \<Rightarrow> [written (FastTokenRequest_toXml v)]) @
     (case auth_fast a of None \<Rightarrow> [] | Some v \<Rightarrow> [written (FastRequest_toXml v)])"

lemma authenticate_written:
  "written (Sasl2_Authenticate_toXml e a) =
     Elem ''authenticate'' ns_sasl_2 [(''mechanism'', authenticate_mechanism a)] (authenticate_children e a)"
  by (simp add: Sasl2_Authenticate_toXml_def build_def authenticate_children_def nested_nodes nested_attrs agent_nodes
      OptionalBase64Element_def)

lemma find_single: "List.find P (if b then [] else [x]) = (if \<not> b \<and> P x then Some x else None)"
  by simp

lemma Sasl2_Authenticate_roundtrip:
  assumes "nonza_laws e"
  shows "Sasl2_Authenticate_fromDom e (written (Sasl2_Authenticate_toXml e a)) = Some a"
proof -
  let ?el = "Elem ''authenticate'' ns_sasl_2 [(''mechanism'', authenticate_mechanism a)] (authenticate_children e a)"
  note rd = authenticate_children_def find_append find_optional find_single nested_written agent_node_facts ns_defs
  have 1: "parseOptionalChildElement (Sasl2_UserAgent_fromDom e) ?el ''user-agent'' ns_sasl_2 = userAgent a"
    by (simp add: parseOptionalChildElement_def dom_simps rd UserAgent_roundtrip [OF assms, unfolded ns_defs] split: option.splits)
  have 2: "parseOptionalChildElement Bind2Request_fromDom ?el ''bind'' ns_bind2 = bindRequest a"
    by (rule parse_optional_back [where f = Bind2Request_toXml])
      (simp_all add: rd Bind2Request_roundtrip split: option.splits)
  have 3: "parseOptionalChildElement SmResume_fromDom ?el ''resume'' ns_stream_management = auth_smResume a"
    by (rule parse_optional_back [where f = SmResume_toXml])
      (simp_all add: rd SmResume_roundtrip split: option.splits)
  have 4: "parseOptionalChildElement FastTokenRequest_fromDom ?el ''request-token'' ns_fast = tokenRequest a"
    by (rule parse_optional_back [where f = FastTokenRequest_toXml])
      (simp_all add: rd FastTokenRequest_roundtrip split: option.splits)
  have 5: "parseOptionalChildElement FastRequest_fromDom ?el ''fast'' ns_fast = auth_fast a"
    by (rule parse_optional_back [where f = FastRequest_toXml])
      (simp_all add: rd FastRequest_roundtrip split: option.splits)
  have 6: "parseBase64 e (child_text ?el ''initial-response'' ns_sasl_2) = Some (initialResponse a)"
    by (simp add: child_text_def dom_simps rd base64_laws [OF assms] split: option.splits)
  show ?thesis
    by (simp add: authenticate_written Sasl2_Authenticate_fromDom_def has_tag_def 1 2 3 4 5 6) (simp add: attr_def)
qed

definition success_children :: "nonza_env \<Rightarrow> Sasl2_Success \<Rightarrow> dom list" where
  "success_children e s =
     (case additionalData s of None \<Rightarrow> [] | Some v \<Rightarrow> [text_node ''additional-data'' ns_sasl_2 (serializeBase64 e v)]) @
     [text_node ''authorization-identifier'' ns_sasl_2 (authorizationIdentifier s)] @
     (case success_bound s of None \<Rightarrow> [] | Some v \<Rightarrow> [written (Bind2Bound_toXml v)]) @
     (case success_smResumed s of None \<Rightarrow> [] | Some v \<Rightarrow> [written (SmResumed_toXml v)]) @
     (case success_smFailed s of None \<Rightarrow> [] | Some v \<Rightarrow> [written (SmFailed_toXml v)]) @
     (case success_token s of None \<Rightarrow> [] | Some v \<Rightarrow> [written (FastToken_toXml e v)])"

lemma success_written:
  "written (Sasl2_Success_toXml e s) = Elem ''success'' ns_sasl_2 [] (success_children e s)"
  by (simp add: Sasl2_Success_toXml_def build_def success_children_def nested_nodes nested_attrs TextElement_def
      split: option.splits)

definition success_ok :: "Sasl2_Success \<Rightarrow> bool" where
  "success_ok s \<longleftrightarrow> (\<forall>b. success_bound s = Some b \<longrightarrow> bound_ok b) \<and> (\<forall>f. success_smFailed s = Some f \<longrightarrow> failed_error f \<noteq> None)"

lemma Sasl2_Success_roundtrip:
  assumes "nonza_laws e" and ok: "success_ok s"
  shows "Sasl2_Success_fromDom e (written (Sasl2_Success_toXml e s)) = Some s"
proof -
  let ?el = "Elem ''success'' ns_sasl_2 [] (success_children e s)"
  note rd = success_children_def find_append find_optional nested_written ns_defs
  have 1: "read_additional_data e ?el = Some (additionalData s)"
    by (simp add: read_additional_data_def dom_simps rd base64_laws [OF assms(1)] split: option.splits)
  have 2: "child_text ?el ''authorization-identifier'' ns_sasl_2 = authorizationIdentifier s"
    by (simp add: child_text_def dom_simps rd split: option.splits)
  have 3: "parseOptionalChildElement Bind2Bound_fromDom ?el ''bound'' ns_bind2 = success_bound s"
    by (rule parse_optional_back [where f = Bind2Bound_toXml])
      (use ok in \<open>simp_all add: rd Bind2Bound_roundtrip success_ok_def split: option.splits\<close>)
  have 4: "parseOptionalChildElement SmResumed_fromDom ?el ''resumed'' ns_stream_management = success_smResumed s"
    by (rule parse_optional_back [where f = SmResumed_toXml])
      (simp_all add: rd SmResumed_roundtrip split: option.splits)
  have 5: "parseOptionalChildElement SmFailed_fromDom ?el ''failed'' ns_stream_management = success_smFailed s"
  proof (rule parse_optional_back [where f = SmFailed_toXml])
    fix f assume "success_smFailed s = Some f"
    with ok obtain c where "failed_error f = Some c" by (auto simp: success_ok_def)
    then show "SmFailed_fromDom (written (SmFailed_toXml f)) = Some f" by (rule SmFailed_roundtrip)
  qed (simp add: rd split: option.splits)
  have 6: "parseOptionalChildElement (FastToken_fromDom e) ?el ''token'' ns_fast = success_token s"
    by (rule parse_optional_back [where f = "FastToken_toXml e"])
      (simp_all add: rd FastToken_roundtrip [OF assms(1)] split: option.splits)
  show ?thesis
    by (simp add: success_written Sasl2_Success_fromDom_def has_tag_def 1 2 3 4 5 6)
qed

lemma inline_children:
  "concat (map (item_nodes ns_sasl_2) (OptionalContent b [Element t n []])) = (if b then [written (Element t n [])] else [])"
  "concat (map item_attrs (OptionalContent b [Element t n []])) = []"
  by (auto simp: OptionalContent_def written_def Element_def)

lemma find_if: "List.find P (if b then [x] else []) = (if b \<and> P x then Some x else None)"
  by simp

lemma not_None_Some: "x \<noteq> None \<longleftrightarrow> (case x of None \<Rightarrow> False | Some _ \<Rightarrow> True)"
  by (cases x) auto

definition forget_0rtt :: "Sasl2_StreamFeature \<Rightarrow> Sasl2_StreamFeature" where
  "forget_0rtt f = f\<lparr>sf_fast := map_option (\<lambda>x. x\<lparr>tls0rtt := False\<rparr>) (sf_fast f)\<rparr>"

lemma TextElements_nodes:
  "concat (map (item_nodes ns) (TextElements tag vs)) = map (text_node tag ns) vs"
  "concat (map item_attrs (TextElements tag vs)) = []"
  by (induction vs) (auto simp: TextElements_def TextElement_def)

lemma find_map_text: "\<not> (n = [] \<or> ns = n) \<or> \<not> (t = [] \<or> tag = t) \<Longrightarrow> List.find (matches t n) (map (text_node tag ns) vs) = None"
  by (induction vs) auto

lemma filter_map_text: "filter (matches tag ns) (map (text_node tag ns) vs) = map (text_node tag ns) vs"
  by (induction vs) auto

definition inline_node :: "Sasl2_StreamFeature \<Rightarrow> dom" where
  "inline_node f = Elem ''inline'' ns_sasl_2 []
     ((case bind2Feature f of None \<Rightarrow> [] | Some v \<Rightarrow> [written (Bind2Feature_toXml v)]) @
      (case sf_fast f of None \<Rightarrow> [] | Some v \<Rightarrow> [written (FastFeature_toXml v)]) @
      (if streamResumptionAvailable f then [written (Element ''sm'' ns_stream_management [])] else []))"

definition has_inline :: "Sasl2_StreamFeature \<Rightarrow> bool" where
  "has_inline f \<longleftrightarrow> bind2Feature f \<noteq> None \<or> sf_fast f \<noteq> None \<or> streamResumptionAvailable f"

lemma feature_written:
  "written (Sasl2_StreamFeature_toXml f) = Elem ''authentication'' ns_sasl_2 []
     (map (text_node ''mechanism'' ns_sasl_2) (sf_mechanisms f) @ (if has_inline f then [inline_node f] else []))"
proof -
  have "item_nodes ns_sasl_2 (ElementInherit ''inline'' (optional_item Bind2Feature_toXml (bind2Feature f) @
           optional_item FastFeature_toXml (sf_fast f) @
           OptionalContent (streamResumptionAvailable f) [Element ''sm'' ns_stream_management []])) = [inline_node f]"
    by (simp add: ElementInherit_def build_def inline_node_def nested_nodes nested_attrs inline_children)
  then show ?thesis
    unfolding Sasl2_StreamFeature_toXml_def written_Element build_def has_inline_def [symmetric]
    by (simp add: TextElements_nodes OptionalContent_def) (simp add: ElementInherit_def)
qed

lemma StreamFeature_roundtrip:
  "Sasl2_StreamFeature_fromDom (written (Sasl2_StreamFeature_toXml f)) = Some (forget_0rtt f)"
proof -
  let ?ms = "map (text_node ''mechanism'' ns_sasl_2) (sf_mechanisms f)"
  let ?el = "Elem ''authentication'' ns_sasl_2 [] (?ms @ (if has_inline f then [inline_node f] else []))"
  have m: "parseTextElements ?el ''mechanism'' ns_sasl_2 = sf_mechanisms f"
    by (simp add: parseTextElements_def dom_simps filter_map_text comp_def) (simp add: inline_node_def matches_def)
  have i: "firstChildElement ?el ''inline'' ns_sasl_2 = (if has_inline f then Some (inline_node f) else None)"
    by (simp add: dom_simps find_append find_map_text) (simp add: inline_node_def matches_def)
  note rd = inline_node_def find_append find_optional nested_written ns_defs
  have 1: "parseOptionalChildElement Bind2Feature_fromDom (inline_node f) ''bind'' ns_bind2 = bind2Feature f"
    by (rule parse_optional_back [where f = Bind2Feature_toXml])
      (simp_all add: rd Bind2Feature_roundtrip matches_build split: option.splits)
  have 2: "parseOptionalChildElement FastFeature_fromDom (inline_node f) ''fast'' ns_fast = sf_fast (forget_0rtt f)"
    by (simp add: parseOptionalChildElement_def dom_simps rd FastFeature_roundtrip forget_0rtt_def matches_build
        split: option.splits)
  have 3: "hasChild (inline_node f) ''sm'' ns_stream_management = streamResumptionAvailable f"
    by (simp add: hasChild_def dom_simps rd matches_build split: option.splits)
  have 4: "\<not> has_inline f \<Longrightarrow> forget_0rtt f = f \<and> bind2Feature f = None \<and> sf_fast f = None \<and> \<not> streamResumptionAvailable f"
    by (cases f) (simp add: has_inline_def forget_0rtt_def)
  have 5: "sf_mechanisms (forget_0rtt f) = sf_mechanisms f" "bind2Feature (forget_0rtt f) = bind2Feature f"
    "streamResumptionAvailable (forget_0rtt f) = streamResumptionAvailable f"
    by (simp_all add: forget_0rtt_def)
  show ?thesis
    unfolding feature_written Sasl2_StreamFeature_fromDom_def has_tag_def m i
    by (cases "has_inline f") (simp_all add: 1 2 3 4 5 Let_def Sasl2_StreamFeature.equality)
qed

text \<open>Functions that satisfy the laws.\<close>

definition example_nonza_env :: nonza_env where
  "example_nonza_env = \<lparr>serializeBase64 = map (\<lambda>b. char_of (unat b)), parseBase64 = (\<lambda>s. Some (ascii s)),
     datetimeToString = (\<lambda>t. case t of None \<Rightarrow> [] | Some i \<Rightarrow> serializeInt i),
     datetimeFromString = (\<lambda>s. if s = [] then None
        else if take 1 s = ''-'' then Some (- int (digits_val (drop 1 s))) else Some (int (digits_val s))),
     uuidToString = (\<lambda>u. number (unat u)), uuidFromString = (\<lambda>s. of_nat (digits_val s))\<rparr>"

lemma example_nonza_laws: "nonza_laws example_nonza_env"
proof -
  have "ascii (map (\<lambda>b. char_of (unat b)) x) = x" for x :: bytes
  proof (induction x)
    case (Cons b x)
    have "unat b < 256" using unsigned_less [of b, where ?'a = nat] by simp
    with Cons show ?case by (simp add: ascii_def)
  qed (simp add: ascii_def)
  moreover have "number n \<noteq> [] \<and> take (Suc 0) (number n) \<noteq> ''-''" for n using number_no_sign [of n] by simp
  ultimately show ?thesis
    by (auto simp: nonza_laws_def example_nonza_env_def serializeInt_def digits_val_def [of "[]"] split: option.splits)
qed

section \<open>Properties\<close>

text \<open>
  C22.  The elements of a SASL 2 exchange are read back as they were written, for all field
  values: the request with its user agent, resource binding, resumption and token request, the
  success with what was bound or resumed and the new token, the challenge, the response, the
  failure, the continue request with at least one task and the abort.
\<close>

theorem sasl2_nonzas_roundtrip:
  assumes "nonza_laws e" and "success_ok s" and "continue_tasks c \<noteq> []"
  shows "Sasl2_Authenticate_fromDom e (written (Sasl2_Authenticate_toXml e a)) = Some a \<and>
    Sasl2_Success_fromDom e (written (Sasl2_Success_toXml e s)) = Some s \<and>
    Sasl2_Continue_fromDom e (written (Sasl2_Continue_toXml e c)) = Some c \<and>
    Sasl2_Challenge_fromDom e (written (Sasl2_Challenge_toXml e ch)) = Some ch \<and>
    Sasl2_Response_fromDom e (written (Sasl2_Response_toXml e r)) = Some r \<and>
    Sasl2_Failure_fromDom (written (Sasl2_Failure_toXml f)) = Some f \<and>
    Sasl2_Abort_fromDom (written (Sasl2_Abort_toXml t)) = Some t"
  using assms by (simp add: Sasl2_Authenticate_roundtrip Sasl2_Success_roundtrip Sasl2_Continue_roundtrip
      Sasl2_Challenge_roundtrip Sasl2_Response_roundtrip Sasl2_Failure_roundtrip Sasl2_Abort_roundtrip del: written_Element)

definition example_success :: Sasl2_Success where
  "example_success = \<lparr>additionalData = Some [1, 2], authorizationIdentifier = ''a@b/c'',
     success_bound = Some \<lparr>bound_smFailed = Some \<lparr>failed_error = Some ItemNotFound\<rparr>, bound_smEnabled = None\<rparr>,
     success_smResumed = None, success_smFailed = None, success_token = Some \<lparr>token_expiry = Some 7, token_token = ''t''\<rparr>\<rparr>"

definition example_continue :: Sasl2_Continue where
  "example_continue = \<lparr>continue_additionalData = [], continue_tasks = [''x''], continue_text = ''y''\<rparr>"

theorem sasl2_nonzas_roundtrip_witness:
  "Sasl2_Success_fromDom example_nonza_env (written (Sasl2_Success_toXml example_nonza_env example_success)) =
     Some example_success"
  using sasl2_nonzas_roundtrip [OF example_nonza_laws, of example_success example_continue]
  by (simp add: example_success_def example_continue_def success_ok_def bound_ok_def)

text \<open>
  The SASL 2 stream feature is read back as it was written but for one field: a FAST feature
  that allows TLS 0-RTT comes back as one that does not.
\<close>

lemma stream_feature_loses_0rtt:
  "Sasl2_StreamFeature_fromDom (written (Sasl2_StreamFeature_toXml f)) = Some (forget_0rtt f)"
  by (rule StreamFeature_roundtrip)

end
