(* ===== verification/SaslClient.thy ===== *)
theory SaslClient
  imports SaslMechanism DigestMd5
begin

text \<open>
  The SASL clients and servers of \<^verbatim>\<open>src/base/QXmppSasl.cpp\<close>: one record and one
  \<^verbatim>\<open>respond\<close> per mechanism, the client of an arbitrary mechanism as their sum, and the
  interface \<^verbatim>\<open>QXmppSaslClient\<close> as a locale.

  Hash functions, PBKDF2, the encodings and the URL queries of Qt are parameters, collected in
  an environment.  A message that an invalid step logs is not modelled.
\<close>

section \<open>Environment\<close>

record sasl_env =
  hash :: "qt_hash \<Rightarrow> bytes \<Rightarrow> bytes"
  hmac :: "qt_hash \<Rightarrow> bytes \<Rightarrow> bytes \<Rightarrow> bytes"
  pbkdf2 :: "qt_hash \<Rightarrow> bytes \<Rightarrow> bytes \<Rightarrow> int \<Rightarrow> nat \<Rightarrow> bytes"
  hashLength :: "qt_hash \<Rightarrow> nat"
  utf8 :: "qstring \<Rightarrow> bytes"
  of_utf8 :: "bytes \<Rightarrow> qstring"
  toHex :: "bytes \<Rightarrow> bytes"
  toBase64 :: "bytes \<Rightarrow> bytes"
  fromBase64 :: "bytes \<Rightarrow> bytes"
  parseQuery :: "qstring \<Rightarrow> (qstring \<times> qstring) list"
  printQuery :: "(qstring \<times> qstring) list \<Rightarrow> qstring"

text \<open>\<^verbatim>\<open>QByteArray::toInt\<close>, which is 0 for anything that is not a number of 32 bits.\<close>

definition bytes_toInt :: "bytes \<Rightarrow> int" where
  "bytes_toInt b = (case to_signed 32 (map (\<lambda>x. char_of (unat x)) b) of None \<Rightarrow> 0 | Some n \<Rightarrow> n)"

text \<open>\<^verbatim>\<open>QMap::value\<close> with a default value.\<close>

definition map_value :: "('k \<times> 'v) list \<Rightarrow> 'k \<Rightarrow> 'v \<Rightarrow> 'v" where
  "map_value m k d = (case map_of m k of None \<Rightarrow> d | Some v \<Rightarrow> v)"

definition parseGS2 :: "bytes \<Rightarrow> (byte \<times> bytes) list" where
  "parseGS2 ba = fold (\<lambda>kv m. if 2 \<le> length kv \<and> kv ! 1 = equals then qmap_insert (kv ! 0) (drop 2 kv) m else m)
     (split_on comma ba) []"

text \<open>What every client is told before its first answer.\<close>

record client_params =
  c_host :: qstring
  c_serviceType :: qstring
  c_username :: qstring

section \<open>Clients\<close>

definition anonymous_respond :: "nat \<Rightarrow> bytes option \<times> nat" where
  "anonymous_respond m_step = (if m_step = 0 then (Some [], m_step + 1) else (None, m_step))"

record QXmppSaslClientDigestMd5 =
  dc_password :: qstring
  dc_cnonce :: bytes
  dc_nc :: bytes
  dc_nonce :: bytes
  dc_secret :: bytes
  dc_step :: nat

definition new_DigestMd5 :: "bytes \<Rightarrow> Credentials \<Rightarrow> QXmppSaslClientDigestMd5" where
  "new_DigestMd5 generated credentials = \<lparr>dc_password = password credentials, dc_cnonce = generated,
     dc_nc = ascii ''00000001'', dc_nonce = [], dc_secret = [], dc_step = 0\<rparr>"

definition digest :: "sasl_env \<Rightarrow> bytes \<Rightarrow> bytes \<Rightarrow> bytes \<Rightarrow> bytes \<Rightarrow> bytes \<Rightarrow> bytes \<Rightarrow> bytes" where
  "digest env = calculateDigest (hash env Qt_Md5) (toHex env)"

definition digest_secret :: "sasl_env \<Rightarrow> qstring \<Rightarrow> bytes \<Rightarrow> qstring \<Rightarrow> bytes" where
  "digest_secret env user realm pw = hash env Qt_Md5 (utf8 env user @ ascii '':'' @ realm @ ascii '':'' @ utf8 env pw)"

definition digest_uri :: "sasl_env \<Rightarrow> client_params \<Rightarrow> bytes" where
  "digest_uri env c = utf8 env (c_serviceType c @ ''/'' @ c_host c)"

definition digest_output :: "sasl_env \<Rightarrow> client_params \<Rightarrow> bytes \<Rightarrow> QXmppSaslClientDigestMd5 \<Rightarrow> digest_map" where
  "digest_output env c realm s =
     fold (\<lambda>(k, v). qmap_insert (ascii k) v)
       ([(''username'', utf8 env (c_username c))] @
        (if realm \<noteq> [] then [(''realm'', realm)] else []) @
        [(''nonce'', dc_nonce s), (''qop'', ascii ''auth''), (''cnonce'', dc_cnonce s), (''nc'', dc_nc s),
         (''digest-uri'', digest_uri env c),
         (''response'', digest env (ascii ''AUTHENTICATE'') (digest_uri env c) (dc_secret s) (dc_nonce s) (dc_cnonce s) (dc_nc s)),
         (''charset'', ascii ''utf-8'')]) []"

definition digest_respond :: "sasl_env \<Rightarrow> client_params \<Rightarrow> bytes \<Rightarrow> QXmppSaslClientDigestMd5 \<Rightarrow>
    bytes option \<times> QXmppSaslClientDigestMd5" where
  "digest_respond env c challenge s =
     (if dc_step s = 0 then (Some [], s\<lparr>dc_step := 1\<rparr>)
      else if dc_step s = 1 then
        let input = parseMessage challenge
        in if map_of input (ascii ''nonce'') = None then (None, s)
           else let realm = map_value input (ascii ''realm'') [];
                    qops = split_on comma (map_value input (ascii ''qop'') (ascii ''auth''))
                in if ascii ''auth'' \<notin> set qops then (None, s)
                   else let s1 = s\<lparr>dc_nonce := map_value input (ascii ''nonce'') [],
                                   dc_secret := digest_secret env (c_username c) realm (dc_password s)\<rparr>
                        in (Some (serializeMessage (digest_output env c realm s1)), s1\<lparr>dc_step := 2\<rparr>)
      else if dc_step s = 2 then
        let input = parseMessage challenge
        in if map_value input (ascii ''rspauth'') [] \<noteq>
              digest env [] (digest_uri env c) (dc_secret s) (dc_nonce s) (dc_cnonce s) (dc_nc s)
           then (None, s)
           else (Some [], s\<lparr>dc_step := 3\<rparr>)
      else (None, s))"

record QXmppSaslClientFacebook =
  fb_accessToken :: qstring
  fb_appId :: qstring
  fb_step :: nat

definition facebook_respond :: "sasl_env \<Rightarrow> bytes \<Rightarrow> QXmppSaslClientFacebook \<Rightarrow> bytes option \<times> QXmppSaslClientFacebook" where
  "facebook_respond env challenge s =
     (if fb_step s = 0 then (Some [], s\<lparr>fb_step := 1\<rparr>)
      else if fb_step s = 1 then
        let requestUrl = parseQuery env (of_utf8 env challenge)
        in if map_of requestUrl ''method'' = None \<or> map_of requestUrl ''nonce'' = None then (None, s)
           else (Some (utf8 env (printQuery env
                   [(''access_token'', fb_accessToken s), (''api_key'', fb_appId s), (''call_id'', []),
                    (''method'', map_value requestUrl ''method'' []), (''nonce'', map_value requestUrl ''nonce'' []),
                    (''v'', ''1.0'')])), s\<lparr>fb_step := 2\<rparr>)
      else (None, s))"

text \<open>The clients that send one message with a secret: PLAIN, X-OAUTH2 and X-MESSENGER-OAUTH2.\<close>

record single_step_client =
  ss_secret :: qstring
  ss_step :: nat

definition NUL :: char where "NUL = CHR 0x00"

definition plain_respond :: "sasl_env \<Rightarrow> client_params \<Rightarrow> single_step_client \<Rightarrow> bytes option \<times> single_step_client" where
  "plain_respond env c s =
     (if ss_step s = 0 then (Some (utf8 env ([NUL] @ c_username c @ [NUL] @ ss_secret s)), s\<lparr>ss_step := 1\<rparr>) else (None, s))"

definition google_respond :: "sasl_env \<Rightarrow> client_params \<Rightarrow> single_step_client \<Rightarrow> bytes option \<times> single_step_client" where
  "google_respond env c s =
     (if ss_step s = 0 then (Some (utf8 env ([NUL] @ c_username c @ [NUL] @ ss_secret s)), s\<lparr>ss_step := 1\<rparr>) else (None, s))"

definition windowslive_respond :: "sasl_env \<Rightarrow> single_step_client \<Rightarrow> bytes option \<times> single_step_client" where
  "windowslive_respond env s =
     (if ss_step s = 0 then (Some (fromBase64 env (ascii (ss_secret s))), s\<lparr>ss_step := 1\<rparr>) else (None, s))"

record QXmppSaslClientScram =
  sc_mechanism :: ScramAlgorithm
  sc_step :: nat
  sc_password :: qstring
  sc_dklen :: nat
  sc_gs2Header :: bytes
  sc_clientFirstMessageBare :: bytes
  sc_serverSignature :: bytes
  sc_nonce :: bytes

definition new_Scram :: "sasl_env \<Rightarrow> bytes \<Rightarrow> ScramAlgorithm \<Rightarrow> Credentials \<Rightarrow> QXmppSaslClientScram" where
  "new_Scram env generated alg credentials = \<lparr>sc_mechanism = alg, sc_step = 0, sc_password = password credentials,
     sc_dklen = hashLength env (qtAlgorithm alg), sc_gs2Header = [], sc_clientFirstMessageBare = [],
     sc_serverSignature = [], sc_nonce = generated\<rparr>"

definition bxor :: "bytes \<Rightarrow> bytes \<Rightarrow> bytes" where
  "bxor a b = map2 (XOR) a b"

definition scram_respond :: "sasl_env \<Rightarrow> client_params \<Rightarrow> bytes \<Rightarrow> QXmppSaslClientScram \<Rightarrow>
    bytes option \<times> QXmppSaslClientScram" where
  "scram_respond env c challenge s =
     (let alg = qtAlgorithm (sc_mechanism s)
      in if sc_step s = 0 then
           let gs2 = ascii ''n,,'';
               bare = ascii ''n='' @ utf8 env (c_username c) @ ascii '',r='' @ sc_nonce s
           in (Some (gs2 @ bare), s\<lparr>sc_gs2Header := gs2, sc_clientFirstMessageBare := bare, sc_step := 1\<rparr>)
         else if sc_step s = 1 then
           let input = parseGS2 challenge;
               nonce = map_value input (of_nat (of_char CHR ''r'')) [];
               salt = fromBase64 env (map_value input (of_nat (of_char CHR ''s'')) []);
               iterations = bytes_toInt (map_value input (of_nat (of_char CHR ''i'')) [])
           in if \<not> startsWith nonce (sc_nonce s) \<or> salt = [] \<or> iterations < 1 then (None, s)
              else let clientFinalMessageBare = ascii ''c='' @ toBase64 env (sc_gs2Header s) @ ascii '',r='' @ nonce;
                       saltedPassword = pbkdf2 env alg (utf8 env (sc_password s)) salt iterations (sc_dklen s);
                       clientKey = hmac env alg saltedPassword (ascii ''Client Key'');
                       storedKey = hash env alg clientKey;
                       authMessage = sc_clientFirstMessageBare s @ ascii '','' @ challenge @ ascii '','' @ clientFinalMessageBare;
                       clientProof = bxor (hmac env alg storedKey authMessage) clientKey;
                       serverKey = hmac env alg saltedPassword (ascii ''Server Key'')
                   in (Some (clientFinalMessageBare @ ascii '',p='' @ toBase64 env clientProof),
                       s\<lparr>sc_serverSignature := hmac env alg serverKey authMessage, sc_step := 2\<rparr>)
         else if sc_step s = 2 then
           let input = parseGS2 challenge; s1 = s\<lparr>sc_step := 3\<rparr>
           in if fromBase64 env (map_value input (of_nat (of_char CHR ''v'')) []) = sc_serverSignature s
              then (Some [], s1) else (None, s1)
         else (None, s))"

record QXmppSaslClientHt =
  hc_token :: "HtToken option"
  hc_mechanism :: SaslHtMechanism
  hc_done :: bool

definition ht_respond :: "sasl_env \<Rightarrow> client_params \<Rightarrow> bytes \<Rightarrow> QXmppSaslClientHt \<Rightarrow> bytes option \<times> QXmppSaslClientHt" where
  "ht_respond env c challenge s =
     (case hc_token s of
        None \<Rightarrow> (None, s)
      | Some token \<Rightarrow>
          if hc_done s \<or> challenge \<noteq> [] \<or> hc_mechanism s \<noteq> ht_mechanism token then (None, s)
          else (Some (utf8 env (c_username c) @ [0] @
                  hmac env (ianaHashAlgorithmToQt (hashAlgorithm (hc_mechanism s))) (utf8 env (ht_secret token)) (ascii ''Initiator'')),
                s\<lparr>hc_done := True\<rparr>))"

section \<open>The client of a mechanism\<close>

datatype QXmppSaslClient = ClientAnonymous nat | ClientDigestMd5 QXmppSaslClientDigestMd5
  | ClientFacebook QXmppSaslClientFacebook | ClientGoogle single_step_client | ClientPlain single_step_client
  | ClientScram QXmppSaslClientScram | ClientWindowsLive single_step_client | ClientHt QXmppSaslClientHt

text \<open>Creation followed by \<^verbatim>\<open>setCredentials\<close>; \<^term>\<open>generated\<close> is the client nonce that is drawn.\<close>

fun create_client :: "sasl_env \<Rightarrow> bytes \<Rightarrow> SaslMechanism \<Rightarrow> Credentials \<Rightarrow> QXmppSaslClient" where
  "create_client env generated (SaslScramMechanism scram) cr = ClientScram (new_Scram env generated scram cr)"
| "create_client env generated (SaslHtMechanism ht) cr =
     ClientHt \<lparr>hc_token = htToken cr, hc_mechanism = ht, hc_done = False\<rparr>"
| "create_client env generated SaslPlainMechanism cr = ClientPlain \<lparr>ss_secret = password cr, ss_step = 0\<rparr>"
| "create_client env generated SaslDigestMd5Mechanism cr = ClientDigestMd5 (new_DigestMd5 generated cr)"
| "create_client env generated SaslAnonymousMechanism cr = ClientAnonymous 0"
| "create_client env generated SaslXFacebookMechanism cr =
     ClientFacebook \<lparr>fb_accessToken = facebookAccessToken cr, fb_appId = facebookAppId cr, fb_step = 0\<rparr>"
| "create_client env generated SaslXWindowsLiveMechanism cr =
     ClientWindowsLive \<lparr>ss_secret = windowsLiveAccessToken cr, ss_step = 0\<rparr>"
| "create_client env generated SaslXGoogleMechanism cr = ClientGoogle \<lparr>ss_secret = googleAccessToken cr, ss_step = 0\<rparr>"

fun client_mechanism :: "QXmppSaslClient \<Rightarrow> SaslMechanism" where
  "client_mechanism (ClientAnonymous _) = SaslAnonymousMechanism"
| "client_mechanism (ClientDigestMd5 _) = SaslDigestMd5Mechanism"
| "client_mechanism (ClientFacebook _) = SaslXFacebookMechanism"
| "client_mechanism (ClientGoogle _) = SaslXGoogleMechanism"
| "client_mechanism (ClientPlain _) = SaslPlainMechanism"
| "client_mechanism (ClientScram s) = SaslScramMechanism (sc_mechanism s)"
| "client_mechanism (ClientWindowsLive _) = SaslXWindowsLiveMechanism"
| "client_mechanism (ClientHt s) = SaslHtMechanism (hc_mechanism s)"

fun client_respond :: "sasl_env \<Rightarrow> client_params \<Rightarrow> bytes \<Rightarrow> QXmppSaslClient \<Rightarrow> bytes option \<times> QXmppSaslClient" where
  "client_respond env c ch (ClientAnonymous n) = apsnd ClientAnonymous (anonymous_respond n)"
| "client_respond env c ch (ClientDigestMd5 s) = apsnd ClientDigestMd5 (digest_respond env c ch s)"
| "client_respond env c ch (ClientFacebook s) = apsnd ClientFacebook (facebook_respond env ch s)"
| "client_respond env c ch (ClientGoogle s) = apsnd ClientGoogle (google_respond env c s)"
| "client_respond env c ch (ClientPlain s) = apsnd ClientPlain (plain_respond env c s)"
| "client_respond env c ch (ClientScram s) = apsnd ClientScram (scram_respond env c ch s)"
| "client_respond env c ch (ClientWindowsLive s) = apsnd ClientWindowsLive (windowslive_respond env s)"
| "client_respond env c ch (ClientHt s) = apsnd ClientHt (ht_respond env c ch s)"

section \<open>Servers\<close>

datatype server_response = Challenge | Succeeded | Failed | InputNeeded

record QXmppSaslServer =
  s_username :: qstring
  s_password :: qstring
  s_passwordDigest :: bytes
  s_realm :: qstring
  s_step :: nat

record QXmppSaslServerDigestMd5 = QXmppSaslServer +
  sd_cnonce :: bytes
  sd_nc :: bytes
  sd_nonce :: bytes
  sd_secret :: bytes

text \<open>The result, the value the reference \<^verbatim>\<open>response\<close> is set to if it is, and the server afterwards.\<close>

definition anonymous_server_respond :: "QXmppSaslServer \<Rightarrow> server_response \<times> bytes option \<times> QXmppSaslServer" where
  "anonymous_server_respond s =
     (if s_step s = 0 then (Succeeded, Some [], s\<lparr>s_step := 1\<rparr>) else (Failed, None, s))"

definition plain_server_respond :: "sasl_env \<Rightarrow> bytes \<Rightarrow> QXmppSaslServer \<Rightarrow> server_response \<times> bytes option \<times> QXmppSaslServer" where
  "plain_server_respond env request s =
     (if s_step s = 0 then
        if request = [] then (Challenge, Some [], s)
        else let auth = split_on 0 request
             in if length auth \<noteq> 3 then (Failed, None, s)
                else (InputNeeded, Some [], s\<lparr>s_username := of_utf8 env (auth ! 1), s_password := of_utf8 env (auth ! 2),
                                               s_step := 1\<rparr>)
      else (Failed, None, s))"

definition digest_server_respond :: "sasl_env \<Rightarrow> bytes \<Rightarrow> QXmppSaslServerDigestMd5 \<Rightarrow>
    server_response \<times> bytes option \<times> QXmppSaslServerDigestMd5" where
  "digest_server_respond env request s =
     (if s_step s = 0 then
        let output = fold (\<lambda>(k, v). qmap_insert (ascii k) v)
              ([(''nonce'', sd_nonce s)] @ (if s_realm s \<noteq> [] then [(''realm'', utf8 env (s_realm s))] else []) @
               [(''qop'', ascii ''auth''), (''charset'', ascii ''utf-8''), (''algorithm'', ascii ''md5-sess'')]) []
        in (Challenge, Some (serializeMessage output), s\<lparr>s_step := 1\<rparr>)
      else if s_step s = 1 then
        let input = parseMessage request;
            realm = map_value input (ascii ''realm'') [];
            digestUri = map_value input (ascii ''digest-uri'') []
        in if map_value input (ascii ''qop'') [] \<noteq> ascii ''auth'' then (Failed, None, s)
           else let s1 = s\<lparr>s_username := of_utf8 env (map_value input (ascii ''username'') [])\<rparr>
                in if s_password s1 = [] \<and> s_passwordDigest s1 = [] then (InputNeeded, None, s1)
                   else let s2 = s1\<lparr>sd_nc := map_value input (ascii ''nc'') [], sd_cnonce := map_value input (ascii ''cnonce'') [],
                              sd_secret := (if s_password s1 \<noteq> []
                                            then digest_secret env (s_username s1) realm (s_password s1)
                                            else s_passwordDigest s1)\<rparr>
                        in if map_value input (ascii ''response'') [] \<noteq>
                              digest env (ascii ''AUTHENTICATE'') digestUri (sd_secret s2) (sd_nonce s2) (sd_cnonce s2) (sd_nc s2)
                           then (Failed, None, s2)
                           else (Challenge,
                                 Some (serializeMessage [(ascii ''rspauth'',
                                   digest env [] digestUri (sd_secret s2) (sd_nonce s2) (sd_cnonce s2) (sd_nc s2))]),
                                 s2\<lparr>s_step := 2\<rparr>)
      else if s_step s = 2 then (Succeeded, Some [], s\<lparr>s_step := 3\<rparr>)
      else (Failed, None, s))"

datatype SaslServer = ServerPlain QXmppSaslServer | ServerDigestMd5 QXmppSaslServerDigestMd5
  | ServerAnonymous QXmppSaslServer

definition fresh_server :: QXmppSaslServer where
  "fresh_server = \<lparr>s_username = [], s_password = [], s_passwordDigest = [], s_realm = [], s_step = 0\<rparr>"

definition new_ServerDigestMd5 :: "bytes \<Rightarrow> QXmppSaslServerDigestMd5" where
  "new_ServerDigestMd5 generated = \<lparr>s_username = [], s_password = [], s_passwordDigest = [], s_realm = [], s_step = 0,
     sd_cnonce = [], sd_nc = [], sd_nonce = generated, sd_secret = []\<rparr>"

definition create_server :: "bytes \<Rightarrow> qstring \<Rightarrow> SaslServer option" where
  "create_server generated mechanism =
     (if mechanism = ''PLAIN'' then Some (ServerPlain fresh_server)
      else if mechanism = ''DIGEST-MD5'' then Some (ServerDigestMd5 (new_ServerDigestMd5 generated))
      else if mechanism = ''ANONYMOUS'' then Some (ServerAnonymous fresh_server)
      else None)"

section \<open>The interface of a client\<close>

text \<open>The answers of a client to a sequence of challenges.\<close>

fun run_client :: "('c \<Rightarrow> bytes \<Rightarrow> bytes option \<times> 'c) \<Rightarrow> 'c \<Rightarrow> bytes list \<Rightarrow> bytes option list \<times> 'c" where
  "run_client respond s [] = ([], s)"
| "run_client respond s (ch # chs) = (case respond s ch of (a, s') \<Rightarrow> apfst (Cons a) (run_client respond s' chs))"

locale sasl_client =
  fixes respond :: "'c \<Rightarrow> bytes \<Rightarrow> bytes option \<times> 'c" and answers_left :: "'c \<Rightarrow> nat"
  assumes answer: "respond s ch = (Some r, s') \<Longrightarrow> answers_left s' < answers_left s"
    and refusal: "respond s ch = (None, s') \<Longrightarrow> answers_left s' \<le> answers_left s"
begin

lemma answers_bounded: "length (filter (\<lambda>a. a \<noteq> None) (fst (run_client respond s chs))) \<le> answers_left s"
proof (induction chs arbitrary: s)
  case (Cons ch chs)
  obtain a s' where r: "respond s ch = (a, s')" by force
  show ?case using Cons.IH [of s'] answer [of s ch _ s'] refusal [of s ch s'] by (cases a) (fastforce simp: r)+
qed simp

lemma exhausted: "answers_left s = 0 \<Longrightarrow> fst (respond s ch) = None"
  using answer [of s ch] by (cases "respond s ch"; cases "fst (respond s ch)") auto

end

definition scram_left :: "QXmppSaslClientScram \<Rightarrow> nat" where "scram_left s = 3 - sc_step s"
definition digest_left :: "QXmppSaslClientDigestMd5 \<Rightarrow> nat" where "digest_left s = 3 - dc_step s"
definition facebook_left :: "QXmppSaslClientFacebook \<Rightarrow> nat" where "facebook_left s = 2 - fb_step s"
definition single_left :: "single_step_client \<Rightarrow> nat" where "single_left s = 1 - ss_step s"
definition ht_left :: "QXmppSaslClientHt \<Rightarrow> nat" where "ht_left s = (if hc_done s then 0 else 1)"

lemmas respond_defs = anonymous_respond_def digest_respond_def facebook_respond_def plain_respond_def google_respond_def
  windowslive_respond_def scram_respond_def ht_respond_def
lemmas left_defs = scram_left_def digest_left_def facebook_left_def single_left_def ht_left_def

interpretation anonymous: sasl_client "\<lambda>n ch. anonymous_respond n" "\<lambda>n. 1 - n"
  by unfold_locales (auto simp: respond_defs split: if_splits)

interpretation digestmd5: sasl_client "\<lambda>s ch. digest_respond env c ch s" digest_left
  for env :: sasl_env and c :: client_params
  by unfold_locales (auto simp: respond_defs left_defs Let_def split: if_splits)

interpretation facebook: sasl_client "\<lambda>s ch. facebook_respond env ch s" facebook_left for env :: sasl_env
  by unfold_locales (auto simp: respond_defs left_defs Let_def split: if_splits)

interpretation plain: sasl_client "\<lambda>s ch. plain_respond env c s" single_left
  for env :: sasl_env and c :: client_params
  by unfold_locales (auto simp: respond_defs left_defs split: if_splits)

interpretation google: sasl_client "\<lambda>s ch. google_respond env c s" single_left
  for env :: sasl_env and c :: client_params
  by unfold_locales (auto simp: respond_defs left_defs split: if_splits)

interpretation windowslive: sasl_client "\<lambda>s ch. windowslive_respond env s" single_left for env :: sasl_env
  by unfold_locales (auto simp: respond_defs left_defs split: if_splits)

interpretation scram: sasl_client "\<lambda>s ch. scram_respond env c ch s" scram_left
  for env :: sasl_env and c :: client_params
  by unfold_locales (auto simp: respond_defs left_defs Let_def split: if_splits)

interpretation ht: sasl_client "\<lambda>s ch. ht_respond env c ch s" ht_left
  for env :: sasl_env and c :: client_params
  by unfold_locales (auto simp: respond_defs left_defs split: if_splits option.splits)

fun client_left :: "QXmppSaslClient \<Rightarrow> nat" where
  "client_left (ClientAnonymous n) = 1 - n"
| "client_left (ClientDigestMd5 s) = digest_left s"
| "client_left (ClientFacebook s) = facebook_left s"
| "client_left (ClientGoogle s) = single_left s"
| "client_left (ClientPlain s) = single_left s"
| "client_left (ClientScram s) = scram_left s"
| "client_left (ClientWindowsLive s) = single_left s"
| "client_left (ClientHt s) = ht_left s"

lemma apsnd_eq: "apsnd f x = (a, b) \<longleftrightarrow> (\<exists>y. x = (a, y) \<and> b = f y)"
  by (cases x) auto

interpretation client: sasl_client "\<lambda>s ch. client_respond env c ch s" client_left
  for env :: sasl_env and c :: client_params
proof unfold_locales
  fix s s' :: QXmppSaslClient and ch r :: bytes
  show "client_respond env c ch s = (Some r, s') \<Longrightarrow> client_left s' < client_left s"
    by (cases s) (auto simp: apsnd_eq dest: anonymous.answer digestmd5.answer facebook.answer google.answer plain.answer
        scram.answer windowslive.answer ht.answer)
  show "client_respond env c ch s = (None, s') \<Longrightarrow> client_left s' \<le> client_left s"
    by (cases s) (auto simp: apsnd_eq dest: anonymous.refusal digestmd5.refusal facebook.refusal google.refusal plain.refusal
        scram.refusal windowslive.refusal ht.refusal)
qed

end
