(* ===== verification/SaslExchange.thy ===== *)
theory SaslExchange
  imports SaslClient
begin

text \<open>
  Properties of whole SASL exchanges: what a client proves to a server and a server to a
  client, with RFC 5802 as the specification of the other side of SCRAM and with the servers
  of the library as the other side of PLAIN and DIGEST-MD5.
\<close>

section \<open>SCRAM\<close>

text \<open>The values that RFC 5802 computes from the two sides' first messages.\<close>

definition rfc_nonce :: "bytes \<Rightarrow> bytes" where
  "rfc_nonce serverFirst = map_value (parseGS2 serverFirst) (of_nat (of_char CHR ''r'')) []"

definition rfc_salted :: "sasl_env \<Rightarrow> ScramAlgorithm \<Rightarrow> qstring \<Rightarrow> bytes \<Rightarrow> bytes" where
  "rfc_salted env alg pw serverFirst = pbkdf2 env (qtAlgorithm alg) (utf8 env pw)
     (fromBase64 env (map_value (parseGS2 serverFirst) (of_nat (of_char CHR ''s'')) []))
     (bytes_toInt (map_value (parseGS2 serverFirst) (of_nat (of_char CHR ''i'')) [])) (hashLength env (qtAlgorithm alg))"

definition rfc_without_proof :: "sasl_env \<Rightarrow> bytes \<Rightarrow> bytes" where
  "rfc_without_proof env serverFirst = ascii ''c='' @ toBase64 env (ascii ''n,,'') @ ascii '',r='' @ rfc_nonce serverFirst"

definition rfc_auth_message :: "sasl_env \<Rightarrow> qstring \<Rightarrow> bytes \<Rightarrow> bytes \<Rightarrow> bytes" where
  "rfc_auth_message env user clientNonce serverFirst =
     ascii ''n='' @ utf8 env user @ ascii '',r='' @ clientNonce @ ascii '','' @ serverFirst @ ascii '','' @
     rfc_without_proof env serverFirst"

definition rfc_server_signature :: "sasl_env \<Rightarrow> ScramAlgorithm \<Rightarrow> qstring \<Rightarrow> qstring \<Rightarrow> bytes \<Rightarrow> bytes \<Rightarrow> bytes" where
  "rfc_server_signature env alg user pw clientNonce serverFirst =
     hmac env (qtAlgorithm alg) (hmac env (qtAlgorithm alg) (rfc_salted env alg pw serverFirst) (ascii ''Server Key''))
       (rfc_auth_message env user clientNonce serverFirst)"

text \<open>
  The server's check of the final message: it XORs the proof with the client signature and
  compares the hash of the result with the stored key.
\<close>

definition rfc_server_accepts :: "sasl_env \<Rightarrow> ScramAlgorithm \<Rightarrow> qstring \<Rightarrow> qstring \<Rightarrow> bytes \<Rightarrow> bytes \<Rightarrow> bytes \<Rightarrow> bool" where
  "rfc_server_accepts env alg user pw clientNonce serverFirst clientFinal \<longleftrightarrow>
     (let h = qtAlgorithm alg; fields = parseGS2 clientFinal;
          storedKey = hash env h (hmac env h (rfc_salted env alg pw serverFirst) (ascii ''Client Key''));
          signature = hmac env h storedKey (rfc_auth_message env user clientNonce serverFirst);
          proof = fromBase64 env (map_value fields (of_nat (of_char CHR ''p'')) [])
      in map_value fields (of_nat (of_char CHR ''r'')) [] = rfc_nonce serverFirst \<and>
         hash env h (bxor signature proof) = storedKey)"

text \<open>The client after its first message, and its two further answers.\<close>

definition scram_first :: "sasl_env \<Rightarrow> client_params \<Rightarrow> bytes \<Rightarrow> ScramAlgorithm \<Rightarrow> Credentials \<Rightarrow> QXmppSaslClientScram" where
  "scram_first env c g alg cr = snd (scram_respond env c [] (new_Scram env g alg cr))"

lemma scram_first_simps:
  "scram_first env c g alg cr = (new_Scram env g alg cr)\<lparr>sc_gs2Header := ascii ''n,,'',
     sc_clientFirstMessageBare := ascii ''n='' @ utf8 env (c_username c) @ ascii '',r='' @ g, sc_step := 1\<rparr>"
  by (simp add: scram_first_def scram_respond_def new_Scram_def Let_def)

lemma scram_second:
  assumes "scram_respond env c serverFirst (scram_first env c g alg cr) = (Some final, s2)"
  shows "sc_step s2 = 2" and "sc_serverSignature s2 = rfc_server_signature env alg (c_username c) (password cr) g serverFirst"
    and "final = rfc_without_proof env serverFirst @ ascii '',p='' @ toBase64 env
      (let h = qtAlgorithm alg; ck = hmac env h (rfc_salted env alg (password cr) serverFirst) (ascii ''Client Key'')
       in bxor (hmac env h (hash env h ck) (rfc_auth_message env (c_username c) g serverFirst)) ck)"
    and "startsWith (rfc_nonce serverFirst) g"
  using assms
  by (auto simp: scram_first_simps scram_respond_def new_Scram_def Let_def rfc_server_signature_def rfc_salted_def
      rfc_auth_message_def rfc_without_proof_def rfc_nonce_def split: if_splits)

lemma xor_left_cancel [simp]: "x XOR (x XOR y) = (y :: 'a::len word)"
  by (simp add: xor.assoc [symmetric])

lemma bxor_cancel: "length a = length b \<Longrightarrow> bxor a (bxor a b) = b"
  unfolding bxor_def by (induction a b rule: list_induct2) simp_all

lemma split_on_three:
  "c \<notin> set x \<Longrightarrow> c \<notin> set y \<Longrightarrow> c \<notin> set z \<Longrightarrow> split_on c (x @ c # y @ c # z) = [x, y, z]"
  by (simp add: qstring_simps)

lemma parseGS2_final:
  assumes "comma \<notin> set b" and "comma \<notin> set n" and "comma \<notin> set p"
  shows "map_of (parseGS2 (ascii ''c='' @ b @ ascii '',r='' @ n @ ascii '',p='' @ p)) =
    [of_nat (of_char CHR ''c'') \<mapsto> b, of_nat (of_char CHR ''r'') \<mapsto> n, of_nat (of_char CHR ''p'') \<mapsto> p]"
proof -
  have "split_on comma (ascii ''c='' @ b @ ascii '',r='' @ n @ ascii '',p='' @ p) =
      [ascii ''c='' @ b, ascii ''r='' @ n, ascii ''p='' @ p]"
    using split_on_three [of comma "ascii ''c='' @ b" "ascii ''r='' @ n" "ascii ''p='' @ p"] assms by (simp add: ascii_def)
  then show ?thesis by (simp only: parseGS2_def) (simp add: ascii_def fun_upd_twist)
qed

lemma fold_keeps: "(\<And>x m. x \<in> set xs \<Longrightarrow> P m \<Longrightarrow> P (f x m)) \<Longrightarrow> P m \<Longrightarrow> P (fold f xs m)"
  by (induction xs arbitrary: m) auto

lemma parseGS2_no_comma: "map_of (parseGS2 ba) k = Some v \<Longrightarrow> comma \<notin> set v"
proof -
  have "\<forall>k v. map_of (parseGS2 ba) k = Some v \<longrightarrow> comma \<notin> set v"
    unfolding parseGS2_def
    by (rule fold_keeps) (auto dest!: split_on_parts dest: in_set_dropD split: if_splits)
  then show "map_of (parseGS2 ba) k = Some v \<Longrightarrow> comma \<notin> set v" by blast
qed

lemma rfc_nonce_no_comma: "comma \<notin> set (rfc_nonce serverFirst)"
  using parseGS2_no_comma [of serverFirst] by (auto simp: rfc_nonce_def map_value_def split: option.splits)

section \<open>An environment for the examples\<close>

text \<open>In place of Base64, a reversible encoding that avoids commas: each byte made odd, and its last bit.\<close>

fun odd_unpairs :: "bytes \<Rightarrow> bytes" where
  "odd_unpairs (a # b # r) = (if b = 3 then a else a XOR 1) # odd_unpairs r"
| "odd_unpairs _ = []"

definition odd_pairs :: "bytes \<Rightarrow> bytes" where
  "odd_pairs s = concat (map (\<lambda>b. [b OR 1, if bit b 0 then 3 else 1]) s)"

definition example_env :: sasl_env where
  "example_env = \<lparr>hash = (\<lambda>h x. x), hmac = (\<lambda>h k x. take 4 (k @ x @ [0, 0, 0, 0])),
     pbkdf2 = (\<lambda>h pw salt i n. take n (pw @ salt @ [0, 0, 0, 0])), hashLength = (\<lambda>h. 4), utf8 = ascii,
     of_utf8 = map (\<lambda>b. char_of (unat b)), toHex = odd_pairs, toBase64 = odd_pairs, fromBase64 = odd_unpairs,
     parseQuery = (\<lambda>q. []), printQuery = (\<lambda>q. [])\<rparr>"

lemma odd_pairs_inverse: "odd_unpairs (odd_pairs x) = x"
proof -
  have "bit b 0 \<Longrightarrow> b OR 1 = b" "\<not> bit b 0 \<Longrightarrow> (b OR 1) XOR 1 = b" for b :: byte
    by (rule bit_word_eqI, auto simp: bit_simps bit_1_iff intro!: gr0I)+
  then show ?thesis by (induction x) (auto simp: odd_pairs_def)
qed

lemma example_env_laws:
  "fromBase64 example_env (toBase64 example_env x) = x" "comma \<notin> set (toBase64 example_env x)"
  "length (hmac example_env h k x) = hashLength example_env h"
  "of_utf8 example_env (utf8 example_env t) = t"
proof -
  have "comma \<noteq> b OR 1" for b :: byte
  proof
    assume "comma = b OR 1"
    then have "bit comma 0 = bit (b OR 1) 0" by simp
    then show False by (simp add: bit_simps)
  qed
  then show "comma \<notin> set (toBase64 example_env x)" by (auto simp: example_env_def odd_pairs_def)
qed (simp_all add: example_env_def odd_pairs_inverse ascii_def comp_def map_idI unat_of_nat)

definition example_params :: client_params where
  "example_params = \<lparr>c_host = ''a'', c_serviceType = ''xmpp'', c_username = ''u''\<rparr>"

definition example_credentials :: Credentials where
  "example_credentials = credentialData password_config"

text \<open>A first message of the server: the nonce 7 extended by 8, the salt 9 and one iteration.\<close>

definition example_server_first :: bytes where
  "example_server_first = ascii ''r='' @ [7, 8] @ ascii '',s='' @ odd_pairs [9] @ ascii '',i=1''"

definition example_scram :: "bytes option \<times> QXmppSaslClientScram" where
  "example_scram = scram_respond example_env example_params example_server_first
     (scram_first example_env example_params [7] Scram_Sha1 example_credentials)"

lemma example_scram_answers: "fst example_scram \<noteq> None"
  by code_simp

section \<open>Properties\<close>

text \<open>
  C24.  No client can be kept answering: over any sequence of challenges, the client of any
  mechanism answers at most three of them and refuses the others.
\<close>

theorem client_answers_bounded:
  "length (filter (\<lambda>a. a \<noteq> None)
     (fst (run_client (\<lambda>s ch. client_respond env c ch s) (create_client env g m cr) challenges))) \<le> 3"
proof -
  have "client_left (create_client env g m cr) \<le> 3"
    by (cases m) (simp_all add: left_defs new_Scram_def new_DigestMd5_def)
  then show ?thesis using client.answers_bounded [of env c "create_client env g m cr" challenges] by linarith
qed

text \<open>
  C15.  A SCRAM client proves that it knows the password: the server of RFC 5802 accepts the final
  message the client answers a first message with, since XORing the proof with the client
  signature gives back the client key.
\<close>

theorem scram_proof_accepted:
  assumes "scram_respond env c serverFirst (scram_first env c g alg cr) = (Some final, s2)"
    and "\<And>x. fromBase64 env (toBase64 env x) = x" and "\<And>x. comma \<notin> set (toBase64 env x)"
    and "\<And>h k x. length (hmac env h k x) = hashLength env h"
  shows "rfc_server_accepts env alg (c_username c) (password cr) g serverFirst final"
proof -
  let ?h = "qtAlgorithm alg"
  let ?ck = "hmac env ?h (rfc_salted env alg (password cr) serverFirst) (ascii ''Client Key'')"
  let ?sig = "hmac env ?h (hash env ?h ?ck) (rfc_auth_message env (c_username c) g serverFirst)"
  have "map_of (parseGS2 final) = [of_nat (of_char CHR ''c'') \<mapsto> toBase64 env (ascii ''n,,''),
      of_nat (of_char CHR ''r'') \<mapsto> rfc_nonce serverFirst, of_nat (of_char CHR ''p'') \<mapsto> toBase64 env (bxor ?sig ?ck)]"
    using parseGS2_final [OF assms(3) rfc_nonce_no_comma assms(3)] scram_second(3) [OF assms(1)]
    by (simp add: rfc_without_proof_def Let_def)
  moreover have "bxor ?sig (bxor ?sig ?ck) = ?ck" by (rule bxor_cancel) (simp add: assms(4))
  ultimately show ?thesis by (simp add: rfc_server_accepts_def Let_def map_value_def assms(2))
qed

theorem scram_proof_accepted_witness:
  "rfc_server_accepts example_env Scram_Sha1 ''u'' ''pw'' [7] example_server_first (the (fst example_scram))"
proof -
  have "scram_respond example_env example_params example_server_first
      (scram_first example_env example_params [7] Scram_Sha1 example_credentials) =
      (Some (the (fst example_scram)), snd example_scram)"
    using example_scram_answers unfolding example_scram_def by (simp add: prod_eq_iff)
  from scram_proof_accepted [OF this] show ?thesis
    by (simp add: example_env_laws example_params_def example_credentials_def password_config_def)
qed

text \<open>
  C16.  A SCRAM client asks the server for the same proof: it goes on after the server's final
  message exactly if that message carries the signature that only the password gives for this
  exchange.
\<close>

theorem scram_server_verified:
  assumes "scram_respond env c serverFirst (scram_first env c g alg cr) = (Some final, s2)"
  shows "fst (scram_respond env c serverFinal s2) \<noteq> None \<longleftrightarrow>
    fromBase64 env (map_value (parseGS2 serverFinal) (of_nat (of_char CHR ''v'')) []) =
      rfc_server_signature env alg (c_username c) (password cr) g serverFirst"
  using scram_second(1,2) [OF assms] by (simp add: scram_respond_def Let_def)

theorem scram_server_verified_witness:
  "fst (scram_respond example_env example_params (ascii ''v='' @ toBase64 example_env
     (rfc_server_signature example_env Scram_Sha1 ''u'' ''pw'' [7] example_server_first)) (snd example_scram)) \<noteq> None \<and>
   fst (scram_respond example_env example_params [] (snd example_scram)) = None"
proof -
  have run: "scram_respond example_env example_params example_server_first
      (scram_first example_env example_params [7] Scram_Sha1 example_credentials) =
      (Some (the (fst example_scram)), snd example_scram)"
    using example_scram_answers unfolding example_scram_def by (simp add: prod_eq_iff)
  have "fromBase64 example_env (map_value (parseGS2 (ascii ''v='' @ toBase64 example_env
      (rfc_server_signature example_env Scram_Sha1 ''u'' ''pw'' [7] example_server_first))) (of_nat (of_char CHR ''v'')) []) =
      rfc_server_signature example_env Scram_Sha1 ''u'' ''pw'' [7] example_server_first"
    by code_simp
  moreover have "fromBase64 example_env (map_value (parseGS2 []) (of_nat (of_char CHR ''v'')) []) \<noteq>
      rfc_server_signature example_env Scram_Sha1 ''u'' ''pw'' [7] example_server_first"
    by code_simp
  ultimately show ?thesis
    using scram_server_verified [OF run, of "[]"] scram_server_verified [OF run, of "ascii ''v='' @ toBase64 example_env
      (rfc_server_signature example_env Scram_Sha1 ''u'' ''pw'' [7] example_server_first)"]
    by (simp add: example_params_def example_credentials_def password_config_def)
qed

text \<open>
  The name of the user is put into the first SCRAM message as it is: RFC 5802 asks for commas
  and equals signs in it to be escaped, without which a server reads another name, and even
  fields, out of it.
\<close>

lemma scram_username_not_escaped:
  "map_of (parseGS2 (sc_clientFirstMessageBare
     (scram_first example_env (example_params\<lparr>c_username := ''admin,r=x,y''\<rparr>) [7] Scram_Sha1 example_credentials)))
     (of_nat (of_char CHR ''n'')) = Some (ascii ''admin'')"
  by code_simp

section \<open>PLAIN\<close>

lemma split_on_nul:
  "0 \<notin> set u \<Longrightarrow> 0 \<notin> set p \<Longrightarrow> split_on (0 :: byte) (0 # u @ 0 # p) = [[], u, p]"
  using split_on_three [of 0 "[]" u p] by simp

text \<open>
  The server for PLAIN receives exactly the user name and the password that the client was
  given, provided they contain no NUL (for a UTF-8 encoding that treats the characters one by
  one, with NUL as the byte 0).
\<close>

lemma plain_credentials_transferred:
  assumes "\<And>a b. utf8 env (a @ b) = utf8 env a @ utf8 env b" and "utf8 env [NUL] = [0]"
    and "\<And>t. NUL \<notin> set t \<Longrightarrow> 0 \<notin> set (utf8 env t)" and "\<And>t. of_utf8 env (utf8 env t) = t"
    and "NUL \<notin> set (c_username c)" and "NUL \<notin> set pw"
  shows "\<exists>request s'. plain_respond env c \<lparr>ss_secret = pw, ss_step = 0\<rparr> = (Some request, s') \<and>
    plain_server_respond env request fresh_server =
      (InputNeeded, Some [], fresh_server\<lparr>s_username := c_username c, s_password := pw, s_step := 1\<rparr>)"
proof -
  have "utf8 env ([NUL] @ c_username c @ [NUL] @ pw) = 0 # utf8 env (c_username c) @ 0 # utf8 env pw"
    by (simp only: assms(1,2)) simp
  then show ?thesis
    using split_on_nul [OF assms(3) [OF assms(5)] assms(3) [OF assms(6)]]
    by (simp add: plain_respond_def plain_server_respond_def fresh_server_def assms(4))
qed

lemma plain_credentials_transferred_witness:
  "plain_server_respond example_env (the (fst (plain_respond example_env example_params \<lparr>ss_secret = ''pw'', ss_step = 0\<rparr>)))
     fresh_server = (InputNeeded, Some [], fresh_server\<lparr>s_username := ''u'', s_password := ''pw'', s_step := 1\<rparr>)"
proof -
  have "0 \<notin> set (utf8 example_env t)" if "NUL \<notin> set t" for t
  proof -
    have "(of_nat (of_char ch) :: byte) \<noteq> 0" if "ch \<noteq> NUL" for ch :: char
    proof
      assume "(of_nat (of_char ch) :: byte) = 0"
      then have "unat (of_nat (of_char ch) :: byte) = 0" by simp
      then have "of_char ch = (0 :: nat)" by (simp add: unat_of_nat)
      then have "ch = char_of (0 :: nat)" by (metis char_of_char)
      then show False using that by (simp add: NUL_def char_of_def)
    qed
    then show ?thesis using that by (force simp: example_env_def ascii_def)
  qed
  then have nul: "\<And>t. NUL \<notin> set t \<Longrightarrow> 0 \<notin> set (utf8 example_env t)" .
  have "utf8 example_env (a @ b) = utf8 example_env a @ utf8 example_env b" "utf8 example_env [NUL] = [0]" for a b
    by (simp_all add: example_env_def ascii_def NUL_def)
  moreover have "NUL \<notin> set (c_username example_params)" "NUL \<notin> set ''pw''"
    by (simp_all add: example_params_def NUL_def)
  ultimately show ?thesis
    using plain_credentials_transferred [OF _ _ nul example_env_laws(4), of example_params "''pw''"]
    by (auto simp: example_params_def)
qed

section \<open>DIGEST-MD5\<close>

definition server_challenge :: "sasl_env \<Rightarrow> QXmppSaslServerDigestMd5 \<Rightarrow> digest_map" where
  "server_challenge env s = fold (\<lambda>(k, v). qmap_insert (ascii k) v)
     ([(''nonce'', sd_nonce s)] @ (if s_realm s \<noteq> [] then [(''realm'', utf8 env (s_realm s))] else []) @
      [(''qop'', ascii ''auth''), (''charset'', ascii ''utf-8''), (''algorithm'', ascii ''md5-sess'')]) []"

lemma keys_ok:
  "digest_key_ok (ascii ''nonce'')" "digest_key_ok (ascii ''realm'')" "digest_key_ok (ascii ''qop'')"
  "digest_key_ok (ascii ''charset'')" "digest_key_ok (ascii ''algorithm'')" "digest_key_ok (ascii ''username'')"
  "digest_key_ok (ascii ''cnonce'')" "digest_key_ok (ascii ''nc'')" "digest_key_ok (ascii ''digest-uri'')"
  "digest_key_ok (ascii ''response'')" "digest_key_ok (ascii ''rspauth'')"
  "digest_value_ok (ascii ''auth'')" "digest_value_ok (ascii ''utf-8'')" "digest_value_ok (ascii ''md5-sess'')"
  "digest_value_ok (ascii ''00000001'')"
  by (simp_all add: digest_key_ok_def digest_value_ok_def ascii_def trimmed_bytes_def byte_space_def)

lemma parse_server_challenge:
  assumes "digest_value_ok (sd_nonce s)" and "digest_value_ok (utf8 env (s_realm s))"
  shows "parseMessage (serializeMessage (server_challenge env s)) = server_challenge env s"
  unfolding server_challenge_def
  by (intro parse_serialize wf_digest_fold) (use assms in \<open>simp_all add: keys_ok\<close>)

lemma server_challenge_values:
  "map_of (server_challenge env s) (ascii ''nonce'') = Some (sd_nonce s)"
  "map_value (server_challenge env s) (ascii ''nonce'') [] = sd_nonce s"
  "map_value (server_challenge env s) (ascii ''realm'') [] = (if s_realm s \<noteq> [] then utf8 env (s_realm s) else [])"
  "map_value (server_challenge env s) (ascii ''qop'') (ascii ''auth'') = ascii ''auth''"
  by (simp_all add: server_challenge_def map_value_def)

lemma parse_digest_output:
  assumes "digest_value_ok (utf8 env (c_username c))" and "digest_value_ok realm" and "digest_value_ok (dc_nonce s)"
    and "digest_value_ok (dc_cnonce s)" and "digest_value_ok (dc_nc s)" and "digest_value_ok (digest_uri env c)"
    and "\<And>x. digest_value_ok (toHex env x)"
  shows "parseMessage (serializeMessage (digest_output env c realm s)) = digest_output env c realm s"
  unfolding digest_output_def
  by (intro parse_serialize wf_digest_fold)
     (use assms in \<open>simp_all add: keys_ok digest_def calculateDigest_def Let_def\<close>)

lemma digest_output_values:
  "map_value (digest_output env c realm s) (ascii ''username'') [] = utf8 env (c_username c)"
  "map_value (digest_output env c realm s) (ascii ''realm'') [] = realm"
  "map_value (digest_output env c realm s) (ascii ''qop'') [] = ascii ''auth''"
  "map_value (digest_output env c realm s) (ascii ''cnonce'') [] = dc_cnonce s"
  "map_value (digest_output env c realm s) (ascii ''nc'') [] = dc_nc s"
  "map_value (digest_output env c realm s) (ascii ''digest-uri'') [] = digest_uri env c"
  "map_value (digest_output env c realm s) (ascii ''response'') [] =
     digest env (ascii ''AUTHENTICATE'') (digest_uri env c) (dc_secret s) (dc_nonce s) (dc_cnonce s) (dc_nc s)"
  by (simp_all add: digest_output_def map_value_def)

lemma auth_single: "split_on comma (ascii ''auth'') = [ascii ''auth'']"
  by (rule split_on_single) (simp add: ascii_def)

definition digest_server :: "bytes \<Rightarrow> qstring \<Rightarrow> qstring \<Rightarrow> QXmppSaslServerDigestMd5" where
  "digest_server gs realm pw = (new_ServerDigestMd5 gs)\<lparr>s_realm := realm, s_password := pw\<rparr>"

lemma digest_exchange:
  fixes env c gc gs realm cr
  defines "client0 \<equiv> new_DigestMd5 gc cr" and "server0 \<equiv> digest_server gs realm (password cr)"
  assumes "\<And>t. of_utf8 env (utf8 env t) = t" and "utf8 env [] = []" and "password cr \<noteq> []"
    and "digest_value_ok gc" and "digest_value_ok gs" and "digest_value_ok (utf8 env realm)"
    and "digest_value_ok (utf8 env (c_username c))" and "digest_value_ok (digest_uri env c)"
    and "\<And>x. digest_value_ok (toHex env x)"
  shows "\<exists>m1 m2 m3 client1 client2 client3 server1 server2 server3.
    digest_server_respond env [] server0 = (Challenge, Some m1, server1) \<and>
    digest_respond env c [] client0 = (Some [], client1) \<and>
    digest_respond env c m1 client1 = (Some m2, client2) \<and>
    digest_server_respond env m2 server1 = (Challenge, Some m3, server2) \<and>
    digest_respond env c m3 client2 = (Some [], client3) \<and>
    digest_server_respond env [] server2 = (Succeeded, Some [], server3) \<and> s_username server3 = c_username c"
proof -
  define r where "r = (if realm \<noteq> [] then utf8 env realm else [])"
  have r: "utf8 env realm = r" by (simp add: r_def assms(4))
  define server1 where "server1 = server0\<lparr>s_step := 1\<rparr>"
  define secret where "secret = digest_secret env (c_username c) r (password cr)"
  define client2 where "client2 = client0\<lparr>dc_step := 2, dc_nonce := gs, dc_secret := secret\<rparr>"
  define m1 where "m1 = serializeMessage (server_challenge env server0)"
  define m2 where "m2 = serializeMessage (digest_output env c r client2)"
  define rspauth where "rspauth = digest env [] (digest_uri env c) secret gs gc (ascii ''00000001'')"
  define server2 where "server2 = server1\<lparr>s_step := 2, s_username := c_username c, sd_nc := ascii ''00000001'',
      sd_cnonce := gc, sd_secret := secret\<rparr>"
  have client_fields: "dc_nonce client2 = gs" "dc_cnonce client2 = gc" "dc_nc client2 = ascii ''00000001''"
      "dc_secret client2 = secret"
    by (simp_all add: client2_def client0_def new_DigestMd5_def)
  have server_fields: "sd_nonce server0 = gs" "s_realm server0 = realm" "s_password server0 = password cr" "s_step server0 = 0"
    by (simp_all add: server0_def digest_server_def new_ServerDigestMd5_def)
  have p1: "parseMessage m1 = server_challenge env server0"
    unfolding m1_def by (rule parse_server_challenge) (simp_all only: server_fields assms(7,8))
  have p2: "parseMessage m2 = digest_output env c r client2"
    unfolding m2_def using assms(6-11) r by (intro parse_digest_output) (simp_all add: client_fields keys_ok)
  have p3: "parseMessage (serializeMessage [(ascii ''rspauth'', rspauth)]) = [(ascii ''rspauth'', rspauth)]"
    using wf_digest_insert [of "[]" "ascii ''rspauth''" rspauth] assms(11)
    by (intro parse_serialize) (simp add: keys_ok rspauth_def digest_def calculateDigest_def Let_def)
  have "digest_server_respond env [] server0 = (Challenge, Some m1, server1)"
    by (simp add: digest_server_respond_def server_fields m1_def server_challenge_def server1_def Let_def)
  moreover have "digest_respond env c [] client0 = (Some [], client0\<lparr>dc_step := 1\<rparr>)"
    by (simp add: digest_respond_def client0_def new_DigestMd5_def)
  moreover have "digest_respond env c m1 (client0\<lparr>dc_step := 1\<rparr>) = (Some m2, client2)"
    by (simp add: digest_respond_def p1 server_challenge_values Let_def auth_single server_fields m2_def client2_def
        secret_def client0_def new_DigestMd5_def digest_output_def r_def)
  moreover have "digest_server_respond env m2 server1 = (Challenge, Some (serializeMessage [(ascii ''rspauth'', rspauth)]), server2)"
    by (simp add: digest_server_respond_def server1_def p2 digest_output_values Let_def assms(3,5) server_fields client_fields
        rspauth_def server2_def secret_def)
  moreover have "digest_respond env c (serializeMessage [(ascii ''rspauth'', rspauth)]) client2 =
      (Some [], client2\<lparr>dc_step := 3\<rparr>)"
    unfolding digest_respond_def p3
    by (simp add: map_value_def client_fields rspauth_def Let_def) (simp add: client2_def)
  moreover have "digest_server_respond env [] server2 = (Succeeded, Some [], server2\<lparr>s_step := 3\<rparr>)"
    by (simp add: digest_server_respond_def server2_def)
  moreover have "s_username (server2\<lparr>s_step := 3\<rparr>) = c_username c" by (simp add: server2_def)
  ultimately show ?thesis by blast
qed

fun run_server :: "sasl_env \<Rightarrow> QXmppSaslServerDigestMd5 \<Rightarrow> bytes list \<Rightarrow> server_response list" where
  "run_server env s [] = []"
| "run_server env s (req # reqs) = (case digest_server_respond env req s of (r, _, s') \<Rightarrow> r # run_server env s' reqs)"

definition request_valid :: "sasl_env \<Rightarrow> QXmppSaslServerDigestMd5 \<Rightarrow> bytes \<Rightarrow> bool" where
  "request_valid env s request \<longleftrightarrow>
     (let input = parseMessage request; get = (\<lambda>k. map_value input (ascii k) []);
          user = of_utf8 env (get ''username'');
          secret = (if s_password s \<noteq> [] then digest_secret env user (get ''realm'') (s_password s) else s_passwordDigest s)
      in get ''response'' = digest env (ascii ''AUTHENTICATE'') (get ''digest-uri'') secret (sd_nonce s)
           (get ''cnonce'') (get ''nc''))"

lemma request_valid_cong:
  "s_password s' = s_password s \<Longrightarrow> s_passwordDigest s' = s_passwordDigest s \<Longrightarrow> sd_nonce s' = sd_nonce s \<Longrightarrow>
   request_valid env s' req = request_valid env s req"
  by (simp add: request_valid_def)

lemma digest_server_step:
  assumes "digest_server_respond env req s = (r, out, s')" and "s_step s \<le> 1"
  shows "r \<noteq> Succeeded" and "s_step s' \<le> 1 \<or> request_valid env s req"
    and "s_password s' = s_password s" "s_passwordDigest s' = s_passwordDigest s" "sd_nonce s' = sd_nonce s"
proof -
  have zero: "s_step s = 0 \<Longrightarrow> r \<noteq> Succeeded \<and> s_step s' \<le> 1 \<and> s_password s' = s_password s \<and>
      s_passwordDigest s' = s_passwordDigest s \<and> sd_nonce s' = sd_nonce s"
    using assms(1) by (auto simp: digest_server_respond_def Let_def)
  have one: "case digest_server_respond env req s of (r, out, s') \<Rightarrow> r \<noteq> Succeeded \<and> (s_step s' = 1 \<or> request_valid env s req) \<and>
      s_password s' = s_password s \<and> s_passwordDigest s' = s_passwordDigest s \<and> sd_nonce s' = sd_nonce s"
    if "s_step s = 1"
    unfolding digest_server_respond_def request_valid_def Let_def by (simp only: that) (simp add: that)
  have one': "s_step s = 1 \<Longrightarrow> r \<noteq> Succeeded \<and> (s_step s' \<le> 1 \<or> request_valid env s req) \<and>
      s_password s' = s_password s \<and> s_passwordDigest s' = s_passwordDigest s \<and> sd_nonce s' = sd_nonce s"
    using one unfolding assms(1) by auto
  have "r \<noteq> Succeeded \<and> (s_step s' \<le> 1 \<or> request_valid env s req) \<and>
      s_password s' = s_password s \<and> s_passwordDigest s' = s_passwordDigest s \<and> sd_nonce s' = sd_nonce s"
  proof (cases "s_step s = 0")
    case True
    then show ?thesis using zero by simp
  next
    case False
    then have "s_step s = 1" using assms(2) by linarith
    then show ?thesis by (rule one')
  qed
  then show "r \<noteq> Succeeded" "s_step s' \<le> 1 \<or> request_valid env s req"
      "s_password s' = s_password s" "s_passwordDigest s' = s_passwordDigest s" "sd_nonce s' = sd_nonce s"
    by blast+
qed

lemma run_server_sound:
  "Succeeded \<in> set (run_server env s reqs) \<Longrightarrow> s_step s \<le> 1 \<Longrightarrow> \<exists>req \<in> set reqs. request_valid env s req"
proof (induction reqs arbitrary: s)
  case (Cons req reqs)
  obtain r out s' where step: "digest_server_respond env req s = (r, out, s')" by (cases "digest_server_respond env req s")
  note facts = digest_server_step [OF step Cons.prems(2)]
  show ?case
  proof (cases "request_valid env s req")
    case False
    then have "\<exists>req \<in> set reqs. request_valid env s' req"
      using Cons.IH [of s'] Cons.prems(1) facts(1,2) by (simp add: step)
    then show ?thesis unfolding request_valid_cong [OF facts(3-5)] by simp
  qed simp
qed simp

section \<open>Properties of DIGEST-MD5\<close>

text \<open>
  C17.  A client and a server for DIGEST-MD5 that have the same password authenticate each other:
  the server accepts the client's digest, takes over its user name and succeeds, and the
  client accepts the server's answer.  The names and nonces must not end in a backslash, and the
  server must have a password.
\<close>

theorem digest_exchange_succeeds:
  fixes env c gc gs realm cr
  defines "client0 \<equiv> new_DigestMd5 gc cr" and "server0 \<equiv> digest_server gs realm (password cr)"
  assumes "\<And>t. of_utf8 env (utf8 env t) = t" and "utf8 env [] = []" and "password cr \<noteq> []"
    and "digest_value_ok gc" and "digest_value_ok gs" and "digest_value_ok (utf8 env realm)"
    and "digest_value_ok (utf8 env (c_username c))" and "digest_value_ok (digest_uri env c)"
    and "\<And>x. digest_value_ok (toHex env x)"
  shows "\<exists>m1 m2 m3 client1 client2 client3 server1 server2 server3.
    digest_server_respond env [] server0 = (Challenge, Some m1, server1) \<and>
    digest_respond env c [] client0 = (Some [], client1) \<and>
    digest_respond env c m1 client1 = (Some m2, client2) \<and>
    digest_server_respond env m2 server1 = (Challenge, Some m3, server2) \<and>
    digest_respond env c m3 client2 = (Some [], client3) \<and>
    digest_server_respond env [] server2 = (Succeeded, Some [], server3) \<and> s_username server3 = c_username c"
  unfolding client0_def server0_def using assms(3-11) by (rule digest_exchange)

lemma example_hex: "digest_value_ok (toHex example_env x)"
proof -
  have "b OR 1 \<noteq> backslash" for b :: byte
  proof
    assume "b OR 1 = backslash"
    then have "bit (b OR 1) 0 = bit backslash 0" by simp
    then show False by (simp add: bit_simps)
  qed
  then have "backslash \<notin> set (odd_pairs x)" by (auto simp: odd_pairs_def)
  then have "odd_pairs x = [] \<or> last (odd_pairs x) \<noteq> backslash" by (metis last_in_set)
  then show ?thesis by (simp add: example_env_def digest_value_ok_def)
qed

lemma example_digest_facts:
  "utf8 example_env [] = []" "password example_credentials \<noteq> []" "digest_value_ok [7]" "digest_value_ok [9]"
  "digest_value_ok (utf8 example_env ''r'')" "digest_value_ok (utf8 example_env (c_username example_params))"
  "digest_value_ok (digest_uri example_env example_params)"
  by (simp_all add: example_credentials_def password_config_def example_env_def ascii_def digest_value_ok_def
      example_params_def digest_uri_def)

theorem digest_exchange_succeeds_witness:
  "\<exists>m1 server1 m2 client1 client2.
    digest_server_respond example_env [] (digest_server [9] ''r'' (password example_credentials)) = (Challenge, Some m1, server1) \<and>
    digest_respond example_env example_params [] (new_DigestMd5 [7] example_credentials) = (Some [], client1) \<and>
    digest_respond example_env example_params m1 client1 = (Some m2, client2)"
  using digest_exchange_succeeds [OF example_env_laws(4) example_digest_facts example_hex] by blast

text \<open>
  C18.  A server for DIGEST-MD5 lets nobody in without the password: whatever a client sends, if
  the server ever succeeds then one of the requests carried the digest of the server's own nonce
  with the secret of the password (resp. the stored digest of it).
\<close>

theorem digest_server_sound:
  assumes "Succeeded \<in> set (run_server env s reqs)" and "s_step s = 0"
  shows "\<exists>req \<in> set reqs. request_valid env s req"
  using run_server_sound [OF assms(1)] assms(2) by simp

theorem digest_server_sound_witness:
  "\<exists>reqs. \<exists>req \<in> set reqs. request_valid example_env (digest_server [9] ''r'' (password example_credentials)) req"
proof -
  obtain m1 m2 m3 server1 server2 server3 where
    "digest_server_respond example_env [] (digest_server [9] ''r'' (password example_credentials)) = (Challenge, Some m1, server1)"
    "digest_server_respond example_env m2 server1 = (Challenge, Some m3, server2)"
    "digest_server_respond example_env [] server2 = (Succeeded, Some [], server3)"
    using digest_exchange [OF example_env_laws(4) example_digest_facts example_hex] by blast
  then have "Succeeded \<in> set (run_server example_env (digest_server [9] ''r'' (password example_credentials)) [[], m2, []])"
    by simp
  moreover have "s_step (digest_server [9] ''r'' (password example_credentials)) = 0"
    by (simp add: digest_server_def new_ServerDigestMd5_def)
  ultimately show ?thesis using digest_server_sound by blast
qed

end
