(* ===== verification/SaslManager.thy ===== *)
theory SaslManager
  imports SaslRoundtrip SaslExchange
begin

text \<open>
  The managers that run an authentication over the stream, from
  \<^verbatim>\<open>src/client/QXmppSaslManager.cpp\<close>: \<^verbatim>\<open>SaslManager\<close> for SASL, \<^verbatim>\<open>Sasl2Manager\<close> for
  SASL 2 and \<^verbatim>\<open>FastTokenManager\<close> for the tokens of FAST.

  The socket is the list of the elements that were sent.  A task that the caller holds is the
  list of the results it was finished with: an authentication that fails at once finishes it at
  once, otherwise the promise stays open until an element finishes it.
\<close>

section \<open>Errors\<close>

datatype AuthenticationError_Type = AuthNotAuthorized | AuthAccountDisabled | AuthCredentialsExpired
  | AuthEncryptionRequired | AuthMechanismMismatch | AuthProcessingError | AuthRequiredTasks

datatype error_details = NoDetails | SaslDetails Sasl_Failure | Sasl2Details Sasl2_Failure | ContinueDetails Sasl2_Continue

record AuthError =
  ae_message :: qstring
  ae_type :: AuthenticationError_Type
  ae_text :: qstring
  ae_details :: error_details

datatype HandleElementResult = Accepted | Rejected | Finished

type_synonym 'a auth_result = "AuthError + 'a"

definition mapSaslCondition :: "ErrorCondition option \<Rightarrow> AuthenticationError_Type" where
  "mapSaslCondition condition =
     (case (case condition of None \<Rightarrow> SaslNotAuthorized | Some c \<Rightarrow> c) of
        AccountDisabled \<Rightarrow> AuthAccountDisabled
      | CredentialsExpired \<Rightarrow> AuthCredentialsExpired
      | EncryptionRequired \<Rightarrow> AuthEncryptionRequired
      | IncorrectEncoding \<Rightarrow> AuthProcessingError
      | InvalidAuthzid \<Rightarrow> AuthProcessingError
      | InvalidMechanism \<Rightarrow> AuthProcessingError
      | MalformedRequest \<Rightarrow> AuthProcessingError
      | MechanismTooWeak \<Rightarrow> AuthProcessingError
      | Aborted \<Rightarrow> AuthNotAuthorized
      | SaslNotAuthorized \<Rightarrow> AuthNotAuthorized
      | TemporaryAuthFailure \<Rightarrow> AuthNotAuthorized)"

definition local_error :: "qstring \<Rightarrow> AuthenticationError_Type \<Rightarrow> AuthError" where
  "local_error text t = \<lparr>ae_message = text, ae_type = t, ae_text = [], ae_details = NoDetails\<rparr>"

section \<open>The first message\<close>

fun join_comma :: "qstring list \<Rightarrow> qstring" where
  "join_comma [] = []"
| "join_comma [x] = x"
| "join_comma (x # y # ys) = x @ '', '' @ join_comma (y # ys)"

definition config_params :: "sasl_config \<Rightarrow> client_params" where
  "config_params config = \<lparr>c_host = cfg_domain config, c_serviceType = ''xmpp'', c_username = cfg_user config\<rparr>"

text \<open>
  A client exists for every mechanism, so that the error of a failed creation cannot occur.
  \<^term>\<open>generated\<close> is the nonce the new client draws.
\<close>

definition initSaslAuthentication :: "sasl_env \<Rightarrow> bytes \<Rightarrow> sasl_config \<Rightarrow> qstring list \<Rightarrow> (QXmppSaslClient \<times> bytes) auth_result" where
  "initSaslAuthentication env generated config availableMechanisms =
     (let (mechanism, disabled) = chooseMechanism config availableMechanisms
      in case mechanism of
           None \<Rightarrow> Inl (local_error
             (if disabled = [] then ''No supported SASL mechanism available''
              else ''No supported SASL mechanism available ('' @ join_comma disabled @ '' is disabled)'')
             AuthMechanismMismatch)
         | Some m \<Rightarrow>
             (case client_respond env (config_params config) [] (create_client env generated m (credentialData config)) of
                (Some response, saslClient) \<Rightarrow> Inr (saslClient, response)
              | (None, _) \<Rightarrow> Inl (local_error ''SASL initial response failed'' AuthProcessingError)))"

section \<open>SASL\<close>

record SaslManager =
  sm_sent :: "dom list"
  sm_saslClient :: "QXmppSaslClient option"
  sm_promise :: bool
  sm_results :: "unit auth_result list"

definition new_SaslManager :: SaslManager where
  "new_SaslManager = \<lparr>sm_sent = [], sm_saslClient = None, sm_promise = False, sm_results = []\<rparr>"

definition sasl_authenticate :: "sasl_env \<Rightarrow> nonza_env \<Rightarrow> bytes \<Rightarrow> sasl_config \<Rightarrow> qstring list \<Rightarrow> SaslManager \<Rightarrow> SaslManager" where
  "sasl_authenticate env e generated config availableMechanisms st =
     (case initSaslAuthentication env generated config availableMechanisms of
        Inl err \<Rightarrow> st\<lparr>sm_results := sm_results st @ [Inl err]\<rparr>
      | Inr (saslClient, initial) \<Rightarrow> st\<lparr>
          sm_sent := sm_sent st @ [written (Sasl_Auth_toXml e
            \<lparr>auth_mechanism = SaslMechanism_toString (client_mechanism saslClient), auth_value = initial\<rparr>)],
          sm_promise := True, sm_saslClient := Some saslClient\<rparr>)"

definition sasl_finish :: "unit auth_result \<Rightarrow> SaslManager \<Rightarrow> SaslManager" where
  "sasl_finish v st = st\<lparr>sm_promise := False, sm_results := sm_results st @ [v]\<rparr>"

definition sasl_failure_error :: "Sasl_Failure \<Rightarrow> AuthError" where
  "sasl_failure_error failure =
     (let text = (if failure_text failure = []
                  then enum_toString ErrorCondition_Values (case failure_condition failure of None \<Rightarrow> SaslNotAuthorized | Some c \<Rightarrow> c)
                  else failure_text failure)
      in \<lparr>ae_message = ''Authentication failed: '' @ text, ae_type = mapSaslCondition (failure_condition failure),
          ae_text = failure_text failure, ae_details = SaslDetails failure\<rparr>)"

text \<open>The parameters \<^term>\<open>c\<close> are what the client was told by \<^const>\<open>initSaslAuthentication\<close>.\<close>

definition sasl_handleElement :: "sasl_env \<Rightarrow> nonza_env \<Rightarrow> client_params \<Rightarrow> dom \<Rightarrow> SaslManager \<Rightarrow> HandleElementResult \<times> SaslManager" where
  "sasl_handleElement env e c el st =
     (if \<not> sm_promise st then (Rejected, st)
      else if Sasl_Success_fromDom el \<noteq> None then (Finished, sasl_finish (Inr ()) st)
      else case Sasl_Challenge_fromDom e el of
        Some challenge \<Rightarrow>
          (case sm_saslClient st of
             None \<Rightarrow> (Rejected, st)
           | Some client \<Rightarrow>
               (case client_respond env c challenge client of
                  (Some response, client') \<Rightarrow>
                    (Accepted, st\<lparr>sm_saslClient := Some client', sm_sent := sm_sent st @ [written (Sasl_Response_toXml e response)]\<rparr>)
                | (None, client') \<Rightarrow>
                    (Finished, sasl_finish (Inl (local_error ''Could not respond to SASL challenge'' AuthProcessingError))
                                 (st\<lparr>sm_saslClient := Some client'\<rparr>))))
      | None \<Rightarrow>
          (case Sasl_Failure_fromDom el of
             Some failure \<Rightarrow> (Finished, sasl_finish (Inl (sasl_failure_error failure)) st)
           | None \<Rightarrow> (Rejected, st)))"

section \<open>SASL 2\<close>

record QXmppConfiguration =
  authConfig :: sasl_config
  useFastTokenAuthentication :: bool
  sasl2UserAgent :: "Sasl2_UserAgent option"

definition isFastEnabled :: "QXmppConfiguration \<Rightarrow> bool" where
  "isFastEnabled config \<longleftrightarrow> useFastTokenAuthentication config \<and> sasl2UserAgent config \<noteq> None"

record Sasl2State =
  s2_sasl :: QXmppSaslClient
  s2_unsupportedContinue :: "Sasl2_Continue option"

record Sasl2Manager =
  s2_sent :: "dom list"
  s2_state :: "Sasl2State option"
  s2_results :: "Sasl2_Success auth_result list"

definition new_Sasl2Manager :: Sasl2Manager where
  "new_Sasl2Manager = \<lparr>s2_sent = [], s2_state = None, s2_results = []\<rparr>"

text \<open>The request that is sent, or the error the task is finished with.\<close>

definition sasl2_request :: "sasl_env \<Rightarrow> bytes \<Rightarrow> Sasl2_Authenticate \<Rightarrow> QXmppConfiguration \<Rightarrow> Sasl2_StreamFeature \<Rightarrow>
    (Sasl2_Authenticate \<times> QXmppSaslClient) auth_result" where
  "sasl2_request env generated auth config feature =
     (let fast = (if isFastEnabled config then sf_fast feature else None);
          mechanisms = sf_mechanisms feature @ (case fast of None \<Rightarrow> [] | Some f \<Rightarrow> fast_mechanisms f)
      in case initSaslAuthentication env generated (authConfig config) mechanisms of
           Inl err \<Rightarrow> Inl err
         | Inr (saslClient, initial) \<Rightarrow>
             let mechanism = SaslMechanism_toString (client_mechanism saslClient);
                 a = auth\<lparr>authenticate_mechanism := mechanism, initialResponse := initial,
                   auth_fast := (case fast of None \<Rightarrow> auth_fast auth
                     | Some f \<Rightarrow> if mechanism \<in> set (fast_mechanisms f) then Some \<lparr>fast_count = None, fast_invalidate = False\<rparr>
                                 else auth_fast auth)\<rparr>
             in case sasl2UserAgent config of
                  None \<Rightarrow> Inr (a, saslClient)
                | Some agent \<Rightarrow>
                    if ua_id agent = 0
                    then Inl (local_error ''Invalid user-agent: device ID must be set.'' AuthProcessingError)
                    else Inr (a\<lparr>userAgent := Some agent\<rparr>, saslClient))"

definition sasl2_authenticate :: "sasl_env \<Rightarrow> nonza_env \<Rightarrow> bytes \<Rightarrow> Sasl2_Authenticate \<Rightarrow> QXmppConfiguration \<Rightarrow> Sasl2_StreamFeature \<Rightarrow>
    Sasl2Manager \<Rightarrow> Sasl2Manager" where
  "sasl2_authenticate env e generated auth config feature st =
     (case sasl2_request env generated auth config feature of
        Inl err \<Rightarrow> st\<lparr>s2_results := s2_results st @ [Inl err]\<rparr>
      | Inr (a, saslClient) \<Rightarrow> st\<lparr>s2_sent := s2_sent st @ [written (Sasl2_Authenticate_toXml e a)],
          s2_state := Some \<lparr>s2_sasl = saslClient, s2_unsupportedContinue = None\<rparr>\<rparr>)"

definition sasl2_finish :: "Sasl2_Success auth_result \<Rightarrow> Sasl2Manager \<Rightarrow> Sasl2Manager" where
  "sasl2_finish v st = st\<lparr>s2_state := None, s2_results := s2_results st @ [v]\<rparr>"

definition sasl2_failure_error :: "Sasl2_Continue option \<Rightarrow> Sasl2_Failure \<Rightarrow> AuthError" where
  "sasl2_failure_error unsupported failure =
     (case (if sasl2_condition failure = Aborted then unsupported else None) of
        Some c \<Rightarrow> \<lparr>ae_message = ''Required authentication tasks not supported.'', ae_type = AuthRequiredTasks,
                  ae_text = continue_text c, ae_details = ContinueDetails c\<rparr>
      | None \<Rightarrow> \<lparr>ae_message = ''Authentication failed: '' @
                    (if sasl2_text failure = [] then enum_toString ErrorCondition_Values (sasl2_condition failure) else sasl2_text failure),
                 ae_type = mapSaslCondition (Some (sasl2_condition failure)), ae_text = sasl2_text failure,
                 ae_details = Sasl2Details failure\<rparr>)"

definition sasl2_handleElement :: "sasl_env \<Rightarrow> nonza_env \<Rightarrow> client_params \<Rightarrow> dom \<Rightarrow> Sasl2Manager \<Rightarrow> HandleElementResult \<times> Sasl2Manager" where
  "sasl2_handleElement env e c el st =
     (case s2_state st of
        None \<Rightarrow> (Rejected, st)
      | Some state \<Rightarrow>
          (case Sasl2_Challenge_fromDom e el of
             Some challenge \<Rightarrow>
               (case client_respond env c challenge (s2_sasl state) of
                  (Some response, client') \<Rightarrow>
                    (Accepted, st\<lparr>s2_state := Some (state\<lparr>s2_sasl := client'\<rparr>),
                                  s2_sent := s2_sent st @ [written (Sasl2_Response_toXml e response)]\<rparr>)
                | (None, client') \<Rightarrow>
                    (Finished, sasl2_finish (Inl (local_error ''Could not respond to SASL challenge'' AuthProcessingError)) st))
           | None \<Rightarrow>
               (case Sasl2_Success_fromDom e el of
                  Some success \<Rightarrow> (Finished, sasl2_finish (Inr success) st)
                | None \<Rightarrow>
                    (case Sasl2_Failure_fromDom el of
                       Some failure \<Rightarrow> (Finished, sasl2_finish (Inl (sasl2_failure_error (s2_unsupportedContinue state) failure)) st)
                     | None \<Rightarrow>
                         (case Sasl2_Continue_fromDom e el of
                            Some cont \<Rightarrow> (Accepted, st\<lparr>s2_state := Some (state\<lparr>s2_unsupportedContinue := Some cont\<rparr>),
                              s2_sent := s2_sent st @ [written (Sasl2_Abort_toXml ''SASL 2 tasks are not supported.'')]\<rparr>)
                          | None \<Rightarrow> (Rejected, st))))))"

section \<open>Tokens\<close>

record FastTokenManager =
  ft_config :: QXmppConfiguration
  requestedMechanism :: "SaslHtMechanism option"
  tokenChanged :: bool

definition hasToken :: "FastTokenManager \<Rightarrow> bool" where
  "hasToken st \<longleftrightarrow> htToken (credentialData (authConfig (ft_config st))) \<noteq> None"

text \<open>Without channel binding the mechanisms compare by their hash algorithm.\<close>

definition selectMechanism :: "qstring list \<Rightarrow> SaslHtMechanism option" where
  "selectMechanism availableMechanisms =
     (case filter (\<lambda>m. channelBindingType m = NoBinding) (List.map_filter SaslHtMechanism_fromString availableMechanisms) of
        [] \<Rightarrow> None
      | m # ms \<Rightarrow> Some (fold (\<lambda>x b. if enum_rank IanaHashAlgorithm_Values (hashAlgorithm b) <
                                     enum_rank IanaHashAlgorithm_Values (hashAlgorithm x) then x else b) ms m))"

definition onSasl2Authenticate :: "Sasl2_Authenticate \<Rightarrow> Sasl2_StreamFeature \<Rightarrow> FastTokenManager \<Rightarrow> Sasl2_Authenticate \<times> FastTokenManager" where
  "onSasl2Authenticate auth feature st0 =
     (let st = st0\<lparr>requestedMechanism := None, tokenChanged := False\<rparr>
      in case sf_fast feature of
           None \<Rightarrow> (auth, st)
         | Some f \<Rightarrow>
             if isFastEnabled (ft_config st) \<and> \<not> hasToken st
             then (case selectMechanism (fast_mechanisms f) of
                     None \<Rightarrow> (auth, st)
                   | Some mechanism \<Rightarrow> (auth\<lparr>tokenRequest := Some (SaslHtMechanism_toString mechanism)\<rparr>,
                                        st\<lparr>requestedMechanism := Some mechanism\<rparr>))
             else (auth, st))"

definition set_token :: "HtToken \<Rightarrow> QXmppConfiguration \<Rightarrow> QXmppConfiguration" where
  "set_token t config = config\<lparr>authConfig := (authConfig config)\<lparr>credentialData :=
     (credentialData (authConfig config))\<lparr>htToken := Some t\<rparr>\<rparr>\<rparr>"

definition onSasl2Success :: "Sasl2_Success \<Rightarrow> FastTokenManager \<Rightarrow> FastTokenManager" where
  "onSasl2Success success st =
     (let old = htToken (credentialData (authConfig (ft_config st)))
      in case (success_token success,
               case requestedMechanism st of Some m \<Rightarrow> Some m | None \<Rightarrow> map_option ht_mechanism old) of
           (Some token, Some mechanism) \<Rightarrow>
             st\<lparr>ft_config := set_token \<lparr>ht_mechanism = mechanism, ht_secret = token_token token, ht_expiry = token_expiry token\<rparr> (ft_config st),
                tokenChanged := True\<rparr>
         | _ \<Rightarrow> st)"

section \<open>The interface of the managers\<close>

text \<open>
  The connection starts an authentication when none is open and offers every received element
  to the manager.  A run also counts the authentications that were started.
\<close>

datatype ('a, 'el) auth_event = Start 'a | Receive 'el

fun run_manager :: "('a \<Rightarrow> 's \<Rightarrow> 's) \<Rightarrow> ('el \<Rightarrow> 's \<Rightarrow> HandleElementResult \<times> 's) \<Rightarrow> ('s \<Rightarrow> bool) \<Rightarrow> ('a, 'el) auth_event list \<Rightarrow> 's \<times> nat \<Rightarrow> 's \<times> nat" where
  "run_manager start handle is_open [] (st, n) = (st, n)"
| "run_manager start handle is_open (Start a # evs) (st, n) =
     run_manager start handle is_open evs (if is_open st then (st, n) else (start a st, Suc n))"
| "run_manager start handle is_open (Receive el # evs) (st, n) =
     run_manager start handle is_open evs (snd (handle el st), n)"

locale auth_manager =
  fixes start :: "'a \<Rightarrow> 's \<Rightarrow> 's" and handle :: "'el \<Rightarrow> 's \<Rightarrow> HandleElementResult \<times> 's"
    and is_open :: "'s \<Rightarrow> bool" and finished :: "'s \<Rightarrow> nat" and fresh :: 's
  assumes fresh: "\<not> is_open fresh" "finished fresh = 0"
    and start: "\<not> is_open st \<Longrightarrow> finished (start a st) + of_bool (is_open (start a st)) = Suc (finished st)"
    and idle: "\<not> is_open st \<Longrightarrow> handle el st = (Rejected, st)"
    and busy: "is_open st \<Longrightarrow> finished (snd (handle el st)) + of_bool (is_open (snd (handle el st))) = Suc (finished st)"
begin

lemma kept: "finished (snd (handle el st)) + of_bool (is_open (snd (handle el st))) = finished st + of_bool (is_open st)"
  using idle [of st el] busy [of st el] by (cases "is_open st") simp_all

lemma run_once:
  "finished (fst s) + of_bool (is_open (fst s)) = snd s \<Longrightarrow>
   (case run_manager start handle is_open evs s of (st, n) \<Rightarrow> finished st + of_bool (is_open st) = n)"
proof (induction evs arbitrary: s)
  case Nil
  then show ?case by (cases s) simp
next
  case (Cons ev evs)
  obtain st n where s: "s = (st, n)" by force
  show ?case
  proof (cases ev)
    case (Start a)
    then show ?thesis
      using Cons.IH [of "(st, n)"] Cons.IH [of "(start a st, Suc n)"] Cons.prems start [of st a] by (cases "is_open st") (simp_all add: s)
  next
    case (Receive el)
    then show ?thesis using Cons.IH [of "(snd (handle el st), n)"] Cons.prems kept [of el st] by (simp add: s)
  qed
qed

lemma finished_once:
  "run_manager start handle is_open evs (fresh, 0) = (st, n) \<Longrightarrow> finished st + of_bool (is_open st) = n"
  using run_once [of "(fresh, 0)" evs] fresh by simp

end

interpretation sasl: auth_manager "\<lambda>(generated, offered). sasl_authenticate env e generated config offered"
    "sasl_handleElement env e (config_params config)" sm_promise "\<lambda>st. length (sm_results st)" new_SaslManager
  for env :: sasl_env and e :: nonza_env and config :: sasl_config
proof unfold_locales
  fix st :: SaslManager and a :: "bytes \<times> qstring list" and el :: dom
  show "\<not> sm_promise new_SaslManager" "length (sm_results new_SaslManager) = 0" by (simp_all add: new_SaslManager_def)
  show "\<not> sm_promise st \<Longrightarrow> sasl_handleElement env e (config_params config) el st = (Rejected, st)"
    by (simp add: sasl_handleElement_def)
  show "sm_promise st \<Longrightarrow> length (sm_results (snd (sasl_handleElement env e (config_params config) el st))) +
      of_bool (sm_promise (snd (sasl_handleElement env e (config_params config) el st))) = Suc (length (sm_results st))"
    by (auto simp: sasl_handleElement_def sasl_finish_def split: option.split prod.split)
  show "\<not> sm_promise st \<Longrightarrow> length (sm_results ((case a of (generated, offered) \<Rightarrow> sasl_authenticate env e generated config offered) st)) +
      of_bool (sm_promise ((case a of (generated, offered) \<Rightarrow> sasl_authenticate env e generated config offered) st)) =
      Suc (length (sm_results st))"
    by (auto simp: sasl_authenticate_def split: sum.split prod.split)
qed

interpretation sasl2: auth_manager "\<lambda>(generated, auth, feature). sasl2_authenticate env e generated auth config feature"
    "sasl2_handleElement env e (config_params (authConfig config))" "\<lambda>st. s2_state st \<noteq> None" "\<lambda>st. length (s2_results st)" new_Sasl2Manager
  for env :: sasl_env and e :: nonza_env and config :: QXmppConfiguration
proof unfold_locales
  fix st :: Sasl2Manager and a :: "bytes \<times> Sasl2_Authenticate \<times> Sasl2_StreamFeature" and el :: dom
  show "\<not> s2_state new_Sasl2Manager \<noteq> None" "length (s2_results new_Sasl2Manager) = 0" by (simp_all add: new_Sasl2Manager_def)
  show "\<not> s2_state st \<noteq> None \<Longrightarrow> sasl2_handleElement env e (config_params (authConfig config)) el st = (Rejected, st)"
    by (simp add: sasl2_handleElement_def)
  show "s2_state st \<noteq> None \<Longrightarrow> length (s2_results (snd (sasl2_handleElement env e (config_params (authConfig config)) el st))) +
      of_bool (s2_state (snd (sasl2_handleElement env e (config_params (authConfig config)) el st)) \<noteq> None) = Suc (length (s2_results st))"
    by (auto simp: sasl2_handleElement_def sasl2_finish_def split: option.split prod.split)
  show "\<not> s2_state st \<noteq> None \<Longrightarrow>
      length (s2_results ((case a of (generated, auth, feature) \<Rightarrow> sasl2_authenticate env e generated auth config feature) st)) +
      of_bool (s2_state ((case a of (generated, auth, feature) \<Rightarrow> sasl2_authenticate env e generated auth config feature) st) \<noteq> None) =
      Suc (length (s2_results st))"
    by (auto simp: sasl2_authenticate_def split: sum.split prod.split)
qed

section \<open>Lemmas\<close>

lemma client_left_create: "client_left (create_client env g m cr) \<le> 3"
  by (cases m) (simp_all add: left_defs new_Scram_def new_DigestMd5_def)

lemma init_Inr:
  assumes "initSaslAuthentication env g config offered = Inr (cl, r)"
  obtains m where "fst (chooseMechanism config offered) = Some m"
    "client_respond env (config_params config) [] (create_client env g m (credentialData config)) = (Some r, cl)"
proof -
  obtain mo dis where ch: "chooseMechanism config offered = (mo, dis)" by force
  from assms obtain m where m: "mo = Some m" by (cases mo) (simp_all add: initSaslAuthentication_def ch)
  obtain a cl' where r: "client_respond env (config_params config) [] (create_client env g m (credentialData config)) = (a, cl')"
    by force
  with assms have "a = Some r" "cl' = cl" by (cases a; simp add: initSaslAuthentication_def ch m)+
  with that r ch m show thesis by simp
qed

lemma init_left:
  assumes "initSaslAuthentication env g config offered = Inr (cl, r)"
  shows "client_left cl \<le> 2"
proof -
  obtain m where "client_respond env (config_params config) [] (create_client env g m (credentialData config)) = (Some r, cl)"
    using init_Inr [OF assms] by blast
  from client.answer [OF this] client_left_create [of env g m "credentialData config"] show ?thesis by linarith
qed

definition sasl_left :: "SaslManager \<Rightarrow> nat" where
  "sasl_left st = (if sm_promise st then Suc (case sm_saslClient st of None \<Rightarrow> 0 | Some cl \<Rightarrow> client_left cl) else 0)"

definition has_client :: "SaslManager \<Rightarrow> bool" where
  "has_client st \<longleftrightarrow> (sm_promise st \<longrightarrow> sm_saslClient st \<noteq> None)"

lemma challenge_not_success: "Sasl_Challenge_fromDom e el \<noteq> None \<Longrightarrow> Sasl_Success_fromDom el = None"
  by (auto simp: Sasl_Challenge_fromDom_def Sasl_Success_fromDom_def has_tag_def split: if_splits)

lemma challenge_step:
  assumes "Sasl_Challenge_fromDom e el \<noteq> None" and "has_client st"
  shows "has_client (snd (sasl_handleElement env e c el st))"
    "sasl_left (snd (sasl_handleElement env e c el st)) \<le> sasl_left st - 1"
proof -
  obtain ch where ch: "Sasl_Challenge_fromDom e el = Some ch" using assms(1) by blast
  have "has_client (snd (sasl_handleElement env e c el st)) \<and>
      sasl_left (snd (sasl_handleElement env e c el st)) \<le> sasl_left st - 1"
  proof (cases "sm_promise st")
    case True
    then obtain cl where cl: "sm_saslClient st = Some cl" using assms(2) by (auto simp: has_client_def)
    obtain a cl' where r: "client_respond env c ch cl = (a, cl')" by force
    show ?thesis
      using client.answer [of env c ch cl _ cl'] r ch True challenge_not_success [OF assms(1)]
      by (cases a) (auto simp: sasl_handleElement_def has_client_def sasl_left_def sasl_finish_def cl less_Suc_eq_le Suc_le_eq)
  next
    case False
    then show ?thesis using assms(2) by (simp add: sasl_handleElement_def sasl_left_def)
  qed
  then show "has_client (snd (sasl_handleElement env e c el st))"
    "sasl_left (snd (sasl_handleElement env e c el st)) \<le> sasl_left st - 1" by auto
qed

lemma challenges_end:
  "\<forall>el \<in> set els. Sasl_Challenge_fromDom e el \<noteq> None \<Longrightarrow> has_client st \<Longrightarrow> sasl_left st \<le> length els \<Longrightarrow>
   \<not> sm_promise (fold (\<lambda>el s. snd (sasl_handleElement env e c el s)) els st)"
proof (induction els arbitrary: st)
  case Nil
  then show ?case by (auto simp: sasl_left_def split: if_splits)
next
  case (Cons el els)
  have "sasl_left (snd (sasl_handleElement env e c el st)) \<le> length els"
    using challenge_step(2) [of e el st env c] Cons.prems by simp
  then show ?case using Cons challenge_step(1) [of e el st env c] by simp
qed

lemma authenticate_left:
  "\<not> sm_promise st \<Longrightarrow> has_client (sasl_authenticate env e g config offered st) \<and>
     sasl_left (sasl_authenticate env e g config offered st) \<le> 3"
  using init_left [of env g config offered]
  by (auto simp: sasl_authenticate_def has_client_def sasl_left_def numeral_3_eq_3 numeral_2_eq_2 split: sum.split prod.split)

lemma mechanism_of_client [simp]: "client_mechanism (create_client env g m cr) = m"
  by (cases m) (simp_all add: new_Scram_def)

lemma mechanism_kept: "client_respond env c ch cl = (a, cl') \<Longrightarrow> client_mechanism cl' = client_mechanism cl"
  by (cases cl) (auto simp: apsnd_eq scram_respond_def ht_respond_def Let_def split: if_splits option.splits)

lemma init_mechanism:
  assumes "initSaslAuthentication env g config offered = Inr (cl, r)"
  shows "fst (chooseMechanism config offered) = Some (client_mechanism cl)"
  using init_Inr [OF assms] mechanism_kept by (metis mechanism_of_client)

lemma success_not_challenge: "Sasl2_Success_fromDom e el \<noteq> None \<Longrightarrow> Sasl2_Challenge_fromDom e el = None"
  by (auto simp: Sasl2_Success_fromDom_def Sasl2_Challenge_fromDom_def has_tag_def split: if_splits)

lemma failure_not_others: "Sasl2_Failure_fromDom el \<noteq> None \<Longrightarrow> Sasl2_Challenge_fromDom e el = None \<and> Sasl2_Success_fromDom e el = None"
  by (auto simp: Sasl2_Success_fromDom_def Sasl2_Challenge_fromDom_def Sasl2_Failure_fromDom_def has_tag_def split: if_splits)

lemma continue_not_others: "Sasl2_Continue_fromDom e el \<noteq> None \<Longrightarrow>
    Sasl2_Challenge_fromDom e el = None \<and> Sasl2_Success_fromDom e el = None \<and> Sasl2_Failure_fromDom el = None"
  by (auto simp: Sasl2_Success_fromDom_def Sasl2_Challenge_fromDom_def Sasl2_Failure_fromDom_def Sasl2_Continue_fromDom_def
      has_tag_def split: if_splits)

text \<open>A request for further tasks is answered with an abort, and reported when the server confirms it.\<close>

lemma sasl2_continue_reported:
  assumes "s2_state st = Some s" and "Sasl2_Continue_fromDom e el = Some c"
    and "Sasl2_Failure_fromDom el' = Some f" and "sasl2_condition f = Aborted"
  shows "s2_results (snd (sasl2_handleElement env e p el' (snd (sasl2_handleElement env e p el st)))) = s2_results st @
    [Inl \<lparr>ae_message = ''Required authentication tasks not supported.'', ae_type = AuthRequiredTasks,
          ae_text = continue_text c, ae_details = ContinueDetails c\<rparr>]"
  using assms continue_not_others [of e el] failure_not_others [of el' e]
  by (simp add: sasl2_handleElement_def sasl2_finish_def sasl2_failure_error_def)

lemma fold_pick: "fold (\<lambda>x b. if P b x then x else b) ms m \<in> set (m # ms)"
proof (induction ms arbitrary: m)
  case (Cons y ms)
  show ?case using Cons.IH [of "if P m y then y else m"] by (auto split: if_splits)
qed simp

lemma selectMechanism_unbound: "selectMechanism offered = Some m \<Longrightarrow> channelBindingType m = NoBinding"
proof -
  assume sel: "selectMechanism offered = Some m"
  let ?l = "filter (\<lambda>m. channelBindingType m = NoBinding) (List.map_filter SaslHtMechanism_fromString offered)"
  from sel have "m \<in> set ?l"
    unfolding selectMechanism_def
    using fold_pick [of "\<lambda>b x. enum_rank IanaHashAlgorithm_Values (hashAlgorithm b) < enum_rank IanaHashAlgorithm_Values (hashAlgorithm x)"]
    by (cases ?l) auto
  then show ?thesis by simp
qed

lemma token_mechanism_chosen:
  assumes "htToken (credentialData config) = Some t" and "channelBindingType (ht_mechanism t) = NoBinding"
    and "saslAuthMechanism config = []" and "SaslHtMechanism_toString (ht_mechanism t) \<in> set offered"
    and "SaslHtMechanism_toString (ht_mechanism t) \<notin> set (disabledSaslMechanisms config)"
  shows "fst (chooseMechanism config offered) = Some (SaslHtMechanism (ht_mechanism t))"
proof -
  let ?m = "SaslHtMechanism (ht_mechanism t)" and ?ms = "set (usable_mechanisms config offered)"
  have m: "?m \<in> ?ms"
    using assms fromString_toString [of ?m] by (auto simp: usable_mechanisms_iff)
  have "m' \<le> ?m" if "m' \<in> ?ms" for m'
  proof (cases m')
    case (SaslHtMechanism h)
    then show ?thesis using that assms(1) by (simp add: usable_mechanisms_iff)
  next
    case (SaslScramMechanism a)
    then show ?thesis using enum_rank_scram(1) [of a] by (simp add: less_eq_SaslMechanism_def)
  qed (simp_all add: less_eq_SaslMechanism_def)
  then have "Max ?ms = ?m" using m by (intro Max_eqI) auto
  then show ?thesis using m by (auto simp: chooseMechanism_cases Let_def assms(3))
qed

lemma token_first_message:
  assumes "htToken (credentialData config) = Some t" and "channelBindingType (ht_mechanism t) = NoBinding"
    and "fst (chooseMechanism config offered) = Some (SaslHtMechanism (ht_mechanism t))"
  shows "\<exists>cl. initSaslAuthentication env g config offered = Inr (cl, utf8 env (cfg_user config) @ [0] @
    hmac env (ianaHashAlgorithmToQt (hashAlgorithm (ht_mechanism t))) (utf8 env (ht_secret t)) (ascii ''Initiator''))"
  using assms by (cases "chooseMechanism config offered")
    (simp add: initSaslAuthentication_def ht_respond_def config_params_def)

section \<open>Properties\<close>

text \<open>
  C21.  Every authentication is finished exactly once: over any sequence of authentications and
  received elements, the number of results delivered is the number of authentications started,
  less the one that is still open.
\<close>

theorem sasl_finished_once:
  assumes "run_manager (\<lambda>(generated, offered). sasl_authenticate env e generated config offered)
     (sasl_handleElement env e (config_params config)) sm_promise events (new_SaslManager, 0) = (st, n)"
  shows "length (sm_results st) + of_bool (sm_promise st) = n"
  by (rule sasl.finished_once [OF assms])

lemma sasl2_finished_once:
  assumes "run_manager (\<lambda>(generated, auth, feature). sasl2_authenticate env e generated auth config feature)
     (sasl2_handleElement env e (config_params (authConfig config))) (\<lambda>st. s2_state st \<noteq> None) events (new_Sasl2Manager, 0) = (st, n)"
  shows "length (s2_results st) + of_bool (s2_state st \<noteq> None) = n"
  by (rule sasl2.finished_once [OF assms])

text \<open>
  C20.  Challenges cannot keep an authentication open: after the first message the third challenge
  at the latest finishes it, whatever the mechanism.
\<close>

theorem sasl_challenges_end:
  assumes "\<not> sm_promise st" and "\<forall>el \<in> set els. Sasl_Challenge_fromDom e el \<noteq> None" and "3 \<le> length els"
  shows "\<not> sm_promise (fold (\<lambda>el s. snd (sasl_handleElement env e c el s)) els
    (sasl_authenticate env e g config offered st))"
  using challenges_end [OF assms(2), of "sasl_authenticate env e g config offered st" env c]
    authenticate_left [OF assms(1), of env e g config offered] assms(3) by fastforce

text \<open>
  C19.  A token requested for FAST is used: if the client asked for a token with a mechanism and
  the success brought one, then the next authentication, when the server offers that mechanism
  and nothing else is configured, starts with the code of the token under that mechanism.
\<close>

theorem fast_token_used:
  assumes "onSasl2Authenticate auth feature st0 = (a, st1)" and "tokenRequest auth = None" and "tokenRequest a = Some name"
    and "success_token success = Some t" and "saslAuthMechanism (authConfig (ft_config st0)) = []"
    and "name \<in> set offered" and "name \<notin> set (disabledSaslMechanisms (authConfig (ft_config st0)))"
  shows "\<exists>cl m. SaslHtMechanism_toString m = name \<and>
    initSaslAuthentication env g (authConfig (ft_config (onSasl2Success success st1))) offered =
      Inr (cl, utf8 env (cfg_user (authConfig (ft_config st0))) @ [0] @
        hmac env (ianaHashAlgorithmToQt (hashAlgorithm m)) (utf8 env (token_token t)) (ascii ''Initiator''))"
proof -
  obtain f m where m: "sf_fast feature = Some f" "selectMechanism (fast_mechanisms f) = Some m"
    "name = SaslHtMechanism_toString m"
    "st1 = st0\<lparr>requestedMechanism := Some m, tokenChanged := False\<rparr>"
    using assms(1-3) by (auto simp: onSasl2Authenticate_def Let_def split: option.splits if_splits)
  let ?t = "\<lparr>ht_mechanism = m, ht_secret = token_token t, ht_expiry = token_expiry t\<rparr>"
  let ?config = "authConfig (ft_config (onSasl2Success success st1))"
  have cfg: "?config = (authConfig (ft_config st0))\<lparr>credentialData := (credentialData (authConfig (ft_config st0)))\<lparr>htToken := Some ?t\<rparr>\<rparr>"
    by (simp add: onSasl2Success_def assms(4) m(4) set_token_def)
  have "htToken (credentialData ?config) = Some ?t" by (simp add: cfg)
  from token_first_message [OF this _ token_mechanism_chosen [OF this], of offered env g]
  obtain cl where "initSaslAuthentication env g ?config offered = Inr (cl, utf8 env (cfg_user (authConfig (ft_config st0))) @ [0] @
      hmac env (ianaHashAlgorithmToQt (hashAlgorithm m)) (utf8 env (token_token t)) (ascii ''Initiator''))"
    using assms(5-7) m(3) selectMechanism_unbound [OF m(2)] by (auto simp: cfg)
  then show ?thesis using m(3) by blast
qed

definition fast_config :: QXmppConfiguration where
  "fast_config = \<lparr>authConfig = password_config, useFastTokenAuthentication = True,
     sasl2UserAgent = Some \<lparr>ua_id = 1, ua_software = [], ua_device = []\<rparr>\<rparr>"

definition fast_feature :: Sasl2_StreamFeature where
  "fast_feature = \<lparr>sf_mechanisms = [''SCRAM-SHA-1''], bind2Feature = None,
     sf_fast = Some \<lparr>fast_mechanisms = [''HT-SHA-256-NONE''], tls0rtt = False\<rparr>, streamResumptionAvailable = False\<rparr>"

definition empty_authenticate :: Sasl2_Authenticate where
  "empty_authenticate = \<lparr>authenticate_mechanism = [], initialResponse = [], userAgent = None, bindRequest = None,
     auth_smResume = None, tokenRequest = None, auth_fast = None\<rparr>"

definition fast_manager :: FastTokenManager where
  "fast_manager = \<lparr>ft_config = fast_config, requestedMechanism = None, tokenChanged = False\<rparr>"

theorem fast_token_used_witness:
  "\<exists>cl m. SaslHtMechanism_toString m = ''HT-SHA-256-NONE'' \<and>
    initSaslAuthentication example_env [7] (authConfig (ft_config (onSasl2Success example_success
      (snd (onSasl2Authenticate empty_authenticate fast_feature fast_manager))))) [''SCRAM-SHA-1'', ''HT-SHA-256-NONE''] =
    Inr (cl, ascii ''u'' @ [0] @ hmac example_env (ianaHashAlgorithmToQt (hashAlgorithm m)) (ascii ''t'') (ascii ''Initiator''))"
proof -
  have r: "tokenRequest (fst (onSasl2Authenticate empty_authenticate fast_feature fast_manager)) = Some ''HT-SHA-256-NONE''"
    by code_simp
  show ?thesis
    using fast_token_used [of empty_authenticate fast_feature fast_manager _ _ "''HT-SHA-256-NONE''" example_success
        "\<lparr>token_expiry = Some 7, token_token = ''t''\<rparr>" "[''SCRAM-SHA-1'', ''HT-SHA-256-NONE'']" example_env "[7]",
        OF surjective_pairing _ r]
    by (simp add: empty_authenticate_def example_success_def fast_manager_def fast_config_def password_config_def example_env_def)
qed

text \<open>
  The managers do not insist on the server's proof: a SCRAM authentication over SASL 2 is
  reported as successful on any \<^verbatim>\<open>success\<close> element, whatever its additional data, although the
  client has not seen the signature that shows the server knows the password.
\<close>

lemma success_without_server_proof:
  assumes "sasl2_request env g auth config feature = Inr (a, ClientScram s)"
    and "Sasl2_Success_fromDom e el = Some success"
  shows "s2_results (snd (sasl2_handleElement env e c el
    (sasl2_authenticate env e g auth config feature new_Sasl2Manager))) = [Inr success]"
  using assms success_not_challenge [of e el]
  by (simp add: sasl2_authenticate_def sasl2_handleElement_def sasl2_finish_def new_Sasl2Manager_def)

lemma success_without_server_proof_witness:
  "s2_results (snd (sasl2_handleElement example_env example_nonza_env example_params
     (written (Sasl2_Success_toXml example_nonza_env (example_success\<lparr>additionalData := Some [1, 2, 3]\<rparr>)))
     (sasl2_authenticate example_env example_nonza_env [7] empty_authenticate fast_config fast_feature new_Sasl2Manager))) =
   [Inr (example_success\<lparr>additionalData := Some [1, 2, 3]\<rparr>)]"
proof -
  have "case sasl2_request example_env [7] empty_authenticate fast_config fast_feature of
      Inr (a, ClientScram s) \<Rightarrow> True | _ \<Rightarrow> False"
    by code_simp
  then obtain a s where r: "sasl2_request example_env [7] empty_authenticate fast_config fast_feature = Inr (a, ClientScram s)"
    by (auto split: sum.splits prod.splits QXmppSaslClient.splits)
  show ?thesis
    by (rule success_without_server_proof [OF r Sasl2_Success_roundtrip [OF example_nonza_laws]])
      (simp add: success_ok_def example_success_def bound_ok_def)
qed

text \<open>Witnesses of the counting properties.\<close>

theorem sasl_finished_once_witness:
  "length (sm_results (fst (run_manager (\<lambda>(generated, offered). sasl_authenticate example_env example_nonza_env generated password_config offered)
     (sasl_handleElement example_env example_nonza_env (config_params password_config)) sm_promise
     [Start ([7], [''SCRAM-SHA-1'']), Receive (written Sasl_Success_toXml), Start ([7], []), Start ([7], [''SCRAM-SHA-1''])]
     (new_SaslManager, 0)))) = 2"
proof -
  let ?r = "run_manager (\<lambda>(generated, offered). sasl_authenticate example_env example_nonza_env generated password_config offered)
     (sasl_handleElement example_env example_nonza_env (config_params password_config)) sm_promise
     [Start ([7], [''SCRAM-SHA-1'']), Receive (written Sasl_Success_toXml), Start ([7], []), Start ([7], [''SCRAM-SHA-1''])]
     (new_SaslManager, 0)"
  have "snd ?r = 3 \<and> sm_promise (fst ?r)" by code_simp
  moreover have "length (sm_results (fst ?r)) + of_bool (sm_promise (fst ?r)) = snd ?r"
    by (rule sasl_finished_once [OF surjective_pairing])
  ultimately show ?thesis by (simp del: run_manager.simps)
qed

theorem sasl_challenges_end_witness:
  "\<not> sm_promise (fold (\<lambda>el s. snd (sasl_handleElement example_env example_nonza_env (config_params password_config) el s))
     (replicate 3 (written (Sasl_Challenge_toXml example_nonza_env [1])))
     (sasl_authenticate example_env example_nonza_env [7] password_config [''SCRAM-SHA-1''] new_SaslManager))"
  by (rule sasl_challenges_end)
    (simp_all add: new_SaslManager_def Sasl_Challenge_roundtrip [OF example_nonza_laws] del: written_Element)

end
