(* ===== verification/Stanza.thy ===== *)
theory Stanza
  imports SaslRoundtrip
begin

text \<open>
  What all stanzas share, from \<^verbatim>\<open>src/base/QXmppStanza.cpp\<close> and \<^verbatim>\<open>src/base/QXmppIq.cpp\<close>:
  stanza errors, extended addresses, the attributes of a stanza and the generic IQ.

  The texts of dates are a parameter, as in \<^verbatim>\<open>SaslNonzas\<close>.  The maximal file size of an error
  is uninitialised in the code until the element that carries it is read; here it is 0.
\<close>

definition ns_client :: qstring where "ns_client = ''jabber:client''"
definition ns_http_upload :: qstring where "ns_http_upload = ''urn:xmpp:http:upload:0''"
definition ns_extended_addressing :: qstring where "ns_extended_addressing = ''http://jabber.org/protocol/address''"

section \<open>Errors\<close>

datatype ErrorType = NoType | Cancel | Continue | Modify | AuthType | Wait

definition ErrorType_Values :: "(ErrorType \<times> qstring) list" where
  "ErrorType_Values = [(NoType, []), (Cancel, ''cancel''), (Continue, ''continue''), (Modify, ''modify''),
     (AuthType, ''auth''), (Wait, ''wait'')]"

record StanzaError =
  err_code :: int
  err_type :: ErrorType
  err_condition :: Condition
  err_text :: qstring
  err_by :: qstring
  redirectionUri :: qstring
  fileTooLarge :: bool
  maxFileSize :: int
  retryDate :: datetime

definition new_StanzaError :: StanzaError where
  "new_StanzaError = \<lparr>err_code = 0, err_type = NoType, err_condition = NoCondition, err_text = [], err_by = [],
     redirectionUri = [], fileTooLarge = False, maxFileSize = 0, retryDate = None\<rparr>"

text \<open>One round of the loop over the child elements.\<close>

definition StanzaError_child :: "nonza_env \<Rightarrow> dom \<Rightarrow> StanzaError \<Rightarrow> StanzaError" where
  "StanzaError_child e element d =
     (if namespaceURI element = ns_stanza then
        if tagName element = ''text'' then d\<lparr>err_text := dom_text element\<rparr>
        else let c = (case enum_fromString Condition_Values (tagName element) of None \<Rightarrow> NoCondition | Some c \<Rightarrow> c);
                 d1 = d\<lparr>err_condition := c\<rparr>
             in if c = Gone \<or> c = Redirect then d1\<lparr>redirectionUri := dom_text element\<rparr> else d1
      else if namespaceURI element = ns_http_upload then
        if tagName element = ''file-too-large''
        then d\<lparr>fileTooLarge := True, maxFileSize :=
               (case to_signed 64 (child_text element ''max-file-size'' []) of None \<Rightarrow> 0 | Some n \<Rightarrow> n)\<rparr>
        else if tagName element = ''retry'' then d\<lparr>retryDate := datetimeFromString e (attr ''stamp'' element)\<rparr>
        else d
      else d)"

definition StanzaError_parse :: "nonza_env \<Rightarrow> dom \<Rightarrow> StanzaError" where
  "StanzaError_parse e errorElement =
     fold (StanzaError_child e) (iterChildElements errorElement [] [])
       (new_StanzaError\<lparr>
          err_code := (case to_signed 32 (attr ''code'' errorElement) of None \<Rightarrow> 0 | Some n \<Rightarrow> n),
          err_type := (case enum_fromString ErrorType_Values (attr ''type'' errorElement) of None \<Rightarrow> NoType | Some t \<Rightarrow> t),
          err_by := attr ''by'' errorElement\<rparr>)"

definition StanzaError_toXml :: "nonza_env \<Rightarrow> StanzaError \<Rightarrow> item list" where
  "StanzaError_toXml e d =
     (if err_condition d = NoCondition \<and> err_type d = NoType then []
      else [ElementInherit ''error''
        (OptionalAttribute ''by'' (err_by d) @
         OptionalAttribute ''type'' (enum_toString ErrorType_Values (err_type d)) @
         (if err_code d > 0 then [Attribute ''code'' (serializeInt (err_code d))] else []) @
         OptionalContent (err_condition d \<noteq> NoCondition)
           [Element (enum_toString Condition_Values (err_condition d)) ns_stanza
              (OptionalContent (redirectionUri d \<noteq> [] \<and> (err_condition d = Gone \<or> err_condition d = Redirect))
                 [Characters (redirectionUri d)])] @
         OptionalContent (err_text d \<noteq> [])
           [Element ''text'' ns_stanza [Attribute ''xml:lang'' ''en'', Characters (err_text d)]] @
         OptionalContent (fileTooLarge d)
           [Element ''file-too-large'' ns_http_upload [TextElement ''max-file-size'' (serializeInt (maxFileSize d))]] @
         (case retryDate d of None \<Rightarrow> []
          | Some t \<Rightarrow> [Element ''retry'' ns_http_upload [Attribute ''stamp'' (datetimeToString e (Some t))]]))])"

section \<open>Extended addresses\<close>

record QXmppExtendedAddress =
  delivered :: bool
  description :: qstring
  addr_jid :: qstring
  addr_type :: qstring

definition isValid_address :: "QXmppExtendedAddress \<Rightarrow> bool" where
  "isValid_address a \<longleftrightarrow> addr_type a \<noteq> [] \<and> addr_jid a \<noteq> []"

definition ExtendedAddress_parse :: "dom \<Rightarrow> QXmppExtendedAddress" where
  "ExtendedAddress_parse element = \<lparr>delivered = (attr ''delivered'' element = ''true''), description = attr ''desc'' element,
     addr_jid = attr ''jid'' element, addr_type = attr ''type'' element\<rparr>"

definition ExtendedAddress_toXml :: "QXmppExtendedAddress \<Rightarrow> item" where
  "ExtendedAddress_toXml a = ElementInherit ''address''
     (DefaultedBoolAttribute ''delivered'' (delivered a) False @ OptionalAttribute ''desc'' (description a) @
      [Attribute ''jid'' (addr_jid a), Attribute ''type'' (addr_type a)])"

section \<open>Stanzas\<close>

record QXmppStanza =
  st_to :: qstring
  st_from :: qstring
  st_id :: qstring
  st_lang :: qstring
  st_error :: "StanzaError option"
  st_extensions :: "dom list"
  st_addresses :: "QXmppExtendedAddress list"

definition QXmppStanza_parse :: "nonza_env \<Rightarrow> dom \<Rightarrow> QXmppStanza" where
  "QXmppStanza_parse e element =
     \<lparr>st_to = attr ''to'' element, st_from = attr ''from'' element, st_id = attr ''id'' element, st_lang = attr ''lang'' element,
      st_error = parseOptionalChildElement (\<lambda>el. Some (StanzaError_parse e el)) element ''error'' (namespaceURI element),
      st_extensions = [],
      st_addresses = filter isValid_address
        (case firstChildElement element ''addresses'' ns_extended_addressing of None \<Rightarrow> []
         | Some el \<Rightarrow> map ExtendedAddress_parse (iterChildElements el ''address'' ns_extended_addressing))\<rparr>"

definition extensions_item :: "dom list \<Rightarrow> item list" where
  "extensions_item els = map (\<lambda>el. Node (\<lambda>_. el)) els"

definition extensionsToXml :: "bool \<Rightarrow> QXmppStanza \<Rightarrow> item list" where
  "extensionsToXml scePublic s =
     (if scePublic \<and> st_addresses s \<noteq> []
      then [Element ''addresses'' ns_extended_addressing (map ExtendedAddress_toXml (st_addresses s))] else []) @
     extensions_item (st_extensions s)"

section \<open>The generic IQ\<close>

datatype IqType = IqError | IqGet | IqSet | IqResult

definition IqType_Values :: "(IqType \<times> qstring) list" where
  "IqType_Values = [(IqError, ''error''), (IqGet, ''get''), (IqSet, ''set''), (IqResult, ''result'')]"

record QXmppIq = QXmppStanza +
  iq_type :: IqType

text \<open>Every child element becomes an extension.\<close>

definition QXmppIq_parse :: "nonza_env \<Rightarrow> dom \<Rightarrow> QXmppIq" where
  "QXmppIq_parse e element =
     QXmppStanza.extend ((QXmppStanza_parse e element)\<lparr>st_extensions := iterChildElements element [] []\<rparr>)
       (QXmppIq.fields (case enum_fromString IqType_Values (attr ''type'' element) of None \<Rightarrow> IqGet | Some t \<Rightarrow> t))"

text \<open>An IQ without a payload class writes its extensions.\<close>

definition QXmppIq_toXml :: "nonza_env \<Rightarrow> QXmppIq \<Rightarrow> item" where
  "QXmppIq_toXml e iq = ElementInherit ''iq''
     ([Attribute ''id'' (st_id iq)] @ OptionalAttribute ''to'' (st_to iq) @ OptionalAttribute ''from'' (st_from iq) @
      [Attribute ''type'' (enum_toString IqType_Values (iq_type iq))] @
      extensions_item (st_extensions iq) @
      (case st_error iq of None \<Rightarrow> [] | Some err \<Rightarrow> StanzaError_toXml e err))"

section \<open>Lemmas\<close>

definition error_ok :: "StanzaError \<Rightarrow> bool" where
  "error_ok d \<longleftrightarrow> (err_condition d \<noteq> NoCondition \<or> err_type d \<noteq> NoType) \<and> 0 \<le> err_code d \<and> err_code d < 2 ^ 31 \<and>
     - (2 ^ 63) \<le> maxFileSize d \<and> maxFileSize d < 2 ^ 63 \<and> (\<not> fileTooLarge d \<longrightarrow> maxFileSize d = 0) \<and>
     (redirectionUri d \<noteq> [] \<longrightarrow> err_condition d = Gone \<or> err_condition d = Redirect)"

lemma condition_names:
  "enum_fromString Condition_Values (enum_toString Condition_Values c) = Some c"
  "enum_toString Condition_Values c \<noteq> ''text''"
  by (cases c; simp add: enum_fromString_def enum_toString_def Condition_Values_def)+

lemma ErrorType_names:
  "enum_fromString ErrorType_Values (enum_toString ErrorType_Values t) = Some t"
  "enum_toString ErrorType_Values t = [] \<longleftrightarrow> t = NoType"
  by (cases t; simp add: enum_fromString_def enum_toString_def ErrorType_Values_def)+

lemma toInt_empty [simp]: "to_signed b [] = None"
  by (simp add: to_signed_def trimmed_def)

lemma serializeInt_back: "0 \<le> n \<Longrightarrow> n < 2 ^ 31 \<Longrightarrow> to_signed 32 (serializeInt n) = Some n"
  "- (2 ^ 63) \<le> n \<Longrightarrow> n < 2 ^ 63 \<Longrightarrow> to_signed 64 (serializeInt n) = Some n"
  using to_signed_serializeInt [of 32 n] to_signed_serializeInt [of 64 n] by simp_all

lemma serializeInt_not_Nil [simp]: "serializeInt n \<noteq> []"
  by (simp add: serializeInt_def)

definition error_children :: "nonza_env \<Rightarrow> StanzaError \<Rightarrow> dom list" where
  "error_children e d =
     (if err_condition d \<noteq> NoCondition
      then [Elem (enum_toString Condition_Values (err_condition d)) ns_stanza []
              (if redirectionUri d \<noteq> [] \<and> (err_condition d = Gone \<or> err_condition d = Redirect) then [Text (redirectionUri d)] else [])]
      else []) @
     (if err_text d \<noteq> [] then [Elem ''text'' ns_stanza [(''xml:lang'', ''en'')] [Text (err_text d)]] else []) @
     (if fileTooLarge d then [Elem ''file-too-large'' ns_http_upload [] [text_node ''max-file-size'' ns_http_upload (serializeInt (maxFileSize d))]] else []) @
     (case retryDate d of None \<Rightarrow> [] | Some t \<Rightarrow> [Elem ''retry'' ns_http_upload [(''stamp'', datetimeToString e (Some t))] []])"

lemma error_written:
  assumes "err_condition d \<noteq> NoCondition \<or> err_type d \<noteq> NoType"
  shows "concat (map (item_nodes ns) (StanzaError_toXml e d)) =
    [Elem ''error'' ns
       ((if err_by d = [] then [] else [(''by'', err_by d)]) @
        (if err_type d = NoType then [] else [(''type'', enum_toString ErrorType_Values (err_type d))]) @
        (if err_code d > 0 then [(''code'', serializeInt (err_code d))] else [])) (error_children e d)]"
  using assms
  by (auto simp: StanzaError_toXml_def ElementInherit_def build_def OptionalAttribute_def OptionalContent_def Element_def
      error_children_def ErrorType_names TextElement_def split: option.splits)

lemma error_children_elements: "filter (matches [] []) (error_children e d) = error_children e d"
  by (auto simp: error_children_def matches_def split: option.splits)

lemma fold_error_children:
  assumes "nonza_laws e" and "error_ok d" and "d0 = new_StanzaError\<lparr>err_code := err_code d, err_type := err_type d, err_by := err_by d\<rparr>"
  shows "fold (StanzaError_child e) (error_children e d) d0 = d"
proof -
  let ?c = "if err_condition d \<noteq> NoCondition
      then [Elem (enum_toString Condition_Values (err_condition d)) ns_stanza []
              (if redirectionUri d \<noteq> [] \<and> (err_condition d = Gone \<or> err_condition d = Redirect) then [Text (redirectionUri d)] else [])]
      else []"
  let ?t = "if err_text d \<noteq> [] then [Elem ''text'' ns_stanza [(''xml:lang'', ''en'')] [Text (err_text d)]] else []"
  let ?f = "if fileTooLarge d then [Elem ''file-too-large'' ns_http_upload [] [text_node ''max-file-size'' ns_http_upload (serializeInt (maxFileSize d))]] else []"
  let ?r = "case retryDate d of None \<Rightarrow> [] | Some t \<Rightarrow> [Elem ''retry'' ns_http_upload [(''stamp'', datetimeToString e (Some t))] []]"
  have ns: "ns_http_upload \<noteq> ns_stanza" by (simp add: ns_http_upload_def ns_stanza_def)
  let ?d1 = "d0\<lparr>err_condition := err_condition d, redirectionUri := redirectionUri d\<rparr>"
  let ?d2 = "?d1\<lparr>err_text := err_text d\<rparr>"
  let ?d3 = "?d2\<lparr>fileTooLarge := fileTooLarge d, maxFileSize := maxFileSize d\<rparr>"
  have 1: "fold (StanzaError_child e) ?c d0 = ?d1"
    using assms(2) by (auto simp: StanzaError_child_def condition_names error_ok_def assms(3) new_StanzaError_def Let_def)
  have 2: "fold (StanzaError_child e) ?t ?d1 = ?d2"
    by (simp add: StanzaError_child_def assms(3) new_StanzaError_def)
  have "child_text (Elem ''file-too-large'' ns_http_upload [] [text_node ''max-file-size'' ns_http_upload (serializeInt (maxFileSize d))])
      ''max-file-size'' [] = serializeInt (maxFileSize d)"
    by (simp add: child_text_def dom_simps)
  then have 3: "fold (StanzaError_child e) ?f ?d2 = ?d3"
    using assms(2) by (simp add: StanzaError_child_def ns assms(3) new_StanzaError_def error_ok_def serializeInt_back)
  have 4: "fold (StanzaError_child e) ?r ?d3 = ?d3\<lparr>retryDate := retryDate d\<rparr>"
    by (cases "retryDate d") (simp_all add: StanzaError_child_def ns attr_def base64_laws [OF assms(1)] assms(3) new_StanzaError_def)
  have "fold (StanzaError_child e) (error_children e d) d0 = ?d3\<lparr>retryDate := retryDate d\<rparr>"
    unfolding error_children_def fold_append comp_def 1 2 3 4 by (rule refl)
  then show ?thesis by (cases d) (simp add: assms(3) new_StanzaError_def)
qed

lemma StanzaError_back:
  assumes "nonza_laws e" and "error_ok d"
  shows "map (StanzaError_parse e) (concat (map (item_nodes ns) (StanzaError_toXml e d))) = [d]"
proof -
  have "fold (StanzaError_child e) (error_children e d)
      (new_StanzaError\<lparr>err_code := err_code d, err_type := err_type d, err_by := err_by d\<rparr>) = d"
    by (rule fold_error_children [OF assms refl])
  moreover have "err_condition d \<noteq> NoCondition \<or> err_type d \<noteq> NoType" "0 \<le> err_code d" "err_code d < 2 ^ 31"
    using assms(2) by (simp_all add: error_ok_def)
  moreover have "enum_fromString ErrorType_Values [] = Some NoType"
    by (simp add: enum_fromString_def ErrorType_Values_def)
  ultimately show ?thesis
    by (auto simp: error_written StanzaError_parse_def dom_simps error_children_elements attr_def ErrorType_names serializeInt_back
        )
qed

section \<open>Properties\<close>

text \<open>
  A stanza error is read back as it was written: its type, condition, text, sender, code,
  redirection target and the details of a refused upload.  The error needs a type or a
  condition, and a target only goes with the conditions that have one.
\<close>

lemma stanza_error_roundtrip:
  assumes "nonza_laws e" and "error_ok d"
  shows "map (StanzaError_parse e) (concat (map (item_nodes ns) (StanzaError_toXml e d))) = [d]"
  by (rule StanzaError_back [OF assms])

definition example_error :: StanzaError where
  "example_error = new_StanzaError\<lparr>err_type := Cancel, err_condition := Gone, redirectionUri := ''xmpp:b'', err_text := ''moved''\<rparr>"

lemma stanza_error_roundtrip_witness:
  "map (StanzaError_parse example_nonza_env)
     (concat (map (item_nodes ns_client) (StanzaError_toXml example_nonza_env example_error))) = [example_error]"
  by (rule stanza_error_roundtrip [OF example_nonza_laws]) (simp add: error_ok_def example_error_def new_StanzaError_def)

text \<open>
  A generic IQ that carries an error does not come back: the error is read as an extension as
  well, so that it is written twice.
\<close>

lemma iq_error_duplicated:
  "let el = Elem ''iq'' ns_client [(''id'', ''1''), (''type'', ''error'')]
         (concat (map (item_nodes ns_client) (StanzaError_toXml example_nonza_env example_error)));
       iq = QXmppIq_parse example_nonza_env el
   in map tagName (concat (map childNodes (item_nodes ns_client (QXmppIq_toXml example_nonza_env iq)))) = [''error'', ''error'']"
  by code_simp

end
