(* ===== verification/StreamElements.thy ===== *)
theory StreamElements
  imports Stanza
begin

text \<open>
  The elements of the stream itself, from \<^verbatim>\<open>src/base/Stream.cpp\<close>,
  \<^verbatim>\<open>src/base/StreamError.h\<close> and \<^verbatim>\<open>src/base/QXmppStreamFeatures.cpp\<close>: STARTTLS, resource
  binding, stream errors and the stream features.

  The prefix \<^verbatim>\<open>stream\<close> is declared by the stream header, so \<^verbatim>\<open>stream:features\<close> and
  \<^verbatim>\<open>stream:error\<close> are read back in the namespace of streams; their children without a
  namespace of their own take the default one, that of the client.  The address syntax of
  \<^verbatim>\<open>QUrl\<close> is a parameter.
\<close>

definition ns_stream :: qstring where "ns_stream = ''http://etherx.jabber.org/streams''"
definition ns_tls :: qstring where "ns_tls = ''urn:ietf:params:xml:ns:xmpp-tls''"
definition ns_bind :: qstring where "ns_bind = ''urn:ietf:params:xml:ns:xmpp-bind''"
definition ns_stream_error :: qstring where "ns_stream_error = ''urn:ietf:params:xml:ns:xmpp-streams''"
definition ns_session :: qstring where "ns_session = ''urn:ietf:params:xml:ns:xmpp-session''"
definition ns_pre_approval :: qstring where "ns_pre_approval = ''urn:xmpp:features:pre-approval''"
definition ns_rosterver :: qstring where "ns_rosterver = ''urn:xmpp:features:rosterver''"
definition ns_register_feature :: qstring where "ns_register_feature = ''http://jabber.org/features/iq-register''"
definition ns_authFeature :: qstring where "ns_authFeature = ''http://jabber.org/features/iq-auth''"
definition ns_compressFeature :: qstring where "ns_compressFeature = ''http://jabber.org/features/compress''"

text \<open>An element with the prefix of the stream.\<close>

definition StreamPrefixed :: "qstring \<Rightarrow> item list \<Rightarrow> dom" where
  "StreamPrefixed tag items = Elem tag ns_stream (concat (map item_attrs items)) (concat (map (item_nodes ns_client) items))"

section \<open>Stream header, STARTTLS and resource binding\<close>

record StreamOpen =
  so_to :: qstring
  so_from :: qstring
  so_id :: qstring
  so_version :: qstring
  so_xmlns :: qstring

definition StarttlsRequest_fromDom :: "dom \<Rightarrow> unit option" where
  "StarttlsRequest_fromDom el = (if tagName el \<noteq> ''starttls'' \<or> namespaceURI el \<noteq> ns_tls then None else Some ())"

definition StarttlsRequest_toXml :: item where
  "StarttlsRequest_toXml = Element ''starttls'' ns_tls []"

definition StarttlsProceed_fromDom :: "dom \<Rightarrow> unit option" where
  "StarttlsProceed_fromDom el = (if tagName el \<noteq> ''proceed'' \<or> namespaceURI el \<noteq> ns_tls then None else Some ())"

definition StarttlsProceed_toXml :: item where
  "StarttlsProceed_toXml = Element ''proceed'' ns_tls []"

record BindElement =
  bind_jid :: qstring
  bind_resource :: qstring

definition BindElement_fromDom :: "dom \<Rightarrow> BindElement option" where
  "BindElement_fromDom el =
     (if \<not> has_tag ''bind'' ns_bind el then None
      else Some \<lparr>bind_jid = child_text el ''jid'' [], bind_resource = child_text el ''resource'' []\<rparr>)"

definition BindElement_toXml :: "BindElement \<Rightarrow> item" where
  "BindElement_toXml b = Element ''bind'' ns_bind
     (OptionalTextElement ''jid'' (bind_jid b) @ OptionalTextElement ''resource'' (bind_resource b))"

definition CsiActive_toXml :: item where "CsiActive_toXml = Element ''active'' ns_csi []"
definition CsiInactive_toXml :: item where "CsiInactive_toXml = Element ''inactive'' ns_csi []"

section \<open>Stream errors\<close>

datatype StreamError = SE_BadFormat | SE_BadNamespacePrefix | SE_Conflict | SE_ConnectionTimeout | SE_HostGone
  | SE_HostUnknown | SE_ImproperAddressing | SE_InternalServerError | SE_InvalidFrom | SE_InvalidId
  | SE_InvalidNamespace | SE_InvalidXml | SE_NotAuthorized | SE_NotWellFormed | SE_PolicyViolation
  | SE_RemoteConnectionFailed | SE_Reset | SE_ResourceConstraint | SE_RestrictedXml | SE_SystemShutdown
  | SE_UndefinedCondition | SE_UnsupportedEncoding | SE_UnsupportedFeature | SE_UnsupportedStanzaType
  | SE_UnsupportedVersion

definition StreamError_Values :: "(StreamError \<times> qstring) list" where
  "StreamError_Values = [(SE_BadFormat, ''bad-format''), (SE_BadNamespacePrefix, ''bad-namespace-prefix''),
     (SE_Conflict, ''conflict''), (SE_ConnectionTimeout, ''connection-timeout''), (SE_HostGone, ''host-gone''),
     (SE_HostUnknown, ''host-unknown''), (SE_ImproperAddressing, ''improper-addressing''),
     (SE_InternalServerError, ''internal-server-error''), (SE_InvalidFrom, ''invalid-from''),
     (SE_InvalidId, ''invalid-id''), (SE_InvalidNamespace, ''invalid-namespace''), (SE_InvalidXml, ''invalid-xml''),
     (SE_NotAuthorized, ''not-authorized''), (SE_NotWellFormed, ''not-well-formed''),
     (SE_PolicyViolation, ''policy-violation''), (SE_RemoteConnectionFailed, ''remote-connection-failed''),
     (SE_Reset, ''reset''), (SE_ResourceConstraint, ''resource-constraint''), (SE_RestrictedXml, ''restricted-xml''),
     (SE_SystemShutdown, ''system-shutdown''), (SE_UndefinedCondition, ''undefined-condition''),
     (SE_UnsupportedEncoding, ''unsupported-encoding''), (SE_UnsupportedFeature, ''unsupported-feature''),
     (SE_UnsupportedStanzaType, ''unsupported-stanza-type''), (SE_UnsupportedVersion, ''unsupported-version'')]"

datatype StreamErrorCondition = PlainCondition StreamError | SeeOtherHost qstring "16 word"

record StreamErrorElement =
  se_condition :: StreamErrorCondition
  se_text :: qstring

text \<open>
  \<^verbatim>\<open>parseHostAddress\<close>: the host and the port of the URL \<^verbatim>\<open>//address\<close>; a missing port is -1.
  The parameter gives them for a valid URL with a host.
\<close>

type_synonym url_host_port = "qstring \<Rightarrow> (qstring \<times> int) option"

definition parseHostAddress :: "url_host_port \<Rightarrow> qstring \<Rightarrow> qstring \<times> int" where
  "parseHostAddress url address = (case url (''//'' @ address) of Some (host, p) \<Rightarrow> if host \<noteq> [] then (host, p) else ([], -1)
     | None \<Rightarrow> ([], -1))"

definition XMPP_DEFAULT_PORT :: int where "XMPP_DEFAULT_PORT = 5222"

definition StreamErrorElement_fromDom :: "url_host_port \<Rightarrow> dom \<Rightarrow> qstring + StreamErrorElement" where
  "StreamErrorElement_fromDom url el =
     (if tagName el \<noteq> ''error'' \<or> namespaceURI el \<noteq> ns_stream then Inl ''Invalid dom element.''
      else let conditionEl = firstChildElement el [] []; tag = tag_of conditionEl;
               text = child_text el ''text'' ns_stream_error
           in if snd (elementXmlTag conditionEl) \<noteq> ns_stream_error then Inl ''Invalid xmlns on stream error condition.''
              else case enum_fromString StreamError_Values tag of
                Some c \<Rightarrow> Inr \<lparr>se_condition = PlainCondition c, se_text = text\<rparr>
              | None \<Rightarrow>
                  if tag = ''see-other-host'' then
                    let (host, p) = parseHostAddress url (case conditionEl of None \<Rightarrow> [] | Some c \<Rightarrow> dom_text c)
                    in if host \<noteq> []
                       then Inr \<lparr>se_condition = SeeOtherHost host (word_of_int (if p > 0 then p else XMPP_DEFAULT_PORT)), se_text = text\<rparr>
                       else Inl ''Stream error condition of <see-other-host/> requires valid redirection host.''
                  else Inl ''Stream error is missing valid error condition.'')"

definition StreamErrorElement_toXml :: "StreamErrorElement \<Rightarrow> dom" where
  "StreamErrorElement_toXml s = StreamPrefixed ''error''
     ((case se_condition s of
         PlainCondition c \<Rightarrow> [Element (enum_toString StreamError_Values c) ns_stream_error []]
       | SeeOtherHost host p \<Rightarrow>
           [Element ''see-other-host'' ns_stream_error [Characters (host @ '':'' @ number (unat p))]]) @
      OptionalTextElement ''text'' (se_text s))"

section \<open>Stream features\<close>

datatype FeatureMode = FeatureDisabled | FeatureEnabled | FeatureRequired

record QXmppStreamFeatures =
  bindMode :: FeatureMode
  sessionMode :: FeatureMode
  nonSaslAuthMode :: FeatureMode
  tlsMode :: FeatureMode
  streamManagementMode :: FeatureMode
  csiMode :: FeatureMode
  registerMode :: FeatureMode
  preApprovedSubscriptionsSupported :: bool
  rosterVersioningSupported :: bool
  authMechanisms :: "qstring list"
  compressionMethods :: "qstring list"
  sasl2Feature :: "Sasl2_StreamFeature option"

definition isStreamFeatures :: "dom \<Rightarrow> bool" where
  "isStreamFeatures element \<longleftrightarrow> namespaceURI element = ns_stream \<and> tagName element = ''features''"

definition readFeature :: "dom \<Rightarrow> qstring \<Rightarrow> qstring \<Rightarrow> FeatureMode" where
  "readFeature element tag ns =
     (case firstChildElement element tag ns of
        Some subEl \<Rightarrow> if firstChildElement subEl ''required'' [] \<noteq> None then FeatureRequired else FeatureEnabled
      | None \<Rightarrow> FeatureDisabled)"

definition child_texts :: "dom option \<Rightarrow> qstring \<Rightarrow> qstring \<Rightarrow> qstring list" where
  "child_texts el tag ns = (case el of None \<Rightarrow> [] | Some d \<Rightarrow> parseTextElements d tag ns)"

definition QXmppStreamFeatures_parse :: "dom \<Rightarrow> QXmppStreamFeatures" where
  "QXmppStreamFeatures_parse element = \<lparr>
     bindMode = readFeature element ''bind'' ns_bind,
     sessionMode = readFeature element ''session'' ns_session,
     nonSaslAuthMode = readFeature element ''auth'' ns_authFeature,
     tlsMode = readFeature element ''starttls'' ns_tls,
     streamManagementMode = readFeature element ''sm'' ns_stream_management,
     csiMode = readFeature element ''csi'' ns_csi,
     registerMode = readFeature element ''register'' ns_register_feature,
     preApprovedSubscriptionsSupported = (firstChildElement element ''sub'' ns_pre_approval \<noteq> None),
     rosterVersioningSupported = (firstChildElement element ''ver'' ns_rosterver \<noteq> None),
     authMechanisms = child_texts (firstChildElement element ''mechanisms'' ns_sasl) ''mechanism'' ns_sasl,
     compressionMethods = child_texts (firstChildElement element ''compression'' ns_compressFeature) ''method'' ns_compressFeature,
     sasl2Feature = parseOptionalChildElement Sasl2_StreamFeature_fromDom element ''authentication'' ns_sasl_2\<rparr>"

definition Feature_toXml :: "qstring \<Rightarrow> qstring \<Rightarrow> FeatureMode \<Rightarrow> item list" where
  "Feature_toXml tag ns mode =
     (if mode \<noteq> FeatureDisabled
      then [Element tag ns (OptionalContent (mode = FeatureRequired) [ElementInherit ''required'' []])] else [])"

definition BooleanFeature_toXml :: "qstring \<Rightarrow> qstring \<Rightarrow> bool \<Rightarrow> item list" where
  "BooleanFeature_toXml tag ns enabled = (if enabled then [Element tag ns []] else [])"

definition QXmppStreamFeatures_toXml :: "QXmppStreamFeatures \<Rightarrow> dom" where
  "QXmppStreamFeatures_toXml d = StreamPrefixed ''features''
     (Feature_toXml ''bind'' ns_bind (bindMode d) @
      Feature_toXml ''session'' ns_session (sessionMode d) @
      Feature_toXml ''auth'' ns_authFeature (nonSaslAuthMode d) @
      Feature_toXml ''starttls'' ns_tls (tlsMode d) @
      Feature_toXml ''sm'' ns_stream_management (streamManagementMode d) @
      Feature_toXml ''csi'' ns_csi (csiMode d) @
      Feature_toXml ''register'' ns_register_feature (registerMode d) @
      BooleanFeature_toXml ''sub'' ns_pre_approval (preApprovedSubscriptionsSupported d) @
      BooleanFeature_toXml ''ver'' ns_rosterver (rosterVersioningSupported d) @
      OptionalContent (compressionMethods d \<noteq> [])
        [Element ''compression'' ns_compressFeature (TextElements ''method'' (compressionMethods d))] @
      OptionalContent (authMechanisms d \<noteq> []) [Element ''mechanisms'' ns_sasl (TextElements ''mechanism'' (authMechanisms d))] @
      optional_item Sasl2_StreamFeature_toXml (sasl2Feature d))"

section \<open>Lemmas\<close>

definition feature_node :: "qstring \<Rightarrow> qstring \<Rightarrow> FeatureMode \<Rightarrow> dom" where
  "feature_node tag ns m = Elem tag ns [] (if m = FeatureRequired then [Elem ''required'' ns [] []] else [])"

lemma feature_nodes:
  "concat (map (item_nodes n) (Feature_toXml tag ns m)) = (if m \<noteq> FeatureDisabled then [feature_node tag ns m] else [])"
  "concat (map item_attrs (Feature_toXml tag ns m)) = []"
  "concat (map (item_nodes n) (BooleanFeature_toXml tag ns b)) = (if b then [Elem tag ns [] []] else [])"
  "concat (map item_attrs (BooleanFeature_toXml tag ns b)) = []"
  by (auto simp: Feature_toXml_def BooleanFeature_toXml_def feature_node_def Element_def ElementInherit_def build_def OptionalContent_def)

lemma matches_Elem [simp]: "matches t n (Elem tag ns as cs) \<longleftrightarrow> (n = [] \<or> ns = n) \<and> (t = [] \<or> tag = t)"
  by (auto simp: matches_def)

lemma matches_feature_node [simp]: "matches t n (feature_node tag ns m) \<longleftrightarrow> (n = [] \<or> ns = n) \<and> (t = [] \<or> tag = t)"
  by (simp add: feature_node_def)

lemma required_feature_node:
  "firstChildElement (feature_node tag ns m) ''required'' [] \<noteq> None \<longleftrightarrow> m = FeatureRequired"
  by (simp add: feature_node_def dom_simps)

definition feature_children :: "QXmppStreamFeatures \<Rightarrow> dom list" where
  "feature_children d =
     (if bindMode d \<noteq> FeatureDisabled then [feature_node ''bind'' ns_bind (bindMode d)] else []) @
     (if sessionMode d \<noteq> FeatureDisabled then [feature_node ''session'' ns_session (sessionMode d)] else []) @
     (if nonSaslAuthMode d \<noteq> FeatureDisabled then [feature_node ''auth'' ns_authFeature (nonSaslAuthMode d)] else []) @
     (if tlsMode d \<noteq> FeatureDisabled then [feature_node ''starttls'' ns_tls (tlsMode d)] else []) @
     (if streamManagementMode d \<noteq> FeatureDisabled then [feature_node ''sm'' ns_stream_management (streamManagementMode d)] else []) @
     (if csiMode d \<noteq> FeatureDisabled then [feature_node ''csi'' ns_csi (csiMode d)] else []) @
     (if registerMode d \<noteq> FeatureDisabled then [feature_node ''register'' ns_register_feature (registerMode d)] else []) @
     (if preApprovedSubscriptionsSupported d then [Elem ''sub'' ns_pre_approval [] []] else []) @
     (if rosterVersioningSupported d then [Elem ''ver'' ns_rosterver [] []] else []) @
     (if compressionMethods d \<noteq> [] then [Elem ''compression'' ns_compressFeature [] (map (text_node ''method'' ns_compressFeature) (compressionMethods d))] else []) @
     (if authMechanisms d \<noteq> [] then [Elem ''mechanisms'' ns_sasl [] (map (text_node ''mechanism'' ns_sasl) (authMechanisms d))] else []) @
     (case sasl2Feature d of None \<Rightarrow> [] | Some f \<Rightarrow> [written (Sasl2_StreamFeature_toXml f)])"

lemma sasl2_feature_item: "self_contained ''authentication'' ns_sasl_2 (Sasl2_StreamFeature_toXml f)"
  by (simp add: Sasl2_StreamFeature_toXml_def)

lemma features_written: "QXmppStreamFeatures_toXml d = Elem ''features'' ns_stream [] (feature_children d)"
  by (simp add: QXmppStreamFeatures_toXml_def StreamPrefixed_def feature_nodes feature_children_def OptionalContent_def
      optional_item_nodes [OF sasl2_feature_item] Element_def build_def TextElements_nodes)

lemmas stream_ns_defs = ns_bind_def ns_session_def ns_authFeature_def ns_tls_def ns_register_feature_def ns_pre_approval_def
  ns_rosterver_def ns_compressFeature_def

lemma feature_ns_distinct:
  "distinct [ns_bind, ns_session, ns_authFeature, ns_tls, ns_stream_management, ns_csi, ns_register_feature, ns_pre_approval,
     ns_rosterver, ns_compressFeature, ns_sasl, ns_sasl_2]"
  by (simp add: ns_defs stream_ns_defs)

lemma feature_ns_distinct':
  "distinct [ns_sasl_2, ns_sasl, ns_compressFeature, ns_rosterver, ns_pre_approval, ns_register_feature, ns_csi,
     ns_stream_management, ns_tls, ns_authFeature, ns_session, ns_bind]"
  by (simp add: ns_defs stream_ns_defs)

lemmas feature_ns_neq = feature_ns_distinct [simplified distinct.simps list.set insert_iff empty_iff de_Morgan_disj simp_thms]
  feature_ns_distinct' [simplified distinct.simps list.set insert_iff empty_iff de_Morgan_disj simp_thms]

lemma feature_ns_not_Nil:
  "ns_bind \<noteq> []" "ns_session \<noteq> []" "ns_authFeature \<noteq> []" "ns_tls \<noteq> []" "ns_stream_management \<noteq> []" "ns_csi \<noteq> []"
  "ns_register_feature \<noteq> []" "ns_pre_approval \<noteq> []" "ns_rosterver \<noteq> []" "ns_compressFeature \<noteq> []" "ns_sasl \<noteq> []" "ns_sasl_2 \<noteq> []"
  by (simp_all add: ns_defs stream_ns_defs)

lemma read_mode:
  assumes "firstChildElement el tag ns = (if m \<noteq> FeatureDisabled then Some (feature_node tag ns m) else None)"
  shows "readFeature el tag ns = m"
  using assms required_feature_node [of tag ns m] by (cases m) (auto simp: readFeature_def)

lemma StreamFeatures_back:
  "QXmppStreamFeatures_parse (QXmppStreamFeatures_toXml d) = d\<lparr>sasl2Feature := map_option forget_0rtt (sasl2Feature d)\<rparr>"
proof -
  let ?el = "Elem ''features'' ns_stream [] (feature_children d)"
  note nsd = feature_ns_neq feature_ns_not_Nil
  have f: "firstChildElement (Elem a b c cs) t n = List.find (matches t n) cs" for a b c cs t n
    by (simp add: dom_simps)
  have sc: "matches t n (written (Sasl2_StreamFeature_toXml x)) \<longleftrightarrow> (n = [] \<or> ns_sasl_2 = n) \<and> (t = [] \<or> ''authentication'' = t)" for t n x
    by (rule self_contained_written(3) [OF sasl2_feature_item])
  note rd = f feature_children_def find_append find_if find_optional sc nsd
  have texts: "parseTextElements (Elem tg ns as (map (text_node t ns) vs)) t ns = vs" for tg ns as t vs
    by (simp add: parseTextElements_def dom_simps filter_map_text comp_def)
  have 1: "readFeature ?el ''bind'' ns_bind = bindMode d"
    by (rule read_mode) (simp add: rd split: option.splits)
  have 2: "readFeature ?el ''session'' ns_session = sessionMode d"
    by (rule read_mode) (simp add: rd split: option.splits)
  have 3: "readFeature ?el ''auth'' ns_authFeature = nonSaslAuthMode d"
    by (rule read_mode) (simp add: rd split: option.splits)
  have 4: "readFeature ?el ''starttls'' ns_tls = tlsMode d"
    by (rule read_mode) (simp add: rd split: option.splits)
  have 5: "readFeature ?el ''sm'' ns_stream_management = streamManagementMode d"
    by (rule read_mode) (simp add: rd split: option.splits)
  have 6: "readFeature ?el ''csi'' ns_csi = csiMode d"
    by (rule read_mode) (simp add: rd split: option.splits)
  have 7: "readFeature ?el ''register'' ns_register_feature = registerMode d"
    by (rule read_mode) (simp add: rd split: option.splits)
  have 8: "firstChildElement ?el ''sub'' ns_pre_approval \<noteq> None \<longleftrightarrow> preApprovedSubscriptionsSupported d"
    by (simp add: rd split: option.splits)
  have 9: "firstChildElement ?el ''ver'' ns_rosterver \<noteq> None \<longleftrightarrow> rosterVersioningSupported d"
    by (simp add: rd split: option.splits)
  have 10: "child_texts (firstChildElement ?el ''mechanisms'' ns_sasl) ''mechanism'' ns_sasl = authMechanisms d"
    by (simp add: rd child_texts_def texts split: option.splits)
  have 11: "child_texts (firstChildElement ?el ''compression'' ns_compressFeature) ''method'' ns_compressFeature = compressionMethods d"
    by (simp add: rd child_texts_def texts split: option.splits)
  have 12: "parseOptionalChildElement Sasl2_StreamFeature_fromDom ?el ''authentication'' ns_sasl_2 = map_option forget_0rtt (sasl2Feature d)"
    by (cases "sasl2Feature d") (simp_all add: parseOptionalChildElement_def rd StreamFeature_roundtrip)
  show ?thesis
    unfolding features_written QXmppStreamFeatures_parse_def
    by (simp add: 1 2 3 4 5 6 7 8 [unfolded not_None_eq] 9 [unfolded not_None_eq] 10 11 12)
qed

section \<open>Properties\<close>

text \<open>
  The stream features are read back as they were written, each with its mode, except that
  the SASL 2 feature loses the permission of TLS 0-RTT.
\<close>

lemma stream_features_roundtrip:
  "QXmppStreamFeatures_parse (QXmppStreamFeatures_toXml d) = d\<lparr>sasl2Feature := map_option forget_0rtt (sasl2Feature d)\<rparr>"
  by (rule StreamFeatures_back)

text \<open>The text of a stream error is written without the namespace it is looked up in, and lost.\<close>

lemma stream_error_text_lost:
  "StreamErrorElement_fromDom url (StreamErrorElement_toXml \<lparr>se_condition = PlainCondition c, se_text = t\<rparr>) =
     Inr \<lparr>se_condition = PlainCondition c, se_text = []\<rparr>"
  by (cases c)
    (simp_all add: StreamErrorElement_fromDom_def StreamErrorElement_toXml_def StreamPrefixed_def Element_def build_def
      OptionalTextElement_def dom_simps child_text_def tag_of_def elementXmlTag_def ns_stream_error_def ns_client_def Let_def
      enum_fromString_def enum_toString_def StreamError_Values_def)

end
