(* ===== verification/IqManager.thy ===== *)
theory IqManager
  imports StreamElements
begin

text \<open>
  The tracking of outgoing IQ requests, \<^verbatim>\<open>OutgoingIqManager\<close> in
  \<^verbatim>\<open>src/client/QXmppOutgoingClient.cpp\<close>.

  A request is known by its id; it carries the address its response must come from and the task
  the caller holds, a number.  The results the tasks were finished with are a log.  The sending
  of a request reports failures through a continuation that knows the request by its id; these
  continuations are kept with the packet they belong to.  The order in which a cancellation goes
  through the hash map is unspecified; here it is the order of the requests.
\<close>

section \<open>State\<close>

datatype iq_error = SendFailed SendResult | StanzaErr StanzaError

datatype IqResult = IqElement dom | IqFailure qstring iq_error

record IqState =
  iq_task :: nat
  iq_jid :: qstring

record OutgoingIqManager =
  m_requests :: "(qstring \<times> IqState) list"
  iq_started :: nat
  iq_results :: "(nat \<times> IqResult) list"
  send_continuations :: "(nat \<times> qstring) list"

definition new_IqManager :: OutgoingIqManager where
  "new_IqManager = \<lparr>m_requests = [], iq_started = 0, iq_results = [], send_continuations = []\<rparr>"

section \<open>Operations\<close>

definition hasId :: "qstring \<Rightarrow> OutgoingIqManager \<Rightarrow> bool" where
  "hasId i m \<longleftrightarrow> map_of (m_requests m) i \<noteq> None"

definition isIdValid :: "qstring \<Rightarrow> OutgoingIqManager \<Rightarrow> bool" where
  "isIdValid i m \<longleftrightarrow> i \<noteq> [] \<and> \<not> hasId i m"

definition task_result :: "nat \<Rightarrow> IqResult \<Rightarrow> OutgoingIqManager \<Rightarrow> OutgoingIqManager" where
  "task_result t r m = m\<lparr>iq_results := iq_results m @ [(t, r)]\<rparr>"

text \<open>Whether the task is finished already, and the manager.\<close>

definition iq_start :: "qstring \<Rightarrow> qstring \<Rightarrow> OutgoingIqManager \<Rightarrow> bool \<times> OutgoingIqManager" where
  "iq_start i to m0 =
     (let t = iq_started m0; m = m0\<lparr>iq_started := t + 1\<rparr>
      in if \<not> isIdValid i m then
           (True, task_result t (IqFailure ''Invalid IQ id: empty or in use.'' (SendFailed Disconnected)) m)
         else if to = [] then
           (True, task_result t (IqFailure ''The 'to' address must be set so the stream can match the response.'' (SendFailed Disconnected)) m)
         else (False, m\<lparr>m_requests := m_requests m @ [(i, \<lparr>iq_task = t, iq_jid = to\<rparr>)]\<rparr>))"

definition iq_erase :: "qstring \<Rightarrow> OutgoingIqManager \<Rightarrow> OutgoingIqManager" where
  "iq_erase i m = m\<lparr>m_requests := filter (\<lambda>r. fst r \<noteq> i) (m_requests m)\<rparr>"

definition iq_finish :: "qstring \<Rightarrow> IqResult \<Rightarrow> OutgoingIqManager \<Rightarrow> OutgoingIqManager" where
  "iq_finish i r m =
     (case map_of (m_requests m) i of None \<Rightarrow> m | Some st \<Rightarrow> iq_erase i (task_result (iq_task st) r m))"

text \<open>The continuation of a send: only an error finishes the request.\<close>

definition report_send :: "nat \<times> SendResult \<Rightarrow> OutgoingIqManager \<Rightarrow> OutgoingIqManager" where
  "report_send pr m =
     (case map_of (send_continuations m) (fst pr) of
        None \<Rightarrow> m
      | Some i \<Rightarrow> let m1 = m\<lparr>send_continuations := filter (\<lambda>c. fst c \<noteq> fst pr) (send_continuations m)\<rparr>
          in case snd pr of SendSuccess _ \<Rightarrow> m1 | err \<Rightarrow> iq_finish i (IqFailure [] (SendFailed err)) m1)"

text \<open>The acknowledgement manager reports at once unless it keeps the packet.\<close>

definition iq_sendPacket :: "bool \<Rightarrow> QXmppPacket \<Rightarrow> qstring \<Rightarrow> qstring \<Rightarrow> OutgoingIqManager \<times> StreamAckManager \<Rightarrow> OutgoingIqManager \<times> StreamAckManager" where
  "iq_sendPacket writtenToSocket packet i to s =
     (case iq_start i to (fst s) of
        (True, m) \<Rightarrow> (m, snd s)
      | (False, m) \<Rightarrow>
          let ack = snd (internalSend writtenToSocket packet (snd s));
              m1 = m\<lparr>send_continuations := send_continuations m @ [(packet_id packet, i)]\<rparr>
          in (fold report_send (drop (length (reports (snd s))) (reports ack)) m1, ack))"

text \<open>The id that is used: \<^term>\<open>uuid1\<close> and \<^term>\<open>uuid2\<close> are what the generator draws.\<close>

definition iq_chosen_id :: "qstring \<Rightarrow> qstring \<Rightarrow> qstring \<Rightarrow> OutgoingIqManager \<Rightarrow> qstring" where
  "iq_chosen_id uuid1 uuid2 i m =
     (let i1 = (if i = [] then uuid1 else i) in if hasId i1 m then uuid2 else i1)"

definition iq_sendIq :: "nonza_env \<Rightarrow> (dom \<Rightarrow> bytes) \<Rightarrow> bool \<Rightarrow> nat \<Rightarrow> qstring \<Rightarrow> qstring \<Rightarrow> QXmppIq \<Rightarrow> qstring \<Rightarrow>
    OutgoingIqManager \<times> StreamAckManager \<Rightarrow> OutgoingIqManager \<times> StreamAckManager" where
  "iq_sendIq e print writtenToSocket pid uuid1 uuid2 iq to s =
     (let i = iq_chosen_id uuid1 uuid2 (st_id iq) (fst s);
          xml = hd (item_nodes ns_client (QXmppIq_toXml e (iq\<lparr>st_id := i\<rparr>)))
      in iq_sendPacket writtenToSocket \<lparr>packet_id = pid, packet_data = print xml, isXmppStanza = True\<rparr> i to s)"

definition cancelled :: IqResult where
  "cancelled = IqFailure ''IQ has been cancelled.'' (SendFailed Disconnected)"

definition cancelAll :: "OutgoingIqManager \<Rightarrow> OutgoingIqManager" where
  "cancelAll m = (fold (\<lambda>r. task_result (iq_task (snd r)) cancelled) (m_requests m) m)\<lparr>m_requests := []\<rparr>"

definition iq_onSessionOpened :: "bool \<Rightarrow> OutgoingIqManager \<Rightarrow> OutgoingIqManager" where
  "iq_onSessionOpened smResumed m = (if \<not> smResumed then cancelAll m else m)"

definition iq_onSessionClosed :: "bool \<Rightarrow> OutgoingIqManager \<Rightarrow> OutgoingIqManager" where
  "iq_onSessionClosed smCanResume m = (if \<not> smCanResume then cancelAll m else m)"

definition iq_answer :: "nonza_env \<Rightarrow> dom \<Rightarrow> IqResult" where
  "iq_answer e stanza =
     (if attr ''type'' stanza = ''error'' then
        (case st_error (QXmppIq_parse e stanza) of
           Some err \<Rightarrow> IqFailure (err_text err) (StanzaErr err)
         | None \<Rightarrow> IqFailure ''IQ error'' (StanzaErr (new_StanzaError\<lparr>err_type := Cancel, err_condition := UndefinedCondition\<rparr>)))
      else IqElement stanza)"

definition iq_handleStanza :: "nonza_env \<Rightarrow> dom \<Rightarrow> OutgoingIqManager \<Rightarrow> bool \<times> OutgoingIqManager" where
  "iq_handleStanza e stanza m =
     (let iqType = attr ''type'' stanza; i = attr ''id'' stanza; from = attr ''from'' stanza
      in if tagName stanza \<noteq> ''iq'' then (False, m)
         else if iqType \<noteq> ''result'' \<and> iqType \<noteq> ''error'' then (False, m)
         else case map_of (m_requests m) i of
                None \<Rightarrow> (False, m)
              | Some st \<Rightarrow>
                  if from \<noteq> [] \<and> from \<noteq> iq_jid st then (False, m)
                  else (True, iq_erase i (task_result (iq_task st) (iq_answer e stanza) m)))"

section \<open>The specification: a table of open requests\<close>

text \<open>
  What the manager promises: a table from ids to the expected sender and the task, and the bag
  of the answers given so far.
\<close>

record iq_table =
  open_requests :: "qstring \<Rightarrow> (qstring \<times> nat) option"
  answers :: "(nat \<times> IqResult) multiset"
  next_task :: nat

datatype iq_event = Send qstring qstring | SendError qstring SendResult | Response dom | CancelAll

definition table_answer :: "qstring \<Rightarrow> IqResult \<Rightarrow> iq_table \<Rightarrow> iq_table" where
  "table_answer i r t =
     (case open_requests t i of None \<Rightarrow> t
      | Some (_, task) \<Rightarrow> t\<lparr>open_requests := (open_requests t)(i := None), answers := add_mset (task, r) (answers t)\<rparr>)"

fun table_step :: "nonza_env \<Rightarrow> iq_event \<Rightarrow> iq_table \<Rightarrow> iq_table" where
  "table_step e (Send i to) t =
     (if i = [] \<or> open_requests t i \<noteq> None then t\<lparr>next_task := next_task t + 1,
        answers := add_mset (next_task t, IqFailure ''Invalid IQ id: empty or in use.'' (SendFailed Disconnected)) (answers t)\<rparr>
      else if to = [] then t\<lparr>next_task := next_task t + 1,
        answers := add_mset (next_task t, IqFailure ''The 'to' address must be set so the stream can match the response.'' (SendFailed Disconnected)) (answers t)\<rparr>
      else t\<lparr>next_task := next_task t + 1, open_requests := (open_requests t)(i \<mapsto> (to, next_task t))\<rparr>)"
| "table_step e (SendError i err) t = table_answer i (IqFailure [] (SendFailed err)) t"
| "table_step e (Response stanza) t =
     (case open_requests t (attr ''id'' stanza) of
        Some (jid, task) \<Rightarrow>
          if tagName stanza = ''iq'' \<and> attr ''type'' stanza \<in> {''result'', ''error''} \<and> attr ''from'' stanza \<in> {[], jid}
          then table_answer (attr ''id'' stanza) (iq_answer e stanza) t else t
      | None \<Rightarrow> t)"
| "table_step e CancelAll t =
     t\<lparr>open_requests := Map.empty,
       answers := answers t + image_mset (\<lambda>i. (snd (the (open_requests t i)), cancelled)) (mset_set (dom (open_requests t)))\<rparr>"

fun iq_step :: "nonza_env \<Rightarrow> iq_event \<Rightarrow> OutgoingIqManager \<Rightarrow> OutgoingIqManager" where
  "iq_step e (Send i to) m = snd (iq_start i to m)"
| "iq_step e (SendError i err) m = iq_finish i (IqFailure [] (SendFailed err)) m"
| "iq_step e (Response stanza) m = snd (iq_handleStanza e stanza m)"
| "iq_step e CancelAll m = cancelAll m"

definition abs_iq :: "OutgoingIqManager \<Rightarrow> iq_table" where
  "abs_iq m = \<lparr>open_requests = (\<lambda>i. map_option (\<lambda>st. (iq_jid st, iq_task st)) (map_of (m_requests m) i)),
     answers = mset (iq_results m), next_task = iq_started m\<rparr>"

definition ids_distinct :: "OutgoingIqManager \<Rightarrow> bool" where
  "ids_distinct m \<longleftrightarrow> distinct (map fst (m_requests m))"

section \<open>Lemmas\<close>

lemma map_of_filter_fst: "map_of (filter (\<lambda>r. fst r \<noteq> i) rs) = (map_of rs)(i := None)"
  by (induction rs) (auto simp: fun_eq_iff)

lemma task_result_sel [simp]:
  "m_requests (task_result t r m) = m_requests m" "iq_started (task_result t r m) = iq_started m"
  "iq_results (task_result t r m) = iq_results m @ [(t, r)]" "send_continuations (task_result t r m) = send_continuations m"
  by (simp_all add: task_result_def)

lemma iq_erase_sel [simp]:
  "m_requests (iq_erase i m) = filter (\<lambda>r. fst r \<noteq> i) (m_requests m)" "iq_started (iq_erase i m) = iq_started m"
  "iq_results (iq_erase i m) = iq_results m"
  by (simp_all add: iq_erase_def)

lemma cancel_fold:
  "m_requests (fold (\<lambda>r. task_result (iq_task (snd r)) c) rs m) = m_requests m"
  "iq_started (fold (\<lambda>r. task_result (iq_task (snd r)) c) rs m) = iq_started m"
  "iq_results (fold (\<lambda>r. task_result (iq_task (snd r)) c) rs m) = iq_results m @ map (\<lambda>r. (iq_task (snd r), c)) rs"
  by (induction rs arbitrary: m) simp_all

lemma cancelAll_sel [simp]:
  "m_requests (cancelAll m) = []" "iq_started (cancelAll m) = iq_started m"
  "iq_results (cancelAll m) = iq_results m @ map (\<lambda>r. (iq_task (snd r), cancelled)) (m_requests m)"
  by (simp_all add: cancelAll_def cancel_fold)

lemma distinct_filter_fst: "distinct (map fst rs) \<Longrightarrow> distinct (map fst (filter P rs))"
  by (induction rs) auto

lemma ids_distinct_step: "ids_distinct m \<Longrightarrow> ids_distinct (iq_step e ev m)"
proof (induction e ev m rule: iq_step.induct)
  case (1 e i to m)
  then show ?case
    by (auto simp: ids_distinct_def iq_start_def Let_def isIdValid_def hasId_def map_of_eq_None_iff)
qed (auto simp: ids_distinct_def iq_finish_def iq_handleStanza_def Let_def distinct_filter_fst split: option.split)

text \<open>The finished tasks and the open ones are the tasks that were started.\<close>

definition tasks_once :: "OutgoingIqManager \<Rightarrow> bool" where
  "tasks_once m \<longleftrightarrow> mset (map fst (iq_results m)) + mset (map (\<lambda>r. iq_task (snd r)) (m_requests m)) = mset [0..<iq_started m]"

lemma mset_remove_request:
  assumes "distinct (map fst rs)" and "map_of rs i = Some st"
  shows "mset rs = add_mset (i, st) (mset (filter (\<lambda>r. fst r \<noteq> i) rs))"
  using assms
proof (induction rs)
  case (Cons r rs)
  show ?case
  proof (cases "fst r = i")
    case True
    then have "filter (\<lambda>r. fst r \<noteq> i) rs = rs" using Cons.prems(1) by (auto simp: filter_id_conv image_iff intro!: filter_True)
    with True Cons.prems(2) show ?thesis by (cases r) auto
  next
    case False
    then show ?thesis using Cons by (cases r) auto
  qed
qed simp

lemma tasks_remove:
  assumes "distinct (map fst rs)" and "map_of rs i = Some st"
  shows "mset (map (\<lambda>r. iq_task (snd r)) rs) = add_mset (iq_task st) (mset (map (\<lambda>r. iq_task (snd r)) (filter (\<lambda>r. fst r \<noteq> i) rs)))"
  using arg_cong [OF mset_remove_request [OF assms], of "image_mset (\<lambda>r. iq_task (snd r))"] by simp

lemma tasks_once_erase:
  "tasks_once m \<Longrightarrow> ids_distinct m \<Longrightarrow> map_of (m_requests m) i = Some st \<Longrightarrow> tasks_once (iq_erase i (task_result (iq_task st) r m))"
  using tasks_remove [of "m_requests m" i st] by (simp add: tasks_once_def ids_distinct_def)

lemma tasks_once_step: "tasks_once m \<Longrightarrow> ids_distinct m \<Longrightarrow> tasks_once (iq_step e ev m)"
proof (induction e ev m rule: iq_step.induct)
  case (1 e i to m)
  then show ?case by (auto simp: tasks_once_def iq_start_def Let_def atLeast0_lessThan_Suc)
next
  case (2 e i err m)
  then show ?case by (simp add: iq_finish_def tasks_once_erase split: option.split)
next
  case (3 e stanza m)
  then show ?case by (auto simp: iq_handleStanza_def Let_def tasks_once_erase split: option.split)
next
  case (4 e m)
  then show ?case by (simp add: tasks_once_def comp_def)
qed

lemma iq_run_invariant:
  "ids_distinct (fold (iq_step e) evs new_IqManager) \<and> tasks_once (fold (iq_step e) evs new_IqManager)"
proof (induction evs rule: rev_induct)
  case Nil
  show ?case by (simp add: new_IqManager_def ids_distinct_def tasks_once_def)
next
  case (snoc ev evs)
  then show ?case by (simp add: ids_distinct_step tasks_once_step)
qed

lemma abs_erase:
  assumes "map_of (m_requests m) i = Some st"
  shows "abs_iq (iq_erase i (task_result (iq_task st) r m)) = table_answer i r (abs_iq m)"
  using assms by (simp add: abs_iq_def table_answer_def map_of_filter_fst fun_eq_iff)

lemma mset_by_key:
  "distinct (map fst rs) \<Longrightarrow> mset (map (\<lambda>r. f (fst r) (snd r)) rs) = image_mset (\<lambda>i. f i (the (map_of rs i))) (mset_set (fst ` set rs))"
proof -
  assume d: "distinct (map fst rs)"
  have "map (\<lambda>r. f (fst r) (snd r)) rs = map (\<lambda>i. f i (the (map_of rs i))) (map fst rs)"
    using d by auto
  moreover have "mset_set (fst ` set rs) = mset (map fst rs)" using mset_set_set [OF d] by simp
  ultimately show ?thesis by (metis mset_map)
qed

lemma abs_cancel:
  assumes "ids_distinct m"
  shows "abs_iq (cancelAll m) = table_step e CancelAll (abs_iq m)"
proof -
  let ?t = "open_requests (abs_iq m)"
  have "dom ?t = dom (map_of (m_requests m))" by (auto simp: abs_iq_def)
  then have keys: "dom ?t = fst ` set (m_requests m)" by (simp only: dom_map_of_conv_image_fst)
  have "mset (map (\<lambda>r. (iq_task (snd r), cancelled)) (m_requests m)) =
      image_mset (\<lambda>i. (iq_task (the (map_of (m_requests m) i)), cancelled)) (mset_set (dom ?t))"
    unfolding keys using mset_by_key [of "m_requests m" "\<lambda>i st. (iq_task st, cancelled)"] assms
    by (simp add: ids_distinct_def)
  also have "\<dots> = image_mset (\<lambda>i. (snd (the (?t i)), cancelled)) (mset_set (dom ?t))"
  proof (rule image_mset_cong)
    fix i assume "i \<in># mset_set (dom ?t)"
    then have "i \<in> dom ?t" using keys by (metis finite_imageI finite_set finite_set_mset_mset_set)
    then show "(iq_task (the (map_of (m_requests m) i)), cancelled) = (snd (the (?t i)), cancelled)"
      by (auto simp: abs_iq_def)
  qed
  finally show ?thesis
    by (simp only: table_step.simps) (simp add: abs_iq_def fun_eq_iff)
qed

lemma abs_step: "ids_distinct m \<Longrightarrow> abs_iq (iq_step e ev m) = table_step e ev (abs_iq m)"
proof (induction e ev m rule: iq_step.induct)
  case (1 e i to m)
  show ?case by (auto simp: abs_iq_def iq_start_def Let_def isIdValid_def hasId_def fun_eq_iff map_add_def split: option.split)
next
  case (2 e i err m)
  show ?case
    by (cases "map_of (m_requests m) i") (simp_all add: iq_finish_def abs_erase, simp add: table_answer_def abs_iq_def)
next
  case (3 e stanza m)
  show ?case
  proof (cases "map_of (m_requests m) (attr ''id'' stanza)")
    case None
    then show ?thesis by (simp add: iq_handleStanza_def Let_def) (simp add: abs_iq_def)
  next
    case (Some st)
    then have "open_requests (abs_iq m) (attr ''id'' stanza) = Some (iq_jid st, iq_task st)" by (simp add: abs_iq_def)
    then show ?thesis by (auto simp: iq_handleStanza_def Let_def Some abs_erase [OF Some])
  qed
next
  case (4 e m)
  then show ?case using abs_cancel by simp
qed

lemma handled_response:
  assumes "iq_handleStanza e stanza m = (True, m')"
  obtains st where "map_of (m_requests m) (attr ''id'' stanza) = Some st" "attr ''from'' stanza = [] \<or> attr ''from'' stanza = iq_jid st"
    "m' = iq_erase (attr ''id'' stanza) (task_result (iq_task st) (iq_answer e stanza) m)"
  using assms by (auto simp: iq_handleStanza_def Let_def split: if_splits option.splits)

section \<open>Properties\<close>

text \<open>
  C26.  The manager implements its specification: over every sequence of requests, send errors,
  received stanzas and cancellations, the table of open requests and the bag of answers are
  those of the specification, in which a request is answered only by a response with its id from
  the address it was sent to or from the server itself.
\<close>

theorem iq_manager_refines_table:
  "abs_iq (fold (iq_step e) evs new_IqManager) = fold (table_step e) evs (abs_iq new_IqManager)"
proof (induction evs rule: rev_induct)
  case (snoc ev evs)
  then show ?case using iq_run_invariant [of e evs] by (simp add: abs_step)
qed simp

text \<open>
  Every request is finished at most once, and none is lost: over every sequence of events,
  the finished tasks together with those of the open requests are exactly the tasks handed out.
\<close>

lemma iq_tasks_finished_once:
  "let m = fold (iq_step e) evs new_IqManager
   in mset (map fst (iq_results m)) + mset (map (\<lambda>r. iq_task (snd r)) (m_requests m)) = mset [0..<iq_started m]"
  using iq_run_invariant [of e evs] by (simp add: Let_def tasks_once_def)

text \<open>
  C29.  A response is accepted only for an open request and only from the server or from the address
  the request was sent to; it finishes the task of that request, with the answer the response
  holds, and closes it.
\<close>

theorem iq_response_accepted:
  assumes "iq_handleStanza e stanza m = (True, m')"
  shows "\<exists>st. map_of (m_requests m) (attr ''id'' stanza) = Some st \<and>
    (attr ''from'' stanza = [] \<or> attr ''from'' stanza = iq_jid st) \<and>
    iq_results m' = iq_results m @ [(iq_task st, iq_answer e stanza)] \<and> map_of (m_requests m') (attr ''id'' stanza) = None"
proof -
  obtain st where "map_of (m_requests m) (attr ''id'' stanza) = Some st"
      "attr ''from'' stanza = [] \<or> attr ''from'' stanza = iq_jid st"
      "m' = iq_erase (attr ''id'' stanza) (task_result (iq_task st) (iq_answer e stanza) m)"
    using handled_response [OF assms] by blast
  then show ?thesis by (intro exI [of _ st]) (simp add: map_of_filter_fst)
qed

definition example_requests :: OutgoingIqManager where
  "example_requests = snd (iq_start ''1'' ''b@c'' new_IqManager)"

theorem iq_response_accepted_witness:
  "map_of (m_requests (snd (iq_handleStanza example_nonza_env
     (Elem ''iq'' ns_client [(''id'', ''1''), (''type'', ''result''), (''from'', ''b@c'')] []) example_requests))) ''1'' = None"
proof -
  let ?r = "iq_handleStanza example_nonza_env (Elem ''iq'' ns_client [(''id'', ''1''), (''type'', ''result''), (''from'', ''b@c'')] [])
    example_requests"
  have "fst ?r" by code_simp
  then have "?r = (True, snd ?r)" by (simp add: prod_eq_iff)
  from iq_response_accepted [OF this] show ?thesis by (auto simp: attr_def)
qed


end
