(* ===== verification/ClientManagers.thy ===== *)
theory ClientManagers
  imports SaslManager IqManager
begin

text \<open>
  The managers the client stream is made of, from \<^verbatim>\<open>src/client/QXmppOutgoingClient.cpp\<close>: the
  client side of stream management, message carbons, client state indication, resource binding
  and the authentication without SASL.

  A manager that waits for an answer keeps its request; the continuation of the task is run by
  the stream when the manager reports that it is finished.  What a manager sends is returned as
  an element.
\<close>

definition ns_auth :: qstring where "ns_auth = ''jabber:iq:auth''"
definition ns_ping :: qstring where "ns_ping = ''urn:xmpp:ping''"

text \<open>A null element: every access yields the empty value.\<close>

definition null_element :: dom where "null_element = Elem [] [] [] []"

section \<open>Stream management\<close>

datatype sm_request = NoRequest | ResumeRequest | EnableRequest

record C2sStreamManager =
  m_request :: sm_request
  m_smAvailable :: bool
  m_smId :: qstring
  m_canResume :: bool
  m_resumeHost :: qstring
  m_resumePort :: "16 word"
  c2s_enabled :: bool
  m_streamResumed :: bool

definition new_C2sStreamManager :: C2sStreamManager where
  "new_C2sStreamManager = \<lparr>m_request = NoRequest, m_smAvailable = False, m_smId = [], m_canResume = False,
     m_resumeHost = [], m_resumePort = 0, c2s_enabled = False, m_streamResumed = False\<rparr>"

definition hasResumeAddress :: "C2sStreamManager \<Rightarrow> bool" where
  "hasResumeAddress c \<longleftrightarrow> m_canResume c \<and> m_resumeHost c \<noteq> [] \<and> m_resumePort c \<noteq> 0"

definition canRequestResume :: "C2sStreamManager \<Rightarrow> bool" where
  "canRequestResume c \<longleftrightarrow> m_smAvailable c \<and> \<not> c2s_enabled c \<and> m_canResume c"

definition canRequestEnable :: "C2sStreamManager \<Rightarrow> bool" where
  "canRequestEnable c \<longleftrightarrow> m_smAvailable c \<and> \<not> c2s_enabled c"

definition setResumeAddress :: "url_host_port \<Rightarrow> qstring \<Rightarrow> C2sStreamManager \<Rightarrow> C2sStreamManager" where
  "setResumeAddress url address c =
     (let (host, p) = parseHostAddress url address
      in if host \<noteq> [] then c\<lparr>m_resumeHost := host, m_resumePort := (if p > 0 then word_of_int p else word_of_int XMPP_DEFAULT_PORT)\<rparr>
         else c\<lparr>m_resumeHost := [], m_resumePort := 0\<rparr>)"

definition c2s_onEnabled :: "url_host_port \<Rightarrow> SmEnabled \<Rightarrow> C2sStreamManager \<times> StreamAckManager \<Rightarrow> C2sStreamManager \<times> StreamAckManager" where
  "c2s_onEnabled url en s =
     (let c1 = (fst s)\<lparr>m_smId := enabled_id en, m_canResume := enabled_resume en\<rparr>;
          c2 = (if enabled_resume en \<and> enabled_location en \<noteq> [] then setResumeAddress url (enabled_location en) c1 else c1)
      in (c2\<lparr>c2s_enabled := True\<rparr>, enableStreamManagement True (snd s)))"

definition c2s_onResumed :: "SmResumed \<Rightarrow> C2sStreamManager \<times> StreamAckManager \<Rightarrow> C2sStreamManager \<times> StreamAckManager" where
  "c2s_onResumed r s =
     ((fst s)\<lparr>m_streamResumed := True, c2s_enabled := True\<rparr>,
      enableStreamManagement False (setAcknowledgedSequenceNumber (resumed_h r) (snd s)))"

text \<open>A failure of either request only leaves a log message.\<close>

definition c2s_handleElement :: "url_host_port \<Rightarrow> dom \<Rightarrow> C2sStreamManager \<times> StreamAckManager \<Rightarrow>
    HandleElementResult \<times> (C2sStreamManager \<times> StreamAckManager)" where
  "c2s_handleElement url el s =
     (let s1 = ((fst s)\<lparr>m_request := NoRequest\<rparr>, snd s)
      in case m_request (fst s) of
           ResumeRequest \<Rightarrow>
             (case SmResumed_fromDom el of
                Some r \<Rightarrow> (Finished, c2s_onResumed r s1)
              | None \<Rightarrow> (case SmFailed_fromDom el of Some _ \<Rightarrow> (Finished, s1) | None \<Rightarrow> (Rejected, s1)))
         | EnableRequest \<Rightarrow>
             (case SmEnabled_fromDom el of
                Some r \<Rightarrow> (Finished, c2s_onEnabled url r s1)
              | None \<Rightarrow> (case SmFailed_fromDom el of Some _ \<Rightarrow> (Finished, s1) | None \<Rightarrow> (Rejected, s1)))
         | NoRequest \<Rightarrow> (Rejected, s))"

definition c2s_onStreamStart :: "C2sStreamManager \<Rightarrow> C2sStreamManager" where
  "c2s_onStreamStart c = c\<lparr>m_streamResumed := False, c2s_enabled := False, m_request := NoRequest\<rparr>"

definition c2s_onStreamFeatures :: "QXmppStreamFeatures \<Rightarrow> C2sStreamManager \<Rightarrow> C2sStreamManager" where
  "c2s_onStreamFeatures f c = c\<lparr>m_smAvailable := (streamManagementMode f \<noteq> FeatureDisabled)\<rparr>"

definition c2s_onStreamClosed :: "C2sStreamManager \<Rightarrow> C2sStreamManager" where
  "c2s_onStreamClosed c = c\<lparr>m_canResume := False\<rparr>"

definition c2s_onSasl2Authenticate :: "C2sStreamManager \<Rightarrow> StreamAckManager \<Rightarrow> Sasl2_StreamFeature \<Rightarrow> Sasl2_Authenticate \<Rightarrow> Sasl2_Authenticate" where
  "c2s_onSasl2Authenticate c a feature auth =
     (if streamResumptionAvailable feature \<and> \<not> c2s_enabled c \<and> m_canResume c
      then auth\<lparr>auth_smResume := Some \<lparr>resume_h = m_lastIncomingSequenceNumber a, resume_previd = m_smId c\<rparr>\<rparr> else auth)"

definition c2s_onSasl2Success :: "Sasl2_Success \<Rightarrow> C2sStreamManager \<times> StreamAckManager \<Rightarrow> C2sStreamManager \<times> StreamAckManager" where
  "c2s_onSasl2Success success s = (case success_smResumed success of Some r \<Rightarrow> c2s_onResumed r s | None \<Rightarrow> s)"

definition c2s_onBind2Request :: "qstring list \<Rightarrow> Bind2Request \<Rightarrow> Bind2Request" where
  "c2s_onBind2Request bind2Features request =
     (if ns_stream_management \<in> set bind2Features
      then request\<lparr>smEnable := Some \<lparr>enable_resume = True, enable_max = 0\<rparr>\<rparr> else request)"

definition c2s_onBind2Bound :: "url_host_port \<Rightarrow> Bind2Bound \<Rightarrow> C2sStreamManager \<times> StreamAckManager \<Rightarrow> C2sStreamManager \<times> StreamAckManager" where
  "c2s_onBind2Bound url bound s = (case bound_smEnabled bound of Some r \<Rightarrow> c2s_onEnabled url r s | None \<Rightarrow> s)"

text \<open>The elements that are sent.\<close>

definition c2s_requestResume :: "C2sStreamManager \<Rightarrow> StreamAckManager \<Rightarrow> C2sStreamManager \<times> dom" where
  "c2s_requestResume c a = (c\<lparr>m_request := ResumeRequest\<rparr>,
     written (SmResume_toXml \<lparr>resume_h = m_lastIncomingSequenceNumber a, resume_previd = m_smId c\<rparr>))"

definition c2s_requestEnable :: "C2sStreamManager \<Rightarrow> C2sStreamManager \<times> dom" where
  "c2s_requestEnable c = (c\<lparr>m_request := EnableRequest\<rparr>, written (SmEnable_toXml \<lparr>enable_resume = True, enable_max = 0\<rparr>))"

section \<open>Carbons and client state\<close>

datatype AuthenticationMethod = NonSaslAuthentication | SaslAuthentication | Sasl2Authentication

record SessionBegin =
  sb_smEnabled :: bool
  sb_smResumed :: bool
  sb_bind2Used :: bool
  sb_fastTokenChanged :: bool
  sb_authenticationMethod :: AuthenticationMethod

record CarbonManager =
  m_enableViaBind2 :: bool
  carbons_enabled :: bool
  m_requested :: bool

definition carbons_onBind2Request :: "qstring list \<Rightarrow> Bind2Request \<Rightarrow> CarbonManager \<Rightarrow> Bind2Request \<times> CarbonManager" where
  "carbons_onBind2Request bind2Features request c =
     (let enable = (m_enableViaBind2 c \<and> ns_carbons \<in> set bind2Features)
      in (request\<lparr>carbonsEnable := enable\<rparr>, c\<lparr>m_requested := enable\<rparr>))"

definition carbons_onSessionOpened :: "SessionBegin \<Rightarrow> CarbonManager \<Rightarrow> CarbonManager" where
  "carbons_onSessionOpened session c =
     (let c1 = (if \<not> sb_smResumed session then c\<lparr>carbons_enabled := False\<rparr> else c)
      in if sb_bind2Used session then c1\<lparr>carbons_enabled := m_requested c1\<rparr> else c1)"

datatype CsiState = CsiActive | CsiInactive

record CsiManager =
  csi_state :: CsiState
  m_synced :: bool
  m_featureAvailable :: bool
  m_bind2InactiveSet :: bool

text \<open>Whether the state can be sent, the socket takes it, and what it was given.\<close>

definition csi_sendState :: "bool \<Rightarrow> bool \<Rightarrow> CsiManager \<Rightarrow> CsiManager \<times> dom list" where
  "csi_sendState authenticated connected c =
     (if authenticated \<and> m_featureAvailable c
      then (c\<lparr>m_synced := connected\<rparr>, [written (if csi_state c = CsiActive then CsiActive_toXml else CsiInactive_toXml)])
      else (c\<lparr>m_synced := False\<rparr>, []))"

definition csi_setState :: "bool \<Rightarrow> bool \<Rightarrow> CsiState \<Rightarrow> CsiManager \<Rightarrow> CsiManager \<times> dom list" where
  "csi_setState authenticated connected state c =
     (if csi_state c \<noteq> state then csi_sendState authenticated connected (c\<lparr>csi_state := state\<rparr>) else (c, []))"

definition csi_onSessionOpened :: "bool \<Rightarrow> bool \<Rightarrow> bool \<Rightarrow> SessionBegin \<Rightarrow> CsiManager \<Rightarrow> CsiManager \<times> dom list" where
  "csi_onSessionOpened streamResumed authenticated connected session c =
     (if streamResumed then (if \<not> m_synced c then csi_sendState authenticated connected c else (c, []))
      else let initialState = (if sb_bind2Used session \<and> m_bind2InactiveSet c then CsiInactive else CsiActive)
           in if csi_state c = initialState then (c\<lparr>m_synced := True\<rparr>, []) else csi_sendState authenticated connected c)"

definition csi_onStreamFeatures :: "QXmppStreamFeatures \<Rightarrow> CsiManager \<Rightarrow> CsiManager" where
  "csi_onStreamFeatures f c = c\<lparr>m_featureAvailable := (csiMode f = FeatureEnabled)\<rparr>"

definition csi_onBind2Request :: "qstring list \<Rightarrow> Bind2Request \<Rightarrow> CsiManager \<Rightarrow> Bind2Request \<times> CsiManager" where
  "csi_onBind2Request bind2Features request c =
     (let inactive = (csi_state c = CsiInactive \<and> ns_csi \<in> set bind2Features)
      in (request\<lparr>csiInactive := inactive\<rparr>, c\<lparr>m_bind2InactiveSet := inactive\<rparr>))"

section \<open>Resource binding\<close>

record BoundAddress =
  bound_user :: qstring
  bound_domain :: qstring
  bound_resource :: qstring

datatype BindResult = Bound BoundAddress | BindStanzaError StanzaError | BindProtocolError qstring

record BindManager =
  m_iqId :: qstring
  bind_promise :: bool

definition new_BindManager :: BindManager where
  "new_BindManager = \<lparr>m_iqId = [], bind_promise = False\<rparr>"

text \<open>\<^verbatim>\<open>SetIq<BindElement>\<close> without addresses.\<close>

definition bind_request :: "qstring \<Rightarrow> qstring \<Rightarrow> dom" where
  "bind_request i resource = build ''iq'' ns_client
     [Attribute ''id'' i, Attribute ''type'' ''set'', BindElement_toXml \<lparr>bind_jid = [], bind_resource = resource\<rparr>]"

definition bindAddress :: "qstring \<Rightarrow> qstring \<Rightarrow> BindManager \<Rightarrow> BindManager \<times> dom" where
  "bindAddress i resource m = (m\<lparr>m_iqId := i, bind_promise := True\<rparr>, bind_request i resource)"

text \<open>
  The match of \<^verbatim>\<open>^([^@/]+)@([^@/]+)/(.+)$\<close>: a dot does not match a line break, and the end of
  the pattern matches before a last one.
\<close>

definition chop_newline :: "qstring \<Rightarrow> qstring" where
  "chop_newline s = (if s \<noteq> [] \<and> last s = CHR 0x0A then butlast s else s)"

definition match_full_jid :: "qstring \<Rightarrow> (qstring \<times> qstring \<times> qstring) option" where
  "match_full_jid s =
     (case index_of CHR ''@'' s of
        None \<Rightarrow> None
      | Some p \<Rightarrow>
          let user = take p s; r = drop (p + 1) s
          in case index_of CHR ''/'' r of
               None \<Rightarrow> None
             | Some q \<Rightarrow>
                 let host = take q r; resource = chop_newline (drop (q + 1) r)
                 in if user \<noteq> [] \<and> CHR ''/'' \<notin> set user \<and> host \<noteq> [] \<and> CHR ''@'' \<notin> set host \<and>
                       resource \<noteq> [] \<and> CHR 0x0A \<notin> set resource
                    then Some (user, host, resource) else None)"

definition bind_payload_result :: "BindElement \<Rightarrow> BindResult" where
  "bind_payload_result b =
     (if bind_jid b = [] then BindProtocolError ''Server did not return JID upon resource binding.''
      else case match_full_jid (bind_jid b) of
             Some (u, d, r) \<Rightarrow> Bound \<lparr>bound_user = u, bound_domain = d, bound_resource = r\<rparr>
           | None \<Rightarrow> BindProtocolError ''Bind IQ received with invalid JID'')"

definition lastChildElement :: "dom \<Rightarrow> dom option" where
  "lastChildElement el = (case filter isElement (childNodes el) of [] \<Rightarrow> None | es \<Rightarrow> Some (last es))"

text \<open>\<^verbatim>\<open>parseIqResponse\<close> with the payload of the binding.\<close>

definition bind_response :: "nonza_env \<Rightarrow> dom \<Rightarrow> BindResult" where
  "bind_response e el =
     (if attr ''type'' el = ''result'' then
        (case (case firstChildElement el [] [] of None \<Rightarrow> None | Some c \<Rightarrow> BindElement_fromDom c) of
           Some payload \<Rightarrow> bind_payload_result payload
         | None \<Rightarrow> BindProtocolError ''Failed to parse IQ result payload'')
      else if attr ''type'' el = ''error'' then
        BindStanzaError (StanzaError_parse e (case lastChildElement el of None \<Rightarrow> null_element | Some c \<Rightarrow> c))
      else BindProtocolError ''Received unexpected IQ type'')"

definition bind_handleElement :: "nonza_env \<Rightarrow> dom \<Rightarrow> BindManager \<Rightarrow> HandleElementResult \<times> BindResult option \<times> BindManager" where
  "bind_handleElement e el m =
     (if tagName el = ''iq'' \<and> elementXmlTag (firstChildElement el [] []) = (''bind'', ns_bind) \<and> attr ''id'' el = m_iqId m
      then (Finished, Some (bind_response e el), \<lparr>m_iqId = [], bind_promise = False\<rparr>)
      else (Rejected, None, m))"

section \<open>Authentication without SASL\<close>

record NonSaslAuthOptions =
  opt_plain :: bool
  opt_digest :: bool

datatype NonSaslQuery = NoQuery | OptionsQuery | AuthQuery qstring

datatype NonSaslResult = Options "StanzaError option + NonSaslAuthOptions" | AuthResult "qstring + unit"

record QXmppNonSASLAuthIq = QXmppIq +
  m_username :: qstring
  m_digest :: bytes
  m_password :: qstring
  m_resource :: qstring

definition setDigest :: "sasl_env \<Rightarrow> qstring \<Rightarrow> qstring \<Rightarrow> bytes" where
  "setDigest env streamId pw = hash env Qt_Sha1 (utf8 env streamId @ utf8 env pw)"

definition NonSASLAuthIq_toXml :: "sasl_env \<Rightarrow> nonza_env \<Rightarrow> QXmppNonSASLAuthIq \<Rightarrow> dom" where
  "NonSASLAuthIq_toXml env e iq = build ''iq'' ns_client
     ([Attribute ''id'' (st_id iq)] @ OptionalAttribute ''to'' (st_to iq) @ OptionalAttribute ''from'' (st_from iq) @
      [Attribute ''type'' (enum_toString IqType_Values (iq_type iq))] @
      [Element ''query'' ns_auth
        (OptionalTextElement ''username'' (m_username iq) @ OptionalTextElement ''digest'' (of_utf8 env (toHex env (m_digest iq))) @
         OptionalTextElement ''password'' (m_password iq) @ OptionalTextElement ''resource'' (m_resource iq))] @
      (case st_error iq of None \<Rightarrow> [] | Some err \<Rightarrow> StanzaError_toXml e err))"

definition new_NonSASLAuthIq :: "qstring \<Rightarrow> QXmppNonSASLAuthIq" where
  "new_NonSASLAuthIq i = \<lparr>st_to = [], st_from = [], st_id = i, st_lang = [], st_error = None, st_extensions = [],
     st_addresses = [], iq_type = IqSet, m_username = [], m_digest = [], m_password = [], m_resource = []\<rparr>"

definition queryOptions :: "sasl_env \<Rightarrow> nonza_env \<Rightarrow> qstring \<Rightarrow> qstring \<Rightarrow> qstring \<Rightarrow> NonSaslQuery \<times> dom" where
  "queryOptions env e i domain username =
     (OptionsQuery, NonSASLAuthIq_toXml env e ((new_NonSASLAuthIq i)\<lparr>iq_type := IqGet, st_to := domain, m_username := username\<rparr>))"

definition nonsasl_authenticate :: "sasl_env \<Rightarrow> nonza_env \<Rightarrow> qstring \<Rightarrow> bool \<Rightarrow> qstring \<Rightarrow> qstring \<Rightarrow> qstring \<Rightarrow> qstring \<Rightarrow> NonSaslQuery \<times> dom" where
  "nonsasl_authenticate env e i plainText username pw resource streamId =
     (AuthQuery i, NonSASLAuthIq_toXml env e
       (let iq = (new_NonSASLAuthIq i)\<lparr>iq_type := IqSet, m_username := username, m_resource := resource\<rparr>
        in if plainText then iq\<lparr>m_password := pw\<rparr> else iq\<lparr>m_digest := setDigest env streamId pw\<rparr>))"

definition has_query_child :: "dom \<Rightarrow> qstring \<Rightarrow> bool" where
  "has_query_child el tag =
     (case firstChildElement el ''query'' [] of None \<Rightarrow> False | Some q \<Rightarrow> firstChildElement q tag [] \<noteq> None)"

text \<open>The result a finished query is reported with; a new query is open after none of these.\<close>

definition nonsasl_handleElement :: "nonza_env \<Rightarrow> dom \<Rightarrow> NonSaslQuery \<Rightarrow> HandleElementResult \<times> NonSaslResult option \<times> NonSaslQuery" where
  "nonsasl_handleElement e el q =
     (if tagName el \<noteq> ''iq'' then (Rejected, None, q)
      else case q of
             NoQuery \<Rightarrow> (Rejected, None, q)
           | OptionsQuery \<Rightarrow>
               (Finished,
                Some (Options (if iqPayloadXmlTag el = (''query'', ns_auth) \<and> attr ''type'' el = ''result''
                  then Inr \<lparr>opt_plain = has_query_child el ''password'', opt_digest = has_query_child el ''digest''\<rparr>
                  else Inl (st_error (QXmppIq_parse e el)))),
                NoQuery)
           | AuthQuery i \<Rightarrow>
               (Finished,
                Some (AuthResult
                  (if attr ''id'' el = i then
                     (if attr ''type'' el = ''result'' then Inr ()
                      else if attr ''type'' el = ''error''
                      then Inl (case st_error (QXmppIq_parse e el) of None \<Rightarrow> [] | Some err \<Rightarrow> err_text err)
                      else Inl ''Received unexpected IQ response.'')
                   else Inl ''Received IQ response with wrong ID.'')),
                NoQuery))"

text \<open>Which of the offered methods is taken; \<^term>\<open>None\<close> when there is none.\<close>

definition nonsasl_plainText :: "bool \<Rightarrow> NonSaslAuthOptions \<Rightarrow> bool option" where
  "nonsasl_plainText configuredDigest options =
     (if opt_plain options \<and> opt_digest options then Some (\<not> configuredDigest)
      else if opt_plain options then Some True
      else if opt_digest options then Some False else None)"

section \<open>STARTTLS and ping\<close>

definition starttls_handleElement :: "dom \<Rightarrow> HandleElementResult" where
  "starttls_handleElement el = (if StarttlsProceed_fromDom el \<noteq> None then Finished else Rejected)"

definition ping_iq :: "nonza_env \<Rightarrow> qstring \<Rightarrow> qstring \<Rightarrow> dom" where
  "ping_iq e i domain = build ''iq'' ns_client
     ([Attribute ''id'' i] @ OptionalAttribute ''to'' domain @ [Attribute ''type'' ''get'', Element ''ping'' ns_ping []])"

section \<open>Lemmas\<close>

lemma index_of_append_first: "c \<notin> set xs \<Longrightarrow> index_of c (xs @ c # ys) = Some (length xs)"
  by (induction xs) auto

text \<open>A full JID that the server reports is split into the parts it was built from.\<close>

lemma match_full_jid_parts:
  assumes "user \<noteq> []" "CHR ''@'' \<notin> set user" "CHR ''/'' \<notin> set user"
    and "host \<noteq> []" "CHR ''@'' \<notin> set host" "CHR ''/'' \<notin> set host"
    and "resource \<noteq> []" "CHR 0x0A \<notin> set resource"
  shows "match_full_jid (user @ CHR ''@'' # host @ CHR ''/'' # resource) = Some (user, host, resource)"
proof -
  have "chop_newline resource = resource"
    using assms(7,8) last_in_set [of resource] by (metis chop_newline_def)
  then show ?thesis
    using assms by (simp add: match_full_jid_def index_of_append_first)
qed

end
