(* ===== verification/OutgoingClient.thy ===== *)
theory OutgoingClient
  imports ClientManagers Utils
begin

text \<open>
  The client stream, \<^verbatim>\<open>QXmppOutgoingClient\<close> and \<^verbatim>\<open>QXmppOutgoingClientPrivate\<close> in
  \<^verbatim>\<open>src/client/QXmppOutgoingClient.cpp\<close>, with the connection state of
  \<^verbatim>\<open>XmppSocket\<close> (\<^verbatim>\<open>src/base/Stream.cpp\<close>): connecting and falling back to the next address,
  STARTTLS, authentication, resumption, resource binding, the session, and the elements that
  arrive in it.

  The state of the stream is one record that the handlers return updated.  What is written to
  the socket goes to the log \<^term>\<open>wire\<close>, with the mode of the socket at that moment; nothing is
  written unless the socket is connected.  Signals are a log as well.  The stream reacts to
  events: those of the socket, of its timers, and the calls of the client.  A continuation that
  waits for an element is run where the listener reports that it is finished.

  The socket closes asynchronously: its \<^verbatim>\<open>disconnected\<close> signal is an event of its own.  The
  slots of the application and of the extensions are outside: whether an extension takes an
  element is an input of the event.
\<close>

section \<open>Configuration and environment\<close>

datatype StreamSecurityMode = TLSEnabled | TLSDisabled | TLSRequired | LegacySSL

record client_options =
  streamSecurityMode :: StreamSecurityMode
  useSasl2Authentication :: bool
  useSASLAuthentication :: bool
  useNonSASLAuthentication :: bool
  nonSASLDigest :: bool
  resourcePrefix :: qstring
  cfg_host :: qstring
  cfg_port :: int
  keepAliveInterval :: int
  keepAliveTimeout :: int

text \<open>
  The environment: the parameters of the parts, the serializer of an element, whether TLS is
  available, and the options that stay the same.
\<close>

record client_env =
  ce_sasl :: sasl_env
  ce_nonza :: nonza_env
  ce_url :: url_host_port
  ce_print :: "dom \<Rightarrow> bytes"
  supportsSsl :: bool
  options :: client_options

datatype address_type = Tcp | Tls

record ServerAddress =
  addr_type :: address_type
  addr_host :: qstring
  addr_port :: "16 word"

definition XMPPS_DEFAULT_PORT :: "16 word" where "XMPPS_DEFAULT_PORT = 5223"

datatype ConnectionError = SocketErrorDetails nat | TimeoutError | StreamErrorDetails StreamError
  | AuthErrorDetails AuthError | BindError StanzaError

datatype LegacyError = LegacySocketError nat | LegacyTimeout | LegacyCondition Condition

datatype ClientError = ClientSocketError | KeepAliveError | XmppStreamError

fun legacyError :: "ConnectionError \<Rightarrow> LegacyError" where
  "legacyError (SocketErrorDetails n) = LegacySocketError n"
| "legacyError TimeoutError = LegacyTimeout"
| "legacyError (StreamErrorDetails c) =
     LegacyCondition (if c = SE_Conflict then Conflict else if c = SE_NotAuthorized then NotAuthorized else UndefinedCondition)"
| "legacyError (AuthErrorDetails _) = LegacyCondition NotAuthorized"
| "legacyError (BindError err) = LegacyCondition (err_condition err)"

fun clientError :: "LegacyError \<Rightarrow> ClientError" where
  "clientError (LegacySocketError _) = ClientSocketError"
| "clientError LegacyTimeout = KeepAliveError"
| "clientError (LegacyCondition _) = XmppStreamError"

section \<open>State\<close>

datatype listener = LClient | LStarttls | LNonSasl NonSaslQuery | LSasl client_params SaslManager
  | LSasl2 client_params Sasl2Manager | LC2s | LBind BindManager

fun listener_index :: "listener \<Rightarrow> nat" where
  "listener_index LClient = 0"
| "listener_index LStarttls = 1"
| "listener_index (LNonSasl _) = 2"
| "listener_index (LSasl _ _) = 3"
| "listener_index (LSasl2 _ _) = 4"
| "listener_index LC2s = 5"
| "listener_index (LBind _) = 6"

fun TaskName :: "listener \<Rightarrow> qstring" where
  "TaskName LClient = ''client session''"
| "TaskName LStarttls = ''STARTTLS''"
| "TaskName (LNonSasl _) = ''Non-SASL authentication''"
| "TaskName (LSasl _ _) = ''SASL authentication''"
| "TaskName (LSasl2 _ _) = ''SASL 2 authentication''"
| "TaskName LC2s = ''stream management''"
| "TaskName (LBind _) = ''resource binding''"

datatype signal = Connected SessionBegin | DisconnectedSignal bool | ErrorOccurred qstring ConnectionError ClientError
  | IqReceived QXmppIq | PresenceReceived dom | MessageReceived dom

datatype socket_state = Unconnected | Connecting | ConnectedState | Closing

record Client =
  fast :: FastTokenManager
  cfg_resource :: qstring
  client_error :: "(qstring \<times> ConnectionError) option"
  ack :: StreamAckManager
  iqs :: OutgoingIqManager
  c2s :: C2sStreamManager
  carbons :: CarbonManager
  csi :: CsiManager
  listener :: listener
  streamId :: qstring
  redirect :: "(qstring \<times> 16 word) option"
  isAuthenticated :: bool
  bindModeAvailable :: bool
  sessionStarted :: bool
  authenticationMethod :: AuthenticationMethod
  bind2Bound :: "Bind2Bound option"
  serverAddresses :: "ServerAddress list"
  nextServerAddressIndex :: nat
  tryNext :: bool
  lookupPending :: bool
  socketState :: socket_state
  sslMode :: bool
  encrypted :: bool
  m_directTls :: bool
  m_acceptInput :: bool
  pingTimer :: bool
  timeoutTimer :: bool
  stanzaIdCounter :: nat
  packetCounter :: nat
  aborted :: bool
  connections :: "ServerAddress list"
  wire :: "(bool \<times> sock_out) list"
  signals :: "signal list"

definition new_Client :: "QXmppConfiguration \<Rightarrow> qstring \<Rightarrow> bool \<Rightarrow> Client" where
  "new_Client config resource carbonsViaBind2 = \<lparr>
     fast = \<lparr>ft_config = config, requestedMechanism = None, tokenChanged = False\<rparr>, cfg_resource = resource, client_error = None,
     ack = initial_ack_manager, iqs = new_IqManager, c2s = new_C2sStreamManager,
     carbons = \<lparr>m_enableViaBind2 = carbonsViaBind2, carbons_enabled = False, m_requested = False\<rparr>,
     csi = \<lparr>csi_state = CsiActive, m_synced = True, m_featureAvailable = False, m_bind2InactiveSet = False\<rparr>,
     listener = LClient, streamId = [], redirect = None, isAuthenticated = False, bindModeAvailable = False,
     sessionStarted = False, authenticationMethod = SaslAuthentication, bind2Bound = None,
     serverAddresses = [], nextServerAddressIndex = 0, tryNext = False, lookupPending = False,
     socketState = Unconnected, sslMode = False, encrypted = False, m_directTls = False, m_acceptInput = True,
     pingTimer = False, timeoutTimer = False, stanzaIdCounter = 0, packetCounter = 0, aborted = False,
     connections = [], wire = [], signals = []\<rparr>"

section \<open>Configuration access\<close>

definition user_name :: "Client \<Rightarrow> qstring" where "user_name s = cfg_user (authConfig (ft_config (fast s)))"
definition domain :: "Client \<Rightarrow> qstring" where "domain s = cfg_domain (authConfig (ft_config (fast s)))"

definition config_jidBare :: "QXmppConfiguration \<Rightarrow> qstring" where
  "config_jidBare config =
     (if cfg_user (authConfig config) = [] then cfg_domain (authConfig config)
      else cfg_user (authConfig config) @ ''@'' @ cfg_domain (authConfig config))"

definition jidBare :: "Client \<Rightarrow> qstring" where "jidBare s = config_jidBare (ft_config (fast s))"

definition set_address :: "qstring \<Rightarrow> qstring \<Rightarrow> Client \<Rightarrow> Client" where
  "set_address u d s = s\<lparr>fast := (fast s)\<lparr>ft_config := (ft_config (fast s))\<lparr>authConfig :=
     (authConfig (ft_config (fast s)))\<lparr>cfg_user := u, cfg_domain := d\<rparr>\<rparr>\<rparr>\<rparr>"

definition setJid :: "qstring \<Rightarrow> Client \<Rightarrow> Client" where
  "setJid jid s =
     (let s1 = set_address (jidToUser jid) (jidToDomain jid) s
      in if jidToResource jid \<noteq> [] then s1\<lparr>cfg_resource := jidToResource jid\<rparr> else s1)"

section \<open>The socket\<close>

definition put :: "sock_out \<Rightarrow> Client \<Rightarrow> Client" where
  "put d s = (if socketState s = ConnectedState then s\<lparr>wire := wire s @ [(sslMode s, d)]\<rparr> else s)"

definition put_xml :: "dom list \<Rightarrow> Client \<Rightarrow> Client" where
  "put_xml ds s = fold put (map Xml ds) s"

text \<open>
  An operation of the managers that share the socket: what they wrote is sent, and what they
  reported about packets goes to the requests that wait for it.
\<close>

definition via_c2s :: "(C2sStreamManager \<times> StreamAckManager \<Rightarrow> C2sStreamManager \<times> StreamAckManager) \<Rightarrow> Client \<Rightarrow> Client" where
  "via_c2s f s =
     (let (c, a) = f (c2s s, (ack s)\<lparr>sock := []\<rparr>)
      in fold put (sock a) (s\<lparr>c2s := c, ack := a\<lparr>sock := []\<rparr>,
           iqs := fold report_send (drop (length (reports (ack s))) (reports a)) (iqs s)\<rparr>))"

definition via_ack :: "(StreamAckManager \<Rightarrow> StreamAckManager) \<Rightarrow> Client \<Rightarrow> Client" where
  "via_ack f = via_c2s (apsnd f)"

definition socket_connect :: "ServerAddress \<Rightarrow> Client \<Rightarrow> Client" where
  "socket_connect address s =
     (let direct = (addr_type address = Tls);
          s1 = s\<lparr>m_directTls := direct, connections := connections s @ [address]\<rparr>
      in if socketState s = Unconnected then s1\<lparr>socketState := Connecting, sslMode := direct, encrypted := False\<rparr> else s1)"

definition socket_disconnect :: "Client \<Rightarrow> Client" where
  "socket_disconnect s =
     (let s1 = (if socketState s = ConnectedState then (put (Raw (ascii ''</stream:stream>'')) s)\<lparr>socketState := Closing\<rparr> else s)
      in s1\<lparr>m_acceptInput := False\<rparr>)"

definition resetStream :: "Client \<Rightarrow> Client" where
  "resetStream s = s\<lparr>m_acceptInput := True\<rparr>"

section \<open>Errors, identifiers, packets\<close>

definition disconnectFromHost :: "Client \<Rightarrow> Client" where
  "disconnectFromHost s = socket_disconnect (s\<lparr>c2s := c2s_onStreamClosed (c2s s)\<rparr>)"

definition setError :: "qstring \<Rightarrow> ConnectionError \<Rightarrow> Client \<Rightarrow> Client" where
  "setError text details s = s\<lparr>client_error := Some (text, details),
     signals := signals s @ [ErrorOccurred text details (clientError (legacyError details))]\<rparr>"

definition xmppStreamError :: "Client \<Rightarrow> Condition" where
  "xmppStreamError s =
     (case client_error s of Some (_, details) \<Rightarrow> (case legacyError details of LegacyCondition c \<Rightarrow> c | _ \<Rightarrow> NoCondition) | None \<Rightarrow> NoCondition)"

definition generateSequentialStanzaId :: "Client \<Rightarrow> qstring \<times> Client" where
  "generateSequentialStanzaId s =
     (let n = stanzaIdCounter s + 1 in (''qx'' @ number n, s\<lparr>stanzaIdCounter := n\<rparr>))"

definition send_packet :: "bytes \<Rightarrow> bool \<Rightarrow> Client \<Rightarrow> Client" where
  "send_packet data stanza s =
     (let p = \<lparr>packet_id = packetCounter s, packet_data = data, isXmppStanza = stanza\<rparr>
      in via_ack (\<lambda>a. snd (internalSend (socketState s = ConnectedState) p a)) (s\<lparr>packetCounter := packetCounter s + 1\<rparr>))"

text \<open>The bare address of the account is meant when a request has no address.\<close>

definition client_sendIq :: "client_env \<Rightarrow> qstring \<Rightarrow> qstring \<Rightarrow> QXmppIq \<Rightarrow> Client \<Rightarrow> Client" where
  "client_sendIq E uuid1 uuid2 iq s =
     (let to = (if st_to iq = [] then jidBare s else st_to iq);
          (m, a) = iq_sendIq (ce_nonza E) (ce_print E) (socketState s = ConnectedState) (packetCounter s) uuid1 uuid2 iq to
            (iqs s, (ack s)\<lparr>sock := []\<rparr>)
      in fold put (sock a) (s\<lparr>packetCounter := packetCounter s + 1, iqs := m, ack := a\<lparr>sock := []\<rparr>\<rparr>))"

section \<open>Session\<close>

definition openSession :: "client_env \<Rightarrow> Client \<Rightarrow> Client" where
  "openSession E s =
     (let session = \<lparr>sb_smEnabled = c2s_enabled (c2s s), sb_smResumed = m_streamResumed (c2s s), sb_bind2Used = (bind2Bound s \<noteq> None),
            sb_fastTokenChanged = (authenticationMethod s = Sasl2Authentication \<and> tokenChanged (fast s)),
            sb_authenticationMethod = authenticationMethod s\<rparr>;
          (c, out) = csi_onSessionOpened (m_streamResumed (c2s s)) (isAuthenticated s) (socketState s = ConnectedState) session (csi s);
          s1 = s\<lparr>sessionStarted := True, bind2Bound := None, iqs := iq_onSessionOpened (sb_smResumed session) (iqs s),
                 carbons := carbons_onSessionOpened session (carbons s), csi := c\<rparr>;
          s2 = put_xml out s1
      in s2\<lparr>signals := signals s2 @ [Connected session],
            pingTimer := (if keepAliveInterval (options E) > 0 then True else pingTimer s2)\<rparr>)"

definition closeSession :: "Client \<Rightarrow> Client" where
  "closeSession s =
     (let canResume = m_canResume (c2s s);
          s1 = via_ack onSessionClosed (s\<lparr>sessionStarted := False\<rparr>);
          s2 = s1\<lparr>iqs := iq_onSessionClosed canResume (iqs s1)\<rparr>
      in s2\<lparr>signals := signals s2 @ [DisconnectedSignal canResume], pingTimer := False, timeoutTimer := False\<rparr>)"

section \<open>Stream management and resource binding\<close>

definition startSmResume :: "Client \<Rightarrow> Client" where
  "startSmResume s =
     (let (c, el) = c2s_requestResume (c2s s) (ack s) in put_xml [el] (s\<lparr>listener := LC2s, c2s := c\<rparr>))"

definition startSmEnable :: "Client \<Rightarrow> Client" where
  "startSmEnable s =
     (let (c, el) = c2s_requestEnable (c2s s) in put_xml [el] (s\<lparr>listener := LClient, c2s := c\<rparr>))"

definition startResourceBinding :: "Client \<Rightarrow> Client" where
  "startResourceBinding s =
     (let (i, s1) = generateSequentialStanzaId s; (m, el) = bindAddress i (cfg_resource s1) new_BindManager
      in put_xml [el] (s1\<lparr>listener := LBind m\<rparr>))"

text \<open>The continuations of the three requests.\<close>

definition sm_resume_done :: "client_env \<Rightarrow> Client \<Rightarrow> Client" where
  "sm_resume_done E s =
     (if m_streamResumed (c2s s) then openSession E s
      else if bindModeAvailable s then startResourceBinding s else openSession E s)"

fun bind_done :: "client_env \<Rightarrow> BindResult \<Rightarrow> Client \<Rightarrow> Client" where
  "bind_done E (Bound addr) s =
     (let s1 = (set_address (bound_user addr) (bound_domain addr) s)\<lparr>cfg_resource := bound_resource addr\<rparr>
      in if canRequestEnable (c2s s1) then startSmEnable s1 else openSession E s1)"
| "bind_done E (BindProtocolError text) s =
     disconnectFromHost (setError (''Resource binding failed: '' @ text) (StreamErrorDetails SE_UndefinedCondition) s)"
| "bind_done E (BindStanzaError err) s =
     disconnectFromHost (setError (''Resource binding failed: '' @ err_text err) (BindError err) s)"

definition sm_done :: "client_env \<Rightarrow> sm_request \<Rightarrow> Client \<Rightarrow> Client" where
  "sm_done E request s = (if request = ResumeRequest then sm_resume_done E s else openSession E s)"

section \<open>Start of the stream\<close>

definition StreamOpen_toXml :: "StreamOpen \<Rightarrow> dom" where
  "StreamOpen_toXml o1 = Elem ''stream'' ns_stream
     (concat (map item_attrs (OptionalAttribute ''from'' (so_from o1) @ OptionalAttribute ''to'' (so_to o1) @
        OptionalAttribute ''id'' (so_id o1) @ OptionalAttribute ''version'' (so_version o1)))) []"

definition handleStart :: "Client \<Rightarrow> Client" where
  "handleStart s =
     put_xml [StreamOpen_toXml \<lparr>so_to = domain s, so_from = (if user_name s = [] then [] else jidBare s), so_id = [],
       so_version = ''1.0'', so_xmlns = ns_client\<rparr>]
       (s\<lparr>streamId := [], listener := LClient, c2s := c2s_onStreamStart (c2s s)\<rparr>)"

section \<open>Authentication\<close>

definition startNonSaslAuth :: "client_env \<Rightarrow> Client \<Rightarrow> Client" where
  "startNonSaslAuth E s =
     (let (i, s1) = generateSequentialStanzaId s; (q, el) = queryOptions (ce_sasl E) (ce_nonza E) i (domain s1) (user_name s1)
      in put_xml [el] (s1\<lparr>listener := LNonSasl q\<rparr>))"

fun nonsasl_done :: "client_env \<Rightarrow> NonSaslResult \<Rightarrow> Client \<Rightarrow> Client" where
  "nonsasl_done E (Options (Inr available)) s =
     (case nonsasl_plainText (nonSASLDigest (options E)) available of
        None \<Rightarrow> disconnectFromHost s
      | Some plainText \<Rightarrow>
          let (i, s1) = generateSequentialStanzaId s;
              (q, el) = nonsasl_authenticate (ce_sasl E) (ce_nonza E) i plainText (user_name s1)
                (password (credentialData (authConfig (ft_config (fast s1))))) (cfg_resource s1) (streamId s1)
          in put_xml [el] (s1\<lparr>listener := LNonSasl q\<rparr>))"
| "nonsasl_done E (Options (Inl err)) s = disconnectFromHost s"
| "nonsasl_done E (AuthResult (Inr _)) s =
     openSession E (s\<lparr>isAuthenticated := True, authenticationMethod := NonSaslAuthentication\<rparr>)"
| "nonsasl_done E (AuthResult (Inl err)) s = disconnectFromHost s"

fun sasl_done :: "unit auth_result \<Rightarrow> Client \<Rightarrow> Client" where
  "sasl_done (Inr _) s = handleStart (resetStream (s\<lparr>isAuthenticated := True, authenticationMethod := SaslAuthentication\<rparr>))"
| "sasl_done (Inl err) s = disconnectFromHost (setError (ae_message err) (AuthErrorDetails err) s)"

text \<open>What a manager sent and the results of its task.\<close>

definition run_sasl :: "client_params \<Rightarrow> SaslManager \<Rightarrow> Client \<Rightarrow> Client" where
  "run_sasl c m s = fold sasl_done (sm_results m)
     (put_xml (sm_sent m) (s\<lparr>listener := LSasl c (m\<lparr>sm_sent := [], sm_results := []\<rparr>)\<rparr>))"

definition startSaslAuth :: "client_env \<Rightarrow> bytes \<Rightarrow> qstring list \<Rightarrow> Client \<Rightarrow> Client" where
  "startSaslAuth E nonce mechanisms s =
     (let config = authConfig (ft_config (fast s))
      in run_sasl (config_params config) (sasl_authenticate (ce_sasl E) (ce_nonza E) nonce config mechanisms new_SaslManager) s)"

fun sasl2_done :: "client_env \<Rightarrow> Sasl2_Success auth_result \<Rightarrow> Client \<Rightarrow> Client" where
  "sasl2_done E (Inr success) s =
     (let s1 = (setJid (authorizationIdentifier success)
                 (s\<lparr>isAuthenticated := True, authenticationMethod := Sasl2Authentication\<rparr>))\<lparr>bind2Bound := success_bound success\<rparr>;
          s2 = s1\<lparr>fast := onSasl2Success success (fast s1)\<rparr>;
          s3 = via_c2s (c2s_onSasl2Success success) s2;
          s4 = (case success_bound success of Some b \<Rightarrow> via_c2s (c2s_onBind2Bound (ce_url E) b) s3 | None \<Rightarrow> s3)
      in if success_smResumed success \<noteq> None then openSession E s4 else s4)"
| "sasl2_done E (Inl err) s = disconnectFromHost (setError (ae_message err) (AuthErrorDetails err) s)"

definition run_sasl2 :: "client_env \<Rightarrow> client_params \<Rightarrow> Sasl2Manager \<Rightarrow> Client \<Rightarrow> Client" where
  "run_sasl2 E c m s = fold (sasl2_done E) (s2_results m)
     (put_xml (s2_sent m) (s\<lparr>listener := LSasl2 c (m\<lparr>s2_sent := [], s2_results := []\<rparr>)\<rparr>))"

definition createBind2Request :: "client_env \<Rightarrow> qstring list \<Rightarrow> Client \<Rightarrow> Bind2Request \<times> Client" where
  "createBind2Request E bind2Features s =
     (let r0 = \<lparr>bind_tag = resourcePrefix (options E), csiInactive = False, carbonsEnable = False, smEnable = None\<rparr>;
          (r1, ca) = carbons_onBind2Request bind2Features r0 (carbons s);
          (r2, cs) = csi_onBind2Request bind2Features r1 (csi s)
      in (c2s_onBind2Request bind2Features r2, s\<lparr>carbons := ca, csi := cs\<rparr>))"

definition startSasl2Auth :: "client_env \<Rightarrow> bytes \<Rightarrow> Sasl2_StreamFeature \<Rightarrow> Client \<Rightarrow> Client" where
  "startSasl2Auth E nonce feature s =
     (let (bind, s1) = (case bind2Feature feature of None \<Rightarrow> (None, s)
                        | Some fs \<Rightarrow> let (r, s') = createBind2Request E fs s in (Some r, s'));
          request = \<lparr>authenticate_mechanism = [], initialResponse = [], userAgent = None, bindRequest = bind, auth_smResume = None,
                     tokenRequest = None, auth_fast = None\<rparr>;
          (request1, fast1) = onSasl2Authenticate request feature (fast s1);
          request2 = c2s_onSasl2Authenticate (c2s s1) (ack s1) feature request1
      in run_sasl2 E (config_params (authConfig (ft_config fast1)))
           (sasl2_authenticate (ce_sasl E) (ce_nonza E) nonce request2 (ft_config fast1) feature new_Sasl2Manager)
           (s1\<lparr>fast := fast1\<rparr>))"

section \<open>Stream header and features\<close>

definition quoted :: "qstring \<Rightarrow> qstring" where "quoted s = [CHR 0x27] @ s @ [CHR 0x27]"

definition handleStream :: "client_env \<Rightarrow> StreamOpen \<Rightarrow> Client \<Rightarrow> Client" where
  "handleStream E stream s =
     (if so_from stream \<noteq> domain s then
        disconnectFromHost (setError (''Peer serves '' @ quoted (so_from stream) @ '' instead of '' @ quoted (domain s) @ '' as expected.'')
          (StreamErrorDetails SE_HostUnknown) s)
      else if so_id stream = [] then
        disconnectFromHost (put_xml [StreamErrorElement_toXml
            \<lparr>se_condition = PlainCondition SE_UndefinedCondition, se_text = ''Stream ID missing.''\<rparr>]
          (setError ''Server did not respond with a stream ID.'' (StreamErrorDetails SE_UndefinedCondition) s))
      else let s1 = s\<lparr>streamId := so_id stream\<rparr>
           in if so_version stream = [] \<and> useNonSASLAuthentication (options E) then startNonSaslAuth E s1 else s1)"

text \<open>\<^term>\<open>None\<close> when STARTTLS is not the next step.\<close>

definition handleStarttls :: "client_env \<Rightarrow> QXmppStreamFeatures \<Rightarrow> Client \<Rightarrow> Client option" where
  "handleStarttls E features s =
     (let localSecurity = streamSecurityMode (options E); remoteSecurity = tlsMode features
      in if \<not> encrypted s then
           if localSecurity = TLSRequired \<and> remoteSecurity = FeatureDisabled then Some (disconnectFromHost s)
           else if \<not> supportsSsl E \<and> (localSecurity = TLSRequired \<or> remoteSecurity = FeatureRequired) then Some (disconnectFromHost s)
           else if supportsSsl E \<and> localSecurity \<noteq> TLSDisabled \<and> remoteSecurity \<noteq> FeatureDisabled
           then Some ((put_xml [written StarttlsRequest_toXml] s)\<lparr>listener := LStarttls\<rparr>)
           else None
         else None)"

definition handleStreamFeatures :: "client_env \<Rightarrow> bytes \<Rightarrow> QXmppStreamFeatures \<Rightarrow> Client \<Rightarrow> Client" where
  "handleStreamFeatures E nonce features s =
     (case handleStarttls E features s of
        Some s' \<Rightarrow> s'
      | None \<Rightarrow>
          let nonSaslAvailable = (nonSaslAuthMode features \<noteq> FeatureDisabled);
              saslAvailable = (authMechanisms features \<noteq> [])
          in case (if useSasl2Authentication (options E) then sasl2Feature features else None) of
               Some feature \<Rightarrow> startSasl2Auth E nonce feature s
             | None \<Rightarrow>
                 if saslAvailable \<and> useSASLAuthentication (options E) then startSaslAuth E nonce (authMechanisms features) s
                 else if nonSaslAvailable \<and> useNonSASLAuthentication (options E) then startNonSaslAuth E s
                 else let s1 = s\<lparr>bindModeAvailable := (bindMode features \<noteq> FeatureDisabled),
                                 c2s := c2s_onStreamFeatures features (c2s s), csi := csi_onStreamFeatures features (csi s)\<rparr>
                      in if canRequestResume (c2s s1) then startSmResume s1
                         else if bindModeAvailable s1 then startResourceBinding s1
                         else if canRequestEnable (c2s s1) then startSmEnable s1
                         else openSession E s1)"

definition handleStreamError :: "StreamErrorElement \<Rightarrow> Client \<Rightarrow> Client" where
  "handleStreamError streamError s =
     (case se_condition streamError of
        SeeOtherHost host p \<Rightarrow> socket_disconnect (s\<lparr>redirect := Some (host, p)\<rparr>)
      | PlainCondition c \<Rightarrow>
          setError (''Received stream error ('' @ enum_toString StreamError_Values c @ ''): '' @ se_text streamError) (StreamErrorDetails c) s)"

section \<open>Received elements\<close>

text \<open>The constructor of an IQ draws an identifier that is then replaced.\<close>

definition unsupported_reply :: "client_env \<Rightarrow> dom \<Rightarrow> dom" where
  "unsupported_reply E stanza = hd (item_nodes ns_client (QXmppIq_toXml (ce_nonza E)
     \<lparr>st_to = attr ''from'' stanza, st_from = [], st_id = attr ''id'' stanza, st_lang = [],
      st_error = Some (new_StanzaError\<lparr>err_type := Cancel, err_condition := FeatureNotImplemented\<rparr>),
      st_extensions = [], st_addresses = [], iq_type = IqError\<rparr>))"

definition client_handleStanza :: "client_env \<Rightarrow> dom \<Rightarrow> Client \<Rightarrow> bool \<times> Client" where
  "client_handleStanza E stanza s =
     (if tagName stanza = ''iq'' then
        if attr ''type'' stanza = ''result'' \<or> attr ''type'' stanza = ''error''
        then let s1 = snd (generateSequentialStanzaId s)
             in (True, s1\<lparr>signals := signals s1 @ [IqReceived (QXmppIq_parse (ce_nonza E) stanza)]\<rparr>)
        else if attr ''type'' stanza = ''get'' \<or> attr ''type'' stanza = ''set''
        then (True, send_packet (ce_print E (unsupported_reply E stanza)) True (snd (generateSequentialStanzaId s)))
        else (False, s)
      else if tagName stanza = ''presence'' then (True, s\<lparr>signals := signals s @ [PresenceReceived stanza]\<rparr>)
      else if tagName stanza = ''message'' then (True, s\<lparr>signals := signals s @ [MessageReceived stanza]\<rparr>)
      else (False, s))"

text \<open>What the environment adds to an element: whether an extension takes it, and the nonce a new SASL client draws.\<close>

record element_input =
  in_handled :: bool
  in_nonce :: bytes

definition client_handleElement :: "client_env \<Rightarrow> element_input \<Rightarrow> dom \<Rightarrow> Client \<Rightarrow> HandleElementResult \<times> Client" where
  "client_handleElement E inp el s =
     (let s1 = via_ack (\<lambda>a. snd (handleStanza el a)) s
      in if fst (handleStanza el (ack s)) then (Accepted, s1)
         else let (answered, m) = iq_handleStanza (ce_nonza E) el (iqs s1); s2 = s1\<lparr>iqs := m\<rparr>
              in if answered \<or> in_handled inp then (Accepted, s2)
                 else if isStreamFeatures el
                 then (Accepted, handleStreamFeatures E (in_nonce inp) (QXmppStreamFeatures_parse el) s2)
                 else if namespaceURI el = ns_stream \<and> tagName el = ''error''
                 then (Accepted, case StreamErrorElement_fromDom (ce_url E) el of Inr err \<Rightarrow> handleStreamError err s2 | Inl _ \<Rightarrow> s2)
                 else if namespaceURI el = ns_client
                 then (let (known, s3) = client_handleStanza E el s2 in (if known then Accepted else Rejected, s3))
                 else if m_request (c2s s2) \<noteq> NoRequest
                 then (let request = m_request (c2s s2); s3 = via_c2s (\<lambda>p. snd (c2s_handleElement (ce_url E) el p)) s2
                       in if fst (c2s_handleElement (ce_url E) el (c2s s2, ack s2)) \<noteq> Rejected then (Accepted, sm_done E request s3)
                          else (Rejected, s3))
                 else (Rejected, s2))"

definition dispatch :: "client_env \<Rightarrow> element_input \<Rightarrow> dom \<Rightarrow> Client \<Rightarrow> HandleElementResult \<times> Client" where
  "dispatch E inp el s =
     (case listener s of
        LClient \<Rightarrow> client_handleElement E inp el s
      | LStarttls \<Rightarrow>
          (let r = starttls_handleElement el
           in (r, if r = Finished \<and> socketState s = ConnectedState then s\<lparr>sslMode := True\<rparr> else s))
      | LNonSasl q \<Rightarrow>
          (let (r, result, q') = nonsasl_handleElement (ce_nonza E) el q; s1 = s\<lparr>listener := LNonSasl q'\<rparr>
           in (r, case result of None \<Rightarrow> s1 | Some v \<Rightarrow> nonsasl_done E v s1))
      | LSasl c m \<Rightarrow>
          (let (r, m') = sasl_handleElement (ce_sasl E) (ce_nonza E) c el m in (r, run_sasl c m' s))
      | LSasl2 c m \<Rightarrow>
          (let (r, m') = sasl2_handleElement (ce_sasl E) (ce_nonza E) c el m in (r, run_sasl2 E c m' s))
      | LC2s \<Rightarrow>
          (let request = m_request (c2s s); r = fst (c2s_handleElement (ce_url E) el (c2s s, ack s));
               s1 = via_c2s (\<lambda>p. snd (c2s_handleElement (ce_url E) el p)) s
           in (r, if r = Finished then sm_done E request s1 else s1))
      | LBind m \<Rightarrow>
          (let (r, result, m') = bind_handleElement (ce_nonza E) el m; s1 = s\<lparr>listener := LBind m'\<rparr>
           in (r, case result of None \<Rightarrow> s1 | Some v \<Rightarrow> bind_done E v s1)))"

definition handlePacketReceived :: "client_env \<Rightarrow> element_input \<Rightarrow> dom \<Rightarrow> Client \<Rightarrow> Client" where
  "handlePacketReceived E inp el s0 =
     (let s = s0\<lparr>timeoutTimer := False\<rparr>; index = listener_index (listener s); (r, s1) = dispatch E inp el s
      in case r of
           Accepted \<Rightarrow> s1
         | Rejected \<Rightarrow>
             disconnectFromHost (setError (''Unexpected element received while handling '' @ TaskName (listener s1) @ ''.'')
               (StreamErrorDetails SE_UndefinedCondition) s1)
         | Finished \<Rightarrow> if listener_index (listener s1) = index then s1\<lparr>listener := LClient\<rparr> else s1)"

section \<open>Connecting\<close>

definition connectToNextAddress :: "Client \<Rightarrow> Client" where
  "connectToNextAddress s0 =
     (let s = s0\<lparr>tryNext := False\<rparr>; i = nextServerAddressIndex s
      in if i < length (serverAddresses s)
         then socket_connect (serverAddresses s ! i) (s\<lparr>nextServerAddressIndex := i + 1\<rparr>)
         else s\<lparr>aborted := True\<rparr>)"

definition connectToAddressList :: "ServerAddress list \<Rightarrow> Client \<Rightarrow> Client" where
  "connectToAddressList addresses s =
     connectToNextAddress (s\<lparr>serverAddresses := addresses, nextServerAddressIndex := 0\<rparr>)"

definition tls_addresses :: "qstring \<Rightarrow> address_type \<Rightarrow> ServerAddress list" where
  "tls_addresses host second =
     [\<lparr>addr_type = Tls, addr_host = host, addr_port = XMPPS_DEFAULT_PORT\<rparr>,
      \<lparr>addr_type = second, addr_host = host, addr_port = word_of_int XMPP_DEFAULT_PORT\<rparr>]"

definition ssl_internal_error :: nat where "ssl_internal_error = 20"

definition connectToHost :: "client_env \<Rightarrow> Client \<Rightarrow> Client" where
  "connectToHost E s =
     (let opts = options E
      in if hasResumeAddress (c2s s)
         then socket_connect \<lparr>addr_type = Tcp, addr_host = m_resumeHost (c2s s), addr_port = m_resumePort (c2s s)\<rparr> s
         else if cfg_host opts \<noteq> [] \<and> cfg_port opts \<noteq> 0
         then socket_connect \<lparr>addr_type = (if streamSecurityMode opts = LegacySSL then Tls else Tcp), addr_host = cfg_host opts,
                addr_port = word_of_int (cfg_port opts)\<rparr> s
         else if streamSecurityMode opts = LegacySSL
         then if \<not> supportsSsl E
              then setError ''Direct TLS is configured, but TLS support is not available locally'' (SocketErrorDetails ssl_internal_error) s
              else connectToAddressList (tls_addresses (domain s) Tls) s
         else s\<lparr>lookupPending := True\<rparr>)"

text \<open>The records of the two services, \<^term>\<open>None\<close> when a lookup failed.\<close>

definition hybrid_records :: "ServerAddress list option \<Rightarrow> ServerAddress list option \<Rightarrow> ServerAddress list option" where
  "hybrid_records r1 r2 =
     (if r1 = None \<and> r2 = None then None
      else Some ((case r1 of None \<Rightarrow> [] | Some as \<Rightarrow> as) @ (case r2 of None \<Rightarrow> [] | Some as \<Rightarrow> as)))"

definition srv_addresses :: "address_type \<Rightarrow> (qstring \<times> 16 word) list option \<Rightarrow> ServerAddress list option" where
  "srv_addresses t records = map_option (map (\<lambda>(h, p). \<lparr>addr_type = t, addr_host = h, addr_port = p\<rparr>)) records"

definition lookup_finished :: "client_env \<Rightarrow> (qstring \<times> 16 word) list option \<Rightarrow> (qstring \<times> 16 word) list option \<Rightarrow> Client \<Rightarrow> Client" where
  "lookup_finished E xmpps xmpp s =
     (let result = (if supportsSsl E then hybrid_records (srv_addresses Tls xmpps) (srv_addresses Tcp xmpp) else srv_addresses Tcp xmpp);
          fallback = tls_addresses (domain s) Tcp
      in connectToAddressList (case result of None \<Rightarrow> fallback | Some [] \<Rightarrow> fallback | Some as \<Rightarrow> as) (s\<lparr>lookupPending := False\<rparr>))"

definition handleSocketDisconnected :: "Client \<Rightarrow> Client" where
  "handleSocketDisconnected s0 =
     (let s = s0\<lparr>isAuthenticated := False\<rparr>
      in if tryNext s then connectToNextAddress s
         else case redirect s of
                Some (host, p) \<Rightarrow> (socket_connect \<lparr>addr_type = Tcp, addr_host = host, addr_port = p\<rparr> s)\<lparr>redirect := None\<rparr>
              | None \<Rightarrow> closeSession s)"

definition handleSocketError :: "qstring \<Rightarrow> ConnectionError \<Rightarrow> Client \<Rightarrow> Client" where
  "handleSocketError text details s =
     (if \<not> sessionStarted s \<and> nextServerAddressIndex s < length (serverAddresses s)
      then let s1 = s\<lparr>tryNext := True\<rparr>
           in if socketState s1 \<noteq> ConnectedState then connectToNextAddress s1 else s1
      else setError text details s)"

text \<open>An error of the XML parser, \<^verbatim>\<open>XmppSocket::throwError\<close>.\<close>

definition throwError :: "qstring \<Rightarrow> StreamError \<Rightarrow> Client \<Rightarrow> Client" where
  "throwError text condition s =
     (let s1 = put_xml [StreamErrorElement_toXml \<lparr>se_condition = PlainCondition condition, se_text = text\<rparr>] (s\<lparr>m_acceptInput := False\<rparr>)
      in socket_disconnect (handleSocketError text (StreamErrorDetails condition) s1))"

section \<open>Keep-alive\<close>

definition sendPing :: "client_env \<Rightarrow> Client \<Rightarrow> Client" where
  "sendPing E s =
     (let s1 = (if m_enabled (ack s) then via_ack sendAcknowledgementRequest s
                else let (i, s') = generateSequentialStanzaId s in send_packet (ce_print E (ping_iq (ce_nonza E) i (domain s'))) True s')
      in if keepAliveTimeout (options E) > 0 then s1\<lparr>timeoutTimer := True\<rparr> else s1)"

definition throwKeepAliveError :: "Client \<Rightarrow> Client" where
  "throwKeepAliveError s = disconnectFromHost (setError ''Ping timeout'' TimeoutError (s\<lparr>timeoutTimer := False\<rparr>))"

section \<open>Events\<close>

text \<open>
  \<^verbatim>\<open>ConnectToServer\<close> is the call of \<^verbatim>\<open>QXmppClient::connectToServer\<close> with a new configuration.
\<close>

datatype client_event = ConnectToServer QXmppConfiguration qstring | Reconnect
  | LookupFinished "(qstring \<times> 16 word) list option" "(qstring \<times> 16 word) list option"
  | SocketConnected | SocketEncrypted | SocketDisconnected | SocketError qstring nat | XmlError qstring StreamError
  | StreamReceived StreamOpen | Received dom element_input | StreamClosed
  | PingTimeout | KeepAliveTimeout
  | DisconnectRequest | SendPacket bytes bool | SendIq qstring qstring QXmppIq | SetCsiState CsiState

definition connectToServer :: "client_env \<Rightarrow> QXmppConfiguration \<Rightarrow> qstring \<Rightarrow> Client \<Rightarrow> Client" where
  "connectToServer E config resource s =
     (let s1 = (if jidBare s \<noteq> config_jidBare config then via_ack resetCache s else s)
      in connectToHost E (s1\<lparr>fast := (fast s1)\<lparr>ft_config := config\<rparr>, cfg_resource := resource\<rparr>))"

definition setCsiState :: "CsiState \<Rightarrow> Client \<Rightarrow> Client" where
  "setCsiState state s =
     (let (c, out) = csi_setState (isAuthenticated s) (socketState s = ConnectedState) state (csi s) in put_xml out (s\<lparr>csi := c\<rparr>))"

fun step :: "client_env \<Rightarrow> client_event \<Rightarrow> Client \<Rightarrow> Client" where
  "step E (ConnectToServer config resource) s = connectToServer E config resource s"
| "step E Reconnect s = connectToHost E s"
| "step E (LookupFinished xmpps xmpp) s = lookup_finished E xmpps xmpp s"
| "step E SocketConnected s =
     (let s1 = resetStream (s\<lparr>socketState := ConnectedState\<rparr>) in if \<not> m_directTls s1 then handleStart s1 else s1)"
| "step E SocketEncrypted s = handleStart (resetStream (s\<lparr>encrypted := True\<rparr>))"
| "step E SocketDisconnected s = handleSocketDisconnected (s\<lparr>socketState := Unconnected\<rparr>)"
| "step E (SocketError text code) s =
     handleSocketError text (SocketErrorDetails code) (if socketState s = Connecting then s\<lparr>socketState := Unconnected\<rparr> else s)"
| "step E (XmlError text condition) s = throwError text condition s"
| "step E (StreamReceived stream) s = handleStream E stream s"
| "step E (Received el inp) s = handlePacketReceived E inp el s"
| "step E StreamClosed s = disconnectFromHost s"
| "step E PingTimeout s = sendPing E s"
| "step E KeepAliveTimeout s = throwKeepAliveError s"
| "step E DisconnectRequest s = disconnectFromHost s"
| "step E (SendPacket data stanza) s = send_packet data stanza s"
| "step E (SendIq uuid1 uuid2 iq) s = client_sendIq E uuid1 uuid2 iq s"
| "step E (SetCsiState state) s = setCsiState state s"

text \<open>
  When an event can occur.  The client connects only while there is no connection; the socket
  connects once, is encrypted after TLS was asked for, and delivers what it received until it is
  disconnected; a timer fires only while it runs.
\<close>

fun may_occur :: "client_event \<Rightarrow> Client \<Rightarrow> bool" where
  "may_occur (ConnectToServer _ _) s \<longleftrightarrow> socketState s = Unconnected \<and> \<not> lookupPending s"
| "may_occur Reconnect s \<longleftrightarrow> socketState s = Unconnected \<and> \<not> lookupPending s"
| "may_occur (LookupFinished _ _) s \<longleftrightarrow> lookupPending s \<and> socketState s = Unconnected"
| "may_occur SocketConnected s \<longleftrightarrow> socketState s = Connecting"
| "may_occur SocketEncrypted s \<longleftrightarrow> socketState s = ConnectedState \<and> sslMode s \<and> \<not> encrypted s"
| "may_occur SocketDisconnected s \<longleftrightarrow> socketState s = ConnectedState \<or> socketState s = Closing"
| "may_occur (SocketError _ _) s \<longleftrightarrow> socketState s = Connecting \<or> socketState s = ConnectedState"
| "may_occur (XmlError _ _) s \<longleftrightarrow> (socketState s = ConnectedState \<or> socketState s = Closing) \<and> m_acceptInput s"
| "may_occur (StreamReceived _) s \<longleftrightarrow> socketState s = ConnectedState \<or> socketState s = Closing"
| "may_occur (Received _ _) s \<longleftrightarrow> socketState s = ConnectedState \<or> socketState s = Closing"
| "may_occur StreamClosed s \<longleftrightarrow> socketState s = ConnectedState \<or> socketState s = Closing"
| "may_occur PingTimeout s \<longleftrightarrow> pingTimer s"
| "may_occur KeepAliveTimeout s \<longleftrightarrow> timeoutTimer s"
| "may_occur _ s \<longleftrightarrow> True"

inductive reachable :: "client_env \<Rightarrow> Client \<Rightarrow> bool" for E where
  initial: "reachable E (new_Client config resource carbonsViaBind2)"
| event: "reachable E s \<Longrightarrow> may_occur ev s \<Longrightarrow> reachable E (step E ev s)"

text \<open>A sequence of events, each of which can occur.\<close>

fun run_events :: "client_env \<Rightarrow> client_event list \<Rightarrow> Client \<Rightarrow> Client option" where
  "run_events E [] s = Some s"
| "run_events E (ev # evs) s = (if may_occur ev s then run_events E evs (step E ev s) else None)"

lemma reachable_run: "run_events E evs s = Some t \<Longrightarrow> reachable E s \<Longrightarrow> reachable E t"
  by (induction evs arbitrary: s) (auto split: if_splits intro: reachable.event)

end
