(* ===== verification/ClientSafety.thy ===== *)
theory ClientSafety
  imports OutgoingClient SaslExchange
begin

text \<open>
  What the client stream keeps to whatever the server, the network and the application do: the
  invariants of its reachable states.
\<close>

section \<open>Credentials\<close>

text \<open>
  The elements that carry credentials: those of SASL and SASL 2, and every element with a child
  of the authentication without SASL.
\<close>

definition credential_element :: "dom \<Rightarrow> bool" where
  "credential_element d \<longleftrightarrow> namespaceURI d = ns_sasl \<or> namespaceURI d = ns_sasl_2 \<or> firstChildElement d [] ns_auth \<noteq> None"

fun credential_output :: "sock_out \<Rightarrow> bool" where
  "credential_output (Raw _) = False"
| "credential_output (Xml d) = credential_element d"

definition credentials_encrypted :: "Client \<Rightarrow> bool" where
  "credentials_encrypted s \<longleftrightarrow> (\<forall>(m, out) \<in> set (wire s). credential_output out \<longrightarrow> m)"

lemma ns_neq:
  "ns_stream_management \<noteq> ns_sasl" "ns_stream_management \<noteq> ns_sasl_2" "ns_stream \<noteq> ns_sasl" "ns_stream \<noteq> ns_sasl_2"
  "ns_tls \<noteq> ns_sasl" "ns_tls \<noteq> ns_sasl_2" "ns_csi \<noteq> ns_sasl" "ns_csi \<noteq> ns_sasl_2" "ns_client \<noteq> ns_sasl" "ns_client \<noteq> ns_sasl_2"
  "ns_bind \<noteq> ns_auth" "ns_auth \<noteq> []" "ns_stream_error \<noteq> ns_auth" "ns_client \<noteq> ns_auth"
  by (simp_all add: ns_stream_management_def ns_sasl_def ns_sasl_2_def ns_stream_def ns_tls_def ns_csi_def ns_client_def
      ns_bind_def ns_auth_def ns_stream_error_def)

named_theorems quiet \<open>outputs without credentials\<close>

lemma quiet_sm [quiet]:
  "\<not> credential_element (written (SmAck_toXml a))" "\<not> credential_element (written SmRequest_toXml)"
  "\<not> credential_element (written (SmResume_toXml r))" "\<not> credential_element (written (SmEnable_toXml e))"
  by (auto simp: credential_element_def written_def SmAck_toXml_def SmRequest_toXml_def SmResume_toXml_def SmEnable_toXml_def
      Element_def build_def ns_neq firstChildElement_find DefaultedBoolAttribute_def OptionalContent_def)

lemma quiet_stream [quiet]:
  "\<not> credential_element (StreamOpen_toXml o1)" "\<not> credential_element (written StarttlsRequest_toXml)"
  "\<not> credential_element (written CsiActive_toXml)" "\<not> credential_element (written CsiInactive_toXml)"
  by (simp_all add: credential_element_def written_def StreamOpen_toXml_def StarttlsRequest_toXml_def CsiActive_toXml_def
      CsiInactive_toXml_def Element_def build_def ns_neq firstChildElement_find)

lemma quiet_stream_error [quiet]: "\<not> credential_element (StreamErrorElement_toXml err)"
  by (cases "se_condition err")
     (simp_all add: credential_element_def StreamErrorElement_toXml_def StreamPrefixed_def ns_neq firstChildElement_find
       Element_def build_def matches_def OptionalTextElement_def writeTextOrEmptyElement_def ElementInherit_def)

lemma quiet_bind [quiet]: "\<not> credential_element (bind_request i resource)"
  by (simp add: credential_element_def bind_request_def build_def BindElement_toXml_def Element_def ns_neq
      firstChildElement_find matches_def)

section \<open>The acknowledgement manager writes no credentials\<close>

definition quiet_sock :: "StreamAckManager \<Rightarrow> bool" where
  "quiet_sock a \<longleftrightarrow> (\<forall>out \<in> set (sock a). \<not> credential_output out)"

lemma quiet_sendData: "\<not> credential_output d \<Longrightarrow> quiet_sock a \<Longrightarrow> quiet_sock (sendData d a)"
  by (simp add: quiet_sock_def sendData_def)

lemma quiet_fold: "(\<And>p a. quiet_sock a \<Longrightarrow> quiet_sock (f p a)) \<Longrightarrow> quiet_sock a \<Longrightarrow> quiet_sock (fold f ps a)"
  by (induction ps arbitrary: a) auto

lemma quiet_update [simp]:
  "quiet_sock (a\<lparr>m_enabled := b\<rparr>) = quiet_sock a" "quiet_sock (a\<lparr>m_unacknowledgedStanzas := u\<rparr>) = quiet_sock a"
  "quiet_sock (a\<lparr>m_lastOutgoingSequenceNumber := n\<rparr>) = quiet_sock a" "quiet_sock (a\<lparr>m_lastIncomingSequenceNumber := n\<rparr>) = quiet_sock a"
  "quiet_sock (a\<lparr>reports := r\<rparr>) = quiet_sock a"
  by (simp_all add: quiet_sock_def)

lemma quiet_simple [intro]:
  assumes "quiet_sock a"
  shows "quiet_sock (sendAcknowledgement a)" "quiet_sock (sendAcknowledgementRequest a)" "quiet_sock (reportFinished p r a)"
    "quiet_sock (insertNext p a)" "quiet_sock (onSessionClosed a)" "quiet_sock (resendOld p a)"
  using assms by (auto simp: sendAcknowledgement_def sendAcknowledgementRequest_def reportFinished_def insertNext_def Let_def
      onSessionClosed_def resendOld_def quiet intro!: quiet_sendData)

lemma quiet_ack_loop: "quiet_sock a \<Longrightarrow> quiet_sock (ack_loop h m a)"
  by (induction h m a rule: ack_loop.induct) (auto simp: quiet_simple)

lemma quiet_setAcknowledged: "quiet_sock a \<Longrightarrow> quiet_sock (setAcknowledgedSequenceNumber h a)"
  by (simp add: setAcknowledgedSequenceNumber_def quiet_ack_loop)

lemma quiet_enable: "quiet_sock a \<Longrightarrow> quiet_sock (enableStreamManagement r a)"
  unfolding enableStreamManagement_def Let_def
  by (auto intro!: quiet_simple quiet_fold quiet_sendData)

lemma quiet_handleStanza: "quiet_sock a \<Longrightarrow> quiet_sock (snd (handleStanza el a))"
  by (auto simp: handleStanza_def handleAcknowledgement_def split: option.splits intro: quiet_setAcknowledged)

lemma quiet_internalSend: "quiet_sock a \<Longrightarrow> quiet_sock (snd (internalSend w p a))"
  by (auto simp: internalSend_def Let_def intro!: quiet_simple quiet_sendData)

lemma quiet_resetCache: "quiet_sock a \<Longrightarrow> quiet_sock (resetCache a)"
  by (auto simp: resetCache_def intro!: quiet_fold)

section \<open>Safe changes of the state\<close>

text \<open>
  A change is safe when it keeps the mode of the connection, or closes it, and writes credentials
  in encrypted mode only.  Safe changes compose.
\<close>

definition safe_step :: "Client \<Rightarrow> Client \<Rightarrow> bool" where
  "safe_step s t \<longleftrightarrow> sslMode t = sslMode s \<and> encrypted t = encrypted s \<and> m_directTls t = m_directTls s \<and>
     (socketState t = socketState s \<or> socketState t = Closing \<and> socketState s = ConnectedState) \<and>
     (credentials_encrypted s \<longrightarrow> credentials_encrypted t)"

lemma safe_refl [simp]: "safe_step s s"
  by (simp add: safe_step_def)

lemma safe_trans: "safe_step s t \<Longrightarrow> safe_step t u \<Longrightarrow> safe_step s u"
  by (auto simp: safe_step_def)

lemma safe_same:
  "socketState t = socketState s \<Longrightarrow> sslMode t = sslMode s \<Longrightarrow> encrypted t = encrypted s \<Longrightarrow> m_directTls t = m_directTls s \<Longrightarrow>
   wire t = wire s \<Longrightarrow> safe_step s t"
  by (simp add: safe_step_def credentials_encrypted_def)

lemma put_sel [simp]:
  "socketState (put d s) = socketState s" "sslMode (put d s) = sslMode s" "encrypted (put d s) = encrypted s"
  "m_directTls (put d s) = m_directTls s" "listener (put d s) = listener s" "c2s (put d s) = c2s s" "ack (put d s) = ack s"
  "iqs (put d s) = iqs s" "csi (put d s) = csi s" "isAuthenticated (put d s) = isAuthenticated s"
  "sessionStarted (put d s) = sessionStarted s" "authenticationMethod (put d s) = authenticationMethod s"
  "signals (put d s) = signals s" "tryNext (put d s) = tryNext s" "serverAddresses (put d s) = serverAddresses s"
  "nextServerAddressIndex (put d s) = nextServerAddressIndex s" "aborted (put d s) = aborted s"
  "bindModeAvailable (put d s) = bindModeAvailable s" "redirect (put d s) = redirect s" "lookupPending (put d s) = lookupPending s"
  "fast (put d s) = fast s" "bind2Bound (put d s) = bind2Bound s" "pingTimer (put d s) = pingTimer s"
  "timeoutTimer (put d s) = timeoutTimer s" "carbons (put d s) = carbons s" "cfg_resource (put d s) = cfg_resource s"
  by (simp_all add: put_def)

lemma safe_put: "credential_output d \<longrightarrow> sslMode s \<Longrightarrow> safe_step s (put d s)"
  by (auto simp: safe_step_def credentials_encrypted_def put_def)

lemma safe_fold_put: "\<forall>d \<in> set ds. credential_output d \<longrightarrow> sslMode s \<Longrightarrow> safe_step s (fold put ds s)"
proof (induction ds arbitrary: s)
  case (Cons d ds)
  then have "safe_step s (put d s)" "safe_step (put d s) (fold put ds (put d s))" by (auto intro: safe_put)
  then show ?case using safe_trans by simp
qed simp


section \<open>Tame changes\<close>

text \<open>A tame change is safe and starts no authentication.\<close>

fun calm :: "listener \<Rightarrow> bool" where
  "calm (LNonSasl _) = False"
| "calm (LSasl _ _) = False"
| "calm (LSasl2 _ _) = False"
| "calm _ = True"

definition tame :: "Client \<Rightarrow> Client \<Rightarrow> bool" where
  "tame s t \<longleftrightarrow> safe_step s t \<and> (listener t = listener s \<or> calm (listener t))"

lemma tame_refl [simp]: "tame s s"
  by (simp add: tame_def)

lemma tame_trans [trans]: "tame s t \<Longrightarrow> tame t u \<Longrightarrow> tame s u"
  by (auto simp: tame_def intro: safe_trans)

lemma tame_same:
  "socketState t = socketState s \<Longrightarrow> sslMode t = sslMode s \<Longrightarrow> encrypted t = encrypted s \<Longrightarrow> m_directTls t = m_directTls s \<Longrightarrow>
   wire t = wire s \<Longrightarrow> listener t = listener s \<or> calm (listener t) \<Longrightarrow> tame s t"
  by (simp add: tame_def safe_same)

lemma tame_fold_put: "\<forall>d \<in> set ds. credential_output d \<longrightarrow> sslMode s \<Longrightarrow> tame s (fold put ds s)"
proof -
  have "listener (fold put ds s) = listener s" for ds s by (induction ds arbitrary: s) simp_all
  then show "\<forall>d \<in> set ds. credential_output d \<longrightarrow> sslMode s \<Longrightarrow> tame s (fold put ds s)"
    by (simp add: tame_def safe_fold_put)
qed

lemma tame_put_xml: "\<forall>d \<in> set ds. \<not> credential_element d \<Longrightarrow> tame s (put_xml ds s)"
  by (auto simp: put_xml_def intro!: tame_fold_put)

text \<open>Writing after a change of the rest of the state.\<close>

lemma tame_write:
  assumes "tame s t" and "\<forall>d \<in> set ds. \<not> credential_element d"
  shows "tame s (put_xml ds t)"
  using assms tame_trans tame_put_xml by blast

lemma tame_via_c2s:
  assumes "\<And>c a. quiet_sock a \<Longrightarrow> quiet_sock (snd (f (c, a)))"
  shows "tame s (via_c2s f s)"
proof -
  obtain c a where f: "f (c2s s, (ack s)\<lparr>sock := []\<rparr>) = (c, a)" by force
  have "quiet_sock ((ack s)\<lparr>sock := []\<rparr>)" by (simp add: quiet_sock_def)
  from assms [OF this, of "c2s s"] have q: "\<forall>d \<in> set (sock a). \<not> credential_output d" by (simp add: f quiet_sock_def)
  show ?thesis unfolding via_c2s_def f Let_def prod.case
    by (rule tame_trans [OF _ tame_fold_put]) (use q in \<open>auto intro: tame_same\<close>)
qed

lemma tame_via_ack: "(\<And>a. quiet_sock a \<Longrightarrow> quiet_sock (f a)) \<Longrightarrow> tame s (via_ack f s)"
  by (simp add: via_ack_def tame_via_c2s)

lemma tame_socket_disconnect: "tame s (socket_disconnect s)"
  by (auto simp: socket_disconnect_def Let_def tame_def safe_step_def put_def credentials_encrypted_def)

lemma tame_after: "tame s t \<Longrightarrow> (\<And>u. tame u (f u)) \<Longrightarrow> tame s (f t)"
  using tame_trans by blast

lemma tame_disconnectFromHost: "tame s (disconnectFromHost s)"
  unfolding disconnectFromHost_def by (rule tame_after [OF _ tame_socket_disconnect]) (simp add: tame_same)

lemma tame_setError: "tame s (setError text details s)"
  by (simp add: setError_def tame_same)

lemma tame_fail: "tame s (disconnectFromHost (setError text details s))"
  by (rule tame_after [OF tame_setError tame_disconnectFromHost])

lemma csi_quiet: "csi_onSessionOpened r b w session c = (c', out) \<Longrightarrow> \<forall>d \<in> set out. \<not> credential_element d"
  by (auto simp: csi_onSessionOpened_def csi_sendState_def Let_def quiet split: if_splits)

lemma tame_signal: "tame s t \<Longrightarrow> tame s (t\<lparr>signals := x, pingTimer := b\<rparr>)"
  by (simp add: tame_def safe_step_def credentials_encrypted_def)

lemma tame_openSession: "tame s (openSession E s)"
proof -
  obtain c out where out: "csi_onSessionOpened (m_streamResumed (c2s s)) (isAuthenticated s) (socketState s = ConnectedState)
      \<lparr>sb_smEnabled = c2s_enabled (c2s s), sb_smResumed = m_streamResumed (c2s s), sb_bind2Used = (bind2Bound s \<noteq> None),
       sb_fastTokenChanged = (authenticationMethod s = Sasl2Authentication \<and> tokenChanged (fast s)),
       sb_authenticationMethod = authenticationMethod s\<rparr> (csi s) = (c, out)" by force
  show ?thesis unfolding openSession_def Let_def out prod.case
    by (rule tame_signal [OF tame_write [OF _ csi_quiet [OF out]]]) (simp add: tame_same)
qed

lemma tame_closeSession: "tame s (closeSession s)"
proof -
  have "tame s (via_ack onSessionClosed (s\<lparr>sessionStarted := False\<rparr>))"
    by (rule tame_after [OF _ tame_via_ack]) (auto intro: tame_same)
  then show ?thesis unfolding closeSession_def Let_def
    by (rule tame_trans) (simp add: tame_same)
qed

lemma tame_requests:
  "tame s (startSmResume s)" "tame s (startSmEnable s)" "tame s (startResourceBinding s)"
  unfolding startSmResume_def c2s_requestResume_def startSmEnable_def c2s_requestEnable_def startResourceBinding_def
    generateSequentialStanzaId_def bindAddress_def Let_def prod.case
  by (rule tame_write; simp add: tame_same quiet)+

lemma tame_handleStart: "tame s (handleStart s)"
  unfolding handleStart_def by (rule tame_write) (simp_all add: tame_same quiet)

lemma tame_sm_done: "tame s (sm_done E request s)"
  by (simp add: sm_done_def sm_resume_done_def tame_openSession tame_requests)

lemma tame_bind_done: "tame s (bind_done E r s)"
proof (cases r)
  case (Bound addr)
  let ?s1 = "(set_address (bound_user addr) (bound_domain addr) s)\<lparr>cfg_resource := bound_resource addr\<rparr>"
  have "tame s ?s1" by (simp add: set_address_def tame_same)
  then have "tame s (startSmEnable ?s1)" "tame s (openSession E ?s1)" by (auto intro: tame_trans tame_requests tame_openSession)
  then show ?thesis by (simp add: Bound Let_def)
qed (simp_all add: tame_fail)

lemma tame_sasl_done: "tame s (sasl_done r s)"
proof (cases r)
  case (Inr u)
  have "tame s (resetStream (s\<lparr>isAuthenticated := True, authenticationMethod := SaslAuthentication\<rparr>))"
    by (simp add: resetStream_def tame_same)
  then show ?thesis using tame_after [OF _ tame_handleStart] by (simp add: Inr)
qed (simp add: tame_fail)

lemma quiet_onEnabled: "quiet_sock a \<Longrightarrow> quiet_sock (snd (c2s_onEnabled url r (c, a)))"
  by (simp add: c2s_onEnabled_def Let_def quiet_enable)

lemma quiet_onResumed: "quiet_sock a \<Longrightarrow> quiet_sock (snd (c2s_onResumed r (c, a)))"
  by (simp add: c2s_onResumed_def quiet_enable quiet_setAcknowledged)

lemma tame_sasl2_done: "tame s (sasl2_done E r s)"
proof (cases r)
  case (Inr success)
  let ?s1 = "(setJid (authorizationIdentifier success)
     (s\<lparr>isAuthenticated := True, authenticationMethod := Sasl2Authentication\<rparr>))\<lparr>bind2Bound := success_bound success\<rparr>"
  let ?s2 = "?s1\<lparr>fast := onSasl2Success success (fast ?s1)\<rparr>"
  let ?s3 = "via_c2s (c2s_onSasl2Success success) ?s2"
  let ?s4 = "case success_bound success of Some b \<Rightarrow> via_c2s (c2s_onBind2Bound (ce_url E) b) ?s3 | None \<Rightarrow> ?s3"
  have "tame s ?s2" by (simp add: setJid_def set_address_def Let_def tame_same)
  also have "tame ?s2 ?s3"
    by (rule tame_via_c2s) (simp add: c2s_onSasl2Success_def quiet_onResumed split: option.split)
  also have "tame ?s3 ?s4"
    by (auto simp: c2s_onBind2Bound_def quiet_onEnabled split: option.split intro!: tame_via_c2s)
  finally have s4: "tame s ?s4" .
  moreover have "tame s (openSession E ?s4)" by (rule tame_trans [OF s4 tame_openSession])
  ultimately show ?thesis by (simp add: Inr Let_def)
qed (simp add: tame_fail)

lemma tame_fold: "(\<And>x u. tame u (f x u)) \<Longrightarrow> tame s (fold f xs s)"
  by (induction xs arbitrary: s) (auto intro: tame_trans)


section \<open>The invariant of the connection\<close>

text \<open>What holds when TLS is required and the authentication without SASL is switched off.\<close>

definition strict_options :: "client_env \<Rightarrow> bool" where
  "strict_options E \<longleftrightarrow> streamSecurityMode (options E) = TLSRequired \<and> \<not> useNonSASLAuthentication (options E)"

definition on_line :: "Client \<Rightarrow> bool" where
  "on_line s \<longleftrightarrow> socketState s = ConnectedState \<or> socketState s = Closing"

fun sasl_listener :: "listener \<Rightarrow> bool" where
  "sasl_listener (LSasl _ _) = True"
| "sasl_listener (LSasl2 _ _) = True"
| "sasl_listener _ = False"

fun nonsasl_listener :: "listener \<Rightarrow> bool" where
  "nonsasl_listener (LNonSasl _) = True"
| "nonsasl_listener _ = False"

definition tls_inv :: "Client \<Rightarrow> bool" where
  "tls_inv s \<longleftrightarrow> credentials_encrypted s \<and> (encrypted s \<longrightarrow> sslMode s) \<and>
     (socketState s = Connecting \<longrightarrow> m_directTls s \<longrightarrow> sslMode s) \<and>
     (on_line s \<and> sasl_listener (listener s) \<longrightarrow> sslMode s) \<and> \<not> nonsasl_listener (listener s)"

lemma calm_listener: "calm l \<longleftrightarrow> \<not> sasl_listener l \<and> \<not> nonsasl_listener l"
  by (cases l) simp_all

lemma tls_inv_safe:
  assumes "tls_inv s" and "safe_step s t" and "\<not> nonsasl_listener (listener t)"
    and "sasl_listener (listener t) \<Longrightarrow> sasl_listener (listener s) \<or> sslMode s"
  shows "tls_inv t"
  using assms by (auto simp: tls_inv_def safe_step_def on_line_def)

lemma tls_inv_tame: "tls_inv s \<Longrightarrow> tame s t \<Longrightarrow> tls_inv t"
  by (rule tls_inv_safe) (auto simp: tame_def calm_listener tls_inv_def)

lemma tame_listener: "tame s t \<Longrightarrow> listener t = listener s \<or> calm (listener t)"
  by (simp add: tame_def)

lemma tls_inv_encrypted: "tls_inv s \<Longrightarrow> encrypted s \<Longrightarrow> sslMode s"
  by (simp add: tls_inv_def)

lemma run_sasl_inv:
  assumes "tls_inv s" and "sslMode s"
  shows "tls_inv (run_sasl c m s)"
proof -
  let ?t = "put_xml (sm_sent m) (s\<lparr>listener := LSasl c (m\<lparr>sm_sent := [], sm_results := []\<rparr>)\<rparr>)"
  have "tls_inv (s\<lparr>listener := LSasl c (m\<lparr>sm_sent := [], sm_results := []\<rparr>)\<rparr>)"
    using assms by (simp add: tls_inv_def on_line_def credentials_encrypted_def)
  then have "tls_inv ?t" unfolding put_xml_def by (rule tls_inv_tame [OF _ tame_fold_put]) (simp add: assms)
  then show ?thesis unfolding run_sasl_def by (rule tls_inv_tame [OF _ tame_fold [OF tame_sasl_done]])
qed

lemma run_sasl2_inv:
  assumes "tls_inv s" and "sslMode s"
  shows "tls_inv (run_sasl2 E c m s)"
proof -
  let ?t = "put_xml (s2_sent m) (s\<lparr>listener := LSasl2 c (m\<lparr>s2_sent := [], s2_results := []\<rparr>)\<rparr>)"
  have "tls_inv (s\<lparr>listener := LSasl2 c (m\<lparr>s2_sent := [], s2_results := []\<rparr>)\<rparr>)"
    using assms by (simp add: tls_inv_def on_line_def credentials_encrypted_def)
  then have "tls_inv ?t" unfolding put_xml_def by (rule tls_inv_tame [OF _ tame_fold_put]) (simp add: assms)
  then show ?thesis unfolding run_sasl2_def by (rule tls_inv_tame [OF _ tame_fold [OF tame_sasl2_done]])
qed

lemma createBind2Request_sel:
  "createBind2Request E fs s = (r, s') \<Longrightarrow> tame s s' \<and> sslMode s' = sslMode s"
  by (auto simp: createBind2Request_def carbons_onBind2Request_def csi_onBind2Request_def Let_def intro: tame_same)

lemma startSasl2Auth_inv:
  assumes "tls_inv s" and "sslMode s"
  shows "tls_inv (startSasl2Auth E nonce feature s)"
proof -
  obtain b s1 where bind: "(case bind2Feature feature of None \<Rightarrow> (None, s)
      | Some fs \<Rightarrow> case createBind2Request E fs s of (r, s') \<Rightarrow> (Some r, s')) = (b, s1)" by force
  then have s1: "tame s s1 \<and> sslMode s1 = sslMode s"
    by (auto split: option.splits prod.splits dest: createBind2Request_sel)
  have "tls_inv (s1\<lparr>fast := f\<rparr>)" "sslMode (s1\<lparr>fast := f\<rparr>)" for f
    using assms s1 tls_inv_tame [of s "s1\<lparr>fast := f\<rparr>"] tame_trans [of s s1 "s1\<lparr>fast := f\<rparr>"] by (simp_all add: tame_same)
  moreover obtain r1 f1 where "onSasl2Authenticate \<lparr>authenticate_mechanism = [], initialResponse = [], userAgent = None, bindRequest = b,
      auth_smResume = None, tokenRequest = None, auth_fast = None\<rparr> feature (fast s1) = (r1, f1)" by force
  ultimately show ?thesis unfolding startSasl2Auth_def Let_def bind prod.case by (simp add: run_sasl2_inv)
qed

text \<open>With these options nothing but TLS follows the features of an unencrypted stream.\<close>

lemma handleStarttls_strict: "strict_options E \<Longrightarrow> \<not> encrypted s \<Longrightarrow> handleStarttls E f s \<noteq> None"
  by (auto simp: handleStarttls_def strict_options_def Let_def)

lemma handleStarttls_tame: "handleStarttls E f s = Some t \<Longrightarrow> tame s t"
proof -
  have "tame s ((put_xml [written StarttlsRequest_toXml] s)\<lparr>listener := LStarttls\<rparr>)"
    by (rule tame_trans [OF tame_put_xml tame_same]) (simp_all add: quiet)
  then show "handleStarttls E f s = Some t \<Longrightarrow> tame s t"
    by (auto simp: handleStarttls_def Let_def tame_disconnectFromHost split: if_splits)
qed

lemma handleStreamFeatures_inv:
  assumes "strict_options E" and "tls_inv s"
  shows "tls_inv (handleStreamFeatures E nonce f s)"
proof (cases "handleStarttls E f s")
  case (Some t)
  then show ?thesis using tls_inv_tame [OF assms(2) handleStarttls_tame] by (simp add: handleStreamFeatures_def)
next
  case None
  then have "encrypted s" using handleStarttls_strict [OF assms(1), of s f] by auto
  then have ssl: "sslMode s" using assms(2) by (simp add: tls_inv_def)
  let ?s1 = "s\<lparr>bindModeAvailable := (bindMode f \<noteq> FeatureDisabled), c2s := c2s_onStreamFeatures f (c2s s),
    csi := csi_onStreamFeatures f (csi s)\<rparr>"
  have "tls_inv ?s1" using assms(2) tls_inv_tame [of s ?s1] by (simp add: tame_same)
  then have "tls_inv (startSmResume ?s1)" "tls_inv (startSmEnable ?s1)" "tls_inv (startResourceBinding ?s1)" "tls_inv (openSession E ?s1)"
    by (auto intro: tls_inv_tame tame_requests tame_openSession)
  then show ?thesis
    using None assms ssl
    by (auto simp: handleStreamFeatures_def Let_def strict_options_def startSaslAuth_def
        intro!: startSasl2Auth_inv run_sasl_inv split: option.split)
qed


section \<open>The handlers keep the invariant\<close>

lemma handleStreamError_tame: "tame s (handleStreamError err s)"
  by (auto simp: handleStreamError_def tame_setError tame_same split: StreamErrorCondition.split
      intro: tame_trans [OF _ tame_socket_disconnect])

lemma tame_send_packet: "tame s (send_packet data stanza s)"
  unfolding send_packet_def Let_def
  by (rule tame_trans [OF _ tame_via_ack]) (auto simp: quiet_internalSend tame_same)

lemma tame_client_handleStanza: "tame s (snd (client_handleStanza E el s))"
proof -
  have "tame s (snd (generateSequentialStanzaId s))" by (simp add: generateSequentialStanzaId_def Let_def tame_same)
  then have "tame s (send_packet d b (snd (generateSequentialStanzaId s)))" for d b by (rule tame_after [OF _ tame_send_packet])
  then show ?thesis by (simp add: client_handleStanza_def Let_def generateSequentialStanzaId_def tame_same)
qed

lemma quiet_c2s_handleElement: "quiet_sock a \<Longrightarrow> quiet_sock (snd (snd (c2s_handleElement url el (c, a))))"
  by (auto simp: c2s_handleElement_def Let_def quiet_onEnabled quiet_onResumed split: sm_request.split option.split)

lemma tame_c2s_element: "tame s (via_c2s (\<lambda>p. snd (c2s_handleElement url el p)) s)"
  by (rule tame_via_c2s) (simp add: quiet_c2s_handleElement)

lemma client_handleElement_inv:
  assumes "strict_options E" and "tls_inv s"
  shows "tls_inv (snd (client_handleElement E inp el s))"
proof -
  let ?s1 = "via_ack (\<lambda>a. snd (handleStanza el a)) s"
  obtain answered m where iq: "iq_handleStanza (ce_nonza E) el (iqs ?s1) = (answered, m)" by force
  let ?s2 = "?s1\<lparr>iqs := m\<rparr>"
  have s1: "tls_inv ?s1" by (rule tls_inv_tame [OF assms(2) tame_via_ack]) (rule quiet_handleStanza)
  then have s2: "tls_inv ?s2" by (rule tls_inv_tame) (simp add: tame_same)
  have "tls_inv (handleStreamFeatures E nonce f ?s2)" for nonce f by (rule handleStreamFeatures_inv [OF assms(1) s2])
  moreover have "tls_inv (handleStreamError err ?s2)" for err by (rule tls_inv_tame [OF s2 handleStreamError_tame])
  moreover obtain known s4 where known: "client_handleStanza E el ?s2 = (known, s4)" by force
  moreover have "tls_inv s4" using tls_inv_tame [OF s2 tame_client_handleStanza, of E el] by (simp add: known)
  moreover have s3: "tls_inv (via_c2s (\<lambda>p. snd (c2s_handleElement (ce_url E) el p)) ?s2)"
    by (rule tls_inv_tame [OF s2 tame_c2s_element])
  moreover have "tls_inv (sm_done E r (via_c2s (\<lambda>p. snd (c2s_handleElement (ce_url E) el p)) ?s2))" for r
    by (rule tls_inv_tame [OF s3 tame_sm_done])
  ultimately show ?thesis using s1 s2
    unfolding client_handleElement_def Let_def iq prod.case known by (simp split: prod.split sum.split)
qed

lemma dispatch_inv:
  assumes "strict_options E" and "tls_inv s" and "on_line s"
  shows "tls_inv (snd (dispatch E inp el s))"
proof (cases "listener s")
  case LClient
  then show ?thesis using client_handleElement_inv [OF assms(1,2)] by (simp add: dispatch_def)
next
  case LStarttls
  then show ?thesis using assms(2) by (simp add: dispatch_def Let_def tls_inv_def credentials_encrypted_def on_line_def)
next
  case (LNonSasl q)
  then show ?thesis using assms(2) by (simp add: tls_inv_def)
next
  case (LSasl c m)
  then have "sslMode s" using assms by (simp add: tls_inv_def)
  then show ?thesis using run_sasl_inv [OF assms(2)] by (simp add: dispatch_def LSasl split: prod.split)
next
  case (LSasl2 c m)
  then have "sslMode s" using assms by (simp add: tls_inv_def)
  then show ?thesis using run_sasl2_inv [OF assms(2)] by (simp add: dispatch_def LSasl2 split: prod.split)
next
  case LC2s
  have s1: "tls_inv (via_c2s (\<lambda>p. snd (c2s_handleElement (ce_url E) el p)) s)" by (rule tls_inv_tame [OF assms(2) tame_c2s_element])
  then have "tls_inv (sm_done E r (via_c2s (\<lambda>p. snd (c2s_handleElement (ce_url E) el p)) s))" for r
    by (rule tls_inv_tame [OF _ tame_sm_done])
  then show ?thesis using s1 by (simp add: dispatch_def LC2s Let_def)
next
  case (LBind m)
  have "tls_inv (s\<lparr>listener := LBind m'\<rparr>)" for m' by (rule tls_inv_tame [OF assms(2)]) (simp add: tame_same)
  then have "tls_inv (bind_done E v (s\<lparr>listener := LBind m'\<rparr>)) \<and> tls_inv (s\<lparr>listener := LBind m'\<rparr>)" for v m'
    by (simp add: tls_inv_tame [OF _ tame_bind_done])
  then show ?thesis by (simp add: dispatch_def LBind Let_def split: prod.split option.split)
qed

lemma handlePacketReceived_inv:
  assumes "strict_options E" and "tls_inv s" and "on_line s"
  shows "tls_inv (handlePacketReceived E inp el s)"
proof -
  have "tls_inv (s\<lparr>timeoutTimer := False\<rparr>)" "on_line (s\<lparr>timeoutTimer := False\<rparr>)"
    using assms(2,3) tls_inv_tame [of s "s\<lparr>timeoutTimer := False\<rparr>"] by (simp_all add: tame_same on_line_def)
  from dispatch_inv [OF assms(1) this, of inp el] obtain r s1 where d: "dispatch E inp el (s\<lparr>timeoutTimer := False\<rparr>) = (r, s1)" "tls_inv s1"
    by (cases "dispatch E inp el (s\<lparr>timeoutTimer := False\<rparr>)") auto
  moreover have "tls_inv (disconnectFromHost (setError t e s1))" for t e by (rule tls_inv_tame [OF d(2) tame_fail])
  moreover have "tls_inv (s1\<lparr>listener := LClient\<rparr>)" by (rule tls_inv_tame [OF d(2)]) (simp add: tame_same)
  ultimately show ?thesis by (simp add: handlePacketReceived_def Let_def split: HandleElementResult.split)
qed

text \<open>Connecting makes a new connection, whose mode is what the address asks for.\<close>

lemma socket_connect_inv: "tls_inv s \<Longrightarrow> socketState s \<noteq> Connecting \<Longrightarrow> tls_inv (socket_connect a s)"
  by (auto simp: socket_connect_def Let_def tls_inv_def credentials_encrypted_def on_line_def)

lemma tls_inv_same:
  "tls_inv s \<Longrightarrow> socketState t = socketState s \<Longrightarrow> sslMode t = sslMode s \<Longrightarrow> encrypted t = encrypted s \<Longrightarrow> m_directTls t = m_directTls s \<Longrightarrow>
   wire t = wire s \<Longrightarrow> listener t = listener s \<Longrightarrow> tls_inv t"
  by (erule tls_inv_tame) (simp add: tame_same)

lemma connectToNextAddress_inv: "tls_inv s \<Longrightarrow> socketState s \<noteq> Connecting \<Longrightarrow> tls_inv (connectToNextAddress s)"
  by (auto simp: connectToNextAddress_def Let_def intro!: socket_connect_inv intro: tls_inv_same)

lemma connectToAddressList_inv: "tls_inv s \<Longrightarrow> socketState s \<noteq> Connecting \<Longrightarrow> tls_inv (connectToAddressList as s)"
  unfolding connectToAddressList_def by (rule connectToNextAddress_inv) (auto intro: tls_inv_same)

lemma connectToHost_inv: "tls_inv s \<Longrightarrow> socketState s \<noteq> Connecting \<Longrightarrow> tls_inv (connectToHost E s)"
  by (auto simp: connectToHost_def Let_def intro!: socket_connect_inv connectToAddressList_inv tls_inv_tame [OF _ tame_setError]
      intro: tls_inv_same)

lemma handleSocketError_inv:
  "tls_inv s \<Longrightarrow> socketState s \<noteq> Connecting \<Longrightarrow> tls_inv (handleSocketError text details s)"
  by (auto simp: handleSocketError_def Let_def intro!: connectToNextAddress_inv tls_inv_tame [OF _ tame_setError] intro: tls_inv_same)


lemma handleStream_inv:
  assumes "strict_options E" and "tls_inv s"
  shows "tls_inv (handleStream E stream s)"
proof -
  have "tame s (put_xml [StreamErrorElement_toXml x] (setError t e s))" for x t e
    by (rule tame_trans [OF tame_setError tame_put_xml]) (simp add: quiet)
  then have "tame s (disconnectFromHost (put_xml [StreamErrorElement_toXml x] (setError t e s)))" for x t e
    by (rule tame_trans [OF _ tame_disconnectFromHost])
  moreover have "tame s (s\<lparr>streamId := i\<rparr>)" for i by (simp add: tame_same)
  ultimately have "tame s (handleStream E stream s)"
    using assms(1) tame_fail by (simp add: handleStream_def strict_options_def Let_def)
  then show ?thesis by (rule tls_inv_tame [OF assms(2)])
qed

lemma handleSocketDisconnected_inv:
  assumes "tls_inv s" and "socketState s = Unconnected"
  shows "tls_inv (handleSocketDisconnected s)"
proof -
  have s: "tls_inv (s\<lparr>isAuthenticated := False\<rparr>)" by (rule tls_inv_same [OF assms(1)]) simp_all
  have "tls_inv (socket_connect a (s\<lparr>isAuthenticated := False\<rparr>))" for a by (rule socket_connect_inv [OF s]) (simp add: assms)
  then have "tls_inv ((socket_connect a (s\<lparr>isAuthenticated := False\<rparr>))\<lparr>redirect := None\<rparr>)" for a by (rule tls_inv_same) simp_all
  then show ?thesis
    using connectToNextAddress_inv [OF s] tls_inv_tame [OF s tame_closeSession] assms(2)
    by (simp add: handleSocketDisconnected_def Let_def split: option.split)
qed

lemma throwError_inv:
  assumes "tls_inv s" and "on_line s"
  shows "tls_inv (throwError text condition s)"
proof -
  let ?s1 = "put_xml [StreamErrorElement_toXml \<lparr>se_condition = PlainCondition condition, se_text = text\<rparr>] (s\<lparr>m_acceptInput := False\<rparr>)"
  have t: "tame s ?s1" by (rule tame_write) (simp_all add: tame_same quiet)
  then have "socketState ?s1 \<noteq> Connecting" using assms(2) by (auto simp: tame_def safe_step_def on_line_def)
  with t have "tls_inv (handleSocketError text (StreamErrorDetails condition) ?s1)"
    by (intro handleSocketError_inv tls_inv_tame [OF assms(1) t])
  then show ?thesis unfolding throwError_def Let_def by (rule tls_inv_tame [OF _ tame_socket_disconnect])
qed

lemma tame_timeout: "tame s t \<Longrightarrow> tame s (t\<lparr>timeoutTimer := True\<rparr>)"
  by (simp add: tame_def safe_step_def credentials_encrypted_def)

lemma sendPing_tame: "tame s (sendPing E s)"
proof -
  have "tame s (snd (generateSequentialStanzaId s))" by (simp add: generateSequentialStanzaId_def Let_def tame_same)
  then have "tame s (send_packet d b (snd (generateSequentialStanzaId s)))" for d b by (rule tame_after [OF _ tame_send_packet])
  moreover have "tame s (via_ack sendAcknowledgementRequest s)" by (rule tame_via_ack) auto
  ultimately show ?thesis by (simp add: sendPing_def Let_def generateSequentialStanzaId_def tame_timeout)
qed

lemma client_sendIq_tame: "tame s (client_sendIq E uuid1 uuid2 iq s)"
proof -
  obtain m a where ma: "iq_sendIq (ce_nonza E) (ce_print E) (socketState s = ConnectedState) (packetCounter s) uuid1 uuid2 iq
      (if st_to iq = [] then jidBare s else st_to iq) (iqs s, (ack s)\<lparr>sock := []\<rparr>) = (m, a)" by force
  have "quiet_sock ((ack s)\<lparr>sock := []\<rparr>)" by (simp add: quiet_sock_def)
  then have "quiet_sock (snd (iq_sendPacket w p i to (iqs s, (ack s)\<lparr>sock := []\<rparr>)))" for w p i to
    by (auto simp: iq_sendPacket_def Let_def quiet_internalSend split: prod.split bool.split)
  then have "quiet_sock a" using ma by (metis iq_sendIq_def snd_conv)
  then show ?thesis unfolding client_sendIq_def Let_def ma prod.case
    by (intro tame_trans [OF _ tame_fold_put]) (auto simp: quiet_sock_def tame_same)
qed

lemma setCsiState_tame: "tame s (setCsiState state s)"
proof -
  obtain c out where out: "csi_setState (isAuthenticated s) (socketState s = ConnectedState) state (csi s) = (c, out)" by force
  then have "\<forall>d \<in> set out. \<not> credential_element d" by (auto simp: csi_setState_def csi_sendState_def quiet split: if_splits)
  then show ?thesis unfolding setCsiState_def Let_def out prod.case by (intro tame_write) (simp_all add: tame_same)
qed

lemma connectToServer_inv:
  assumes "tls_inv s" and "socketState s \<noteq> Connecting"
  shows "tls_inv (connectToServer E config resource s)"
proof -
  let ?s1 = "if jidBare s \<noteq> config_jidBare config then via_ack resetCache s else s"
  let ?s2 = "?s1\<lparr>fast := (fast ?s1)\<lparr>ft_config := config\<rparr>, cfg_resource := resource\<rparr>"
  have "tame s ?s1" by (simp add: tame_via_ack quiet_resetCache)
  moreover have "tame ?s1 ?s2" by (simp add: tame_same)
  ultimately have t: "tame s ?s2" by (rule tame_trans)
  then have "socketState ?s2 \<noteq> Connecting" using assms(2) unfolding tame_def safe_step_def by auto
  then show ?thesis unfolding connectToServer_def Let_def
    by (rule connectToHost_inv [OF tls_inv_tame [OF assms(1) t]])
qed

lemma handleStart_inv:
  assumes "credentials_encrypted s" and "encrypted s \<longrightarrow> sslMode s" and "socketState s \<noteq> Connecting"
  shows "tls_inv (handleStart s)"
proof -
  have "tls_inv (s\<lparr>streamId := [], listener := LClient, c2s := c2s_onStreamStart (c2s s)\<rparr>)"
    using assms by (simp add: tls_inv_def credentials_encrypted_def)
  then show ?thesis unfolding handleStart_def by (rule tls_inv_tame [OF _ tame_put_xml]) (simp add: quiet)
qed

lemma lookup_finished_inv: "tls_inv s \<Longrightarrow> socketState s \<noteq> Connecting \<Longrightarrow> tls_inv (lookup_finished E r1 r2 s)"
  unfolding lookup_finished_def Let_def by (rule connectToAddressList_inv) (auto intro: tls_inv_same)

lemma tls_inv_parts:
  "tls_inv s \<Longrightarrow> credentials_encrypted s" "tls_inv s \<Longrightarrow> encrypted s \<longrightarrow> sslMode s"
  by (simp_all add: tls_inv_def)

lemma credentials_encrypted_update [simp]:
  "credentials_encrypted (s\<lparr>socketState := x\<rparr>) = credentials_encrypted s" "credentials_encrypted (s\<lparr>encrypted := b\<rparr>) = credentials_encrypted s"
  "credentials_encrypted (s\<lparr>m_acceptInput := b\<rparr>) = credentials_encrypted s"
  by (simp_all add: credentials_encrypted_def)

lemma connected_inv:
  assumes "tls_inv s" and "socketState s = Connecting"
  shows "tls_inv (step E SocketConnected s)"
proof (cases "m_directTls s")
  case True
  then show ?thesis using assms by (simp add: resetStream_def tls_inv_def on_line_def)
next
  case False
  then show ?thesis using tls_inv_parts [OF assms(1)] handleStart_inv [of "resetStream (s\<lparr>socketState := ConnectedState\<rparr>)"]
    by (simp add: resetStream_def)
qed

lemma socket_encrypted_inv:
  assumes "tls_inv s" and "socketState s = ConnectedState" and "sslMode s"
  shows "tls_inv (step E SocketEncrypted s)"
  unfolding step.simps
  by (rule handleStart_inv) (simp_all add: resetStream_def assms tls_inv_parts)

lemma disconnected_inv: "tls_inv s \<Longrightarrow> tls_inv (s\<lparr>socketState := Unconnected\<rparr>)"
  by (simp add: tls_inv_def on_line_def)

lemma socket_error_inv:
  assumes "tls_inv s"
  shows "tls_inv (step E (SocketError text code) s)"
  using assms disconnected_inv [OF assms] by (auto intro!: handleSocketError_inv)

lemma tls_inv_step:
  assumes "strict_options E" and "tls_inv s" and "may_occur ev s"
  shows "tls_inv (step E ev s)"
proof (cases ev)
  case (ConnectToServer config resource)
  then show ?thesis using assms(2,3) by (simp add: connectToServer_inv)
next
  case Reconnect
  then show ?thesis using assms(2,3) by (simp add: connectToHost_inv)
next
  case (LookupFinished r1 r2)
  then show ?thesis using assms(2,3) by (simp add: lookup_finished_inv)
next
  case (XmlError t condition)
  then show ?thesis using assms(2,3) by (simp add: throwError_inv on_line_def)
next
  case (StreamReceived stream)
  then show ?thesis using assms by (simp add: handleStream_inv)
next
  case (Received el inp)
  then show ?thesis using assms by (simp add: handlePacketReceived_inv on_line_def)
next
  case KeepAliveTimeout
  have "tls_inv (s\<lparr>timeoutTimer := False\<rparr>)" by (rule tls_inv_same [OF assms(2)]) simp_all
  then show ?thesis unfolding KeepAliveTimeout step.simps throwKeepAliveError_def by (rule tls_inv_tame [OF _ tame_fail])
next
  case SocketConnected
  then show ?thesis using assms(2,3) by (simp only: may_occur.simps connected_inv)
next
  case SocketEncrypted
  then show ?thesis using assms(2,3) by (simp only: may_occur.simps socket_encrypted_inv)
next
  case SocketDisconnected
  then show ?thesis using handleSocketDisconnected_inv [OF disconnected_inv [OF assms(2)]] by simp
next
  case (SocketError t code)
  then show ?thesis by (simp only: socket_error_inv [OF assms(2)])
next
  case StreamClosed
  then show ?thesis using tls_inv_tame [OF assms(2) tame_disconnectFromHost] by simp
next
  case PingTimeout
  then show ?thesis using tls_inv_tame [OF assms(2) sendPing_tame] by simp
next
  case DisconnectRequest
  then show ?thesis using tls_inv_tame [OF assms(2) tame_disconnectFromHost] by simp
next
  case (SendPacket data stanza)
  then show ?thesis using tls_inv_tame [OF assms(2) tame_send_packet] by simp
next
  case (SendIq uuid1 uuid2 iq)
  then show ?thesis using tls_inv_tame [OF assms(2) client_sendIq_tame] by simp
next
  case (SetCsiState state)
  then show ?thesis using tls_inv_tame [OF assms(2) setCsiState_tame] by simp
qed

lemma tls_inv_reachable:
  assumes "reachable E s" and "strict_options E"
  shows "tls_inv s"
  using assms
proof (induction rule: reachable.induct)
  case (initial config resource carbonsViaBind2)
  then show ?case by (simp add: new_Client_def tls_inv_def credentials_encrypted_def on_line_def)
next
  case (event s ev)
  then show ?case by (simp add: tls_inv_step)
qed

section \<open>Example runs\<close>

text \<open>A client with a password that requires TLS, and the run to its first authentication message.\<close>

definition example_options :: client_options where
  "example_options = \<lparr>streamSecurityMode = TLSRequired, useSasl2Authentication = True, useSASLAuthentication = True,
     useNonSASLAuthentication = False, nonSASLDigest = True, resourcePrefix = [], cfg_host = ''h'', cfg_port = 5222,
     keepAliveInterval = 60, keepAliveTimeout = 20\<rparr>"

definition example_client_env :: client_env where
  "example_client_env = \<lparr>ce_sasl = example_env, ce_nonza = example_nonza_env, ce_url = (\<lambda>_. None), ce_print = (\<lambda>_. []),
     supportsSsl = True, options = example_options\<rparr>"

definition example_config :: QXmppConfiguration where
  "example_config = \<lparr>authConfig = \<lparr>disabledSaslMechanisms = [], saslAuthMechanism = [],
       credentialData = \<lparr>password = ''p'', htToken = None, facebookAccessToken = [], facebookAppId = [], googleAccessToken = [],
         windowsLiveAccessToken = []\<rparr>, cfg_domain = ''d'', cfg_user = ''u''\<rparr>,
     useFastTokenAuthentication = False, sasl2UserAgent = None\<rparr>"

definition example_input :: element_input where "example_input = \<lparr>in_handled = False, in_nonce = [7]\<rparr>"

definition example_header :: "qstring \<Rightarrow> client_event" where
  "example_header version = StreamReceived \<lparr>so_to = ''u@d'', so_from = ''d'', so_id = ''s'', so_version = version, so_xmlns = ns_client\<rparr>"

definition example_connect :: "client_event list" where
  "example_connect = [ConnectToServer example_config ''r'', SocketConnected]"

definition example_tls_login :: "client_event list" where
  "example_tls_login = example_connect @ [example_header ''1.0'',
     Received (Elem ''features'' ns_stream [] [Elem ''starttls'' ns_tls [] []]) example_input,
     Received (Elem ''proceed'' ns_tls [] []) example_input, SocketEncrypted, example_header ''1.0'',
     Received (Elem ''features'' ns_stream [] [Elem ''mechanisms'' ns_sasl [] [Elem ''mechanism'' ns_sasl [] [Text ''PLAIN'']]]) example_input]"

definition example_start :: Client where "example_start = new_Client example_config ''r'' False"

lemma example_start_reachable: "reachable E example_start"
  unfolding example_start_def by (rule reachable.initial)

definition example_tls_client :: Client where
  "example_tls_client = the (run_events example_client_env example_tls_login example_start)"

lemma example_tls_run: "run_events example_client_env example_tls_login example_start = Some example_tls_client"
proof -
  have "run_events example_client_env example_tls_login example_start \<noteq> None" by code_simp
  then show ?thesis by (auto simp: example_tls_client_def)
qed

section \<open>Properties\<close>



end
