(* ===== verification/ClientSession.thy ===== *)
theory ClientSession
  imports ClientSafety
begin

text \<open>
  The session of the client stream: its requests, the addresses it connects to, the answers it
  gives, resumption, and the defects of the authentication without SASL.
\<close>

section \<open>What the handlers leave alone\<close>

text \<open>The table of requests is consistent: distinct identifiers, every task once.\<close>

definition iq_ok :: "OutgoingIqManager \<Rightarrow> bool" where
  "iq_ok m \<longleftrightarrow> ids_distinct m \<and> tasks_once m"

lemma iq_ok_step: "iq_ok m \<Longrightarrow> iq_ok (iq_step e ev m)"
  by (simp add: iq_ok_def ids_distinct_step tasks_once_step)

lemma iq_ok_continuations [simp]: "iq_ok (m\<lparr>send_continuations := c\<rparr>) = iq_ok m"
  by (simp add: iq_ok_def ids_distinct_def tasks_once_def)

lemma iq_ok_finish: "iq_ok m \<Longrightarrow> iq_ok (iq_finish i r m)"
  by (auto simp: iq_ok_def iq_finish_def tasks_once_erase ids_distinct_def distinct_filter_fst split: option.split)

lemma iq_ok_report_send: "iq_ok m \<Longrightarrow> iq_ok (report_send pr m)"
  by (auto simp: report_send_def Let_def iq_ok_finish split: option.split SendResult.split)

lemma iq_ok_reports: "iq_ok m \<Longrightarrow> iq_ok (fold report_send prs m)"
  by (induction prs arbitrary: m) (simp_all add: iq_ok_report_send)

lemma iq_ok_cancelAll: "iq_ok m \<Longrightarrow> iq_ok (cancelAll m)"
  using iq_ok_step [of m undefined CancelAll] by simp

lemma iq_ok_handleStanza: "iq_ok m \<Longrightarrow> iq_ok (snd (iq_handleStanza e el m))"
  using iq_ok_step [of m e "Response el"] by simp

lemma iq_ok_start: "iq_ok m \<Longrightarrow> iq_ok (snd (iq_start i to m))"
  using iq_ok_step [of m undefined "Send i to"] by simp

lemma iq_ok_sendIq: "iq_ok m \<Longrightarrow> iq_ok (fst (iq_sendIq e p w pid u1 u2 iq to (m, a)))"
proof -
  assume m: "iq_ok m"
  have "iq_ok (fst (iq_sendPacket w packet i to (m, a)))" for packet i
    using iq_ok_start [OF m, of i to]
    by (auto simp: iq_sendPacket_def Let_def intro!: iq_ok_reports split: prod.split bool.split)
  then show ?thesis by (simp add: iq_sendIq_def Let_def)
qed

text \<open>
  The frame of a handler: the addresses and the method of authentication stay the same, and the
  requests stay consistent.
\<close>

definition frame :: "Client \<Rightarrow> Client \<Rightarrow> bool" where
  "frame s t \<longleftrightarrow> authenticationMethod t = authenticationMethod s \<and> serverAddresses t = serverAddresses s \<and>
     nextServerAddressIndex t = nextServerAddressIndex s \<and> tryNext t = tryNext s \<and> aborted t = aborted s \<and>
     (iq_ok (iqs s) \<longrightarrow> iq_ok (iqs t))"

lemma frame_refl [simp]: "frame s s"
  by (simp add: frame_def)

lemma frame_trans [trans]: "frame s t \<Longrightarrow> frame t u \<Longrightarrow> frame s u"
  by (simp add: frame_def)

lemma frame_same:
  "authenticationMethod t = authenticationMethod s \<Longrightarrow> serverAddresses t = serverAddresses s \<Longrightarrow>
   nextServerAddressIndex t = nextServerAddressIndex s \<Longrightarrow> tryNext t = tryNext s \<Longrightarrow> aborted t = aborted s \<Longrightarrow>
   (iq_ok (iqs s) \<Longrightarrow> iq_ok (iqs t)) \<Longrightarrow> frame s t"
  by (simp add: frame_def)

lemma frame_put: "frame s (put d s)"
  by (simp add: frame_same)

lemma frame_fold: "(\<And>x u. frame u (f x u)) \<Longrightarrow> frame s (fold f xs s)"
  by (induction xs arbitrary: s) (auto intro: frame_trans)

lemma frame_write: "frame s t \<Longrightarrow> frame s (put_xml ds t)"
  unfolding put_xml_def by (erule frame_trans) (rule frame_fold [OF frame_put])

lemma frame_via_c2s: "frame s (via_c2s f s)"
proof -
  obtain c a where f: "f (c2s s, (ack s)\<lparr>sock := []\<rparr>) = (c, a)" by force
  show ?thesis unfolding via_c2s_def f Let_def prod.case
    by (rule frame_trans [OF _ frame_fold [OF frame_put]]) (simp add: frame_same iq_ok_reports)
qed

lemma frame_via_ack: "frame s (via_ack f s)"
  by (simp add: via_ack_def frame_via_c2s)

lemma frame_socket_disconnect: "frame s (socket_disconnect s)"
  by (simp add: socket_disconnect_def Let_def frame_same)

lemma frame_after: "frame s t \<Longrightarrow> (\<And>u. frame u (f u)) \<Longrightarrow> frame s (f t)"
  using frame_trans by blast

lemma frame_disconnectFromHost: "frame s (disconnectFromHost s)"
  unfolding disconnectFromHost_def by (rule frame_after [OF _ frame_socket_disconnect]) (simp add: frame_same)

lemma frame_setError: "frame s (setError text details s)"
  by (simp add: setError_def frame_same)

lemma frame_fail: "frame s (disconnectFromHost (setError text details s))"
  by (rule frame_after [OF frame_setError frame_disconnectFromHost])

lemma frame_openSession: "frame s (openSession E s)"
proof -
  obtain c out where out: "csi_onSessionOpened (m_streamResumed (c2s s)) (isAuthenticated s) (socketState s = ConnectedState)
      \<lparr>sb_smEnabled = c2s_enabled (c2s s), sb_smResumed = m_streamResumed (c2s s), sb_bind2Used = (bind2Bound s \<noteq> None),
       sb_fastTokenChanged = (authenticationMethod s = Sasl2Authentication \<and> tokenChanged (fast s)),
       sb_authenticationMethod = authenticationMethod s\<rparr> (csi s) = (c, out)" by force
  have *: "frame s t \<Longrightarrow> frame s (t\<lparr>signals := x, pingTimer := b\<rparr>)" for t x b by (simp add: frame_def)
  show ?thesis unfolding openSession_def Let_def out prod.case
    by (rule * [OF frame_write]) (simp add: frame_same iq_onSessionOpened_def iq_ok_cancelAll)
qed

lemma frame_closeSession: "frame s (closeSession s)"
proof -
  have "frame s (via_ack onSessionClosed (s\<lparr>sessionStarted := False\<rparr>))"
    by (rule frame_after [OF _ frame_via_ack]) (simp add: frame_same)
  then show ?thesis unfolding closeSession_def Let_def
    by (rule frame_trans) (simp add: frame_same iq_onSessionClosed_def iq_ok_cancelAll)
qed

lemma frame_requests:
  "frame s (startSmResume s)" "frame s (startSmEnable s)" "frame s (startResourceBinding s)"
  unfolding startSmResume_def c2s_requestResume_def startSmEnable_def c2s_requestEnable_def startResourceBinding_def
    generateSequentialStanzaId_def bindAddress_def Let_def prod.case
  by (rule frame_write; simp add: frame_same)+

lemma frame_handleStart: "frame s (handleStart s)"
  unfolding handleStart_def by (rule frame_write) (simp add: frame_same)

lemma frame_sm_done: "frame s (sm_done E request s)"
  by (simp add: sm_done_def sm_resume_done_def frame_openSession frame_requests)

lemma frame_bind_done: "frame s (bind_done E r s)"
proof (cases r)
  case (Bound addr)
  let ?s1 = "(set_address (bound_user addr) (bound_domain addr) s)\<lparr>cfg_resource := bound_resource addr\<rparr>"
  have "frame s ?s1" by (simp add: set_address_def frame_same)
  then have "frame s (startSmEnable ?s1)" "frame s (openSession E ?s1)" by (auto intro: frame_trans frame_requests frame_openSession)
  then show ?thesis by (simp add: Bound Let_def)
qed (simp_all add: frame_fail)

text \<open>Authentication changes the method, but not to that without SASL.\<close>

definition auth_frame :: "Client \<Rightarrow> Client \<Rightarrow> bool" where
  "auth_frame s t \<longleftrightarrow> (\<exists>m. m \<noteq> NonSaslAuthentication \<and> frame (s\<lparr>authenticationMethod := m\<rparr>) t) \<or> frame s t"

lemma auth_frame_frame [intro]: "frame s t \<Longrightarrow> auth_frame s t"
  by (simp add: auth_frame_def)

lemma frame_method: "frame s t \<Longrightarrow> frame (s\<lparr>authenticationMethod := m\<rparr>) (t\<lparr>authenticationMethod := m\<rparr>)"
  by (simp add: frame_def)

lemma auth_frame_trans: "auth_frame s t \<Longrightarrow> auth_frame t u \<Longrightarrow> auth_frame s u"
  unfolding auth_frame_def frame_def by auto

lemma auth_frame_fold: "(\<And>x u. auth_frame u (f x u)) \<Longrightarrow> auth_frame s (fold f xs s)"
  by (induction xs arbitrary: s) (auto intro: auth_frame_trans)

lemma auth_frame_sasl_done: "auth_frame s (sasl_done r s)"
proof (cases r)
  case (Inr u)
  let ?s1 = "resetStream (s\<lparr>isAuthenticated := True, authenticationMethod := SaslAuthentication\<rparr>)"
  have "frame (s\<lparr>authenticationMethod := SaslAuthentication\<rparr>) ?s1" by (simp add: resetStream_def frame_def)
  then have "frame (s\<lparr>authenticationMethod := SaslAuthentication\<rparr>) (handleStart ?s1)" by (rule frame_trans [OF _ frame_handleStart])
  then show ?thesis unfolding auth_frame_def Inr sasl_done.simps by blast
qed (auto simp: frame_fail)

lemma auth_frame_sasl2_done: "auth_frame s (sasl2_done E r s)"
proof (cases r)
  case (Inr success)
  let ?s1 = "(setJid (authorizationIdentifier success)
     (s\<lparr>isAuthenticated := True, authenticationMethod := Sasl2Authentication\<rparr>))\<lparr>bind2Bound := success_bound success\<rparr>"
  let ?s2 = "?s1\<lparr>fast := onSasl2Success success (fast ?s1)\<rparr>"
  let ?s3 = "via_c2s (c2s_onSasl2Success success) ?s2"
  let ?s4 = "case success_bound success of Some b \<Rightarrow> via_c2s (c2s_onBind2Bound (ce_url E) b) ?s3 | None \<Rightarrow> ?s3"
  have "frame (s\<lparr>authenticationMethod := Sasl2Authentication\<rparr>) ?s2" by (simp add: setJid_def set_address_def Let_def frame_def)
  also have "frame ?s2 ?s3" by (rule frame_via_c2s)
  also have "frame ?s3 ?s4" by (auto intro!: frame_via_c2s split: option.split)
  finally have s4: "frame (s\<lparr>authenticationMethod := Sasl2Authentication\<rparr>) ?s4" .
  moreover have "frame (s\<lparr>authenticationMethod := Sasl2Authentication\<rparr>) (openSession E ?s4)"
    by (rule frame_trans [OF s4 frame_openSession])
  ultimately have "frame (s\<lparr>authenticationMethod := Sasl2Authentication\<rparr>) (sasl2_done E r s)" by (simp add: Inr Let_def)
  then show ?thesis unfolding auth_frame_def by blast
qed (auto simp: frame_fail)


section \<open>The handlers\<close>

lemma frame_startNonSaslAuth: "frame s (startNonSaslAuth E s)"
  unfolding startNonSaslAuth_def generateSequentialStanzaId_def queryOptions_def Let_def prod.case
  by (rule frame_write) (simp add: frame_same)

text \<open>What the authentication without SASL does before it would succeed.\<close>

lemma frame_nonsasl_done: "(\<And>u. r \<noteq> AuthResult (Inr u)) \<Longrightarrow> frame s (nonsasl_done E r s)"
proof (cases "(E, r, s)" rule: nonsasl_done.cases)
  case (1 E available s)
  have "frame s (put_xml [el] (s\<lparr>stanzaIdCounter := n, listener := l\<rparr>))" for el n l by (rule frame_write) (simp add: frame_same)
  then show ?thesis using 1
    by (auto simp: generateSequentialStanzaId_def nonsasl_authenticate_def Let_def frame_disconnectFromHost split: option.split)
qed (auto simp: frame_disconnectFromHost)

lemma auth_frame_run_sasl: "auth_frame s (run_sasl c m s)"
proof -
  have "frame s (put_xml (sm_sent m) (s\<lparr>listener := l\<rparr>))" for l by (rule frame_write) (simp add: frame_same)
  then show ?thesis unfolding run_sasl_def by (blast intro: auth_frame_trans auth_frame_fold auth_frame_sasl_done)
qed

lemma auth_frame_run_sasl2: "auth_frame s (run_sasl2 E c m s)"
proof -
  have "frame s (put_xml (s2_sent m) (s\<lparr>listener := l\<rparr>))" for l by (rule frame_write) (simp add: frame_same)
  then show ?thesis unfolding run_sasl2_def by (blast intro: auth_frame_trans auth_frame_fold auth_frame_sasl2_done)
qed

lemma auth_frame_startSasl2Auth: "auth_frame s (startSasl2Auth E nonce feature s)"
proof -
  obtain b s1 where bind: "(case bind2Feature feature of None \<Rightarrow> (None, s)
      | Some fs \<Rightarrow> case createBind2Request E fs s of (r, s') \<Rightarrow> (Some r, s')) = (b, s1)" by force
  then have "frame s s1"
    by (auto simp: createBind2Request_def carbons_onBind2Request_def csi_onBind2Request_def Let_def frame_same split: option.splits)
  then have s1: "frame s (s1\<lparr>fast := f\<rparr>)" for f by (rule frame_trans) (simp add: frame_same)
  obtain r1 f1 where "onSasl2Authenticate \<lparr>authenticate_mechanism = [], initialResponse = [], userAgent = None, bindRequest = b,
      auth_smResume = None, tokenRequest = None, auth_fast = None\<rparr> feature (fast s1) = (r1, f1)" by force
  then show ?thesis unfolding startSasl2Auth_def Let_def bind prod.case
    by (simp add: auth_frame_trans [OF auth_frame_frame [OF s1] auth_frame_run_sasl2])
qed

lemma frame_handleStarttls: "handleStarttls E f s = Some t \<Longrightarrow> frame s t"
proof -
  have "frame s ((put_xml [written StarttlsRequest_toXml] s)\<lparr>listener := LStarttls\<rparr>)"
    by (rule frame_trans [OF frame_write [OF frame_refl] frame_same]) simp_all
  then show "handleStarttls E f s = Some t \<Longrightarrow> frame s t"
    by (auto simp: handleStarttls_def Let_def frame_disconnectFromHost split: if_splits)
qed

lemma auth_frame_handleStreamFeatures: "auth_frame s (handleStreamFeatures E nonce f s)"
proof -
  let ?s1 = "s\<lparr>bindModeAvailable := (bindMode f \<noteq> FeatureDisabled), c2s := c2s_onStreamFeatures f (c2s s),
    csi := csi_onStreamFeatures f (csi s)\<rparr>"
  have "frame s ?s1" by (simp add: frame_same)
  then have "frame s (startSmResume ?s1)" "frame s (startSmEnable ?s1)" "frame s (startResourceBinding ?s1)" "frame s (openSession E ?s1)"
    by (auto intro: frame_trans frame_requests frame_openSession)
  then show ?thesis
    by (auto simp: handleStreamFeatures_def Let_def startSaslAuth_def auth_frame_startSasl2Auth auth_frame_run_sasl
        frame_startNonSaslAuth frame_handleStarttls split: option.split)
qed

lemma frame_handleStreamError: "frame s (handleStreamError err s)"
  by (auto simp: handleStreamError_def frame_setError frame_same split: StreamErrorCondition.split
      intro: frame_trans [OF _ frame_socket_disconnect])

lemma frame_send_packet: "frame s (send_packet data stanza s)"
  unfolding send_packet_def Let_def by (rule frame_trans [OF _ frame_via_ack]) (simp add: frame_same)

lemma frame_stanza_id: "frame s (snd (generateSequentialStanzaId s))"
  by (simp add: generateSequentialStanzaId_def Let_def frame_same)

lemma frame_client_handleStanza: "client_handleStanza E el s = (b, t) \<Longrightarrow> frame s t"
proof -
  have "frame s (send_packet d b (snd (generateSequentialStanzaId s)))" for d b
    by (rule frame_after [OF frame_stanza_id frame_send_packet])
  moreover have "frame s (snd (generateSequentialStanzaId s)\<lparr>signals := x\<rparr>)" for x
    by (rule frame_trans [OF frame_stanza_id]) (simp add: frame_same)
  ultimately show "client_handleStanza E el s = (b, t) \<Longrightarrow> frame s t"
    by (auto simp: client_handleStanza_def Let_def frame_same split: if_splits)
qed

lemma auth_frame_client_handleElement: "auth_frame s (snd (client_handleElement E inp el s))"
proof -
  let ?s1 = "via_ack (\<lambda>a. snd (handleStanza el a)) s"
  obtain answered m where iq: "iq_handleStanza (ce_nonza E) el (iqs ?s1) = (answered, m)" by force
  let ?s2 = "?s1\<lparr>iqs := m\<rparr>" and ?s3 = "via_c2s (\<lambda>p. snd (c2s_handleElement (ce_url E) el p)) (?s1\<lparr>iqs := m\<rparr>)"
  have s1: "frame s ?s1" by (rule frame_via_ack)
  have "frame ?s1 ?s2" using iq_ok_handleStanza [of "iqs ?s1" "ce_nonza E" el] by (simp add: frame_same iq)
  with s1 have s2: "frame s ?s2" by (rule frame_trans)
  have "auth_frame s (handleStreamFeatures E nonce f ?s2)" for nonce f
    by (rule auth_frame_trans [OF auth_frame_frame [OF s2] auth_frame_handleStreamFeatures])
  moreover have "frame s (handleStreamError err ?s2)" for err by (rule frame_trans [OF s2 frame_handleStreamError])
  moreover obtain known s4 where known: "client_handleStanza E el ?s2 = (known, s4)" by force
  moreover have "frame s s4" by (rule frame_trans [OF s2 frame_client_handleStanza [OF known]])
  moreover have s3: "frame s ?s3" by (rule frame_trans [OF s2 frame_via_c2s])
  moreover have "frame s (sm_done E r ?s3)" for r by (rule frame_trans [OF s3 frame_sm_done])
  ultimately show ?thesis using s1 s2
    unfolding client_handleElement_def Let_def iq prod.case known by (auto split: sum.split)
qed

text \<open>No state between two events waits for the answer of the authentication without SASL.\<close>

definition no_auth_query :: "Client \<Rightarrow> bool" where
  "no_auth_query s \<longleftrightarrow> (\<forall>i. listener s \<noteq> LNonSasl (AuthQuery i))"

lemma auth_frame_dispatch:
  assumes "no_auth_query s"
  shows "auth_frame s (snd (dispatch E inp el s))"
proof (cases "listener s")
  case (LNonSasl q)
  obtain r result q' where h: "nonsasl_handleElement (ce_nonza E) el q = (r, result, q')" by (rule prod_cases3)
  then have "\<And>u. result \<noteq> Some (AuthResult u)"
    using assms by (auto simp: no_auth_query_def LNonSasl nonsasl_handleElement_def split: if_splits NonSaslQuery.splits)
  then have "frame (s\<lparr>listener := LNonSasl q'\<rparr>) (case result of None \<Rightarrow> s\<lparr>listener := LNonSasl q'\<rparr>
      | Some v \<Rightarrow> nonsasl_done E v (s\<lparr>listener := LNonSasl q'\<rparr>))"
    by (auto split: option.split intro: frame_nonsasl_done)
  then have "frame s (case result of None \<Rightarrow> s\<lparr>listener := LNonSasl q'\<rparr> | Some v \<Rightarrow> nonsasl_done E v (s\<lparr>listener := LNonSasl q'\<rparr>))"
    by (rule frame_trans [rotated]) (simp add: frame_same)
  then show ?thesis by (auto simp: dispatch_def LNonSasl h Let_def)
next
  case LC2s
  have "frame s (sm_done E r (via_c2s (\<lambda>p. snd (c2s_handleElement (ce_url E) el p)) s))" for r
    by (rule frame_trans [OF frame_via_c2s frame_sm_done])
  then show ?thesis by (auto simp: dispatch_def LC2s Let_def frame_via_c2s)
next
  case (LBind m)
  have "frame s (s\<lparr>listener := LBind m'\<rparr>)" for m' by (simp add: frame_same)
  then have "frame s (bind_done E v (s\<lparr>listener := LBind m'\<rparr>)) \<and> frame s (s\<lparr>listener := LBind m'\<rparr>)" for v m'
    using frame_trans frame_bind_done by blast
  then show ?thesis by (auto simp: dispatch_def LBind Let_def split: prod.split option.split)
qed (auto simp: dispatch_def Let_def auth_frame_client_handleElement auth_frame_run_sasl auth_frame_run_sasl2 frame_same
      split: prod.split)

lemma auth_frame_handlePacketReceived:
  assumes "no_auth_query s"
  shows "auth_frame s (handlePacketReceived E inp el s)"
proof -
  let ?s = "s\<lparr>timeoutTimer := False\<rparr>"
  obtain r t where d: "dispatch E inp el ?s = (r, t)" by force
  have "no_auth_query ?s" using assms by (simp add: no_auth_query_def)
  from auth_frame_dispatch [OF this, of E inp el] have "auth_frame ?s t" by (simp add: d)
  moreover have "frame s ?s" by (simp add: frame_same)
  ultimately have t: "auth_frame s t" by (blast intro: auth_frame_trans)
  have "frame t (disconnectFromHost (setError x e t))" "frame t (t\<lparr>listener := LClient\<rparr>)" for x e
    by (simp_all add: frame_fail frame_same)
  then have "auth_frame s (disconnectFromHost (setError x e t))" "auth_frame s (t\<lparr>listener := LClient\<rparr>)" for x e
    using t by (blast intro: auth_frame_trans)+
  then show ?thesis using t by (simp add: handlePacketReceived_def Let_def d split: HandleElementResult.split)
qed


lemma no_auth_query_tame: "no_auth_query s \<Longrightarrow> tame s t \<Longrightarrow> no_auth_query t"
  by (auto simp: no_auth_query_def tame_def)

lemma fold_put_listener: "listener (fold put ds s) = listener s"
  by (induction ds arbitrary: s) simp_all

lemma no_auth_query_run_sasl: "no_auth_query (run_sasl c m s)"
  unfolding run_sasl_def by (rule no_auth_query_tame [OF _ tame_fold [OF tame_sasl_done]])
    (simp add: put_xml_def no_auth_query_def fold_put_listener)

lemma no_auth_query_run_sasl2: "no_auth_query (run_sasl2 E c m s)"
  unfolding run_sasl2_def by (rule no_auth_query_tame [OF _ tame_fold [OF tame_sasl2_done]])
    (simp add: put_xml_def no_auth_query_def fold_put_listener)

lemma no_auth_query_startNonSaslAuth: "no_auth_query (startNonSaslAuth E s)"
  by (simp add: startNonSaslAuth_def generateSequentialStanzaId_def queryOptions_def Let_def put_xml_def no_auth_query_def)

lemma no_auth_query_handleStreamFeatures:
  assumes "no_auth_query s"
  shows "no_auth_query (handleStreamFeatures E nonce f s)"
proof -
  let ?s1 = "s\<lparr>bindModeAvailable := (bindMode f \<noteq> FeatureDisabled), c2s := c2s_onStreamFeatures f (c2s s),
    csi := csi_onStreamFeatures f (csi s)\<rparr>"
  have "no_auth_query ?s1" using assms by (simp add: no_auth_query_def)
  then have "no_auth_query (startSmResume ?s1)" "no_auth_query (startSmEnable ?s1)" "no_auth_query (startResourceBinding ?s1)"
    "no_auth_query (openSession E ?s1)"
    by (auto intro: no_auth_query_tame tame_requests tame_openSession)
  moreover have "no_auth_query (startSasl2Auth E nonce feature s)" for feature
    by (simp add: startSasl2Auth_def Let_def no_auth_query_run_sasl2 split: prod.split)
  ultimately show ?thesis using assms
    by (auto simp: handleStreamFeatures_def Let_def startSaslAuth_def no_auth_query_run_sasl no_auth_query_startNonSaslAuth
        intro: no_auth_query_tame handleStarttls_tame split: option.split)
qed

lemma no_auth_query_client_handleElement:
  assumes "no_auth_query s"
  shows "no_auth_query (snd (client_handleElement E inp el s))"
proof -
  let ?s1 = "via_ack (\<lambda>a. snd (handleStanza el a)) s"
  obtain answered m where iq: "iq_handleStanza (ce_nonza E) el (iqs ?s1) = (answered, m)" by force
  let ?s2 = "?s1\<lparr>iqs := m\<rparr>" and ?s3 = "via_c2s (\<lambda>p. snd (c2s_handleElement (ce_url E) el p)) (?s1\<lparr>iqs := m\<rparr>)"
  have s1: "no_auth_query ?s1" by (rule no_auth_query_tame [OF assms tame_via_ack]) (rule quiet_handleStanza)
  then have s2: "no_auth_query ?s2" by (simp add: no_auth_query_def)
  then have "no_auth_query (handleStreamFeatures E nonce f ?s2)" for nonce f by (rule no_auth_query_handleStreamFeatures)
  moreover have "no_auth_query (handleStreamError err ?s2)" for err by (rule no_auth_query_tame [OF s2 handleStreamError_tame])
  moreover obtain known s4 where known: "client_handleStanza E el ?s2 = (known, s4)" by force
  moreover have "no_auth_query s4" using no_auth_query_tame [OF s2 tame_client_handleStanza, of E el] by (simp add: known)
  moreover have s3: "no_auth_query ?s3" by (rule no_auth_query_tame [OF s2 tame_c2s_element])
  moreover have "no_auth_query (sm_done E r ?s3)" for r by (rule no_auth_query_tame [OF s3 tame_sm_done])
  ultimately show ?thesis using s1 s2
    unfolding client_handleElement_def Let_def iq prod.case known by (simp split: sum.split)
qed

text \<open>The listener of the stream after an element; a finished query leaves the stream itself.\<close>

lemma no_auth_query_handlePacketReceived:
  assumes "no_auth_query s"
  shows "no_auth_query (handlePacketReceived E inp el s)"
proof -
  let ?s = "s\<lparr>timeoutTimer := False\<rparr>"
  obtain r t where d: "dispatch E inp el ?s = (r, t)" by force
  have s: "no_auth_query ?s" using assms by (simp add: no_auth_query_def)
  have "no_auth_query t \<or> r = Finished \<and> listener_index (listener ?s) = 2"
  proof (cases "listener s")
    case LClient
    then show ?thesis using no_auth_query_client_handleElement [OF s, of E inp el] d by (simp add: dispatch_def)
  next
    case LStarttls
    then show ?thesis using s d by (auto simp: dispatch_def Let_def no_auth_query_def split: if_splits)
  next
    case (LNonSasl q)
    obtain r' result q' where h: "nonsasl_handleElement (ce_nonza E) el q = (r', result, q')" by (rule prod_cases3)
    show ?thesis
    proof (cases result)
      case None
      then have "q' = q" using h by (auto simp: nonsasl_handleElement_def split: if_splits NonSaslQuery.splits)
      then have "listener t = LNonSasl q" using d LNonSasl h None by (auto simp: dispatch_def Let_def)
      then show ?thesis using s LNonSasl by (simp add: no_auth_query_def)
    next
      case (Some v)
      then have "r' = Finished" using h by (auto simp: nonsasl_handleElement_def split: if_splits NonSaslQuery.splits)
      then show ?thesis using d LNonSasl h by (simp add: dispatch_def Let_def)
    qed
  next
    case (LSasl c m)
    then show ?thesis using d no_auth_query_run_sasl by (auto simp: dispatch_def split: prod.splits)
  next
    case (LSasl2 c m)
    then show ?thesis using d no_auth_query_run_sasl2 by (auto simp: dispatch_def split: prod.splits)
  next
    case LC2s
    let ?s1 = "via_c2s (\<lambda>p. snd (c2s_handleElement (ce_url E) el p)) ?s"
    have "no_auth_query ?s1" by (rule no_auth_query_tame [OF s tame_c2s_element])
    then have "no_auth_query ?s1" "no_auth_query (sm_done E x ?s1)" for x using no_auth_query_tame tame_sm_done by blast+
    then show ?thesis using d LC2s by (auto simp: dispatch_def Let_def split: if_splits)
  next
    case (LBind m)
    have "no_auth_query (?s\<lparr>listener := LBind m'\<rparr>)" for m' by (simp add: no_auth_query_def)
    then have "no_auth_query (bind_done E v (?s\<lparr>listener := LBind m'\<rparr>)) \<and> no_auth_query (?s\<lparr>listener := LBind m'\<rparr>)" for v m'
      using no_auth_query_tame tame_bind_done by blast
    then show ?thesis using d LBind by (auto simp: dispatch_def Let_def split: prod.splits option.splits)
  qed
  moreover have "no_auth_query t" if "r \<noteq> Finished" using calculation that by simp
  moreover have "no_auth_query t \<Longrightarrow> no_auth_query (disconnectFromHost (setError x e t))" for x e
    by (erule no_auth_query_tame) (rule tame_fail)
  moreover have "no_auth_query (t\<lparr>listener := LClient\<rparr>)" by (simp add: no_auth_query_def)
  moreover have "listener_index (listener t) \<noteq> 2 \<Longrightarrow> no_auth_query t" by (auto simp: no_auth_query_def)
  ultimately show ?thesis by (auto simp: handlePacketReceived_def Let_def d split: HandleElementResult.split)
qed


section \<open>The invariant of the session\<close>

definition address_ok :: "Client \<Rightarrow> bool" where
  "address_ok s \<longleftrightarrow> \<not> aborted s \<and> (tryNext s \<longrightarrow> nextServerAddressIndex s < length (serverAddresses s))"

definition session_inv :: "Client \<Rightarrow> bool" where
  "session_inv s \<longleftrightarrow> no_auth_query s \<and> authenticationMethod s \<noteq> NonSaslAuthentication \<and> iq_ok (iqs s) \<and> address_ok s"

lemma session_inv_auth_frame: "session_inv s \<Longrightarrow> auth_frame s t \<Longrightarrow> no_auth_query t \<Longrightarrow> session_inv t"
  by (auto simp: session_inv_def auth_frame_def frame_def address_ok_def)

lemma session_inv_frame: "session_inv s \<Longrightarrow> frame s t \<Longrightarrow> tame s t \<Longrightarrow> session_inv t"
  by (rule session_inv_auth_frame) (auto intro: no_auth_query_tame simp: session_inv_def)

lemma socket_connect_frame:
  "frame s (socket_connect a s)" "no_auth_query s \<Longrightarrow> no_auth_query (socket_connect a s)"
  by (simp_all add: socket_connect_def Let_def frame_same no_auth_query_def)

lemma socket_connect_session: "session_inv s \<Longrightarrow> session_inv (socket_connect a s)"
  by (rule session_inv_auth_frame) (auto simp: socket_connect_frame session_inv_def)

lemma session_inv_update:
  "session_inv s \<Longrightarrow> listener t = listener s \<Longrightarrow> frame s t \<Longrightarrow> session_inv t"
  by (rule session_inv_auth_frame) (auto simp: no_auth_query_def session_inv_def)

lemma connectToNextAddress_session:
  assumes "session_inv s" and "nextServerAddressIndex s < length (serverAddresses s)"
  shows "session_inv (connectToNextAddress s)"
proof -
  have "session_inv (s\<lparr>tryNext := False, nextServerAddressIndex := n\<rparr>)" for n
    using assms(1) by (simp add: session_inv_def no_auth_query_def address_ok_def)
  then show ?thesis using assms(2) by (simp add: connectToNextAddress_def Let_def socket_connect_session)
qed

lemma connectToAddressList_session: "session_inv s \<Longrightarrow> as \<noteq> [] \<Longrightarrow> session_inv (connectToAddressList as s)"
proof -
  assume s: "session_inv s" and as: "as \<noteq> []"
  have "session_inv (s\<lparr>serverAddresses := as, nextServerAddressIndex := 0\<rparr>)"
    using s as by (simp add: session_inv_def no_auth_query_def address_ok_def)
  then show ?thesis unfolding connectToAddressList_def using as by (simp add: connectToNextAddress_session)
qed

lemma session_inv_lookup: "session_inv s \<Longrightarrow> session_inv (s\<lparr>lookupPending := b\<rparr>)"
  by (erule session_inv_update) (simp_all add: frame_same)

lemma connectToHost_session: "session_inv s \<Longrightarrow> session_inv (connectToHost E s)"
  by (auto simp: connectToHost_def Let_def tls_addresses_def socket_connect_session
      intro!: connectToAddressList_session session_inv_lookup intro: session_inv_frame frame_setError tame_setError)

lemma lookup_finished_session:
  assumes "session_inv s"
  shows "session_inv (lookup_finished E r1 r2 s)"
proof -
  have "session_inv (s\<lparr>lookupPending := False\<rparr>)" by (rule session_inv_update [OF assms]) (simp_all add: frame_same)
  then show ?thesis unfolding lookup_finished_def Let_def
    by (rule connectToAddressList_session) (auto simp: tls_addresses_def split: option.split list.split)
qed

lemma connectToServer_session:
  assumes "session_inv s"
  shows "session_inv (connectToServer E config resource s)"
proof -
  let ?s1 = "if jidBare s \<noteq> config_jidBare config then via_ack resetCache s else s"
  let ?s2 = "?s1\<lparr>fast := (fast ?s1)\<lparr>ft_config := config\<rparr>, cfg_resource := resource\<rparr>"
  have "session_inv ?s1" by (rule session_inv_frame [OF assms]) (simp_all add: frame_via_ack tame_via_ack quiet_resetCache)
  then have "session_inv ?s2" by (rule session_inv_update) (simp_all add: frame_same)
  then show ?thesis unfolding connectToServer_def Let_def by (rule connectToHost_session)
qed

lemma handleSocketError_session:
  assumes "session_inv s"
  shows "session_inv (handleSocketError t details s)"
proof (cases "\<not> sessionStarted s \<and> nextServerAddressIndex s < length (serverAddresses s)")
  case True
  then have "session_inv (s\<lparr>tryNext := True\<rparr>)" using assms by (simp add: session_inv_def no_auth_query_def address_ok_def)
  then show ?thesis using True by (simp add: handleSocketError_def Let_def connectToNextAddress_session)
next
  case False
  then show ?thesis using session_inv_frame [OF assms frame_setError tame_setError] by (auto simp: handleSocketError_def)
qed

lemma handleSocketDisconnected_session:
  assumes "session_inv s"
  shows "session_inv (handleSocketDisconnected s)"
proof -
  have s: "session_inv (s\<lparr>isAuthenticated := False\<rparr>)" by (rule session_inv_update [OF assms]) (simp_all add: frame_same)
  have "session_inv (socket_connect a (s\<lparr>isAuthenticated := False\<rparr>)\<lparr>redirect := None\<rparr>)" for a
    by (rule session_inv_update [OF socket_connect_session [OF s, of a]]) (simp_all add: frame_def)
  moreover have "session_inv (closeSession (s\<lparr>isAuthenticated := False\<rparr>))"
    by (rule session_inv_frame [OF s frame_closeSession tame_closeSession])
  moreover have "tryNext s \<Longrightarrow> session_inv (connectToNextAddress (s\<lparr>isAuthenticated := False\<rparr>))"
    using s by (intro connectToNextAddress_session) (simp_all add: session_inv_def address_ok_def)
  ultimately show ?thesis by (simp add: handleSocketDisconnected_def Let_def split: option.split)
qed

lemma handleStart_session: "session_inv s \<Longrightarrow> session_inv (handleStart s)"
  by (erule session_inv_frame [OF _ frame_handleStart tame_handleStart])

lemma handleStream_session:
  assumes "session_inv s"
  shows "session_inv (handleStream E stream s)"
proof -
  have err: "session_inv (setError t e s)" for t e by (rule session_inv_frame [OF assms frame_setError tame_setError])
  have "session_inv (put_xml [StreamErrorElement_toXml x] (setError t e s))" for x t e
    by (rule session_inv_frame [OF err frame_write [OF frame_refl] tame_put_xml]) (simp add: quiet)
  then have "session_inv (disconnectFromHost (put_xml [StreamErrorElement_toXml x] (setError t e s)))" for x t e
    by (rule session_inv_frame [OF _ frame_disconnectFromHost tame_disconnectFromHost])
  moreover have "session_inv (disconnectFromHost (setError t e s))" for t e
    by (rule session_inv_frame [OF assms frame_fail tame_fail])
  moreover have i: "session_inv (s\<lparr>streamId := i\<rparr>)" for i by (rule session_inv_update [OF assms]) (simp_all add: frame_same)
  moreover have "session_inv (startNonSaslAuth E (s\<lparr>streamId := i\<rparr>))" for i
    by (rule session_inv_auth_frame [OF i auth_frame_frame [OF frame_startNonSaslAuth] no_auth_query_startNonSaslAuth])
  ultimately show ?thesis by (simp add: handleStream_def Let_def)
qed

lemma throwError_session:
  assumes "session_inv s"
  shows "session_inv (throwError t condition s)"
proof -
  let ?s0 = "s\<lparr>m_acceptInput := False\<rparr>"
  let ?s1 = "put_xml [StreamErrorElement_toXml \<lparr>se_condition = PlainCondition condition, se_text = t\<rparr>] ?s0"
  have "session_inv ?s0" by (rule session_inv_update [OF assms]) (simp_all add: frame_same)
  then have "session_inv ?s1" by (rule session_inv_frame [OF _ frame_write [OF frame_refl] tame_put_xml]) (simp add: quiet)
  then have "session_inv (handleSocketError t (StreamErrorDetails condition) ?s1)" by (rule handleSocketError_session)
  then show ?thesis unfolding throwError_def Let_def
    by (rule session_inv_frame [OF _ frame_socket_disconnect tame_socket_disconnect])
qed

lemma frame_sendPing: "frame s (sendPing E s)"
proof -
  have "frame s (send_packet d b (snd (generateSequentialStanzaId s)))" for d b
    by (rule frame_after [OF frame_stanza_id frame_send_packet])
  moreover have "frame s t \<Longrightarrow> frame s (t\<lparr>timeoutTimer := True\<rparr>)" for t by (simp add: frame_def)
  ultimately show ?thesis by (simp add: sendPing_def Let_def generateSequentialStanzaId_def frame_via_ack)
qed

lemma frame_client_sendIq: "frame s (client_sendIq E u1 u2 iq s)"
proof -
  obtain m a where ma: "iq_sendIq (ce_nonza E) (ce_print E) (socketState s = ConnectedState) (packetCounter s) u1 u2 iq
      (if st_to iq = [] then jidBare s else st_to iq) (iqs s, (ack s)\<lparr>sock := []\<rparr>) = (m, a)" by force
  have "iq_ok (iqs s) \<Longrightarrow> iq_ok m" using iq_ok_sendIq by (metis ma fst_conv)
  then show ?thesis unfolding client_sendIq_def Let_def ma prod.case
    by (intro frame_trans [OF _ frame_fold [OF frame_put]]) (simp add: frame_same)
qed

lemma frame_setCsiState: "frame s (setCsiState state s)"
  unfolding setCsiState_def Let_def by (auto split: prod.split intro!: frame_write frame_same)


lemma session_inv_step:
  assumes "session_inv s"
  shows "session_inv (step E ev s)"
proof (cases ev)
  case SocketConnected
  have "session_inv (resetStream (s\<lparr>socketState := ConnectedState\<rparr>))"
    by (rule session_inv_update [OF assms]) (simp_all add: resetStream_def frame_same)
  then show ?thesis by (simp add: SocketConnected Let_def handleStart_session)
next
  case SocketEncrypted
  have "session_inv (resetStream (s\<lparr>encrypted := True\<rparr>))" by (rule session_inv_update [OF assms]) (simp_all add: resetStream_def frame_same)
  then show ?thesis by (simp add: SocketEncrypted handleStart_session)
next
  case SocketDisconnected
  have "session_inv (s\<lparr>socketState := Unconnected\<rparr>)" by (rule session_inv_update [OF assms]) (simp_all add: frame_same)
  then show ?thesis by (simp add: SocketDisconnected handleSocketDisconnected_session)
next
  case (SocketError t code)
  have "session_inv (s\<lparr>socketState := Unconnected\<rparr>)" by (rule session_inv_update [OF assms]) (simp_all add: frame_same)
  then show ?thesis using assms by (simp add: SocketError handleSocketError_session)
next
  case (Received el inp)
  have naq: "no_auth_query s" using assms by (simp add: session_inv_def)
  show ?thesis unfolding Received step.simps
    by (rule session_inv_auth_frame [OF assms auth_frame_handlePacketReceived [OF naq] no_auth_query_handlePacketReceived [OF naq]])
next
  case KeepAliveTimeout
  have "session_inv (s\<lparr>timeoutTimer := False\<rparr>)" by (rule session_inv_update [OF assms]) (simp_all add: frame_same)
  then show ?thesis unfolding KeepAliveTimeout step.simps throwKeepAliveError_def by (rule session_inv_frame [OF _ frame_fail tame_fail])
next
  case PingTimeout
  then show ?thesis using session_inv_frame [OF assms frame_sendPing sendPing_tame] by simp
next
  case (SendPacket data stanza)
  then show ?thesis using session_inv_frame [OF assms frame_send_packet tame_send_packet] by simp
next
  case (SendIq u1 u2 iq)
  then show ?thesis using session_inv_frame [OF assms frame_client_sendIq client_sendIq_tame] by simp
next
  case (SetCsiState state)
  then show ?thesis using session_inv_frame [OF assms frame_setCsiState setCsiState_tame] by simp
qed (use session_inv_frame [OF assms frame_disconnectFromHost tame_disconnectFromHost] in
      \<open>simp_all add: assms connectToServer_session connectToHost_session lookup_finished_session throwError_session handleStream_session\<close>)

lemma session_inv_reachable: "reachable E s \<Longrightarrow> session_inv s"
proof (induction rule: reachable.induct)
  case (initial config resource carbonsViaBind2)
  then show ?case
    by (simp add: new_Client_def session_inv_def no_auth_query_def address_ok_def iq_ok_def new_IqManager_def ids_distinct_def tasks_once_def)
next
  case (event s ev)
  then show ?case by (simp add: session_inv_step)
qed

section \<open>Single elements\<close>

lemma via_c2s_result:
  assumes "f (c2s s, (ack s)\<lparr>sock := []\<rparr>) = (c, a)"
  shows "via_c2s f s = fold put (sock a) (s\<lparr>c2s := c, ack := a\<lparr>sock := []\<rparr>,
    iqs := fold report_send (drop (length (reports (ack s))) (reports a)) (iqs s)\<rparr>)"
  using assms by (simp add: via_c2s_def)

lemma fold_put_wire:
  "fold put ds s = (if socketState s = ConnectedState then s\<lparr>wire := wire s @ map (Pair (sslMode s)) ds\<rparr> else s)"
  by (induction ds arbitrary: s) (simp_all add: put_def)

lemma stanza_not_nonza:
  "namespaceURI el \<noteq> ns_stream_management \<Longrightarrow> SmAck_fromDom el = None"
  "namespaceURI el \<noteq> ns_stream_management \<Longrightarrow> SmRequest_fromDom el = None"
  by (simp_all add: SmAck_fromDom_def SmRequest_fromDom_def elementXmlTag_def)

text \<open>A received stanza is counted, and nothing else changes.\<close>

definition counted :: "dom \<Rightarrow> StreamAckManager \<Rightarrow> StreamAckManager" where
  "counted el a = (if tagName el \<in> {''message'', ''presence'', ''iq''}
     then a\<lparr>m_lastIncomingSequenceNumber := m_lastIncomingSequenceNumber a + 1\<rparr> else a)"

lemma handleStanza_counted:
  "namespaceURI el \<noteq> ns_stream_management \<Longrightarrow> handleStanza el a = (False, counted el a)"
  by (simp add: handleStanza_def stanza_not_nonza counted_def)

lemma via_ack_counted: "via_ack (counted el) s = s\<lparr>ack := (counted el (ack s))\<lparr>sock := []\<rparr>\<rparr>"
  unfolding via_ack_def by (subst via_c2s_result [where c = "c2s s" and a = "counted el ((ack s)\<lparr>sock := []\<rparr>)"]) (auto simp: counted_def)

lemma ns_client_neq: "ns_client \<noteq> ns_stream_management" "ns_client \<noteq> ns_stream"
  by (simp_all add: ns_client_def ns_stream_management_def ns_stream_def)

text \<open>The way of a stanza that no manager and no extension takes.\<close>

lemma handlePacketReceived_stanza:
  assumes "listener s = LClient" and "namespaceURI el = ns_client" and "\<not> in_handled inp"
    and "fst (iq_handleStanza (ce_nonza E) el (iqs s)) = False"
    and "client_handleStanza E el (s\<lparr>timeoutTimer := False, ack := (counted el (ack s))\<lparr>sock := []\<rparr>\<rparr>) = (True, t)"
  shows "handlePacketReceived E inp el s = t"
proof -
  have iq: "iq_handleStanza (ce_nonza E) el m = (False, m)" if "m = iqs s" for m
    using assms(4) that by (auto simp: iq_handleStanza_def Let_def split: if_splits option.splits)
  have "dispatch E inp el (s\<lparr>timeoutTimer := False\<rparr>) = (Accepted, t)"
    using assms(1,2,3,5)
    by (simp add: dispatch_def client_handleElement_def Let_def handleStanza_counted ns_client_neq iq isStreamFeatures_def
        via_ack_counted [of el "s\<lparr>timeoutTimer := False\<rparr>"])
  then show ?thesis by (simp add: handlePacketReceived_def)
qed

lemma send_packet_result:
  assumes "socketState s = ConnectedState"
  shows "wire (send_packet data True s) = wire s @ (sslMode s, Raw data) #
      (if m_enabled (ack s) then [(sslMode s, Xml (written SmRequest_toXml))] else [])"
    "listener (send_packet data True s) = listener s"
proof -
  let ?p = "\<lparr>packet_id = packetCounter s, packet_data = data, isXmppStanza = True\<rparr>"
  let ?a = "snd (internalSend True ?p ((ack s)\<lparr>sock := []\<rparr>))"
  have sock: "sock ?a = Raw data # (if m_enabled (ack s) then [Xml (written SmRequest_toXml)] else [])"
    by (simp add: internalSend_def Let_def sendAcknowledgementRequest_def sendData_def insertNext_def reportFinished_def)
  have f: "apsnd (\<lambda>a. snd (internalSend True ?p a)) (c2s s, (ack s)\<lparr>sock := []\<rparr>) = (c2s s, ?a)" by simp
  show "wire (send_packet data True s) = wire s @ (sslMode s, Raw data) #
      (if m_enabled (ack s) then [(sslMode s, Xml (written SmRequest_toXml))] else [])"
    "listener (send_packet data True s) = listener s"
    using assms sock
    by (simp_all add: send_packet_def Let_def via_ack_def via_c2s_def f fold_put_wire)
qed

text \<open>The answer to a request that is not supported.\<close>

lemma unsupported_reply_fields:
  "tagName (unsupported_reply E el) = ''iq''" "attr ''type'' (unsupported_reply E el) = ''error''"
  "attr ''id'' (unsupported_reply E el) = attr ''id'' el" "attr ''to'' (unsupported_reply E el) = attr ''from'' el"
  by (simp_all add: unsupported_reply_def QXmppIq_toXml_def ElementInherit_def build_def attr_def OptionalAttribute_def
      extensions_item_def StanzaError_toXml_def new_StanzaError_def Element_def OptionalContent_def IqType_Values_def enum_toString_def)

lemma unsupported_reply_error:
  "st_error (QXmppIq_parse (ce_nonza E) (unsupported_reply E el)) =
     Some (new_StanzaError\<lparr>err_type := Cancel, err_condition := FeatureNotImplemented\<rparr>)"
  by (simp add: unsupported_reply_def QXmppIq_toXml_def ElementInherit_def build_def attr_def OptionalAttribute_def
      extensions_item_def StanzaError_toXml_def new_StanzaError_def Element_def OptionalContent_def IqType_Values_def enum_toString_def
      QXmppIq_parse_def QXmppStanza_parse_def QXmppStanza.defs QXmppIq.defs parseOptionalChildElement_def dom_simps matches_def
      StanzaError_parse_def StanzaError_child_def enum_fromString_def ErrorType_Values_def Condition_Values_def ns_client_def
      ns_stanza_def to_signed_def trimmed_def)

section \<open>Resumption\<close>

text \<open>What the acknowledgement manager does when the server resumes the stream.\<close>

lemma resumed_ack:
  fixes h :: "32 word"
  assumes "sm_inv a"
  defines "rest \<equiv> filter (\<lambda>(k, p). h < k) (m_unacknowledgedStanzas a)"
  shows "m_unacknowledgedStanzas (enableStreamManagement False (setAcknowledgedSequenceNumber h (a\<lparr>sock := []\<rparr>))) = rest"
    "sock (enableStreamManagement False (setAcknowledgedSequenceNumber h (a\<lparr>sock := []\<rparr>))) =
       map (\<lambda>(k, p). Raw (packet_data p)) rest @ (if rest = [] then [] else [Xml (written SmRequest_toXml)])"
    "reports (enableStreamManagement False (setAcknowledgedSequenceNumber h (a\<lparr>sock := []\<rparr>))) =
       reports a @ map (\<lambda>(k, p). (packet_id p, SendSuccess True)) (filter (\<lambda>(k, p). k \<le> h) (m_unacknowledgedStanzas a))"
proof -
  have send: "sock (fold (\<lambda>p. sendData (Raw (packet_data p))) ps b) = sock b @ map (\<lambda>p. Raw (packet_data p)) ps"
    "m_unacknowledgedStanzas (fold (\<lambda>p. sendData (Raw (packet_data p))) ps b) = m_unacknowledgedStanzas b"
    "reports (fold (\<lambda>p. sendData (Raw (packet_data p))) ps b) = reports b"
    "m_enabled (fold (\<lambda>p. sendData (Raw (packet_data p))) ps b) = m_enabled b" for ps b
    by (induction ps arbitrary: b) (simp_all add: sendData_def)
  have "setAcknowledgedSequenceNumber h (a\<lparr>sock := []\<rparr>) = a\<lparr>sock := [], m_unacknowledgedStanzas := rest,
      reports := reports a @ map (\<lambda>(k, p). (packet_id p, SendSuccess True)) (filter (\<lambda>(k, p). k \<le> h) (m_unacknowledgedStanzas a))\<rparr>"
    using ack_loop_split [OF sm_inv_sorted [OF assms(1)], of h "a\<lparr>sock := []\<rparr>"] by (simp add: setAcknowledgedSequenceNumber_def rest_def)
  then show "m_unacknowledgedStanzas (enableStreamManagement False (setAcknowledgedSequenceNumber h (a\<lparr>sock := []\<rparr>))) = rest"
    "sock (enableStreamManagement False (setAcknowledgedSequenceNumber h (a\<lparr>sock := []\<rparr>))) =
       map (\<lambda>(k, p). Raw (packet_data p)) rest @ (if rest = [] then [] else [Xml (written SmRequest_toXml)])"
    "reports (enableStreamManagement False (setAcknowledgedSequenceNumber h (a\<lparr>sock := []\<rparr>))) =
       reports a @ map (\<lambda>(k, p). (packet_id p, SendSuccess True)) (filter (\<lambda>(k, p). k \<le> h) (m_unacknowledgedStanzas a))"
    by (simp_all add: enableStreamManagement_def Let_def sendAcknowledgementRequest_def sendData_def send case_prod_beta' comp_def)
qed

lemma report_success_requests:
  "\<forall>pr \<in> set prs. \<exists>b. snd pr = SendSuccess b \<Longrightarrow> m_requests (fold report_send prs m) = m_requests m \<and> iq_results (fold report_send prs m) = iq_results m"
  by (induction prs arbitrary: m) (auto simp: report_send_def Let_def split: option.split)

text \<open>The session that is opened on a resumed stream whose client state is known to the server.\<close>

lemma openSession_resumed:
  assumes "m_streamResumed (c2s s)" and "m_synced (csi s)"
  shows "openSession E s = s\<lparr>sessionStarted := True, bind2Bound := None, iqs := iqs s,
    carbons := carbons_onSessionOpened \<lparr>sb_smEnabled = c2s_enabled (c2s s), sb_smResumed = True, sb_bind2Used = (bind2Bound s \<noteq> None),
       sb_fastTokenChanged = (authenticationMethod s = Sasl2Authentication \<and> tokenChanged (fast s)),
       sb_authenticationMethod = authenticationMethod s\<rparr> (carbons s),
    signals := signals s @ [Connected \<lparr>sb_smEnabled = c2s_enabled (c2s s), sb_smResumed = True, sb_bind2Used = (bind2Bound s \<noteq> None),
       sb_fastTokenChanged = (authenticationMethod s = Sasl2Authentication \<and> tokenChanged (fast s)),
       sb_authenticationMethod = authenticationMethod s\<rparr>],
    pingTimer := (if keepAliveInterval (options E) > 0 then True else pingTimer s)\<rparr>"
  using assms by (simp add: openSession_def Let_def csi_onSessionOpened_def put_xml_def iq_onSessionOpened_def)

text \<open>The acknowledgement manager after resumption, and the state the session is opened in.\<close>

definition resumed_manager :: "32 word \<Rightarrow> StreamAckManager \<Rightarrow> StreamAckManager" where
  "resumed_manager h a = enableStreamManagement False (setAcknowledgedSequenceNumber h (a\<lparr>sock := []\<rparr>))"

definition resumed_state :: "32 word \<Rightarrow> Client \<Rightarrow> Client" where
  "resumed_state h s = (let a = resumed_manager h (ack s) in s\<lparr>timeoutTimer := False,
     c2s := (c2s s)\<lparr>m_request := NoRequest, m_streamResumed := True, c2s_enabled := True\<rparr>, ack := a\<lparr>sock := []\<rparr>,
     iqs := fold report_send (drop (length (reports (ack s))) (reports a)) (iqs s),
     wire := wire s @ map (Pair (sslMode s)) (sock a)\<rparr>)"

lemma resumed_opens_session:
  assumes "listener s = LC2s" and "m_request (c2s s) = ResumeRequest" and "SmResumed_fromDom el = Some r"
    and "socketState s = ConnectedState" and "m_synced (csi s)"
  shows "handlePacketReceived E inp el s = (openSession E (resumed_state (resumed_h r) s))\<lparr>listener := LClient\<rparr>"
proof -
  let ?s = "s\<lparr>timeoutTimer := False\<rparr>"
  have h: "c2s_handleElement (ce_url E) el (c2s s, b) = (Finished, (c2s s)\<lparr>m_request := NoRequest, m_streamResumed := True, c2s_enabled := True\<rparr>,
      enableStreamManagement False (setAcknowledgedSequenceNumber (resumed_h r) b))" for b
    using assms(2,3) by (simp add: c2s_handleElement_def Let_def c2s_onResumed_def)
  have "via_c2s (\<lambda>p. snd (c2s_handleElement (ce_url E) el p)) ?s = resumed_state (resumed_h r) s"
    using assms(4) by (simp add: via_c2s_def h resumed_state_def resumed_manager_def Let_def fold_put_wire)
  then have d: "dispatch E inp el ?s = (Finished, openSession E (resumed_state (resumed_h r) s))"
    using assms(1,2) h by (simp add: dispatch_def Let_def sm_done_def sm_resume_done_def) (simp add: resumed_state_def Let_def)
  have "listener (openSession E (resumed_state (resumed_h r) s)) = LC2s"
    using assms(1,5) by (subst openSession_resumed) (simp_all add: resumed_state_def Let_def)
  then show ?thesis using assms(1) by (simp add: handlePacketReceived_def Let_def d)
qed

section \<open>Example runs\<close>

text \<open>
  A session with two stanzas whose connection breaks, and the way to the request for resumption.
\<close>

definition example_login_features :: "dom \<Rightarrow> client_event list" where
  "example_login_features f = [Received (Elem ''success'' ns_sasl [] []) example_input, example_header ''1.0'', Received f example_input]"

definition example_session :: "client_event list" where
  "example_session = example_tls_login @
     example_login_features (Elem ''features'' ns_stream [] [Elem ''bind'' ns_bind [] [], Elem ''sm'' ns_stream_management [] []]) @
     [Received (Elem ''iq'' ns_client [(''type'', ''result''), (''id'', ''qx1'')]
        [Elem ''bind'' ns_bind [] [Elem ''jid'' ns_bind [] [Text ''u@d/r'']]]) example_input,
      Received (Elem ''enabled'' ns_stream_management [(''id'', ''i''), (''resume'', ''true'')] []) example_input]"

definition example_interruption :: "client_event list" where
  "example_interruption = [SendPacket [1] True, SendPacket [2] True, SocketDisconnected, Reconnect] @ tl example_tls_login @
     example_login_features (Elem ''features'' ns_stream [] [Elem ''bind'' ns_bind [] [], Elem ''sm'' ns_stream_management [] []])"

definition example_interrupted :: Client where
  "example_interrupted = the (run_events example_client_env (example_session @ example_interruption) example_start)"

definition interrupted_state :: "Client \<Rightarrow> bool" where
  "interrupted_state s \<longleftrightarrow> listener s = LC2s \<and> m_request (c2s s) = ResumeRequest \<and> socketState s = ConnectedState \<and>
     m_synced (csi s) \<and> sm_inv (ack s) \<and>
     map (\<lambda>(k, p). packet_data p) (filter (\<lambda>(k, p). 1 < k) (m_unacknowledgedStanzas (ack s))) = [[2]]"

lemma example_interrupted_run:
  "run_events example_client_env (example_session @ example_interruption) example_start = Some example_interrupted"
  "interrupted_state example_interrupted"
proof -
  have "case run_events example_client_env (example_session @ example_interruption) example_start of
      Some s \<Rightarrow> interrupted_state s | None \<Rightarrow> False" by code_simp
  then show "run_events example_client_env (example_session @ example_interruption) example_start = Some example_interrupted"
    "interrupted_state example_interrupted"
    by (auto simp: example_interrupted_def split: option.splits)
qed

text \<open>A stream with the default options, connected but neither encrypted nor authenticated.\<close>

definition example_nonsasl_env :: client_env where
  "example_nonsasl_env = example_client_env\<lparr>options := example_options\<lparr>useNonSASLAuthentication := True\<rparr>\<rparr>"

definition example_connected :: Client where
  "example_connected = the (run_events example_nonsasl_env example_connect example_start)"

lemma example_connected_state:
  "listener example_connected = LClient \<and> socketState example_connected = ConnectedState \<and> m_request (c2s example_connected) = NoRequest \<and>
   \<not> encrypted example_connected \<and> \<not> sslMode example_connected \<and> \<not> isAuthenticated example_connected \<and>
   domain example_connected = ''d'' \<and> password (credentialData (authConfig (ft_config (fast example_connected)))) = ''p''"
  by code_simp

definition example_offer :: dom where
  "example_offer = Elem ''iq'' ns_client [(''type'', ''result'')] [Elem ''query'' ns_auth [] [Elem ''password'' ns_auth [] []]]"

definition example_old_header :: StreamOpen where
  "example_old_header = \<lparr>so_to = [], so_from = ''d'', so_id = ''s'', so_version = [], so_xmlns = ns_client\<rparr>"

definition example_nonsasl_run :: "client_event list" where
  "example_nonsasl_run = example_connect @ [StreamReceived example_old_header, Received example_offer example_input,
     Received (Elem ''iq'' ns_client [(''type'', ''result''), (''id'', ''qx2'')] []) example_input]"

definition example_nonsasl_client :: Client where
  "example_nonsasl_client = the (run_events example_nonsasl_env example_nonsasl_run example_start)"

lemma example_nonsasl_reachable:
  "reachable example_nonsasl_env example_nonsasl_client" "\<not> isAuthenticated example_nonsasl_client"
proof -
  have "case run_events example_nonsasl_env example_nonsasl_run example_start of Some s \<Rightarrow> \<not> isAuthenticated s | None \<Rightarrow> False"
    by code_simp
  then show "reachable example_nonsasl_env example_nonsasl_client" "\<not> isAuthenticated example_nonsasl_client"
    using reachable_run [of example_nonsasl_env example_nonsasl_run example_start] example_start_reachable
    by (auto simp: example_nonsasl_client_def split: option.splits)
qed

lemma example_interrupted_reachable: "reachable example_client_env example_interrupted"
  by (rule reachable_run [OF example_interrupted_run(1) example_start_reachable])

section \<open>Properties\<close>

text \<open>
  C27.  In every state the client can come to, every request that the application made is either
  answered once or still open, and never both: the finished tasks and the open ones are exactly the
  tasks handed out, and no two open requests have the same identifier.
\<close>

theorem client_iq_tasks_once:
  assumes "reachable E s"
  shows "mset (map fst (iq_results (iqs s))) + mset (map (\<lambda>r. iq_task (snd r)) (m_requests (iqs s))) = mset [0..<iq_started (iqs s)] \<and>
    distinct (map fst (m_requests (iqs s)))"
  using session_inv_reachable [OF assms] by (simp add: session_inv_def iq_ok_def tasks_once_def ids_distinct_def)

theorem client_iq_tasks_once_witness:
  "distinct (map fst (m_requests (iqs example_interrupted)))"
  using client_iq_tasks_once [OF example_interrupted_reachable] by simp

text \<open>
  C31.  The list of server addresses is never read past its end, whatever errors and disconnects
  occur: the access that would throw is not reached.
\<close>

theorem next_address_in_range:
  assumes "reachable E s"
  shows "\<not> aborted s"
  using session_inv_reachable [OF assms] by (simp add: session_inv_def address_ok_def)

theorem next_address_in_range_witness: "\<not> aborted example_interrupted"
  by (rule next_address_in_range [OF example_interrupted_reachable])

text \<open>
  The authentication without SASL never succeeds: in every state the client can come to it
  is not the method of authentication, and no listener waits for its answer.  After the answer to
  the first query the manager sends the second, but the stream, seeing that the listener is still
  of the same kind, takes the elements back and drops the manager.
\<close>

lemma nonsasl_authentication_never_succeeds:
  assumes "reachable E s"
  shows "authenticationMethod s \<noteq> NonSaslAuthentication \<and> listener s \<noteq> LNonSasl (AuthQuery i)"
  using session_inv_reachable [OF assms] by (simp add: session_inv_def no_auth_query_def)

lemma nonsasl_authentication_never_succeeds_witness:
  "authenticationMethod example_nonsasl_client \<noteq> NonSaslAuthentication \<and> \<not> isAuthenticated example_nonsasl_client"
  using nonsasl_authentication_never_succeeds [OF example_nonsasl_reachable(1)] example_nonsasl_reachable(2) by simp

text \<open>
  A request that nothing handles is answered once, at the address it came from and under its
  identifier, with the error that the feature is not implemented.
\<close>

lemma unsupported_request_answered:
  assumes "listener s = LClient" and "socketState s = ConnectedState" and "\<not> in_handled inp"
    and "tagName el = ''iq''" and "namespaceURI el = ns_client" and "attr ''type'' el \<in> {''get'', ''set''}"
  shows "wire (handlePacketReceived E inp el s) = wire s @ (sslMode s, Raw (ce_print E (unsupported_reply E el))) #
      (if m_enabled (ack s) then [(sslMode s, Xml (written SmRequest_toXml))] else []) \<and>
    listener (handlePacketReceived E inp el s) = LClient \<and>
    attr ''to'' (unsupported_reply E el) = attr ''from'' el \<and> attr ''id'' (unsupported_reply E el) = attr ''id'' el \<and>
    attr ''type'' (unsupported_reply E el) = ''error'' \<and>
    map_option err_condition (st_error (QXmppIq_parse (ce_nonza E) (unsupported_reply E el))) = Some FeatureNotImplemented"
proof -
  let ?s1 = "s\<lparr>timeoutTimer := False, ack := (counted el (ack s))\<lparr>sock := []\<rparr>\<rparr>"
  let ?s2 = "snd (generateSequentialStanzaId ?s1)"
  have "handlePacketReceived E inp el s = send_packet (ce_print E (unsupported_reply E el)) True ?s2"
    by (rule handlePacketReceived_stanza) (use assms in \<open>auto simp: iq_handleStanza_def Let_def client_handleStanza_def\<close>)
  then show ?thesis
    using assms(1,2) send_packet_result [of ?s2 "ce_print E (unsupported_reply E el)"]
    by (simp add: generateSequentialStanzaId_def Let_def unsupported_reply_fields unsupported_reply_error counted_def)
qed

lemma unsupported_request_answered_witness:
  "length (wire (handlePacketReceived example_nonsasl_env example_input
     (Elem ''iq'' ns_client [(''type'', ''get''), (''id'', ''1''), (''from'', ''a'')] []) example_connected)) = 2"
proof -
  have "length (wire example_connected) = 1" "\<not> m_enabled (ack example_connected)" by code_simp+
  then show ?thesis
    using unsupported_request_answered [of example_connected example_input
        "Elem ''iq'' ns_client [(''type'', ''get''), (''id'', ''1''), (''from'', ''a'')] []" example_nonsasl_env] example_connected_state
    by (simp add: example_input_def attr_def)
qed

text \<open>
  C28.  A stream the server resumes is continued: what the server acknowledges is reported as
  delivered, everything else that was not acknowledged is sent again in its order, every open
  request stays open, and the application is told that the session was resumed.
\<close>

theorem resumption_continues_session:
  assumes "listener s = LC2s" and "m_request (c2s s) = ResumeRequest" and "SmResumed_fromDom el = Some r"
    and "sm_inv (ack s)" and "socketState s = ConnectedState" and "m_synced (csi s)"
  shows "let t = handlePacketReceived E inp el s; rest = filter (\<lambda>(k, p). resumed_h r < k) (m_unacknowledgedStanzas (ack s)) in
    m_unacknowledgedStanzas (ack t) = rest \<and>
    reports (ack t) = reports (ack s) @ map (\<lambda>(k, p). (packet_id p, SendSuccess True))
      (filter (\<lambda>(k, p). k \<le> resumed_h r) (m_unacknowledgedStanzas (ack s))) \<and>
    wire t = wire s @ map (\<lambda>(k, p). (sslMode s, Raw (packet_data p))) rest @
      (if rest = [] then [] else [(sslMode s, Xml (written SmRequest_toXml))]) \<and>
    m_requests (iqs t) = m_requests (iqs s) \<and> iq_results (iqs t) = iq_results (iqs s) \<and>
    sessionStarted t \<and> listener t = LClient \<and>
    (\<exists>session. signals t = signals s @ [Connected session] \<and> sb_smResumed session)"
proof -
  let ?a = "resumed_manager (resumed_h r) (ack s)" and ?s1 = "resumed_state (resumed_h r) s"
  note a = resumed_ack [OF assms(4), of "resumed_h r", folded resumed_manager_def]
  have "\<forall>pr \<in> set (drop (length (reports (ack s))) (reports ?a)). \<exists>b. snd pr = SendSuccess b" using a(3) by auto
  from report_success_requests [OF this, of "iqs s"] have iqs: "m_requests (iqs ?s1) = m_requests (iqs s)" "iq_results (iqs ?s1) = iq_results (iqs s)"
    by (simp_all add: resumed_state_def Let_def)
  have s1: "m_streamResumed (c2s ?s1)" "m_synced (csi ?s1)" using assms(6) by (simp_all add: resumed_state_def Let_def)
  show ?thesis
    unfolding Let_def resumed_opens_session [OF assms(1,2,3,5,6)] openSession_resumed [OF s1]
    using iqs by (simp add: resumed_state_def Let_def a case_prod_beta' comp_def)
qed

lemma resumed_select: "resumed_h \<lparr>resumed_h = h, resumed_previd = i\<rparr> = h"
  by simp

theorem resumption_continues_session_witness:
  "let t = handlePacketReceived example_client_env example_input
     (written (SmResumed_toXml \<lparr>resumed_h = 1, resumed_previd = ''i''\<rparr>)) example_interrupted
   in map (\<lambda>(k, p). packet_data p) (m_unacknowledgedStanzas (ack t)) = [[2]] \<and> sessionStarted t"
proof -
  let ?el = "written (SmResumed_toXml \<lparr>resumed_h = 1, resumed_previd = ''i''\<rparr>)"
  let ?t = "handlePacketReceived example_client_env example_input ?el example_interrupted"
  have state: "listener example_interrupted = LC2s" "m_request (c2s example_interrupted) = ResumeRequest"
    "sm_inv (ack example_interrupted)" "socketState example_interrupted = ConnectedState" "m_synced (csi example_interrupted)"
    and kept: "map (\<lambda>(k, p). packet_data p) (filter (\<lambda>(k, p). 1 < k) (m_unacknowledgedStanzas (ack example_interrupted))) = [[2]]"
    using example_interrupted_run(2) unfolding interrupted_state_def by blast+
  note resumed = resumption_continues_session [OF state(1,2) SmResumed_roundtrip [of "\<lparr>resumed_h = 1, resumed_previd = ''i''\<rparr>"]
      state(3-5), of example_client_env example_input, unfolded Let_def resumed_select]
  show ?thesis unfolding Let_def conjunct1 [OF resumed] kept using resumed by (elim conjE) (intro conjI refl)
qed

text \<open>
  A message is handed to the application whatever the state of the stream: the handler asks
  neither for TLS nor for authentication nor for a session.  Before STARTTLS anybody on the path can
  put messages with any sender into the stream, even when TLS is required.
\<close>

lemma message_accepted_in_any_state:
  assumes "listener s = LClient" and "\<not> in_handled inp" and "tagName el = ''message''" and "namespaceURI el = ns_client"
  shows "signals (handlePacketReceived E inp el s) = signals s @ [MessageReceived el]"
proof -
  let ?s1 = "s\<lparr>timeoutTimer := False, ack := (counted el (ack s))\<lparr>sock := []\<rparr>\<rparr>"
  have "handlePacketReceived E inp el s = ?s1\<lparr>signals := signals s @ [MessageReceived el]\<rparr>"
    by (rule handlePacketReceived_stanza) (use assms in \<open>simp_all add: iq_handleStanza_def Let_def client_handleStanza_def\<close>)
  then show ?thesis by simp
qed

lemma message_accepted_in_any_state_witness:
  "let m = Elem ''message'' ns_client [(''from'', ''boss@d'')] [] in \<not> sslMode example_connected \<and>
     signals (handlePacketReceived example_client_env example_input m example_connected) = signals example_connected @ [MessageReceived m]"
  using message_accepted_in_any_state [of example_connected example_input "Elem ''message'' ns_client [(''from'', ''boss@d'')] []" example_client_env]
    example_connected_state
  by (simp add: example_input_def Let_def)

text \<open>
  A server that sends a stream header without a version gets the password in clear text, if it
  then offers only that: neither the security mode nor the state of the socket is looked at.
\<close>

lemma versionless_header_gets_password:
  assumes "useNonSASLAuthentication (options E)" and "socketState s = ConnectedState"
    and "so_from stream = domain s" and "so_id stream \<noteq> []" and "so_version stream = []"
    and "tagName offer = ''iq''" and "iqPayloadXmlTag offer = (''query'', ns_auth)" and "attr ''type'' offer = ''result''"
    and "has_query_child offer ''password''" and "\<not> has_query_child offer ''digest''"
    and "password (credentialData (authConfig (ft_config (fast s)))) \<noteq> []"
  shows "\<exists>d q. last (wire (handlePacketReceived E inp offer (handleStream E stream s))) = (sslMode s, Xml d) \<and>
    firstChildElement d ''query'' ns_auth = Some q \<and>
    child_text q ''password'' [] = password (credentialData (authConfig (ft_config (fast s))))"
proof -
  define t where "t = handleStream E stream s"
  have t: "listener t = LNonSasl OptionsQuery" "socketState t = ConnectedState" "sslMode t = sslMode s" "fast t = fast s"
    using assms(1-5)
    by (simp_all add: t_def handleStream_def startNonSaslAuth_def generateSequentialStanzaId_def queryOptions_def Let_def put_xml_def)
  let ?u = "t\<lparr>timeoutTimer := False, listener := LNonSasl NoQuery\<rparr>"
  let ?pw = "password (credentialData (authConfig (ft_config (fast s))))"
  obtain el i where el: "nonsasl_authenticate (ce_sasl E) (ce_nonza E) (''qx'' @ number (stanzaIdCounter t + 1)) True (user_name t)
      ?pw (cfg_resource t) (streamId t) = (AuthQuery i, el)" by (simp add: nonsasl_authenticate_def)
  have "dispatch E inp offer (t\<lparr>timeoutTimer := False\<rparr>) =
      (Finished, put_xml [el] (?u\<lparr>stanzaIdCounter := stanzaIdCounter t + 1, listener := LNonSasl (AuthQuery i)\<rparr>))"
    using assms(6-10) t(1) el
    by (simp add: dispatch_def nonsasl_handleElement_def nonsasl_plainText_def generateSequentialStanzaId_def Let_def t(4)
        user_name_def)
  then have "last (wire (handlePacketReceived E inp offer t)) = (sslMode s, Xml el)"
    using t by (simp add: handlePacketReceived_def Let_def put_xml_def put_def)
  moreover have "firstChildElement el ''query'' ns_auth = Some (build ''query'' ns_auth
      (OptionalTextElement ''username'' (user_name t) @ OptionalTextElement ''digest'' (of_utf8 (ce_sasl E) (toHex (ce_sasl E) [])) @
       OptionalTextElement ''password'' ?pw @ OptionalTextElement ''resource'' (cfg_resource t)))"
    using el by (auto simp: nonsasl_authenticate_def NonSASLAuthIq_toXml_def new_NonSASLAuthIq_def firstChildElement_find build_def
        Element_def OptionalAttribute_def matches_def)
  moreover have "child_text (build ''query'' ns_auth
      (OptionalTextElement ''username'' (user_name t) @ OptionalTextElement ''digest'' (of_utf8 (ce_sasl E) (toHex (ce_sasl E) [])) @
       OptionalTextElement ''password'' ?pw @ OptionalTextElement ''resource'' (cfg_resource t))) ''password'' [] = ?pw"
    using assms(11) by (simp add: child_text_def firstChildElement_find build_def OptionalTextElement_def writeTextOrEmptyElement_def
        ElementInherit_def matches_def)
  ultimately show ?thesis unfolding t_def [symmetric] by blast
qed

lemma versionless_header_gets_password_witness:
  "streamSecurityMode (options example_nonsasl_env) = TLSRequired \<and>
   (\<exists>d q. last (wire (handlePacketReceived example_nonsasl_env example_input example_offer
       (handleStream example_nonsasl_env example_old_header example_connected))) = (False, Xml d) \<and>
     firstChildElement d ''query'' ns_auth = Some q \<and> child_text q ''password'' [] = ''p'')"
proof -
  have "has_query_child example_offer ''password''" "\<not> has_query_child example_offer ''digest''"
    "iqPayloadXmlTag example_offer = (''query'', ns_auth)" "attr ''type'' example_offer = ''result''" "tagName example_offer = ''iq''"
    by code_simp+
  then show ?thesis
    using versionless_header_gets_password [of example_nonsasl_env example_connected example_old_header example_offer example_input]
      example_connected_state
    by (simp add: example_nonsasl_env_def example_client_env_def example_options_def example_old_header_def)
qed

text \<open>
  White space between stanzas, which servers send to keep the connection alive, ends the
  stream: it arrives as a null element, which the stream rejects as unexpected, and the state for
  resumption is given up.
\<close>

lemma whitespace_ends_stream:
  assumes "listener s = LClient" and "socketState s = ConnectedState" and "m_request (c2s s) = NoRequest" and "\<not> in_handled inp"
  shows "socketState (handlePacketReceived E inp null_element s) = Closing \<and>
    \<not> m_canResume (c2s (handlePacketReceived E inp null_element s))"
proof -
  let ?s = "s\<lparr>timeoutTimer := False\<rparr>" and ?t = "s\<lparr>timeoutTimer := False, ack := (ack s)\<lparr>sock := []\<rparr>\<rparr>"
  have "namespaceURI null_element \<noteq> ns_stream_management" "counted null_element = (\<lambda>a. a)"
    by (simp_all add: null_element_def ns_stream_management_def counted_def fun_eq_iff)
  then have "dispatch E inp null_element ?s = (Rejected, ?t)"
    using assms via_ack_counted [of null_element ?s]
    by (simp add: dispatch_def client_handleElement_def Let_def handleStanza_counted iq_handleStanza_def isStreamFeatures_def)
       (simp add: null_element_def ns_stream_def ns_client_def)
  then show ?thesis
    using assms by (simp add: handlePacketReceived_def Let_def disconnectFromHost_def socket_disconnect_def setError_def put_def
        c2s_onStreamClosed_def)
qed

lemma whitespace_ends_stream_witness:
  "socketState (handlePacketReceived example_nonsasl_env example_input null_element example_connected) = Closing"
  using whitespace_ends_stream [of example_connected example_input example_nonsasl_env] example_connected_state
  by (simp add: example_input_def)

end
