(* ===== verification/XmlStream.thy ===== *)
theory XmlStream
  imports StreamElements
begin

text \<open>
  Reading the stream: \<^verbatim>\<open>DomReader\<close> and \<^verbatim>\<open>XmppSocket::processData\<close> in
  \<^verbatim>\<open>src/base/Stream.cpp\<close>.

  \<^verbatim>\<open>QXmlStreamReader\<close> is outside: what it makes of the received data is a list of tokens, and at
  the end of the list it reports a premature end of the document.  An error of the syntax is a token
  as well; the reader stays at it.  The elements that are open are a stack, the innermost first.
  What the socket emits is a log; how the receiver reacts to it, going on, closing the connection or
  starting the stream anew, is a parameter that may look at everything emitted so far.
\<close>

section \<open>Tokens\<close>

record xml_attribute =
  xa_name :: qstring
  xa_ns :: qstring
  xa_value :: qstring

text \<open>A null prefix is \<^term>\<open>None\<close>; namespace declarations are pairs of prefix and namespace.\<close>

record start_element =
  xe_name :: qstring
  xe_ns :: qstring
  xe_prefix :: "qstring option"
  xe_declarations :: "(qstring \<times> qstring) list"
  xe_attributes :: "xml_attribute list"

datatype restricted_token = XComment | XDTD | XEntityReference | XProcessingInstruction

datatype xml_token = NotWellFormedToken qstring | StartDocument | EndDocument | StartElement start_element | EndElement
  | CharactersToken qstring bool | NoToken | Restricted restricted_token

fun restrictedXmlErrorText :: "restricted_token \<Rightarrow> qstring" where
  "restrictedXmlErrorText XComment = ''XML comments are not allowed in XMPP.''"
| "restrictedXmlErrorText XDTD = ''XML DTDs are not allowed in XMPP.''"
| "restrictedXmlErrorText XEntityReference = ''XML entity references are not allowed in XMPP.''"
| "restrictedXmlErrorText XProcessingInstruction = ''XML processing instructions are not allowed in XMPP.''"

text \<open>An attribute without namespace for the header of the stream.\<close>

definition stream_attribute :: "start_element \<Rightarrow> qstring \<Rightarrow> qstring" where
  "stream_attribute el k =
     (case List.find (\<lambda>a. xa_name a = k \<and> xa_ns a = []) (xe_attributes el) of None \<Rightarrow> [] | Some a \<Rightarrow> xa_value a)"

definition StreamOpen_fromXml :: "start_element \<Rightarrow> StreamOpen" where
  "StreamOpen_fromXml el = \<lparr>so_to = stream_attribute el ''to'', so_from = stream_attribute el ''from'', so_id = stream_attribute el ''id'',
     so_version = stream_attribute el ''version'',
     so_xmlns = fold (\<lambda>(p, uri) x. if p = [] then uri else x) (xe_declarations el) []\<rparr>"

section \<open>The reader of one element\<close>

record open_element =
  oe_tag :: qstring
  oe_ns :: qstring
  oe_attributes :: "(qstring \<times> qstring) list"
  oe_children :: "dom list"

datatype DomError = InvalidState | NotWellFormed | UnsupportedXmlFeature

datatype DomResult = CompleteElement dom | Unfinished | DomFailure DomError qstring

text \<open>\<^verbatim>\<open>setAttribute\<close> replaces a value.\<close>

definition set_attribute :: "qstring \<Rightarrow> qstring \<Rightarrow> (qstring \<times> qstring) list \<Rightarrow> (qstring \<times> qstring) list" where
  "set_attribute k v as = filter (\<lambda>a. fst a \<noteq> k) as @ [(k, v)]"

definition open_of :: "start_element \<Rightarrow> open_element" where
  "open_of el = \<lparr>oe_tag = xe_name el, oe_ns = (if xe_prefix el = None then [] else xe_ns el),
     oe_attributes = fold (\<lambda>a. set_attribute (xa_name a) (xa_value a)) (xe_attributes el)
       (fold (\<lambda>(p, uri). set_attribute ''xmlns'' uri) (xe_declarations el) []),
     oe_children = []\<rparr>"

definition close_element :: "open_element \<Rightarrow> dom" where
  "close_element o1 = Elem (oe_tag o1) (oe_ns o1) (oe_attributes o1) (oe_children o1)"

definition add_child :: "dom \<Rightarrow> open_element \<Rightarrow> open_element" where
  "add_child d o1 = o1\<lparr>oe_children := oe_children o1 @ [d]\<rparr>"

text \<open>
  \<^verbatim>\<open>DomReader::process\<close>, from the current token on: the result, the open elements and the tokens
  after the current one.
\<close>

fun dom_process :: "xml_token list \<Rightarrow> open_element list \<Rightarrow> DomResult \<times> open_element list \<times> xml_token list" where
  "dom_process [] st = (Unfinished, st, [])"
| "dom_process (NotWellFormedToken t # ts) st = (DomFailure NotWellFormed t, st, NotWellFormedToken t # ts)"
| "dom_process (StartElement el # ts) st =
     (if list_all (\<lambda>d. fst d = []) (xe_declarations el) then dom_process ts (open_of el # st)
      else (DomFailure UnsupportedXmlFeature ''XML namespace declarations are not allowed in XMPP.'', st, ts))"
| "dom_process (EndElement # ts) st =
     (case st of
        [] \<Rightarrow> (DomFailure InvalidState ''Invalid state: Received element end instead of element start.'', st, ts)
      | [o1] \<Rightarrow> (CompleteElement (close_element o1), [], ts)
      | o1 # o2 # st' \<Rightarrow> dom_process ts (add_child (close_element o1) o2 # st'))"
| "dom_process (CharactersToken t w # ts) st =
     (case st of
        [] \<Rightarrow> (DomFailure InvalidState ''Invalid state: Received top-level character data instead of element begin.'', st, ts)
      | o1 # st' \<Rightarrow> dom_process ts (add_child (Text t) o1 # st'))"
| "dom_process (NoToken # ts) st = dom_process ts st"
| "dom_process (StartDocument # ts) st = (DomFailure InvalidState ''Invalid state: Received document begin or end.'', st, ts)"
| "dom_process (EndDocument # ts) st = (DomFailure InvalidState ''Invalid state: Received document begin or end.'', st, ts)"
| "dom_process (Restricted r # ts) st = (DomFailure UnsupportedXmlFeature (restrictedXmlErrorText r), st, ts)"

section \<open>The socket\<close>

datatype emission = StanzaReceived "dom option" | StreamStart StreamOpen | StreamEnd | StreamFailure qstring StreamError

datatype reaction = GoOn | CloseConnection | RestartStream

record XmlSocket =
  m_domReader :: "open_element list option"
  m_streamReceived :: bool
  accept_input :: bool
  emitted :: "emission list"

definition new_XmlSocket :: XmlSocket where
  "new_XmlSocket = \<lparr>m_domReader = None, m_streamReceived = False, accept_input = True, emitted = []\<rparr>"

type_synonym receiver = "emission list \<Rightarrow> reaction"

text \<open>A new stream drops what was not read yet.\<close>

definition emit :: "receiver \<Rightarrow> emission \<Rightarrow> xml_token list \<times> XmlSocket \<Rightarrow> xml_token list \<times> XmlSocket" where
  "emit react e p =
     (let s = (snd p)\<lparr>emitted := emitted (snd p) @ [e]\<rparr>
      in case react (emitted s) of
           GoOn \<Rightarrow> (fst p, s)
         | CloseConnection \<Rightarrow> (fst p, s\<lparr>accept_input := False\<rparr>)
         | RestartStream \<Rightarrow> ([], s\<lparr>m_domReader := None, m_streamReceived := False, accept_input := True\<rparr>))"

text \<open>The connection is closed after an error whatever the receiver does.\<close>

definition xml_throwError :: "qstring \<Rightarrow> StreamError \<Rightarrow> XmlSocket \<Rightarrow> XmlSocket" where
  "xml_throwError t condition s = s\<lparr>accept_input := False, emitted := emitted s @ [StreamFailure t condition]\<rparr>"

fun dom_error :: "DomError \<Rightarrow> qstring \<Rightarrow> XmlSocket \<Rightarrow> XmlSocket" where
  "dom_error InvalidState t s = xml_throwError ''Experienced internal error while parsing XML.'' SE_InternalServerError s"
| "dom_error NotWellFormed t s = xml_throwError (''Not well-formed: '' @ t) SE_NotWellFormed s"
| "dom_error UnsupportedXmlFeature t s = xml_throwError t SE_RestrictedXml s"

text \<open>Whether an element was completed, the tokens that are left, and the state.\<close>

definition readDomElement :: "receiver \<Rightarrow> xml_token list \<Rightarrow> open_element list \<Rightarrow> XmlSocket \<Rightarrow> bool \<times> xml_token list \<times> XmlSocket" where
  "readDomElement react ts st s =
     (case dom_process ts st of
        (CompleteElement d, _, rest) \<Rightarrow> (True, emit react (StanzaReceived (Some d)) (rest, s\<lparr>m_domReader := None\<rparr>))
      | (Unfinished, st', rest) \<Rightarrow> (False, rest, s\<lparr>m_domReader := Some st'\<rparr>)
      | (DomFailure err t, st', rest) \<Rightarrow> (False, rest, dom_error err t (s\<lparr>m_domReader := Some st'\<rparr>)))"

definition is_stream_start :: "start_element \<Rightarrow> bool" where
  "is_stream_start el \<longleftrightarrow> xe_name el = ''stream'' \<and> xe_ns el = ns_stream"

text \<open>One round of the loop at the top level: whether the function goes on, the tokens left, the state.\<close>

fun top_token :: "receiver \<Rightarrow> xml_token \<Rightarrow> xml_token list \<Rightarrow> XmlSocket \<Rightarrow> bool \<times> xml_token list \<times> XmlSocket" where
  "top_token react (NotWellFormedToken t) ts s = (False, NotWellFormedToken t # ts, xml_throwError t SE_NotWellFormed s)"
| "top_token react StartDocument ts s = (True, ts, s)"
| "top_token react EndDocument ts s = (True, ts, s)"
| "top_token react (StartElement el) ts s =
     (if is_stream_start el then
        if xe_prefix el \<noteq> Some ''stream''
        then (True, ts, xml_throwError ''Top-level stream element must have a namespace prefix of 'stream'.'' SE_BadNamespacePrefix s)
        else (True, emit react (StreamStart (StreamOpen_fromXml el)) (ts, s\<lparr>m_streamReceived := True\<rparr>))
      else if \<not> m_streamReceived s then (True, ts, xml_throwError
        ''Invalid element received. Expected 'stream' element qualified by 'http://etherx.jabber.org/streams' namespace.'' SE_BadFormat s)
      else readDomElement react (StartElement el # ts) [] s)"
| "top_token react EndElement ts s = (True, emit react StreamEnd (ts, s))"
| "top_token react (CharactersToken t whitespace) ts s =
     (if whitespace then (True, emit react (StanzaReceived None) (ts, s))
      else (True, ts, xml_throwError ''Top-level, non-whitespace character data is not allowed in XMPP.'' SE_BadFormat s))"
| "top_token react NoToken ts s = (True, ts, s)"
| "top_token react (Restricted r) ts s = (True, ts, xml_throwError (restrictedXmlErrorText r) SE_RestrictedXml s)"

lemma dom_process_length: "length (snd (snd (dom_process ts st))) \<le> length ts"
  by (induction ts st rule: dom_process.induct) (auto split: list.splits intro: le_SucI)

lemma emit_length: "length (fst (emit react e (ts, s))) \<le> length ts"
  by (simp add: emit_def Let_def split: reaction.split)

lemma readDomElement_length:
  "length (fst (snd (readDomElement react ts st s))) \<le> length (snd (snd (dom_process ts st)))"
  using emit_length by (simp add: readDomElement_def split: prod.split DomResult.split)

lemma rest_length:
  "emit react e (ts, s) = (rest, s') \<Longrightarrow> length rest \<le> length ts"
  "readDomElement react ts st s = (go, rest, s') \<Longrightarrow> length rest \<le> length (snd (snd (dom_process ts st)))"
  using emit_length [of react e ts s] readDomElement_length [of react ts st s] by simp_all

lemma top_token_length: "top_token react t ts s = (True, rest, s') \<Longrightarrow> length rest \<le> length ts"
proof (cases t)
  case (StartElement el)
  have "length (snd (snd (dom_process (StartElement el # ts) []))) \<le> length ts" using dom_process_length [of ts] by simp
  then show "top_token react t ts s = (True, rest, s') \<Longrightarrow> length rest \<le> length ts"
    by (auto simp: StartElement simp del: dom_process.simps split: if_splits dest!: rest_length)
qed (auto dest: rest_length split: if_splits)

text \<open>The loop at the top level; at least one token is read.\<close>

function top_loop :: "receiver \<Rightarrow> xml_token list \<Rightarrow> XmlSocket \<Rightarrow> XmlSocket" where
  "top_loop react [] s = s"
| "top_loop react (t # ts) s =
     (case top_token react t ts s of (go, rest, s') \<Rightarrow> if go \<and> accept_input s' then top_loop react rest s' else s')"
  by pat_completeness auto
termination
  by (relation "measure (\<lambda>(_, ts, _). length ts)") (auto simp: less_Suc_eq_le dest: top_token_length [OF sym] top_token_length)

text \<open>Received data that is empty is \<^term>\<open>None\<close>; otherwise its tokens.\<close>

definition processData :: "receiver \<Rightarrow> xml_token list option \<Rightarrow> XmlSocket \<Rightarrow> XmlSocket" where
  "processData react data s =
     (if \<not> accept_input s then s
      else case data of
             None \<Rightarrow> snd (emit react (StanzaReceived None) ([], s))
           | Some ts \<Rightarrow>
               (case m_domReader s of
                  Some st \<Rightarrow> (case readDomElement react ts st s of (go, rest, s') \<Rightarrow> if go then top_loop react rest s' else s')
                | None \<Rightarrow> top_loop react ts s))"

section \<open>Reading in pieces\<close>

lemma dom_process_append:
  "dom_process (a @ b) st = (case dom_process a st of (Unfinished, st', rest) \<Rightarrow> dom_process b st' | (r, st', rest) \<Rightarrow> (r, st', rest @ b))"
  by (induction a st rule: dom_process.induct) (auto split: list.splits)

lemma emit_GoOn: "(\<And>h. react h = GoOn) \<Longrightarrow> emit react e (ts, s) = (ts, s\<lparr>emitted := emitted s @ [e]\<rparr>)"
  by (simp add: emit_def Let_def)

lemma dom_error_closed: "\<not> accept_input (dom_error err t s)"
  by (cases err) (simp_all add: xml_throwError_def)

lemma processData_closed: "\<not> accept_input s \<Longrightarrow> processData react data s = s"
  by (simp add: processData_def)

lemma top_loop_append:
  assumes "\<And>h. react h = GoOn" and "accept_input s" and "m_domReader s = None"
  shows "top_loop react (a @ b) s = processData react (Some b) (top_loop react a s)"
  using assms(2,3)
proof (induction a arbitrary: s rule: length_induct)
  case (1 a)
  note go = emit_GoOn [of react, OF assms(1)]
  show ?case
  proof (cases a)
    case Nil
    then show ?thesis using 1 by (simp add: processData_def)
  next
    case (Cons t r)
    have IH: "top_loop react (r' @ b) s' = processData react (Some b) (top_loop react r' s')"
      if "length r' \<le> length r" "accept_input s'" "m_domReader s' = None" for r' s'
      using 1 that Cons by simp
    show ?thesis
    proof (cases "\<exists>el. t = StartElement el \<and> \<not> is_stream_start el \<and> m_streamReceived s")
      case False
      then show ?thesis
        using IH 1(2,3) unfolding Cons by (cases t) (auto simp: go xml_throwError_def processData_closed)
    next
      case True
      then obtain el where el: "t = StartElement el" "\<not> is_stream_start el" "m_streamReceived s" by blast
      obtain res st' rest where d: "dom_process (t # r) [] = (res, st', rest)" by (rule prod_cases3)
      have "length (snd (snd (dom_process (t # r) []))) \<le> length r" by (simp add: el dom_process_length)
      then have rest: "length rest \<le> length r" using d by simp
      have app: "dom_process (t # r @ b) [] = (case res of Unfinished \<Rightarrow> dom_process b st' | _ \<Rightarrow> (res, st', rest @ b))"
        using dom_process_append [of "t # r" b "[]"] d by (cases res) simp_all
      show ?thesis
      proof (cases res)
        case (CompleteElement x)
        then show ?thesis using IH [OF rest] 1(2) el d app
          by (simp add: Cons readDomElement_def go)
      next
        case Unfinished
        then show ?thesis using 1(2) el d app
          by (simp add: Cons readDomElement_def processData_def go split: prod.split DomResult.split)
      next
        case (DomFailure err x)
        then show ?thesis using el d app dom_error_closed
          by (simp add: Cons readDomElement_def processData_def)
      qed
    qed
  qed
qed


section \<open>Properties\<close>


text \<open>An element in two pieces: its start and its end.\<close>

definition example_element :: "qstring \<Rightarrow> xml_token list" where
  "example_element tag = [StartElement \<lparr>xe_name = tag, xe_ns = [], xe_prefix = None, xe_declarations = [], xe_attributes = []\<rparr>, EndElement]"

definition example_socket :: XmlSocket where
  "example_socket = new_XmlSocket\<lparr>m_streamReceived := True\<rparr>"


text \<open>
  Closing the connection does not always stop the delivery: when the element whose handling
  closes the connection was begun in an earlier piece, one more element is delivered after it; when it
  came in one piece it is the last.
\<close>

lemma element_delivered_after_close:
  "let react = (\<lambda>_. CloseConnection); a = example_element ''a''; b = example_element ''b''
   in emitted (processData react (Some (drop 1 a @ b)) (processData react (Some (take 1 a)) example_socket)) =
        [StanzaReceived (Some (Elem ''a'' [] [] [])), StanzaReceived (Some (Elem ''b'' [] [] []))] \<and>
      emitted (processData react (Some (a @ b)) example_socket) = [StanzaReceived (Some (Elem ''a'' [] [] []))]"
  by code_simp

end
