(* ===== verification/IqHandling.thy ===== *)
theory IqHandling
  imports ClientManagers Utils
begin

text \<open>
  IQs with a payload class and the dispatch of incoming requests, from \<^verbatim>\<open>src/base/Iq.h\<close> and
  \<^verbatim>\<open>src/client/QXmppIqHandling.h\<close>, and what the managers share that keep a copy of data which
  the server owns.

  A payload class is its parser, from a possibly null element, and its serializer.  A handler of
  a request takes the element and the state of its manager and gives the answer and the new
  state, or nothing when the request does not parse.
\<close>

section \<open>IQs with a payload\<close>

record 'p PayloadIq =
  piq_id :: qstring
  piq_from :: qstring
  piq_to :: qstring
  piq_lang :: qstring
  piq_payload :: 'p

definition Iq_fromDom :: "IqType \<Rightarrow> (dom option \<Rightarrow> 'p option) \<Rightarrow> dom \<Rightarrow> 'p PayloadIq option" where
  "Iq_fromDom type parse el =
     (if tagName el = ''iq'' \<and> hasAttribute ''id'' el \<and> attr ''type'' el = enum_toString IqType_Values type then
        (case (case firstChildElement el [] [] of None \<Rightarrow> None | Some c \<Rightarrow> parse (Some c)) of
           Some payload \<Rightarrow> Some \<lparr>piq_id = attr ''id'' el, piq_from = attr ''from'' el, piq_to = attr ''to'' el,
             piq_lang = attr ''xml:lang'' el, piq_payload = payload\<rparr>
         | None \<Rightarrow> None)
      else None)"

definition Iq_toXml :: "IqType \<Rightarrow> ('p \<Rightarrow> item) \<Rightarrow> 'p PayloadIq \<Rightarrow> item" where
  "Iq_toXml type print iq = ElementInherit ''iq''
     ([Attribute ''id'' (piq_id iq)] @ OptionalAttribute ''from'' (piq_from iq) @ OptionalAttribute ''to'' (piq_to iq) @
      [Attribute ''type'' (enum_toString IqType_Values type)] @ OptionalAttribute ''xml:lang'' (piq_lang iq) @
      [print (piq_payload iq)])"

section \<open>Answers to requests\<close>

datatype qxmpp_error = QXmppError qstring "iq_error option"

datatype 'p iq_response = ResponsePayload 'p | ResponseStanzaError StanzaError | ResponseError qxmpp_error

definition parseIqResponse :: "nonza_env \<Rightarrow> (dom option \<Rightarrow> 'p option) \<Rightarrow> IqResult \<Rightarrow> 'p iq_response" where
  "parseIqResponse e parse sendResult =
     (case sendResult of
        IqElement el \<Rightarrow>
          (if attr ''type'' el = ''result'' then
             (case parse (firstChildElement el [] []) of
                Some payload \<Rightarrow> ResponsePayload payload
              | None \<Rightarrow> ResponseError (QXmppError ''Failed to parse IQ result payload''
                  (Some (StanzaErr (new_StanzaError\<lparr>err_type := Cancel, err_condition := UndefinedCondition\<rparr>)))))
           else if attr ''type'' el = ''error'' then
             ResponseStanzaError (StanzaError_parse e (case lastChildElement el of None \<Rightarrow> null_element | Some c \<Rightarrow> c))
           else ResponseError (QXmppError ''Received unexpected IQ type'' None))
      | IqFailure txt err \<Rightarrow> ResponseError (QXmppError txt (Some err)))"

definition parseIqResponseFlat :: "nonza_env \<Rightarrow> (dom option \<Rightarrow> 'p option) \<Rightarrow> IqResult \<Rightarrow> qxmpp_error + 'p" where
  "parseIqResponseFlat e parse sendResult =
     (case parseIqResponse e parse sendResult of
        ResponsePayload p \<Rightarrow> Inr p
      | ResponseStanzaError err \<Rightarrow> Inl (QXmppError (err_text err) (Some (StanzaErr err)))
      | ResponseError err \<Rightarrow> Inl err)"

section \<open>Incoming requests\<close>

text \<open>An IQ without addresses, id and extensions.\<close>

definition new_QXmppIq :: "IqType \<Rightarrow> QXmppIq" where
  "new_QXmppIq type = \<lparr>st_to = [], st_from = [], st_id = [], st_lang = [], st_error = None, st_extensions = [],
     st_addresses = [], iq_type = type\<rparr>"

definition checkIsIqRequest :: "dom \<Rightarrow> bool \<times> qstring \<times> qstring" where
  "checkIsIqRequest el =
     (if tagName el \<noteq> ''iq'' then (False, [], [])
      else if attr ''type'' el \<noteq> ''get'' \<and> attr ''type'' el \<noteq> ''set'' then (False, [], [])
      else (True, elementXmlTag (firstChildElement el [] [])))"

definition sendIqReply :: "qstring \<Rightarrow> qstring \<Rightarrow> QXmppIq \<Rightarrow> QXmppIq" where
  "sendIqReply requestId requestFrom iq =
     iq\<lparr>iq_type := (case iq_type iq of IqGet \<Rightarrow> IqResult | IqSet \<Rightarrow> IqResult | IqError \<Rightarrow> IqError | IqResult \<Rightarrow> IqResult),
        st_to := requestFrom, st_id := requestId\<rparr>"

definition processHandleIqResult :: "qstring \<Rightarrow> qstring \<Rightarrow> StanzaError + QXmppIq \<Rightarrow> QXmppIq" where
  "processHandleIqResult requestId requestFrom result =
     (case result of
        Inr iq \<Rightarrow> sendIqReply requestId requestFrom iq
      | Inl err \<Rightarrow> sendIqReply requestId requestFrom ((new_QXmppIq IqError)\<lparr>st_error := Some err\<rparr>))"

type_synonym 's iq_handler = "(qstring \<times> qstring) \<times> (dom \<Rightarrow> 's \<Rightarrow> ((StanzaError + QXmppIq) \<times> 's) option)"

text \<open>The reply to send, when there is a handler for the payload and the request parses.\<close>

definition handleIqType :: "'s iq_handler \<Rightarrow> dom \<Rightarrow> qstring \<times> qstring \<Rightarrow> 's \<Rightarrow> (QXmppIq \<times> 's) option" where
  "handleIqType h element tag s =
     (if fst h = tag then
        (case snd h element s of
           Some (result, s') \<Rightarrow> Some (processHandleIqResult (attr ''id'' element) (attr ''from'' element) result, s')
         | None \<Rightarrow> None)
      else None)"

fun first_handler :: "'s iq_handler list \<Rightarrow> dom \<Rightarrow> qstring \<times> qstring \<Rightarrow> 's \<Rightarrow> (QXmppIq \<times> 's) option" where
  "first_handler [] element tag s = None"
| "first_handler (h # hs) element tag s =
     (case handleIqType h element tag s of None \<Rightarrow> first_handler hs element tag s | r \<Rightarrow> r)"

definition handleIqRequests :: "'s iq_handler list \<Rightarrow> dom \<Rightarrow> 's \<Rightarrow> (QXmppIq \<times> 's) option" where
  "handleIqRequests hs element s =
     (case checkIsIqRequest element of (isRequest, tag) \<Rightarrow> if isRequest then first_handler hs element tag s else None)"

section \<open>Copies of data the server owns\<close>

text \<open>
  The contract of a manager that keeps a copy of data the server owns: a push the server sends
  changes the copy, once there is one, in the way the server has changed the original.
\<close>

locale server_copy =
  fixes view :: "'s \<Rightarrow> 'v option"
    and ok :: "'s \<Rightarrow> bool"
    and push :: "'p \<Rightarrow> 's \<Rightarrow> 's"
    and change :: "'p \<Rightarrow> 'v \<Rightarrow> 'v"
  assumes ok_push: "ok s \<Longrightarrow> ok (push p s)"
    and view_push: "ok s \<Longrightarrow> view (push p s) = map_option (change p) (view s)"
begin

lemma pushes: "ok s \<Longrightarrow> ok (fold push ps s) \<and> view (fold push ps s) = map_option (fold change ps) (view s)"
proof (induction ps arbitrary: s)
  case Nil
  then show ?case by (simp add: option.map_ident)
next
  case (Cons p ps)
  show ?case
    using Cons.IH [OF ok_push [OF Cons.prems]] view_push [OF Cons.prems, of p]
    by (simp add: option.map_comp comp_def)
qed

lemma copy_follows: "ok s \<Longrightarrow> view s = Some v \<Longrightarrow> view (fold push ps s) = Some (fold change ps v)"
  using pushes [of s ps] by simp

end

section \<open>Lemmas\<close>

lemma IqType_names:
  "enum_fromString IqType_Values (enum_toString IqType_Values t) = Some t"
  by (cases t) (simp_all add: enum_fromString_def enum_toString_def IqType_Values_def)

lemma Iq_roundtrip:
  assumes "\<And>x. self_contained tag ns (print x)" and "\<And>x. parse (Some (written (print x))) = Some (f x)"
  shows "map (Iq_fromDom type parse) (item_nodes n (Iq_toXml type print iq)) =
    [Some \<lparr>piq_id = piq_id iq, piq_from = piq_from iq, piq_to = piq_to iq, piq_lang = piq_lang iq, piq_payload = f (piq_payload iq)\<rparr>]"
  using self_contained_written [OF assms(1)] assms(2)
  by (simp add: Iq_toXml_def Iq_fromDom_def ElementInherit_def build_def OptionalAttribute_def attr_def hasAttribute_def dom_simps)

lemma sendIqReply_sel [simp]:
  "st_to (sendIqReply i from iq) = from" "st_id (sendIqReply i from iq) = i"
  "iq_type (sendIqReply i from iq) = (if iq_type iq = IqError then IqError else IqResult)"
  "st_error (sendIqReply i from iq) = st_error iq"
  by (simp_all add: sendIqReply_def split: IqType.split)

lemma processHandleIqResult_sel [simp]:
  "st_to (processHandleIqResult i from r) = from" "st_id (processHandleIqResult i from r) = i"
  "iq_type (processHandleIqResult i from r) = IqError \<longleftrightarrow> iq_type (processHandleIqResult i from r) \<noteq> IqResult"
  by (simp_all add: processHandleIqResult_def split: sum.split)

text \<open>Every request that is handled is answered with its own id, at the address it came from.\<close>

lemma handled_answer:
  assumes "handleIqRequests hs element s = Some (reply, s')"
  shows "st_to reply = attr ''from'' element" "st_id reply = attr ''id'' element" "iq_type reply = IqResult \<or> iq_type reply = IqError"
    "tagName element = ''iq''" "attr ''type'' element \<in> {''get'', ''set''}"
proof -
  have 1: "st_to r = attr ''from'' element \<and> st_id r = attr ''id'' element \<and> (iq_type r = IqResult \<or> iq_type r = IqError)"
    if "first_handler hs' element tag s = Some (r, t)" for hs' tag r t
    using that
    by (induction hs') (auto simp: handleIqType_def split: option.splits if_splits)
  then show "st_to reply = attr ''from'' element" "st_id reply = attr ''id'' element" "iq_type reply = IqResult \<or> iq_type reply = IqError"
    "tagName element = ''iq''" "attr ''type'' element \<in> {''get'', ''set''}"
    using assms by (auto simp: handleIqRequests_def checkIsIqRequest_def split: if_splits)
qed

end
