(* ===== verification/Dialback.thy ===== *)
theory Dialback
  imports StreamElements IqHandling Utils
begin

text \<open>
  Server dialback (XEP-0220): the elements of \<^verbatim>\<open>src/server/QXmppDialback.cpp\<close>, the stream to
  another server of \<^verbatim>\<open>src/server/QXmppOutgoingServer.cpp\<close> and the stream from another server of
  \<^verbatim>\<open>src/server/QXmppIncomingServer.cpp\<close>, which verifies the other domain over streams of its own.

  What is sent and what is reported are logs.  The socket connects once and closes once; data written to a
  socket that is not connected is lost, as \<^verbatim>\<open>sendData\<close> reports and the callers ignore.
\<close>

definition ns_server :: qstring where "ns_server = ''jabber:server''"
definition ns_server_dialback :: qstring where "ns_server_dialback = ''jabber:server:dialback''"

definition new_StreamFeatures :: QXmppStreamFeatures where
  "new_StreamFeatures = \<lparr>bindMode = FeatureDisabled, sessionMode = FeatureDisabled, nonSaslAuthMode = FeatureDisabled,
     tlsMode = FeatureDisabled, streamManagementMode = FeatureDisabled, csiMode = FeatureDisabled, registerMode = FeatureDisabled,
     preApprovedSubscriptionsSupported = False, rosterVersioningSupported = False, authMechanisms = [],
     compressionMethods = [], sasl2Feature = None\<rparr>"

section \<open>Dialback elements\<close>

datatype dialback_command = DialbackResult | DialbackVerify

record QXmppDialback = QXmppStanza +
  db_command :: dialback_command
  db_key :: qstring
  db_type :: qstring

definition new_QXmppDialback :: QXmppDialback where
  "new_QXmppDialback = \<lparr>st_to = [], st_from = [], st_id = [], st_lang = [], st_error = None, st_extensions = [],
     st_addresses = [], db_command = DialbackResult, db_key = [], db_type = []\<rparr>"

definition isDialback :: "dom \<Rightarrow> bool" where
  "isDialback element \<longleftrightarrow> namespaceURI element = ns_server_dialback \<and> (tagName element = ''result'' \<or> tagName element = ''verify'')"

definition Dialback_parse :: "nonza_env \<Rightarrow> dom \<Rightarrow> QXmppDialback" where
  "Dialback_parse e element = QXmppStanza.extend (QXmppStanza_parse e element)
     (QXmppDialback.fields (if tagName element = ''result'' then DialbackResult else DialbackVerify) (dom_text element) (attr ''type'' element))"

text \<open>The prefix \<^verbatim>\<open>db\<close> stands for the dialback namespace, as the headers of server streams declare it.\<close>

definition Dialback_toXml :: "QXmppDialback \<Rightarrow> item" where
  "Dialback_toXml d = Element (if db_command d = DialbackResult then ''result'' else ''verify'') ns_server_dialback
     (OptionalAttribute ''id'' (st_id d) @ OptionalAttribute ''to'' (st_to d) @ OptionalAttribute ''from'' (st_from d) @
      OptionalAttribute ''type'' (db_type d) @ (if db_key d = [] then [] else [Characters (db_key d)]))"

definition dialback_dom :: "QXmppDialback \<Rightarrow> dom" where
  "dialback_dom d = hd (item_nodes ns_server (Dialback_toXml d))"

section \<open>Streams to other servers\<close>

datatype s2s_socket = SocketIdle | SocketUp | SocketDown

datatype os_output = OsHeader qstring qstring | OsPacket dom | OsData dom | OsEnd

datatype os_signal = OsConnected | OsDisconnected | DialbackResponseReceived QXmppDialback

record QXmppOutgoingServer =
  os_socket :: s2s_socket
  os_encrypted :: bool
  dataQueue :: "dom list"
  localDomain :: qstring
  os_localStreamKey :: qstring
  remoteDomain :: qstring
  verifyId :: qstring
  verifyKey :: qstring
  dialbackTimer :: bool
  os_ready :: bool
  os_sent :: "os_output list"
  os_signals :: "os_signal list"

definition new_OutgoingServer :: "qstring \<Rightarrow> QXmppOutgoingServer" where
  "new_OutgoingServer domain = \<lparr>os_socket = SocketIdle, os_encrypted = False, dataQueue = [], localDomain = domain,
     os_localStreamKey = [], remoteDomain = [], verifyId = [], verifyKey = [], dialbackTimer = False, os_ready = False,
     os_sent = [], os_signals = []\<rparr>"

definition os_isConnected :: "QXmppOutgoingServer \<Rightarrow> bool" where
  "os_isConnected s \<longleftrightarrow> os_socket s = SocketUp \<and> os_ready s"

definition os_put :: "os_output \<Rightarrow> QXmppOutgoingServer \<Rightarrow> QXmppOutgoingServer" where
  "os_put x s = (if os_socket s = SocketUp then s\<lparr>os_sent := os_sent s @ [x]\<rparr> else s)"

definition os_emit :: "os_signal \<Rightarrow> QXmppOutgoingServer \<Rightarrow> QXmppOutgoingServer" where
  "os_emit x s = s\<lparr>os_signals := os_signals s @ [x]\<rparr>"

definition os_disconnectFromHost :: "QXmppOutgoingServer \<Rightarrow> QXmppOutgoingServer" where
  "os_disconnectFromHost s = (os_put OsEnd s)\<lparr>os_socket := SocketDown\<rparr>"

definition os_connectToHost :: "qstring \<Rightarrow> QXmppOutgoingServer \<Rightarrow> QXmppOutgoingServer" where
  "os_connectToHost domain s = s\<lparr>remoteDomain := domain\<rparr>"

definition setVerify :: "qstring \<Rightarrow> qstring \<Rightarrow> QXmppOutgoingServer \<Rightarrow> QXmppOutgoingServer" where
  "setVerify i key s = s\<lparr>verifyId := i, verifyKey := key\<rparr>"

text \<open>The host and port to connect to, from the records of the lookup unless it failed.\<close>

definition srv_address :: "(qstring \<times> 16 word) list option \<Rightarrow> qstring \<Rightarrow> qstring \<times> 16 word" where
  "srv_address records domain = (case records of Some (r # _) \<Rightarrow> r | _ \<Rightarrow> (domain, 5269))"

definition os_handleStart :: "QXmppOutgoingServer \<Rightarrow> QXmppOutgoingServer" where
  "os_handleStart s = os_put (OsHeader (localDomain s) (remoteDomain s)) s"

definition queueData :: "dom \<Rightarrow> QXmppOutgoingServer \<Rightarrow> QXmppOutgoingServer" where
  "queueData dat s = (if os_isConnected s then os_put (OsData dat) s else s\<lparr>dataQueue := dataQueue s @ [dat]\<rparr>)"

definition sendDialback :: "QXmppOutgoingServer \<Rightarrow> QXmppOutgoingServer" where
  "sendDialback s =
     (if os_localStreamKey s \<noteq> [] then
        os_put (OsPacket (dialback_dom (new_QXmppDialback\<lparr>db_command := DialbackResult, st_from := localDomain s,
          st_to := remoteDomain s, db_key := os_localStreamKey s\<rparr>))) s
      else if verifyId s \<noteq> [] \<and> verifyKey s \<noteq> [] then
        os_put (OsPacket (dialback_dom (new_QXmppDialback\<lparr>db_command := DialbackVerify, st_id := verifyId s, st_from := localDomain s,
          st_to := remoteDomain s, db_key := verifyKey s\<rparr>))) s
      else s)"

definition os_handleStanza :: "nonza_env \<Rightarrow> bool \<Rightarrow> dom \<Rightarrow> QXmppOutgoingServer \<Rightarrow> QXmppOutgoingServer" where
  "os_handleStanza e supportsSsl stanza s =
     (if isStreamFeatures stanza then
        let mode = tlsMode (QXmppStreamFeatures_parse stanza)
        in if \<not> os_encrypted s \<and> \<not> supportsSsl \<and> mode = FeatureRequired then os_disconnectFromHost s
           else if \<not> os_encrypted s \<and> supportsSsl \<and> mode \<noteq> FeatureDisabled
           then os_put (OsPacket (hd (item_nodes ns_server StarttlsRequest_toXml))) s
           else sendDialback (s\<lparr>dialbackTimer := False\<rparr>)
      else if StarttlsProceed_fromDom stanza \<noteq> None then s\<lparr>os_encrypted := True\<rparr>
      else if isDialback stanza then
        let response = Dialback_parse e stanza
        in if st_from response = [] \<or> st_to response \<noteq> localDomain s \<or> db_type response = [] then s
           else if db_command response = DialbackResult then
             (if db_type response = ''valid''
              then os_emit OsConnected ((fold (\<lambda>dat. os_put (OsData dat)) (dataQueue s) (s\<lparr>os_ready := True\<rparr>))\<lparr>dataQueue := []\<rparr>)
              else s)
           else os_emit (DialbackResponseReceived response) s
      else s)"

datatype os_event = OsStarted | OsStreamReceived | OsStanzaReceived bool dom | OsDialbackTimeout | OsStreamClosed
  | OsSocketDisconnected | OsSocketError | OsQueueData dom

fun os_step :: "nonza_env \<Rightarrow> os_event \<Rightarrow> QXmppOutgoingServer \<Rightarrow> QXmppOutgoingServer" where
  "os_step e OsStarted s = os_handleStart (s\<lparr>os_socket := SocketUp\<rparr>)"
| "os_step e OsStreamReceived s = s\<lparr>dialbackTimer := True\<rparr>"
| "os_step e (OsStanzaReceived supportsSsl el) s = os_handleStanza e supportsSsl el s"
| "os_step e OsDialbackTimeout s = sendDialback (s\<lparr>dialbackTimer := False\<rparr>)"
| "os_step e OsStreamClosed s = os_disconnectFromHost s"
| "os_step e OsSocketDisconnected s = os_emit OsDisconnected (s\<lparr>os_socket := SocketDown\<rparr>)"
| "os_step e OsSocketError s = os_emit OsDisconnected s"
| "os_step e (OsQueueData dat) s = queueData dat s"

fun os_may_occur :: "os_event \<Rightarrow> QXmppOutgoingServer \<Rightarrow> bool" where
  "os_may_occur OsStarted s = (os_socket s = SocketIdle)"
| "os_may_occur (OsStanzaReceived _ _) s = (os_socket s = SocketUp)"
| "os_may_occur OsDialbackTimeout s = dialbackTimer s"
| "os_may_occur _ s = True"

section \<open>Streams from other servers\<close>

datatype is_output = IsHeader qstring | IsPacket dom | IsEnd

datatype is_signal = IsConnected | IsDisconnected | DialbackRequestReceived QXmppDialback | IsElementReceived dom

record QXmppIncomingServer =
  is_domain :: qstring
  is_authenticated :: "qstring list"
  is_localStreamId :: qstring
  verifiers :: "QXmppOutgoingServer list"
  is_open :: bool
  is_encrypted :: bool
  is_sent :: "is_output list"
  is_signals :: "is_signal list"

definition new_IncomingServer :: "qstring \<Rightarrow> QXmppIncomingServer" where
  "new_IncomingServer domain = \<lparr>is_domain = domain, is_authenticated = [], is_localStreamId = [], verifiers = [], is_open = True,
     is_encrypted = False, is_sent = [], is_signals = []\<rparr>"

definition is_isConnected :: "QXmppIncomingServer \<Rightarrow> bool" where
  "is_isConnected s \<longleftrightarrow> is_open s \<and> is_authenticated s \<noteq> []"

definition is_put :: "is_output \<Rightarrow> QXmppIncomingServer \<Rightarrow> QXmppIncomingServer" where
  "is_put x s = (if is_open s then s\<lparr>is_sent := is_sent s @ [x]\<rparr> else s)"

definition is_emit :: "is_signal \<Rightarrow> QXmppIncomingServer \<Rightarrow> QXmppIncomingServer" where
  "is_emit x s = s\<lparr>is_signals := is_signals s @ [x]\<rparr>"

definition is_disconnectFromHost :: "QXmppIncomingServer \<Rightarrow> QXmppIncomingServer" where
  "is_disconnectFromHost s = (is_put IsEnd s)\<lparr>is_open := False\<rparr>"

text \<open>The features of a server stream: TLS, if there is a certificate and the stream is not encrypted.\<close>

definition is_handleStream :: "bool \<Rightarrow> qstring \<Rightarrow> QXmppIncomingServer \<Rightarrow> QXmppIncomingServer" where
  "is_handleStream certificate generated s =
     (let s1 = is_put (IsHeader generated) (s\<lparr>is_localStreamId := generated\<rparr>);
          f = (if \<not> is_encrypted s1 \<and> certificate then new_StreamFeatures\<lparr>tlsMode := FeatureEnabled\<rparr> else new_StreamFeatures)
      in is_put (IsPacket (QXmppStreamFeatures_toXml f)) s1)"

definition verifying_stream :: "qstring \<Rightarrow> qstring \<Rightarrow> qstring \<Rightarrow> qstring \<Rightarrow> QXmppOutgoingServer" where
  "verifying_stream local_domain stream_id key domain = os_connectToHost domain (setVerify stream_id key (new_OutgoingServer local_domain))"

definition is_handleStanza :: "nonza_env \<Rightarrow> dom \<Rightarrow> QXmppIncomingServer \<Rightarrow> QXmppIncomingServer" where
  "is_handleStanza e stanza s =
     (if StarttlsRequest_fromDom stanza \<noteq> None
      then (is_put (IsPacket (hd (item_nodes ns_server StarttlsProceed_toXml))) s)\<lparr>is_encrypted := True\<rparr>
      else if isDialback stanza then
        let request = Dialback_parse e stanza
        in if db_type request \<noteq> [] \<or> st_from request = [] \<or> st_to request \<noteq> is_domain s \<or> db_key request = [] then s
           else if db_command request = DialbackResult then
             s\<lparr>verifiers := verifiers s @ [verifying_stream (is_domain s) (is_localStreamId s) (db_key request) (st_from request)]\<rparr>
           else is_emit (DialbackRequestReceived request) s
      else if jidToDomain (attr ''from'' stanza) \<in> set (is_authenticated s) then is_emit (IsElementReceived stanza) s
      else is_disconnectFromHost s)"

text \<open>
  The response to the verification number \<^verbatim>\<open>k\<close>.  The verifying stream is closed in the end, unless the
  response was not for it; its deletion, which follows, is not visible any more.
\<close>

definition slotDialbackResponseReceived :: "nat \<Rightarrow> QXmppDialback \<Rightarrow> QXmppIncomingServer \<Rightarrow> QXmppIncomingServer" where
  "slotDialbackResponseReceived k dialback s =
     (if db_command dialback \<noteq> DialbackVerify \<or> st_id dialback \<noteq> is_localStreamId s \<or>
         st_from dialback \<noteq> remoteDomain (verifiers s ! k) then s
      else let response = new_QXmppDialback\<lparr>db_command := DialbackResult, st_to := st_from dialback, st_from := is_domain s,
                 db_type := db_type dialback\<rparr>;
               s1 = is_put (IsPacket (dialback_dom response)) s;
               s2 = (if db_type response = ''valid'' then
                       let t = s1\<lparr>is_authenticated := List.insert (st_from dialback) (is_authenticated s1)\<rparr>
                       in if is_authenticated s1 = [] then is_emit IsConnected t else t
                     else is_disconnectFromHost s1)
           in s2\<lparr>verifiers := (verifiers s2)[k := os_disconnectFromHost (verifiers s2 ! k)]\<rparr>)"

datatype is_event = IsStreamReceived bool qstring | IsStanzaReceived dom | IsStreamClosed | IsSocketDisconnected
  | VerifierEvent nat os_event

text \<open>A step of a verifying stream, whose new responses are handled at once.\<close>

definition verifier_step :: "nonza_env \<Rightarrow> nat \<Rightarrow> os_event \<Rightarrow> QXmppIncomingServer \<Rightarrow> QXmppIncomingServer" where
  "verifier_step e k ev s =
     (let v = verifiers s ! k; v' = os_step e ev v;
          new = drop (length (os_signals v)) (os_signals v')
      in fold (\<lambda>x. case x of DialbackResponseReceived d \<Rightarrow> slotDialbackResponseReceived k d | _ \<Rightarrow> (\<lambda>s. s)) new
           (s\<lparr>verifiers := (verifiers s)[k := v']\<rparr>))"

fun is_step :: "nonza_env \<Rightarrow> is_event \<Rightarrow> QXmppIncomingServer \<Rightarrow> QXmppIncomingServer" where
  "is_step e (IsStreamReceived certificate generated) s = is_handleStream certificate generated s"
| "is_step e (IsStanzaReceived el) s = is_handleStanza e el s"
| "is_step e IsStreamClosed s = is_disconnectFromHost s"
| "is_step e IsSocketDisconnected s = is_emit IsDisconnected (s\<lparr>is_open := False\<rparr>)"
| "is_step e (VerifierEvent k ev) s = (if k < length (verifiers s) then verifier_step e k ev s else s)"

section \<open>Queued data\<close>

definition data_sent :: "QXmppOutgoingServer \<Rightarrow> dom list" where
  "data_sent s = concat (map (\<lambda>x. case x of OsData d \<Rightarrow> [d] | _ \<Rightarrow> []) (os_sent s))"

definition data_queued :: "os_event list \<Rightarrow> dom list" where
  "data_queued evs = concat (map (\<lambda>x. case x of OsQueueData d \<Rightarrow> [d] | _ \<Rightarrow> []) evs)"

definition os_run :: "nonza_env \<Rightarrow> os_event list \<Rightarrow> QXmppOutgoingServer \<Rightarrow> QXmppOutgoingServer" where
  "os_run e evs s = fold (os_step e) evs s"

definition os_possible :: "nonza_env \<Rightarrow> os_event list \<Rightarrow> QXmppOutgoingServer \<Rightarrow> bool" where
  "os_possible e evs s \<longleftrightarrow> (\<forall>k < length evs. os_may_occur (evs ! k) (os_run e (take k evs) s))"

lemma os_put_simps [simp]:
  "os_socket (os_put x s) = os_socket s" "dataQueue (os_put x s) = dataQueue s" "os_ready (os_put x s) = os_ready s"
  "os_signals (os_put x s) = os_signals s" "localDomain (os_put x s) = localDomain s" "remoteDomain (os_put x s) = remoteDomain s"
  "data_sent (os_put x s) = data_sent s @ (case x of OsData d \<Rightarrow> if os_socket s = SocketUp then [d] else [] | _ \<Rightarrow> [])"
  by (simp_all add: os_put_def data_sent_def split: os_output.split)

lemma os_emit_simps [simp]:
  "os_socket (os_emit x s) = os_socket s" "dataQueue (os_emit x s) = dataQueue s" "os_ready (os_emit x s) = os_ready s"
  "os_signals (os_emit x s) = os_signals s @ [x]" "localDomain (os_emit x s) = localDomain s" "remoteDomain (os_emit x s) = remoteDomain s"
  "data_sent (os_emit x s) = data_sent s"
  by (simp_all add: os_emit_def data_sent_def)

lemma os_disconnect_simps [simp]:
  "os_socket (os_disconnectFromHost s) = SocketDown" "dataQueue (os_disconnectFromHost s) = dataQueue s"
  "os_ready (os_disconnectFromHost s) = os_ready s" "os_signals (os_disconnectFromHost s) = os_signals s"
  "localDomain (os_disconnectFromHost s) = localDomain s" "remoteDomain (os_disconnectFromHost s) = remoteDomain s"
  "data_sent (os_disconnectFromHost s) = data_sent s"
  by (simp_all add: os_disconnectFromHost_def data_sent_def os_put_def)

lemma sendDialback_simps [simp]:
  "os_socket (sendDialback s) = os_socket s" "dataQueue (sendDialback s) = dataQueue s" "os_ready (sendDialback s) = os_ready s"
  "os_signals (sendDialback s) = os_signals s" "localDomain (sendDialback s) = localDomain s" "remoteDomain (sendDialback s) = remoteDomain s"
  "data_sent (sendDialback s) = data_sent s"
  by (simp_all add: sendDialback_def)

lemma data_sent_update [simp]:
  "data_sent (s\<lparr>os_socket := a\<rparr>) = data_sent s" "data_sent (s\<lparr>dataQueue := b\<rparr>) = data_sent s" "data_sent (s\<lparr>os_ready := c\<rparr>) = data_sent s"
  "data_sent (s\<lparr>dialbackTimer := c\<rparr>) = data_sent s" "data_sent (s\<lparr>os_encrypted := c\<rparr>) = data_sent s"
  by (simp_all add: data_sent_def)

lemma flush_simps [simp]:
  "os_socket (fold (\<lambda>dat. os_put (OsData dat)) q s) = os_socket s"
  "os_ready (fold (\<lambda>dat. os_put (OsData dat)) q s) = os_ready s"
  "os_signals (fold (\<lambda>dat. os_put (OsData dat)) q s) = os_signals s"
  "localDomain (fold (\<lambda>dat. os_put (OsData dat)) q s) = localDomain s"
  "remoteDomain (fold (\<lambda>dat. os_put (OsData dat)) q s) = remoteDomain s"
  "data_sent (fold (\<lambda>dat. os_put (OsData dat)) q s) = data_sent s @ (if os_socket s = SocketUp then q else [])"
  by (induction q arbitrary: s) simp_all

definition queue_ok :: "dom list \<Rightarrow> QXmppOutgoingServer \<Rightarrow> bool" where
  "queue_ok given s \<longleftrightarrow> data_sent s @ dataQueue s = given \<and> (os_isConnected s \<longrightarrow> dataQueue s = []) \<and>
     (os_ready s \<longrightarrow> os_socket s \<noteq> SocketIdle)"

lemma queue_ok_step:
  assumes "queue_ok given s" and "os_may_occur ev s"
  shows "queue_ok (given @ data_queued [ev]) (os_step e ev s)"
proof (cases ev)
  case (OsStanzaReceived ssl el)
  then show ?thesis using assms
    by (auto simp: queue_ok_def os_isConnected_def data_queued_def os_handleStanza_def Let_def)
qed (use assms in \<open>auto simp: queue_ok_def os_isConnected_def data_queued_def os_handleStart_def queueData_def\<close>)

lemma queue_ok_run:
  assumes "os_possible e evs (new_OutgoingServer domain)"
  shows "queue_ok (data_queued evs) (os_run e evs (new_OutgoingServer domain))"
  using assms
proof (induction evs rule: rev_induct)
  case Nil
  show ?case by (simp add: queue_ok_def new_OutgoingServer_def os_isConnected_def data_sent_def data_queued_def os_run_def)
next
  case (snoc ev evs)
  have possible: "os_may_occur ((evs @ [ev]) ! k) (os_run e (take k (evs @ [ev])) (new_OutgoingServer domain))" if "k \<le> length evs" for k
    using snoc.prems that by (simp add: os_possible_def del: nth_append take_append)
  have "os_possible e evs (new_OutgoingServer domain)"
    unfolding os_possible_def
  proof (intro allI impI)
    fix k assume "k < length evs"
    then show "os_may_occur (evs ! k) (os_run e (take k evs) (new_OutgoingServer domain))" using possible [of k] by (simp add: nth_append)
  qed
  then have "queue_ok (data_queued evs) (os_run e evs (new_OutgoingServer domain))" by (rule snoc.IH)
  moreover have "os_may_occur ev (os_run e evs (new_OutgoingServer domain))" using possible [of "length evs"] by simp
  ultimately have "queue_ok (data_queued evs @ data_queued [ev]) (os_step e ev (os_run e evs (new_OutgoingServer domain)))"
    by (rule queue_ok_step)
  then show ?case by (simp add: os_run_def data_queued_def)
qed

text \<open>
  C4.  Nothing that is queued for another server is lost, doubled or reordered: what was sent and what waits are together what was
  queued, in this order, and nothing waits on a connected stream.
\<close>

theorem queued_data_sent_in_order:
  assumes "os_possible e evs (new_OutgoingServer domain)"
  defines "s \<equiv> os_run e evs (new_OutgoingServer domain)"
  shows "data_sent s @ dataQueue s = data_queued evs \<and> (os_isConnected s \<longrightarrow> data_sent s = data_queued evs)"
  using queue_ok_run [OF assms(1)] by (auto simp: queue_ok_def s_def)

definition dialback_el :: "qstring \<Rightarrow> qstring \<Rightarrow> qstring \<Rightarrow> qstring \<Rightarrow> qstring \<Rightarrow> qstring \<Rightarrow> dom" where
  "dialback_el tag i sender receiver kind key = Elem tag ns_server_dialback
     [(''id'', i), (''from'', sender), (''to'', receiver), (''type'', kind)] (if key = [] then [] else [Text key])"

theorem queued_data_sent_in_order_witness:
  "data_sent (os_run example_nonza_env [OsQueueData (Text ''a''), OsStarted, OsQueueData (Text ''b''),
     OsStanzaReceived True (dialback_el ''result'' [] ''r'' ''l'' ''valid'' []), OsQueueData (Text ''c'')] (new_OutgoingServer ''l'')) =
   [Text ''a'', Text ''b'', Text ''c'']"
proof -
  let ?evs = "[OsQueueData (Text ''a''), OsStarted, OsQueueData (Text ''b''),
     OsStanzaReceived True (dialback_el ''result'' [] ''r'' ''l'' ''valid'' []), OsQueueData (Text ''c'')]"
  have "\<forall>k \<in> set [0..<5]. os_may_occur (?evs ! k) (os_run example_nonza_env (take k ?evs) (new_OutgoingServer ''l''))"
    by code_simp
  then have "os_possible example_nonza_env ?evs (new_OutgoingServer ''l'')" by (auto simp: os_possible_def)
  moreover have "os_isConnected (os_run example_nonza_env ?evs (new_OutgoingServer ''l''))" "data_queued ?evs = [Text ''a'', Text ''b'', Text ''c'']"
    by code_simp+
  ultimately show ?thesis using queued_data_sent_in_order [of example_nonza_env ?evs "''l''"] by metis
qed

section \<open>Verified domains\<close>

definition is_run :: "nonza_env \<Rightarrow> is_event list \<Rightarrow> QXmppIncomingServer \<Rightarrow> QXmppIncomingServer" where
  "is_run e evs s = fold (is_step e) evs s"

text \<open>The domain asked for a verification with a key.\<close>

definition asked :: "nonza_env \<Rightarrow> qstring \<Rightarrow> is_event list \<Rightarrow> qstring \<Rightarrow> bool" where
  "asked e domain evs d \<longleftrightarrow> (\<exists>el. IsStanzaReceived el \<in> set evs \<and> isDialback el \<and>
     (let r = Dialback_parse e el in db_command r = DialbackResult \<and> st_from r = d \<and> st_to r = domain \<and> db_key r \<noteq> []))"

text \<open>The server of the domain, on a stream that was opened to it, confirmed the key of this stream.\<close>

definition confirmation :: "nonza_env \<Rightarrow> qstring \<Rightarrow> is_event \<Rightarrow> QXmppIncomingServer \<Rightarrow> qstring \<Rightarrow> bool" where
  "confirmation e domain ev s d \<longleftrightarrow> (\<exists>k ssl el. ev = VerifierEvent k (OsStanzaReceived ssl el) \<and> k < length (verifiers s) \<and>
     remoteDomain (verifiers s ! k) = d \<and> isDialback el \<and>
     (let r = Dialback_parse e el in db_command r = DialbackVerify \<and> st_from r = d \<and> st_to r = domain \<and>
        st_id r = is_localStreamId s \<and> db_type r = ''valid''))"

definition confirmed_domain :: "nonza_env \<Rightarrow> qstring \<Rightarrow> is_event list \<Rightarrow> qstring \<Rightarrow> bool" where
  "confirmed_domain e domain evs d \<longleftrightarrow> (\<exists>i < length evs. asked e domain (take i evs) d \<and>
     confirmation e domain (evs ! i) (is_run e (take i evs) (new_IncomingServer domain)) d)"

lemma is_put_simps [simp]:
  "is_domain (is_put x s) = is_domain s" "is_authenticated (is_put x s) = is_authenticated s" "verifiers (is_put x s) = verifiers s"
  "is_localStreamId (is_put x s) = is_localStreamId s" "is_signals (is_put x s) = is_signals s" "is_open (is_put x s) = is_open s"
  by (simp_all add: is_put_def)

lemma is_emit_simps [simp]:
  "is_domain (is_emit x s) = is_domain s" "is_authenticated (is_emit x s) = is_authenticated s" "verifiers (is_emit x s) = verifiers s"
  "is_localStreamId (is_emit x s) = is_localStreamId s" "is_signals (is_emit x s) = is_signals s @ [x]" "is_open (is_emit x s) = is_open s"
  by (simp_all add: is_emit_def)

lemma is_disconnect_simps [simp]:
  "is_domain (is_disconnectFromHost s) = is_domain s" "is_authenticated (is_disconnectFromHost s) = is_authenticated s"
  "verifiers (is_disconnectFromHost s) = verifiers s" "is_localStreamId (is_disconnectFromHost s) = is_localStreamId s"
  "is_signals (is_disconnectFromHost s) = is_signals s" "\<not> is_open (is_disconnectFromHost s)"
  by (simp_all add: is_disconnectFromHost_def)

lemma os_step_domains [simp]:
  "remoteDomain (os_step e ev v) = remoteDomain v" "localDomain (os_step e ev v) = localDomain v"
  by (cases ev; auto simp: os_handleStart_def queueData_def os_handleStanza_def Let_def)+

lemma not_result [simp]: "c \<noteq> DialbackResult \<longleftrightarrow> c = DialbackVerify"
  by (cases c) simp_all

text \<open>A step of a stream to another server reports at most one thing, and a response only when it received one.\<close>

lemma os_step_signals:
  "drop (length (os_signals v)) (os_signals (os_step e ev v)) = [] \<or>
   (\<exists>x. drop (length (os_signals v)) (os_signals (os_step e ev v)) = [x] \<and>
     (\<forall>d. x = DialbackResponseReceived d \<longrightarrow> (\<exists>ssl el. ev = OsStanzaReceived ssl el \<and> isDialback el \<and> d = Dialback_parse e el \<and>
        db_command d = DialbackVerify \<and> st_to d = localDomain v)))"
proof (cases ev)
  case (OsStanzaReceived ssl el)
  then show ?thesis
    by (auto simp: os_handleStanza_def Let_def)
qed (auto simp: os_handleStart_def queueData_def)

definition server_ok :: "nonza_env \<Rightarrow> qstring \<Rightarrow> is_event list \<Rightarrow> QXmppIncomingServer \<Rightarrow> bool" where
  "server_ok e domain evs s \<longleftrightarrow> is_domain s = domain \<and>
     (\<forall>v \<in> set (verifiers s). localDomain v = domain \<and> asked e domain evs (remoteDomain v)) \<and>
     (\<forall>d \<in> set (is_authenticated s). confirmed_domain e domain evs d) \<and>
     (\<forall>x. IsElementReceived x \<in> set (is_signals s) \<longrightarrow> jidToDomain (attr ''from'' x) \<in> set (is_authenticated s))"

lemma s2s_asked_later: "asked e domain evs d \<Longrightarrow> asked e domain (evs @ [ev]) d"
  by (auto simp: asked_def)

lemma confirmed_later:
  assumes "confirmed_domain e domain evs d" shows "confirmed_domain e domain (evs @ [ev]) d"
proof -
  obtain i where "i < length evs" "asked e domain (take i evs) d"
    "confirmation e domain (evs ! i) (is_run e (take i evs) (new_IncomingServer domain)) d"
    using assms by (auto simp: confirmed_domain_def)
  then show ?thesis unfolding confirmed_domain_def by (intro exI [of _ i]) (simp add: nth_append)
qed

lemma server_ok_later: "server_ok e domain evs s \<Longrightarrow> server_ok e domain (evs @ [ev]) s"
  using s2s_asked_later confirmed_later by (auto simp: server_ok_def)

lemma server_ok_same:
  assumes "server_ok e domain evs s" "is_domain t = is_domain s" "verifiers t = verifiers s" "is_authenticated t = is_authenticated s"
    and "\<forall>x. IsElementReceived x \<in> set (is_signals t) \<longrightarrow> IsElementReceived x \<in> set (is_signals s)"
  shows "server_ok e domain evs t"
  using assms by (simp add: server_ok_def)

lemma slot_ok:
  assumes "server_ok e domain evs s" and "k < length (verifiers s)"
    and "db_command d = DialbackVerify \<and> st_id d = is_localStreamId s \<and> st_from d = remoteDomain (verifiers s ! k) \<and> db_type d = ''valid'' \<longrightarrow>
      confirmed_domain e domain evs (st_from d)"
  shows "server_ok e domain evs (slotDialbackResponseReceived k d s)"
  using assms
  by (auto simp: slotDialbackResponseReceived_def server_ok_def Let_def in_set_insert dest!: set_update_subset_insert [THEN subsetD])

lemma verifier_update_ok:
  assumes "server_ok e domain evs s" and "k < length (verifiers s)" and "localDomain v = localDomain (verifiers s ! k)"
    "remoteDomain v = remoteDomain (verifiers s ! k)"
  shows "server_ok e domain evs (s\<lparr>verifiers := (verifiers s)[k := v]\<rparr>)"
  using assms by (auto simp: server_ok_def dest!: set_update_subset_insert [THEN subsetD])

lemma verifier_step_ok:
  assumes s: "server_ok e domain evs s" and k: "k < length (verifiers s)"
    and run: "s = is_run e evs (new_IncomingServer domain)"
  shows "server_ok e domain (evs @ [VerifierEvent k ev]) (verifier_step e k ev s)"
proof -
  let ?v = "verifiers s ! k" and ?t = "s\<lparr>verifiers := (verifiers s)[k := os_step e ev (verifiers s ! k)]\<rparr>"
  let ?evs = "evs @ [VerifierEvent k ev]"
  have v: "?v \<in> set (verifiers s)" using k by simp
  have local_domain: "localDomain ?v = domain" and asked_v: "asked e domain evs (remoteDomain ?v)" using s v by (auto simp: server_ok_def)
  have t: "server_ok e domain ?evs ?t" using verifier_update_ok [OF server_ok_later [OF s] k] by simp
  have kt: "k < length (verifiers ?t)" using k by simp
  have slot: "server_ok e domain ?evs (slotDialbackResponseReceived k d ?t)"
    if d: "ev = OsStanzaReceived ssl el" "isDialback el" "d = Dialback_parse e el" "db_command d = DialbackVerify" "st_to d = localDomain ?v"
    for ssl el d
  proof (rule slot_ok [OF t kt], rule impI)
    assume c: "db_command d = DialbackVerify \<and> st_id d = is_localStreamId ?t \<and> st_from d = remoteDomain (verifiers ?t ! k) \<and> db_type d = ''valid''"
    then have "confirmation e domain (VerifierEvent k ev) s (st_from d)"
      unfolding confirmation_def using d k local_domain os_step_domains(1) [of e ev ?v]
      by (intro exI [of _ k] exI [of _ ssl] exI [of _ el]) (simp add: Let_def)
    moreover have "asked e domain evs (st_from d)" using c asked_v k by simp
    ultimately show "confirmed_domain e domain ?evs (st_from d)"
      unfolding confirmed_domain_def by (intro exI [of _ "length evs"]) (simp add: run)
  qed
  from os_step_signals [of ?v e ev] show ?thesis
  proof (elim disjE exE conjE)
    assume "drop (length (os_signals ?v)) (os_signals (os_step e ev ?v)) = []"
    then show ?thesis using t by (simp add: verifier_step_def Let_def)
  next
    fix x
    assume x: "drop (length (os_signals ?v)) (os_signals (os_step e ev ?v)) = [x]"
      "\<forall>d. x = DialbackResponseReceived d \<longrightarrow> (\<exists>ssl el. ev = OsStanzaReceived ssl el \<and> isDialback el \<and> d = Dialback_parse e el \<and>
        db_command d = DialbackVerify \<and> st_to d = localDomain ?v)"
    then show ?thesis using t slot by (auto simp: verifier_step_def Let_def split: os_signal.split)
  qed
qed

lemma is_handleStanza_ok:
  assumes s: "server_ok e domain evs s"
  shows "server_ok e domain (evs @ [IsStanzaReceived el]) (is_handleStanza e el s)"
proof -
  let ?r = "Dialback_parse e el" and ?evs = "evs @ [IsStanzaReceived el]"
  have later: "server_ok e domain ?evs s" by (rule server_ok_later [OF s])
  have same: "server_ok e domain ?evs (is_emit (DialbackRequestReceived ?r) s)" "server_ok e domain ?evs (is_disconnectFromHost s)"
    "server_ok e domain ?evs ((is_put p s)\<lparr>is_encrypted := True\<rparr>)" for p
    by (rule server_ok_same [OF later]; simp)+
  have verifier: "server_ok e domain ?evs
      (s\<lparr>verifiers := verifiers s @ [verifying_stream (is_domain s) (is_localStreamId s) (db_key ?r) (st_from ?r)]\<rparr>)"
    if "isDialback el" "db_command ?r = DialbackResult" "st_to ?r = is_domain s" "db_key ?r \<noteq> []"
  proof -
    have "asked e domain ?evs (st_from ?r)"
      unfolding asked_def using that s by (intro exI [of _ el]) (simp add: Let_def server_ok_def)
    then show ?thesis using later
      by (auto simp: server_ok_def verifying_stream_def os_connectToHost_def setVerify_def new_OutgoingServer_def)
  qed
  have relay: "server_ok e domain ?evs (is_emit (IsElementReceived el) s)" if "jidToDomain (attr ''from'' el) \<in> set (is_authenticated s)"
    using later that by (auto simp: server_ok_def)
  show ?thesis using later same verifier relay by (auto simp: is_handleStanza_def Let_def)
qed

lemma server_ok_run: "server_ok e domain evs (is_run e evs (new_IncomingServer domain))"
proof (induction evs rule: rev_induct)
  case Nil
  show ?case by (simp add: server_ok_def is_run_def new_IncomingServer_def)
next
  case (snoc ev evs)
  let ?s = "is_run e evs (new_IncomingServer domain)"
  have later: "server_ok e domain (evs @ [ev]) ?s" by (rule server_ok_later [OF snoc.IH])
  have "server_ok e domain (evs @ [ev]) (is_step e ev ?s)"
  proof (cases ev)
    case (IsStanzaReceived el)
    then show ?thesis using is_handleStanza_ok [OF snoc.IH] by simp
  next
    case (VerifierEvent k oev)
    then show ?thesis using verifier_step_ok [OF snoc.IH _ refl] later by simp
  next
    case (IsStreamReceived certificate g)
    show ?thesis unfolding IsStreamReceived is_step.simps
      by (rule server_ok_same [OF later [unfolded IsStreamReceived]]) (simp_all add: is_handleStream_def Let_def)
  next
    case IsStreamClosed
    show ?thesis unfolding IsStreamClosed is_step.simps by (rule server_ok_same [OF later [unfolded IsStreamClosed]]) simp_all
  next
    case IsSocketDisconnected
    show ?thesis unfolding IsSocketDisconnected is_step.simps
      by (rule server_ok_same [OF later [unfolded IsSocketDisconnected]]) simp_all
  qed
  then show ?case by (simp add: is_run_def)
qed

text \<open>
  C3.  A stanza from another server is relayed only for a domain which asked this stream for a verification and whose own server
  then confirmed the key for this stream.
\<close>

theorem relayed_domain_confirmed:
  assumes "IsElementReceived x \<in> set (is_signals (is_run e evs (new_IncomingServer domain)))"
  shows "confirmed_domain e domain evs (jidToDomain (attr ''from'' x))"
  using server_ok_run [of e domain evs] assms by (auto simp: server_ok_def)

definition example_dialback :: "is_event list" where
  "example_dialback = [IsStreamReceived False ''id'', IsStanzaReceived (dialback_el ''result'' [] ''r'' ''l'' [] ''key''),
     VerifierEvent 0 OsStarted, VerifierEvent 0 (OsStanzaReceived True (dialback_el ''verify'' ''id'' ''r'' ''l'' ''valid'' [])),
     IsStanzaReceived (Elem ''message'' ns_server [(''from'', ''u@r/x'')] [])]"

theorem relayed_domain_confirmed_witness:
  "confirmed_domain example_nonza_env ''l'' example_dialback ''r''"
proof -
  have "is_signals (is_run example_nonza_env example_dialback (new_IncomingServer ''l'')) =
      [IsConnected, IsElementReceived (Elem ''message'' ns_server [(''from'', ''u@r/x'')] [])]"
    by code_simp
  moreover have "jidToDomain (attr ''from'' (Elem ''message'' ns_server [(''from'', ''u@r/x'')] [])) = ''r''" by code_simp
  ultimately show ?thesis
    using relayed_domain_confirmed [of "Elem ''message'' ns_server [(''from'', ''u@r/x'')] []" example_nonza_env example_dialback "''l''"] by simp
qed

end
