(* ===== verification/IncomingClient.thy ===== *)
theory IncomingClient
  imports Dialback SaslExchange IqManager
begin

text \<open>
  The server's end of a client stream, \<^verbatim>\<open>src/server/QXmppIncomingClient.cpp\<close>, with the
  password checker of \<^verbatim>\<open>src/server/QXmppPasswordChecker.cpp\<close>.

  The checker answers later: its replies wait in the state until they are delivered.  A reply
  knows the request it answers, at which the stream does not look.  What the stream sends and
  what it reports are logs; the random values it draws are arguments of the events.  An access to
  an object that is not there sets a flag, and the state means nothing afterwards.
\<close>

section \<open>The password checker\<close>

datatype reply_error = ReplyNoError | ReplyAuthorizationError | ReplyTemporaryError

record QXmppPasswordRequest =
  req_domain :: qstring
  req_username :: qstring
  req_password :: qstring

text \<open>A checker: how it judges a password, the digest it has for a user, and whether it knows passwords.\<close>

record QXmppPasswordChecker =
  checkPassword :: "QXmppPasswordRequest \<Rightarrow> reply_error"
  getDigest :: "QXmppPasswordRequest \<Rightarrow> reply_error \<times> bytes"
  hasGetPassword :: bool

text \<open>The checker of the library over a function that gives passwords.\<close>

definition checkPassword_default :: "(QXmppPasswordRequest \<Rightarrow> reply_error + qstring) \<Rightarrow> QXmppPasswordRequest \<Rightarrow> reply_error" where
  "checkPassword_default getPassword request =
     (case getPassword request of
        Inr secret \<Rightarrow> if req_password request \<noteq> secret then ReplyAuthorizationError else ReplyNoError
      | Inl err \<Rightarrow> err)"

definition getDigest_default :: "sasl_env \<Rightarrow> (QXmppPasswordRequest \<Rightarrow> reply_error + qstring) \<Rightarrow> QXmppPasswordRequest \<Rightarrow> reply_error \<times> bytes" where
  "getDigest_default env getPassword request =
     (case getPassword request of
        Inr secret \<Rightarrow> (ReplyNoError,
          hash env Qt_Md5 (utf8 env (req_username request @ '':'' @ req_domain request @ '':'' @ secret)))
      | Inl err \<Rightarrow> (err, []))"

definition default_checker :: "sasl_env \<Rightarrow> (QXmppPasswordRequest \<Rightarrow> reply_error + qstring) \<Rightarrow> bool \<Rightarrow> QXmppPasswordChecker" where
  "default_checker env getPassword known = \<lparr>checkPassword = checkPassword_default getPassword,
     getDigest = getDigest_default env getPassword, hasGetPassword = known\<rparr>"

section \<open>SASL servers\<close>

fun server_base :: "SaslServer \<Rightarrow> QXmppSaslServer" where
  "server_base (ServerPlain s) = s"
| "server_base (ServerDigestMd5 s) = QXmppSaslServer.truncate s"
| "server_base (ServerAnonymous s) = s"

fun server_mechanism :: "SaslServer \<Rightarrow> qstring" where
  "server_mechanism (ServerPlain _) = ''PLAIN''"
| "server_mechanism (ServerDigestMd5 _) = ''DIGEST-MD5''"
| "server_mechanism (ServerAnonymous _) = ''ANONYMOUS''"

definition server_username :: "SaslServer \<Rightarrow> qstring" where "server_username srv = s_username (server_base srv)"
definition server_password :: "SaslServer \<Rightarrow> qstring" where "server_password srv = s_password (server_base srv)"

fun server_setRealm :: "qstring \<Rightarrow> SaslServer \<Rightarrow> SaslServer" where
  "server_setRealm r (ServerPlain s) = ServerPlain (s\<lparr>s_realm := r\<rparr>)"
| "server_setRealm r (ServerDigestMd5 s) = ServerDigestMd5 (s\<lparr>s_realm := r\<rparr>)"
| "server_setRealm r (ServerAnonymous s) = ServerAnonymous (s\<lparr>s_realm := r\<rparr>)"

fun server_setPasswordDigest :: "bytes \<Rightarrow> SaslServer \<Rightarrow> SaslServer" where
  "server_setPasswordDigest d (ServerPlain s) = ServerPlain (s\<lparr>s_passwordDigest := d\<rparr>)"
| "server_setPasswordDigest d (ServerDigestMd5 s) = ServerDigestMd5 (s\<lparr>s_passwordDigest := d\<rparr>)"
| "server_setPasswordDigest d (ServerAnonymous s) = ServerAnonymous (s\<lparr>s_passwordDigest := d\<rparr>)"

text \<open>The answer, the challenge, which is empty unless it is set, and the server afterwards.\<close>

fun server_respond :: "sasl_env \<Rightarrow> bytes \<Rightarrow> SaslServer \<Rightarrow> server_response \<times> bytes \<times> SaslServer" where
  "server_respond env data (ServerPlain s) =
     (case plain_server_respond env data s of (r, ch, s') \<Rightarrow> (r, case ch of None \<Rightarrow> [] | Some c \<Rightarrow> c, ServerPlain s'))"
| "server_respond env data (ServerDigestMd5 s) =
     (case digest_server_respond env data s of (r, ch, s') \<Rightarrow> (r, case ch of None \<Rightarrow> [] | Some c \<Rightarrow> c, ServerDigestMd5 s'))"
| "server_respond env data (ServerAnonymous s) =
     (case anonymous_server_respond s of (r, ch, s') \<Rightarrow> (r, case ch of None \<Rightarrow> [] | Some c \<Rightarrow> c, ServerAnonymous s'))"

section \<open>State\<close>

record server_env =
  se_sasl :: sasl_env
  se_nonza :: nonza_env
  passwordChecker :: "QXmppPasswordChecker option"
  hasCertificate :: bool

datatype sasl_version = VersionSasl | VersionSasl2

datatype pending_reply = PlainReply QXmppPasswordRequest reply_error | DigestReply QXmppPasswordRequest bytes reply_error bytes

datatype ic_output = StreamHeader StreamOpen | Sent dom | HostUnknown qstring | Routed dom | ConflictError | StreamEnd

datatype ic_signal = ClientConnected qstring | ClientElement dom | ClientDisconnected

record IncomingClient =
  ic_domain :: qstring
  ic_jid :: qstring
  ic_resource :: qstring
  ic_saslServer :: "SaslServer option"
  ic_saslVersion :: sasl_version
  sasl2AuthRequest :: "Sasl2_Authenticate option"
  ic_pending :: "pending_reply list"
  ic_encrypted :: bool
  ic_open :: bool
  ic_sent :: "ic_output list"
  ic_signals :: "ic_signal list"
  ic_fault :: bool

definition new_IncomingClient :: "qstring \<Rightarrow> IncomingClient" where
  "new_IncomingClient domain = \<lparr>ic_domain = domain, ic_jid = [], ic_resource = [], ic_saslServer = None, ic_saslVersion = VersionSasl,
     sasl2AuthRequest = None, ic_pending = [], ic_encrypted = False, ic_open = True, ic_sent = [], ic_signals = [], ic_fault = False\<rparr>"

definition isConnected :: "IncomingClient \<Rightarrow> bool" where
  "isConnected s \<longleftrightarrow> ic_open s \<and> ic_jid s \<noteq> [] \<and> ic_resource s \<noteq> []"

definition ic_put :: "ic_output \<Rightarrow> IncomingClient \<Rightarrow> IncomingClient" where
  "ic_put x s = (if ic_open s then s\<lparr>ic_sent := ic_sent s @ [x]\<rparr> else s)"

definition ic_send :: "item \<Rightarrow> IncomingClient \<Rightarrow> IncomingClient" where
  "ic_send i s = ic_put (Sent (hd (item_nodes ns_client i))) s"

definition ic_emit :: "ic_signal \<Rightarrow> IncomingClient \<Rightarrow> IncomingClient" where
  "ic_emit x s = s\<lparr>ic_signals := ic_signals s @ [x]\<rparr>"

definition ic_disconnectFromHost :: "IncomingClient \<Rightarrow> IncomingClient" where
  "ic_disconnectFromHost s = (ic_put StreamEnd s)\<lparr>ic_open := False\<rparr>"

section \<open>The start of a stream\<close>

definition sendStreamFeatures :: "server_env \<Rightarrow> IncomingClient \<Rightarrow> IncomingClient" where
  "sendStreamFeatures env s =
     (let f0 = new_StreamFeatures;
          f1 = (if \<not> ic_encrypted s \<and> hasCertificate env then f0\<lparr>tlsMode := FeatureEnabled\<rparr> else f0);
          f2 = (if ic_jid s \<noteq> [] then
                  (if ic_resource s = [] then f1\<lparr>bindMode := FeatureRequired, sessionMode := FeatureEnabled\<rparr>
                   else f1\<lparr>sessionMode := FeatureEnabled\<rparr>)
                else case passwordChecker env of
                  None \<Rightarrow> f1
                | Some checker \<Rightarrow>
                    let mechanisms = [''PLAIN''] @ (if hasGetPassword checker then [''DIGEST-MD5''] else [])
                    in f1\<lparr>authMechanisms := mechanisms,
                          sasl2Feature := Some \<lparr>sf_mechanisms = mechanisms,
                            bind2Feature = (if ic_resource s = [] then Some [] else None), sf_fast = None,
                            streamResumptionAvailable = False\<rparr>\<rparr>)
      in ic_put (Sent (QXmppStreamFeatures_toXml f2)) s)"

definition ic_handleStream :: "server_env \<Rightarrow> StreamOpen \<Rightarrow> qstring \<Rightarrow> IncomingClient \<Rightarrow> IncomingClient" where
  "ic_handleStream env stream sessionId s0 =
     (let s = s0\<lparr>ic_saslServer := None\<rparr>;
          s1 = ic_put (StreamHeader \<lparr>so_to = so_from stream, so_from = ic_domain s, so_id = sessionId, so_version = ''1.0'',
            so_xmlns = ns_client\<rparr>) s
      in if so_to stream \<noteq> ic_domain s then ic_disconnectFromHost (ic_put (HostUnknown (so_to stream)) s1)
         else sendStreamFeatures env s1)"

section \<open>Authentication\<close>

definition checkCredentials :: "server_env \<Rightarrow> bytes \<Rightarrow> IncomingClient \<Rightarrow> IncomingClient" where
  "checkCredentials env response s =
     (case (ic_saslServer s, passwordChecker env) of
        (Some srv, Some checker) \<Rightarrow>
          let request = \<lparr>req_domain = ic_domain s, req_username = server_username srv, req_password = []\<rparr>
          in if server_mechanism srv = ''PLAIN'' then
               let r = request\<lparr>req_password := server_password srv\<rparr>
               in s\<lparr>ic_pending := ic_pending s @ [PlainReply r (checkPassword checker r)]\<rparr>
             else if server_mechanism srv = ''DIGEST-MD5'' then
               (case getDigest checker request of (err, dig) \<Rightarrow>
                  s\<lparr>ic_pending := ic_pending s @ [DigestReply request response err dig]\<rparr>)
             else s
      | _ \<Rightarrow> s\<lparr>ic_fault := True\<rparr>)"

definition sasl1_failure :: "ErrorCondition option \<Rightarrow> IncomingClient \<Rightarrow> IncomingClient" where
  "sasl1_failure c s = ic_send (Sasl_Failure_toXml \<lparr>failure_condition = c, failure_text = []\<rparr>) s"

definition sasl2_failure :: "ErrorCondition \<Rightarrow> IncomingClient \<Rightarrow> IncomingClient" where
  "sasl2_failure c s = ic_send (Sasl2_Failure_toXml \<lparr>sasl2_condition = c, sasl2_text = []\<rparr>) s"

definition version_failure :: "ErrorCondition \<Rightarrow> IncomingClient \<Rightarrow> IncomingClient" where
  "version_failure c s =
     (if ic_saslVersion s = VersionSasl then sasl1_failure (Some c) s
      else sasl2_failure c (s\<lparr>sasl2AuthRequest := None\<rparr>))"

text \<open>\<^verbatim>\<open>onSasl2Authenticated\<close>, which reads the request without a check.\<close>

definition onSasl2Authenticated :: "server_env \<Rightarrow> qstring \<Rightarrow> IncomingClient \<Rightarrow> IncomingClient" where
  "onSasl2Authenticated env generated s =
     (case sasl2AuthRequest s of
        None \<Rightarrow> s\<lparr>ic_fault := True\<rparr>
      | Some auth \<Rightarrow>
          let success = \<lparr>additionalData = None, authorizationIdentifier = ic_jid s, success_bound = None, success_smResumed = None,
                success_smFailed = None, success_token = None\<rparr>;
              s1 = (case bindRequest auth of
                 Some bind \<Rightarrow>
                   let res = (if bind_tag bind = [] then generated else bind_tag bind @ ''.'' @ generated);
                       jid = jidToBareJid (ic_jid s) @ ''/'' @ res;
                       t = s\<lparr>ic_resource := res, ic_jid := jid\<rparr>
                   in ic_emit (ClientConnected jid) (ic_send (Sasl2_Success_toXml (se_nonza env) (success\<lparr>authorizationIdentifier := jid,
                        success_bound := Some \<lparr>bound_smFailed = None, bound_smEnabled = None\<rparr>\<rparr>)) t)
               | None \<Rightarrow> ic_send (Sasl2_Success_toXml (se_nonza env) success) s)
          in sendStreamFeatures env (s1\<lparr>sasl2AuthRequest := None\<rparr>))"

definition user_jid :: "qstring \<Rightarrow> qstring \<Rightarrow> qstring" where
  "user_jid user domain = user @ ''@'' @ domain"

text \<open>The start of an exchange: the new server and its first answer, for either version.\<close>

definition start_exchange :: "server_env \<Rightarrow> bytes \<Rightarrow> qstring \<Rightarrow> bytes \<Rightarrow> (bytes \<Rightarrow> item) \<Rightarrow> (IncomingClient \<Rightarrow> IncomingClient) \<Rightarrow>
    (IncomingClient \<Rightarrow> IncomingClient) \<Rightarrow> IncomingClient \<Rightarrow> IncomingClient" where
  "start_exchange env nonce mechanism initial challenge_item invalid refused s =
     (case create_server nonce mechanism of
        None \<Rightarrow> invalid (s\<lparr>ic_saslServer := None\<rparr>)
      | Some srv0 \<Rightarrow>
          (case server_respond (se_sasl env) initial (server_setRealm (ic_domain s) srv0) of
             (result, challenge, srv) \<Rightarrow>
               let s1 = s\<lparr>ic_saslServer := Some srv\<rparr>
               in case result of
                    InputNeeded \<Rightarrow> checkCredentials env initial s1
                  | Challenge \<Rightarrow> ic_send (challenge_item challenge) s1
                  | _ \<Rightarrow> refused s1))"

text \<open>The next answer of the client.\<close>

definition continue_exchange :: "server_env \<Rightarrow> bytes \<Rightarrow> (IncomingClient \<Rightarrow> IncomingClient) \<Rightarrow> (IncomingClient \<Rightarrow> IncomingClient) \<Rightarrow>
    (IncomingClient \<Rightarrow> IncomingClient) \<Rightarrow> IncomingClient \<Rightarrow> IncomingClient" where
  "continue_exchange env response none succeeded refused s =
     (case ic_saslServer s of
        None \<Rightarrow> none s
      | Some srv0 \<Rightarrow>
          (case server_respond (se_sasl env) response srv0 of
             (result, challenge, srv) \<Rightarrow>
               let s1 = s\<lparr>ic_saslServer := Some srv\<rparr>
               in case result of
                    InputNeeded \<Rightarrow> checkCredentials env response s1
                  | Succeeded \<Rightarrow> succeeded (s1\<lparr>ic_jid := user_jid (server_username srv) (ic_domain s1)\<rparr>)
                  | _ \<Rightarrow> refused s1))"

definition handle_sasl2 :: "server_env \<Rightarrow> dom \<Rightarrow> bytes \<Rightarrow> qstring \<Rightarrow> IncomingClient \<Rightarrow> IncomingClient" where
  "handle_sasl2 env el nonce generated s =
     (let e = se_nonza env
      in if passwordChecker env = None then ic_disconnectFromHost (sasl2_failure TemporaryAuthFailure s)
         else case Sasl2_Authenticate_fromDom e el of
           Some auth \<Rightarrow>
             start_exchange env nonce (authenticate_mechanism auth) (initialResponse auth) (Sasl2_Challenge_toXml e)
               (\<lambda>t. ic_disconnectFromHost (sasl2_failure InvalidMechanism t))
               (\<lambda>t. ic_disconnectFromHost (sasl2_failure SaslNotAuthorized (t\<lparr>sasl2AuthRequest := None\<rparr>)))
               (s\<lparr>ic_saslVersion := VersionSasl2, sasl2AuthRequest := Some auth\<rparr>)
         | None \<Rightarrow>
             (case Sasl2_Response_fromDom e el of
                Some response \<Rightarrow>
                  continue_exchange env response
                    (\<lambda>t. ic_disconnectFromHost (sasl2_failure Aborted t))
                    (onSasl2Authenticated env generated)
                    (\<lambda>t. ic_disconnectFromHost (sasl2_failure SaslNotAuthorized (t\<lparr>sasl2AuthRequest := None\<rparr>))) s
              | None \<Rightarrow>
                  if Sasl2_Abort_fromDom el \<noteq> None then sasl2_failure Aborted (s\<lparr>sasl2AuthRequest := None\<rparr>) else s))"

definition handle_sasl :: "server_env \<Rightarrow> dom \<Rightarrow> bytes \<Rightarrow> IncomingClient \<Rightarrow> IncomingClient" where
  "handle_sasl env el nonce s =
     (let e = se_nonza env
      in if passwordChecker env = None then ic_disconnectFromHost (sasl1_failure (Some TemporaryAuthFailure) s)
         else case Sasl_Auth_fromDom e el of
           Some auth \<Rightarrow>
             start_exchange env nonce (auth_mechanism auth) (auth_value auth) (Sasl_Challenge_toXml e)
               (\<lambda>t. ic_disconnectFromHost (sasl1_failure (Some InvalidMechanism) t))
               (\<lambda>t. ic_disconnectFromHost (sasl1_failure None t))
               (s\<lparr>ic_saslVersion := VersionSasl, sasl2AuthRequest := None\<rparr>)
         | None \<Rightarrow>
             (case Sasl_Response_fromDom e el of
                Some response \<Rightarrow>
                  continue_exchange env response
                    (\<lambda>t. ic_disconnectFromHost (sasl1_failure None t))
                    (ic_send Sasl_Success_toXml)
                    (\<lambda>t. ic_disconnectFromHost (sasl1_failure None t)) s
              | None \<Rightarrow> s))"

definition onPasswordReply :: "server_env \<Rightarrow> qstring \<Rightarrow> reply_error \<Rightarrow> IncomingClient \<Rightarrow> IncomingClient" where
  "onPasswordReply env generated err s =
     (case ic_saslServer s of
        None \<Rightarrow> s\<lparr>ic_fault := True\<rparr>
      | Some srv \<Rightarrow>
          (case err of
             ReplyNoError \<Rightarrow>
               let s1 = s\<lparr>ic_jid := user_jid (server_username srv) (ic_domain s)\<rparr>
               in if ic_saslVersion s1 = VersionSasl then ic_send Sasl_Success_toXml s1 else onSasl2Authenticated env generated s1
           | ReplyAuthorizationError \<Rightarrow> ic_disconnectFromHost (version_failure SaslNotAuthorized s)
           | ReplyTemporaryError \<Rightarrow> ic_disconnectFromHost (version_failure TemporaryAuthFailure s)))"

definition onDigestReply :: "server_env \<Rightarrow> bytes \<Rightarrow> reply_error \<Rightarrow> bytes \<Rightarrow> IncomingClient \<Rightarrow> IncomingClient" where
  "onDigestReply env raw err dig s =
     (case ic_saslServer s of
        None \<Rightarrow> s\<lparr>ic_fault := True\<rparr>
      | Some srv0 \<Rightarrow>
          if err = ReplyTemporaryError then ic_disconnectFromHost (version_failure TemporaryAuthFailure s)
          else case server_respond (se_sasl env) raw (server_setPasswordDigest dig srv0) of
            (result, challenge, srv) \<Rightarrow>
              let s1 = s\<lparr>ic_saslServer := Some srv\<rparr>
              in if result \<noteq> Challenge then ic_disconnectFromHost (version_failure SaslNotAuthorized s1)
                 else if ic_saslVersion s1 = VersionSasl then ic_send (Sasl_Challenge_toXml (se_nonza env) challenge) s1
                 else ic_send (Sasl2_Challenge_toXml (se_nonza env) challenge) s1)"

section \<open>Stanzas\<close>

definition set_attr :: "qstring \<Rightarrow> qstring \<Rightarrow> dom \<Rightarrow> dom" where
  "set_attr k v el = (case el of Text t \<Rightarrow> Text t
     | Elem tag ns as cs \<Rightarrow> Elem tag ns (filter (\<lambda>a. fst a \<noteq> k) as @ [(k, v)]) cs)"

definition bind_parse :: "dom option \<Rightarrow> BindElement option" where
  "bind_parse el = (case el of None \<Rightarrow> None | Some x \<Rightarrow> BindElement_fromDom x)"

text \<open>The addresses the server puts in.\<close>

definition full_stanza :: "IncomingClient \<Rightarrow> dom \<Rightarrow> dom" where
  "full_stanza s el =
     (let el1 = (if attr ''from'' el = [] then
                   (if tagName el = ''presence'' \<and> (attr ''type'' el = ''subscribe'' \<or> attr ''type'' el = ''subscribed'')
                    then set_attr ''from'' (jidToBareJid (ic_jid s)) el else set_attr ''from'' (ic_jid s) el)
                 else el)
      in if attr ''to'' el1 = [] then set_attr ''to'' (ic_domain s) el1 else el1)"

definition process_stanza :: "dom \<Rightarrow> IncomingClient \<Rightarrow> IncomingClient" where
  "process_stanza el s =
     (let from = attr ''from'' el
      in if from \<noteq> [] \<and> from \<noteq> ic_jid s \<and> from \<noteq> jidToBareJid (ic_jid s) then s
         else if tagName el = ''iq'' \<or> tagName el = ''message'' \<or> tagName el = ''presence''
         then ic_emit (ClientElement (full_stanza s el)) s else s)"

definition handle_client_element :: "server_env \<Rightarrow> dom \<Rightarrow> qstring \<Rightarrow> IncomingClient \<Rightarrow> IncomingClient" where
  "handle_client_element env el generated s =
     (if tagName el = ''iq'' then
        if elementXmlTag (firstChildElement el [] []) = (''bind'', ns_bind) then
          (case Iq_fromDom IqSet bind_parse el of
             Some bindSet \<Rightarrow>
               let wanted = trimmed (bind_resource (piq_payload bindSet));
                   res = (if wanted = [] then generated else wanted);
                   jid = jidToBareJid (ic_jid s) @ ''/'' @ res;
                   s1 = s\<lparr>ic_resource := res, ic_jid := jid\<rparr>
               in ic_emit (ClientConnected jid)
                    (ic_send (Iq_toXml IqResult BindElement_toXml \<lparr>piq_id = piq_id bindSet, piq_from = [], piq_to = [], piq_lang = [],
                       piq_payload = \<lparr>bind_jid = jid, bind_resource = []\<rparr>\<rparr>) s1)
           | None \<Rightarrow> process_stanza el s)
        else if iqPayloadXmlTag el = (''session'', ns_session) \<and> attr ''type'' el = ''set'' then
          ic_send (QXmppIq_toXml (se_nonza env) ((new_QXmppIq IqResult)\<lparr>st_id := attr ''id'' el, st_to := ic_jid s\<rparr>)) s
        else process_stanza el s
      else process_stanza el s)"

definition ic_handleStanza :: "server_env \<Rightarrow> dom \<Rightarrow> bytes \<Rightarrow> qstring \<Rightarrow> IncomingClient \<Rightarrow> IncomingClient" where
  "ic_handleStanza env el nonce generated s =
     (if StarttlsRequest_fromDom el \<noteq> None then (ic_send StarttlsProceed_toXml s)\<lparr>ic_encrypted := True\<rparr>
      else if namespaceURI el = ns_sasl_2 then handle_sasl2 env el nonce generated s
      else if namespaceURI el = ns_sasl then handle_sasl env el nonce s
      else if namespaceURI el = ns_client then handle_client_element env el generated s
      else s)"

section \<open>Events\<close>

datatype ic_event = StreamReceived StreamOpen qstring | ElementReceived dom bytes qstring | ReplyFinished nat qstring
  | StreamClosed | IdleTimeout | TimeoutSignal | SocketDisconnected

definition reply_finished :: "server_env \<Rightarrow> nat \<Rightarrow> qstring \<Rightarrow> IncomingClient \<Rightarrow> IncomingClient" where
  "reply_finished env k generated s =
     (let r = ic_pending s ! k; s1 = s\<lparr>ic_pending := take k (ic_pending s) @ drop (k + 1) (ic_pending s)\<rparr>
      in case r of
           PlainReply _ err \<Rightarrow> onPasswordReply env generated err s1
         | DigestReply _ raw err dig \<Rightarrow> onDigestReply env raw err dig s1)"

fun ic_step :: "server_env \<Rightarrow> ic_event \<Rightarrow> IncomingClient \<Rightarrow> IncomingClient" where
  "ic_step env (StreamReceived stream sessionId) s = ic_handleStream env stream sessionId s"
| "ic_step env (ElementReceived el nonce generated) s = ic_handleStanza env el nonce generated s"
| "ic_step env (ReplyFinished k generated) s = reply_finished env k generated s"
| "ic_step env StreamClosed s = ic_disconnectFromHost s"
| "ic_step env IdleTimeout s = ic_disconnectFromHost s"
| "ic_step env TimeoutSignal s = ic_emit ClientDisconnected s"
| "ic_step env SocketDisconnected s = ic_emit ClientDisconnected (s\<lparr>ic_open := False\<rparr>)"

text \<open>
  A reply arrives once for its request.  Elements may still arrive on a closed stream: those that came in one packet with the last
  one are handled.
\<close>

fun ic_may_occur :: "ic_event \<Rightarrow> IncomingClient \<Rightarrow> bool" where
  "ic_may_occur (ReplyFinished k _) s = (k < length (ic_pending s))"
| "ic_may_occur (ElementReceived el _ _) s = isElement el"
| "ic_may_occur _ s = True"

section \<open>What the steps of the stream leave as it is\<close>

lemma ic_put_simps [simp]:
  "ic_domain (ic_put x s) = ic_domain s" "ic_jid (ic_put x s) = ic_jid s" "ic_resource (ic_put x s) = ic_resource s"
  "ic_saslServer (ic_put x s) = ic_saslServer s" "ic_pending (ic_put x s) = ic_pending s" "ic_open (ic_put x s) = ic_open s"
  "ic_signals (ic_put x s) = ic_signals s" "sasl2AuthRequest (ic_put x s) = sasl2AuthRequest s" "ic_saslVersion (ic_put x s) = ic_saslVersion s"
  "ic_fault (ic_put x s) = ic_fault s"
  by (simp_all add: ic_put_def)

lemma ic_send_simps [simp]:
  "ic_domain (ic_send x s) = ic_domain s" "ic_jid (ic_send x s) = ic_jid s" "ic_resource (ic_send x s) = ic_resource s"
  "ic_saslServer (ic_send x s) = ic_saslServer s" "ic_pending (ic_send x s) = ic_pending s" "ic_open (ic_send x s) = ic_open s"
  "ic_signals (ic_send x s) = ic_signals s" "sasl2AuthRequest (ic_send x s) = sasl2AuthRequest s" "ic_saslVersion (ic_send x s) = ic_saslVersion s"
  "ic_fault (ic_send x s) = ic_fault s"
  by (simp_all add: ic_send_def)

lemma ic_emit_simps [simp]:
  "ic_domain (ic_emit x s) = ic_domain s" "ic_jid (ic_emit x s) = ic_jid s" "ic_resource (ic_emit x s) = ic_resource s"
  "ic_saslServer (ic_emit x s) = ic_saslServer s" "ic_pending (ic_emit x s) = ic_pending s" "ic_open (ic_emit x s) = ic_open s"
  "ic_signals (ic_emit x s) = ic_signals s @ [x]" "sasl2AuthRequest (ic_emit x s) = sasl2AuthRequest s" "ic_fault (ic_emit x s) = ic_fault s"
  by (simp_all add: ic_emit_def)

lemma ic_disconnect_simps [simp]:
  "ic_domain (ic_disconnectFromHost s) = ic_domain s" "ic_jid (ic_disconnectFromHost s) = ic_jid s"
  "ic_resource (ic_disconnectFromHost s) = ic_resource s"
  "ic_saslServer (ic_disconnectFromHost s) = ic_saslServer s" "ic_pending (ic_disconnectFromHost s) = ic_pending s"
  "\<not> ic_open (ic_disconnectFromHost s)" "ic_signals (ic_disconnectFromHost s) = ic_signals s"
  "ic_fault (ic_disconnectFromHost s) = ic_fault s"
  by (simp_all add: ic_disconnectFromHost_def)

lemma ic_failure_simps [simp]:
  "ic_domain (sasl1_failure c s) = ic_domain s" "ic_jid (sasl1_failure c s) = ic_jid s"
  "ic_saslServer (sasl1_failure c s) = ic_saslServer s" "ic_pending (sasl1_failure c s) = ic_pending s"
  "ic_open (sasl1_failure c s) = ic_open s" "ic_signals (sasl1_failure c s) = ic_signals s"
  "ic_domain (sasl2_failure d s) = ic_domain s" "ic_jid (sasl2_failure d s) = ic_jid s"
  "ic_saslServer (sasl2_failure d s) = ic_saslServer s" "ic_pending (sasl2_failure d s) = ic_pending s"
  "ic_open (sasl2_failure d s) = ic_open s" "ic_signals (sasl2_failure d s) = ic_signals s"
  "ic_domain (version_failure d s) = ic_domain s" "ic_jid (version_failure d s) = ic_jid s"
  "ic_saslServer (version_failure d s) = ic_saslServer s" "ic_pending (version_failure d s) = ic_pending s"
  "ic_open (version_failure d s) = ic_open s" "ic_signals (version_failure d s) = ic_signals s"
  by (simp_all add: sasl1_failure_def sasl2_failure_def version_failure_def)

lemma sendStreamFeatures_simps [simp]:
  "ic_domain (sendStreamFeatures e s) = ic_domain s" "ic_jid (sendStreamFeatures e s) = ic_jid s"
  "ic_saslServer (sendStreamFeatures e s) = ic_saslServer s" "ic_pending (sendStreamFeatures e s) = ic_pending s"
  "ic_open (sendStreamFeatures e s) = ic_open s" "ic_signals (sendStreamFeatures e s) = ic_signals s"
  "ic_fault (sendStreamFeatures e s) = ic_fault s"
  by (simp_all add: sendStreamFeatures_def Let_def)

lemma bare_of_bound [simp]: "jidToBareJid (jidToBareJid j @ CHR ''/'' # r) = jidToBareJid j"
  by (rule jidToBareJid_full) (rule jidToBareJid_no_slash)

lemma onSasl2Authenticated_simps [simp]:
  "ic_domain (onSasl2Authenticated e g s) = ic_domain s"
  "jidToBareJid (ic_jid (onSasl2Authenticated e g s)) = jidToBareJid (ic_jid s)"
  "ic_saslServer (onSasl2Authenticated e g s) = ic_saslServer s" "ic_pending (onSasl2Authenticated e g s) = ic_pending s"
  "ic_open (onSasl2Authenticated e g s) = ic_open s"
  by (simp_all add: onSasl2Authenticated_def Let_def split: option.splits)

section \<open>Only authenticated users\<close>

definition request_user :: "sasl_env \<Rightarrow> bytes \<Rightarrow> qstring" where
  "request_user env request = of_utf8 env (map_value (parseMessage request) (ascii ''username'') [])"

text \<open>A response of the user that is made with the digest.\<close>

definition digest_proof :: "sasl_env \<Rightarrow> qstring \<Rightarrow> bytes \<Rightarrow> bool" where
  "digest_proof env user dig \<longleftrightarrow> dig \<noteq> [] \<and> (\<exists>d request. s_password d = [] \<and> s_passwordDigest d = dig \<and>
     request_valid env d request \<and> request_user env request = user)"

text \<open>The checker accepts a password of the user, or the client used the digest that the checker has for the user.\<close>

definition authenticated_user :: "server_env \<Rightarrow> qstring \<Rightarrow> qstring \<Rightarrow> bool" where
  "authenticated_user env domain user \<longleftrightarrow> (\<exists>checker. passwordChecker env = Some checker \<and>
     ((\<exists>pw. checkPassword checker \<lparr>req_domain = domain, req_username = user, req_password = pw\<rparr> = ReplyNoError) \<or>
      (\<exists>err dig. getDigest checker \<lparr>req_domain = domain, req_username = user, req_password = []\<rparr> = (err, dig) \<and>
         err \<noteq> ReplyTemporaryError \<and> digest_proof (se_sasl env) user dig)))"

lemma digest_respond_cases:
  assumes "digest_server_respond env req d = (r, out, d')" and "s_password d = []"
  shows "s_password d' = []" and "s_passwordDigest d' = s_passwordDigest d"
    and "r = InputNeeded \<Longrightarrow> s_step d = 1 \<and> s_step d' = 1 \<and> s_passwordDigest d = [] \<and> s_username d' = request_user env req"
    and "r = Succeeded \<Longrightarrow> s_step d = 2 \<and> s_username d' = s_username d \<and> s_step d' = 3"
    and "s_step d' = 2 \<Longrightarrow> s_step d = 1 \<and> s_passwordDigest d \<noteq> [] \<and> s_username d' = request_user env req \<and> request_valid env d req"
proof -
  consider "s_step d = 0" | "s_step d = 1" | "s_step d = 2" | "s_step d > 2" by linarith
  then have "s_password d' = [] \<and> s_passwordDigest d' = s_passwordDigest d \<and>
    (r = InputNeeded \<longrightarrow> s_step d = 1 \<and> s_step d' = 1 \<and> s_passwordDigest d = [] \<and> s_username d' = request_user env req) \<and>
    (r = Succeeded \<longrightarrow> s_step d = 2 \<and> s_username d' = s_username d \<and> s_step d' = 3) \<and>
    (s_step d' = 2 \<longrightarrow> s_step d = 1 \<and> s_passwordDigest d \<noteq> [] \<and> s_username d' = request_user env req \<and> request_valid env d req)"
    (is ?thesis)
  proof cases
    case 2
    have "case digest_server_respond env req d of (r, out, d') \<Rightarrow> s_password d' = [] \<and> s_passwordDigest d' = s_passwordDigest d \<and>
      (r = InputNeeded \<longrightarrow> s_step d' = 1 \<and> s_passwordDigest d = [] \<and> s_username d' = request_user env req) \<and> r \<noteq> Succeeded \<and>
      (s_step d' = 2 \<longrightarrow> s_passwordDigest d \<noteq> [] \<and> s_username d' = request_user env req \<and> request_valid env d req)"
      unfolding digest_server_respond_def request_valid_def request_user_def Let_def by (simp only: 2) (simp add: 2 assms(2))
    then show ?thesis using 2 unfolding assms(1) by auto
  qed (use assms in \<open>auto simp: digest_server_respond_def Let_def\<close>)
  then show "s_password d' = []" "s_passwordDigest d' = s_passwordDigest d"
    "r = InputNeeded \<Longrightarrow> s_step d = 1 \<and> s_step d' = 1 \<and> s_passwordDigest d = [] \<and> s_username d' = request_user env req"
    "r = Succeeded \<Longrightarrow> s_step d = 2 \<and> s_username d' = s_username d \<and> s_step d' = 3"
    "s_step d' = 2 \<Longrightarrow> s_step d = 1 \<and> s_passwordDigest d \<noteq> [] \<and> s_username d' = request_user env req \<and> request_valid env d req"
    by blast+
qed

definition srv_ok :: "server_env \<Rightarrow> qstring \<Rightarrow> bool \<Rightarrow> SaslServer option \<Rightarrow> bool" where
  "srv_ok env domain open_stream server \<longleftrightarrow> (open_stream \<longrightarrow> (\<forall>p. server \<noteq> Some (ServerAnonymous p))) \<and> (\<forall>d. server = Some (ServerDigestMd5 d) \<longrightarrow> s_password d = [] \<and>
     (s_step d = 2 \<longrightarrow> authenticated_user env domain (s_username d)) \<and> (open_stream \<and> s_step d \<le> 1 \<longrightarrow> s_passwordDigest d = []))"

definition reply_ok :: "server_env \<Rightarrow> qstring \<Rightarrow> SaslServer option \<Rightarrow> pending_reply \<Rightarrow> bool" where
  "reply_ok env domain server r \<longleftrightarrow> (\<exists>checker. passwordChecker env = Some checker \<and>
     (case r of
        PlainReply request err \<Rightarrow> err = checkPassword checker request \<and>
          (\<exists>p. server = Some (ServerPlain p) \<and> request = \<lparr>req_domain = domain, req_username = s_username p, req_password = s_password p\<rparr>)
      | DigestReply request raw err dig \<Rightarrow> getDigest checker request = (err, dig) \<and>
          (\<exists>d. server = Some (ServerDigestMd5 d) \<and> s_step d = 1 \<and> s_username d = request_user (se_sasl env) raw \<and>
             request = \<lparr>req_domain = domain, req_username = s_username d, req_password = []\<rparr>)))"

definition jid_ok :: "server_env \<Rightarrow> qstring \<Rightarrow> qstring \<Rightarrow> bool" where
  "jid_ok env domain jid \<longleftrightarrow> jidToBareJid jid = [] \<or>
     (\<exists>user. authenticated_user env domain user \<and> jidToBareJid jid = jidToBareJid (user_jid user domain))"

definition lockstep_ok :: "server_env \<Rightarrow> qstring \<Rightarrow> IncomingClient \<Rightarrow> bool" where
  "lockstep_ok env domain s \<longleftrightarrow> ic_domain s = domain \<and> jid_ok env domain (ic_jid s) \<and> srv_ok env domain (ic_open s) (ic_saslServer s) \<and>
     (ic_pending s = [] \<or> (\<exists>r. ic_pending s = [r] \<and> reply_ok env domain (ic_saslServer s) r))"

lemma jid_ok_same: "jid_ok env domain jid \<Longrightarrow> jidToBareJid jid' = jidToBareJid jid \<Longrightarrow> jid_ok env domain jid'"
  by (simp add: jid_ok_def)

lemma jid_ok_user: "authenticated_user env domain user \<Longrightarrow> jid_ok env domain (user_jid user domain)"
  by (auto simp: jid_ok_def)

lemma srv_ok_closed: "srv_ok env domain b server \<Longrightarrow> srv_ok env domain False server"
  by (auto simp: srv_ok_def)

lemma srv_ok_other [simp]: "srv_ok env domain b None" "srv_ok env domain b (Some (ServerPlain p))" "srv_ok env domain False (Some (ServerAnonymous p))"
  by (simp_all add: srv_ok_def)

lemma lockstep_same:
  assumes "lockstep_ok env domain s" and "ic_domain t = ic_domain s" "jidToBareJid (ic_jid t) = jidToBareJid (ic_jid s)"
    "ic_saslServer t = ic_saslServer s" "ic_pending t = ic_pending s" "ic_open t \<longrightarrow> ic_open s"
  shows "lockstep_ok env domain t"
proof -
  have "srv_ok env domain (ic_open t) (ic_saslServer s)"
    using assms(1,6) srv_ok_closed by (cases "ic_open t") (auto simp: lockstep_ok_def)
  then show ?thesis using assms jid_ok_same by (auto simp: lockstep_ok_def)
qed

text \<open>An answer of a server that was not waiting for a reply.\<close>

lemma respond_srv_ok:
  assumes "server_respond (se_sasl env) data srv = (r, ch, srv')" and "srv_ok env domain True (Some srv)"
  shows "srv_ok env domain True (Some srv')" and "r = Succeeded \<Longrightarrow> authenticated_user env domain (server_username srv')"
    and "r = InputNeeded \<Longrightarrow> (\<exists>p. srv' = ServerPlain p) \<or>
      (\<exists>d. srv' = ServerDigestMd5 d \<and> s_step d = 1 \<and> s_username d = request_user (se_sasl env) data)"
proof (atomize (full), cases srv)
  case (ServerDigestMd5 d)
  obtain out d' where d': "digest_server_respond (se_sasl env) data d = (r, out, d')" "srv' = ServerDigestMd5 d'"
    using assms(1) ServerDigestMd5 by (auto split: prod.splits)
  have ok: "s_password d = []" "s_step d = 2 \<longrightarrow> authenticated_user env domain (s_username d)" "s_step d \<le> 1 \<longrightarrow> s_passwordDigest d = []"
    using assms(2) by (auto simp: srv_ok_def ServerDigestMd5)
  note c = digest_respond_cases [OF d'(1) ok(1)]
  have "s_step d' \<le> 1 \<Longrightarrow> s_step d \<le> 1"
    using d'(1) by (auto simp: digest_server_respond_def Let_def split: if_splits)
  then show "srv_ok env domain True (Some srv') \<and> (r = Succeeded \<longrightarrow> authenticated_user env domain (server_username srv')) \<and>
    (r = InputNeeded \<longrightarrow> (\<exists>p. srv' = ServerPlain p) \<or> (\<exists>d. srv' = ServerDigestMd5 d \<and> s_step d = 1 \<and> s_username d = request_user (se_sasl env) data))"
    using c ok d'(2) by (auto simp: srv_ok_def server_username_def QXmppSaslServer.defs)
qed (use assms in \<open>auto simp: srv_ok_def plain_server_respond_def Let_def split: if_splits\<close>)

lemma checkCredentials_ok:
  assumes "lockstep_ok env domain (s\<lparr>ic_saslServer := None\<rparr>)" and "ic_pending s = []" and "ic_saslServer s = Some srv"
    and "srv_ok env domain (ic_open s) (Some srv)"
    and "(\<exists>p. srv = ServerPlain p) \<or> (\<exists>d. srv = ServerDigestMd5 d \<and> s_step d = 1 \<and> s_username d = request_user (se_sasl env) response)"
  shows "lockstep_ok env domain (checkCredentials env response s)"
  using assms
  by (auto simp: checkCredentials_def lockstep_ok_def reply_ok_def server_username_def server_password_def Let_def QXmppSaslServer.defs
      split: option.splits prod.splits)

definition keeps_stream :: "(IncomingClient \<Rightarrow> IncomingClient) \<Rightarrow> bool" where
  "keeps_stream f \<longleftrightarrow> (\<forall>t. ic_domain (f t) = ic_domain t \<and> jidToBareJid (ic_jid (f t)) = jidToBareJid (ic_jid t) \<and>
     ic_saslServer (f t) = ic_saslServer t \<and> ic_pending (f t) = ic_pending t \<and> (ic_open (f t) \<longrightarrow> ic_open t))"

lemma lockstep_keeps: "keeps_stream f \<Longrightarrow> lockstep_ok env domain s \<Longrightarrow> lockstep_ok env domain (f s)"
  by (rule lockstep_same) (auto simp: keeps_stream_def)

lemma lockstep_server:
  "lockstep_ok env domain s \<Longrightarrow> ic_pending s = [] \<Longrightarrow> srv_ok env domain (ic_open s) server \<Longrightarrow>
   lockstep_ok env domain (s\<lparr>ic_saslServer := server\<rparr>)"
  by (simp add: lockstep_ok_def)

lemma created_server:
  assumes "create_server nonce mechanism = Some srv0"
  shows "srv_ok env domain True (Some (server_setRealm r srv0)) \<or> (\<exists>p. server_setRealm r srv0 = ServerAnonymous p \<and> s_step p = 0)"
  using assms by (auto simp: create_server_def srv_ok_def new_ServerDigestMd5_def fresh_server_def split: if_splits)

lemma start_exchange_ok:
  assumes s: "lockstep_ok env domain s" "ic_pending s = []" "ic_open s"
    and invalid: "keeps_stream invalid" and refused: "keeps_stream refused" "\<forall>t. \<not> ic_open (refused t)"
  shows "lockstep_ok env domain (start_exchange env nonce mechanism initial item invalid refused s)"
proof (cases "create_server nonce mechanism")
  case None
  have "lockstep_ok env domain (invalid (s\<lparr>ic_saslServer := None\<rparr>))"
    by (intro lockstep_keeps [OF invalid] lockstep_server s) simp
  then show ?thesis by (simp add: start_exchange_def None)
next
  case (Some srv0)
  obtain r ch srv where resp: "server_respond (se_sasl env) initial (server_setRealm (ic_domain s) srv0) = (r, ch, srv)"
    by (metis prod_cases3)
  let ?t = "s\<lparr>ic_saslServer := Some srv\<rparr>"
  have closed: "lockstep_ok env domain (refused ?t)" if "srv_ok env domain False (Some srv)"
  proof -
    have "lockstep_ok env domain (?t\<lparr>ic_open := False\<rparr>)" using s that by (simp add: lockstep_ok_def)
    then show ?thesis by (rule lockstep_same) (use refused in \<open>auto simp: keeps_stream_def\<close>)
  qed
  from created_server [OF Some, of env domain "ic_domain s"] show ?thesis
  proof
    assume ok: "srv_ok env domain True (Some (server_setRealm (ic_domain s) srv0))"
    note r = respond_srv_ok [OF resp ok]
    have none: "lockstep_ok env domain (?t\<lparr>ic_saslServer := None\<rparr>)" using s lockstep_server [of env domain s None] by simp
    have t: "lockstep_ok env domain ?t" using s r(1) by (intro lockstep_server) simp_all
    have "lockstep_ok env domain (checkCredentials env initial ?t)" if "r = InputNeeded"
      by (rule checkCredentials_ok [OF none]) (use s r(1) r(3) [OF that] in auto)
    moreover have "lockstep_ok env domain (ic_send (item ch) ?t)" by (rule lockstep_same [OF t]) simp_all
    ultimately show ?thesis using closed srv_ok_closed [OF r(1)] by (simp add: start_exchange_def Some resp Let_def split: server_response.split)
  next
    assume "\<exists>p. server_setRealm (ic_domain s) srv0 = ServerAnonymous p \<and> s_step p = 0"
    then have "r = Succeeded" "srv_ok env domain False (Some srv)" using resp by (auto simp: anonymous_server_respond_def)
    then show ?thesis using closed by (simp add: start_exchange_def Some resp Let_def)
  qed
qed

lemma continue_exchange_ok:
  assumes s: "lockstep_ok env domain s" "ic_pending s = []" "ic_open s"
    and k: "keeps_stream none" "keeps_stream succeeded" "keeps_stream refused"
  shows "lockstep_ok env domain (continue_exchange env response none succeeded refused s)"
proof (cases "ic_saslServer s")
  case None
  then show ?thesis using lockstep_keeps [OF k(1) s(1)] by (simp add: continue_exchange_def)
next
  case (Some srv0)
  obtain r ch srv where resp: "server_respond (se_sasl env) response srv0 = (r, ch, srv)" by (metis prod_cases3)
  have ok: "srv_ok env domain True (Some srv0)" using s by (simp add: lockstep_ok_def Some)
  note r = respond_srv_ok [OF resp ok]
  let ?t = "s\<lparr>ic_saslServer := Some srv\<rparr>"
  have none: "lockstep_ok env domain (?t\<lparr>ic_saslServer := None\<rparr>)" using s lockstep_server [of env domain s None] by simp
  have t: "lockstep_ok env domain ?t" using s r(1) by (intro lockstep_server) simp_all
  have "lockstep_ok env domain (checkCredentials env response ?t)" if "r = InputNeeded"
    by (rule checkCredentials_ok [OF none]) (use s r(1) r(3) [OF that] in auto)
  moreover have "lockstep_ok env domain (succeeded (?t\<lparr>ic_jid := user_jid (server_username srv) (ic_domain ?t)\<rparr>))" if "r = Succeeded"
    by (rule lockstep_keeps [OF k(2)]) (use t jid_ok_user [OF r(2) [OF that]] in \<open>auto simp: lockstep_ok_def\<close>)
  ultimately show ?thesis using lockstep_keeps [OF k(3) t]
    by (simp add: continue_exchange_def Some resp Let_def split: server_response.split)
qed

lemma keeps_close: "keeps_stream f \<Longrightarrow> keeps_stream (\<lambda>t. ic_disconnectFromHost (f t))"
  by (simp add: keeps_stream_def)

lemma keeps_failures:
  "keeps_stream (sasl1_failure c)" "keeps_stream (sasl2_failure d)" "keeps_stream (\<lambda>t. sasl2_failure d (t\<lparr>sasl2AuthRequest := None\<rparr>))"
  "keeps_stream (version_failure d)" "keeps_stream (ic_send i)" "keeps_stream (onSasl2Authenticated env g)"
  by (simp_all add: keeps_stream_def)

lemmas keeps = keeps_failures keeps_failures(1,2,3,4) [THEN keeps_close]

lemma handle_sasl2_ok:
  assumes "lockstep_ok env domain s" "ic_pending s = []" "ic_open s"
  shows "lockstep_ok env domain (handle_sasl2 env el nonce g s)"
proof -
  have a: "lockstep_ok env domain (s\<lparr>ic_saslVersion := v, sasl2AuthRequest := x\<rparr>)" for v x
    by (rule lockstep_same [OF assms(1)]) simp_all
  have b: "lockstep_ok env domain (sasl2_failure c (s\<lparr>sasl2AuthRequest := x\<rparr>))" for c x
    by (rule lockstep_same [OF assms(1)]) simp_all
  have c: "lockstep_ok env domain (ic_disconnectFromHost (sasl2_failure c s))" for c
    by (rule lockstep_keeps [OF keeps_close [OF keeps_failures(2)] assms(1)])
  show ?thesis unfolding handle_sasl2_def Let_def
    using start_exchange_ok [OF a] continue_exchange_ok [OF assms] b c assms(2,3) keeps assms(1)
    by (auto split: option.split)
qed

lemma handle_sasl_ok:
  assumes "lockstep_ok env domain s" "ic_pending s = []" "ic_open s"
  shows "lockstep_ok env domain (handle_sasl env el nonce s)"
proof -
  have a: "lockstep_ok env domain (s\<lparr>ic_saslVersion := v, sasl2AuthRequest := x\<rparr>)" for v x
    by (rule lockstep_same [OF assms(1)]) simp_all
  have c: "lockstep_ok env domain (ic_disconnectFromHost (sasl1_failure c s))" for c
    by (rule lockstep_keeps [OF keeps_close [OF keeps_failures(1)] assms(1)])
  show ?thesis unfolding handle_sasl_def Let_def
    using start_exchange_ok [OF a] continue_exchange_ok [OF assms] c assms(2,3) keeps assms(1)
    by (auto split: option.split)
qed

lemma client_element_ok:
  assumes "lockstep_ok env domain s"
  shows "lockstep_ok env domain (handle_client_element env el g s)"
  by (rule lockstep_same [OF assms]) (auto simp: handle_client_element_def process_stanza_def Let_def split: option.split)

lemma authenticated_by_password:
  "passwordChecker env = Some checker \<Longrightarrow>
   checkPassword checker \<lparr>req_domain = domain, req_username = user, req_password = pw\<rparr> = ReplyNoError \<Longrightarrow> authenticated_user env domain user"
  unfolding authenticated_user_def by blast

lemma authenticated_by_digest:
  assumes "passwordChecker env = Some checker"
    and "getDigest checker \<lparr>req_domain = domain, req_username = user, req_password = []\<rparr> = (err, dig)" and "err \<noteq> ReplyTemporaryError"
    and "dig \<noteq> []" and "s_password d = []" "request_valid (se_sasl env) (d\<lparr>s_passwordDigest := dig\<rparr>) raw"
    and "request_user (se_sasl env) raw = user"
  shows "authenticated_user env domain user"
proof -
  have "digest_proof (se_sasl env) user dig"
    unfolding digest_proof_def using assms(4-7) by (intro conjI exI [of _ "d\<lparr>s_passwordDigest := dig\<rparr>"] exI [of _ raw]) simp_all
  then show ?thesis unfolding authenticated_user_def using assms(1-3) by blast
qed

lemma onPasswordReply_ok:
  assumes "lockstep_ok env domain s" "ic_pending s = []" and r: "reply_ok env domain (ic_saslServer s) (PlainReply request err)"
  shows "lockstep_ok env domain (onPasswordReply env g err s)"
proof -
  obtain checker p where p: "passwordChecker env = Some checker" "err = checkPassword checker request" "ic_saslServer s = Some (ServerPlain p)"
      "request = \<lparr>req_domain = domain, req_username = s_username p, req_password = s_password p\<rparr>"
    using r by (auto simp: reply_ok_def)
  have close: "lockstep_ok env domain (ic_disconnectFromHost (version_failure c s))" for c
    by (rule lockstep_keeps [OF keeps_close [OF keeps_failures(4)] assms(1)])
  let ?t = "s\<lparr>ic_jid := user_jid (s_username p) (ic_domain s)\<rparr>"
  have "authenticated_user env domain (s_username p)" if "err = ReplyNoError"
    using p that by (metis authenticated_by_password)
  then have "lockstep_ok env domain ?t" if "err = ReplyNoError"
    using that assms(1) jid_ok_user by (simp add: lockstep_ok_def)
  then show ?thesis
    using p(3) close lockstep_keeps [OF keeps_failures(5)] lockstep_keeps [OF keeps_failures(6)]
    by (simp add: onPasswordReply_def Let_def server_username_def split: reply_error.split)
qed

lemma onDigestReply_ok:
  assumes "lockstep_ok env domain s" "ic_pending s = []" and r: "reply_ok env domain (ic_saslServer s) (DigestReply request raw err dig)"
  shows "lockstep_ok env domain (onDigestReply env raw err dig s)"
proof -
  obtain checker d where p: "passwordChecker env = Some checker" "getDigest checker request = (err, dig)" "ic_saslServer s = Some (ServerDigestMd5 d)"
      "s_step d = 1" "s_username d = request_user (se_sasl env) raw"
      "request = \<lparr>req_domain = domain, req_username = s_username d, req_password = []\<rparr>"
    using r by (auto simp: reply_ok_def)
  have close: "lockstep_ok env domain (ic_disconnectFromHost (version_failure c s))" for c
    by (rule lockstep_keeps [OF keeps_close [OF keeps_failures(4)] assms(1)])
  have pw: "s_password d = []" using assms(1) p(3) by (simp add: lockstep_ok_def srv_ok_def)
  obtain r out d' where d': "digest_server_respond (se_sasl env) raw (d\<lparr>s_passwordDigest := dig\<rparr>) = (r, out, d')" by (metis prod_cases3)
  have c: "s_password d' = []" "s_step d' = 2 \<Longrightarrow> dig \<noteq> [] \<and> s_username d' = s_username d \<and>
      request_valid (se_sasl env) (d\<lparr>s_passwordDigest := dig\<rparr>) raw"
    using digest_respond_cases [OF d'] pw p(5) by simp_all
  have chal: "s_step d' = 2" if "r = Challenge"
    using d' that p(4) by (auto simp: digest_server_respond_def Let_def split: if_splits)
  have auth: "authenticated_user env domain (s_username d')" if "s_step d' = 2" "err \<noteq> ReplyTemporaryError"
    by (rule authenticated_by_digest [OF p(1) _ that(2), of _ _ dig d raw]) (use c(2) [OF that(1)] p pw in simp_all)
  let ?t = "s\<lparr>ic_saslServer := Some (ServerDigestMd5 d')\<rparr>"
  show ?thesis
  proof (cases "err = ReplyTemporaryError")
    case True
    then show ?thesis using close p(3) by (simp add: onDigestReply_def)
  next
    case False
    have "lockstep_ok env domain ?t" if "r = Challenge"
      using assms(1,2) chal [OF that] auth [OF _ False] c(1) by (simp add: lockstep_ok_def srv_ok_def)
    moreover have "lockstep_ok env domain (ic_disconnectFromHost (version_failure e ?t))" for e
    proof -
      have "lockstep_ok env domain (?t\<lparr>ic_open := False\<rparr>)"
        using assms(1,2) auth [OF _ False] c(1) by (simp add: lockstep_ok_def srv_ok_def)
      then show ?thesis by (rule lockstep_same) simp_all
    qed
    moreover have "lockstep_ok env domain (ic_send i ?t)" if "r = Challenge" for i
      using lockstep_keeps [OF keeps_failures(5)] calculation(1) [OF that] by blast
    ultimately show ?thesis using False p(3) d' by (simp add: onDigestReply_def Let_def QXmppSaslServer.defs)
  qed
qed

text \<open>
  A client in lockstep: it sends nothing while the checker has not answered, and what it sends after the end of the stream does not
  arrive.
\<close>

fun in_turn :: "ic_event \<Rightarrow> IncomingClient \<Rightarrow> bool" where
  "in_turn (StreamReceived _ _) s = (ic_open s \<and> ic_pending s = [])"
| "in_turn (ElementReceived el _ _) s = (isElement el \<and> ic_open s \<and> ic_pending s = [])"
| "in_turn ev s = ic_may_occur ev s"

inductive ic_lockstep :: "server_env \<Rightarrow> qstring \<Rightarrow> IncomingClient \<Rightarrow> bool" for env domain where
  lockstep_start: "ic_lockstep env domain (new_IncomingClient domain)"
| lockstep_step: "ic_lockstep env domain s \<Longrightarrow> in_turn ev s \<Longrightarrow> ic_lockstep env domain (ic_step env ev s)"

lemma ic_step_ok:
  assumes s: "lockstep_ok env domain s" and turn: "in_turn ev s"
  shows "lockstep_ok env domain (ic_step env ev s)"
proof (cases ev)
  case (StreamReceived stream sid)
  have "lockstep_ok env domain (s\<lparr>ic_saslServer := None\<rparr>)"
    using s turn by (simp add: StreamReceived lockstep_server)
  then show ?thesis unfolding StreamReceived ic_step.simps
    by (rule lockstep_same) (simp_all add: ic_handleStream_def Let_def)
next
  case (ElementReceived el nonce g)
  have open_idle: "ic_pending s = []" "ic_open s" using turn by (simp_all add: ElementReceived)
  have "lockstep_ok env domain ((ic_send StarttlsProceed_toXml s)\<lparr>ic_encrypted := True\<rparr>)"
    by (rule lockstep_same [OF s]) simp_all
  then show ?thesis
    using handle_sasl2_ok [OF s open_idle] handle_sasl_ok [OF s open_idle] client_element_ok [OF s] s
    by (simp add: ElementReceived ic_handleStanza_def)
next
  case (ReplyFinished k g)
  then have k: "k < length (ic_pending s)" using turn by simp
  then obtain r where r: "ic_pending s = [r]" "k = 0" "reply_ok env domain (ic_saslServer s) r"
    using s by (auto simp: lockstep_ok_def)
  let ?s = "s\<lparr>ic_pending := []\<rparr>"
  have t: "lockstep_ok env domain ?s" "ic_pending ?s = []" using s by (simp_all add: lockstep_ok_def)
  show ?thesis
    using r onPasswordReply_ok [OF t] onDigestReply_ok [OF t]
    by (cases r) (simp_all add: ReplyFinished reply_finished_def)
next
  case SocketDisconnected
  show ?thesis unfolding SocketDisconnected ic_step.simps by (rule lockstep_same [OF s]) simp_all
qed (use s in \<open>auto intro: lockstep_same\<close>)

lemma lockstep_invariant: "ic_lockstep env domain s \<Longrightarrow> lockstep_ok env domain s"
proof (induction rule: ic_lockstep.induct)
  case lockstep_start
  show ?case by (simp add: lockstep_ok_def new_IncomingClient_def jid_ok_def jidToBareJid_def)
qed (rule ic_step_ok)

lemma lockstep_authenticated:
  "ic_lockstep env domain s \<Longrightarrow> jidToBareJid (ic_jid s) \<noteq> [] \<Longrightarrow>
   \<exists>user. authenticated_user env domain user \<and> jidToBareJid (ic_jid s) = jidToBareJid (user_jid user domain)"
  using lockstep_invariant by (auto simp: lockstep_ok_def jid_ok_def)

section \<open>The stanzas that are passed on\<close>

lemma attr_set_attr: "isElement el \<Longrightarrow> attr k (set_attr k' v el) = (if k = k' then v else attr k el)"
  by (cases el) (simp_all add: set_attr_def attr_def map_add_def map_of_filter_fst split: option.split)

lemma element_set_attr [simp]: "isElement (set_attr k v el) = isElement el"
  by (simp add: set_attr_def split: dom.split)

lemma full_stanza_addresses:
  assumes "isElement el" and "attr ''from'' el = [] \<or> attr ''from'' el = ic_jid s \<or> attr ''from'' el = jidToBareJid (ic_jid s)"
  shows "isElement (full_stanza s el)" and "attr ''from'' (full_stanza s el) = ic_jid s \<or> attr ''from'' (full_stanza s el) = jidToBareJid (ic_jid s)"
    and "attr ''to'' (full_stanza s el) = (if attr ''to'' el = [] then ic_domain s else attr ''to'' el)"
  using assms by (auto simp: full_stanza_def Let_def attr_set_attr)

lemma process_stanza_signals:
  assumes "x \<in> set (ic_signals (process_stanza el s))" and "x \<notin> set (ic_signals s)"
  shows "x = ClientElement (full_stanza s el) \<and>
    (attr ''from'' el = [] \<or> attr ''from'' el = ic_jid s \<or> attr ''from'' el = jidToBareJid (ic_jid s))"
  using assms by (auto simp: process_stanza_def Let_def split: if_splits)

lemma onSasl2Authenticated_signals:
  "ClientElement x \<in> set (ic_signals (onSasl2Authenticated env g s)) \<longleftrightarrow> ClientElement x \<in> set (ic_signals s)"
  by (auto simp: onSasl2Authenticated_def Let_def split: option.split)

lemma exchange_signals:
  assumes "\<And>t. ic_signals (invalid t) = ic_signals t" "\<And>t. ic_signals (refused t) = ic_signals t"
    and "\<And>t. ClientElement x \<in> set (ic_signals (succeeded t)) \<longleftrightarrow> ClientElement x \<in> set (ic_signals t)"
  shows "ClientElement x \<in> set (ic_signals (start_exchange env nonce m initial item invalid refused s)) \<longleftrightarrow> ClientElement x \<in> set (ic_signals s)"
    and "ClientElement x \<in> set (ic_signals (continue_exchange env response invalid succeeded refused s)) \<longleftrightarrow> ClientElement x \<in> set (ic_signals s)"
  using assms
  by (auto simp: start_exchange_def continue_exchange_def checkCredentials_def Let_def split: option.split prod.split server_response.split)

lemma step_signals:
  assumes "ClientElement x \<in> set (ic_signals (ic_step env ev s))" and "in_turn ev s"
  shows "ClientElement x \<in> set (ic_signals s) \<or> isElement x \<and> (attr ''from'' x = ic_jid s \<or> attr ''from'' x = jidToBareJid (ic_jid s))"
proof (cases ev)
  case (StreamReceived stream sid)
  then show ?thesis using assms by (simp add: ic_handleStream_def Let_def split: if_splits)
next
  case (ElementReceived el nonce g)
  have 1: "ClientElement x \<in> set (ic_signals (handle_sasl2 env el nonce g s)) \<longleftrightarrow> ClientElement x \<in> set (ic_signals s)"
    by (simp add: handle_sasl2_def Let_def exchange_signals onSasl2Authenticated_signals split: option.split)
  have 2: "ClientElement x \<in> set (ic_signals (handle_sasl env el nonce s)) \<longleftrightarrow> ClientElement x \<in> set (ic_signals s)"
    by (simp add: handle_sasl_def Let_def exchange_signals split: option.split)
  have 3: "ClientElement x \<in> set (ic_signals s) \<or> isElement x \<and> (attr ''from'' x = ic_jid s \<or> attr ''from'' x = jidToBareJid (ic_jid s))"
    if "ClientElement x \<in> set (ic_signals (process_stanza el s))"
    using process_stanza_signals [OF that] full_stanza_addresses(1,2) [of el s] assms(2) by (auto simp: ElementReceived)
  have 4: "ClientElement x \<in> set (ic_signals s) \<or> isElement x \<and> (attr ''from'' x = ic_jid s \<or> attr ''from'' x = jidToBareJid (ic_jid s))"
    if "ClientElement x \<in> set (ic_signals (handle_client_element env el g s))"
    using that 3 by (auto simp: handle_client_element_def Let_def split: if_splits option.splits)
  show ?thesis using assms 1 2 4 by (auto simp: ElementReceived ic_handleStanza_def split: if_splits)
next
  case (ReplyFinished k g)
  then show ?thesis using assms
    by (auto simp: reply_finished_def onPasswordReply_def onDigestReply_def Let_def onSasl2Authenticated_signals
        split: pending_reply.splits option.splits reply_error.splits if_splits prod.splits)
qed (use assms in auto)

text \<open>Every stanza that was passed on has the address of an authenticated user, or none.\<close>

definition elements_ok :: "server_env \<Rightarrow> qstring \<Rightarrow> IncomingClient \<Rightarrow> bool" where
  "elements_ok env domain s \<longleftrightarrow> (\<forall>x. ClientElement x \<in> set (ic_signals s) \<longrightarrow> isElement x \<and> jid_ok env domain (attr ''from'' x))"

lemma elements_ok_step:
  assumes "lockstep_ok env domain s" and "elements_ok env domain s" and "in_turn ev s"
  shows "elements_ok env domain (ic_step env ev s)"
proof -
  have "jid_ok env domain (ic_jid s)" "jid_ok env domain (jidToBareJid (ic_jid s))"
    using assms(1) by (simp_all add: lockstep_ok_def jid_ok_def)
  then show ?thesis using step_signals [OF _ assms(3)] assms(2) unfolding elements_ok_def by metis
qed

text \<open>
  A client that waits for each answer of the checker speaks only for itself: if a stanza is passed on with the address of an
  account, the checker accepted a password of this account on this stream, or the client made its response with the digest that the
  checker has for it.
\<close>

lemma stanzas_of_authenticated_users:
  assumes "ic_lockstep env domain s" and "ClientElement x \<in> set (ic_signals s)" and "jidToBareJid (attr ''from'' x) \<noteq> []"
  shows "\<exists>user. authenticated_user env domain user \<and> jidToBareJid (attr ''from'' x) = jidToBareJid (user_jid user domain)"
proof -
  have "elements_ok env domain s"
    using assms(1)
  proof (induction rule: ic_lockstep.induct)
    case lockstep_start
    show ?case by (simp add: elements_ok_def new_IncomingClient_def)
  qed (rule elements_ok_step [OF lockstep_invariant])
  then show ?thesis using assms(2,3) by (auto simp: elements_ok_def jid_ok_def)
qed

section \<open>Runs\<close>

definition example_checker :: QXmppPasswordChecker where
  "example_checker = default_checker example_env (\<lambda>r. if req_username r = ''alice'' then Inr ''a'' else if req_username r = ''bob'' then Inr ''b''
     else Inl ReplyAuthorizationError) False"

definition example_server_env :: server_env where
  "example_server_env = \<lparr>se_sasl = example_env, se_nonza = example_nonza_env, passwordChecker = Some example_checker, hasCertificate = False\<rparr>"

definition plain_auth :: "qstring \<Rightarrow> qstring \<Rightarrow> dom" where
  "plain_auth user pw = Elem ''auth'' ns_sasl [(''mechanism'', ''PLAIN'')] [Text (CHR 0x00 # user @ CHR 0x00 # pw)]"

definition example_message :: dom where
  "example_message = Elem ''message'' ns_client [(''to'', ''bob@d'')] []"

definition ic_run :: "server_env \<Rightarrow> ic_event list \<Rightarrow> IncomingClient \<Rightarrow> IncomingClient" where
  "ic_run env evs s = fold (ic_step env) evs s"

definition bind_element :: "qstring \<Rightarrow> dom" where
  "bind_element res = Elem ''iq'' ns_client [(''type'', ''set''), (''id'', ''b'')] [Elem ''bind'' ns_bind [] [Elem ''resource'' ns_bind [] [Text res]]]"

lemma example_sasl_laws [simp]:
  "se_nonza example_server_env = example_nonza_env" "se_sasl example_server_env = example_env"
  by (simp_all add: example_server_env_def)

definition example_session :: "ic_event list" where
  "example_session = [ElementReceived (plain_auth ''alice'' ''a'') [] ''g'', ReplyFinished 0 ''g'', ElementReceived (bind_element ''r'') [] ''g'',
     ElementReceived example_message [] ''g'']"

lemma lockstep_run:
  "ic_lockstep env domain s \<Longrightarrow> (\<forall>k < length evs. in_turn (evs ! k) (ic_run env (take k evs) s)) \<Longrightarrow> ic_lockstep env domain (ic_run env evs s)"
proof (induction evs arbitrary: s)
  case (Cons ev evs)
  have "in_turn ev s" using Cons.prems(2) by (force simp: ic_run_def)
  moreover have "in_turn (evs ! k) (ic_run env (take k evs) (ic_step env ev s))" if "k < length evs" for k
    using Cons.prems(2) that by (force simp: ic_run_def)
  ultimately show ?case using Cons.IH [OF lockstep_step [OF Cons.prems(1)]] by (simp add: ic_run_def)
qed (simp add: ic_run_def)

lemma example_session_signals:
  "ic_signals (ic_run example_server_env example_session (new_IncomingClient ''d'')) =
    [ClientConnected ''alice@d/r'', ClientElement (Elem ''message'' ns_client [(''to'', ''bob@d''), (''from'', ''alice@d/r'')] [])]"
  by code_simp

lemma example_session_lockstep: "ic_lockstep example_server_env ''d'' (ic_run example_server_env example_session (new_IncomingClient ''d''))"
proof (rule lockstep_run [OF lockstep_start])
  have "\<forall>k \<in> set [0..<4]. in_turn (example_session ! k) (ic_run example_server_env (take k example_session) (new_IncomingClient ''d''))"
    by code_simp
  then show "\<forall>k < length example_session. in_turn (example_session ! k) (ic_run example_server_env (take k example_session) (new_IncomingClient ''d''))"
    by (simp add: example_session_def)
qed

lemma stanzas_of_authenticated_users_witness:
  "\<exists>user. authenticated_user example_server_env ''d'' user \<and> ''alice@d'' = jidToBareJid (user_jid user ''d'')"
proof -
  let ?x = "Elem ''message'' ns_client [(''to'', ''bob@d''), (''from'', ''alice@d/r'')] []"
  have "attr ''from'' ?x = ''alice@d/r''" by (simp add: attr_def)
  moreover have "jidToBareJid ''alice@d/r'' = ''alice@d''" by code_simp
  ultimately show ?thesis
    using stanzas_of_authenticated_users [OF example_session_lockstep, of ?x] by (simp add: example_session_signals)
qed

text \<open>
  Without the wait the address is not safe.  The reply for the first of two requests authenticates as the user of the second, whose
  password nobody has checked.
\<close>

lemma reply_for_another_user:
  "ic_jid (ic_run example_server_env [ElementReceived (plain_auth ''alice'' ''a'') [] [], ElementReceived (plain_auth ''bob'' ''?'') [] [],
     ReplyFinished 0 []] (new_IncomingClient ''d'')) = ''bob@d''"
  and "checkPassword example_checker \<lparr>req_domain = ''d'', req_username = ''bob'', req_password = ''?''\<rparr> = ReplyAuthorizationError"
  by code_simp+

text \<open>A new stream before the reply leaves the reply without a server.\<close>

lemma reply_without_server:
  "ic_fault (ic_run example_server_env [ElementReceived (plain_auth ''alice'' ''a'') [] [],
     StreamReceived \<lparr>so_to = ''d'', so_from = [], so_id = [], so_version = ''1.0'', so_xmlns = ns_client\<rparr> [], ReplyFinished 0 []]
     (new_IncomingClient ''d''))"
  by code_simp

text \<open>A client that never authenticated binds a resource, is reported as connected and has its stanzas passed on.\<close>

lemma unauthenticated_client_connected:
  "ic_signals (ic_run example_server_env [ElementReceived (bind_element ''r'') [] [], ElementReceived example_message [] []]
     (new_IncomingClient ''d'')) =
    [ClientConnected ''/r'', ClientElement (Elem ''message'' ns_client [(''to'', ''bob@d''), (''from'', ''/r'')] [])]"
  by code_simp

text \<open>A SASL 2 request that is aborted before the reply has no request left when the reply arrives.\<close>

lemma aborted_request_missing:
  "ic_fault (ic_run example_server_env
     [ElementReceived (Elem ''authenticate'' ns_sasl_2 [(''mechanism'', ''PLAIN'')]
        [Elem ''initial-response'' ns_sasl_2 [] [Text (CHR 0x00 # ''alice'' @ CHR 0x00 # ''a'')]]) [] [],
      ElementReceived (Elem ''abort'' ns_sasl_2 [] []) [] [], ReplyFinished 0 []] (new_IncomingClient ''d''))"
  by code_simp

end
