(* ===== verification/Server.thy ===== *)
theory Server
  imports IncomingClient
begin

text \<open>
  The server of \<^verbatim>\<open>src/server/QXmppServer.cpp\<close>: its streams, the tables by which it finds the streams
  of an account, the routing of stanzas and the answers it gives itself.

  Streams are numbered in the order they were made.  A stream that the server has given up is deleted, and
  the use of it afterwards sets a flag.  Extensions, the subclasses of \<^verbatim>\<open>QXmppServerExtension\<close>, are a
  name, a priority and the decision whether they handle an element; what they send is not part of the model.
\<close>

record server_extension =
  ext_name :: qstring
  extensionPriority :: int
  ext_handleStanza :: "dom \<Rightarrow> bool"

record QXmppServer =
  srv_domain :: qstring
  srv_extensions :: "server_extension list"
  serversForServers :: bool
  srv_clients :: "IncomingClient list"
  incomingClients :: "nat list"
  incomingClientsByJid :: "qstring \<Rightarrow> nat option"
  incomingClientsByBareJid :: "qstring \<Rightarrow> nat list option"
  srv_incoming :: "QXmppIncomingServer list"
  incomingServers :: "nat list"
  srv_outgoing :: "QXmppOutgoingServer list"
  outgoingServers :: "nat list"
  srv_fault :: bool

definition new_QXmppServer :: "qstring \<Rightarrow> QXmppServer" where
  "new_QXmppServer domain = \<lparr>srv_domain = domain, srv_extensions = [], serversForServers = False, srv_clients = [], incomingClients = [],
     incomingClientsByJid = (\<lambda>_. None), incomingClientsByBareJid = (\<lambda>_. None), srv_incoming = [], incomingServers = [],
     srv_outgoing = [], outgoingServers = [], srv_fault = False\<rparr>"

section \<open>Extensions\<close>

text \<open>The position before the first extension with a lower priority.\<close>

fun insert_extension :: "server_extension \<Rightarrow> server_extension list \<Rightarrow> server_extension list" where
  "insert_extension x [] = [x]"
| "insert_extension x (y # ys) = (if extensionPriority y < extensionPriority x then x # y # ys else y # insert_extension x ys)"

text \<open>Extensions are compared as objects, for which their names stand.\<close>

definition addExtension :: "server_extension \<Rightarrow> QXmppServer \<Rightarrow> QXmppServer" where
  "addExtension x s = (if ext_name x \<in> set (map ext_name (srv_extensions s)) then s
     else s\<lparr>srv_extensions := insert_extension x (srv_extensions s)\<rparr>)"

section \<open>Routing\<close>

text \<open>
  An element is written anew, without the namespaces that the destination assumes; nested elements are written without the namespace
  of their parent.
\<close>

fun helperToXmlAddDomElement :: "qstring list \<Rightarrow> dom \<Rightarrow> qstring \<Rightarrow> dom" where
  "helperToXmlAddDomElement omit (Text t) around = Text t"
| "helperToXmlAddDomElement omit (Elem tag xmlns attrs cs) around =
     (let ns = (if xmlns \<noteq> [] \<and> xmlns \<notin> set omit then xmlns else around)
      in Elem tag ns attrs (map (\<lambda>c. helperToXmlAddDomElement [xmlns] c ns) cs))"

definition ends_with :: "qstring \<Rightarrow> qstring \<Rightarrow> bool" where
  "ends_with suffix s \<longleftrightarrow> length suffix \<le> length s \<and> drop (length s - length suffix) s = suffix"

text \<open>\<^verbatim>\<open>sendData\<close> of a client stream.\<close>

definition client_sendData :: "ic_output \<Rightarrow> nat \<Rightarrow> QXmppServer \<Rightarrow> QXmppServer" where
  "client_sendData x i s =
     (if i \<in> set (incomingClients s) then s\<lparr>srv_clients := (srv_clients s)[i := ic_put x (srv_clients s ! i)]\<rparr>
      else s\<lparr>srv_fault := True\<rparr>)"

definition outgoing_to :: "qstring \<Rightarrow> QXmppServer \<Rightarrow> nat option" where
  "outgoing_to domain s = List.find (\<lambda>i. remoteDomain (srv_outgoing s ! i) = domain) (outgoingServers s)"

definition routeData :: "qstring \<Rightarrow> qstring \<Rightarrow> (qstring \<Rightarrow> dom) \<Rightarrow> QXmppServer \<Rightarrow> bool \<times> QXmppServer" where
  "routeData fresh to dat s =
     (let toDomain = jidToDomain to
      in if to = [] \<or> to = srv_domain s \<or> ends_with (''.'' @ srv_domain s) toDomain then (False, s)
         else if toDomain = srv_domain s then
           let found = (case incomingClientsByBareJid s (jidToBareJid to) of None \<Rightarrow> [] | Some is \<Rightarrow> is)
           in (found \<noteq> [], fold (client_sendData (Routed (dat ns_client))) found s)
         else if serversForServers s then
           (case outgoing_to toDomain s of
              Some i \<Rightarrow> (True, s\<lparr>srv_outgoing := (srv_outgoing s)[i := queueData (dat ns_server) (srv_outgoing s ! i)]\<rparr>)
            | None \<Rightarrow>
                let conn = (new_OutgoingServer (srv_domain s))\<lparr>os_localStreamKey := fresh\<rparr>
                in (True, s\<lparr>srv_outgoing := srv_outgoing s @ [os_connectToHost toDomain (queueData (dat ns_server) conn)],
                            outgoingServers := outgoingServers s @ [length (srv_outgoing s)]\<rparr>))
         else (False, s))"

definition sendElement :: "qstring \<Rightarrow> dom \<Rightarrow> QXmppServer \<Rightarrow> bool \<times> QXmppServer" where
  "sendElement fresh element s = routeData fresh (attr ''to'' element) (helperToXmlAddDomElement [ns_client, ns_server] element) s"

definition srv_sendPacket :: "nonza_env \<Rightarrow> qstring \<Rightarrow> QXmppIq \<Rightarrow> QXmppServer \<Rightarrow> bool \<times> QXmppServer" where
  "srv_sendPacket e fresh iq s = routeData fresh (st_to iq) (\<lambda>ns. hd (item_nodes ns (QXmppIq_toXml e iq))) s"

definition error_reply :: "QXmppIq \<Rightarrow> qstring \<Rightarrow> Condition \<Rightarrow> QXmppIq" where
  "error_reply request sender condition =
     (new_QXmppIq IqError)\<lparr>st_id := st_id request, st_from := sender, st_to := st_from request,
        st_error := Some (new_StanzaError\<lparr>err_type := Cancel, err_condition := condition\<rparr>)\<rparr>"

definition srv_handleStanza :: "nonza_env \<Rightarrow> qstring \<Rightarrow> dom \<Rightarrow> QXmppServer \<Rightarrow> QXmppServer" where
  "srv_handleStanza e fresh element s =
     (if \<exists>x \<in> set (srv_extensions s). ext_handleStanza x element then s
      else let to = attr ''to'' element; request = QXmppIq_parse e element
           in if to = srv_domain s then
                (if tagName element = ''iq'' \<and> iq_type request \<noteq> IqError \<and> iq_type request \<noteq> IqResult
                 then snd (srv_sendPacket e fresh (error_reply request (srv_domain s) FeatureNotImplemented) s) else s)
              else (case sendElement fresh element s of (sent, s1) \<Rightarrow>
                if \<not> sent \<and> tagName element = ''iq''
                then snd (srv_sendPacket e fresh (error_reply request (st_to request) ServiceUnavailable) s1) else s1))"

section \<open>Streams\<close>

definition addIncomingClient :: "IncomingClient \<Rightarrow> QXmppServer \<Rightarrow> QXmppServer" where
  "addIncomingClient stream s = s\<lparr>srv_clients := srv_clients s @ [stream], incomingClients := incomingClients s @ [length (srv_clients s)]\<rparr>"

definition srv_disconnectClient :: "nat \<Rightarrow> QXmppServer \<Rightarrow> QXmppServer" where
  "srv_disconnectClient i s = s\<lparr>srv_clients := (srv_clients s)[i := ic_disconnectFromHost (srv_clients s ! i)]\<rparr>"

definition onClientConnected :: "nat \<Rightarrow> QXmppServer \<Rightarrow> QXmppServer" where
  "onClientConnected client s =
     (let jid = ic_jid (srv_clients s ! client); bare = jidToBareJid jid;
          s1 = (case incomingClientsByJid s jid of
             Some old \<Rightarrow> if old \<noteq> client then
                 (if old \<in> set (incomingClients s) then srv_disconnectClient old (client_sendData ConflictError old s)
                  else s\<lparr>srv_fault := True\<rparr>)
               else s
           | None \<Rightarrow> s)
      in s1\<lparr>incomingClientsByJid := (incomingClientsByJid s1)(jid \<mapsto> client),
            incomingClientsByBareJid := (incomingClientsByBareJid s1)(bare \<mapsto>
              List.insert client (case incomingClientsByBareJid s1 bare of None \<Rightarrow> [] | Some is \<Rightarrow> is))\<rparr>)"

definition onClientDisconnected :: "nat \<Rightarrow> QXmppServer \<Rightarrow> QXmppServer" where
  "onClientDisconnected client s =
     (if client \<in> set (incomingClients s) then
        let s1 = s\<lparr>incomingClients := removeAll client (incomingClients s)\<rparr>;
            jid = ic_jid (srv_clients s ! client); bare = jidToBareJid jid
        in if jid = [] then s1
           else let s2 = (if incomingClientsByJid s1 jid = Some client
                          then s1\<lparr>incomingClientsByJid := (incomingClientsByJid s1)(jid := None)\<rparr> else s1)
                in (case incomingClientsByBareJid s2 bare of
                      None \<Rightarrow> s2
                    | Some is \<Rightarrow> s2\<lparr>incomingClientsByBareJid := (incomingClientsByBareJid s2)(bare :=
                        (if removeAll client is = [] then None else Some (removeAll client is)))\<rparr>)
      else s)"

definition onDialbackRequest :: "nat \<Rightarrow> QXmppDialback \<Rightarrow> QXmppServer \<Rightarrow> QXmppServer" where
  "onDialbackRequest stream dialback s =
     (if db_command dialback = DialbackVerify then
        (case outgoing_to (st_from dialback) s of
           None \<Rightarrow> s
         | Some i \<Rightarrow>
             let verify = new_QXmppDialback\<lparr>db_command := DialbackVerify, st_id := st_id dialback, st_to := st_from dialback,
                   st_from := srv_domain s,
                   db_type := (if db_key dialback = os_localStreamKey (srv_outgoing s ! i) then ''valid'' else ''invalid'')\<rparr>
             in s\<lparr>srv_incoming := (srv_incoming s)[stream := is_put (IsPacket (dialback_dom verify)) (srv_incoming s ! stream)]\<rparr>)
      else s)"

definition closeServer :: "QXmppServer \<Rightarrow> QXmppServer" where
  "closeServer s =
     (let s1 = fold srv_disconnectClient (incomingClients s) (s\<lparr>serversForServers := False\<rparr>);
          s2 = s1\<lparr>srv_incoming := fold (\<lambda>i xs. xs[i := is_disconnectFromHost (xs ! i)]) (incomingServers s1) (srv_incoming s1)\<rparr>
      in s2\<lparr>srv_outgoing := fold (\<lambda>i xs. xs[i := os_disconnectFromHost (xs ! i)]) (outgoingServers s2) (srv_outgoing s2)\<rparr>)"

definition listenForServers :: "QXmppServer \<Rightarrow> QXmppServer" where
  "listenForServers s = (if srv_domain s = [] then s else s\<lparr>serversForServers := True\<rparr>)"

section \<open>Events\<close>

datatype srv_event = NewClient | ClientEvent nat ic_event | NewIncomingServer | IncomingServerEvent nat is_event
  | OutgoingServerEvent nat os_event | ListenForServers | CloseServer | AddExtension server_extension

fun client_signal :: "server_env \<Rightarrow> qstring \<Rightarrow> nat \<Rightarrow> ic_signal \<Rightarrow> QXmppServer \<Rightarrow> QXmppServer" where
  "client_signal env fresh i (ClientConnected _) s = onClientConnected i s"
| "client_signal env fresh i (ClientElement el) s = srv_handleStanza (se_nonza env) fresh el s"
| "client_signal env fresh i ClientDisconnected s = onClientDisconnected i s"

fun incoming_signal :: "server_env \<Rightarrow> qstring \<Rightarrow> nat \<Rightarrow> is_signal \<Rightarrow> QXmppServer \<Rightarrow> QXmppServer" where
  "incoming_signal env fresh i IsConnected s = s"
| "incoming_signal env fresh i IsDisconnected s = s\<lparr>incomingServers := removeAll i (incomingServers s)\<rparr>"
| "incoming_signal env fresh i (DialbackRequestReceived d) s = onDialbackRequest i d s"
| "incoming_signal env fresh i (IsElementReceived el) s = srv_handleStanza (se_nonza env) fresh el s"

fun outgoing_signal :: "nat \<Rightarrow> os_signal \<Rightarrow> QXmppServer \<Rightarrow> QXmppServer" where
  "outgoing_signal i OsDisconnected s = s\<lparr>outgoingServers := removeAll i (outgoingServers s)\<rparr>"
| "outgoing_signal i _ s = s"

text \<open>A stream makes a step and the server handles what it reports.\<close>

fun srv_step :: "server_env \<Rightarrow> qstring \<Rightarrow> srv_event \<Rightarrow> QXmppServer \<Rightarrow> QXmppServer" where
  "srv_step env fresh NewClient s = addIncomingClient (new_IncomingClient (srv_domain s)) s"
| "srv_step env fresh (ClientEvent i ev) s =
     (let c = srv_clients s ! i; c' = ic_step env ev c
      in fold (client_signal env fresh i) (drop (length (ic_signals c)) (ic_signals c')) (s\<lparr>srv_clients := (srv_clients s)[i := c']\<rparr>))"
| "srv_step env fresh NewIncomingServer s =
     s\<lparr>srv_incoming := srv_incoming s @ [new_IncomingServer (srv_domain s)], incomingServers := incomingServers s @ [length (srv_incoming s)]\<rparr>"
| "srv_step env fresh (IncomingServerEvent i ev) s =
     (let c = srv_incoming s ! i; c' = is_step (se_nonza env) ev c
      in fold (incoming_signal env fresh i) (drop (length (is_signals c)) (is_signals c')) (s\<lparr>srv_incoming := (srv_incoming s)[i := c']\<rparr>))"
| "srv_step env fresh (OutgoingServerEvent i ev) s =
     (let c = srv_outgoing s ! i; c' = os_step (se_nonza env) ev c
      in fold (outgoing_signal i) (drop (length (os_signals c)) (os_signals c')) (s\<lparr>srv_outgoing := (srv_outgoing s)[i := c']\<rparr>))"
| "srv_step env fresh ListenForServers s = listenForServers s"
| "srv_step env fresh CloseServer s = closeServer s"
| "srv_step env fresh (AddExtension x) s = addExtension x s"

text \<open>Only streams that the server has not given up have events.\<close>

fun srv_may_occur :: "srv_event \<Rightarrow> QXmppServer \<Rightarrow> bool" where
  "srv_may_occur (ClientEvent i ev) s = (i \<in> set (incomingClients s) \<and> ic_may_occur ev (srv_clients s ! i))"
| "srv_may_occur (IncomingServerEvent i ev) s = (i \<in> set (incomingServers s))"
| "srv_may_occur (OutgoingServerEvent i ev) s = (i \<in> set (outgoingServers s) \<and> os_may_occur ev (srv_outgoing s ! i))"
| "srv_may_occur _ s = True"

section \<open>Extensions in order\<close>

lemma insert_extension_set: "set (insert_extension x xs) = insert x (set xs)"
  by (induction xs) auto

lemma addExtension_sorted:
  assumes "sorted_wrt (\<lambda>a b. extensionPriority b \<le> extensionPriority a) (srv_extensions s)"
  shows "sorted_wrt (\<lambda>a b. extensionPriority b \<le> extensionPriority a) (srv_extensions (addExtension x s))"
proof -
  have "sorted_wrt (\<lambda>a b. extensionPriority b \<le> extensionPriority a) xs \<Longrightarrow>
      sorted_wrt (\<lambda>a b. extensionPriority b \<le> extensionPriority a) (insert_extension x xs)" for xs
    by (induction xs) (auto simp: insert_extension_set)
  then show ?thesis using assms by (simp add: addExtension_def)
qed

section \<open>Elements written anew\<close>

fun all_named :: "dom \<Rightarrow> bool" where
  "all_named (Text t) = True"
| "all_named (Elem tag xmlns attrs cs) = (xmlns \<noteq> [] \<and> (\<forall>c \<in> set cs. all_named c))"

text \<open>Read in the namespace it was written for, an element is what it was.\<close>

lemma rewritten_same:
  "all_named el \<Longrightarrow> (isElement el \<and> namespaceURI el \<in> set omit \<longrightarrow> around = namespaceURI el) \<Longrightarrow> helperToXmlAddDomElement omit el around = el"
proof (induction el arbitrary: omit around)
  case (Elem tag xmlns attrs cs)
  have ns: "(if xmlns \<noteq> [] \<and> xmlns \<notin> set omit then xmlns else around) = xmlns" using Elem.prems by auto
  have "map (\<lambda>c. helperToXmlAddDomElement [xmlns] c xmlns) cs = cs"
    by (rule map_idI) (use Elem in auto)
  then show ?case by (simp add: ns Let_def)
qed simp

lemma rewritten_attr [simp]: "isElement el \<Longrightarrow> attr k (helperToXmlAddDomElement omit el around) = attr k el"
  by (cases el) (simp_all add: attr_def Let_def)

section \<open>The routing tables\<close>

definition bound_client :: "IncomingClient \<Rightarrow> bool" where
  "bound_client c \<longleftrightarrow> (\<exists>j. ClientConnected j \<in> set (ic_signals c))"

definition connections :: "qstring \<Rightarrow> QXmppServer \<Rightarrow> nat list" where
  "connections bare s = (case incomingClientsByBareJid s bare of None \<Rightarrow> [] | Some is \<Rightarrow> is)"

text \<open>The streams of an account: those that were reported as connected with its address and are not given up.\<close>

definition account_streams :: "qstring \<Rightarrow> QXmppServer \<Rightarrow> nat set" where
  "account_streams bare s = {i \<in> set (incomingClients s). bound_client (srv_clients s ! i) \<and> jidToBareJid (ic_jid (srv_clients s ! i)) = bare}"

definition tables_ok :: "QXmppServer \<Rightarrow> bool" where
  "tables_ok s \<longleftrightarrow> \<not> srv_fault s \<and> (\<forall>bare. set (connections bare s) = account_streams bare s \<and> distinct (connections bare s)) \<and>
     (\<forall>jid i. incomingClientsByJid s jid = Some i \<longrightarrow> i \<in> set (incomingClients s) \<and> bound_client (srv_clients s ! i) \<and>
        ic_jid (srv_clients s ! i) = jid) \<and>
     (\<forall>i \<in> set (incomingClients s). i < length (srv_clients s) \<and> (bound_client (srv_clients s ! i) \<longrightarrow> ic_jid (srv_clients s ! i) \<noteq> []))"

definition same_tables :: "QXmppServer \<Rightarrow> QXmppServer \<Rightarrow> bool" where
  "same_tables s t \<longleftrightarrow> srv_fault t = srv_fault s \<and> incomingClients t = incomingClients s \<and> incomingClientsByJid t = incomingClientsByJid s \<and>
     incomingClientsByBareJid t = incomingClientsByBareJid s \<and> length (srv_clients t) = length (srv_clients s) \<and>
     (\<forall>i < length (srv_clients s). ic_jid (srv_clients t ! i) = ic_jid (srv_clients s ! i) \<and> ic_signals (srv_clients t ! i) = ic_signals (srv_clients s ! i))"

lemma same_tables_refl [simp]: "same_tables s s"
  by (simp add: same_tables_def)

lemma same_tables_trans [trans]: "same_tables s t \<Longrightarrow> same_tables t u \<Longrightarrow> same_tables s u"
  by (simp add: same_tables_def)

lemma tables_same:
  assumes "tables_ok s" and "same_tables s t"
  shows "tables_ok t"
proof -
  have "account_streams bare t = account_streams bare s" for bare
    using assms by (auto simp: account_streams_def same_tables_def tables_ok_def bound_client_def)
  moreover have "connections bare t = connections bare s" for bare
    using assms(2) by (simp add: connections_def same_tables_def)
  ultimately show ?thesis using assms by (auto simp: tables_ok_def same_tables_def bound_client_def)
qed

lemma client_update_same:
  assumes "i < length (srv_clients s)" "ic_jid c = ic_jid (srv_clients s ! i)" "ic_signals c = ic_signals (srv_clients s ! i)"
  shows "same_tables s (s\<lparr>srv_clients := (srv_clients s)[i := c]\<rparr>)"
  using assms by (auto simp: same_tables_def nth_list_update)

lemma sendData_same:
  assumes "i \<in> set (incomingClients s)" and "i < length (srv_clients s)"
  shows "same_tables s (client_sendData x i s)"
  using assms client_update_same [of i s "ic_put x (srv_clients s ! i)"] by (simp add: client_sendData_def)

lemma sendData_fold_same:
  "set is \<subseteq> set (incomingClients s) \<Longrightarrow> \<forall>i \<in> set (incomingClients s). i < length (srv_clients s) \<Longrightarrow> same_tables s (fold (client_sendData x) is s)"
proof (induction "is" arbitrary: s)
  case (Cons i "is")
  have s: "same_tables s (client_sendData x i s)" using Cons.prems by (intro sendData_same) auto
  moreover have "same_tables (client_sendData x i s) (fold (client_sendData x) is (client_sendData x i s))"
    using Cons.prems s by (intro Cons.IH) (auto simp: same_tables_def)
  ultimately show ?case by (auto intro: same_tables_trans)
qed simp

lemma routeData_same:
  assumes "tables_ok s"
  shows "same_tables s (snd (routeData fresh to dat s))"
proof -
  have "set (connections (jidToBareJid to) s) \<subseteq> set (incomingClients s)" "\<forall>i \<in> set (incomingClients s). i < length (srv_clients s)"
    using assms by (auto simp: tables_ok_def account_streams_def)
  note fold_same = sendData_fold_same [OF this, unfolded connections_def]
  then show ?thesis
    by (auto simp: routeData_def Let_def same_tables_def split: option.split)
qed

lemma handleStanza_same:
  assumes "tables_ok s"
  shows "same_tables s (srv_handleStanza e fresh el s)"
proof -
  have reply: "same_tables t (snd (srv_sendPacket e fresh iq t))" if "tables_ok t" for iq t
    using routeData_same [OF that] by (simp add: srv_sendPacket_def)
  obtain sent t where t: "sendElement fresh el s = (sent, t)" by (cases "sendElement fresh el s")
  then have same: "same_tables s t" using routeData_same [OF assms] by (metis sendElement_def snd_conv)
  then have "tables_ok t" by (rule tables_same [OF assms])
  then show ?thesis using reply [OF assms] same_tables_trans [OF same reply] same
    by (simp add: srv_handleStanza_def Let_def t)
qed

text \<open>What a step of a client stream reports: at most one thing, and a connection with the address it has then.\<close>

definition adds_signal :: "IncomingClient \<Rightarrow> IncomingClient \<Rightarrow> bool" where
  "adds_signal c c' \<longleftrightarrow> ic_signals c' = ic_signals c \<or>
     (\<exists>x. ic_signals c' = ic_signals c @ [x] \<and> (\<forall>j. x = ClientConnected j \<longrightarrow> ic_jid c' = j \<and> j \<noteq> []))"

lemma onSasl2Authenticated_adds: "adds_signal s (onSasl2Authenticated env g s)"
  by (auto simp: adds_signal_def onSasl2Authenticated_def Let_def split: option.split)

lemma start_adds:
  assumes "\<And>t. ic_signals (invalid t) = ic_signals t" "\<And>t. ic_signals (refused t) = ic_signals t" and "ic_signals s = ic_signals c"
  shows "adds_signal c (start_exchange env nonce m initial item invalid refused s)"
  using assms by (auto simp: adds_signal_def start_exchange_def checkCredentials_def Let_def split: option.split prod.split server_response.split)

lemma continue_adds:
  assumes "\<And>t. ic_signals (none t) = ic_signals t" "\<And>t. ic_signals (refused t) = ic_signals t" "\<And>t. adds_signal t (succeeded t)"
  shows "adds_signal c (continue_exchange env response none succeeded refused c)"
proof -
  have "adds_signal c (succeeded t)" if "ic_signals t = ic_signals c" for t
    using assms(3) [of t] that by (simp add: adds_signal_def)
  then show ?thesis
    using assms by (auto simp: continue_exchange_def checkCredentials_def Let_def adds_signal_def split: option.split prod.split server_response.split)
qed

lemma sasl2_disconnect_adds: "adds_signal s (ic_disconnectFromHost (sasl2_failure d s))" "adds_signal s (ic_disconnectFromHost (sasl1_failure c s))"
  "adds_signal s (sasl2_failure d (s\<lparr>sasl2AuthRequest := None\<rparr>))" "adds_signal s s" "adds_signal s (ic_send i s)"
  "adds_signal s ((ic_send i s)\<lparr>ic_encrypted := True\<rparr>)" "adds_signal s (ic_disconnectFromHost s)"
  "adds_signal s (ic_disconnectFromHost (version_failure d s))"
  by (simp_all add: adds_signal_def)

lemma handle_client_element_adds: "adds_signal s (handle_client_element env el g s)"
  by (auto simp: adds_signal_def handle_client_element_def process_stanza_def Let_def split: option.split)

lemma ic_step_adds: "adds_signal s (ic_step env ev s)"
proof (cases ev)
  case (ElementReceived el nonce g)
  have 1: "adds_signal s (handle_sasl2 env el nonce g s)"
    by (simp add: handle_sasl2_def Let_def start_adds continue_adds onSasl2Authenticated_adds sasl2_disconnect_adds split: option.split)
  have 2: "adds_signal s (handle_sasl env el nonce s)"
    by (simp add: handle_sasl_def Let_def start_adds continue_adds sasl2_disconnect_adds split: option.split)
  show ?thesis using 1 2 handle_client_element_adds by (simp add: ElementReceived ic_handleStanza_def sasl2_disconnect_adds)
next
  case (ReplyFinished k g)
  let ?s = "s\<lparr>ic_pending := take k (ic_pending s) @ drop (k + 1) (ic_pending s)\<rparr>"
  have "adds_signal ?s (onPasswordReply env g err ?s)" for err
    using onSasl2Authenticated_adds [of "?s\<lparr>ic_jid := j\<rparr>" env g for j]
    by (simp add: onPasswordReply_def Let_def adds_signal_def split: option.split reply_error.split)
  moreover have "adds_signal ?s (onDigestReply env raw err dig ?s)" for raw err dig
    by (simp add: onDigestReply_def Let_def adds_signal_def split: option.split prod.split)
  ultimately show ?thesis
    by (simp add: ReplyFinished reply_finished_def Let_def adds_signal_def split: pending_reply.split)
next
  case (StreamReceived stream sid)
  then show ?thesis by (simp add: adds_signal_def ic_handleStream_def Let_def)
qed (simp_all add: adds_signal_def)

lemma onClientConnected_ok:
  assumes i: "i \<in> set (incomingClients s)" "i < length (srv_clients s)" "ic_signals c = ic_signals (srv_clients s ! i) @ [ClientConnected (ic_jid c)]"
    and s: "tables_ok s" "ic_jid c \<noteq> []" and settled: "bound_client (srv_clients s ! i) \<longrightarrow> ic_jid c = ic_jid (srv_clients s ! i)"
  shows "tables_ok (onClientConnected i (s\<lparr>srv_clients := (srv_clients s)[i := c]\<rparr>))"
proof -
  let ?s = "s\<lparr>srv_clients := (srv_clients s)[i := c]\<rparr>" and ?jid = "ic_jid c"
  let ?old = "\<lambda>s1. s1\<lparr>incomingClientsByJid := (incomingClientsByJid s1)(?jid \<mapsto> i),
            incomingClientsByBareJid := (incomingClientsByBareJid s1)(jidToBareJid ?jid \<mapsto> List.insert i (connections (jidToBareJid ?jid) s1))\<rparr>"
  obtain s1 where s1: "onClientConnected i ?s = ?old s1" "same_tables ?s s1"
  proof (cases "incomingClientsByJid s ?jid")
    case None
    then show ?thesis using that [of ?s] i by (simp add: onClientConnected_def Let_def connections_def)
  next
    case (Some old)
    show ?thesis
    proof (cases "old = i")
      case True
      then show ?thesis using that [of ?s] i Some by (simp add: onClientConnected_def Let_def connections_def)
    next
      case False
      have old: "old \<in> set (incomingClients ?s)" "old < length (srv_clients ?s)" using s(1) Some by (auto simp: tables_ok_def)
      let ?u = "client_sendData ConflictError old ?s"
      have u: "same_tables ?s ?u" by (rule sendData_same [OF old])
      moreover have "same_tables ?u (srv_disconnectClient old ?u)"
        unfolding srv_disconnectClient_def using old u by (intro client_update_same) (simp_all add: same_tables_def)
      ultimately have "same_tables ?s (srv_disconnectClient old ?u)" by (rule same_tables_trans)
      then show ?thesis using that i Some False old by (simp add: onClientConnected_def Let_def connections_def)
    qed
  qed
  have bound: "bound_client (srv_clients s1 ! j) \<longleftrightarrow> j = i \<or> bound_client (srv_clients s ! j)" "ic_jid (srv_clients s1 ! j) = (if j = i then ?jid else ic_jid (srv_clients s ! j))"
    if "j < length (srv_clients s)" for j
    using s1(2) i that by (auto simp: same_tables_def bound_client_def nth_list_update)
  have inc: "incomingClients s1 = incomingClients s" "length (srv_clients s1) = length (srv_clients s)" "srv_fault s1 = srv_fault s"
      "incomingClientsByJid s1 = incomingClientsByJid s" "connections b s1 = connections b s" for b
    using s1(2) by (simp_all add: same_tables_def connections_def)
  have lt: "j \<in> set (incomingClients s) \<Longrightarrow> j < length (srv_clients s)" for j using s(1) by (auto simp: tables_ok_def)
  have conn: "connections b (?old s1) = (if b = jidToBareJid ?jid then List.insert i (connections b s) else connections b s)" for b
    using inc(5) by (simp add: connections_def)
  have "set (connections b (?old s1)) = account_streams b (?old s1)" for b
  proof -
    have "set (connections b s) = account_streams b s" using s(1) by (simp add: tables_ok_def)
    moreover have "account_streams b (?old s1) = account_streams b s \<union> (if b = jidToBareJid ?jid then {i} else {})"
      using i settled lt by (auto simp: account_streams_def inc bound)
    ultimately show ?thesis by (auto simp: conn)
  qed
  moreover have "distinct (connections b (?old s1))" for b
    using s(1) conn by (simp add: tables_ok_def)
  moreover have "\<forall>j \<in> set (incomingClients s). bound_client (srv_clients s1 ! j) \<longrightarrow> ic_jid (srv_clients s1 ! j) \<noteq> []"
    using s lt bound by (auto simp: tables_ok_def)
  moreover have "k \<in> set (incomingClients s) \<and> bound_client (srv_clients s1 ! k) \<and> ic_jid (srv_clients s1 ! k) = j"
    if "((incomingClientsByJid s)(?jid \<mapsto> i)) j = Some k" for j k
    using that s(1) i settled lt bound by (auto simp: tables_ok_def split: if_splits)
  ultimately show ?thesis unfolding s1(1) using s i inc lt
    by (simp add: tables_ok_def)
qed

lemma onClientDisconnected_simps:
  assumes "i \<in> set (incomingClients s)"
  shows "incomingClients (onClientDisconnected i s) = removeAll i (incomingClients s)" "srv_clients (onClientDisconnected i s) = srv_clients s"
    "srv_fault (onClientDisconnected i s) = srv_fault s"
    "incomingClientsByJid (onClientDisconnected i s) = (let jid = ic_jid (srv_clients s ! i) in
       if jid \<noteq> [] \<and> incomingClientsByJid s jid = Some i then (incomingClientsByJid s)(jid := None) else incomingClientsByJid s)"
    "connections b (onClientDisconnected i s) = (if ic_jid (srv_clients s ! i) \<noteq> [] \<and> b = jidToBareJid (ic_jid (srv_clients s ! i))
       then removeAll i (connections b s) else connections b s)"
  using assms
  by (cases "ic_jid (srv_clients s ! i) = []";
      cases "incomingClientsByJid s (ic_jid (srv_clients s ! i)) = Some i";
      cases "incomingClientsByBareJid s (jidToBareJid (ic_jid (srv_clients s ! i)))";
      simp add: onClientDisconnected_def Let_def connections_def)+

lemma tables_okD:
  assumes "tables_ok s"
  shows "\<not> srv_fault s" "set (connections b s) = account_streams b s" "distinct (connections b s)"
    "incomingClientsByJid s jid = Some k \<Longrightarrow> k \<in> set (incomingClients s) \<and> bound_client (srv_clients s ! k) \<and> ic_jid (srv_clients s ! k) = jid"
    "k \<in> set (incomingClients s) \<Longrightarrow> k < length (srv_clients s) \<and> (bound_client (srv_clients s ! k) \<longrightarrow> ic_jid (srv_clients s ! k) \<noteq> [])"
  using assms by (simp_all add: tables_ok_def)

lemma onClientDisconnected_ok:
  assumes s: "tables_ok s"
  shows "tables_ok (onClientDisconnected i s)"
proof (cases "i \<in> set (incomingClients s)")
  case True
  let ?jid = "ic_jid (srv_clients s ! i)" and ?t = "onClientDisconnected i s"
  note simps = onClientDisconnected_simps [OF True]
  have unbound: "?jid = [] \<Longrightarrow> i \<notin> account_streams b s" for b
    using tables_okD(5) [OF s True] by (auto simp: account_streams_def)
  have acc: "account_streams b ?t = account_streams b s - {i}" for b
    unfolding account_streams_def simps(1,2) by auto
  have other: "b \<noteq> jidToBareJid ?jid \<Longrightarrow> i \<notin> account_streams b s" for b
    by (auto simp: account_streams_def)
  have "set (connections b ?t) = account_streams b ?t" for b
    using tables_okD(2) [OF s, of b] unbound [of b] other [of b] unfolding simps(5) acc by auto
  moreover have "distinct (connections b ?t)" for b
    using tables_okD(3) [OF s, of b] unfolding simps(5) by (auto intro: distinct_removeAll)
  moreover have "k \<in> set (incomingClients ?t) \<and> bound_client (srv_clients ?t ! k) \<and> ic_jid (srv_clients ?t ! k) = j"
    if k: "incomingClientsByJid ?t j = Some k" for j k
  proof -
    have was: "incomingClientsByJid s j = Some k" and kept: "\<not> (?jid \<noteq> [] \<and> incomingClientsByJid s ?jid = Some i \<and> j = ?jid)"
      using k unfolding simps(4) Let_def by (auto split: if_splits)
    have "?jid \<noteq> []" if "k = i"
      using tables_okD(4) [OF s was] tables_okD(5) [OF s True] that by simp
    then show ?thesis
      using tables_okD(4) [OF s was] kept was unfolding simps(1,2) by auto
  qed
  moreover have "k < length (srv_clients s) \<and> (bound_client (srv_clients s ! k) \<longrightarrow> ic_jid (srv_clients s ! k) \<noteq> [])"
    if "k \<in> set (incomingClients ?t)" for k
    using tables_okD(5) [OF s] that unfolding simps(1) by auto
  ultimately show ?thesis using tables_okD(1) [OF s] unfolding tables_ok_def simps(2,3) by simp
qed (use s in \<open>simp add: onClientDisconnected_def\<close>)

section \<open>Runs in which addresses stay\<close>

text \<open>A client that is connected keeps its address: it neither binds nor authenticates again.\<close>

fun keeps_address :: "server_env \<Rightarrow> srv_event \<Rightarrow> QXmppServer \<Rightarrow> bool" where
  "keeps_address env (ClientEvent i ev) s =
     (bound_client (srv_clients s ! i) \<longrightarrow> ic_jid (ic_step env ev (srv_clients s ! i)) = ic_jid (srv_clients s ! i))"
| "keeps_address env _ s = True"

inductive srv_settled :: "server_env \<Rightarrow> qstring \<Rightarrow> QXmppServer \<Rightarrow> bool" for env domain where
  settled_start: "srv_settled env domain (new_QXmppServer domain)"
| settled_step: "srv_settled env domain s \<Longrightarrow> srv_may_occur ev s \<Longrightarrow> keeps_address env ev s \<Longrightarrow> srv_settled env domain (srv_step env fresh ev s)"

lemma client_event_ok:
  assumes s: "tables_ok s" and i: "i \<in> set (incomingClients s)" and settled: "keeps_address env (ClientEvent i ev) s"
  shows "tables_ok (srv_step env fresh (ClientEvent i ev) s)"
proof -
  let ?c = "srv_clients s ! i" and ?c' = "ic_step env ev (srv_clients s ! i)"
  let ?s = "s\<lparr>srv_clients := (srv_clients s)[i := ?c']\<rparr>"
  have lt: "i < length (srv_clients s)" using s i by (simp add: tables_ok_def)
  have updated: "tables_ok ?s" if "bound_client ?c' = bound_client ?c"
  proof -
    have c: "bound_client (srv_clients ?s ! j) = bound_client (srv_clients s ! j)"
        "bound_client (srv_clients s ! j) \<longrightarrow> ic_jid (srv_clients ?s ! j) = ic_jid (srv_clients s ! j)" if "j < length (srv_clients s)" for j
      using lt that \<open>bound_client ?c' = bound_client ?c\<close> settled by (auto simp: nth_list_update)
    have ltj: "j \<in> set (incomingClients s) \<Longrightarrow> j < length (srv_clients s)" for j using s by (simp add: tables_ok_def)
    have "account_streams b ?s = account_streams b s" for b
      using c ltj by (auto simp: account_streams_def)
    then show ?thesis using s c ltj by (auto simp: tables_ok_def connections_def)
  qed
  from ic_step_adds [of ?c env ev] show ?thesis unfolding adds_signal_def
  proof (elim disjE exE conjE)
    assume same: "ic_signals ?c' = ic_signals ?c"
    then show ?thesis using updated by (simp add: Let_def bound_client_def)
  next
    fix x assume x: "ic_signals ?c' = ic_signals ?c @ [x]" "\<forall>j. x = ClientConnected j \<longrightarrow> ic_jid ?c' = j \<and> j \<noteq> []"
    then have step: "srv_step env fresh (ClientEvent i ev) s = client_signal env fresh i x ?s" by (simp add: Let_def)
    show ?thesis
    proof (cases x)
      case (ClientConnected j)
      then show ?thesis unfolding step using onClientConnected_ok [OF i lt _ s] x settled by simp
    next
      case (ClientElement el)
      then have "tables_ok ?s" using x by (intro updated) (auto simp: bound_client_def)
      then show ?thesis unfolding step using tables_same handleStanza_same by (simp add: ClientElement)
    next
      case ClientDisconnected
      then have "tables_ok ?s" using x by (intro updated) (auto simp: bound_client_def)
      then show ?thesis unfolding step using onClientDisconnected_ok by (simp add: ClientDisconnected)
    qed
  qed
qed

lemma outgoing_signals_same: "same_tables s (fold (outgoing_signal i) xs s)"
proof (induction xs arbitrary: s)
  case (Cons x xs)
  have "same_tables s (outgoing_signal i x s)" by (cases x) (simp_all add: same_tables_def)
  then show ?case using Cons same_tables_trans by auto
qed simp

lemma incoming_signal_same: "tables_ok s \<Longrightarrow> same_tables s (incoming_signal env fresh i x s)"
  by (cases x) (simp_all add: handleStanza_same, simp_all add: same_tables_def onDialbackRequest_def Let_def split: option.split)

lemma incoming_signals_same: "tables_ok s \<Longrightarrow> same_tables s (fold (incoming_signal env fresh i) xs s)"
proof (induction xs arbitrary: s)
  case (Cons x xs)
  note x = incoming_signal_same [OF Cons.prems, of env fresh i x]
  show ?case using same_tables_trans [OF x Cons.IH [OF tables_same [OF Cons.prems x]]] by simp
qed simp

lemma close_clients_same:
  "set is \<subseteq> set (incomingClients s) \<Longrightarrow> \<forall>i \<in> set (incomingClients s). i < length (srv_clients s) \<Longrightarrow> same_tables s (fold srv_disconnectClient is s)"
proof (induction "is" arbitrary: s)
  case (Cons i "is")
  have s: "same_tables s (srv_disconnectClient i s)"
    unfolding srv_disconnectClient_def using Cons.prems by (intro client_update_same) auto
  moreover have "same_tables (srv_disconnectClient i s) (fold srv_disconnectClient is (srv_disconnectClient i s))"
    using Cons.prems s by (intro Cons.IH) (auto simp: same_tables_def)
  ultimately show ?case by (auto intro: same_tables_trans)
qed simp

lemma closeServer_same:
  assumes "tables_ok s" shows "same_tables s (closeServer s)"
proof -
  have "same_tables s (s\<lparr>serversForServers := False\<rparr>)" by (simp add: same_tables_def)
  moreover have "same_tables (s\<lparr>serversForServers := False\<rparr>) (fold srv_disconnectClient (incomingClients s) (s\<lparr>serversForServers := False\<rparr>))"
    using tables_okD(5) [OF assms] by (intro close_clients_same) simp_all
  ultimately have "same_tables s (fold srv_disconnectClient (incomingClients s) (s\<lparr>serversForServers := False\<rparr>))"
    by (rule same_tables_trans)
  then show ?thesis by (simp add: closeServer_def Let_def same_tables_def)
qed

lemma new_client_ok:
  assumes s: "tables_ok s" and "ic_signals c = []" shows "tables_ok (addIncomingClient c s)"
proof -
  let ?t = "addIncomingClient c s"
  have c: "srv_clients ?t ! j = (if j < length (srv_clients s) then srv_clients s ! j else c)" if "j \<le> length (srv_clients s)" for j
    using that by (simp add: addIncomingClient_def nth_append)
  have t: "incomingClients ?t = incomingClients s @ [length (srv_clients s)]" "length (srv_clients ?t) = length (srv_clients s) + 1"
    "connections b ?t = connections b s" "incomingClientsByJid ?t = incomingClientsByJid s" "srv_fault ?t = srv_fault s" for b
    by (simp_all add: addIncomingClient_def connections_def)
  have unbound: "\<not> bound_client c" using assms(2) by (simp add: bound_client_def)
  have old: "k \<in> set (incomingClients s) \<Longrightarrow> srv_clients ?t ! k = srv_clients s ! k" for k
    using tables_okD(5) [OF s, of k] c [of k] by auto
  have "account_streams b ?t = account_streams b s" for b
    using old unbound c [of "length (srv_clients s)"] by (auto simp: account_streams_def t)
  moreover have "k < length (srv_clients ?t) \<and> (bound_client (srv_clients ?t ! k) \<longrightarrow> ic_jid (srv_clients ?t ! k) \<noteq> [])"
    if "k \<in> set (incomingClients ?t)" for k
    using that tables_okD(5) [OF s, of k] old unbound c [of "length (srv_clients s)"] by (auto simp: t)
  moreover have "k \<in> set (incomingClients ?t) \<and> bound_client (srv_clients ?t ! k) \<and> ic_jid (srv_clients ?t ! k) = j"
    if "incomingClientsByJid ?t j = Some k" for j k
    using that tables_okD(4) [OF s] old by (simp add: t)
  ultimately show ?thesis using tables_okD(1,2,3) [OF s] by (simp add: tables_ok_def t)
qed

lemma srv_step_ok:
  assumes s: "tables_ok s" and "srv_may_occur ev s" "keeps_address env ev s"
  shows "tables_ok (srv_step env fresh ev s)"
proof (cases ev)
  case NewClient
  then show ?thesis using new_client_ok [OF s] by (simp add: new_IncomingClient_def)
next
  case (ClientEvent i cev)
  then show ?thesis using client_event_ok [OF s] assms(2,3) by (simp del: srv_step.simps)
next
  case (IncomingServerEvent i iev)
  let ?s = "s\<lparr>srv_incoming := (srv_incoming s)[i := is_step (se_nonza env) iev (srv_incoming s ! i)]\<rparr>"
  have "same_tables s ?s" by (simp add: same_tables_def)
  then show ?thesis using tables_same [OF tables_same [OF s] incoming_signals_same] tables_same [OF s]
    by (simp add: IncomingServerEvent Let_def)
next
  case (OutgoingServerEvent i oev)
  let ?s = "s\<lparr>srv_outgoing := (srv_outgoing s)[i := os_step (se_nonza env) oev (srv_outgoing s ! i)]\<rparr>"
  have "same_tables s ?s" by (simp add: same_tables_def)
  then show ?thesis using tables_same [OF tables_same [OF s] outgoing_signals_same]
    by (simp add: OutgoingServerEvent Let_def)
next
  case CloseServer
  then show ?thesis using tables_same [OF s closeServer_same [OF s]] by simp
qed (use s in \<open>auto intro!: tables_same [OF s] simp: same_tables_def listenForServers_def addExtension_def\<close>)

lemma settled_tables: "srv_settled env domain s \<Longrightarrow> tables_ok s"
proof (induction rule: srv_settled.induct)
  case settled_start
  show ?case by (simp add: tables_ok_def new_QXmppServer_def connections_def account_streams_def)
qed (rule srv_step_ok)

lemma fold_s2s_sendData:
  "distinct is \<Longrightarrow> set is \<subseteq> set (incomingClients s) \<Longrightarrow> \<forall>i \<in> set (incomingClients s). i < length (srv_clients s) \<Longrightarrow> j < length (srv_clients s) \<Longrightarrow>
   srv_clients (fold (client_sendData x) is s) ! j = (if j \<in> set is then ic_put x (srv_clients s ! j) else srv_clients s ! j)"
proof (induction "is" arbitrary: s)
  case (Cons i "is")
  let ?t = "client_sendData x i s"
  have t: "same_tables s ?t" using Cons.prems by (intro sendData_same) auto
  have "srv_clients (fold (client_sendData x) is ?t) ! j = (if j \<in> set is then ic_put x (srv_clients ?t ! j) else srv_clients ?t ! j)"
    using Cons.prems t by (intro Cons.IH) (auto simp: same_tables_def)
  moreover have "srv_clients ?t ! j = (if j = i then ic_put x (srv_clients s ! j) else srv_clients s ! j)"
    using Cons.prems by (auto simp: client_sendData_def nth_list_update)
  ultimately show ?case using Cons.prems(1) by auto
qed simp


section \<open>What reaches the clients\<close>

definition routed_before :: "IncomingClient \<Rightarrow> IncomingClient \<Rightarrow> bool" where
  "routed_before c c' \<longleftrightarrow> (\<forall>x. Routed x \<in> set (ic_sent c') \<longrightarrow> Routed x \<in> set (ic_sent c))"

lemma routed_before_refl [simp]: "routed_before c c"
  by (simp add: routed_before_def)

lemma routed_before_put: "(\<forall>x. o' \<noteq> Routed x) \<Longrightarrow> routed_before c t \<Longrightarrow> routed_before c (ic_put o' t)"
  by (auto simp: routed_before_def ic_put_def)

lemma routed_before_update [simp]:
  "routed_before c (t\<lparr>ic_jid := a\<rparr>) = routed_before c t" "routed_before c (t\<lparr>ic_resource := a\<rparr>) = routed_before c t"
  "routed_before c (t\<lparr>ic_saslServer := b\<rparr>) = routed_before c t" "routed_before c (t\<lparr>ic_saslVersion := v\<rparr>) = routed_before c t"
  "routed_before c (t\<lparr>sasl2AuthRequest := q\<rparr>) = routed_before c t" "routed_before c (t\<lparr>ic_pending := p\<rparr>) = routed_before c t"
  "routed_before c (t\<lparr>ic_encrypted := f\<rparr>) = routed_before c t" "routed_before c (t\<lparr>ic_open := f\<rparr>) = routed_before c t"
  "routed_before c (t\<lparr>ic_fault := f\<rparr>) = routed_before c t" "routed_before c (t\<lparr>ic_signals := g\<rparr>) = routed_before c t"
  by (simp_all add: routed_before_def)

lemma routed_before_simps [simp]:
  "routed_before c t \<Longrightarrow> routed_before c (ic_send i t)" "routed_before c t \<Longrightarrow> routed_before c (ic_emit x t)"
  "routed_before c t \<Longrightarrow> routed_before c (ic_disconnectFromHost t)" "routed_before c t \<Longrightarrow> routed_before c (sasl1_failure k t)"
  "routed_before c t \<Longrightarrow> routed_before c (sasl2_failure d t)" "routed_before c t \<Longrightarrow> routed_before c (version_failure d t)"
  "routed_before c t \<Longrightarrow> routed_before c (sendStreamFeatures env t)"
  by (simp_all add: ic_send_def ic_emit_def ic_disconnectFromHost_def sasl1_failure_def sasl2_failure_def version_failure_def
      sendStreamFeatures_def Let_def routed_before_put)

lemma routed_before_sasl2 [simp]: "routed_before c t \<Longrightarrow> routed_before c (onSasl2Authenticated env g t)"
  by (simp add: onSasl2Authenticated_def Let_def split: option.split)

lemma routed_before_credentials [simp]: "routed_before c t \<Longrightarrow> routed_before c (checkCredentials env d t)"
  by (simp add: checkCredentials_def Let_def split: option.split prod.split)

lemma routed_before_exchange [simp]:
  "routed_before c t \<Longrightarrow> (\<And>t. routed_before c t \<Longrightarrow> routed_before c (invalid t)) \<Longrightarrow> (\<And>t. routed_before c t \<Longrightarrow> routed_before c (refused t)) \<Longrightarrow>
   routed_before c (start_exchange env nonce m initial item invalid refused t)"
  "routed_before c t \<Longrightarrow> (\<And>t. routed_before c t \<Longrightarrow> routed_before c (none t)) \<Longrightarrow> (\<And>t. routed_before c t \<Longrightarrow> routed_before c (succeeded t)) \<Longrightarrow>
   (\<And>t. routed_before c t \<Longrightarrow> routed_before c (refused t)) \<Longrightarrow>
   routed_before c (continue_exchange env response none succeeded refused t)"
  by (simp_all add: start_exchange_def continue_exchange_def Let_def split: option.split prod.split server_response.split)

lemma ic_step_routed: "routed_before c (ic_step env ev c)"
proof (cases ev)
  case (ElementReceived el nonce g)
  have "routed_before c (handle_sasl2 env el nonce g c)" "routed_before c (handle_sasl env el nonce c)" "routed_before c (handle_client_element env el g c)"
    by (simp_all add: handle_sasl2_def handle_sasl_def handle_client_element_def process_stanza_def Let_def split: option.split)
  then show ?thesis by (simp add: ElementReceived ic_handleStanza_def)
next
  case (ReplyFinished k g)
  then show ?thesis
    by (simp add: reply_finished_def onPasswordReply_def onDigestReply_def Let_def
        split: pending_reply.split option.split reply_error.split prod.split)
qed (simp_all add: ic_handleStream_def Let_def routed_before_put)

text \<open>
  An element is genuine if its sender is a user who authenticated, or of a domain that was verified on a stream; otherwise it is an error,
  which the server sends in the name of whoever was not there.
\<close>

definition genuine :: "server_env \<Rightarrow> qstring \<Rightarrow> QXmppServer \<Rightarrow> dom \<Rightarrow> bool" where
  "genuine env domain s x \<longleftrightarrow> tagName x = ''iq'' \<and> attr ''type'' x = ''error'' \<or> jid_ok env domain (attr ''from'' x) \<or>
     (\<exists>c \<in> set (srv_incoming s). jidToDomain (attr ''from'' x) \<in> set (is_authenticated c))"

definition relay_ok :: "QXmppIncomingServer \<Rightarrow> bool" where
  "relay_ok c \<longleftrightarrow> (\<forall>x. IsElementReceived x \<in> set (is_signals c) \<longrightarrow> isElement x \<and> jidToDomain (attr ''from'' x) \<in> set (is_authenticated c))"

definition srv_genuine :: "server_env \<Rightarrow> qstring \<Rightarrow> QXmppServer \<Rightarrow> bool" where
  "srv_genuine env domain s \<longleftrightarrow> srv_domain s = domain \<and> (\<forall>i \<in> set (incomingClients s). i < length (srv_clients s)) \<and>
     (\<forall>i \<in> set (incomingServers s). i < length (srv_incoming s)) \<and> (\<forall>c \<in> set (srv_incoming s). relay_ok c) \<and>
     (\<forall>c \<in> set (srv_clients s). lockstep_ok env domain c \<and> elements_ok env domain c \<and>
        (\<forall>x. Routed x \<in> set (ic_sent c) \<longrightarrow> genuine env domain s x))"

definition client_delivers :: "(dom \<Rightarrow> bool) \<Rightarrow> IncomingClient \<Rightarrow> IncomingClient \<Rightarrow> bool" where
  "client_delivers P c d \<longleftrightarrow> ic_domain d = ic_domain c \<and> ic_jid d = ic_jid c \<and> ic_saslServer d = ic_saslServer c \<and> ic_pending d = ic_pending c \<and>
     (ic_open d \<longrightarrow> ic_open c) \<and> ic_signals d = ic_signals c \<and> (\<forall>x. Routed x \<in> set (ic_sent d) \<longrightarrow> Routed x \<in> set (ic_sent c) \<or> P x)"

definition same_relay :: "QXmppIncomingServer \<Rightarrow> QXmppIncomingServer \<Rightarrow> bool" where
  "same_relay c d \<longleftrightarrow> is_authenticated d = is_authenticated c \<and> is_signals d = is_signals c"

definition delivers :: "(dom \<Rightarrow> bool) \<Rightarrow> QXmppServer \<Rightarrow> QXmppServer \<Rightarrow> bool" where
  "delivers P s t \<longleftrightarrow> srv_domain t = srv_domain s \<and> set (incomingClients t) \<subseteq> set (incomingClients s) \<and>
     set (incomingServers t) \<subseteq> set (incomingServers s) \<and>
     list_all2 same_relay (srv_incoming s) (srv_incoming t) \<and>
     list_all2 (client_delivers P) (srv_clients s) (srv_clients t)"

lemma client_delivers_refl [simp]: "client_delivers P c c"
  by (simp add: client_delivers_def)

lemma same_relay_refl [simp]: "same_relay c c"
  by (simp add: same_relay_def)

lemma delivers_refl [simp]: "delivers P s s"
  by (auto simp: delivers_def intro: list_all2_refl)

lemma delivers_trans [trans]:
  assumes "delivers P s t" and "delivers P t u" shows "delivers P s u"
proof -
  have "client_delivers P a b \<Longrightarrow> client_delivers P b c \<Longrightarrow> client_delivers P a c" for a b c
    unfolding client_delivers_def by metis
  then have "list_all2 (client_delivers P) (srv_clients s) (srv_clients u)"
    using assms list_all2_trans [of "client_delivers P" "client_delivers P" "client_delivers P"] unfolding delivers_def by blast
  moreover have "same_relay a b \<Longrightarrow> same_relay b c \<Longrightarrow> same_relay a c" for a b c
    by (simp add: same_relay_def)
  then have "list_all2 same_relay (srv_incoming s) (srv_incoming u)"
    using assms list_all2_trans [of same_relay same_relay same_relay] unfolding delivers_def by blast
  ultimately show ?thesis using assms by (auto simp: delivers_def)
qed

lemma delivers_client:
  assumes "client_delivers P (srv_clients s ! i) c"
  shows "delivers P s (s\<lparr>srv_clients := (srv_clients s)[i := c]\<rparr>)"
proof -
  have "list_all2 (client_delivers P) (srv_clients s) ((srv_clients s)[i := c])"
    using assms by (cases "i < length (srv_clients s)") (auto simp: list_all2_conv_all_nth nth_list_update)
  then show ?thesis by (auto simp: delivers_def intro: list_all2_refl)
qed

lemma sendData_delivers: "(\<forall>y. x = Routed y \<longrightarrow> P y) \<Longrightarrow> delivers P s (client_sendData x i s)"
  by (cases "i \<in> set (incomingClients s)")
    (auto simp: client_sendData_def client_delivers_def ic_put_def intro!: delivers_client,
     auto simp: delivers_def intro!: list_all2_refl)

lemma fold_delivers: "(\<And>i t. delivers P t (f i t)) \<Longrightarrow> delivers P s (fold f is s)"
  by (induction "is" arbitrary: s) (auto intro: delivers_trans)

lemma routeData_delivers:
  assumes "P (dat ns_client)" shows "delivers P s (snd (routeData fresh to dat s))"
proof -
  have "delivers P s (fold (client_sendData (Routed (dat ns_client))) is s)" for "is"
    by (intro fold_delivers sendData_delivers) (use assms in simp)
  moreover have "delivers P s (s\<lparr>srv_outgoing := a\<rparr>)" "delivers P s (s\<lparr>srv_outgoing := a, outgoingServers := b\<rparr>)" for a b
    by (auto simp: delivers_def intro: list_all2_refl)
  ultimately show ?thesis by (simp add: routeData_def Let_def split: option.split)
qed

lemma error_reply_dom:
  "tagName (hd (item_nodes ns (QXmppIq_toXml e (error_reply q sender k)))) = ''iq'' \<and>
   attr ''type'' (hd (item_nodes ns (QXmppIq_toXml e (error_reply q sender k)))) = ''error''"
  by (simp add: QXmppIq_toXml_def ElementInherit_def build_def attr_def error_reply_def new_QXmppIq_def OptionalAttribute_def
      IqType_Values_def enum_toString_def)

lemma handleStanza_delivers:
  assumes "isElement el" and "P (helperToXmlAddDomElement [ns_client, ns_server] el ns_client)"
    and "\<And>x. tagName x = ''iq'' \<and> attr ''type'' x = ''error'' \<Longrightarrow> P x"
  shows "delivers P s (srv_handleStanza e fresh el s)"
proof -
  have reply: "delivers P t (snd (srv_sendPacket e fresh (error_reply q sender k) t))" for q sender k t
    unfolding srv_sendPacket_def by (intro routeData_delivers assms(3) error_reply_dom)
  obtain sent t where t: "sendElement fresh el s = (sent, t)" by (cases "sendElement fresh el s")
  moreover have "delivers P s (snd (sendElement fresh el s))"
    unfolding sendElement_def by (rule routeData_delivers) (rule assms(2))
  ultimately have "delivers P s t" by simp
  then show ?thesis using reply delivers_trans [OF _ reply] by (simp add: srv_handleStanza_def Let_def t)
qed

lemma update_delivers [simp]:
  "delivers P s (t\<lparr>incomingClientsByJid := a\<rparr>) = delivers P s t" "delivers P s (t\<lparr>incomingClientsByBareJid := b\<rparr>) = delivers P s t"
  "delivers P s (t\<lparr>srv_fault := f\<rparr>) = delivers P s t" "delivers P s (t\<lparr>serversForServers := f\<rparr>) = delivers P s t"
  "delivers P s (t\<lparr>srv_outgoing := q\<rparr>) = delivers P s t" "delivers P s (t\<lparr>outgoingServers := n\<rparr>) = delivers P s t"
  "delivers P s (t\<lparr>srv_extensions := x\<rparr>) = delivers P s t"
  by (simp_all add: delivers_def)

lemma disconnect_delivers: "delivers P s (srv_disconnectClient i s)"
  unfolding srv_disconnectClient_def
  by (rule delivers_client) (auto simp: client_delivers_def ic_disconnectFromHost_def ic_put_def)

lemma onClientConnected_delivers: "delivers P s (onClientConnected i s)"
proof -
  have "delivers P s (srv_disconnectClient j (client_sendData ConflictError j s))" for j
    by (rule delivers_trans [OF sendData_delivers disconnect_delivers]) simp
  then show ?thesis by (simp add: onClientConnected_def Let_def split: option.split)
qed

lemma onClientDisconnected_delivers: "delivers P s (onClientDisconnected i s)"
proof -
  have "delivers P s (s\<lparr>incomingClients := removeAll i (incomingClients s)\<rparr>)" by (auto simp: delivers_def intro: list_all2_refl)
  then show ?thesis by (simp add: onClientDisconnected_def Let_def split: option.split)
qed

lemma incoming_delivers: "(\<And>c. same_relay c (f c)) \<Longrightarrow> delivers P s (s\<lparr>srv_incoming := (srv_incoming s)[i := f (srv_incoming s ! i)]\<rparr>)"
  by (cases "i < length (srv_incoming s)") (auto simp: delivers_def list_all2_conv_all_nth nth_list_update)

lemma same_relay_trans: "same_relay a b \<Longrightarrow> same_relay b c \<Longrightarrow> same_relay a c"
  by (simp add: same_relay_def)

lemma same_relay_all_trans: "list_all2 same_relay as bs \<Longrightarrow> list_all2 same_relay bs cs \<Longrightarrow> list_all2 same_relay as cs"
  using list_all2_trans [of same_relay same_relay same_relay] same_relay_trans by blast

lemma close_incoming_relay:
  "list_all2 same_relay xs (fold (\<lambda>i xs. xs[i := is_disconnectFromHost (xs ! i)]) is xs)"
proof (induction "is" arbitrary: xs)
  case Nil
  show ?case by (simp add: list_all2_refl)
next
  case (Cons i "is")
  have "list_all2 same_relay xs (xs[i := is_disconnectFromHost (xs ! i)])"
    by (cases "i < length xs") (auto simp: list_all2_conv_all_nth nth_list_update same_relay_def)
  then have "list_all2 same_relay xs (fold (\<lambda>i xs. xs[i := is_disconnectFromHost (xs ! i)]) is (xs[i := is_disconnectFromHost (xs ! i)]))"
    by (rule same_relay_all_trans [OF _ Cons.IH])
  then show ?case by simp
qed

lemma closeServer_delivers: "delivers P s (closeServer s)"
proof -
  define s1 where "s1 = fold srv_disconnectClient (incomingClients s) (s\<lparr>serversForServers := False\<rparr>)"
  have "delivers P s (s\<lparr>serversForServers := False\<rparr>)" by simp
  also have "delivers P (s\<lparr>serversForServers := False\<rparr>) s1"
    unfolding s1_def by (intro fold_delivers disconnect_delivers)
  also have "delivers P s1 (s1\<lparr>srv_incoming := fold (\<lambda>i xs. xs[i := is_disconnectFromHost (xs ! i)]) (incomingServers s1) (srv_incoming s1)\<rparr>)"
    by (simp add: delivers_def close_incoming_relay list_all2_refl)
  finally show ?thesis unfolding closeServer_def Let_def s1_def [symmetric] by simp
qed

lemma same_relay_authenticated:
  assumes "list_all2 same_relay cs ds"
  shows "(\<exists>c \<in> set ds. d \<in> set (is_authenticated c)) \<longleftrightarrow> (\<exists>c \<in> set cs. d \<in> set (is_authenticated c))"
  using assms by (induction rule: list_all2_induct) (auto simp: same_relay_def)

text \<open>Deliveries of genuine elements keep the server genuine.\<close>

lemma genuine_client:
  assumes "lockstep_ok env domain c" "elements_ok env domain c" "\<forall>x. Routed x \<in> set (ic_sent c) \<longrightarrow> P x" and "client_delivers P c d"
  shows "lockstep_ok env domain d" and "elements_ok env domain d" and "\<forall>x. Routed x \<in> set (ic_sent d) \<longrightarrow> P x"
proof -
  show "lockstep_ok env domain d" by (rule lockstep_same [OF assms(1)]) (use assms(4) in \<open>auto simp: client_delivers_def\<close>)
  show "elements_ok env domain d" using assms(2,4) by (simp add: elements_ok_def client_delivers_def)
  show "\<forall>x. Routed x \<in> set (ic_sent d) \<longrightarrow> P x" using assms(3,4) by (auto simp: client_delivers_def)
qed

lemma genuine_delivers:
  assumes "srv_genuine env domain s" and "delivers (genuine env domain s) s t"
  shows "srv_genuine env domain t"
proof -
  have d: "srv_domain t = srv_domain s" "set (incomingClients t) \<subseteq> set (incomingClients s)" "set (incomingServers t) \<subseteq> set (incomingServers s)"
    and relays: "list_all2 same_relay (srv_incoming s) (srv_incoming t)"
    and clients: "list_all2 (client_delivers (genuine env domain s)) (srv_clients s) (srv_clients t)"
    using assms(2) by (auto simp: delivers_def)
  have auth: "genuine env domain t x = genuine env domain s x" for x
    using same_relay_authenticated [OF relays] by (simp add: genuine_def)
  have len: "length (srv_clients t) = length (srv_clients s)" "length (srv_incoming t) = length (srv_incoming s)"
    using relays clients by (auto dest: list_all2_lengthD)
  have s: "srv_domain s = domain" "\<forall>i \<in> set (incomingClients s). i < length (srv_clients s)"
      "\<forall>i \<in> set (incomingServers s). i < length (srv_incoming s)" "\<forall>c \<in> set (srv_incoming s). relay_ok c"
      "\<forall>c \<in> set (srv_clients s). lockstep_ok env domain c \<and> elements_ok env domain c \<and> (\<forall>x. Routed x \<in> set (ic_sent c) \<longrightarrow> genuine env domain s x)"
    using assms(1) by (simp_all add: srv_genuine_def)
  have "relay_ok c'" if c': "c' \<in> set (srv_incoming t)" for c'
  proof -
    obtain i where "i < length (srv_incoming t)" "srv_incoming t ! i = c'" using c' unfolding in_set_conv_nth by blast
    then have "same_relay (srv_incoming s ! i) c'" "srv_incoming s ! i \<in> set (srv_incoming s)"
      using list_all2_nthD2 [OF relays] len by auto
    then show ?thesis using s(4) by (auto simp: relay_ok_def same_relay_def)
  qed
  moreover have "lockstep_ok env domain c' \<and> elements_ok env domain c' \<and> (\<forall>x. Routed x \<in> set (ic_sent c') \<longrightarrow> genuine env domain t x)"
    if c': "c' \<in> set (srv_clients t)" for c'
  proof -
    obtain i where i: "i < length (srv_clients t)" "srv_clients t ! i = c'" using c' unfolding in_set_conv_nth by blast
    have "client_delivers (genuine env domain s) (srv_clients s ! i) c'" "srv_clients s ! i \<in> set (srv_clients s)"
      using list_all2_nthD2 [OF clients] i len by auto
    then show ?thesis using s(5) genuine_client [of env domain "srv_clients s ! i" "genuine env domain s" c'] auth by blast
  qed
  ultimately show ?thesis using s(1-3) d len unfolding srv_genuine_def by (intro conjI ballI) auto
qed

text \<open>Clients in lockstep; the parser delivers elements.\<close>

fun srv_in_turn :: "srv_event \<Rightarrow> QXmppServer \<Rightarrow> bool" where
  "srv_in_turn (ClientEvent i ev) s = (i \<in> set (incomingClients s) \<and> in_turn ev (srv_clients s ! i))"
| "srv_in_turn (IncomingServerEvent i ev) s = (i \<in> set (incomingServers s) \<and> (case ev of IsStanzaReceived el \<Rightarrow> isElement el | _ \<Rightarrow> True))"
| "srv_in_turn ev s = srv_may_occur ev s"

inductive srv_lockstep :: "server_env \<Rightarrow> qstring \<Rightarrow> QXmppServer \<Rightarrow> bool" for env domain where
  srv_lockstep_start: "srv_lockstep env domain (new_QXmppServer domain)"
| srv_lockstep_step: "srv_lockstep env domain s \<Longrightarrow> srv_in_turn ev s \<Longrightarrow> srv_lockstep env domain (srv_step env fresh ev s)"

lemma slot_authenticated: "set (is_authenticated s) \<subseteq> set (is_authenticated (slotDialbackResponseReceived k d s))"
  by (auto simp: slotDialbackResponseReceived_def Let_def)

lemma slot_relay: "relay_ok s \<Longrightarrow> relay_ok (slotDialbackResponseReceived k d s)"
  by (auto simp: slotDialbackResponseReceived_def Let_def relay_ok_def)

lemma slot_fold:
  "set (is_authenticated s) \<subseteq> set (is_authenticated (fold (\<lambda>x. case x of DialbackResponseReceived d \<Rightarrow> slotDialbackResponseReceived k d | _ \<Rightarrow> (\<lambda>s. s)) xs s)) \<and>
   (relay_ok s \<longrightarrow> relay_ok (fold (\<lambda>x. case x of DialbackResponseReceived d \<Rightarrow> slotDialbackResponseReceived k d | _ \<Rightarrow> (\<lambda>s. s)) xs s))"
proof (induction xs arbitrary: s)
  case (Cons x xs)
  show ?case
  proof (cases x)
    case (DialbackResponseReceived d)
    then show ?thesis using Cons [of "slotDialbackResponseReceived k d s"] slot_authenticated [of s k d] slot_relay [of s k d] by auto
  qed (use Cons in simp_all)
qed simp

lemma is_step_relay:
  assumes "relay_ok s" and "case ev of IsStanzaReceived el \<Rightarrow> isElement el | _ \<Rightarrow> True"
  shows "relay_ok (is_step e ev s)" and "set (is_authenticated s) \<subseteq> set (is_authenticated (is_step e ev s))"
proof (atomize (full), cases ev)
  case (VerifierEvent k oev)
  let ?t = "s\<lparr>verifiers := (verifiers s)[k := os_step e oev (verifiers s ! k)]\<rparr>"
  have "relay_ok ?t" using assms(1) by (simp add: relay_ok_def)
  then show "relay_ok (is_step e ev s) \<and> set (is_authenticated s) \<subseteq> set (is_authenticated (is_step e ev s))"
    using slot_fold [of ?t k] assms(1) by (simp add: VerifierEvent verifier_step_def Let_def)
next
  case (IsStanzaReceived el)
  then show "relay_ok (is_step e ev s) \<and> set (is_authenticated s) \<subseteq> set (is_authenticated (is_step e ev s))"
    using assms by (auto simp: is_handleStanza_def Let_def relay_ok_def)
qed (use assms in \<open>auto simp: relay_ok_def is_handleStream_def Let_def\<close>)

text \<open>What the server does when a stream reports something.\<close>

lemma client_signal_delivers:
  assumes "elements_ok env domain c" and "x \<in> set (ic_signals c)"
  shows "delivers (genuine env domain s) t (client_signal env fresh i x t)"
proof (cases x)
  case (ClientElement el)
  then have "isElement el" "jid_ok env domain (attr ''from'' el)" using assms by (auto simp: elements_ok_def)
  then show ?thesis unfolding ClientElement client_signal.simps
    by (intro handleStanza_delivers) (simp_all add: genuine_def)
qed (simp_all add: onClientConnected_delivers onClientDisconnected_delivers)

lemma incoming_signal_delivers:
  assumes "relay_ok c" and "x \<in> set (is_signals c)" and "c' \<in> set (srv_incoming s)" "is_authenticated c' = is_authenticated c"
  shows "delivers (genuine env domain s) t (incoming_signal env fresh i x t)"
proof (cases x)
  case (IsElementReceived el)
  then have "isElement el" "jidToDomain (attr ''from'' el) \<in> set (is_authenticated c')" using assms by (auto simp: relay_ok_def)
  then show ?thesis using assms(3) unfolding IsElementReceived incoming_signal.simps
    by (intro handleStanza_delivers) (auto simp: genuine_def)
next
  case (DialbackRequestReceived d)
  show ?thesis unfolding DialbackRequestReceived incoming_signal.simps onDialbackRequest_def Let_def
    by (auto split: option.split intro!: incoming_delivers simp: same_relay_def)
next
  case IsDisconnected
  show ?thesis unfolding IsDisconnected incoming_signal.simps
    by (auto simp: delivers_def intro!: list_all2_refl)
qed simp

lemma fold_delivers_set: "(\<And>x t. x \<in> set xs \<Longrightarrow> delivers P t (f x t)) \<Longrightarrow> delivers P s (fold f xs s)"
  by (induction xs arbitrary: s) (auto intro: delivers_trans)

lemma genuine_more:
  assumes "genuine env domain s x" and "\<And>d. \<exists>c \<in> set (srv_incoming s). d \<in> set (is_authenticated c) \<Longrightarrow> \<exists>c \<in> set (srv_incoming t). d \<in> set (is_authenticated c)"
  shows "genuine env domain t x"
  using assms by (auto simp: genuine_def)

lemma client_event_genuine:
  assumes s: "srv_genuine env domain s" and i: "i \<in> set (incomingClients s)" and turn: "in_turn ev (srv_clients s ! i)"
  shows "srv_genuine env domain (srv_step env fresh (ClientEvent i ev) s)"
proof -
  let ?c = "srv_clients s ! i" and ?c' = "ic_step env ev (srv_clients s ! i)"
  let ?s = "s\<lparr>srv_clients := (srv_clients s)[i := ?c']\<rparr>"
  have gen: "genuine env domain ?s x = genuine env domain s x" for x by (simp add: genuine_def)
  have "?c \<in> set (srv_clients s)" using s i by (simp add: srv_genuine_def)
  then have c: "lockstep_ok env domain ?c" "elements_ok env domain ?c" "\<forall>x. Routed x \<in> set (ic_sent ?c) \<longrightarrow> genuine env domain s x"
    using s by (auto simp: srv_genuine_def)
  have elements: "elements_ok env domain ?c'" by (rule elements_ok_step [OF c(1,2) turn])
  have "lockstep_ok env domain ?c' \<and> elements_ok env domain ?c' \<and> (\<forall>x. Routed x \<in> set (ic_sent ?c') \<longrightarrow> genuine env domain s x)"
    using ic_step_ok [OF c(1) turn] elements c(3) ic_step_routed [of ?c env ev] by (auto simp: routed_before_def)
  then have "srv_genuine env domain ?s"
    using s gen by (auto simp: srv_genuine_def dest!: set_update_subset_insert [THEN subsetD])
  then have "srv_genuine env domain (fold (client_signal env fresh i) (drop (length (ic_signals ?c)) (ic_signals ?c')) ?s)"
    by (rule genuine_delivers)
      (intro fold_delivers_set client_signal_delivers [OF elements]; meson in_set_dropD)
  then show ?thesis by (simp add: Let_def)
qed

lemma incoming_event_genuine:
  assumes s: "srv_genuine env domain s" and i: "i \<in> set (incomingServers s)" and el: "case ev of IsStanzaReceived el \<Rightarrow> isElement el | _ \<Rightarrow> True"
  shows "srv_genuine env domain (srv_step env fresh (IncomingServerEvent i ev) s)"
proof -
  let ?c = "srv_incoming s ! i" and ?c' = "is_step (se_nonza env) ev (srv_incoming s ! i)"
  let ?s = "s\<lparr>srv_incoming := (srv_incoming s)[i := ?c']\<rparr>"
  have lt: "i < length (srv_incoming s)" using s i by (simp add: srv_genuine_def)
  then have "relay_ok ?c" using s by (simp add: srv_genuine_def)
  note c' = is_step_relay [OF this el, of "se_nonza env"]
  have more: "\<exists>c \<in> set (srv_incoming ?s). d \<in> set (is_authenticated c)" if d: "\<exists>c \<in> set (srv_incoming s). d \<in> set (is_authenticated c)" for d
  proof -
    obtain j where j: "j < length (srv_incoming s)" "d \<in> set (is_authenticated (srv_incoming s ! j))"
      using d by (metis in_set_conv_nth)
    then have "d \<in> set (is_authenticated (srv_incoming ?s ! j))" using c'(2) lt by (auto simp: nth_list_update)
    then show ?thesis using j(1) by (intro bexI [of _ "srv_incoming ?s ! j"]) simp_all
  qed
  have gen: "genuine env domain s x \<Longrightarrow> genuine env domain ?s x" for x
    by (rule genuine_more [OF _ more])
  have "set (srv_incoming ?s) \<subseteq> insert ?c' (set (srv_incoming s))" by (simp add: set_update_subset_insert)
  then have "\<forall>c \<in> set (srv_incoming ?s). relay_ok c" using s c'(1) unfolding srv_genuine_def by blast
  then have "srv_genuine env domain ?s"
    using s gen unfolding srv_genuine_def by simp
  moreover have "?c' \<in> set (srv_incoming ?s)" using lt by (simp add: set_update_memI)
  then have "delivers (genuine env domain ?s) t (incoming_signal env fresh i x t)"
    if "x \<in> set (drop (length (is_signals ?c)) (is_signals ?c'))" for x t
    using incoming_signal_delivers [OF c'(1) in_set_dropD [OF that] _ refl] by blast
  then have "delivers (genuine env domain ?s) ?s (fold (incoming_signal env fresh i) (drop (length (is_signals ?c)) (is_signals ?c')) ?s)"
    by (rule fold_delivers_set)
  ultimately have "srv_genuine env domain (fold (incoming_signal env fresh i) (drop (length (is_signals ?c)) (is_signals ?c')) ?s)"
    by (rule genuine_delivers)
  then show ?thesis by (simp add: Let_def)
qed

lemma srv_step_genuine:
  assumes s: "srv_genuine env domain s" and turn: "srv_in_turn ev s"
  shows "srv_genuine env domain (srv_step env fresh ev s)"
proof (cases ev)
  case NewClient
  have "lockstep_ok env domain (new_IncomingClient domain)" "elements_ok env domain (new_IncomingClient domain)"
    by (simp_all add: lockstep_ok_def elements_ok_def new_IncomingClient_def jid_ok_def jidToBareJid_def)
  then show ?thesis using s
    by (auto simp: NewClient srv_genuine_def addIncomingClient_def genuine_def less_Suc_eq) (auto simp: new_IncomingClient_def)
next
  case (ClientEvent i cev)
  then show ?thesis using client_event_genuine [OF s] turn by (simp del: srv_step.simps)
next
  case NewIncomingServer
  have "relay_ok (new_IncomingServer domain)" by (simp add: relay_ok_def new_IncomingServer_def)
  then show ?thesis using s by (auto simp: NewIncomingServer srv_genuine_def genuine_def less_Suc_eq)
next
  case (IncomingServerEvent i iev)
  then show ?thesis using incoming_event_genuine [OF s] turn by (simp del: srv_step.simps)
next
  case (OutgoingServerEvent i oev)
  have "delivers P t (outgoing_signal i x t)" for P x t by (cases x) simp_all
  then have "delivers P t (fold (outgoing_signal i) xs t)" for P xs t by (intro fold_delivers_set)
  moreover have "srv_genuine env domain (s\<lparr>srv_outgoing := q\<rparr>)" for q
    by (rule genuine_delivers [OF s]) simp
  ultimately show ?thesis unfolding OutgoingServerEvent srv_step.simps Let_def by (rule genuine_delivers [rotated])
next
  case CloseServer
  then show ?thesis using genuine_delivers [OF s closeServer_delivers] by simp
next
  case ListenForServers
  show ?thesis by (rule genuine_delivers [OF s]) (simp add: ListenForServers listenForServers_def)
next
  case (AddExtension x)
  show ?thesis by (rule genuine_delivers [OF s]) (simp add: AddExtension addExtension_def)
qed


section \<open>Server runs\<close>

definition srv_run :: "server_env \<Rightarrow> srv_event list \<Rightarrow> QXmppServer \<Rightarrow> QXmppServer" where
  "srv_run env evs s = fold (srv_step env ''key'') evs s"

text \<open>Runs whose events meet a condition in the state they find.\<close>

fun all_ok :: "(srv_event \<Rightarrow> QXmppServer \<Rightarrow> bool) \<Rightarrow> server_env \<Rightarrow> srv_event list \<Rightarrow> QXmppServer \<Rightarrow> bool" where
  "all_ok ok env [] s = True"
| "all_ok ok env (ev # evs) s = (ok ev s \<and> all_ok ok env evs (srv_step env ''key'' ev s))"

lemma run_reachable:
  assumes step: "\<And>s ev. R s \<Longrightarrow> ok ev s \<Longrightarrow> R (srv_step env ''key'' ev s)"
  shows "R s \<Longrightarrow> all_ok ok env evs s \<Longrightarrow> R (srv_run env evs s)"
  by (induction evs arbitrary: s) (simp_all add: srv_run_def step)

lemma bound_client_code [code]: "bound_client c \<longleftrightarrow> list_ex (\<lambda>x. case x of ClientConnected _ \<Rightarrow> True | _ \<Rightarrow> False) (ic_signals c)"
proof -
  have "(case x of ClientConnected _ \<Rightarrow> True | _ \<Rightarrow> False) \<longleftrightarrow> (\<exists>j. x = ClientConnected j)" for x by (cases x) simp_all
  then show ?thesis by (auto simp: bound_client_def list_ex_iff)
qed

definition log_in :: "nat \<Rightarrow> qstring \<Rightarrow> qstring \<Rightarrow> srv_event list" where
  "log_in i user pw = [NewClient, ClientEvent i (ElementReceived (plain_auth user pw) [] ''g''), ClientEvent i (ReplyFinished 0 ''g''),
     ClientEvent i (ElementReceived (bind_element ''r'') [] ''g'')]"

definition example_server_run :: "srv_event list" where
  "example_server_run = log_in 0 ''alice'' ''a'' @ log_in 1 ''bob'' ''b''"

definition example_server :: QXmppServer where
  "example_server = srv_run example_server_env example_server_run (new_QXmppServer ''d'')"

lemma example_server_settled: "srv_settled example_server_env ''d'' example_server"
  unfolding example_server_def
proof (rule run_reachable [where R = "srv_settled example_server_env ''d''" and ok = "\<lambda>ev s. srv_may_occur ev s \<and> keeps_address example_server_env ev s", OF _ settled_start])
  show "all_ok (\<lambda>ev s. srv_may_occur ev s \<and> keeps_address example_server_env ev s) example_server_env example_server_run (new_QXmppServer ''d'')"
    by code_simp
qed (auto intro: settled_step)


definition example_conversation :: "srv_event list" where
  "example_conversation = example_server_run @ [ClientEvent 0 (ElementReceived example_message [] ''g'')]"

lemma example_conversation_lockstep:
  "srv_lockstep example_server_env ''d'' (srv_run example_server_env example_conversation (new_QXmppServer ''d''))"
proof (rule run_reachable [where R = "srv_lockstep example_server_env ''d''" and ok = srv_in_turn, OF _ srv_lockstep_start])
  show "all_ok srv_in_turn example_server_env example_conversation (new_QXmppServer ''d'')"
    by code_simp
qed (rule srv_lockstep_step)


text \<open>
  A client that binds a second time keeps the first address in the tables.  When it is gone, a client that gets this address makes the server use the
  deleted stream.
\<close>

lemma second_bind_leaves_stream:
  "srv_fault (srv_run example_server_env
     (log_in 0 ''alice'' ''a'' @ [ClientEvent 0 (ElementReceived (bind_element ''q'') [] ''g''), ClientEvent 0 SocketDisconnected] @ log_in 1 ''alice'' ''a'')
     (new_QXmppServer ''d''))"
  by code_simp

text \<open>An answer that is an error itself gets an error when its receiver is not there, so that two servers may answer each other for ever.\<close>

definition lost_error :: dom where
  "lost_error = Elem ''iq'' ns_client [(''type'', ''error''), (''id'', ''1''), (''from'', ''alice@d/r''), (''to'', ''nobody@d'')] []"

lemma error_answered_by_error:
  "ic_sent (srv_clients (srv_handleStanza example_nonza_env [] lost_error example_server) ! 0) = ic_sent (srv_clients example_server ! 0) @
    [Routed (Elem ''iq'' ns_client [(''id'', ''1''), (''to'', ''alice@d/r''), (''from'', ''nobody@d''), (''type'', ''error'')]
       [Elem ''error'' ns_client [(''type'', ''cancel'')] [Elem ''service-unavailable'' ns_stanza [] []]])]"
  by code_simp

text \<open>A stanza for one resource reaches the other streams of the account as well.\<close>

lemma resource_ignored:
  "routeData fresh (bare @ ''/'' @ res) dat s = routeData fresh (bare @ ''/'' @ res') dat s"
  if "CHR ''/'' \<notin> set bare" "bare \<noteq> []" "bare @ ''/'' @ res \<noteq> srv_domain s" "bare @ ''/'' @ res' \<noteq> srv_domain s"
  using that by (simp add: routeData_def jidToDomain_def Let_def)

section \<open>Answers\<close>

text \<open>A request to the server itself that no extension handles is answered with an error to its sender; answers are not answered.\<close>

lemma unhandled_request_refused:
  assumes "\<not> (\<exists>x \<in> set (srv_extensions s). ext_handleStanza x el)" and "attr ''to'' el = srv_domain s" "tagName el = ''iq''"
  shows "srv_handleStanza e fresh el s =
    (if iq_type (QXmppIq_parse e el) \<in> {IqGet, IqSet}
     then snd (srv_sendPacket e fresh (error_reply (QXmppIq_parse e el) (srv_domain s) FeatureNotImplemented) s) else s)"
  using assms by (cases "iq_type (QXmppIq_parse e el)") (auto simp: srv_handleStanza_def Let_def)

end
