(* ===== verification/Blocking.thy ===== *)
theory Blocking
  imports IqHandling "HOL-Library.List_Lexorder" "HOL-Library.Char_ord"
begin

text \<open>
  The blocking of contacts, \<^verbatim>\<open>src/client/QXmppBlockingManager.cpp\<close>: the fetching of the
  blocklist, of which one request serves all callers, the pushes of the server, and the question
  whether an address is blocked.

  A promise is the number of its call; the results of the promises, the requests sent and the
  signals emitted are logs.  The continuations of a promise run as later events.
\<close>

definition ns_blocking :: qstring where "ns_blocking = ''urn:xmpp:blocking''"

section \<open>IQs\<close>

datatype BlockingAction = ListAction | BlockAction | UnblockAction

definition BlockingAction_Values :: "(BlockingAction \<times> qstring) list" where
  "BlockingAction_Values = [(ListAction, ''blocklist''), (BlockAction, ''block''), (UnblockAction, ''unblock'')]"

definition Blocking_XmlTag :: "BlockingAction \<Rightarrow> qstring \<times> qstring" where
  "Blocking_XmlTag action = (enum_toString BlockingAction_Values action, ns_blocking)"

definition Blocking_parse :: "BlockingAction \<Rightarrow> dom option \<Rightarrow> qstring list option" where
  "Blocking_parse action el =
     (if elementXmlTag el = Blocking_XmlTag action
      then Some (parseSingleAttributeElements (case el of None \<Rightarrow> null_element | Some e \<Rightarrow> e) ''item'' ns_blocking ''jid'')
      else None)"

definition Blocking_toXml :: "BlockingAction \<Rightarrow> qstring list \<Rightarrow> item" where
  "Blocking_toXml action jids =
     Element (fst (Blocking_XmlTag action)) (snd (Blocking_XmlTag action)) (SingleAttributeElements ''item'' ''jid'' jids)"

text \<open>A request as \<^verbatim>\<open>CompatIq\<close> writes it, whose addresses are empty here.\<close>

definition blocking_request :: "IqType \<Rightarrow> qstring \<Rightarrow> BlockingAction \<Rightarrow> qstring list \<Rightarrow> item" where
  "blocking_request type i action jids = ElementInherit ''iq''
     [Attribute ''id'' i, Attribute ''type'' (enum_toString IqType_Values type), Blocking_toXml action jids]"

section \<open>The manager\<close>

datatype blocking_signal = SubscribedChanged | BlockedSignal "qstring list" | UnblockedSignal "qstring list"

record QXmppBlockingManager =
  blocklist :: "qstring list option"
  openFetchBlocklistPromises :: "nat list"
  fetch_started :: nat
  fetch_results :: "(nat \<times> (qxmpp_error + qstring list)) list"
  bm_sent :: "dom list"
  bm_signals :: "blocking_signal list"

definition new_BlockingManager :: QXmppBlockingManager where
  "new_BlockingManager = \<lparr>blocklist = None, openFetchBlocklistPromises = [], fetch_started = 0, fetch_results = [],
     bm_sent = [], bm_signals = []\<rparr>"

definition bm_send :: "item \<Rightarrow> QXmppBlockingManager \<Rightarrow> QXmppBlockingManager" where
  "bm_send i s = s\<lparr>bm_sent := bm_sent s @ item_nodes ns_client i\<rparr>"

definition bm_emit :: "blocking_signal \<Rightarrow> QXmppBlockingManager \<Rightarrow> QXmppBlockingManager" where
  "bm_emit x s = s\<lparr>bm_signals := bm_signals s @ [x]\<rparr>"

definition makeUnique :: "'a::linorder list \<Rightarrow> 'a list" where
  "makeUnique vec = remdups_adj (sort vec)"

definition isSubscribed :: "QXmppBlockingManager \<Rightarrow> bool" where
  "isSubscribed s \<longleftrightarrow> blocklist s \<noteq> None"

definition fetchBlocklist :: "qstring \<Rightarrow> QXmppBlockingManager \<Rightarrow> QXmppBlockingManager" where
  "fetchBlocklist i s0 =
     (let t = fetch_started s0; s = s0\<lparr>fetch_started := t + 1\<rparr>
      in case blocklist s of
           Some jids \<Rightarrow> s\<lparr>fetch_results := fetch_results s @ [(t, Inr jids)]\<rparr>
         | None \<Rightarrow>
             let s1 = s\<lparr>openFetchBlocklistPromises := openFetchBlocklistPromises s @ [t]\<rparr>
             in if length (openFetchBlocklistPromises s1) = 1 then bm_send (blocking_request IqGet i ListAction []) s1 else s1)"

text \<open>The continuation of the request.\<close>

definition fetch_finished :: "nonza_env \<Rightarrow> IqResult \<Rightarrow> QXmppBlockingManager \<Rightarrow> QXmppBlockingManager" where
  "fetch_finished e result s =
     (let blocklistResult = parseIqResponseFlat e (Blocking_parse ListAction) result;
          s1 = (case blocklist s of
                  None \<Rightarrow> (case blocklistResult of Inr jids \<Rightarrow> bm_emit SubscribedChanged (s\<lparr>blocklist := Some jids\<rparr>) | Inl _ \<Rightarrow> s)
                | Some _ \<Rightarrow> s)
      in s1\<lparr>fetch_results := fetch_results s1 @ map (\<lambda>t. (t, blocklistResult)) (openFetchBlocklistPromises s1),
            openFetchBlocklistPromises := []\<rparr>)"

definition block :: "qstring \<Rightarrow> qstring list \<Rightarrow> QXmppBlockingManager \<Rightarrow> QXmppBlockingManager" where
  "block i jids s = bm_send (blocking_request IqSet i BlockAction jids) s"

definition unblock :: "qstring \<Rightarrow> qstring list \<Rightarrow> QXmppBlockingManager \<Rightarrow> QXmppBlockingManager" where
  "unblock i jids s = bm_send (blocking_request IqSet i UnblockAction jids) s"

definition blocking_error :: "ErrorType \<Rightarrow> Condition \<Rightarrow> qstring \<Rightarrow> StanzaError" where
  "blocking_error type condition txt = new_StanzaError\<lparr>err_type := type, err_condition := condition, err_text := txt\<rparr>"

definition checkIqValidity :: "qstring \<Rightarrow> qstring \<Rightarrow> QXmppBlockingManager \<Rightarrow> StanzaError option" where
  "checkIqValidity jidBare from s =
     (if from \<noteq> [] \<and> from \<noteq> jidBare then Some (blocking_error Cancel Forbidden ''Forbidden.'')
      else if blocklist s = None then Some (blocking_error Wait UnexpectedRequest ''Client is not subscribed to blocklist.'')
      else None)"

definition handleBlock :: "qstring \<Rightarrow> qstring list PayloadIq \<Rightarrow> QXmppBlockingManager \<Rightarrow> (StanzaError + QXmppIq) \<times> QXmppBlockingManager" where
  "handleBlock jidBare iq s =
     (case checkIqValidity jidBare (piq_from iq) s of
        Some err \<Rightarrow> (Inl err, s)
      | None \<Rightarrow> (Inr (new_QXmppIq IqResult),
          bm_emit (BlockedSignal (piq_payload iq))
            (s\<lparr>blocklist := map_option (\<lambda>l. makeUnique (l @ piq_payload iq)) (blocklist s)\<rparr>)))"

definition handleUnblock :: "qstring \<Rightarrow> qstring list PayloadIq \<Rightarrow> QXmppBlockingManager \<Rightarrow> (StanzaError + QXmppIq) \<times> QXmppBlockingManager" where
  "handleUnblock jidBare iq s =
     (case checkIqValidity jidBare (piq_from iq) s of
        Some err \<Rightarrow> (Inl err, s)
      | None \<Rightarrow> (Inr (new_QXmppIq IqResult),
          bm_emit (UnblockedSignal (piq_payload iq))
            (s\<lparr>blocklist := map_option (fold remove1 (piq_payload iq)) (blocklist s)\<rparr>)))"

definition blocking_handlers :: "qstring \<Rightarrow> QXmppBlockingManager iq_handler list" where
  "blocking_handlers jidBare =
     [(Blocking_XmlTag BlockAction, \<lambda>el s. map_option (\<lambda>iq. handleBlock jidBare iq s) (Iq_fromDom IqSet (Blocking_parse BlockAction) el)),
      (Blocking_XmlTag UnblockAction, \<lambda>el s. map_option (\<lambda>iq. handleUnblock jidBare iq s) (Iq_fromDom IqSet (Blocking_parse UnblockAction) el))]"

definition bm_handleStanza :: "qstring \<Rightarrow> dom \<Rightarrow> QXmppBlockingManager \<Rightarrow> QXmppIq option \<times> QXmppBlockingManager" where
  "bm_handleStanza jidBare stanza s =
     (case handleIqRequests (blocking_handlers jidBare) stanza s of
        Some (reply, s') \<Rightarrow> (Some reply, s')
      | None \<Rightarrow> (None, s))"

definition bm_onConnected :: "bool \<Rightarrow> QXmppBlockingManager \<Rightarrow> QXmppBlockingManager" where
  "bm_onConnected resumedStream s =
     (if blocklist s \<noteq> None \<and> \<not> resumedStream then bm_emit SubscribedChanged (s\<lparr>blocklist := None\<rparr>) else s)"

section \<open>Which addresses are blocked\<close>

datatype BlockingState = NotBlocked | Blocked "qstring list" "qstring list" | PartiallyBlocked "qstring list"

datatype JidType = FullJid | BareJid | DomainJid | DomainResource

fun contains_str :: "'a list \<Rightarrow> 'a list \<Rightarrow> bool" where
  "contains_str [] sub = (sub = [])"
| "contains_str (c # s) sub = (startsWith (c # s) sub \<or> contains_str s sub)"

definition jid_type :: "qstring \<Rightarrow> JidType" where
  "jid_type jid =
     (if jidToUser jid = [] then if jidToResource jid \<noteq> [] then DomainResource else DomainJid
      else if jidToResource jid \<noteq> [] then FullJid else BareJid)"

definition containsEntry :: "qstring \<Rightarrow> qstring list \<Rightarrow> bool" where
  "containsEntry entry l \<longleftrightarrow> entry \<in> set l"

text \<open>The addresses that block the whole address and those that block a part of it.\<close>

definition blocking_jids :: "qstring list \<Rightarrow> qstring \<Rightarrow> qstring list \<times> qstring list" where
  "blocking_jids l jid =
     (let user = jidToUser jid; dom = jidToDomain jid; resource = jidToResource jid;
          check = (\<lambda>js. filter (\<lambda>j. j \<in> set l) js)
      in case jid_type jid of
           FullJid \<Rightarrow> (check [jid, user @ ''@'' @ dom, dom, dom @ ''/'' @ resource], [])
         | BareJid \<Rightarrow> (check [jid, dom], filter (\<lambda>b. startsWith b (jid @ ''/'')) l @ check [dom @ ''/'' @ resource])
         | DomainJid \<Rightarrow> (check [jid], filter (\<lambda>b. contains_str b (''@'' @ dom) \<or> contains_str b (dom @ ''/'')) l)
         | DomainResource \<Rightarrow> (check [jid, dom], filter (\<lambda>b. contains_str b (''@'' @ dom)) l))"

definition blockingState :: "qstring list \<Rightarrow> qstring \<Rightarrow> BlockingState" where
  "blockingState l jid =
     (case blocking_jids l jid of (blocking, partly) \<Rightarrow>
        if blocking \<noteq> [] then Blocked blocking partly
        else if partly \<noteq> [] then PartiallyBlocked partly else NotBlocked)"

section \<open>Runs\<close>

datatype blocking_event = Connected bool | FetchBlocklist qstring | FetchAnswered IqResult
  | BlockJids qstring "qstring list" | UnblockJids qstring "qstring list" | StanzaReceived dom

text \<open>An answer arrives only while a request is open.\<close>

fun bm_step :: "nonza_env \<Rightarrow> qstring \<Rightarrow> blocking_event \<Rightarrow> QXmppBlockingManager \<Rightarrow> QXmppBlockingManager" where
  "bm_step e jidBare (Connected resumed) s = bm_onConnected resumed s"
| "bm_step e jidBare (FetchBlocklist i) s = fetchBlocklist i s"
| "bm_step e jidBare (FetchAnswered r) s = (if openFetchBlocklistPromises s = [] then s else fetch_finished e r s)"
| "bm_step e jidBare (BlockJids i jids) s = block i jids s"
| "bm_step e jidBare (UnblockJids i jids) s = unblock i jids s"
| "bm_step e jidBare (StanzaReceived el) s = snd (bm_handleStanza jidBare el s)"

section \<open>Lemmas\<close>

lemma Blocking_toXml_contained: "self_contained (fst (Blocking_XmlTag a)) (snd (Blocking_XmlTag a)) (Blocking_toXml a jids)"
  by (simp add: Blocking_toXml_def)

lemma Blocking_roundtrip: "Blocking_parse a (Some (written (Blocking_toXml a jids))) = Some jids"
proof -
  have "concat (map (item_nodes ns) (SingleAttributeElements t k vs)) = map (\<lambda>v. Elem t ns [(k, v)] []) vs"
    "concat (map item_attrs (SingleAttributeElements t k vs)) = []" for ns t k vs
    by (induction vs) (simp_all add: SingleAttributeElements_def ElementInherit_def build_def)
  then show ?thesis
    by (simp add: Blocking_parse_def Blocking_toXml_def written_def Element_def build_def elementXmlTag_def Blocking_XmlTag_def
        parseSingleAttributeElements_def dom_simps filter_map comp_def matches_def attr_def)
qed

lemma Blocking_tags: "Blocking_XmlTag a = Blocking_XmlTag b \<longleftrightarrow> a = b"
  by (cases a; cases b) (simp_all add: Blocking_XmlTag_def enum_toString_def BlockingAction_Values_def)

lemma bm_log_sel [simp]:
  "blocklist (bm_emit x s) = blocklist s" "openFetchBlocklistPromises (bm_emit x s) = openFetchBlocklistPromises s"
  "fetch_started (bm_emit x s) = fetch_started s" "fetch_results (bm_emit x s) = fetch_results s" "bm_sent (bm_emit x s) = bm_sent s"
  "blocklist (bm_send i s) = blocklist s" "openFetchBlocklistPromises (bm_send i s) = openFetchBlocklistPromises s"
  "fetch_started (bm_send i s) = fetch_started s" "fetch_results (bm_send i s) = fetch_results s"
  "bm_sent (bm_send i s) = bm_sent s @ item_nodes ns_client i"
  by (simp_all add: bm_emit_def bm_send_def)

text \<open>A request of the server, as it is read.\<close>

definition blocking_push :: "BlockingAction \<Rightarrow> qstring \<Rightarrow> qstring \<Rightarrow> qstring list \<Rightarrow> dom" where
  "blocking_push action i from jids =
     hd (item_nodes ns_client (Iq_toXml IqSet (Blocking_toXml action)
       \<lparr>piq_id = i, piq_from = from, piq_to = [], piq_lang = [], piq_payload = jids\<rparr>))"

lemma push_parsed:
  "Iq_fromDom IqSet (Blocking_parse a) (blocking_push a i from jids) =
     Some \<lparr>piq_id = i, piq_from = from, piq_to = [], piq_lang = [], piq_payload = jids\<rparr>"
  using Iq_roundtrip [where print = "Blocking_toXml a" and parse = "Blocking_parse a" and f = "\<lambda>x. x",
      OF Blocking_toXml_contained Blocking_roundtrip, of IqSet ns_client
        "\<lparr>piq_id = i, piq_from = from, piq_to = [], piq_lang = [], piq_payload = jids\<rparr>"]
  by (simp add: blocking_push_def Iq_toXml_def ElementInherit_def)

lemma push_request: "checkIsIqRequest (blocking_push a i from jids) = (True, Blocking_XmlTag a)"
  "attr ''from'' (blocking_push a i from jids) = from" "attr ''id'' (blocking_push a i from jids) = i"
  using self_contained_written [OF Blocking_toXml_contained [of a jids]]
  by (simp_all add: blocking_push_def Iq_toXml_def ElementInherit_def build_def checkIsIqRequest_def attr_def OptionalAttribute_def
      enum_toString_def IqType_Values_def elementXmlTag_def dom_simps)

lemma handle_push:
  "bm_handleStanza j (blocking_push BlockAction i from jids) s =
     (case handleBlock j \<lparr>piq_id = i, piq_from = from, piq_to = [], piq_lang = [], piq_payload = jids\<rparr> s of
        (r, s') \<Rightarrow> (Some (processHandleIqResult i from r), s'))"
  "bm_handleStanza j (blocking_push UnblockAction i from jids) s =
     (case handleUnblock j \<lparr>piq_id = i, piq_from = from, piq_to = [], piq_lang = [], piq_payload = jids\<rparr> s of
        (r, s') \<Rightarrow> (Some (processHandleIqResult i from r), s'))"
  by (simp_all add: bm_handleStanza_def handleIqRequests_def push_request blocking_handlers_def handleIqType_def push_parsed
      Blocking_tags split: prod.split)

lemma sorted_distinct_remdups_adj: "sorted xs \<Longrightarrow> distinct (remdups_adj xs)"
  by (induction xs rule: remdups_adj.induct) (auto simp: order_antisym)

lemma distinct_makeUnique: "distinct (makeUnique xs)" "set (makeUnique xs) = set xs"
  by (simp_all add: makeUnique_def sorted_distinct_remdups_adj)

lemma set_fold_remove1: "distinct l \<Longrightarrow> set (fold remove1 js l) = set l - set js \<and> distinct (fold remove1 js l)"
  by (induction js arbitrary: l) auto

section \<open>The copy of the blocklist\<close>

text \<open>
  What the server pushes: the change of its list by one of the resources of the account, and
  what somebody else sends in the same form.  An empty request to unblock means everybody.
\<close>

datatype blocklist_push = ServerPush BlockingAction qstring "qstring list" | ForeignPush BlockingAction qstring qstring "qstring list"

fun push_element :: "qstring \<Rightarrow> blocklist_push \<Rightarrow> dom" where
  "push_element j (ServerPush a i jids) = blocking_push a i j jids"
| "push_element j (ForeignPush a i from jids) = blocking_push a i from jids"

fun server_change :: "blocklist_push \<Rightarrow> qstring set \<Rightarrow> qstring set" where
  "server_change (ServerPush BlockAction i jids) v = v \<union> set jids"
| "server_change (ServerPush UnblockAction i jids) v = (if jids = [] then {} else v - set jids)"
| "server_change _ v = v"

text \<open>The pushes the copy follows: not the one that unblocks everybody.\<close>

fun followed :: "qstring \<Rightarrow> blocklist_push \<Rightarrow> bool" where
  "followed j (ServerPush a i jids) = (a = BlockAction \<or> a = UnblockAction \<and> jids \<noteq> [])"
| "followed j (ForeignPush a i from jids) = ((a = BlockAction \<or> a = UnblockAction) \<and> from \<noteq> [] \<and> from \<noteq> j)"

definition blocklist_view :: "QXmppBlockingManager \<Rightarrow> qstring set option" where
  "blocklist_view s = map_option set (blocklist s)"

definition blocklist_ok :: "QXmppBlockingManager \<Rightarrow> bool" where
  "blocklist_ok s \<longleftrightarrow> (case blocklist s of None \<Rightarrow> True | Some l \<Rightarrow> distinct l)"

lemma push_followed:
  assumes "followed j p" and "blocklist_ok s"
  shows "blocklist_ok (snd (bm_handleStanza j (push_element j p) s)) \<and>
    blocklist_view (snd (bm_handleStanza j (push_element j p) s)) = map_option (server_change p) (blocklist_view s)"
  using assms
  by (cases p)
    (auto simp: handle_push handleBlock_def handleUnblock_def checkIqValidity_def blocklist_view_def blocklist_ok_def
      distinct_makeUnique set_fold_remove1 split: option.splits)

text \<open>The pushes a copy follows, as a type of their own.\<close>

interpretation blocklist: server_copy blocklist_view blocklist_ok
  "\<lambda>p s. if followed j p then snd (bm_handleStanza j (push_element j p) s) else s"
  "\<lambda>p v. if followed j p then server_change p v else v" for j
  using push_followed by unfold_locales (auto simp: option.map_ident)

section \<open>One request for all callers\<close>

definition fetch_inv :: "QXmppBlockingManager \<Rightarrow> bool" where
  "fetch_inv s \<longleftrightarrow>
     mset (openFetchBlocklistPromises s) + mset (map fst (fetch_results s)) = mset [0..<fetch_started s]"

definition list_requests :: "QXmppBlockingManager \<Rightarrow> nat" where
  "list_requests s = length (filter (\<lambda>el. attr ''type'' el = ''get'') (bm_sent s))"

fun answers :: "blocking_event list \<Rightarrow> QXmppBlockingManager \<Rightarrow> nonza_env \<Rightarrow> qstring \<Rightarrow> nat" where
  "answers [] s e j = 0"
| "answers (ev # evs) s e j =
     (case ev of FetchAnswered _ \<Rightarrow> if openFetchBlocklistPromises s = [] then 0 else 1 | _ \<Rightarrow> 0) + answers evs (bm_step e j ev s) e j"

lemma request_count:
  "length (filter (\<lambda>el. attr ''type'' el = ''get'') (item_nodes ns (blocking_request type i a jids))) = (if type = IqGet then 1 else 0)"
  by (cases type) (simp_all add: blocking_request_def ElementInherit_def build_def attr_def enum_toString_def IqType_Values_def)

lemma handleStanza_fetches:
  "openFetchBlocklistPromises (snd (bm_handleStanza j el s)) = openFetchBlocklistPromises s"
  "fetch_started (snd (bm_handleStanza j el s)) = fetch_started s"
  "fetch_results (snd (bm_handleStanza j el s)) = fetch_results s"
  "bm_sent (snd (bm_handleStanza j el s)) = bm_sent s"
  by (auto simp: bm_handleStanza_def handleIqRequests_def blocking_handlers_def handleIqType_def handleBlock_def handleUnblock_def
      split: option.splits prod.splits if_splits)

lemma fetch_inv_step: "fetch_inv s \<Longrightarrow> fetch_inv (bm_step e j ev s)"
  by (cases ev)
    (auto simp: fetch_inv_def bm_onConnected_def fetchBlocklist_def Let_def fetch_finished_def block_def unblock_def comp_def multiset.map_comp add.commute
      handleStanza_fetches simp del: mset_upt split: option.splits sum.splits)

lemma list_requests_step:
  "list_requests (bm_step e j ev s) + (if openFetchBlocklistPromises s = [] then 0 else 1) =
     list_requests s + (case ev of FetchAnswered _ \<Rightarrow> if openFetchBlocklistPromises s = [] then 0 else 1 | _ \<Rightarrow> 0) +
       (if openFetchBlocklistPromises (bm_step e j ev s) = [] then 0 else 1)"
  by (cases ev)
    (auto simp: list_requests_def bm_onConnected_def fetchBlocklist_def Let_def fetch_finished_def block_def unblock_def request_count
      handleStanza_fetches split: option.splits sum.splits)

lemma fetch_run:
  "fetch_inv s \<Longrightarrow> fetch_inv (fold (bm_step e j) evs s) \<and>
     list_requests (fold (bm_step e j) evs s) + (if openFetchBlocklistPromises s = [] then 0 else 1) =
       list_requests s + answers evs s e j + (if openFetchBlocklistPromises (fold (bm_step e j) evs s) = [] then 0 else 1)"
proof (induction evs arbitrary: s)
  case (Cons ev evs)
  then show ?case
    using fetch_inv_step [OF Cons.prems, of e j ev] list_requests_step [of e j ev s]
    by (fastforce split: if_splits)
qed simp

section \<open>Properties\<close>


text \<open>A push that unblocks everybody leaves the copy as it is.\<close>

lemma unblock_all_ignored:
  "blocklist s = Some l \<Longrightarrow> blocklist (snd (bm_handleStanza j (blocking_push UnblockAction i j []) s)) = Some l"
  by (simp add: handle_push handleUnblock_def checkIqValidity_def)

text \<open>
  However often the list is asked for, one request is under way at a time: as many were sent
  as were answered, and one more while a caller waits; and every call is finished once or waits.
\<close>

lemma one_fetch_for_all_callers:
  fixes e j evs
  defines "s \<equiv> fold (bm_step e j) evs new_BlockingManager"
  shows "list_requests s = answers evs new_BlockingManager e j + (if openFetchBlocklistPromises s = [] then 0 else 1)"
    and "mset (openFetchBlocklistPromises s) + mset (map fst (fetch_results s)) = mset [0..<fetch_started s]"
  using fetch_run [of new_BlockingManager e j evs]
  by (simp_all add: s_def fetch_inv_def new_BlockingManager_def list_requests_def)

definition example_subscribed :: QXmppBlockingManager where
  "example_subscribed = new_BlockingManager\<lparr>blocklist := Some [''a@x'', ''b@x'']\<rparr>"


section \<open>Addresses\<close>

text \<open>
  The addresses that block an address: itself, its bare address, its domain, and its domain
  with its resource.
\<close>

definition blocks :: "qstring \<Rightarrow> qstring set" where
  "blocks jid = {jid, jidToBareJid jid, jidToDomain jid} \<union>
     (if jidToResource jid \<noteq> [] then {jidToDomain jid @ ''/'' @ jidToResource jid} else {})"

text \<open>An address in normal form: no @ in the resource, and neither part empty.\<close>

definition jid_of :: "qstring \<Rightarrow> qstring \<Rightarrow> qstring \<Rightarrow> qstring" where
  "jid_of user domn resource = (if user = [] then [] else user @ ''@'') @ domn @ (if resource = [] then [] else ''/'' @ resource)"

lemma jid_parts:
  assumes "CHR ''@'' \<notin> set user" "CHR ''/'' \<notin> set user" "CHR ''@'' \<notin> set domn" "CHR ''/'' \<notin> set domn"
    and "user = [] \<longrightarrow> CHR ''@'' \<notin> set resource"
  shows "jidToUser (jid_of user domn resource) = user" "jidToDomain (jid_of user domn resource) = domn"
    "jidToResource (jid_of user domn resource) = resource"
    "jidToBareJid (jid_of user domn resource) = jid_of user domn []"
proof -
  have bare: "index_of CHR ''/'' (jid_of user domn []) = None"
    using assms by (auto simp: jid_of_def index_of_None)
  have slash: "index_of CHR ''/'' (jid_of user domn [] @ CHR ''/'' # resource) = Some (length (jid_of user domn []))"
    by (rule index_of_append) (use bare in \<open>simp add: index_of_None\<close>)
  have split: "jid_of user domn resource = (if resource = [] then jid_of user domn [] else jid_of user domn [] @ CHR ''/'' # resource)"
    by (simp add: jid_of_def)
  show b: "jidToBareJid (jid_of user domn resource) = jid_of user domn []"
    using bare slash by (simp add: split jidToBareJid_def)
  show "jidToResource (jid_of user domn resource) = resource"
    using bare slash by (auto simp: split jidToResource_def)
  show "jidToDomain (jid_of user domn resource) = domn"
    unfolding jidToDomain_def b using assms by (auto simp: jid_of_def qstring_simps)
  show "jidToUser (jid_of user domn resource) = user"
  proof (cases "user = []")
    case True
    then have "index_of CHR ''@'' (jid_of user domn resource) = None"
      using assms(3,5) by (simp add: jid_of_def index_of_None)
    then show ?thesis using True by (simp add: jidToUser_def)
  next
    case False
    then show ?thesis using index_of_append [OF assms(1)] by (simp add: jidToUser_def jid_of_def)
  qed
qed

lemma filter_in: "set (filter (\<lambda>j. j \<in> A) js) = A \<inter> set js"
  by auto

text \<open>
  C35.  An address is reported as blocked exactly if the list has one of the four addresses that
  block it.
\<close>

theorem blocked_iff_listed:
  assumes "CHR ''@'' \<notin> set user" "CHR ''/'' \<notin> set user" "CHR ''@'' \<notin> set domn" "CHR ''/'' \<notin> set domn"
    and "user = [] \<longrightarrow> CHR ''@'' \<notin> set resource"
  shows "(\<exists>js ps. blockingState l (jid_of user domn resource) = Blocked js ps) \<longleftrightarrow> set l \<inter> blocks (jid_of user domn resource) \<noteq> {}"
proof -
  let ?j = "jid_of user domn resource"
  note parts = jid_parts [OF assms]
  have "set (fst (blocking_jids l ?j)) = set l \<inter> blocks ?j"
    unfolding blocking_jids_def jid_type_def blocks_def Let_def parts
    by (cases "user = []"; cases "resource = []") (simp_all add: filter_in jid_of_def insert_commute)
  moreover have "(\<exists>js ps. blockingState l ?j = Blocked js ps) \<longleftrightarrow> fst (blocking_jids l ?j) \<noteq> []"
    by (simp add: blockingState_def split: prod.split)
  ultimately show ?thesis by (metis set_empty)
qed

theorem blocked_iff_listed_witness:
  "\<exists>js ps. blockingState [''x.org'', ''b@y''] (jid_of ''a'' ''x.org'' ''phone'') = Blocked js ps"
  by (subst blocked_iff_listed) (simp_all add: blocks_def jid_parts)

text \<open>
  A bare address is not reported as blocked in part by its domain with a resource, although the
  search looks for it: the resource of a bare address is empty.
\<close>

lemma domain_resource_missed: "blockingState [''x.org/r''] ''a@x.org'' = NotBlocked"
  by code_simp

text \<open>An address of another domain with the same beginning counts as a part of the domain.\<close>

lemma foreign_domain_counted: "blockingState [''a@x.org.evil''] ''x.org'' = PartiallyBlocked [''a@x.org.evil'']"
  by code_simp

end
