(* ===== verification/Presence.thy ===== *)
theory Presence
  imports IqHandling
begin

text \<open>
  Presences, from \<^verbatim>\<open>src/base/QXmppPresence.cpp\<close>, with the item of a chat room from
  \<^verbatim>\<open>src/base/QXmppMucIq.cpp\<close>.

  The contents of a Muji session are Jingle contents; their parser and serializer are parameters.
  The texts of dates and Base64 are parameters, as in \<^verbatim>\<open>SaslNonzas\<close>; the reading of Base64 here
  is the lenient one of \<^verbatim>\<open>QByteArray::fromBase64\<close>.
\<close>

definition ns_muc :: qstring where "ns_muc = ''http://jabber.org/protocol/muc''"
definition ns_muc_user :: qstring where "ns_muc_user = ''http://jabber.org/protocol/muc#user''"
definition ns_capabilities :: qstring where "ns_capabilities = ''http://jabber.org/protocol/caps''"
definition ns_vcard_update :: qstring where "ns_vcard_update = ''vcard-temp:x:update''"
definition ns_muji :: qstring where "ns_muji = ''urn:xmpp:jingle:muji:0''"
definition ns_moved :: qstring where "ns_moved = ''urn:xmpp:moved:1''"
definition ns_idle :: qstring where "ns_idle = ''urn:xmpp:idle:1''"
definition ns_mix_presence :: qstring where "ns_mix_presence = ''urn:xmpp:presence:0''"

section \<open>Hexadecimal text\<close>

definition hex_digit :: "nat \<Rightarrow> char" where
  "hex_digit n = (if n < 10 then digit_char n else char_of (87 + n))"

definition hex_value :: "char \<Rightarrow> nat option" where
  "hex_value c =
     (let n = of_char c :: nat
      in if 48 \<le> n \<and> n \<le> 57 then Some (n - 48)
         else if 97 \<le> n \<and> n \<le> 102 then Some (n - 87)
         else if 65 \<le> n \<and> n \<le> 70 then Some (n - 55) else None)"

definition bytes_toHex :: "bytes \<Rightarrow> qstring" where
  "bytes_toHex bs = concat (map (\<lambda>b. [hex_digit (unat b div 16), hex_digit (unat b mod 16)]) bs)"

text \<open>\<^verbatim>\<open>QByteArray::fromHex\<close> works from the end and skips what is no digit.\<close>

fun from_nibbles :: "nat list \<Rightarrow> bytes" where
  "from_nibbles (h # l # r) = of_nat (16 * h + l) # from_nibbles r"
| "from_nibbles [l] = [of_nat l]"
| "from_nibbles [] = []"

definition bytes_fromHex :: "qstring \<Rightarrow> bytes" where
  "bytes_fromHex s =
     (let ns = List.map_filter hex_value s
      in from_nibbles (if odd (length ns) then 0 # ns else ns))"

section \<open>Items of a chat room\<close>

datatype Affiliation = UnspecifiedAffiliation | OutcastAffiliation | NoAffiliation | MemberAffiliation | AdminAffiliation
  | OwnerAffiliation

datatype Role = UnspecifiedRole | NoRole | VisitorRole | ParticipantRole | ModeratorRole

definition Affiliation_Values :: "(Affiliation \<times> qstring) list" where
  "Affiliation_Values = [(UnspecifiedAffiliation, []), (OutcastAffiliation, ''outcast''), (NoAffiliation, ''none''),
     (MemberAffiliation, ''member''), (AdminAffiliation, ''admin''), (OwnerAffiliation, ''owner'')]"

definition Role_Values :: "(Role \<times> qstring) list" where
  "Role_Values = [(UnspecifiedRole, []), (NoRole, ''none''), (VisitorRole, ''visitor''), (ParticipantRole, ''participant''),
     (ModeratorRole, ''moderator'')]"

record QXmppMucItem =
  muc_actor :: qstring
  muc_affiliation :: Affiliation
  muc_jid :: qstring
  muc_nick :: qstring
  muc_reason :: qstring
  muc_role :: Role

definition new_MucItem :: QXmppMucItem where
  "new_MucItem = \<lparr>muc_actor = [], muc_affiliation = UnspecifiedAffiliation, muc_jid = [], muc_nick = [], muc_reason = [],
     muc_role = UnspecifiedRole\<rparr>"

definition MucItem_isNull :: "QXmppMucItem \<Rightarrow> bool" where
  "MucItem_isNull i \<longleftrightarrow> muc_actor i = [] \<and> muc_affiliation i = UnspecifiedAffiliation \<and> muc_jid i = [] \<and> muc_nick i = [] \<and>
     muc_reason i = [] \<and> muc_role i = UnspecifiedRole"

text \<open>\<^verbatim>\<open>QString::toLower\<close>, for ASCII.\<close>

definition toLower :: "qstring \<Rightarrow> qstring" where
  "toLower s = map (\<lambda>c. if 65 \<le> (of_char c :: nat) \<and> (of_char c :: nat) \<le> 90 then char_of (of_char c + 32 :: nat) else c) s"

definition MucItem_parse :: "dom option \<Rightarrow> QXmppMucItem" where
  "MucItem_parse el0 =
     (let element = (case el0 of None \<Rightarrow> null_element | Some x \<Rightarrow> x)
      in \<lparr>muc_actor = (case firstChildElement element ''actor'' [] of None \<Rightarrow> [] | Some a \<Rightarrow> attr ''jid'' a),
          muc_affiliation = (case enum_fromString Affiliation_Values (toLower (attr ''affiliation'' element)) of
            None \<Rightarrow> UnspecifiedAffiliation | Some a \<Rightarrow> a),
          muc_jid = attr ''jid'' element, muc_nick = attr ''nick'' element, muc_reason = child_text element ''reason'' [],
          muc_role = (case enum_fromString Role_Values (toLower (attr ''role'' element)) of None \<Rightarrow> UnspecifiedRole | Some r \<Rightarrow> r)\<rparr>)"

definition MucItem_toXml :: "QXmppMucItem \<Rightarrow> item list" where
  "MucItem_toXml i =
     (if MucItem_isNull i then []
      else [ElementInherit ''item''
        (OptionalAttribute ''affiliation'' (enum_toString Affiliation_Values (muc_affiliation i)) @
         OptionalAttribute ''jid'' (muc_jid i) @ OptionalAttribute ''nick'' (muc_nick i) @
         OptionalAttribute ''role'' (enum_toString Role_Values (muc_role i)) @
         OptionalContent (muc_actor i \<noteq> []) [ElementInherit ''actor'' [Attribute ''jid'' (muc_actor i)]] @
         OptionalTextElement ''reason'' (muc_reason i))])"

section \<open>Presences\<close>

datatype PresenceType = PresenceError | Available | Unavailable | Subscribe | Subscribed | Unsubscribe | Unsubscribed | Probe

definition PresenceType_Values :: "(PresenceType \<times> qstring) list" where
  "PresenceType_Values = [(PresenceError, ''error''), (Available, []), (Unavailable, ''unavailable''), (Subscribe, ''subscribe''),
     (Subscribed, ''subscribed''), (Unsubscribe, ''unsubscribe''), (Unsubscribed, ''unsubscribed''), (Probe, ''probe'')]"

datatype AvailableStatusType = Online | Away | XA | DND | Chat | Invisible

definition AvailableStatusType_Values :: "(AvailableStatusType \<times> qstring) list" where
  "AvailableStatusType_Values = [(Online, []), (Away, ''away''), (XA, ''xa''), (DND, ''dnd''), (Chat, ''chat''),
     (Invisible, ''invisible'')]"

datatype VCardUpdateType = VCardUpdateNone | VCardUpdateNoPhoto | VCardUpdateValidPhoto | VCardUpdateNotReady

record 'c QXmppPresence = QXmppStanza +
  presence_type :: PresenceType
  availableStatusType :: AvailableStatusType
  statusText :: qstring
  priority :: int
  mucItem :: QXmppMucItem
  mucPassword :: qstring
  mucStatusCodes :: "int list"
  mucSupported :: bool
  capabilityHash :: qstring
  capabilityNode :: qstring
  capabilityVer :: bytes
  capabilityExt :: "qstring list"
  photoHash :: bytes
  vCardUpdateType :: VCardUpdateType
  isPreparingMujiSession :: bool
  mujiContents :: "'c list"
  lastUserInteraction :: datetime
  mixUserJid :: qstring
  mixUserNick :: qstring
  oldJid :: qstring

record 'c presence_env =
  pe_nonza :: nonza_env
  lenientBase64 :: "qstring \<Rightarrow> bytes"
  content_parse :: "dom \<Rightarrow> 'c option"
  content_toXml :: "'c \<Rightarrow> item"

definition new_stanza :: QXmppStanza where
  "new_stanza = \<lparr>st_to = [], st_from = [], st_id = [], st_lang = [], st_error = None, st_extensions = [], st_addresses = []\<rparr>"

definition presence_defaults :: "PresenceType \<Rightarrow> 'c QXmppPresence" where
  "presence_defaults type = QXmppStanza.extend new_stanza
     (QXmppPresence.fields type Online [] 0 new_MucItem [] [] False [] [] [] [] [] VCardUpdateNone False [] None [] [] [])"

text \<open>\<^verbatim>\<open>parseExtension\<close>: one extension.\<close>

definition presence_parseExtension :: "'c presence_env \<Rightarrow> dom \<Rightarrow> 'c QXmppPresence \<Rightarrow> 'c QXmppPresence" where
  "presence_parseExtension e element p =
     (if tagName element = ''x'' \<and> namespaceURI element = ns_muc then
        p\<lparr>mucSupported := True, mucPassword := child_text element ''password'' []\<rparr>
      else if tagName element = ''x'' \<and> namespaceURI element = ns_muc_user then
        p\<lparr>mucItem := MucItem_parse (firstChildElement element ''item'' []),
          mucStatusCodes := map (\<lambda>s. case to_signed 32 (attr ''code'' s) of None \<Rightarrow> 0 | Some n \<Rightarrow> n) (iterChildElements element ''status'' [])\<rparr>
      else if tagName element = ''c'' \<and> namespaceURI element = ns_capabilities then
        p\<lparr>capabilityNode := attr ''node'' element, capabilityVer := lenientBase64 e (attr ''ver'' element),
          capabilityHash := attr ''hash'' element,
          capabilityExt := filter (\<lambda>s. s \<noteq> []) (split_on CHR '' '' (attr ''ext'' element))\<rparr>
      else if namespaceURI element = ns_vcard_update then
        (case firstChildElement element ''photo'' [] of
           None \<Rightarrow> p\<lparr>photoHash := [], vCardUpdateType := VCardUpdateNotReady\<rparr>
         | Some photo \<Rightarrow>
             let h = bytes_fromHex (dom_text photo)
             in p\<lparr>photoHash := h, vCardUpdateType := (if h = [] then VCardUpdateNoPhoto else VCardUpdateValidPhoto)\<rparr>)
      else if tagName element = ''muji'' \<and> namespaceURI element = ns_muji then
        p\<lparr>isPreparingMujiSession := isPreparingMujiSession p \<or> firstChildElement element ''preparing'' [] \<noteq> None,
          mujiContents := parseChildElements (content_parse e) element ''content'' []\<rparr>
      else if tagName element = ''moved'' \<and> namespaceURI element = ns_moved then
        p\<lparr>oldJid := child_text element ''old-jid'' []\<rparr>
      else if tagName element = ''idle'' \<and> namespaceURI element = ns_idle then
        (if hasAttribute ''since'' element
         then p\<lparr>lastUserInteraction := datetimeFromString (pe_nonza e) (attr ''since'' element)\<rparr> else p)
      else if tagName element = ''mix'' \<and> namespaceURI element = ns_mix_presence then
        p\<lparr>mixUserJid := child_text element ''jid'' [], mixUserNick := child_text element ''nick'' []\<rparr>
      else p\<lparr>st_extensions := st_extensions p @ [element]\<rparr>)"

definition presence_child :: "'c presence_env \<Rightarrow> dom \<Rightarrow> 'c QXmppPresence \<Rightarrow> 'c QXmppPresence" where
  "presence_child e element p =
     (if tagName element = ''show'' then
        p\<lparr>availableStatusType := (case enum_fromString AvailableStatusType_Values (dom_text element) of None \<Rightarrow> Online | Some a \<Rightarrow> a)\<rparr>
      else if tagName element = ''status'' then p\<lparr>statusText := dom_text element\<rparr>
      else if tagName element = ''priority'' then
        p\<lparr>priority := (case to_signed 32 (dom_text element) of None \<Rightarrow> 0 | Some n \<Rightarrow> n)\<rparr>
      else if \<not> (tagName element = ''addresses'' \<and> namespaceURI element = ns_extended_addressing) \<and> tagName element \<noteq> ''error''
      then presence_parseExtension e element p
      else p)"

definition QXmppPresence_parse :: "'c presence_env \<Rightarrow> dom \<Rightarrow> 'c QXmppPresence" where
  "QXmppPresence_parse e element =
     fold (presence_child e) (iterChildElements element [] [])
       (QXmppStanza.extend (QXmppStanza_parse (pe_nonza e) element)
          (QXmppStanza.more ((presence_defaults
             (case enum_fromString PresenceType_Values (attr ''type'' element) of None \<Rightarrow> Available | Some t \<Rightarrow> t)) :: 'c QXmppPresence)))"

definition QXmppPresence_toXml :: "'c presence_env \<Rightarrow> 'c QXmppPresence \<Rightarrow> item" where
  "QXmppPresence_toXml e p = ElementInherit ''presence''
     (OptionalAttribute ''xml:lang'' (st_lang p) @ OptionalAttribute ''id'' (st_id p) @ OptionalAttribute ''to'' (st_to p) @
      OptionalAttribute ''from'' (st_from p) @ OptionalAttribute ''type'' (enum_toString PresenceType_Values (presence_type p)) @
      OptionalTextElement ''show'' (enum_toString AvailableStatusType_Values (availableStatusType p)) @
      OptionalTextElement ''status'' (statusText p) @
      (if priority p \<noteq> 0 then OptionalTextElement ''priority'' (serializeInt (priority p)) else []) @
      (case st_error p of None \<Rightarrow> [] | Some err \<Rightarrow> StanzaError_toXml (pe_nonza e) err) @
      OptionalContent (mucSupported p) [Element ''x'' ns_muc (OptionalTextElement ''password'' (mucPassword p))] @
      OptionalContent (\<not> MucItem_isNull (mucItem p) \<or> mucStatusCodes p \<noteq> [])
        [Element ''x'' ns_muc_user
           (MucItem_toXml (mucItem p) @ SingleAttributeElements ''status'' ''code'' (map serializeInt (mucStatusCodes p)))] @
      OptionalContent (capabilityNode p \<noteq> [] \<and> capabilityVer p \<noteq> [] \<and> capabilityHash p \<noteq> [])
        [Element ''c'' ns_capabilities [Attribute ''hash'' (capabilityHash p), Attribute ''node'' (capabilityNode p),
           Attribute ''ver'' (serializeBase64 (pe_nonza e) (capabilityVer p))]] @
      OptionalContent (vCardUpdateType p \<noteq> VCardUpdateNone)
        [Element ''x'' ns_vcard_update
           (case vCardUpdateType p of
              VCardUpdateNoPhoto \<Rightarrow> [ElementInherit ''photo'' []]
            | VCardUpdateValidPhoto \<Rightarrow> [TextElement ''photo'' (bytes_toHex (photoHash p))]
            | _ \<Rightarrow> [])] @
      OptionalContent (isPreparingMujiSession p \<or> mujiContents p \<noteq> [])
        [Element ''muji'' ns_muji
           (OptionalContent (isPreparingMujiSession p) [ElementInherit ''preparing'' []] @ map (content_toXml e) (mujiContents p))] @
      OptionalContent (oldJid p \<noteq> []) [Element ''moved'' ns_moved [TextElement ''old-jid'' (oldJid p)]] @
      OptionalContent (lastUserInteraction p \<noteq> None)
        [Element ''idle'' ns_idle [Attribute ''since'' (datetimeToString (pe_nonza e) (lastUserInteraction p))]] @
      OptionalContent (mixUserJid p \<noteq> [] \<or> mixUserNick p \<noteq> [])
        [Element ''mix'' ns_mix_presence (OptionalTextElement ''jid'' (mixUserJid p) @ OptionalTextElement ''nick'' (mixUserNick p))] @
      extensionsToXml True (QXmppStanza.truncate p))"

section \<open>Lemmas\<close>

lemma hex_value_digit: "n < 16 \<Longrightarrow> hex_value (hex_digit n) = Some n"
  by (auto simp: hex_value_def hex_digit_def of_char_digit_char)

lemma from_nibbles_pairs: "from_nibbles (concat (map (\<lambda>b. [unat b div 16, unat b mod 16]) bs)) = bs"
proof (induction bs)
  case (Cons b bs)
  have "of_nat (16 * (unat b div 16) + unat b mod 16) = b"
    by (simp only: mult_div_mod_eq) simp
  then show ?case using Cons by simp
qed simp

lemma hex_roundtrip [simp]: "bytes_fromHex (bytes_toHex bs) = bs"
proof -
  have "List.map_filter hex_value (bytes_toHex bs) = concat (map (\<lambda>b. [unat b div 16, unat b mod 16]) bs)"
  proof (induction bs)
    case (Cons b bs)
    have "unat b div 16 < 16" "unat b mod 16 < 16" using unsigned_less [of b, where ?'a = nat] by simp_all
    then show ?case using Cons by (simp add: bytes_toHex_def map_filter_simps hex_value_digit)
  qed (simp add: bytes_toHex_def map_filter_simps)
  moreover have "even (length (concat (map (\<lambda>b :: byte. [unat b div 16, unat b mod 16]) bs)))"
    by (induction bs) auto
  ultimately show ?thesis by (simp add: bytes_fromHex_def from_nibbles_pairs Let_def)
qed

lemma toHex_Nil [simp]: "bytes_toHex bs = [] \<longleftrightarrow> bs = []"
  by (cases bs) (simp_all add: bytes_toHex_def)

lemma presence_names:
  "enum_fromString PresenceType_Values (enum_toString PresenceType_Values t) = Some t"
  "enum_toString PresenceType_Values t = [] \<longleftrightarrow> t = Available"
  by (cases t; simp add: enum_fromString_def enum_toString_def PresenceType_Values_def)+

lemma status_names:
  "enum_fromString AvailableStatusType_Values (enum_toString AvailableStatusType_Values s) = Some s"
  "enum_toString AvailableStatusType_Values s = [] \<longleftrightarrow> s = Online"
  by (cases s; simp add: enum_fromString_def enum_toString_def AvailableStatusType_Values_def)+

lemma Affiliation_names:
  "enum_fromString Affiliation_Values (toLower (enum_toString Affiliation_Values a)) = Some a"
  "enum_toString Affiliation_Values a = [] \<longleftrightarrow> a = UnspecifiedAffiliation"
  by (cases a; simp add: enum_fromString_def enum_toString_def Affiliation_Values_def toLower_def)+

lemma Role_names:
  "enum_fromString Role_Values (toLower (enum_toString Role_Values r)) = Some r"
  "enum_toString Role_Values r = [] \<longleftrightarrow> r = UnspecifiedRole"
  by (cases r; simp add: enum_fromString_def enum_toString_def Role_Values_def toLower_def)+

lemma toLower_Nil [simp]: "toLower [] = []"
  by (simp add: toLower_def)

lemma empty_names:
  "enum_fromString Role_Values [] = Some UnspecifiedRole"
  "enum_fromString Affiliation_Values [] = Some UnspecifiedAffiliation"
  "enum_fromString PresenceType_Values [] = Some Available"
  by (simp_all add: enum_fromString_def Role_Values_def Affiliation_Values_def PresenceType_Values_def)

lemma MucItem_null: "MucItem_isNull i \<longleftrightarrow> i = new_MucItem"
  by (cases i) (auto simp: MucItem_isNull_def new_MucItem_def)

lemma MucItem_parse_null: "MucItem_parse None = new_MucItem"
  by (simp add: MucItem_parse_def new_MucItem_def null_element_def attr_def empty_names dom_simps child_text_def)

lemma optional_text_nodes:
  "concat (map (item_nodes n) (OptionalTextElement t v)) = (if v = [] then [] else [Elem t n [] [Text v]])"
  "concat (map item_attrs (OptionalTextElement t v)) = []"
  by (simp_all add: OptionalTextElement_def writeTextOrEmptyElement_def ElementInherit_def build_def)

lemma single_attribute_nodes:
  "concat (map (item_nodes ns) (SingleAttributeElements t k vs)) = map (\<lambda>v. Elem t ns [(k, v)] []) vs"
  "concat (map item_attrs (SingleAttributeElements t k vs)) = []"
  by (induction vs) (simp_all add: SingleAttributeElements_def ElementInherit_def build_def)

lemma MucItem_written:
  assumes "\<not> MucItem_isNull i"
  obtains as cs where "concat (map (item_nodes n) (MucItem_toXml i)) = [Elem ''item'' n as cs]"
    and "concat (map item_attrs (MucItem_toXml i)) = []" and "MucItem_parse (Some (Elem ''item'' n as cs)) = i"
proof -
  let ?as = "(if muc_affiliation i = UnspecifiedAffiliation then [] else [(''affiliation'', enum_toString Affiliation_Values (muc_affiliation i))]) @
    (if muc_jid i = [] then [] else [(''jid'', muc_jid i)]) @ (if muc_nick i = [] then [] else [(''nick'', muc_nick i)]) @
    (if muc_role i = UnspecifiedRole then [] else [(''role'', enum_toString Role_Values (muc_role i))])"
  let ?cs = "(if muc_actor i = [] then [] else [Elem ''actor'' n [(''jid'', muc_actor i)] []]) @
    (if muc_reason i = [] then [] else [Elem ''reason'' n [] [Text (muc_reason i)]])"
  have "concat (map (item_nodes n) (MucItem_toXml i)) = [Elem ''item'' n ?as ?cs]"
    "concat (map item_attrs (MucItem_toXml i)) = []"
    using assms
    by (simp_all add: MucItem_toXml_def ElementInherit_def build_def OptionalAttribute_def OptionalContent_def optional_text_nodes
        Affiliation_names Role_names)
  moreover have "MucItem_parse (Some (Elem ''item'' n ?as ?cs)) = i"
    by (cases i) (auto simp: MucItem_parse_def attr_def dom_simps child_text_def Affiliation_names Role_names empty_names matches_def)
  ultimately show ?thesis by (rule that)
qed

section \<open>What is read back\<close>

definition front_items :: "'c QXmppPresence \<Rightarrow> item list" where
  "front_items p = OptionalTextElement ''show'' (enum_toString AvailableStatusType_Values (availableStatusType p)) @
     OptionalTextElement ''status'' (statusText p) @
     (if priority p \<noteq> 0 then OptionalTextElement ''priority'' (serializeInt (priority p)) else [])"

definition error_items :: "'c presence_env \<Rightarrow> 'c QXmppPresence \<Rightarrow> item list" where
  "error_items e p = (case st_error p of None \<Rightarrow> [] | Some err \<Rightarrow> StanzaError_toXml (pe_nonza e) err)"

definition muc_items :: "'c QXmppPresence \<Rightarrow> item list" where
  "muc_items p =
     OptionalContent (mucSupported p) [Element ''x'' ns_muc (OptionalTextElement ''password'' (mucPassword p))] @
     OptionalContent (\<not> MucItem_isNull (mucItem p) \<or> mucStatusCodes p \<noteq> [])
       [Element ''x'' ns_muc_user
          (MucItem_toXml (mucItem p) @ SingleAttributeElements ''status'' ''code'' (map serializeInt (mucStatusCodes p)))]"

definition caps_items :: "'c presence_env \<Rightarrow> 'c QXmppPresence \<Rightarrow> item list" where
  "caps_items e p =
     OptionalContent (capabilityNode p \<noteq> [] \<and> capabilityVer p \<noteq> [] \<and> capabilityHash p \<noteq> [])
       [Element ''c'' ns_capabilities [Attribute ''hash'' (capabilityHash p), Attribute ''node'' (capabilityNode p),
          Attribute ''ver'' (serializeBase64 (pe_nonza e) (capabilityVer p))]]"

definition vcard_items :: "'c QXmppPresence \<Rightarrow> item list" where
  "vcard_items p =
     OptionalContent (vCardUpdateType p \<noteq> VCardUpdateNone)
       [Element ''x'' ns_vcard_update
          (case vCardUpdateType p of
             VCardUpdateNoPhoto \<Rightarrow> [ElementInherit ''photo'' []]
           | VCardUpdateValidPhoto \<Rightarrow> [TextElement ''photo'' (bytes_toHex (photoHash p))]
           | _ \<Rightarrow> [])]"

definition muji_items :: "'c presence_env \<Rightarrow> 'c QXmppPresence \<Rightarrow> item list" where
  "muji_items e p =
     OptionalContent (isPreparingMujiSession p \<or> mujiContents p \<noteq> [])
       [Element ''muji'' ns_muji
          (OptionalContent (isPreparingMujiSession p) [ElementInherit ''preparing'' []] @ map (content_toXml e) (mujiContents p))]"

definition rest_items :: "'c presence_env \<Rightarrow> 'c QXmppPresence \<Rightarrow> item list" where
  "rest_items e p =
     OptionalContent (oldJid p \<noteq> []) [Element ''moved'' ns_moved [TextElement ''old-jid'' (oldJid p)]] @
     OptionalContent (lastUserInteraction p \<noteq> None)
       [Element ''idle'' ns_idle [Attribute ''since'' (datetimeToString (pe_nonza e) (lastUserInteraction p))]] @
     OptionalContent (mixUserJid p \<noteq> [] \<or> mixUserNick p \<noteq> [])
       [Element ''mix'' ns_mix_presence (OptionalTextElement ''jid'' (mixUserJid p) @ OptionalTextElement ''nick'' (mixUserNick p))]"

text \<open>Elements no part of the parser knows.\<close>

definition unknown_extension :: "dom \<Rightarrow> bool" where
  "unknown_extension el \<longleftrightarrow> isElement el \<and> tagName el \<notin> {''show'', ''status'', ''priority'', ''error''} \<and>
     \<not> (tagName el = ''addresses'' \<and> namespaceURI el = ns_extended_addressing) \<and>
     namespaceURI el \<notin> {ns_muc, ns_muc_user, ns_capabilities, ns_vcard_update, ns_muji, ns_moved, ns_idle, ns_mix_presence}"

definition presence_laws :: "'c presence_env \<Rightarrow> bool" where
  "presence_laws e \<longleftrightarrow> nonza_laws (pe_nonza e) \<and> (\<forall>x. lenientBase64 e (serializeBase64 (pe_nonza e) x) = x) \<and>
     (\<forall>c n. item_attrs (content_toXml e c) = [] \<and>
        (\<exists>el. item_nodes n (content_toXml e c) = [el] \<and> isElement el \<and> tagName el = ''content'' \<and> content_parse e el = Some c))"

text \<open>
  What a presence must not have to come back: half of the capabilities or their obsolete part, a
  photo of another state, a password without a room, numbers beyond 32 bits, invalid addresses,
  an error without type and condition, and extensions the parser would read as its own.
\<close>

definition presence_ok :: "'c QXmppPresence \<Rightarrow> bool" where
  "presence_ok p \<longleftrightarrow>
     st_lang p = [] \<and> list_all isValid_address (st_addresses p) \<and> list_all unknown_extension (st_extensions p) \<and>
     (case st_error p of None \<Rightarrow> True | Some err \<Rightarrow> error_ok err) \<and>
     - (2 ^ 31) \<le> priority p \<and> priority p < 2 ^ 31 \<and> list_all (\<lambda>c. - (2 ^ 31) \<le> c \<and> c < 2 ^ 31) (mucStatusCodes p) \<and>
     (mucPassword p \<noteq> [] \<longrightarrow> mucSupported p) \<and>
     (capabilityNode p = [] \<and> capabilityVer p = [] \<and> capabilityHash p = [] \<or>
      capabilityNode p \<noteq> [] \<and> capabilityVer p \<noteq> [] \<and> capabilityHash p \<noteq> []) \<and> capabilityExt p = [] \<and>
     (photoHash p \<noteq> [] \<longleftrightarrow> vCardUpdateType p = VCardUpdateValidPhoto)"

lemmas presence_ns_defs = ns_muc_def ns_muc_user_def ns_capabilities_def ns_vcard_update_def ns_muji_def ns_moved_def ns_idle_def
  ns_mix_presence_def ns_extended_addressing_def

lemma read_front:
  assumes "availableStatusType q = Online" "statusText q = []" "priority q = 0" "- (2 ^ 31) \<le> priority p" "priority p < 2 ^ 31"
  shows "fold (presence_child e) (concat (map (item_nodes n) (front_items p))) q =
    q\<lparr>availableStatusType := availableStatusType p, statusText := statusText p, priority := priority p\<rparr>"
proof -
  have prio: "to_signed 32 (serializeInt (priority p)) = Some (priority p)"
    using to_signed_serializeInt [of 32 "priority p"] assms(4,5) by simp
  have 1: "fold (presence_child e) (concat (map (item_nodes n) (OptionalTextElement ''show''
      (enum_toString AvailableStatusType_Values (availableStatusType p))))) q = q\<lparr>availableStatusType := availableStatusType p\<rparr>"
    using assms(1) by (auto simp: optional_text_nodes status_names presence_child_def)
  have 2: "fold (presence_child e) (concat (map (item_nodes n) (OptionalTextElement ''status'' (statusText p)))) r =
      r\<lparr>statusText := statusText p\<rparr>" if "statusText r = []" for r
    using that by (auto simp: optional_text_nodes presence_child_def)
  have 3: "fold (presence_child e) (concat (map (item_nodes n) (if priority p \<noteq> 0 then OptionalTextElement ''priority'' (serializeInt (priority p)) else []))) r =
      r\<lparr>priority := priority p\<rparr>" if "priority r = 0" for r
    using that by (auto simp: optional_text_nodes presence_child_def prio)
  show ?thesis
    unfolding front_items_def map_append concat_append fold_append comp_def
    by (simp add: 1 2 3 assms(2,3))
qed

lemma read_error: "fold (presence_child e) (concat (map (item_nodes n) (error_items e p))) q = q"
proof -
  have "presence_child e (Elem ''error'' n as cs) q = q" for as cs
    by (simp add: presence_child_def)
  then show ?thesis
    by (auto simp: error_items_def StanzaError_toXml_def ElementInherit_def build_def split: option.split)
qed

lemma read_muc:
  assumes "mucSupported q = False" "mucPassword q = []" "mucItem q = new_MucItem" "mucStatusCodes q = []"
    and "mucPassword p \<noteq> [] \<longrightarrow> mucSupported p" and "list_all (\<lambda>c. - (2 ^ 31) \<le> c \<and> c < 2 ^ 31) (mucStatusCodes p)"
  shows "fold (presence_child e) (concat (map (item_nodes n) (muc_items p))) q =
    q\<lparr>mucSupported := mucSupported p, mucPassword := mucPassword p, mucItem := mucItem p, mucStatusCodes := mucStatusCodes p\<rparr>"
proof -
  let ?i1 = "OptionalContent (mucSupported p) [Element ''x'' ns_muc (OptionalTextElement ''password'' (mucPassword p))]"
  let ?items = "MucItem_toXml (mucItem p) @ SingleAttributeElements ''status'' ''code'' (map serializeInt (mucStatusCodes p))"
  let ?i2 = "OptionalContent (\<not> MucItem_isNull (mucItem p) \<or> mucStatusCodes p \<noteq> []) [Element ''x'' ns_muc_user ?items]"
  have 1: "fold (presence_child e) (concat (map (item_nodes n) ?i1)) r =
      r\<lparr>mucSupported := mucSupported p, mucPassword := mucPassword p\<rparr>" if "mucSupported r = False" "mucPassword r = []" for r
    using that assms(5)
    by (auto simp: OptionalContent_def Element_def build_def optional_text_nodes presence_child_def presence_parseExtension_def
        child_text_def dom_simps matches_def)
  have codes: "map (\<lambda>s. case to_signed 32 (attr ''code'' s) of None \<Rightarrow> 0 | Some n \<Rightarrow> n)
      (map (\<lambda>v. Elem ''status'' ns_muc_user [(''code'', v)] []) (map serializeInt cs)) = cs"
    if "list_all (\<lambda>c. - (2 ^ 31) \<le> c \<and> c < 2 ^ 31) cs" for cs
    using that to_signed_serializeInt [of 32] by (induction cs) (auto simp: attr_def)
  have st: "filter (matches ''status'' []) (map (\<lambda>v. Elem ''status'' ns_muc_user [(''code'', v)] []) vs) =
      map (\<lambda>v. Elem ''status'' ns_muc_user [(''code'', v)] []) vs"
    "List.find (matches ''item'' []) (map (\<lambda>v. Elem ''status'' ns_muc_user [(''code'', v)] []) vs) = None" for vs
    by (induction vs) (simp_all add: matches_def)
  have 2: "fold (presence_child e) (concat (map (item_nodes n) ?i2)) r =
      r\<lparr>mucItem := mucItem p, mucStatusCodes := mucStatusCodes p\<rparr>" if "mucItem r = new_MucItem" "mucStatusCodes r = []" for r
  proof (cases "MucItem_isNull (mucItem p)")
    case True
    then have i: "mucItem p = new_MucItem" "MucItem_toXml (mucItem p) = []" by (simp_all add: MucItem_null MucItem_toXml_def)
    have ne: "ns_muc_user \<noteq> ns_muc" by (simp add: presence_ns_defs)
    show ?thesis
    proof (cases "mucStatusCodes p")
      case Nil
      then show ?thesis using that True i by (simp add: OptionalContent_def)
    next
      case (Cons c cs)
      then have "OptionalContent (\<not> MucItem_isNull (mucItem p) \<or> mucStatusCodes p \<noteq> []) [Element ''x'' ns_muc_user ?items] =
          [Element ''x'' ns_muc_user (SingleAttributeElements ''status'' ''code'' (map serializeInt (mucStatusCodes p)))]"
        by (simp add: OptionalContent_def i(2))
      then show ?thesis
        using that i(1) ne codes [OF assms(6)] MucItem_parse_null
        by (simp add: Element_def build_def single_attribute_nodes presence_child_def presence_parseExtension_def dom_simps st
          del: map_map)
    qed
  next
    case False
    obtain as cs where m: "concat (map (item_nodes ns_muc_user) (MucItem_toXml (mucItem p))) = [Elem ''item'' ns_muc_user as cs]"
      "concat (map item_attrs (MucItem_toXml (mucItem p))) = []" "MucItem_parse (Some (Elem ''item'' ns_muc_user as cs)) = mucItem p"
      by (rule MucItem_written [OF False])
    have "ns_muc_user \<noteq> ns_muc" by (simp add: presence_ns_defs)
    then show ?thesis
      using that False m codes [OF assms(6)]
      by (simp add: OptionalContent_def Element_def build_def single_attribute_nodes presence_child_def
          presence_parseExtension_def dom_simps st matches_def)
  qed
  show ?thesis
    unfolding muc_items_def map_append concat_append fold_append comp_def 1 [OF assms(1,2)]
    by (subst 2) (simp_all add: assms(3,4))
qed

lemma read_caps:
  assumes "presence_laws e" "capabilityNode q = []" "capabilityVer q = []" "capabilityHash q = []" "capabilityExt q = []"
    and "capabilityNode p = [] \<and> capabilityVer p = [] \<and> capabilityHash p = [] \<or>
      capabilityNode p \<noteq> [] \<and> capabilityVer p \<noteq> [] \<and> capabilityHash p \<noteq> []"
  shows "fold (presence_child e) (concat (map (item_nodes n) (caps_items e p))) q =
    q\<lparr>capabilityNode := capabilityNode p, capabilityVer := capabilityVer p, capabilityHash := capabilityHash p\<rparr>"
  using assms
  by (auto simp: caps_items_def OptionalContent_def Element_def build_def presence_child_def presence_parseExtension_def attr_def
      presence_laws_def)

lemma vcard_ns_neq: "ns_vcard_update \<noteq> ns_muc" "ns_vcard_update \<noteq> ns_muc_user"
  by (simp_all add: presence_ns_defs)

lemma read_vcard:
  assumes "photoHash q = []" "vCardUpdateType q = VCardUpdateNone" "photoHash p \<noteq> [] \<longleftrightarrow> vCardUpdateType p = VCardUpdateValidPhoto"
  shows "fold (presence_child e) (concat (map (item_nodes n) (vcard_items p))) q =
    q\<lparr>photoHash := photoHash p, vCardUpdateType := vCardUpdateType p\<rparr>"
proof -
  have hex: "bytes_fromHex [] = []" by (simp add: bytes_fromHex_def map_filter_simps)
  have "fold (presence_child e) (concat (map (item_nodes n) (vcard_items p))) q =
      q\<lparr>photoHash := (if vCardUpdateType p = VCardUpdateValidPhoto then photoHash p else []), vCardUpdateType := vCardUpdateType p\<rparr>"
    using assms
    by (cases "vCardUpdateType p")
      (simp_all add: vcard_items_def OptionalContent_def Element_def build_def presence_child_def presence_parseExtension_def vcard_ns_neq
        dom_simps matches_def ElementInherit_def TextElement_def writeTextOrEmptyElement_def hex Let_def)
  then show ?thesis using assms(3) by (simp split: if_splits)
qed

lemma read_muji:
  assumes "presence_laws e" "isPreparingMujiSession q = False" "mujiContents q = []"
  shows "fold (presence_child e) (concat (map (item_nodes n) (muji_items e p))) q =
    q\<lparr>isPreparingMujiSession := isPreparingMujiSession p, mujiContents := mujiContents p\<rparr>"
proof -
  define el where "el c = hd (item_nodes ns_muji (content_toXml e c))" for c
  have el: "item_nodes ns_muji (content_toXml e c) = [el c]" "item_attrs (content_toXml e c) = []" "isElement (el c)"
    "tagName (el c) = ''content''" "content_parse e (el c) = Some c" for c
    using assms(1) by (auto simp: presence_laws_def el_def) (metis list.sel(1))+
  have nodes: "concat (map (item_nodes ns_muji) (map (content_toXml e) cs)) = map el cs"
    "concat (map item_attrs (map (content_toXml e) cs)) = []" for cs
    by (induction cs) (simp_all add: el)
  have parse: "concat (map (\<lambda>c. case content_parse e c of None \<Rightarrow> [] | Some v \<Rightarrow> [v]) (map el cs)) = cs" for cs
    by (induction cs) (simp_all add: el)
  have flt: "filter (matches ''content'' []) (map el cs) = map el cs" "List.find (matches ''preparing'' []) (map el cs) = None" for cs
    by (induction cs) (simp_all add: matches_def el)
  have ne: "ns_muji \<noteq> ns_vcard_update" by (simp add: presence_ns_defs)
  show ?thesis
    using assms(2,3)
    by (cases "isPreparingMujiSession p"; cases "mujiContents p = []")
      (simp_all add: muji_items_def OptionalContent_def Element_def build_def presence_child_def presence_parseExtension_def ne nodes
        dom_simps matches_def ElementInherit_def parseChildElements_def flt parse del: map_map)
qed

lemma rest_ns_neq: "ns_moved \<noteq> ns_vcard_update" "ns_idle \<noteq> ns_vcard_update" "ns_mix_presence \<noteq> ns_vcard_update"
  by (simp_all add: presence_ns_defs)

lemma read_rest:
  assumes "presence_laws e" "oldJid q = []" "lastUserInteraction q = None" "mixUserJid q = []" "mixUserNick q = []"
  shows "fold (presence_child e) (concat (map (item_nodes n) (rest_items e p))) q =
    q\<lparr>oldJid := oldJid p, lastUserInteraction := lastUserInteraction p, mixUserJid := mixUserJid p, mixUserNick := mixUserNick p\<rparr>"
proof -
  let ?i1 = "OptionalContent (oldJid p \<noteq> []) [Element ''moved'' ns_moved [TextElement ''old-jid'' (oldJid p)]]"
  let ?i2 = "OptionalContent (lastUserInteraction p \<noteq> None)
    [Element ''idle'' ns_idle [Attribute ''since'' (datetimeToString (pe_nonza e) (lastUserInteraction p))]]"
  let ?i3 = "OptionalContent (mixUserJid p \<noteq> [] \<or> mixUserNick p \<noteq> [])
    [Element ''mix'' ns_mix_presence (OptionalTextElement ''jid'' (mixUserJid p) @ OptionalTextElement ''nick'' (mixUserNick p))]"
  have dt: "datetimeFromString (pe_nonza e) (datetimeToString (pe_nonza e) t) = t" for t
    using assms(1) by (simp add: presence_laws_def base64_laws)
  have 1: "fold (presence_child e) (concat (map (item_nodes n) ?i1)) r = r\<lparr>oldJid := oldJid p\<rparr>" if "oldJid r = []" for r
    using that by (cases "oldJid p = []") (simp_all add: OptionalContent_def Element_def build_def presence_child_def
        presence_parseExtension_def rest_ns_neq child_text_def dom_simps matches_def TextElement_def writeTextOrEmptyElement_def ElementInherit_def)
  have 2: "fold (presence_child e) (concat (map (item_nodes n) ?i2)) r = r\<lparr>lastUserInteraction := lastUserInteraction p\<rparr>"
    if "lastUserInteraction r = None" for r
    using that by (cases "lastUserInteraction p = None") (simp_all add: OptionalContent_def Element_def build_def presence_child_def
        presence_parseExtension_def rest_ns_neq attr_def hasAttribute_def dt)
  have 3: "fold (presence_child e) (concat (map (item_nodes n) ?i3)) r = r\<lparr>mixUserJid := mixUserJid p, mixUserNick := mixUserNick p\<rparr>"
    if "mixUserJid r = []" "mixUserNick r = []" for r
    using that by (cases "mixUserJid p = []"; cases "mixUserNick p = []") (simp_all add: OptionalContent_def Element_def build_def
        presence_child_def presence_parseExtension_def rest_ns_neq child_text_def dom_simps matches_def optional_text_nodes)
  show ?thesis
    unfolding rest_items_def map_append concat_append fold_append comp_def 1 [OF assms(2)]
    by (subst 2, simp add: assms(3), subst 3) (simp_all add: assms(4,5))
qed

lemma read_extensions:
  "list_all unknown_extension els \<Longrightarrow> fold (presence_child e) els q = q\<lparr>st_extensions := st_extensions q @ els\<rparr>"
proof (induction els arbitrary: q)
  case (Cons el els)
  have "presence_child e el q = q\<lparr>st_extensions := st_extensions q @ [el]\<rparr>"
    using Cons.prems by (auto simp: unknown_extension_def presence_child_def presence_parseExtension_def)
  then show ?case using Cons by simp
qed simp

section \<open>The whole presence\<close>

definition presence_nodes :: "'c presence_env \<Rightarrow> qstring \<Rightarrow> 'c QXmppPresence \<Rightarrow> dom list" where
  "presence_nodes e n p = concat (map (item_nodes n) (muc_items p @ caps_items e p @ vcard_items p @ muji_items e p @ rest_items e p))"

definition address_nodes :: "'c QXmppPresence \<Rightarrow> dom list" where
  "address_nodes p = (if st_addresses p \<noteq> []
     then [build ''addresses'' ns_extended_addressing (map ExtendedAddress_toXml (st_addresses p))] else [])"

definition presence_attrs :: "'c QXmppPresence \<Rightarrow> (qstring \<times> qstring) list" where
  "presence_attrs p = concat (map item_attrs
     (OptionalAttribute ''xml:lang'' (st_lang p) @ OptionalAttribute ''id'' (st_id p) @ OptionalAttribute ''to'' (st_to p) @
      OptionalAttribute ''from'' (st_from p) @ OptionalAttribute ''type'' (enum_toString PresenceType_Values (presence_type p))))"

lemma error_shape: "error_items e p = [] \<or> (\<exists>items. error_items e p = [ElementInherit ''error'' items])"
proof -
  have "StanzaError_toXml x d = [] \<or> (\<exists>items. StanzaError_toXml x d = [ElementInherit ''error'' items])" for x d
    unfolding StanzaError_toXml_def by (rule if_split [THEN iffD2]) blast
  then show ?thesis by (simp add: error_items_def split: option.split)
qed

lemma front_tags: "c \<in> set (concat (map (item_nodes n) (front_items p))) \<Longrightarrow> isElement c \<and> tagName c \<in> {''show'', ''status'', ''priority''}"
  by (auto simp: front_items_def OptionalTextElement_def writeTextOrEmptyElement_def ElementInherit_def build_def split: if_splits)

lemma error_tags: "c \<in> set (concat (map (item_nodes n) (error_items e p))) \<Longrightarrow> isElement c \<and> tagName c = ''error'' \<and> namespaceURI c = n"
  using error_shape [of e p] by (auto simp: ElementInherit_def build_def)

lemma node_tags:
  assumes "c \<in> set (presence_nodes e n p)"
  shows "isElement c \<and> tagName c \<in> {''x'', ''c'', ''muji'', ''moved'', ''idle'', ''mix''}"
proof -
  have *: "isElement c \<and> tagName c = t" if "c \<in> set (concat (map (item_nodes n) (OptionalContent b [Element t ns items])))" for b t ns items
    using that by (simp add: OptionalContent_def Element_def build_def split: if_splits)
  show ?thesis
    using assms
    unfolding presence_nodes_def muc_items_def caps_items_def vcard_items_def muji_items_def rest_items_def map_append concat_append
      set_append Un_iff
    by (elim disjE) (drule *, simp)+
qed

lemma no_attrs:
  "concat (map item_attrs (front_items p)) = []" "concat (map item_attrs (error_items e p)) = []"
  "concat (map item_attrs (muc_items p @ caps_items e p @ vcard_items p @ muji_items e p @ rest_items e p)) = []"
proof -
  show "concat (map item_attrs (front_items p)) = []" by (simp add: front_items_def OptionalTextElement_def writeTextOrEmptyElement_def ElementInherit_def)
  show "concat (map item_attrs (error_items e p)) = []" using error_shape [of e p] by (auto simp: ElementInherit_def)
  show "concat (map item_attrs (muc_items p @ caps_items e p @ vcard_items p @ muji_items e p @ rest_items e p)) = []"
  proof -
    have "concat (map item_attrs (OptionalContent c [Element t ns items])) = []" for c t ns items
      by (simp add: OptionalContent_def Element_def)
    then show ?thesis
      unfolding muc_items_def caps_items_def vcard_items_def muji_items_def rest_items_def map_append concat_append by simp
  qed
qed

lemma extension_nodes: "concat (map (item_nodes n) (extensions_item els)) = els" "concat (map item_attrs (extensions_item els)) = []"
  by (induction els) (simp_all add: extensions_item_def)

lemma presence_written:
  "item_nodes n (QXmppPresence_toXml e p) =
     [Elem ''presence'' n (presence_attrs p)
        (concat (map (item_nodes n) (front_items p)) @ concat (map (item_nodes n) (error_items e p)) @ presence_nodes e n p @
         address_nodes p @ st_extensions p)]"
proof -
  have "QXmppPresence_toXml e p = ElementInherit ''presence''
     ((OptionalAttribute ''xml:lang'' (st_lang p) @ OptionalAttribute ''id'' (st_id p) @ OptionalAttribute ''to'' (st_to p) @
      OptionalAttribute ''from'' (st_from p) @ OptionalAttribute ''type'' (enum_toString PresenceType_Values (presence_type p))) @
      front_items p @ error_items e p @ (muc_items p @ caps_items e p @ vcard_items p @ muji_items e p @ rest_items e p) @
      extensionsToXml True (QXmppStanza.truncate p))"
    unfolding QXmppPresence_toXml_def front_items_def error_items_def muc_items_def caps_items_def vcard_items_def muji_items_def
      rest_items_def append_assoc by (rule refl)
  moreover have "concat (map (item_nodes n) (extensionsToXml True (QXmppStanza.truncate p))) = address_nodes p @ st_extensions p"
    "concat (map item_attrs (extensionsToXml True (QXmppStanza.truncate p))) = []"
    by (simp_all add: extensionsToXml_def QXmppStanza.truncate_def address_nodes_def Element_def extension_nodes)
  moreover have "concat (map (item_nodes n) (OptionalAttribute k v)) = []" for k v
    by (simp add: OptionalAttribute_def)
  ultimately show ?thesis
    by (simp only: ElementInherit_def item_nodes.simps build_def map_append concat_append no_attrs [unfolded map_append concat_append]
        presence_nodes_def presence_attrs_def append_Nil append_Nil2 append_assoc)
qed

lemma find_tag_None:
  "(\<And>c. c \<in> set cs \<Longrightarrow> isElement c \<and> tagName c \<in> T) \<Longrightarrow> t \<noteq> [] \<Longrightarrow> t \<notin> T \<Longrightarrow> List.find (matches t n) cs = None"
  by (induction cs) (auto simp: matches_def)

lemma find_front:
  "t \<noteq> [] \<Longrightarrow> t \<notin> {''show'', ''status'', ''priority''} \<Longrightarrow> List.find (matches t m) (concat (map (item_nodes n) (front_items p))) = None"
  using front_tags by (rule find_tag_None)

lemma find_error:
  "t \<noteq> [] \<Longrightarrow> t \<notin> {''error''} \<Longrightarrow> List.find (matches t m) (concat (map (item_nodes n) (error_items e p))) = None"
  using error_tags [of _ n e p] by (intro find_tag_None [where T = "{''error''}"]) blast+

lemma find_nodes:
  "t \<noteq> [] \<Longrightarrow> t \<notin> {''x'', ''c'', ''muji'', ''moved'', ''idle'', ''mix''} \<Longrightarrow> List.find (matches t m) (presence_nodes e n p) = None"
  using node_tags by (rule find_tag_None)

lemmas find_pieces = find_front find_error find_nodes

lemma addresses_back:
  assumes "list_all isValid_address as"
  shows "filter isValid_address (map ExtendedAddress_parse
     (iterChildElements (build ''addresses'' ns_extended_addressing (map ExtendedAddress_toXml as)) ''address'' ns_extended_addressing)) = as"
proof -
  have one: "item_nodes ns_extended_addressing (ExtendedAddress_toXml a) = [x] \<Longrightarrow> ExtendedAddress_parse x = a \<and>
      matches ''address'' ns_extended_addressing x" for a x
    by (cases "delivered a"; cases "description a = []"; cases a)
      (auto simp: ExtendedAddress_toXml_def ElementInherit_def build_def ExtendedAddress_parse_def matches_def
        attr_def DefaultedBoolAttribute_def OptionalAttribute_def)
  have ex: "\<exists>x. item_nodes ns_extended_addressing (ExtendedAddress_toXml a) = [x]" for a
    by (simp add: ExtendedAddress_toXml_def ElementInherit_def)
  have "map ExtendedAddress_parse (filter (matches ''address'' ns_extended_addressing)
      (concat (map (item_nodes ns_extended_addressing) (map ExtendedAddress_toXml as)))) = as"
  proof (induction as)
    case (Cons a as)
    obtain x where "item_nodes ns_extended_addressing (ExtendedAddress_toXml a) = [x]" using ex by blast
    with one [OF this] Cons show ?case by simp
  qed simp
  then show ?thesis
    using assms by (simp add: dom_simps build_def list_all_iff filter_id_conv)
qed

lemma presence_stanza_back:
  assumes "presence_laws e" and "presence_ok p"
  shows "QXmppStanza_parse (pe_nonza e) (Elem ''presence'' n (presence_attrs p)
        (concat (map (item_nodes n) (front_items p)) @ concat (map (item_nodes n) (error_items e p)) @ presence_nodes e n p @
         address_nodes p @ st_extensions p)) = (QXmppStanza.truncate p)\<lparr>st_extensions := []\<rparr>"
    (is "QXmppStanza_parse _ ?el = _")
proof -
  have ok: "st_lang p = []" "list_all isValid_address (st_addresses p)" "list_all unknown_extension (st_extensions p)"
    "\<And>err. st_error p = Some err \<Longrightarrow> error_ok err"
    using assms(2) by (auto simp: presence_ok_def split: option.splits)
  have attrs: "attr ''to'' ?el = st_to p" "attr ''from'' ?el = st_from p" "attr ''id'' ?el = st_id p" "attr ''lang'' ?el = []"
    by (simp_all add: attr_def presence_attrs_def OptionalAttribute_def ok(1))
  have ext: "List.find (matches ''error'' n) (st_extensions p) = None"
    "List.find (matches ''addresses'' ns_extended_addressing) (st_extensions p) = None"
    using ok(3) by (auto simp: find_None_iff list_all_iff unknown_extension_def matches_def presence_ns_defs)
  have adr: "List.find (matches ''error'' n) (address_nodes p) = None"
    by (simp add: address_nodes_def matches_build)
  have *: "map (StanzaError_parse (pe_nonza e)) (concat (map (item_nodes n) (StanzaError_toXml (pe_nonza e) err))) = [err]"
    if "st_error p = Some err" for err
    using StanzaError_back ok(4) that assms(1) by (auto simp: presence_laws_def)
  have err: "parseOptionalChildElement (\<lambda>el. Some (StanzaError_parse (pe_nonza e) el)) ?el ''error'' n = st_error p"
  proof (cases "st_error p")
    case None
    then have "error_items e p = []" by (simp add: error_items_def)
    then show ?thesis
      using None by (simp add: parseOptionalChildElement_def firstChildElement_find find_append find_pieces ext adr)
  next
    case (Some err)
    then obtain x where x: "concat (map (item_nodes n) (error_items e p)) = [x]" "StanzaError_parse (pe_nonza e) x = err"
      using * [OF Some] by (auto simp: error_items_def)
    then have "matches ''error'' n x" using error_tags [of x n e p] by (simp add: matches_def)
    with x Some show ?thesis
      by (simp add: parseOptionalChildElement_def firstChildElement_find find_append find_pieces)
  qed
  have "filter isValid_address (case firstChildElement ?el ''addresses'' ns_extended_addressing of None \<Rightarrow> []
      | Some el \<Rightarrow> map ExtendedAddress_parse (iterChildElements el ''address'' ns_extended_addressing)) = st_addresses p"
  proof (cases "st_addresses p = []")
    case True
    then show ?thesis
      by (simp add: firstChildElement_find find_append find_pieces ext address_nodes_def)
  next
    case False
    then have "firstChildElement ?el ''addresses'' ns_extended_addressing =
        Some (build ''addresses'' ns_extended_addressing (map ExtendedAddress_toXml (st_addresses p)))"
      by (simp add: firstChildElement_find find_append find_pieces address_nodes_def matches_build)
    then show ?thesis using addresses_back [OF ok(2)] by simp
  qed
  then show ?thesis
    using attrs err by (simp add: QXmppStanza_parse_def QXmppStanza.truncate_def ok(1))
qed

lemma presence_elements:
  assumes "list_all unknown_extension els"
  shows "filter (matches [] []) (concat (map (item_nodes n) (front_items p)) @ concat (map (item_nodes n) (error_items e p)) @
       presence_nodes e n p @ address_nodes p @ els) =
     concat (map (item_nodes n) (front_items p)) @ concat (map (item_nodes n) (error_items e p)) @ presence_nodes e n p @
       address_nodes p @ els"
proof -
  have "isElement c" if "c \<in> set (address_nodes p)" for c
    using that by (auto simp: address_nodes_def build_def split: if_splits)
  moreover have "isElement c" if "c \<in> set els" for c
    using assms that by (auto simp: list_all_iff unknown_extension_def)
  ultimately show ?thesis
    using front_tags error_tags node_tags
    by (intro filter_True) (unfold set_append Un_iff matches_def, blast)
qed

text \<open>What the parser starts from.\<close>

definition presence_start :: "'c QXmppPresence \<Rightarrow> 'c QXmppPresence" where
  "presence_start p = QXmppStanza.extend ((QXmppStanza.truncate p)\<lparr>st_extensions := []\<rparr>)
    (QXmppStanza.more (presence_defaults (presence_type p) :: 'c QXmppPresence))"

lemmas presence_start_defs = presence_start_def presence_defaults_def QXmppStanza.extend_def QXmppPresence.fields_def
  QXmppStanza.truncate_def

lemma presence_start_sel:
  "availableStatusType (presence_start p) = Online" "statusText (presence_start p) = []" "priority (presence_start p) = 0"
  "mucSupported (presence_start p) = False" "mucPassword (presence_start p) = []" "mucItem (presence_start p) = new_MucItem"
  "mucStatusCodes (presence_start p) = []" "capabilityNode (presence_start p) = []" "capabilityVer (presence_start p) = []"
  "capabilityHash (presence_start p) = []" "capabilityExt (presence_start p) = []" "photoHash (presence_start p) = []"
  "vCardUpdateType (presence_start p) = VCardUpdateNone" "isPreparingMujiSession (presence_start p) = False"
  "mujiContents (presence_start p) = []" "oldJid (presence_start p) = []" "lastUserInteraction (presence_start p) = None"
  "mixUserJid (presence_start p) = []" "mixUserNick (presence_start p) = []" "st_extensions (presence_start p) = []"
  by (simp_all add: presence_start_defs)

lemma presence_filled:
  "capabilityExt p = [] \<Longrightarrow> (presence_start p)\<lparr>availableStatusType := availableStatusType p, statusText := statusText p, priority := priority p,
     mucSupported := mucSupported p, mucPassword := mucPassword p, mucItem := mucItem p, mucStatusCodes := mucStatusCodes p,
     capabilityNode := capabilityNode p, capabilityVer := capabilityVer p, capabilityHash := capabilityHash p,
     photoHash := photoHash p, vCardUpdateType := vCardUpdateType p,
     isPreparingMujiSession := isPreparingMujiSession p, mujiContents := mujiContents p, oldJid := oldJid p,
     lastUserInteraction := lastUserInteraction p, mixUserJid := mixUserJid p, mixUserNick := mixUserNick p,
     st_extensions := st_extensions p\<rparr> = p"
  by (cases p) (simp add: presence_start_defs)

lemma read_addresses: "fold (presence_child e) (address_nodes p) q = q"
  by (simp add: address_nodes_def build_def presence_child_def)

section \<open>Properties\<close>

text \<open>
  A presence is read back as it was written, with everything it says about the room, the
  capabilities, the avatar, the call, the move, the activity and the channel, in whatever
  namespace the stream has.
\<close>

lemma presence_roundtrip:
  assumes "presence_laws e" and "presence_ok p"
  shows "map (QXmppPresence_parse e) (item_nodes n (QXmppPresence_toXml e p)) = [p]"
proof -
  let ?cs = "concat (map (item_nodes n) (front_items p)) @ concat (map (item_nodes n) (error_items e p)) @ presence_nodes e n p @
    address_nodes p @ st_extensions p"
  let ?el = "Elem ''presence'' n (presence_attrs p) ?cs"
  have ok: "- (2 ^ 31) \<le> priority p" "priority p < 2 ^ 31" "list_all (\<lambda>c. - (2 ^ 31) \<le> c \<and> c < 2 ^ 31) (mucStatusCodes p)"
    "mucPassword p \<noteq> [] \<longrightarrow> mucSupported p" "capabilityExt p = []" "list_all unknown_extension (st_extensions p)"
    "capabilityNode p = [] \<and> capabilityVer p = [] \<and> capabilityHash p = [] \<or>
      capabilityNode p \<noteq> [] \<and> capabilityVer p \<noteq> [] \<and> capabilityHash p \<noteq> []"
    "photoHash p \<noteq> [] \<longleftrightarrow> vCardUpdateType p = VCardUpdateValidPhoto"
    using assms(2) unfolding presence_ok_def by blast+
  have type: "(case enum_fromString PresenceType_Values (attr ''type'' ?el) of None \<Rightarrow> Available | Some t \<Rightarrow> t) = presence_type p"
    by (simp add: attr_def presence_attrs_def OptionalAttribute_def presence_names empty_names)
  have "QXmppPresence_parse e ?el = fold (presence_child e) ?cs (presence_start p)"
    unfolding QXmppPresence_parse_def type presence_start_def presence_stanza_back [OF assms]
    by (simp only: iterChildElements_filter dom.sel presence_elements [OF ok(6)])
  also have "\<dots> = p"
    unfolding presence_nodes_def fold_append map_append concat_append comp_def read_error read_addresses
    apply (subst read_front [OF _ _ _ ok(1,2)], simp add: presence_start_sel, simp add: presence_start_sel, simp add: presence_start_sel)
    apply (subst read_muc [OF _ _ _ _ ok(4,3)], simp add: presence_start_sel, simp add: presence_start_sel, simp add: presence_start_sel, simp add: presence_start_sel)
    apply (subst read_caps [OF assms(1) _ _ _ _ ok(7)], simp add: presence_start_sel, simp add: presence_start_sel, simp add: presence_start_sel, simp add: presence_start_sel)
    apply (subst read_vcard [OF _ _ ok(8)], simp add: presence_start_sel, simp add: presence_start_sel)
    apply (subst read_muji [OF assms(1)], simp add: presence_start_sel, simp add: presence_start_sel)
    apply (subst read_rest [OF assms(1)], simp add: presence_start_sel, simp add: presence_start_sel, simp add: presence_start_sel, simp add: presence_start_sel)
    apply (subst read_extensions [OF ok(6)])
    using presence_filled [OF ok(5)] by (simp add: presence_start_sel)
  finally show ?thesis by (simp add: presence_written)
qed

definition example_presence_env :: "qstring presence_env" where
  "example_presence_env = \<lparr>pe_nonza = example_nonza_env,
     lenientBase64 = (\<lambda>s. case parseBase64 example_nonza_env s of None \<Rightarrow> [] | Some b \<Rightarrow> b),
     content_parse = (\<lambda>el. Some (attr ''name'' el)), content_toXml = (\<lambda>c. ElementInherit ''content'' [Attribute ''name'' c])\<rparr>"

lemma example_presence_laws: "presence_laws example_presence_env"
  using example_nonza_laws base64_laws [OF example_nonza_laws]
  by (simp add: presence_laws_def example_presence_env_def ElementInherit_def build_def attr_def)

definition example_presence :: "qstring QXmppPresence" where
  "example_presence = (presence_defaults Available)\<lparr>st_from := ''room@muc/me'', availableStatusType := Away, statusText := ''lunch'',
     priority := -5, mucItem := new_MucItem\<lparr>muc_affiliation := OwnerAffiliation, muc_role := ModeratorRole\<rparr>,
     mucStatusCodes := [110, 201], vCardUpdateType := VCardUpdateValidPhoto, photoHash := [1, 255],
     isPreparingMujiSession := True, mujiContents := [''audio''], oldJid := ''old@x''\<rparr>"

lemma presence_roundtrip_witness:
  "map (QXmppPresence_parse example_presence_env) (item_nodes ns_client (QXmppPresence_toXml example_presence_env example_presence)) =
     [example_presence]"
  by (rule presence_roundtrip [OF example_presence_laws])
    (simp add: presence_ok_def example_presence_def presence_start_defs new_stanza_def)

end
