(* ===== verification/Roster.thy ===== *)
theory Roster
  imports Presence "HOL-Library.List_Lexorder" "HOL-Library.Char_ord"
begin

text \<open>
  The roster: its IQs from \<^verbatim>\<open>src/base/QXmppRosterIq.cpp\<close>, the copy of the roster and of the
  presences of the contacts which \<^verbatim>\<open>src/client/QXmppRosterManager.cpp\<close> keeps, and the
  verification of moved contacts from \<^verbatim>\<open>src/client/QXmppMovedManager.cpp\<close>.

  The groups of a contact are a set in the source; here they are a list without repetitions,
  whose order stands for the unspecified order of the set.  The packets handed to the client
  and the signals are logs; answers to requests are events.  What a PubSub request for the
  statement of a moved contact yields, and the address an XMPP URI names, are parameters.
\<close>

definition ns_roster :: qstring where "ns_roster = ''jabber:iq:roster''"
definition ns_mix_roster :: qstring where "ns_mix_roster = ''urn:xmpp:mix:roster:0''"
definition ns_qxmpp_export :: qstring where "ns_qxmpp_export = ''org.qxmpp.export''"

section \<open>Items\<close>

datatype SubscriptionType = SubscriptionNone | From | To | Both | Remove | NotSet

record RosterItem =
  item_bareJid :: qstring
  item_type :: SubscriptionType
  item_name :: qstring
  subscriptionStatus :: qstring
  item_groups :: "qstring list"
  item_approved :: bool
  isMixChannel :: bool
  mixParticipantId :: qstring

definition new_RosterItem :: RosterItem where
  "new_RosterItem = \<lparr>item_bareJid = [], item_type = NotSet, item_name = [], subscriptionStatus = [], item_groups = [],
     item_approved = False, isMixChannel = False, mixParticipantId = []\<rparr>"

fun getSubscriptionTypeStr :: "SubscriptionType \<Rightarrow> qstring" where
  "getSubscriptionTypeStr NotSet = []"
| "getSubscriptionTypeStr SubscriptionNone = ''none''"
| "getSubscriptionTypeStr Both = ''both''"
| "getSubscriptionTypeStr From = ''from''"
| "getSubscriptionTypeStr To = ''to''"
| "getSubscriptionTypeStr Remove = ''remove''"

text \<open>An unknown text leaves the type as it is.\<close>

definition setSubscriptionTypeFromStr :: "qstring \<Rightarrow> SubscriptionType \<Rightarrow> SubscriptionType" where
  "setSubscriptionTypeFromStr s t =
     (if s = [] then NotSet else if s = ''none'' then SubscriptionNone else if s = ''both'' then Both
      else if s = ''from'' then From else if s = ''to'' then To else if s = ''remove'' then Remove else t)"

definition RosterItem_parse :: "dom \<Rightarrow> RosterItem" where
  "RosterItem_parse element =
     (let channel = firstChildElement element ''channel'' ns_mix_roster
      in \<lparr>item_bareJid = attr ''jid'' element,
          item_type = setSubscriptionTypeFromStr (attr ''subscription'' element) (item_type new_RosterItem),
          item_name = attr ''name'' element, subscriptionStatus = attr ''ask'' element,
          item_groups = remdups (parseTextElements element ''group'' ns_roster),
          item_approved = (attr ''approved'' element = ''1'' \<or> attr ''approved'' element = ''true''),
          isMixChannel = (channel \<noteq> None),
          mixParticipantId = (case channel of None \<Rightarrow> [] | Some c \<Rightarrow> attr ''participant-id'' c)\<rparr>)"

definition RosterItem_items :: "RosterItem \<Rightarrow> item list" where
  "RosterItem_items i =
     [Attribute ''jid'' (item_bareJid i)] @ OptionalAttribute ''name'' (item_name i) @
     OptionalAttribute ''subscription'' (getSubscriptionTypeStr (item_type i)) @ OptionalAttribute ''ask'' (subscriptionStatus i) @
     DefaultedBoolAttribute ''approved'' (item_approved i) False @ TextElements ''group'' (item_groups i) @
     OptionalContent (isMixChannel i)
       [Element ''channel'' ns_mix_roster (OptionalAttribute ''participant-id'' (mixParticipantId i))]"

text \<open>An item for the export has a namespace of its own.\<close>

definition RosterItem_toXml :: "bool \<Rightarrow> RosterItem \<Rightarrow> item" where
  "RosterItem_toXml external i =
     (if external then Element ''item'' ns_roster (RosterItem_items i) else ElementInherit ''item'' (RosterItem_items i))"

section \<open>IQs\<close>

record QXmppRosterIq = QXmppIq +
  roster_items :: "RosterItem list"
  roster_version :: qstring
  mixAnnotate :: bool

definition new_RosterIq :: "IqType \<Rightarrow> QXmppRosterIq" where
  "new_RosterIq type = QXmppIq.extend (new_QXmppIq type) (QXmppRosterIq.fields [] [] False)"

text \<open>The first child \<^verbatim>\<open>query\<close> of any namespace.\<close>

definition RosterIq_parse :: "nonza_env \<Rightarrow> dom \<Rightarrow> QXmppRosterIq" where
  "RosterIq_parse e element =
     (let query = (case firstChildElement element ''query'' [] of None \<Rightarrow> null_element | Some q \<Rightarrow> q)
      in QXmppStanza.extend (QXmppStanza_parse e element)
           \<lparr>iq_type = (case enum_fromString IqType_Values (attr ''type'' element) of None \<Rightarrow> IqGet | Some t \<Rightarrow> t),
            roster_items = parseChildElements (\<lambda>el. Some (RosterItem_parse el)) query ''item'' ns_roster,
            roster_version = attr ''ver'' query, mixAnnotate = (firstChildElement query ''annotate'' ns_mix_roster \<noteq> None)\<rparr>)"

definition RosterIq_toXml :: "nonza_env \<Rightarrow> QXmppRosterIq \<Rightarrow> item" where
  "RosterIq_toXml e iq = ElementInherit ''iq''
     ([Attribute ''id'' (st_id iq)] @ OptionalAttribute ''to'' (st_to iq) @ OptionalAttribute ''from'' (st_from iq) @
      [Attribute ''type'' (enum_toString IqType_Values (iq_type iq))] @
      [Element ''query'' ns_roster
         (OptionalAttribute ''ver'' (roster_version iq) @
          OptionalContent (mixAnnotate iq) [Element ''annotate'' ns_mix_roster []] @ map (RosterItem_toXml False) (roster_items iq))] @
      (case st_error iq of None \<Rightarrow> [] | Some err \<Rightarrow> StanzaError_toXml e err))"

section \<open>The manager\<close>

datatype stream_management_state = NoStreamManagement | NewStream | ResumedStream

record roster_config =
  rc_jid :: qstring
  rc_jidBare :: qstring
  autoAcceptSubscriptions :: bool
  hasMovedManager :: bool

datatype 'c roster_packet = RosterPacket QXmppRosterIq | ResultPacket QXmppIq | PresencePacket "'c QXmppPresence"
  | MovedStatementRequest qstring

datatype 'c roster_signal = RosterReceived | ItemAdded qstring | ItemChanged qstring | ItemRemoved qstring
  | PresenceChanged qstring qstring | SubscriptionReceived qstring | SubscriptionRequestReceived qstring "'c QXmppPresence"
  | SubscriptionRemoved qstring

record 'c RosterManager =
  entries :: "(qstring \<times> RosterItem) list"
  presences :: "(qstring \<times> (qstring \<times> 'c QXmppPresence) list) list"
  isRosterReceived :: bool
  moved_pending :: "'c QXmppPresence list"
  rm_sent :: "'c roster_packet list"
  rm_signals :: "'c roster_signal list"

definition new_RosterManager :: "'c RosterManager" where
  "new_RosterManager = \<lparr>entries = [], presences = [], isRosterReceived = False, moved_pending = [], rm_sent = [], rm_signals = []\<rparr>"

definition rm_send :: "'c roster_packet \<Rightarrow> 'c RosterManager \<Rightarrow> 'c RosterManager" where
  "rm_send p s = s\<lparr>rm_sent := rm_sent s @ [p]\<rparr>"

definition rm_emit :: "'c roster_signal \<Rightarrow> 'c RosterManager \<Rightarrow> 'c RosterManager" where
  "rm_emit x s = s\<lparr>rm_signals := rm_signals s @ [x]\<rparr>"

definition rm_clear :: "'c RosterManager \<Rightarrow> 'c RosterManager" where
  "rm_clear s = s\<lparr>entries := [], presences := [], isRosterReceived := False\<rparr>"

text \<open>\<^verbatim>\<open>QMap::remove\<close>.\<close>

definition qmap_remove :: "'k \<Rightarrow> ('k \<times> 'v) list \<Rightarrow> ('k \<times> 'v) list" where
  "qmap_remove k m = filter (\<lambda>kv. fst kv \<noteq> k) m"

definition requestRoster :: "roster_config \<Rightarrow> 'c RosterManager \<Rightarrow> 'c RosterManager" where
  "requestRoster c s = rm_send (RosterPacket ((new_RosterIq IqGet)\<lparr>st_from := rc_jid c, mixAnnotate := True\<rparr>)) s"

definition rm_onConnected :: "roster_config \<Rightarrow> stream_management_state \<Rightarrow> bool \<Rightarrow> 'c RosterManager \<Rightarrow> 'c RosterManager" where
  "rm_onConnected c sms authenticated s0 =
     (let s = (if sms \<noteq> ResumedStream then rm_clear s0 else s0)
      in if \<not> isRosterReceived s \<and> authenticated then requestRoster c s else s)"

text \<open>The continuation of the request; an error leaves everything as it is.\<close>

definition roster_result :: "nonza_env \<Rightarrow> IqResult \<Rightarrow> 'c RosterManager \<Rightarrow> 'c RosterManager" where
  "roster_result e r s =
     (case r of
        IqElement el \<Rightarrow>
          rm_emit RosterReceived
            (s\<lparr>entries := fold (\<lambda>i. qmap_insert (item_bareJid i) i) (roster_items (RosterIq_parse e el)) [], isRosterReceived := True\<rparr>)
      | IqFailure _ _ \<Rightarrow> s)"

definition rm_onDisconnected :: "stream_management_state \<Rightarrow> 'c RosterManager \<Rightarrow> 'c RosterManager" where
  "rm_onDisconnected sms s = (if sms = NoStreamManagement then rm_clear s else s)"

text \<open>One item of a push.\<close>

definition store_item :: "RosterItem \<Rightarrow> 'c RosterManager \<Rightarrow> 'c RosterManager" where
  "store_item i s =
     (let jid = item_bareJid i
      in if item_type i = Remove then
           (if map_of (entries s) jid \<noteq> None then rm_emit (ItemRemoved jid) (s\<lparr>entries := qmap_remove jid (entries s)\<rparr>) else s)
         else
           let added = (map_of (entries s) jid = None); s1 = s\<lparr>entries := qmap_insert jid i (entries s)\<rparr>
           in if added then rm_emit (ItemAdded jid) s1 else rm_emit (ItemChanged jid) s1)"

definition rm_handleStanza :: "nonza_env \<Rightarrow> roster_config \<Rightarrow> dom \<Rightarrow> 'c RosterManager \<Rightarrow> bool \<times> 'c RosterManager" where
  "rm_handleStanza e c element s =
     (if iqPayloadXmlTag element \<noteq> (''query'', ns_roster) then (False, s)
      else if attr ''from'' element \<noteq> [] \<and> jidToBareJid (attr ''from'' element) \<noteq> rc_jidBare c then (False, s)
      else let rosterIq = RosterIq_parse e element
           in case iq_type rosterIq of
                IqSet \<Rightarrow> (True, fold store_item (roster_items rosterIq)
                  (rm_send (ResultPacket ((new_QXmppIq IqResult)\<lparr>st_id := st_id rosterIq\<rparr>)) s))
              | _ \<Rightarrow> (True, s))"

section \<open>Subscriptions\<close>

definition presence_packet :: "PresenceType \<Rightarrow> qstring \<Rightarrow> qstring \<Rightarrow> 'c QXmppPresence" where
  "presence_packet type to reason = (presence_defaults type)\<lparr>st_to := to, statusText := reason\<rparr>"

definition acceptSubscription :: "qstring \<Rightarrow> qstring \<Rightarrow> 'c RosterManager \<Rightarrow> 'c RosterManager" where
  "acceptSubscription jid reason s = rm_send (PresencePacket (presence_packet Subscribed jid reason)) s"

definition refuseSubscription :: "qstring \<Rightarrow> qstring \<Rightarrow> 'c RosterManager \<Rightarrow> 'c RosterManager" where
  "refuseSubscription jid reason s = rm_send (PresencePacket (presence_packet Unsubscribed jid reason)) s"

definition subscribe :: "qstring \<Rightarrow> qstring \<Rightarrow> 'c RosterManager \<Rightarrow> 'c RosterManager" where
  "subscribe jid reason s = rm_send (PresencePacket (presence_packet Subscribe (jidToBareJid jid) reason)) s"

definition unsubscribe :: "qstring \<Rightarrow> qstring \<Rightarrow> 'c RosterManager \<Rightarrow> 'c RosterManager" where
  "unsubscribe jid reason s = rm_send (PresencePacket (presence_packet Unsubscribe (jidToBareJid jid) reason)) s"

text \<open>\<^verbatim>\<open>subscribeTo\<close> and \<^verbatim>\<open>unsubscribeFrom\<close> send the same packets, encrypted where possible.\<close>

definition subscribeTo :: "qstring \<Rightarrow> qstring \<Rightarrow> 'c RosterManager \<Rightarrow> 'c RosterManager" where
  "subscribeTo jid reason s = rm_send (PresencePacket (presence_packet Subscribe (jidToBareJid jid) reason)) s"

definition unsubscribeFrom :: "qstring \<Rightarrow> qstring \<Rightarrow> 'c RosterManager \<Rightarrow> 'c RosterManager" where
  "unsubscribeFrom jid reason s = rm_send (PresencePacket (presence_packet Unsubscribe (jidToBareJid jid) reason)) s"

definition set_item_iq :: "RosterItem \<Rightarrow> QXmppRosterIq" where
  "set_item_iq i = (new_RosterIq IqSet)\<lparr>roster_items := [i]\<rparr>"

definition addRosterItem :: "qstring \<Rightarrow> qstring \<Rightarrow> qstring list \<Rightarrow> 'c RosterManager \<Rightarrow> 'c RosterManager" where
  "addRosterItem jid name groups s = rm_send (RosterPacket (set_item_iq
     (new_RosterItem\<lparr>item_bareJid := jid, item_name := name, item_groups := groups, item_type := NotSet\<rparr>))) s"

definition removeRosterItem :: "qstring \<Rightarrow> 'c RosterManager \<Rightarrow> 'c RosterManager" where
  "removeRosterItem jid s = rm_send (RosterPacket (set_item_iq (new_RosterItem\<lparr>item_bareJid := jid, item_type := Remove\<rparr>))) s"

definition renameRosterItem :: "qstring \<Rightarrow> qstring \<Rightarrow> 'c RosterManager \<Rightarrow> qxmpp_error option \<times> 'c RosterManager" where
  "renameRosterItem jid name s =
     (case map_of (entries s) jid of
        None \<Rightarrow> (Some (QXmppError ''The roster doesn't contain this user.'' None), s)
      | Some item \<Rightarrow> (None, rm_send (RosterPacket (set_item_iq (item\<lparr>item_name := name, subscriptionStatus := []\<rparr>))) s))"

text \<open>The older \<^verbatim>\<open>addItem\<close>, \<^verbatim>\<open>removeItem\<close> and \<^verbatim>\<open>renameItem\<close> tell whether the packet was handed on.\<close>

definition addItem :: "bool \<Rightarrow> qstring \<Rightarrow> qstring \<Rightarrow> qstring list \<Rightarrow> 'c RosterManager \<Rightarrow> bool \<times> 'c RosterManager" where
  "addItem sent jid name groups s = (sent, rm_send (RosterPacket (set_item_iq
     (new_RosterItem\<lparr>item_bareJid := jid, item_name := name, item_groups := groups, item_type := NotSet\<rparr>))) s)"

definition removeItem :: "bool \<Rightarrow> qstring \<Rightarrow> 'c RosterManager \<Rightarrow> bool \<times> 'c RosterManager" where
  "removeItem sent jid s =
     (sent, rm_send (RosterPacket (set_item_iq (new_RosterItem\<lparr>item_bareJid := jid, item_type := Remove\<rparr>))) s)"

definition renameItem :: "bool \<Rightarrow> qstring \<Rightarrow> qstring \<Rightarrow> 'c RosterManager \<Rightarrow> bool \<times> 'c RosterManager" where
  "renameItem sent jid name s =
     (case map_of (entries s) jid of
        None \<Rightarrow> (False, s)
      | Some item \<Rightarrow> (sent, rm_send (RosterPacket (set_item_iq (item\<lparr>item_name := name, subscriptionStatus := []\<rparr>))) s))"

section \<open>Reading the copies\<close>

definition getRosterBareJids :: "'c RosterManager \<Rightarrow> qstring list" where
  "getRosterBareJids s = map fst (entries s)"

definition getRosterEntry :: "qstring \<Rightarrow> 'c RosterManager \<Rightarrow> RosterItem" where
  "getRosterEntry jid s = (case map_of (entries s) jid of None \<Rightarrow> new_RosterItem | Some i \<Rightarrow> i)"

definition getAllPresencesForBareJid :: "qstring \<Rightarrow> 'c RosterManager \<Rightarrow> (qstring \<times> 'c QXmppPresence) list" where
  "getAllPresencesForBareJid jid s = (case map_of (presences s) jid of None \<Rightarrow> [] | Some m \<Rightarrow> m)"

definition getResources :: "qstring \<Rightarrow> 'c RosterManager \<Rightarrow> qstring list" where
  "getResources jid s = (case map_of (presences s) jid of None \<Rightarrow> [] | Some m \<Rightarrow> map fst m)"

definition getPresence :: "qstring \<Rightarrow> qstring \<Rightarrow> 'c RosterManager \<Rightarrow> 'c QXmppPresence" where
  "getPresence jid resource s =
     (case map_of (presences s) jid of
        Some m \<Rightarrow> (case map_of m resource of Some p \<Rightarrow> p | None \<Rightarrow> presence_defaults Unavailable)
      | None \<Rightarrow> presence_defaults Unavailable)"

section \<open>Moved contacts\<close>

text \<open>Whether the answer to the request for the statement names the new address.\<close>

definition verifyStatement :: "(qstring \<Rightarrow> qstring) \<Rightarrow> qstring \<Rightarrow> qxmpp_error + qstring \<Rightarrow> bool" where
  "verifyStatement uri_jid newBareJid result =
     (case result of
        Inr newJid \<Rightarrow> newBareJid = newJid
      | Inl (QXmppError _ err) \<Rightarrow>
          (case err of
             Some (StanzaErr e) \<Rightarrow>
               let newJid = (if err_condition e \<noteq> Gone then [] else uri_jid (redirectionUri e))
               in newJid \<noteq> [] \<and> newBareJid = newJid
           | _ \<Rightarrow> False))"

definition notifyOnSubscriptionRequest :: "qstring \<Rightarrow> 'c QXmppPresence \<Rightarrow> 'c RosterManager \<Rightarrow> 'c RosterManager" where
  "notifyOnSubscriptionRequest jid presence s =
     rm_emit (SubscriptionRequestReceived jid presence) (rm_emit (SubscriptionReceived jid) s)"

text \<open>The statement is asked for only when the contact receives our presence.\<close>

definition processSubscriptionRequest :: "'c QXmppPresence \<Rightarrow> 'c RosterManager \<Rightarrow> 'c RosterManager" where
  "processSubscriptionRequest presence s =
     (case item_type (getRosterEntry (oldJid presence) s) of
        From \<Rightarrow> rm_send (MovedStatementRequest (oldJid presence)) (s\<lparr>moved_pending := moved_pending s @ [presence]\<rparr>)
      | Both \<Rightarrow> rm_send (MovedStatementRequest (oldJid presence)) (s\<lparr>moved_pending := moved_pending s @ [presence]\<rparr>)
      | _ \<Rightarrow> notifyOnSubscriptionRequest (jidToBareJid (st_from presence)) (presence\<lparr>oldJid := []\<rparr>) s)"

definition handleSubscriptionRequest :: "roster_config \<Rightarrow> qstring \<Rightarrow> 'c QXmppPresence \<Rightarrow> 'c RosterManager \<Rightarrow> 'c RosterManager" where
  "handleSubscriptionRequest c jid presence s =
     (if autoAcceptSubscriptions c then subscribe jid [] (acceptSubscription jid [] s)
      else if hasMovedManager c \<and> oldJid presence \<noteq> [] then processSubscriptionRequest presence s
      else notifyOnSubscriptionRequest jid (presence\<lparr>oldJid := []\<rparr>) s)"

text \<open>The answer for one of the requests under way.\<close>

definition moved_answered :: "(qstring \<Rightarrow> qstring) \<Rightarrow> nat \<Rightarrow> qxmpp_error + qstring \<Rightarrow> 'c RosterManager \<Rightarrow> 'c RosterManager" where
  "moved_answered uri_jid k result s =
     (if k < length (moved_pending s) then
        let presence = moved_pending s ! k;
            s1 = s\<lparr>moved_pending := take k (moved_pending s) @ drop (k + 1) (moved_pending s)\<rparr>;
            jid = jidToBareJid (st_from presence)
        in notifyOnSubscriptionRequest jid (if verifyStatement uri_jid jid result then presence else presence\<lparr>oldJid := []\<rparr>) s1
      else s)"

definition presenceReceived :: "roster_config \<Rightarrow> 'c QXmppPresence \<Rightarrow> 'c RosterManager \<Rightarrow> 'c RosterManager" where
  "presenceReceived c presence s =
     (let jid = jidToBareJid (st_from presence); resource = jidToResource (st_from presence);
          of_jid = (case map_of (presences s) jid of None \<Rightarrow> [] | Some m \<Rightarrow> m)
      in if jid = [] then s
         else case presence_type presence of
           Available \<Rightarrow> rm_emit (PresenceChanged jid resource)
             (s\<lparr>presences := qmap_insert jid (qmap_insert resource presence of_jid) (presences s)\<rparr>)
         | Unavailable \<Rightarrow> rm_emit (PresenceChanged jid resource)
             (s\<lparr>presences := qmap_insert jid (qmap_remove resource of_jid) (presences s)\<rparr>)
         | Subscribe \<Rightarrow> handleSubscriptionRequest c jid presence s
         | Unsubscribe \<Rightarrow> rm_emit (SubscriptionRemoved jid) s
         | _ \<Rightarrow> s)"

section \<open>Runs\<close>

datatype 'c roster_event = RosterConnected stream_management_state bool | RosterAnswered IqResult
  | RosterDisconnected stream_management_state | RosterStanza dom | RosterPresence "'c QXmppPresence"
  | MovedAnswered nat "qxmpp_error + qstring"

fun rm_step :: "nonza_env \<Rightarrow> roster_config \<Rightarrow> (qstring \<Rightarrow> qstring) \<Rightarrow> 'c roster_event \<Rightarrow> 'c RosterManager \<Rightarrow> 'c RosterManager" where
  "rm_step e c uri (RosterConnected sms authenticated) s = rm_onConnected c sms authenticated s"
| "rm_step e c uri (RosterAnswered r) s = roster_result e r s"
| "rm_step e c uri (RosterDisconnected sms) s = rm_onDisconnected sms s"
| "rm_step e c uri (RosterStanza el) s = snd (rm_handleStanza e c el s)"
| "rm_step e c uri (RosterPresence p) s = presenceReceived c p s"
| "rm_step e c uri (MovedAnswered k r) s = moved_answered uri k r s"

section \<open>Lemmas: reading what was written\<close>

definition item_ok :: "RosterItem \<Rightarrow> bool" where
  "item_ok i \<longleftrightarrow> distinct (item_groups i) \<and> (mixParticipantId i \<noteq> [] \<longrightarrow> isMixChannel i)"

lemma subscription_names: "setSubscriptionTypeFromStr (getSubscriptionTypeStr t) u = t"
  "getSubscriptionTypeStr t = [] \<longleftrightarrow> t = NotSet"
  by (cases t; simp add: setSubscriptionTypeFromStr_def)+

lemma subscription_empty: "setSubscriptionTypeFromStr [] u = NotSet"
  by (simp add: setSubscriptionTypeFromStr_def)

lemma roster_ns: "ns_mix_roster \<noteq> ns_roster" "ns_roster \<noteq> []" "ns_mix_roster \<noteq> []"
  by (simp_all add: ns_roster_def ns_mix_roster_def)

definition item_dom :: "RosterItem \<Rightarrow> dom" where
  "item_dom i = build ''item'' ns_roster (RosterItem_items i)"

lemma item_nodes_RosterItem: "item_nodes ns_roster (RosterItem_toXml b i) = [item_dom i]"
  by (simp add: RosterItem_toXml_def item_dom_def Element_def ElementInherit_def)

lemma RosterItem_back:
  assumes "item_ok i"
  shows "RosterItem_parse (item_dom i) = i"
proof -
  let ?ch = "if isMixChannel i then [Elem ''channel'' ns_mix_roster (if mixParticipantId i = [] then [] else [(''participant-id'', mixParticipantId i)]) []] else []"
  let ?as = "(''jid'', item_bareJid i) # (if item_name i = [] then [] else [(''name'', item_name i)]) @
    (if item_type i = NotSet then [] else [(''subscription'', getSubscriptionTypeStr (item_type i))]) @
    (if subscriptionStatus i = [] then [] else [(''ask'', subscriptionStatus i)]) @
    (if item_approved i then [(''approved'', ''true'')] else [])"
  have groups: "filter (matches ''group'' ns_roster) (map (text_node ''group'' ns_roster) gs @ ?ch) = map (text_node ''group'' ns_roster) gs"
    "map dom_text (map (text_node ''group'' ns_roster) gs) = gs"
    "List.find (matches ''channel'' ns_mix_roster) (map (text_node ''group'' ns_roster) gs @ ?ch) =
       (if isMixChannel i then Some (hd ?ch) else None)" for gs
    using roster_ns by (induction gs) (auto simp: matches_def text_node_def)
  have written: "item_dom i = Elem ''item'' ns_roster ?as (map (text_node ''group'' ns_roster) (item_groups i) @ ?ch)"
    by (simp add: item_dom_def build_def RosterItem_items_def OptionalAttribute_def OptionalContent_def DefaultedBoolAttribute_def
        subscription_names TextElements_nodes Element_def)
  have attrs: "attr ''jid'' (item_dom i) = item_bareJid i" "attr ''name'' (item_dom i) = item_name i"
    "attr ''subscription'' (item_dom i) = getSubscriptionTypeStr (item_type i)" "attr ''ask'' (item_dom i) = subscriptionStatus i"
    "attr ''approved'' (item_dom i) = (if item_approved i then ''true'' else [])"
    by (simp_all add: written attr_def)
  have ch: "firstChildElement (item_dom i) ''channel'' ns_mix_roster = (if isMixChannel i then Some (hd ?ch) else None)"
    by (simp only: written firstChildElement_find dom.sel groups(3))
  have gr: "parseTextElements (item_dom i) ''group'' ns_roster = item_groups i"
    unfolding parseTextElements_def written iterChildElements_filter dom.sel groups(1) by (rule groups(2))
  have pid: "attr ''participant-id'' (hd ?ch) = mixParticipantId i" if "isMixChannel i"
    using that by (simp add: attr_def)
  show ?thesis
    using assms pid
    by (intro RosterItem.equality)
      (auto simp: RosterItem_parse_def Let_def attrs ch gr subscription_names item_ok_def distinct_remdups_id)
qed

lemma RosterItems_back:
  assumes "list_all item_ok is"
  shows "concat (map (\<lambda>c. case Some (RosterItem_parse c) of None \<Rightarrow> [] | Some v \<Rightarrow> [v])
     (filter (matches ''item'' ns_roster) (map item_dom is))) = is"
  using assms
proof (induction "is")
  case (Cons i "is")
  have "matches ''item'' ns_roster (item_dom i)" by (simp add: item_dom_def matches_build)
  then show ?case using Cons RosterItem_back by simp
qed simp

definition roster_iq_ok :: "QXmppRosterIq \<Rightarrow> bool" where
  "roster_iq_ok iq \<longleftrightarrow> list_all item_ok (roster_items iq) \<and> st_lang iq = [] \<and> st_error iq = None \<and> st_extensions iq = [] \<and> st_addresses iq = []"

definition roster_dom :: "qstring \<Rightarrow> nonza_env \<Rightarrow> QXmppRosterIq \<Rightarrow> dom" where
  "roster_dom n e iq = hd (item_nodes n (RosterIq_toXml e iq))"

lemma roster_iq_back:
  assumes "roster_iq_ok iq"
  shows "RosterIq_parse e (roster_dom n e iq) = iq"
proof -
  let ?an = "if mixAnnotate iq then [Elem ''annotate'' ns_mix_roster [] []] else []"
  let ?q = "Elem ''query'' ns_roster (if roster_version iq = [] then [] else [(''ver'', roster_version iq)]) (?an @ map item_dom (roster_items iq))"
  have items: "concat (map (item_nodes ns_roster) (map (RosterItem_toXml False) is)) = map item_dom is"
    "concat (map item_attrs (map (RosterItem_toXml False) is)) = []" for "is"
    by (induction "is") (simp_all add: item_dom_def RosterItem_toXml_def ElementInherit_def)
  have ok: "st_error iq = None" "list_all item_ok (roster_items iq)" "st_lang iq = []" "st_extensions iq = []" "st_addresses iq = []"
    using assms by (simp_all add: roster_iq_ok_def)
  have written: "roster_dom n e iq = Elem ''iq'' n ((''id'', st_id iq) # (if st_to iq = [] then [] else [(''to'', st_to iq)]) @
      (if st_from iq = [] then [] else [(''from'', st_from iq)]) @ [(''type'', enum_toString IqType_Values (iq_type iq))]) [?q]"
    by (simp add: roster_dom_def RosterIq_toXml_def ElementInherit_def build_def OptionalAttribute_def OptionalContent_def Element_def
        ok(1) items [unfolded map_map comp_def] comp_def)
  have ann: "List.find (matches ''annotate'' ns_mix_roster) (map item_dom is) = None"
    "filter (matches ''item'' ns_roster) (?an @ map item_dom is) = filter (matches ''item'' ns_roster) (map item_dom is)" for "is"
    using roster_ns by (induction "is") (simp_all add: item_dom_def matches_build matches_Elem)
  have stanza: "QXmppStanza_parse e (roster_dom n e iq) = QXmppStanza.truncate iq"
    using roster_ns
    by (simp add: written QXmppStanza_parse_def attr_def dom_simps matches_def parseOptionalChildElement_def QXmppStanza.truncate_def ok
        ns_extended_addressing_def ns_roster_def)
  have query: "firstChildElement (roster_dom n e iq) ''query'' [] = Some ?q"
    by (simp add: written dom_simps matches_def)
  have its: "parseChildElements (\<lambda>el. Some (RosterItem_parse el)) ?q ''item'' ns_roster = roster_items iq"
    unfolding parseChildElements_def iterChildElements_filter dom.sel ann(2) by (rule RosterItems_back [OF ok(2)])
  have type: "attr ''type'' (roster_dom n e iq) = enum_toString IqType_Values (iq_type iq)"
    by (simp add: written attr_def)
  have ver: "attr ''ver'' ?q = roster_version iq" by (simp add: attr_def)
  have mix: "firstChildElement ?q ''annotate'' ns_mix_roster \<noteq> None \<longleftrightarrow> mixAnnotate iq"
    by (simp add: firstChildElement_find find_append ann(1) matches_def)
  show ?thesis
    unfolding RosterIq_parse_def Let_def query option.case stanza its type ver mix IqType_names
    by (simp add: QXmppStanza.extend_def QXmppStanza.truncate_def)
qed

section \<open>The copy of the roster\<close>

text \<open>What the server does to its roster, and what it sends; others may send the same form.\<close>

datatype roster_push = RosterPush qstring qstring "RosterItem list"

fun push_iq :: "roster_push \<Rightarrow> QXmppRosterIq" where
  "push_iq (RosterPush i from items) = (new_RosterIq IqSet)\<lparr>st_id := i, st_from := from, roster_items := items\<rparr>"

fun from_account :: "qstring \<Rightarrow> roster_push \<Rightarrow> bool" where
  "from_account j (RosterPush i from items) = (from = [] \<or> jidToBareJid from = j)"

definition change_item :: "RosterItem \<Rightarrow> (qstring \<rightharpoonup> RosterItem) \<Rightarrow> (qstring \<rightharpoonup> RosterItem)" where
  "change_item i m = (if item_type i = Remove then m(item_bareJid i := None) else m(item_bareJid i \<mapsto> i))"

fun server_roster :: "qstring \<Rightarrow> roster_push \<Rightarrow> (qstring \<rightharpoonup> RosterItem) \<Rightarrow> (qstring \<rightharpoonup> RosterItem)" where
  "server_roster j (RosterPush i from items) m =
     (if from_account j (RosterPush i from items) then fold change_item items m else m)"

fun push_ok :: "roster_push \<Rightarrow> bool" where
  "push_ok (RosterPush i from items) = list_all item_ok items"

definition sorted_keys :: "('k::linorder \<times> 'v) list \<Rightarrow> bool" where
  "sorted_keys m \<longleftrightarrow> sorted_wrt (<) (map fst m)"

lemma sorted_keys_simps [simp]:
  "sorted_keys []" "sorted_keys m \<Longrightarrow> sorted_keys (qmap_insert k v m)" "sorted_keys m \<Longrightarrow> sorted_keys (qmap_remove k m)"
  by (simp_all add: sorted_keys_def sorted_qmap_insert qmap_remove_def)
    (simp add: sorted_wrt_filter sorted_wrt_map)

lemma map_of_qmap_remove [simp]: "map_of (qmap_remove k m) = (map_of m)(k := None)"
  by (simp add: qmap_remove_def map_of_filter_fst)

lemma rm_log_sel [simp]:
  "entries (rm_emit x s) = entries s" "entries (rm_send p s) = entries s"
  "presences (rm_emit x s) = presences s" "presences (rm_send p s) = presences s"
  "moved_pending (rm_emit x s) = moved_pending s" "moved_pending (rm_send p s) = moved_pending s"
  "rm_signals (rm_emit x s) = rm_signals s @ [x]" "rm_signals (rm_send p s) = rm_signals s"
  by (simp_all add: rm_emit_def rm_send_def)

lemma store_item_sel:
  "map_of (entries (store_item i s)) = change_item i (map_of (entries s))"
  "sorted_keys (entries s) \<Longrightarrow> sorted_keys (entries (store_item i s))"
  "moved_pending (store_item i s) = moved_pending s" "presences (store_item i s) = presences s"
  by (auto simp: store_item_def change_item_def Let_def fun_eq_iff)

lemma store_items_sel:
  "map_of (entries (fold store_item is s)) = fold change_item is (map_of (entries s))"
  "sorted_keys (entries s) \<Longrightarrow> sorted_keys (entries (fold store_item is s))"
  "moved_pending (fold store_item is s) = moved_pending s" "presences (fold store_item is s) = presences s"
  by (induction "is" arbitrary: s) (simp_all add: store_item_sel)

lemma push_handled:
  assumes "push_ok p"
  shows "rm_handleStanza e c (roster_dom ns_client e (push_iq p)) s =
    (case p of RosterPush i from items \<Rightarrow>
       if from_account (rc_jidBare c) p
       then (True, fold store_item items (rm_send (ResultPacket ((new_QXmppIq IqResult)\<lparr>st_id := i\<rparr>)) s)) else (False, s))"
proof (cases p)
  case (RosterPush i frm items)
  have pb: "RosterIq_parse e (roster_dom ns_client e (push_iq p)) = push_iq p"
    using assms by (intro roster_iq_back)
      (simp add: RosterPush roster_iq_ok_def new_RosterIq_def new_QXmppIq_def QXmppIq.defs QXmppRosterIq.defs)
  have tag: "iqPayloadXmlTag (roster_dom ns_client e (push_iq p)) = (''query'', ns_roster)"
    "attr ''from'' (roster_dom ns_client e (push_iq p)) = frm"
    by (simp_all add: RosterPush roster_dom_def RosterIq_toXml_def ElementInherit_def build_def Element_def iqPayloadXmlTag_def dom_simps
        matches_def elementXmlTag_def attr_def OptionalAttribute_def new_RosterIq_def new_QXmppIq_def QXmppIq.defs QXmppRosterIq.defs)
  show ?thesis
    by (simp add: rm_handleStanza_def tag pb Let_def)
      (simp add: RosterPush new_RosterIq_def new_QXmppIq_def QXmppIq.defs QXmppRosterIq.defs)
qed

interpretation roster: server_copy "\<lambda>s. Some (map_of (entries s))" "\<lambda>s. sorted_keys (entries s)"
  "\<lambda>p s. if push_ok p then snd (rm_handleStanza e c (roster_dom ns_client e (push_iq p)) s) else s"
  "\<lambda>p m. if push_ok p then server_roster (rc_jidBare c) p m else m" for e c
proof unfold_locales
  fix s :: "'c RosterManager" and p
  assume "sorted_keys (entries s)"
  then show "sorted_keys (entries (if push_ok p then snd (rm_handleStanza e c (roster_dom ns_client e (push_iq p)) s) else s))"
    by (simp add: push_handled store_items_sel split: roster_push.split)
  show "Some (map_of (entries (if push_ok p then snd (rm_handleStanza e c (roster_dom ns_client e (push_iq p)) s) else s))) =
      map_option (\<lambda>m. if push_ok p then server_roster (rc_jidBare c) p m else m) (Some (map_of (entries s)))"
    by (cases p) (simp add: push_handled store_items_sel del: from_account.simps push_iq.simps)
qed

lemma received_roster:
  "map_of (fold (\<lambda>i. qmap_insert (item_bareJid i) i) is m) = fold (\<lambda>i m. m(item_bareJid i \<mapsto> i)) is (map_of m)"
  "sorted_keys m \<Longrightarrow> sorted_keys (fold (\<lambda>i. qmap_insert (item_bareJid i) i) is m)"
  by (induction "is" arbitrary: m) simp_all

section \<open>Properties\<close>

text \<open>
  C32.  The copy of the roster follows the server: once the roster was received, whatever was known
  before, it is after any sequence of pushes what the server's roster is, the last word on every
  contact; pushes from other addresses change nothing.  The contacts stay in order.
\<close>

theorem roster_follows_server:
  assumes "roster_iq_ok iq" and "list_all push_ok ps"
  shows "map_of (entries (fold (\<lambda>p. snd \<circ> rm_handleStanza e c (roster_dom ns_client e (push_iq p))) ps
       (roster_result e (IqElement (roster_dom ns_client e iq)) s))) =
     fold (server_roster (rc_jidBare c)) ps (fold (\<lambda>i m. m(item_bareJid i \<mapsto> i)) (roster_items iq) Map.empty) \<and>
    sorted_keys (entries (fold (\<lambda>p. snd \<circ> rm_handleStanza e c (roster_dom ns_client e (push_iq p))) ps
       (roster_result e (IqElement (roster_dom ns_client e iq)) s)))"
proof -
  let ?s = "roster_result e (IqElement (roster_dom ns_client e iq)) s"
  let ?push = "\<lambda>p s. if push_ok p then snd (rm_handleStanza e c (roster_dom ns_client e (push_iq p)) s) else s"
  let ?change = "\<lambda>p m. if push_ok p then server_roster (rc_jidBare c) p m else m"
  have start: "map_of (entries ?s) = fold (\<lambda>i m. m(item_bareJid i \<mapsto> i)) (roster_items iq) Map.empty" "sorted_keys (entries ?s)"
    using received_roster [where ?is = "roster_items iq" and m = "[]"] by (simp_all add: roster_result_def roster_iq_back [OF assms(1)])
  have 1: "fold (\<lambda>p. snd \<circ> rm_handleStanza e c (roster_dom ns_client e (push_iq p))) ps ?s = fold ?push ps ?s"
    by (rule fold_cong) (use assms(2) in \<open>auto simp: list_all_iff\<close>)
  have 2: "fold (server_roster (rc_jidBare c)) ps m = fold ?change ps m" for m
    by (rule fold_cong) (use assms(2) in \<open>auto simp: list_all_iff\<close>)
  show ?thesis
    unfolding 1 2 using roster.pushes [OF start(2), of e c ps] start(1) by simp_all
qed

definition example_contact :: "qstring \<Rightarrow> SubscriptionType \<Rightarrow> RosterItem" where
  "example_contact j t = new_RosterItem\<lparr>item_bareJid := j, item_type := t, item_groups := [''friends'']\<rparr>"

definition example_roster_config :: roster_config where
  "example_roster_config = \<lparr>rc_jid = ''me@x/r'', rc_jidBare = ''me@x'', autoAcceptSubscriptions = False, hasMovedManager = True\<rparr>"

definition example_roster :: QXmppRosterIq where
  "example_roster = (new_RosterIq IqResult)\<lparr>roster_items := [example_contact ''b@x'' Both, example_contact ''a@x'' To]\<rparr>"

theorem roster_follows_server_witness:
  "map_of (entries (fold (\<lambda>p. snd \<circ> rm_handleStanza example_nonza_env example_roster_config (roster_dom ns_client example_nonza_env (push_iq p)))
       [RosterPush ''1'' ''me@x'' [example_contact ''a@x'' Remove], RosterPush ''2'' ''evil@x'' [example_contact ''b@x'' Remove]]
       (roster_result example_nonza_env (IqElement (roster_dom ns_client example_nonza_env example_roster)) (new_RosterManager :: qstring RosterManager)))) =
     [''b@x'' \<mapsto> example_contact ''b@x'' Both]"
proof -
  have ok: "roster_iq_ok example_roster"
    by (simp add: roster_iq_ok_def example_roster_def example_contact_def item_ok_def new_RosterItem_def new_RosterIq_def new_QXmppIq_def
        QXmppIq.defs QXmppRosterIq.defs)
  have "jidToBareJid ''me@x'' = ''me@x''" "jidToBareJid ''evil@x'' = ''evil@x''" by code_simp+
  then show ?thesis
    by (subst conjunct1 [OF roster_follows_server [OF ok]])
      (simp_all add: example_contact_def item_ok_def new_RosterItem_def example_roster_def example_roster_config_def change_item_def fun_eq_iff
        new_RosterIq_def)
qed

section \<open>Moved contacts\<close>

text \<open>
  The request for a subscription that came with an old address, when the owner of the old address
  was a contact who receives our presence.
\<close>

definition asked_by_contact :: "nonza_env \<Rightarrow> roster_config \<Rightarrow> (qstring \<Rightarrow> qstring) \<Rightarrow> 'c roster_event list \<Rightarrow> 'c QXmppPresence \<Rightarrow> bool" where
  "asked_by_contact e c uri evs p \<longleftrightarrow> (\<exists>evs1 evs2. evs = evs1 @ RosterPresence p # evs2 \<and>
     (item_type (getRosterEntry (oldJid p) (fold (rm_step e c uri) evs1 new_RosterManager)) = From \<or>
      item_type (getRosterEntry (oldJid p) (fold (rm_step e c uri) evs1 new_RosterManager)) = Both))"

lemma asked_later: "asked_by_contact e c uri evs p \<Longrightarrow> asked_by_contact e c uri (evs @ [ev]) p"
  by (fastforce simp: asked_by_contact_def)

lemma asked_now:
  "item_type (getRosterEntry (oldJid p) (fold (rm_step e c uri) evs new_RosterManager)) \<in> {From, Both} \<Longrightarrow>
     asked_by_contact e c uri (evs @ [RosterPresence p]) p"
  by (fastforce simp: asked_by_contact_def)

lemma rm_signals_store: "set (rm_signals (fold store_item is s)) \<subseteq> set (rm_signals s) \<union> range ItemAdded \<union> range ItemChanged \<union> range ItemRemoved"
proof (induction "is" arbitrary: s)
  case (Cons i "is")
  have "set (rm_signals (store_item i s)) \<subseteq> set (rm_signals s) \<union> range ItemAdded \<union> range ItemChanged \<union> range ItemRemoved"
    by (auto simp: store_item_def Let_def)
  then show ?case using Cons.IH [of "store_item i s"] by auto
qed auto

lemmas roster_step_defs = rm_onConnected_def requestRoster_def roster_result_def rm_onDisconnected_def rm_clear_def rm_handleStanza_def
  presenceReceived_def handleSubscriptionRequest_def processSubscriptionRequest_def notifyOnSubscriptionRequest_def moved_answered_def
  acceptSubscription_def subscribe_def

lemma request_effect:
  "moved_pending (processSubscriptionRequest q s) =
     (if item_type (getRosterEntry (oldJid q) s) \<in> {From, Both} then moved_pending s @ [q] else moved_pending s)"
  "SubscriptionRequestReceived b p \<in> set (rm_signals (processSubscriptionRequest q s)) \<Longrightarrow> oldJid p \<noteq> [] \<Longrightarrow>
     SubscriptionRequestReceived b p \<in> set (rm_signals s)"
  by (cases "item_type (getRosterEntry (oldJid q) s)"; auto simp: processSubscriptionRequest_def notifyOnSubscriptionRequest_def)+

lemma handle_request_effect:
  "p \<in> set (moved_pending (handleSubscriptionRequest c j q s)) \<Longrightarrow>
     p \<in> set (moved_pending s) \<or> p = q \<and> item_type (getRosterEntry (oldJid p) s) \<in> {From, Both}"
  "SubscriptionRequestReceived b p \<in> set (rm_signals (handleSubscriptionRequest c j q s)) \<Longrightarrow> oldJid p \<noteq> [] \<Longrightarrow>
     SubscriptionRequestReceived b p \<in> set (rm_signals s)"
  by (auto simp: request_effect(1) handleSubscriptionRequest_def acceptSubscription_def subscribe_def notifyOnSubscriptionRequest_def
      dest: request_effect(2) split: if_splits)

lemma presence_effect:
  "p \<in> set (moved_pending (presenceReceived c q s)) \<Longrightarrow>
     p \<in> set (moved_pending s) \<or> p = q \<and> item_type (getRosterEntry (oldJid p) s) \<in> {From, Both}"
  "SubscriptionRequestReceived b p \<in> set (rm_signals (presenceReceived c q s)) \<Longrightarrow> oldJid p \<noteq> [] \<Longrightarrow>
     SubscriptionRequestReceived b p \<in> set (rm_signals s)"
  by (cases "presence_type q"; auto simp: presenceReceived_def Let_def dest: handle_request_effect split: if_splits)+

lemma step_pending:
  assumes "p \<in> set (moved_pending (rm_step e c uri ev s))"
  shows "p \<in> set (moved_pending s) \<or> ev = RosterPresence p \<and> item_type (getRosterEntry (oldJid p) s) \<in> {From, Both}"
proof (cases ev)
  case (RosterPresence q)
  then show ?thesis using assms presence_effect(1) by fastforce
next
  case (MovedAnswered k r)
  then show ?thesis using assms by (auto simp: roster_step_defs Let_def dest: in_set_takeD in_set_dropD split: if_splits)
qed (use assms in \<open>auto simp: roster_step_defs Let_def store_items_sel split: if_splits IqResult.splits IqType.splits\<close>)

lemma handleStanza_signals:
  "set (rm_signals (snd (rm_handleStanza e c el s))) \<subseteq> set (rm_signals s) \<union> range ItemAdded \<union> range ItemChanged \<union> range ItemRemoved"
proof -
  have "set (rm_signals (fold store_item is (rm_send x s))) \<subseteq> set (rm_signals s) \<union> range ItemAdded \<union> range ItemChanged \<union> range ItemRemoved"
    for "is" x
    using rm_signals_store [of "is" "rm_send x s"] by simp
  then show ?thesis unfolding rm_handleStanza_def Let_def by (cases "iq_type (RosterIq_parse e el)") auto
qed

lemma step_signal:
  assumes "SubscriptionRequestReceived b p \<in> set (rm_signals (rm_step e c uri ev s))" and "oldJid p \<noteq> []"
  shows "SubscriptionRequestReceived b p \<in> set (rm_signals s) \<or>
    (\<exists>k r. ev = MovedAnswered k r \<and> p \<in> set (moved_pending s) \<and> b = jidToBareJid (st_from p) \<and> verifyStatement uri b r)"
proof (cases ev)
  case (RosterPresence q)
  then show ?thesis using assms presence_effect(2) [of b p c q s] by simp
next
  case (MovedAnswered k r)
  then show ?thesis using assms by (auto simp: roster_step_defs Let_def split: if_splits)
next
  case (RosterStanza el)
  then show ?thesis using assms(1) handleStanza_signals [of e c el s] by auto
next
  case (RosterConnected sms authenticated)
  then show ?thesis using assms(1) by (simp add: rm_onConnected_def requestRoster_def rm_clear_def Let_def split: if_splits)
next
  case (RosterAnswered r)
  then show ?thesis using assms(1) by (simp add: roster_result_def split: IqResult.splits)
next
  case (RosterDisconnected sms)
  then show ?thesis using assms(1) by (simp add: rm_onDisconnected_def rm_clear_def split: if_splits)
qed


definition example_move :: "qstring roster_event list" where
  "example_move =
     [RosterStanza (roster_dom ns_client example_nonza_env (push_iq (RosterPush ''1'' [] [example_contact ''old@y'' Both]))),
      RosterPresence ((presence_defaults Subscribe)\<lparr>st_from := ''new@z'', oldJid := ''old@y''\<rparr>),
      MovedAnswered 0 (Inr ''new@z'')]"

lemma example_move_run:
  "rm_signals (fold (rm_step example_nonza_env example_roster_config (\<lambda>u. u)) example_move new_RosterManager) =
     [ItemAdded ''old@y'', SubscriptionReceived ''new@z'',
      SubscriptionRequestReceived ''new@z'' ((presence_defaults Subscribe)\<lparr>st_from := ''new@z'', oldJid := ''old@y''\<rparr>)]"
proof -
  have push: "push_ok (RosterPush ''1'' [] [example_contact ''old@y'' Both])"
    by (simp add: example_contact_def item_ok_def new_RosterItem_def)
  have "jidToBareJid ''new@z'' = ''new@z''" by code_simp
  then show ?thesis
    by (simp add: example_move_def push_handled [OF push] del: push_iq.simps)
      (simp add: store_item_def Let_def new_RosterManager_def rm_emit_def rm_send_def presenceReceived_def handleSubscriptionRequest_def
        processSubscriptionRequest_def getRosterEntry_def moved_answered_def verifyStatement_def notifyOnSubscriptionRequest_def
        example_contact_def new_RosterItem_def example_roster_config_def presence_start_defs new_stanza_def)
qed


section \<open>Presences of contacts\<close>

definition presence_for :: "qstring \<Rightarrow> qstring \<Rightarrow> 'c QXmppPresence \<Rightarrow> bool" where
  "presence_for jid resource p \<longleftrightarrow> jidToBareJid (st_from p) = jid \<and> jidToResource (st_from p) = resource \<and>
     (presence_type p = Available \<or> presence_type p = Unavailable)"

definition stored_presence :: "qstring \<Rightarrow> qstring \<Rightarrow> 'c RosterManager \<Rightarrow> 'c QXmppPresence option" where
  "stored_presence jid resource s = (case map_of (presences s) jid of None \<Rightarrow> None | Some m \<Rightarrow> map_of m resource)"

lemma request_presences: "presences (handleSubscriptionRequest c j q s) = presences s"
  by (auto simp: handleSubscriptionRequest_def acceptSubscription_def subscribe_def notifyOnSubscriptionRequest_def
      processSubscriptionRequest_def split: SubscriptionType.split)

lemma stored_presence_step:
  assumes "jid \<noteq> []"
  shows "stored_presence jid resource (presenceReceived c p s) =
    (if presence_for jid resource p then if presence_type p = Available then Some p else None else stored_presence jid resource s)"
  using assms
  by (cases "presence_type p")
    (auto simp: presenceReceived_def Let_def stored_presence_def presence_for_def request_presences split: option.splits)

text \<open>
  The presence of a contact's resource is the last one it sent: after any presences in any
  order, the one that is looked up is the latest of this resource, and unavailable when that says
  so or there is none.
\<close>

lemma presence_is_last_received:
  fixes s :: "'c RosterManager"
  assumes "jid \<noteq> []" and "presences s = []"
  shows "getPresence jid resource (fold (presenceReceived c) ps s) =
    (case List.find (presence_for jid resource) (rev ps) of
       Some p \<Rightarrow> if presence_type p = Available then p else presence_defaults Unavailable
     | None \<Rightarrow> presence_defaults Unavailable)"
proof -
  have "stored_presence jid resource (fold (presenceReceived c) ps s) =
    (case List.find (presence_for jid resource) (rev ps) of
       Some p \<Rightarrow> if presence_type p = Available then Some p else None | None \<Rightarrow> None)"
  proof (induction ps rule: rev_induct)
    case Nil
    show ?case by (simp add: stored_presence_def assms(2))
  qed (simp add: stored_presence_step [OF assms(1)])
  moreover have "getPresence jid resource t = (case stored_presence jid resource t of None \<Rightarrow> presence_defaults Unavailable | Some p \<Rightarrow> p)" for t :: "'c RosterManager"
    by (simp add: getPresence_def stored_presence_def split: option.split)
  ultimately show ?thesis by (simp split: option.split)
qed

lemma presence_is_last_received_witness:
  "getPresence ''b@x'' ''r'' (fold (presenceReceived example_roster_config)
       [(presence_defaults Available)\<lparr>st_from := ''b@x/r'', priority := 1\<rparr>, (presence_defaults Available)\<lparr>st_from := ''b@x/s''\<rparr>,
        (presence_defaults Available)\<lparr>st_from := ''b@x/r'', priority := 2\<rparr>] (new_RosterManager :: qstring RosterManager)) =
     (presence_defaults Available)\<lparr>st_from := ''b@x/r'', priority := 2\<rparr>"
proof -
  have parts: "jidToBareJid ''b@x/r'' = ''b@x''" "jidToResource ''b@x/r'' = ''r''" "jidToResource ''b@x/s'' = ''s''"
    by code_simp+
  show ?thesis
    by (subst presence_is_last_received) (simp_all add: new_RosterManager_def presence_for_def parts presence_start_defs)
qed

section \<open>Import and export\<close>

text \<open>
  The import of a roster: a request for every contact, and one answer to the caller, the first
  error or the success of all of them.  The state is the number of answers still to come and what
  the caller was told.
\<close>

record roster_import =
  import_counter :: int
  import_result :: "qxmpp_error option option"

definition importData :: "RosterItem list \<Rightarrow> QXmppRosterIq list \<times> roster_import" where
  "importData items =
     (if items = [] then ([], \<lparr>import_counter = 0, import_result = Some None\<rparr>)
      else (map set_item_iq items, \<lparr>import_counter = int (length items), import_result = None\<rparr>))"

definition import_answered :: "qxmpp_error option \<Rightarrow> roster_import \<Rightarrow> roster_import" where
  "import_answered r s =
     (if import_result s \<noteq> None then s
      else case r of
        Some err \<Rightarrow> s\<lparr>import_result := Some (Some err)\<rparr>
      | None \<Rightarrow> let s1 = s\<lparr>import_counter := import_counter s - 1\<rparr>
               in if import_counter s1 = 0 then s1\<lparr>import_result := Some None\<rparr> else s1)"

definition exportData :: "RosterItem list \<Rightarrow> RosterItem list" where
  "exportData items = map (\<lambda>i. i\<lparr>subscriptionStatus := []\<rparr>) (filter (\<lambda>i. \<not> isMixChannel i) items)"

definition RosterData_fromDom :: "dom \<Rightarrow> qxmpp_error + RosterItem list" where
  "RosterData_fromDom el =
     (if tagName el \<noteq> ''roster'' \<and> namespaceURI el \<noteq> ns_qxmpp_export then Inl (QXmppError ''Invalid element.'' None)
      else Inr (parseChildElements (\<lambda>e. Some (RosterItem_parse e)) el ''item'' ns_roster))"

definition RosterData_toXml :: "RosterItem list \<Rightarrow> item" where
  "RosterData_toXml items = ElementInherit ''roster'' (map (RosterItem_toXml True) items)"

text \<open>With as many answers as requests the caller is told of the first error, or of the success.\<close>

lemma import_outcome:
  assumes "items \<noteq> []" and "length rs = length items"
  shows "import_result (fold import_answered rs (snd (importData items))) = Some (if \<exists>e. Some e \<in> set rs then Some (the (hd (filter (\<lambda>r. r \<noteq> None) rs))) else None)"
proof -
  have stays: "fold import_answered rs s = s" if "import_result s \<noteq> None" for rs s
    using that by (induction rs) (auto simp: import_answered_def)
  have "import_result (fold import_answered rs \<lparr>import_counter = int (length rs) + int k, import_result = None\<rparr>) =
      (if \<exists>e. Some e \<in> set rs then Some (Some (the (hd (filter (\<lambda>r. r \<noteq> None) rs))))
       else if k = 0 \<and> rs \<noteq> [] then Some None else None)" for k
  proof (induction rs)
    case (Cons r rs)
    show ?case
    proof (cases r)
      case None
      show ?thesis
      proof (cases "rs = [] \<and> k = 0")
        case True
        then show ?thesis by (simp add: None import_answered_def)
      next
        case False
        then have "import_answered r \<lparr>import_counter = int (length (r # rs)) + int k, import_result = None\<rparr> =
            \<lparr>import_counter = int (length rs) + int k, import_result = None\<rparr>"
          by (cases rs) (auto simp: None import_answered_def Let_def)
        then show ?thesis using Cons False by (simp add: None)
      qed
    next
      case (Some e)
      have "import_answered (Some e) \<lparr>import_counter = n, import_result = None\<rparr> = \<lparr>import_counter = n, import_result = Some (Some e)\<rparr>" for n
        by (simp add: import_answered_def)
      then show ?thesis by (auto simp: Some stays)
    qed
  qed simp
  from this [of 0] assms show ?thesis by (auto simp: importData_def)
qed

text \<open>What is exported comes back without the channels and the pending subscriptions.\<close>

lemma export_import:
  assumes "list_all item_ok items"
  shows "map RosterData_fromDom (item_nodes n (RosterData_toXml (exportData items))) = [Inr (exportData items)]"
proof -
  have "list_all item_ok (exportData items)"
    using assms by (auto simp: exportData_def list_all_iff item_ok_def)
  then show ?thesis
    using RosterItems_back [of "exportData items"]
    by (simp add: RosterData_toXml_def ElementInherit_def build_def RosterData_fromDom_def parseChildElements_def dom_simps
        RosterItem_toXml_def item_dom_def Element_def comp_def)
qed

end
