(* ===== verification/DataForm.thy ===== *)
theory DataForm
  imports Stanza
begin

text \<open>
  Data forms (XEP-0004) with media elements (XEP-0221), \<^verbatim>\<open>src/base/QXmppDataForm.cpp\<close>.

  The value of a field is a \<^verbatim>\<open>QVariant\<close>, whose conversions are those that Qt documents for the
  types that occur.  A URL is what it prints as, and a MIME type is its name; how Qt normalises
  the one and which names its database has for the other is a parameter.
\<close>

definition ns_data :: qstring where "ns_data = ''jabber:x:data''"
definition ns_media_element :: qstring where "ns_media_element = ''urn:xmpp:media-element''"

datatype variant = NoVariant | BoolVariant bool | TextVariant qstring | ListVariant "qstring list"

fun variant_toBool :: "variant \<Rightarrow> bool" where
  "variant_toBool (BoolVariant b) = b"
| "variant_toBool (TextVariant s) = (s \<noteq> [] \<and> s \<noteq> ''0'' \<and> s \<noteq> ''false'')"
| "variant_toBool _ = False"

fun variant_toString :: "variant \<Rightarrow> qstring" where
  "variant_toString (BoolVariant b) = serializeBoolean b"
| "variant_toString (TextVariant s) = s"
| "variant_toString (ListVariant [s]) = s"
| "variant_toString _ = []"

fun variant_toStringList :: "variant \<Rightarrow> qstring list" where
  "variant_toStringList (TextVariant s) = [s]"
| "variant_toStringList (ListVariant ss) = ss"
| "variant_toStringList _ = []"

datatype FieldType = BooleanField | FixedField | HiddenField | JidMultiField | JidSingleField | ListMultiField | ListSingleField
  | TextMultiField | TextPrivateField | TextSingleField

definition FieldType_Values :: "(FieldType \<times> qstring) list" where
  "FieldType_Values = [(BooleanField, ''boolean''), (FixedField, ''fixed''), (HiddenField, ''hidden''), (JidMultiField, ''jid-multi''),
     (JidSingleField, ''jid-single''), (ListMultiField, ''list-multi''), (ListSingleField, ''list-single''), (TextMultiField, ''text-multi''),
     (TextPrivateField, ''text-private''), (TextSingleField, ''text-single'')]"

datatype FormType = NoForm | FormForm | FormSubmit | FormCancel | FormResult

definition FormType_Values :: "(FormType \<times> qstring) list" where
  "FormType_Values = [(NoForm, []), (FormForm, ''form''), (FormSubmit, ''submit''), (FormCancel, ''cancel''), (FormResult, ''result'')]"

record MediaSource =
  source_uri :: qstring
  source_contentType :: qstring

record DataFormField =
  field_description :: qstring
  field_key :: qstring
  field_label :: qstring
  field_options :: "(qstring \<times> qstring) list"
  field_required :: bool
  field_type :: FieldType
  field_value :: variant
  mediaSize :: "int \<times> int"
  mediaSources :: "MediaSource list"

definition new_Field :: DataFormField where
  "new_Field = \<lparr>field_description = [], field_key = [], field_label = [], field_options = [], field_required = False,
     field_type = TextSingleField, field_value = NoVariant, mediaSize = (-1, -1), mediaSources = []\<rparr>"

record QXmppDataForm =
  form_instructions :: qstring
  form_fields :: "DataFormField list"
  form_title :: qstring
  form_type :: FormType

definition new_QXmppDataForm :: QXmppDataForm where
  "new_QXmppDataForm = \<lparr>form_instructions = [], form_fields = [], form_title = [], form_type = NoForm\<rparr>"

definition form_isNull :: "QXmppDataForm \<Rightarrow> bool" where
  "form_isNull f \<longleftrightarrow> form_type f = NoForm"

definition formType :: "QXmppDataForm \<Rightarrow> qstring" where
  "formType f = (case List.find (\<lambda>x. field_type x = HiddenField \<and> field_key x = ''FORM_TYPE'') (form_fields f) of
     Some x \<Rightarrow> variant_toString (field_value x) | None \<Rightarrow> [])"

definition form_field :: "qstring \<Rightarrow> QXmppDataForm \<Rightarrow> DataFormField option" where
  "form_field k f = List.find (\<lambda>x. field_key x = k) (form_fields f)"

definition fieldValue :: "qstring \<Rightarrow> QXmppDataForm \<Rightarrow> variant option" where
  "fieldValue k f = map_option field_value (form_field k f)"

section \<open>Reading\<close>

record form_env =
  normalUrl :: "qstring \<Rightarrow> qstring"
  mimeName :: "qstring \<Rightarrow> qstring"

definition toInt :: "qstring \<Rightarrow> int" where
  "toInt s = (case to_signed 32 s of None \<Rightarrow> 0 | Some n \<Rightarrow> n)"

definition media_dimension :: "qstring \<Rightarrow> dom \<Rightarrow> int" where
  "media_dimension k el = toInt (if hasAttribute k el then attr k el else ''-1'')"

definition field_value_fromDom :: "FieldType \<Rightarrow> dom \<Rightarrow> variant" where
  "field_value_fromDom t el =
     (case t of
        BooleanField \<Rightarrow> (let v = child_text el ''value'' [] in BoolVariant (v = ''1'' \<or> v = ''true''))
      | ListMultiField \<Rightarrow> ListVariant (parseTextElements el ''value'' ns_data)
      | JidMultiField \<Rightarrow> ListVariant (parseTextElements el ''value'' ns_data)
      | TextMultiField \<Rightarrow> ListVariant (parseTextElements el ''value'' ns_data)
      | _ \<Rightarrow> TextVariant (child_text el ''value'' []))"

definition Field_fromDom :: "form_env \<Rightarrow> dom \<Rightarrow> DataFormField option" where
  "Field_fromDom e el =
     (let t = (case enum_fromString FieldType_Values (attr ''type'' el) of Some t \<Rightarrow> t | None \<Rightarrow> TextSingleField);
          media = firstChildElement el ''media'' ns_media_element
      in Some \<lparr>field_description = child_text el ''description'' [], field_key = attr ''var'' el, field_label = attr ''label'' el,
           field_options = (if t = ListMultiField \<or> t = ListSingleField
             then map (\<lambda>o'. (attr ''label'' o', child_text o' ''value'' [])) (iterChildElements el ''option'' []) else []),
           field_required = hasChild el ''required'' [], field_type = t, field_value = field_value_fromDom t el,
           mediaSize = (case media of None \<Rightarrow> (-1, -1) | Some m \<Rightarrow> (media_dimension ''width'' m, media_dimension ''height'' m)),
           mediaSources = (case media of None \<Rightarrow> [] | Some m \<Rightarrow>
             map (\<lambda>u. \<lparr>source_uri = normalUrl e (dom_text u), source_contentType = mimeName e (attr ''type'' u)\<rparr>)
               (iterChildElements m ''uri'' ns_media_element))\<rparr>)"

text \<open>An unknown type leaves the form as it is; fields are added to those it has.\<close>

definition DataForm_parse :: "form_env \<Rightarrow> dom \<Rightarrow> QXmppDataForm \<Rightarrow> QXmppDataForm" where
  "DataForm_parse e el f =
     (case enum_fromString FormType_Values (attr ''type'' el) of
        None \<Rightarrow> f
      | Some t \<Rightarrow> f\<lparr>form_type := t, form_title := child_text el ''title'' [], form_instructions := child_text el ''instructions'' [],
          form_fields := form_fields f @ parseChildElements (Field_fromDom e) el ''field'' ns_data\<rparr>)"

definition DataForm_fromDom :: "form_env \<Rightarrow> dom \<Rightarrow> QXmppDataForm option" where
  "DataForm_fromDom e el = Some (DataForm_parse e el new_QXmppDataForm)"

section \<open>Writing\<close>

definition option_item :: "qstring \<times> qstring \<Rightarrow> item" where
  "option_item o' = ElementInherit ''option'' (OptionalAttribute ''label'' (fst o') @ [TextElement ''value'' (snd o')])"

definition source_item :: "MediaSource \<Rightarrow> item" where
  "source_item s = ElementInherit ''uri'' (OptionalAttribute ''type'' (source_contentType s) @ [Characters (source_uri s)])"

definition field_value_items :: "DataFormField \<Rightarrow> item list" where
  "field_value_items f =
     (case field_type f of
        BooleanField \<Rightarrow> [TextElement ''value'' (serializeBoolean (variant_toBool (field_value f)))]
      | ListMultiField \<Rightarrow> TextElements ''value'' (variant_toStringList (field_value f))
      | JidMultiField \<Rightarrow> TextElements ''value'' (variant_toStringList (field_value f))
      | TextMultiField \<Rightarrow> TextElements ''value'' (variant_toStringList (field_value f))
      | _ \<Rightarrow> OptionalTextElement ''value'' (variant_toString (field_value f)))"

definition positive_attribute :: "qstring \<Rightarrow> int \<Rightarrow> item list" where
  "positive_attribute k n = (if n > 0 then [Attribute k (serializeInt n)] else [])"

definition field_media_items :: "DataFormField \<Rightarrow> item list" where
  "field_media_items f = OptionalContent (mediaSources f \<noteq> [])
     [Element ''media'' ns_media_element (positive_attribute ''width'' (fst (mediaSize f)) @ positive_attribute ''height'' (snd (mediaSize f)) @
        map source_item (mediaSources f))]"

definition Field_toXml :: "DataFormField \<Rightarrow> item" where
  "Field_toXml f = ElementInherit ''field''
     ([Attribute ''type'' (enum_toString FieldType_Values (field_type f))] @ OptionalAttribute ''label'' (field_label f) @
      OptionalAttribute ''var'' (field_key f) @ field_value_items f @ field_media_items f @
      OptionalContent (field_type f = ListMultiField \<or> field_type f = ListSingleField) (map option_item (field_options f)) @
      OptionalTextElement ''description'' (field_description f) @ OptionalContent (field_required f) [ElementInherit ''required'' []])"

text \<open>A null form writes nothing.\<close>

definition DataForm_toXml :: "QXmppDataForm \<Rightarrow> item list" where
  "DataForm_toXml f =
     (if form_isNull f then []
      else [Element ''x'' ns_data ([Attribute ''type'' (enum_toString FormType_Values (form_type f))] @
         OptionalTextElement ''title'' (form_title f) @ OptionalTextElement ''instructions'' (form_instructions f) @
         map Field_toXml (form_fields f))])"

section \<open>Round trips\<close>

definition form_text :: "qstring \<Rightarrow> qstring \<Rightarrow> qstring \<Rightarrow> dom" where
  "form_text ns tag v = Elem tag ns [] (if v = [] then [] else [Text v])"

lemma form_text_simps [simp]:
  "dom_text (form_text ns tag v) = v" "matches t n (form_text ns tag v) \<longleftrightarrow> (n = [] \<or> ns = n) \<and> (t = [] \<or> tag = t)"
  "item_nodes ns (TextElement tag v) = [form_text ns tag v]" "item_attrs (TextElement tag v) = []"
  by (auto simp: form_text_def TextElement_def writeTextOrEmptyElement_def ElementInherit_def build_def matches_def)

lemma optional_form_texts [simp]:
  "concat (map (item_nodes ns) (OptionalTextElement tag v)) = (if v = [] then [] else [form_text ns tag v])"
  "concat (map item_attrs (OptionalTextElement tag v)) = []"
  by (auto simp: OptionalTextElement_def form_text_def writeTextOrEmptyElement_def ElementInherit_def build_def)

lemma text_elements_nodes [simp]:
  "concat (map (item_nodes ns) (TextElements tag vs)) = map (form_text ns tag) vs" "concat (map item_attrs (TextElements tag vs)) = []"
  by (induction vs) (simp_all add: TextElements_def)

lemma optional_attrs [simp]:
  "concat (map item_attrs (OptionalAttribute k v)) = (if v = [] then [] else [(k, v)])" "concat (map (item_nodes ns) (OptionalAttribute k v)) = []"
  "concat (map item_attrs (positive_attribute k n)) = (if n > 0 then [(k, serializeInt n)] else [])"
  "concat (map (item_nodes ns) (positive_attribute k n)) = []"
  by (simp_all add: OptionalAttribute_def positive_attribute_def)

definition option_node :: "qstring \<times> qstring \<Rightarrow> dom" where
  "option_node o' = Elem ''option'' ns_data (if fst o' = [] then [] else [(''label'', fst o')]) [form_text ns_data ''value'' (snd o')]"

definition source_node :: "MediaSource \<Rightarrow> dom" where
  "source_node s = Elem ''uri'' ns_media_element (if source_contentType s = [] then [] else [(''type'', source_contentType s)]) [Text (source_uri s)]"

definition media_node :: "DataFormField \<Rightarrow> dom" where
  "media_node f = Elem ''media'' ns_media_element
     ((if fst (mediaSize f) > 0 then [(''width'', serializeInt (fst (mediaSize f)))] else []) @
      (if snd (mediaSize f) > 0 then [(''height'', serializeInt (snd (mediaSize f)))] else [])) (map source_node (mediaSources f))"

lemma item_nodes_options:
  "concat (map (item_nodes ns_data) (map option_item os)) = map option_node os" "concat (map item_attrs (map option_item os)) = []"
  by (induction os) (simp_all add: option_item_def option_node_def ElementInherit_def build_def)

lemma item_nodes_sources:
  "concat (map (item_nodes ns_media_element) (map source_item ss)) = map source_node ss" "concat (map item_attrs (map source_item ss)) = []"
  by (induction ss) (simp_all add: source_item_def source_node_def ElementInherit_def build_def)

definition value_nodes :: "DataFormField \<Rightarrow> dom list" where
  "value_nodes f = concat (map (item_nodes ns_data) (field_value_items f))"

definition field_dom :: "DataFormField \<Rightarrow> dom" where
  "field_dom f = Elem ''field'' ns_data
     ((''type'', enum_toString FieldType_Values (field_type f)) # (if field_label f = [] then [] else [(''label'', field_label f)]) @
      (if field_key f = [] then [] else [(''var'', field_key f)]))
     (value_nodes f @ (if mediaSources f \<noteq> [] then [media_node f] else []) @
      (if field_type f = ListMultiField \<or> field_type f = ListSingleField then map option_node (field_options f) else []) @
      (if field_description f = [] then [] else [form_text ns_data ''description'' (field_description f)]) @
      (if field_required f then [Elem ''required'' ns_data [] []] else []))"

lemma field_value_attrs [simp]: "concat (map item_attrs (field_value_items f)) = []"
  by (cases "field_type f") (simp_all add: field_value_items_def del: concat_eq_Nil_conv)

lemma media_nodes:
  "concat (map (item_nodes n) (field_media_items f)) = (if mediaSources f \<noteq> [] then [media_node f] else [])"
  "concat (map item_attrs (field_media_items f)) = []"
  using item_nodes_sources [of "mediaSources f"]
  by (simp_all add: field_media_items_def OptionalContent_def Element_def build_def media_node_def)

lemma field_item_node: "item_nodes ns_data (Field_toXml f) = [field_dom f]" "item_attrs (Field_toXml f) = []"
  using item_nodes_options [of "field_options f"] media_nodes [where f = f]
  by (auto simp: Field_toXml_def ElementInherit_def build_def field_dom_def value_nodes_def OptionalContent_def)

definition dimension_ok :: "int \<Rightarrow> bool" where
  "dimension_ok n \<longleftrightarrow> n = -1 \<or> 0 < n \<and> n < 2 ^ 31"

text \<open>
  What comes back: a value of the kind the type of the field has, options for lists only, a size only with sources, URLs and types as Qt
  prints them.
\<close>

definition field_ok :: "form_env \<Rightarrow> DataFormField \<Rightarrow> bool" where
  "field_ok e f \<longleftrightarrow>
     (if field_type f = BooleanField then (\<exists>b. field_value f = BoolVariant b)
      else if field_type f \<in> {ListMultiField, JidMultiField, TextMultiField} then (\<exists>ss. field_value f = ListVariant ss)
      else (\<exists>s. field_value f = TextVariant s)) \<and>
     (field_type f \<noteq> ListMultiField \<and> field_type f \<noteq> ListSingleField \<longrightarrow> field_options f = []) \<and>
     (if mediaSources f = [] then mediaSize f = (-1, -1) else dimension_ok (fst (mediaSize f)) \<and> dimension_ok (snd (mediaSize f))) \<and>
     (\<forall>s \<in> set (mediaSources f). normalUrl e (source_uri s) = source_uri s \<and> mimeName e (source_contentType s) = source_contentType s)"

lemma find_map_none [simp]: "(\<And>x. x \<in> set xs \<Longrightarrow> \<not> P (f x)) \<Longrightarrow> List.find P (map f xs) = None"
  by (induction xs) auto

lemma option_matches [simp]: "matches t n (option_node x) \<longleftrightarrow> (n = [] \<or> n = ns_data) \<and> (t = [] \<or> t = ''option'')"
  by (auto simp: option_node_def matches_def)

lemma source_matches [simp]: "matches t n (source_node x) \<longleftrightarrow> (n = [] \<or> n = ns_media_element) \<and> (t = [] \<or> t = ''uri'')"
  by (auto simp: source_node_def matches_def)

lemma media_matches [simp]: "matches t n (media_node x) \<longleftrightarrow> (n = [] \<or> n = ns_media_element) \<and> (t = [] \<or> t = ''media'')"
  by (auto simp: media_node_def matches_def)

lemma value_nodes_texts: "\<exists>ss. value_nodes f = map (form_text ns_data ''value'') ss"
proof -
  have "\<exists>ss. (if s = [] then [] else [form_text ns_data ''value'' s]) = map (form_text ns_data ''value'') ss" for s
    by (rule exI [of _ "if s = [] then [] else [s]"]) simp
  moreover have "\<exists>ss. [form_text ns_data ''value'' s] = map (form_text ns_data ''value'') ss" for s
    by (rule exI [of _ "[s]"]) simp
  ultimately show ?thesis
    unfolding value_nodes_def by (cases "field_type f") (simp_all add: field_value_items_def, blast+)
qed

lemma value_matches:
  assumes "c \<in> set (value_nodes f)" shows "matches t n c \<longleftrightarrow> (n = [] \<or> n = ns_data) \<and> (t = [] \<or> t = ''value'')"
proof -
  obtain ss where "value_nodes f = map (form_text ns_data ''value'') ss" using value_nodes_texts by blast
  then show ?thesis using assms by auto
qed

lemma matches_node [simp]: "matches t n (Elem tag ns as cs) \<longleftrightarrow> (n = [] \<or> ns = n) \<and> (t = [] \<or> tag = t)"
  by (auto simp: matches_def)

lemma find_none: "(\<And>x. x \<in> set xs \<Longrightarrow> \<not> P x) \<Longrightarrow> List.find P xs = None"
  by (induction xs) auto

lemma ns_different [simp]: "ns_media_element \<noteq> ns_data" "ns_data \<noteq> []" "ns_media_element \<noteq> []"
  by (simp_all add: ns_media_element_def ns_data_def)

lemma field_type_back: "enum_fromString FieldType_Values (enum_toString FieldType_Values t) = Some t"
  by (cases t) (simp_all add: enum_fromString_def enum_toString_def FieldType_Values_def)

lemma form_type_back: "enum_fromString FormType_Values (enum_toString FormType_Values t) = Some t"
  by (cases t) (simp_all add: enum_fromString_def enum_toString_def FormType_Values_def)

lemma field_attrs:
  "attr ''type'' (field_dom f) = enum_toString FieldType_Values (field_type f)" "attr ''label'' (field_dom f) = field_label f"
  "attr ''var'' (field_dom f) = field_key f"
  by (simp_all add: field_dom_def attr_def)

lemma field_description_back: "child_text (field_dom f) ''description'' [] = field_description f"
  using value_matches [of _ f]
  by (simp add: child_text_def firstChildElement_find field_dom_def find_append find_none)

lemma field_required_back: "hasChild (field_dom f) ''required'' [] = field_required f"
  using value_matches [of _ f]
  by (simp add: hasChild_def firstChildElement_find field_dom_def find_append find_none)

lemma field_options_back:
  "map (\<lambda>o'. (attr ''label'' o', child_text o' ''value'' [])) (iterChildElements (field_dom f) ''option'' []) =
    (if field_type f = ListMultiField \<or> field_type f = ListSingleField then field_options f else [])"
proof -
  have o': "(attr ''label'' (option_node p), child_text (option_node p) ''value'' []) = p" for p
    by (cases p) (simp add: option_node_def attr_def child_text_def firstChildElement_find)
  have "filter (matches ''option'' []) (value_nodes f) = []" by (simp add: filter_empty_conv value_matches)
  then show ?thesis by (simp add: iterChildElements_filter field_dom_def filter_map o_def o')
qed

lemma field_media_back: "firstChildElement (field_dom f) ''media'' ns_media_element = (if mediaSources f = [] then None else Some (media_node f))"
  using value_matches [of _ f] by (simp add: firstChildElement_find field_dom_def find_append find_none)

lemma media_sources_back:
  assumes "\<forall>s \<in> set (mediaSources f). normalUrl e (source_uri s) = source_uri s \<and> mimeName e (source_contentType s) = source_contentType s"
  shows "map (\<lambda>u. \<lparr>source_uri = normalUrl e (dom_text u), source_contentType = mimeName e (attr ''type'' u)\<rparr>)
     (iterChildElements (media_node f) ''uri'' ns_media_element) = mediaSources f"
proof -
  have "dom_text (source_node s) = source_uri s" "attr ''type'' (source_node s) = source_contentType s" for s
    by (simp_all add: source_node_def attr_def)
  then show ?thesis using assms
    by (simp add: iterChildElements_filter media_node_def filter_map o_def map_idI)
qed

lemma media_dimension_back:
  assumes "dimension_ok (fst (mediaSize f))" "dimension_ok (snd (mediaSize f))"
  shows "media_dimension ''width'' (media_node f) = fst (mediaSize f)" and "media_dimension ''height'' (media_node f) = snd (mediaSize f)"
proof -
  have dim: "toInt (serializeInt n) = n" if "0 < n" "n < 2 ^ 31" for n
    using to_signed_serializeInt [of 32 n] that by (simp add: toInt_def)
  have "toInt ''-1'' = -1" by code_simp
  then show "media_dimension ''width'' (media_node f) = fst (mediaSize f)" "media_dimension ''height'' (media_node f) = snd (mediaSize f)"
    using assms dim by (auto simp: media_dimension_def media_node_def hasAttribute_def attr_def dimension_ok_def)
qed

lemma first_value_back:
  assumes "value_nodes f = (if s = [] then [] else [form_text ns_data ''value'' s])"
  shows "child_text (field_dom f) ''value'' [] = s"
  using assms by (simp add: child_text_def firstChildElement_find field_dom_def find_append find_none)

lemma all_values_back:
  assumes "value_nodes f = map (form_text ns_data ''value'') ss"
  shows "parseTextElements (field_dom f) ''value'' ns_data = ss"
proof -
  have "filter (matches ''value'' ns_data) (map option_node os) = []" for os by (simp add: filter_empty_conv)
  then show ?thesis using assms
    by (simp add: parseTextElements_def iterChildElements_filter field_dom_def filter_map o_def)
qed

lemma field_value_back:
  assumes "field_ok e f" shows "field_value_fromDom (field_type f) (field_dom f) = field_value f"
proof (cases "field_type f \<in> {ListMultiField, JidMultiField, TextMultiField}")
  case True
  then obtain ss where ss: "field_value f = ListVariant ss" using assms by (auto simp: field_ok_def)
  then have "value_nodes f = map (form_text ns_data ''value'') ss" using True by (auto simp: value_nodes_def field_value_items_def)
  then show ?thesis using True ss all_values_back by (auto simp: field_value_fromDom_def)
next
  case multi: False
  show ?thesis
  proof (cases "field_type f = BooleanField")
    case True
    then obtain b where b: "field_value f = BoolVariant b" using assms by (auto simp: field_ok_def)
    then have "value_nodes f = (if serializeBoolean b = [] then [] else [form_text ns_data ''value'' (serializeBoolean b)])"
      using True by (simp add: value_nodes_def field_value_items_def serializeBoolean_def)
    then show ?thesis using True b first_value_back [of f "serializeBoolean b"] by (simp add: field_value_fromDom_def Let_def serializeBoolean_def)
  next
    case False
    then obtain s where s: "field_value f = TextVariant s" using assms multi by (simp add: field_ok_def) blast
    have "value_nodes f = (if s = [] then [] else [form_text ns_data ''value'' s])"
      using False multi s by (cases "field_type f") (simp_all add: value_nodes_def field_value_items_def)
    from first_value_back [OF this] show ?thesis
      using False multi s by (cases "field_type f") (simp_all add: field_value_fromDom_def)
  qed
qed

lemma field_back: "field_ok e f \<Longrightarrow> Field_fromDom e (field_dom f) = Some f"
  using field_value_back [of e f] media_sources_back [of f e] media_dimension_back [of f]
  by (auto simp: Field_fromDom_def Let_def field_attrs field_type_back field_description_back field_required_back field_options_back field_media_back
      field_ok_def prod_eq_iff)

definition form_ok :: "form_env \<Rightarrow> QXmppDataForm \<Rightarrow> bool" where
  "form_ok e f \<longleftrightarrow> \<not> form_isNull f \<and> list_all (field_ok e) (form_fields f)"

definition form_dom :: "QXmppDataForm \<Rightarrow> dom" where
  "form_dom f = Elem ''x'' ns_data [(''type'', enum_toString FormType_Values (form_type f))]
     ((if form_title f = [] then [] else [form_text ns_data ''title'' (form_title f)]) @
      (if form_instructions f = [] then [] else [form_text ns_data ''instructions'' (form_instructions f)]) @ map field_dom (form_fields f))"

lemma form_nodes: "form_ok e f \<Longrightarrow> DataForm_toXml f = [Node (\<lambda>_. form_dom f)]"
proof -
  have "concat (map (item_nodes ns_data \<circ> Field_toXml) fs) = map field_dom fs" "concat (map (item_attrs \<circ> Field_toXml) fs) = []" for fs
    by (induction fs) (simp_all add: field_item_node)
  then show "form_ok e f \<Longrightarrow> DataForm_toXml f = [Node (\<lambda>_. form_dom f)]"
    by (simp add: DataForm_toXml_def form_ok_def Element_def build_def form_dom_def del: concat_eq_Nil_conv)
qed

lemma field_matches [simp]: "matches t n (field_dom f) \<longleftrightarrow> (n = [] \<or> n = ns_data) \<and> (t = [] \<or> t = ''field'')"
  by (auto simp: field_dom_def matches_def)

lemma fields_back: "list_all (field_ok e) fs \<Longrightarrow> concat (map (\<lambda>c. case Field_fromDom e c of None \<Rightarrow> [] | Some v \<Rightarrow> [v]) (map field_dom fs)) = fs"
  by (induction fs) (simp_all add: field_back)

lemma form_back:
  assumes "form_ok e f" shows "DataForm_fromDom e (form_dom f) = Some f"
proof -
  have "child_text (form_dom f) ''title'' [] = form_title f" "child_text (form_dom f) ''instructions'' [] = form_instructions f"
    by (simp_all add: child_text_def firstChildElement_find form_dom_def find_append find_none)
  moreover have "parseChildElements (Field_fromDom e) (form_dom f) ''field'' ns_data = form_fields f"
    using fields_back [of e "form_fields f"] assms
    by (simp add: parseChildElements_def iterChildElements_filter form_dom_def filter_map o_def form_ok_def)
  moreover have "attr ''type'' (form_dom f) = enum_toString FormType_Values (form_type f)" by (simp add: form_dom_def attr_def)
  ultimately show ?thesis by (simp add: DataForm_fromDom_def DataForm_parse_def form_type_back new_QXmppDataForm_def)
qed

text \<open>C40.  A data form with any fields, options and media comes back as it was.\<close>

theorem data_form_roundtrip:
  assumes "form_ok e f"
  shows "map (DataForm_fromDom e \<circ> written) (DataForm_toXml f) = [Some f]"
  using form_nodes [OF assms] form_back [OF assms] by (simp add: written_def)

definition example_form_env :: form_env where
  "example_form_env = \<lparr>normalUrl = (\<lambda>u. u), mimeName = (\<lambda>m. m)\<rparr>"

definition example_form :: QXmppDataForm where
  "example_form = new_QXmppDataForm\<lparr>form_title := ''t'', form_type := FormForm, form_fields :=
     [new_Field\<lparr>field_type := BooleanField, field_key := ''b'', field_value := BoolVariant True, field_required := True\<rparr>,
      new_Field\<lparr>field_type := ListSingleField, field_key := ''m'', field_value := TextVariant [], field_options := [([], ''x''), (''l'', ''y'')]\<rparr>,
      new_Field\<lparr>field_type := TextMultiField, field_value := ListVariant [''p'', []], mediaSize := (10, -1),
        mediaSources := [\<lparr>source_uri = ''http://u'', source_contentType = ''image/png''\<rparr>]\<rparr>]\<rparr>"

theorem data_form_roundtrip_witness:
  "map (DataForm_fromDom example_form_env \<circ> written) (DataForm_toXml example_form) = [Some example_form]"
  by (rule data_form_roundtrip)
    (auto simp: form_ok_def form_isNull_def example_form_def field_ok_def dimension_ok_def new_Field_def example_form_env_def)

end
