(* ===== verification/Discovery.thy ===== *)
theory Discovery
  imports DataForm "HOL-Library.AList" IqHandling "HOL-Library.List_Lexorder" "HOL-Library.Char_ord" "HOL-Library.Product_Lexorder" "HOL-Library.Multiset"
begin

text \<open>
  Service discovery (XEP-0030) and the hash of entity capabilities (XEP-0115), \<^verbatim>\<open>src/base/QXmppDiscoveryIq.cpp\<close>, and the manager of
  \<^verbatim>\<open>src/client/QXmppDiscoveryManager.cpp\<close> with its caches and the requests that callers share.

  Strings are ordered by their characters.  A task is a number, and the results of the tasks are a log.  The library's own features
  and extensions are arguments.
\<close>

definition ns_disco_info :: qstring where "ns_disco_info = ''http://jabber.org/protocol/disco#info''"
definition ns_disco_items :: qstring where "ns_disco_items = ''http://jabber.org/protocol/disco#items''"

section \<open>Items\<close>

record QXmppDiscoItem =
  item_jid :: qstring
  item_name :: qstring
  item_node :: qstring

definition DiscoItem_fromDom :: "dom \<Rightarrow> QXmppDiscoItem option" where
  "DiscoItem_fromDom el =
     (if attr ''jid'' el = [] then None
      else Some \<lparr>item_jid = attr ''jid'' el, item_name = attr ''name'' el, item_node = attr ''node'' el\<rparr>)"

definition DiscoItem_toXml :: "QXmppDiscoItem \<Rightarrow> item" where
  "DiscoItem_toXml i = ElementInherit ''item''
     ([Attribute ''jid'' (item_jid i)] @ OptionalAttribute ''name'' (item_name i) @ OptionalAttribute ''node'' (item_node i))"

record QXmppDiscoItems =
  items_node :: qstring
  disco_items :: "QXmppDiscoItem list"

definition DiscoItems_fromDom :: "dom \<Rightarrow> QXmppDiscoItems option" where
  "DiscoItems_fromDom el = Some \<lparr>items_node = attr ''node'' el, disco_items = parseChildElements DiscoItem_fromDom el ''item'' ns_disco_items\<rparr>"

definition DiscoItems_toXml :: "QXmppDiscoItems \<Rightarrow> item" where
  "DiscoItems_toXml i = Element ''query'' ns_disco_items (OptionalAttribute ''node'' (items_node i) @ map DiscoItem_toXml (disco_items i))"

section \<open>Information\<close>

record QXmppDiscoIdentity =
  id_category :: qstring
  id_type :: qstring
  id_name :: qstring
  id_language :: qstring

definition DiscoIdentity_fromDom :: "dom \<Rightarrow> QXmppDiscoIdentity option" where
  "DiscoIdentity_fromDom el =
     (if attr ''category'' el = [] \<or> attr ''type'' el = [] then None
      else Some \<lparr>id_category = attr ''category'' el, id_type = attr ''type'' el, id_name = attr ''name'' el, id_language = attr ''xml:lang'' el\<rparr>)"

definition DiscoIdentity_toXml :: "QXmppDiscoIdentity \<Rightarrow> item" where
  "DiscoIdentity_toXml i = ElementInherit ''identity''
     (OptionalAttribute ''xml:lang'' (id_language i) @ [Attribute ''category'' (id_category i)] @ OptionalAttribute ''name'' (id_name i) @
      [Attribute ''type'' (id_type i)])"

record QXmppDiscoInfo =
  info_node :: qstring
  info_identities :: "QXmppDiscoIdentity list"
  info_features :: "qstring list"
  info_forms :: "QXmppDataForm list"

definition DiscoInfo_fromDom :: "form_env \<Rightarrow> dom \<Rightarrow> QXmppDiscoInfo option" where
  "DiscoInfo_fromDom e el = Some \<lparr>info_node = attr ''node'' el,
     info_identities = parseChildElements DiscoIdentity_fromDom el ''identity'' ns_disco_info,
     info_features = parseSingleAttributeElements el ''feature'' ns_disco_info ''var'',
     info_forms = parseChildElements (DataForm_fromDom e) el ''x'' ns_data\<rparr>"

definition DiscoInfo_toXml :: "QXmppDiscoInfo \<Rightarrow> item" where
  "DiscoInfo_toXml i = Element ''query'' ns_disco_info
     (OptionalAttribute ''node'' (info_node i) @ map DiscoIdentity_toXml (info_identities i) @
      SingleAttributeElements ''feature'' ''var'' (info_features i) @ concat (map DataForm_toXml (info_forms i)))"

definition dataForm :: "qstring \<Rightarrow> QXmppDiscoInfo \<Rightarrow> QXmppDataForm option" where
  "dataForm t i = List.find (\<lambda>f. formType f = t) (info_forms i)"

section \<open>The hash of capabilities\<close>

text \<open>The order of identities; it is the order of the tuples of their parts.\<close>

definition identity_key :: "QXmppDiscoIdentity \<Rightarrow> qstring \<times> qstring \<times> qstring \<times> qstring" where
  "identity_key i = (id_category i, id_type i, id_language i, id_name i)"

definition entityCapabilities1Compare :: "QXmppDiscoIdentity \<Rightarrow> QXmppDiscoIdentity \<Rightarrow> bool" where
  "entityCapabilities1Compare i j \<longleftrightarrow> identity_key i < identity_key j"

definition identity_part :: "QXmppDiscoIdentity \<Rightarrow> qstring" where
  "identity_part i = id_category i @ ''/'' @ id_type i @ ''/'' @ id_language i @ ''/'' @ id_name i @ ''<''"

fun list_joined :: "qstring list \<Rightarrow> qstring" where
  "list_joined [] = []"
| "list_joined [s] = s"
| "list_joined (s # ss) = s @ ''<'' @ list_joined ss"

fun canConvert_list :: "variant \<Rightarrow> bool" where
  "canConvert_list (TextVariant _) = True"
| "canConvert_list (ListVariant _) = True"
| "canConvert_list _ = False"

definition value_part :: "variant \<Rightarrow> qstring" where
  "value_part v = (if canConvert_list v then list_joined (sort (variant_toStringList v)) else variant_toString v)"

definition field_part :: "DataFormField \<Rightarrow> qstring" where
  "field_part f = (if field_key f = ''FORM_TYPE'' then [] else field_key f @ ''<'' @ value_part (field_value f) @ ''<'')"

definition form_part :: "QXmppDataForm \<Rightarrow> qstring" where
  "form_part f = formType f @ ''<'' @ concat (map field_part (sort_key field_key (form_fields f)))"

definition capabilities_string :: "QXmppDiscoInfo \<Rightarrow> qstring" where
  "capabilities_string i =
     concat (map identity_part (sort_key identity_key (info_identities i))) @
     concat (map (\<lambda>f. f @ ''<'') (remdups (sort (info_features i)))) @
     concat (map form_part (sort_key formType (info_forms i)))"

definition calculateEntityCapabilitiesHash :: "(qstring \<Rightarrow> 'h) \<Rightarrow> QXmppDiscoInfo \<Rightarrow> 'h" where
  "calculateEntityCapabilitiesHash sha1_utf8 i = sha1_utf8 (capabilities_string i)"

section \<open>Shared requests\<close>

record 'k AttachableRequests =
  open_requests :: "('k \<times> nat list) list"
  next_task :: nat

text \<open>A call attaches to a request for the same parameters, or makes one; the flag tells whether a request has to be sent.\<close>

definition attach_or_new :: "'k \<Rightarrow> 'k AttachableRequests \<Rightarrow> bool \<times> nat \<times> 'k AttachableRequests" where
  "attach_or_new key a =
     (let t = next_task a; a1 = a\<lparr>next_task := t + 1\<rparr>
      in case map_of (open_requests a) key of
           Some ts \<Rightarrow> (False, t, a1\<lparr>open_requests := AList.update key (ts @ [t]) (open_requests a)\<rparr>)
         | None \<Rightarrow> (True, t, a1\<lparr>open_requests := open_requests a @ [(key, [t])]\<rparr>))"

text \<open>The tasks that a response finishes, in order.\<close>

definition finish_request :: "'k \<Rightarrow> 'k AttachableRequests \<Rightarrow> nat list \<times> 'k AttachableRequests" where
  "finish_request key a =
     (case map_of (open_requests a) key of
        None \<Rightarrow> ([], a)
      | Some ts \<Rightarrow> (ts, a\<lparr>open_requests := filter (\<lambda>r. fst r \<noteq> key) (open_requests a)\<rparr>))"

text \<open>A \<^verbatim>\<open>QCache\<close> of at most a number of objects, with the one used last in front.\<close>

definition cache_insert :: "nat \<Rightarrow> 'k \<Rightarrow> 'v \<Rightarrow> ('k \<times> 'v) list \<Rightarrow> ('k \<times> 'v) list" where
  "cache_insert n k v c = take n ((k, v) # filter (\<lambda>x. fst x \<noteq> k) c)"

definition cache_object :: "'k \<Rightarrow> ('k \<times> 'v) list \<Rightarrow> 'v option \<times> ('k \<times> 'v) list" where
  "cache_object k c = (case map_of c k of None \<Rightarrow> (None, c) | Some v \<Rightarrow> (Some v, (k, v) # filter (\<lambda>x. fst x \<noteq> k) c))"

section \<open>The manager\<close>

type_synonym disco_key = "qstring \<times> qstring"

datatype CachePolicy = Relaxed | Strict

record 'v disco_table =
  disco_cache :: "(disco_key \<times> 'v) list"
  disco_requests :: "disco_key AttachableRequests"
  disco_sent :: "disco_key list"
  disco_results :: "(nat \<times> (qxmpp_error + 'v)) list"

definition new_table :: "'v disco_table" where
  "new_table = \<lparr>disco_cache = [], disco_requests = \<lparr>open_requests = [], next_task = 0\<rparr>, disco_sent = [], disco_results = []\<rparr>"

definition maxCost :: nat where "maxCost = 50"

text \<open>\<^verbatim>\<open>info\<close> and \<^verbatim>\<open>items\<close>: a value of the cache makes a task that is ready.\<close>

definition disco_get :: "qstring \<Rightarrow> qstring \<Rightarrow> CachePolicy \<Rightarrow> 'v disco_table \<Rightarrow> nat \<times> 'v disco_table" where
  "disco_get jid node policy s =
     (let key = (jid, node); (cached, c) = (if policy = Relaxed then cache_object key (disco_cache s) else (None, disco_cache s))
      in case cached of
           Some v \<Rightarrow> let t = next_task (disco_requests s)
             in (t, s\<lparr>disco_cache := c, disco_requests := (disco_requests s)\<lparr>next_task := t + 1\<rparr>, disco_results := disco_results s @ [(t, Inr v)]\<rparr>)
         | None \<Rightarrow>
             (case attach_or_new key (disco_requests s) of (new, t, a) \<Rightarrow>
                (t, s\<lparr>disco_cache := c, disco_requests := a, disco_sent := (if new then disco_sent s @ [key] else disco_sent s)\<rparr>)))"

definition disco_response :: "disco_key \<Rightarrow> qxmpp_error + 'v \<Rightarrow> 'v disco_table \<Rightarrow> 'v disco_table" where
  "disco_response key response s =
     (let s1 = (case response of Inr v \<Rightarrow> s\<lparr>disco_cache := cache_insert maxCost key v (disco_cache s)\<rparr> | Inl _ \<Rightarrow> s)
      in case finish_request key (disco_requests s1) of (ts, a) \<Rightarrow>
           s1\<lparr>disco_requests := a, disco_results := disco_results s1 @ map (\<lambda>t. (t, response)) ts\<rparr>)"

definition disco_onConnected :: "bool \<Rightarrow> 'v disco_table \<Rightarrow> 'v disco_table" where
  "disco_onConnected resumed s = (if \<not> resumed then s\<lparr>disco_cache := []\<rparr> else s)"

record disco_config =
  clientCapabilitiesNode :: qstring
  own_identities :: "QXmppDiscoIdentity list"
  own_dataForms :: "QXmppDataForm list"
  library_features :: "qstring list"
  extension_features :: "qstring list list"
  extension_identities :: "QXmppDiscoIdentity list list"

definition buildClientInfo :: "disco_config \<Rightarrow> QXmppDiscoInfo" where
  "buildClientInfo c = \<lparr>info_node = [], info_identities = own_identities c @ concat (extension_identities c),
     info_features = sort (library_features c @ concat (extension_features c)), info_forms = own_dataForms c\<rparr>"

definition starts_with :: "qstring \<Rightarrow> qstring \<Rightarrow> bool" where
  "starts_with p s \<longleftrightarrow> take (length p) s = p"

definition unknown_node :: StanzaError where
  "unknown_node = new_StanzaError\<lparr>err_type := Cancel, err_condition := ItemNotFound, err_text := ''Unknown node.''\<rparr>"

definition handleIq_info :: "disco_config \<Rightarrow> QXmppDiscoInfo \<Rightarrow> StanzaError + QXmppDiscoInfo" where
  "handleIq_info c i = (if info_node i = [] \<or> starts_with (clientCapabilitiesNode c) (info_node i) then Inr (buildClientInfo c) else Inl unknown_node)"

definition handleIq_items :: "disco_config \<Rightarrow> QXmppDiscoItems \<Rightarrow> StanzaError + QXmppDiscoItems" where
  "handleIq_items c i = (if items_node i = [] \<or> starts_with (clientCapabilitiesNode c) (items_node i)
     then Inr \<lparr>items_node = [], disco_items = []\<rparr> else Inl unknown_node)"


section \<open>The hash does not depend on orders\<close>

text \<open>Two values, fields, forms and descriptions of an entity that list the same things in another order.\<close>

fun same_value :: "variant \<Rightarrow> variant \<Rightarrow> bool" where
  "same_value (ListVariant xs) (ListVariant ys) \<longleftrightarrow> mset xs = mset ys"
| "same_value v w \<longleftrightarrow> v = w"

definition same_field :: "DataFormField \<Rightarrow> DataFormField \<Rightarrow> bool" where
  "same_field x y \<longleftrightarrow> field_key x = field_key y \<and> field_type x = field_type y \<and> same_value (field_value x) (field_value y)"

definition rearranged :: "('a \<Rightarrow> 'a \<Rightarrow> bool) \<Rightarrow> 'a list \<Rightarrow> 'a list \<Rightarrow> bool" where
  "rearranged R xs ys \<longleftrightarrow> (\<exists>zs. mset zs = mset xs \<and> list_all2 R zs ys)"

definition same_form :: "QXmppDataForm \<Rightarrow> QXmppDataForm \<Rightarrow> bool" where
  "same_form f g \<longleftrightarrow> rearranged same_field (form_fields f) (form_fields g) \<and> distinct (map field_key (form_fields f))"

definition same_info :: "QXmppDiscoInfo \<Rightarrow> QXmppDiscoInfo \<Rightarrow> bool" where
  "same_info i j \<longleftrightarrow> mset (info_identities i) = mset (info_identities j) \<and> set (info_features i) = set (info_features j) \<and>
     rearranged same_form (info_forms i) (info_forms j) \<and> distinct (map formType (info_forms i))"

lemma identity_key_inj: "inj identity_key"
  by (rule injI) (simp add: identity_key_def)

lemma sort_key_rearranged: "mset xs = mset ys \<Longrightarrow> inj_on k (set xs) \<Longrightarrow> sort_key k xs = sort_key k ys"
  by (rule sort_key_inj_key_eq) simp_all

lemma list_all2_insort_key:
  "list_all2 R xs ys \<Longrightarrow> R x y \<Longrightarrow> (\<And>a b. R a b \<Longrightarrow> k a = k b) \<Longrightarrow> list_all2 R (insort_key k x xs) (insort_key k y ys)"
proof (induction rule: list_all2_induct)
  case Nil
  then show ?case by simp
next
  case (Cons a as b bs)
  then have "k a = k b" "k x = k y" by blast+
  with Cons show ?case by simp
qed

lemma list_all2_sort_key: "list_all2 R xs ys \<Longrightarrow> (\<And>a b. R a b \<Longrightarrow> k a = k b) \<Longrightarrow> list_all2 R (sort_key k xs) (sort_key k ys)"
proof (induction rule: list_all2_induct)
  case Nil
  then show ?case by simp
next
  case (Cons a as b bs)
  then show ?case by (simp add: list_all2_insort_key)
qed

lemma list_all2_map_eq: "list_all2 R xs ys \<Longrightarrow> (\<And>a b. R a b \<Longrightarrow> f a = f b) \<Longrightarrow> map f xs = map f ys"
  by (induction rule: list_all2_induct) auto

text \<open>What a rearrangement leaves of parts that are written in the order of their keys.\<close>

lemma rearranged_parts:
  assumes "rearranged R xs ys" "distinct (map k xs)" "\<And>a b. R a b \<Longrightarrow> k a = k b" "\<And>a b. R a b \<Longrightarrow> p a = p b"
  shows "map p (sort_key k xs) = map p (sort_key k ys)"
proof -
  obtain zs where zs: "mset zs = mset xs" "list_all2 R zs ys" using assms(1) by (auto simp: rearranged_def)
  have "sort_key k xs = sort_key k zs" using zs(1) assms(2) by (intro sort_key_rearranged) (simp_all add: distinct_map)
  moreover have "list_all2 R (sort_key k zs) (sort_key k ys)" using zs(2) assms(3) by (rule list_all2_sort_key)
  ultimately show ?thesis using assms(4) list_all2_map_eq by metis
qed

lemma list_text_rearranged: "mset xs = mset ys \<Longrightarrow> variant_toString (ListVariant xs) = variant_toString (ListVariant ys)"
proof -
  assume m: "mset xs = mset ys"
  then have len: "length xs = length ys" by (rule mset_eq_length)
  show ?thesis
  proof (cases "length xs = 1")
    case True
    then obtain x y where "xs = [x]" "ys = [y]" using len by (auto simp: length_Suc_conv)
    then show ?thesis using m by simp
  next
    case False
    have "variant_toString (ListVariant zs) = []" if "length zs \<noteq> 1" for zs
      using that by (cases zs rule: remdups_adj.cases) simp_all
    with False len show ?thesis by simp
  qed
qed

lemma same_value_cases:
  "same_value v w \<Longrightarrow> v = w \<or> (\<exists>xs ys. v = ListVariant xs \<and> w = ListVariant ys \<and> mset xs = mset ys)"
  by (cases v; cases w) simp_all

lemma same_value_text: assumes "same_value v w" shows "variant_toString v = variant_toString w"
  using same_value_cases [OF assms] list_text_rearranged by blast

lemma same_value_part: assumes "same_value v w" shows "value_part v = value_part w"
  using same_value_cases [OF assms]
proof (elim disjE exE conjE)
  fix xs ys assume v: "v = ListVariant xs" "w = ListVariant ys" and m: "mset xs = mset ys"
  from m have "sort xs = sort ys" by (rule sort_key_rearranged) simp
  then have "value_part (ListVariant xs) = value_part (ListVariant ys)"
    by (simp only: value_part_def canConvert_list.simps variant_toStringList.simps if_True)
  then show ?thesis unfolding v .
qed (rule arg_cong)

lemma same_field_part: "same_field x y \<Longrightarrow> field_part x = field_part y"
  by (simp add: same_field_def field_part_def same_value_part)


lemma list_all2_find: "list_all2 R xs ys \<Longrightarrow> (\<And>a b. R a b \<Longrightarrow> P a = P b) \<Longrightarrow> rel_option R (List.find P xs) (List.find P ys)"
  by (induction rule: list_all2_induct) auto

lemma find_unique: "distinct (map k xs) \<Longrightarrow> mset zs = mset xs \<Longrightarrow> List.find (\<lambda>x. P x \<and> k x = c) zs = List.find (\<lambda>x. P x \<and> k x = c) xs"
proof -
  assume d: "distinct (map k xs)" and m: "mset zs = mset xs"
  have set: "set zs = set xs" using m by (rule mset_eq_setD)
  show ?thesis
  proof (cases "List.find (\<lambda>x. P x \<and> k x = c) xs")
    case None
    then have "List.find (\<lambda>x. P x \<and> k x = c) zs = None" unfolding find_None_iff set .
    then show ?thesis using None by simp
  next
    case (Some x)
    then have x: "x \<in> set xs" "P x" "k x = c" by (auto simp: find_Some_iff)
    then obtain z where "List.find (\<lambda>x. P x \<and> k x = c) zs = Some z" using set by (metis (mono_tags, lifting) find_None_iff option.exhaust)
    moreover from this have "z \<in> set xs" "k z = c" using set by (auto simp: find_Some_iff)
    ultimately show ?thesis using Some x d by (auto simp: distinct_map inj_on_def)
  qed
qed

lemma same_form_type:
  assumes "same_form f g" shows "formType f = formType g"
proof -
  obtain zs where zs: "mset zs = mset (form_fields f)" "list_all2 same_field zs (form_fields g)" and d: "distinct (map field_key (form_fields f))"
    using assms by (auto simp: same_form_def rearranged_def)
  let ?P = "\<lambda>x. field_type x = HiddenField \<and> field_key x = ''FORM_TYPE''"
  have "rel_option same_field (List.find ?P zs) (List.find ?P (form_fields g))"
    using zs(2) by (rule list_all2_find) (simp add: same_field_def)
  moreover have "List.find ?P zs = List.find ?P (form_fields f)" using d zs(1) by (rule find_unique)
  ultimately show ?thesis using same_value_text
    by (auto simp: formType_def same_field_def split: option.splits)
qed

lemma same_form_part: assumes "same_form f g" shows "form_part f = form_part g"
proof -
  have "map field_part (sort_key field_key (form_fields f)) = map field_part (sort_key field_key (form_fields g))"
    using assms by (intro rearranged_parts [where R = same_field]) (auto simp: same_form_def same_field_def same_field_part)
  then show ?thesis using same_form_type [OF assms] by (simp add: form_part_def)
qed

lemma remdups_sort_set: "set xs = set ys \<Longrightarrow> remdups (sort xs) = remdups (sort (ys :: 'a :: linorder list))"
  by (rule sorted_distinct_set_unique) simp_all



definition example_info :: "bool \<Rightarrow> QXmppDiscoInfo" where
  "example_info other =
    (let a = \<lparr>id_category = ''client'', id_type = ''pc'', id_name = ''Psi'', id_language = ''en''\<rparr>; b = a\<lparr>id_language := ''el''\<rparr>;
         form = new_Field\<lparr>field_type := HiddenField, field_key := ''FORM_TYPE'', field_value := TextVariant ''x''\<rparr>;
         list = new_Field\<lparr>field_type := TextMultiField, field_key := ''ip'', field_value := ListVariant (if other then [''4'', ''6''] else [''6'', ''4''])\<rparr>
     in \<lparr>info_node = [], info_identities = (if other then [a, b] else [b, a]), info_features = (if other then [''m'', ''d'', ''m''] else [''d'', ''m'']),
          info_forms = [new_QXmppDataForm\<lparr>form_type := FormResult, form_fields := (if other then [form, list] else [list, form])\<rparr>]\<rparr>)"


section \<open>Each caller gets one answer\<close>

text \<open>
  The states of a table with what was asked, the parameters of each task in order, and the replies that came.  A reply comes for an open
  request only: the outgoing requests answer each request once.
\<close>

inductive disco_reach :: "'v disco_table \<Rightarrow> disco_key list \<Rightarrow> (disco_key \<times> (qxmpp_error + 'v)) list \<Rightarrow> bool" where
  disco_start: "disco_reach new_table [] []"
| disco_ask: "disco_reach s ks rs \<Longrightarrow> disco_reach (snd (disco_get jid node policy s)) (ks @ [(jid, node)]) rs"
| disco_reply: "disco_reach s ks rs \<Longrightarrow> key \<in> fst ` set (open_requests (disco_requests s)) \<Longrightarrow> disco_reach (disco_response key r s) ks (rs @ [(key, r)])"
| disco_connect: "disco_reach s ks rs \<Longrightarrow> disco_reach (disco_onConnected resumed s) ks rs"

definition waiting :: "'v disco_table \<Rightarrow> nat list" where
  "waiting s = concat (map snd (open_requests (disco_requests s)))"

definition table_ok :: "'v disco_table \<Rightarrow> disco_key list \<Rightarrow> (disco_key \<times> (qxmpp_error + 'v)) list \<Rightarrow> bool" where
  "table_ok s ks rs \<longleftrightarrow>
     next_task (disco_requests s) = length ks \<and> distinct (map fst (open_requests (disco_requests s))) \<and>
     mset (map fst (disco_results s)) + mset (waiting s) = mset [0..<length ks] \<and>
     (\<forall>k ts t. (k, ts) \<in> set (open_requests (disco_requests s)) \<longrightarrow> t \<in> set ts \<longrightarrow> ks ! t = k) \<and>
     (\<forall>t r. (t, r) \<in> set (disco_results s) \<longrightarrow> (ks ! t, r) \<in> set rs) \<and>
     (\<forall>k v. (k, v) \<in> set (disco_cache s) \<longrightarrow> (k, Inr v) \<in> set rs) \<and>
     mset (disco_sent s) = mset (map fst rs) + mset (map fst (open_requests (disco_requests s)))"

lemma table_okD:
  assumes "table_ok s ks rs"
  shows "(k, ts) \<in> set (open_requests (disco_requests s)) \<Longrightarrow> t \<in> set ts \<Longrightarrow> ks ! t = k"
    and "(t, r) \<in> set (disco_results s) \<Longrightarrow> (ks ! t, r) \<in> set rs" and "(k, v) \<in> set (disco_cache s) \<Longrightarrow> (k, Inr v) \<in> set rs"
  using assms unfolding table_ok_def by blast+

lemma table_tasks_below:
  assumes "table_ok s ks rs"
  shows "(t, r) \<in> set (disco_results s) \<Longrightarrow> t < length ks" and "t \<in> set (waiting s) \<Longrightarrow> t < length ks"
proof -
  have "set (map fst (disco_results s)) \<union> set (waiting s) = {0..<length ks}"
    using arg_cong [of _ _ set_mset, OF assms [unfolded table_ok_def, THEN conjunct2, THEN conjunct2, THEN conjunct1]] by simp
  then show "(t, r) \<in> set (disco_results s) \<Longrightarrow> t < length ks" and "t \<in> set (waiting s) \<Longrightarrow> t < length ks"
    by (auto simp: set_eq_iff rev_image_eqI)
qed

lemma cache_object_set: "cache_object k c = (v, c') \<Longrightarrow> set c' \<subseteq> set c \<and> (\<forall>x. v = Some x \<longrightarrow> (k, x) \<in> set c)"
  by (auto simp: cache_object_def map_of_SomeD split: option.splits)

lemma mset_update_concat:
  "distinct (map fst os) \<Longrightarrow> map_of os k = Some ts \<Longrightarrow>
   mset (concat (map snd (AList.update k (ts @ [t]) os))) = add_mset t (mset (concat (map snd os)))"
  by (induction os) auto

lemma mset_filter_concat:
  "distinct (map fst os) \<Longrightarrow> map_of os k = Some ts \<Longrightarrow>
   mset ts + mset (concat (map snd (filter (\<lambda>r. fst r \<noteq> k) os))) = mset (concat (map snd os)) \<and>
   add_mset k (mset (map fst (filter (\<lambda>r. fst r \<noteq> k) os))) = mset (map fst os)"
proof (induction os)
  case (Cons o' os)
  show ?case
  proof (cases "fst o' = k")
    case True
    then have "k \<notin> fst ` set os" using Cons.prems(1) by auto
    then have "filter (\<lambda>r. fst r \<noteq> k) os = os" by (metis (mono_tags, lifting) filter_True image_eqI)
    then show ?thesis using True Cons.prems by (cases o') auto
  next
    case False
    then have "map_of os k = Some ts" using Cons.prems by (cases o') auto
    then show ?thesis using False Cons by (auto simp: add_mset_commute)
  qed
qed simp


lemma table_below:
  assumes "table_ok s ks rs"
  shows "\<forall>k ts t. (k, ts) \<in> set (open_requests (disco_requests s)) \<longrightarrow> t \<in> set ts \<longrightarrow> t < length ks"
    "\<forall>t r. (t, r) \<in> set (disco_results s) \<longrightarrow> t < length ks"
  using table_tasks_below [OF assms] by (force simp: waiting_def)+

lemma table_cached:
  assumes ok: "table_ok s ks rs" and c: "set c \<subseteq> set (disco_cache s)" and v: "(key, v) \<in> set (disco_cache s)"
  shows "table_ok (s\<lparr>disco_cache := c, disco_requests := (disco_requests s)\<lparr>next_task := next_task (disco_requests s) + 1\<rparr>,
    disco_results := disco_results s @ [(next_task (disco_requests s), Inr v)]\<rparr>) (ks @ [key]) rs"
proof -
  have "(key, Inr v) \<in> set rs" using ok v by (rule table_okD)
  then show ?thesis using ok c table_below [OF ok]
    by (auto simp: table_ok_def waiting_def nth_append split: prod.splits)
qed

lemma update_set:
  "distinct (map fst os) \<Longrightarrow> (k, v) \<in> set (AList.update key w os) \<longleftrightarrow> (if k = key then v = w else (k, v) \<in> set os)"
  by (induction os) (force split: if_splits)+

lemma table_attached:
  assumes ok: "table_ok s ks rs" and c: "set c \<subseteq> set (disco_cache s)" and ts: "map_of (open_requests (disco_requests s)) key = Some ts"
  shows "table_ok (s\<lparr>disco_cache := c, disco_requests := (disco_requests s)\<lparr>next_task := next_task (disco_requests s) + 1,
    open_requests := AList.update key (ts @ [next_task (disco_requests s)]) (open_requests (disco_requests s))\<rparr>\<rparr>) (ks @ [key]) rs"
proof -
  let ?os = "open_requests (disco_requests s)" and ?n = "length ks"
  have d: "distinct (map fst ?os)" and n: "next_task (disco_requests s) = ?n" using ok by (simp_all add: table_ok_def)
  have member: "(key, ts) \<in> set ?os" using ts by (rule map_of_SomeD)
  then have keys: "map fst (AList.update key (ts @ [?n]) ?os) = map fst ?os" by (force simp: update_keys)
  have "\<forall>k ts' t. (k, ts') \<in> set (AList.update key (ts @ [?n]) ?os) \<longrightarrow> t \<in> set ts' \<longrightarrow> (ks @ [key]) ! t = k"
    using ok table_below(1) [OF ok] member by (auto simp: update_set [OF d] table_ok_def nth_append split: if_splits)
  moreover have "\<forall>t r. (t, r) \<in> set (disco_results s) \<longrightarrow> ((ks @ [key]) ! t, r) \<in> set rs"
    using ok table_below(2) [OF ok] by (auto simp: table_ok_def nth_append)
  ultimately show ?thesis using ok c n keys mset_update_concat [OF d ts, of ?n]
    by (auto simp: table_ok_def waiting_def)
qed

lemma table_new_request:
  assumes ok: "table_ok s ks rs" and c: "set c \<subseteq> set (disco_cache s)" and none: "map_of (open_requests (disco_requests s)) key = None"
  shows "table_ok (s\<lparr>disco_cache := c, disco_requests := (disco_requests s)\<lparr>next_task := next_task (disco_requests s) + 1,
    open_requests := open_requests (disco_requests s) @ [(key, [next_task (disco_requests s)])]\<rparr>, disco_sent := disco_sent s @ [key]\<rparr>) (ks @ [key]) rs"
  using ok c table_below [OF ok] none
  by (auto simp: table_ok_def waiting_def nth_append map_of_eq_None_iff split: prod.splits)

lemma table_get: assumes "table_ok s ks rs" shows "table_ok (snd (disco_get jid node policy s)) (ks @ [(jid, node)]) rs"
proof -
  let ?key = "(jid, node)"
  obtain v c where o': "(if policy = Relaxed then cache_object ?key (disco_cache s) else (None, disco_cache s)) = (v, c)" by fastforce
  then have c: "set c \<subseteq> set (disco_cache s)" and v: "\<forall>x. v = Some x \<longrightarrow> (?key, x) \<in> set (disco_cache s)"
    using cache_object_set [of ?key "disco_cache s" v c] by (auto split: if_splits)
  show ?thesis
  proof (cases v)
    case None
    show ?thesis
    proof (cases "map_of (open_requests (disco_requests s)) ?key")
      case m: None
      then show ?thesis using None o' table_new_request [OF assms c m] by (simp add: disco_get_def attach_or_new_def Let_def)
    next
      case (Some ts)
      then show ?thesis using None o' table_attached [OF assms c Some] by (simp add: disco_get_def attach_or_new_def Let_def)
    qed
  next
    case (Some x)
    then show ?thesis using o' v table_cached [OF assms c, of ?key x] by (simp add: disco_get_def Let_def)
  qed
qed

lemma cache_insert_set: "set (cache_insert n k v c) \<subseteq> insert (k, v) (set c)"
  unfolding cache_insert_def using set_take_subset [of n "(k, v) # filter (\<lambda>x. fst x \<noteq> k) c"] by auto

lemma table_finished:
  assumes ok: "table_ok s ks rs" and ts: "map_of (open_requests (disco_requests s)) key = Some ts"
    and c: "\<And>k v. (k, v) \<in> set c \<Longrightarrow> (k, Inr v) \<in> set (rs @ [(key, r)])"
  shows "table_ok (s\<lparr>disco_cache := c, disco_requests := (disco_requests s)\<lparr>open_requests :=
      filter (\<lambda>r. fst r \<noteq> key) (open_requests (disco_requests s))\<rparr>, disco_results := disco_results s @ map (\<lambda>t. (t, r)) ts\<rparr>) ks (rs @ [(key, r)])"
proof -
  let ?os = "open_requests (disco_requests s)"
  let ?left = "filter (\<lambda>r. fst r \<noteq> key) ?os"
  have d: "distinct (map fst ?os)" using ok by (simp add: table_ok_def)
  have tasks: "mset (map fst (disco_results s)) + mset (waiting s) = mset [0..<length ks]" using ok unfolding table_ok_def by blast
  have left: "mset ts + mset (concat (map snd ?left)) = mset (concat (map snd ?os))"
    "add_mset key (mset (map fst ?left)) = mset (map fst ?os)" using mset_filter_concat [OF d ts] by blast+
  have "mset (map fst (disco_results s @ map (\<lambda>t. (t, r)) ts)) + mset (concat (map snd ?left)) = mset [0..<length ks]"
    using tasks left(1) by (simp add: waiting_def o_def add.assoc)
  moreover have "mset (disco_sent s) = mset (map fst (rs @ [(key, r)])) + mset (map fst ?left)"
    using ok left(2) unfolding table_ok_def by simp
  moreover have "\<forall>k ts t. (k, ts) \<in> set ?left \<longrightarrow> t \<in> set ts \<longrightarrow> ks ! t = k" using table_okD(1) [OF ok] by auto
  moreover have "\<forall>t r'. (t, r') \<in> set (disco_results s @ map (\<lambda>t. (t, r)) ts) \<longrightarrow> (ks ! t, r') \<in> set (rs @ [(key, r)])"
    using table_okD(1) [OF ok map_of_SomeD [OF ts]] table_okD(2) [OF ok] by auto
  ultimately show ?thesis using ok c distinct_map_filter [OF d] unfolding table_ok_def waiting_def by simp
qed

lemma table_response:
  assumes ok: "table_ok s ks rs" and key: "key \<in> fst ` set (open_requests (disco_requests s))"
  shows "table_ok (disco_response key r s) ks (rs @ [(key, r)])"
proof -
  obtain ts where ts: "map_of (open_requests (disco_requests s)) key = Some ts" using key by (metis map_of_eq_None_iff option.exhaust)
  define c where "c = (case r of Inr v \<Rightarrow> cache_insert maxCost key v (disco_cache s) | Inl _ \<Rightarrow> disco_cache s)"
  have "(k, Inr v) \<in> set (rs @ [(key, r)])" if "(k, v) \<in> set c" for k v
    using that table_okD(3) [OF ok, of k v] cache_insert_set [of maxCost key _ "disco_cache s"] by (cases r) (auto simp: c_def)
  moreover have "(case r of Inr v \<Rightarrow> s\<lparr>disco_cache := cache_insert maxCost key v (disco_cache s)\<rparr> | Inl _ \<Rightarrow> s) = s\<lparr>disco_cache := c\<rparr>"
    by (cases r) (simp_all add: c_def)
  ultimately show ?thesis using ts table_finished [OF ok ts, of c r] by (simp add: disco_response_def finish_request_def)
qed

lemma disco_table_ok: "disco_reach s ks rs \<Longrightarrow> table_ok s ks rs"
proof (induction rule: disco_reach.induct)
  case disco_start
  then show ?case by (simp add: table_ok_def new_table_def waiting_def)
next
  case (disco_connect s ks rs resumed)
  then show ?case by (simp add: table_ok_def disco_onConnected_def waiting_def)
qed (simp_all add: table_get table_response)

lemma one_of_two: "a + b = (1 :: nat) \<Longrightarrow> (b > 0 \<longleftrightarrow> P) \<Longrightarrow> a = (if P then 0 else 1)"
  by (cases P) simp_all

lemma count_firsts: "count (mset (map fst rs)) t = length (filter (\<lambda>x. fst x = t) rs)"
  by (induction rs) auto

text \<open>
  C38.  Each caller of the discovery manager gets one answer, which is a reply to a request for its parameters, or it waits on the one request
  that is open for them; as many requests were sent as replies came and requests are open.
\<close>

theorem disco_answers:
  assumes "disco_reach s ks rs" "t < length ks"
  shows "length (filter (\<lambda>x. fst x = t) (disco_results s)) = (if t \<in> set (waiting s) then 0 else 1) \<and>
    (t \<in> set (waiting s) \<longrightarrow> ks ! t \<in> fst ` set (open_requests (disco_requests s))) \<and>
    (\<forall>r. (t, r) \<in> set (disco_results s) \<longrightarrow> (ks ! t, r) \<in> set rs) \<and>
    distinct (map fst (open_requests (disco_requests s))) \<and> length (disco_sent s) = length rs + length (open_requests (disco_requests s))"
proof -
  have ok: "table_ok s ks rs" using assms(1) by (rule disco_table_ok)
  have "mset (map fst (disco_results s)) + mset (waiting s) = mset [0..<length ks]" using ok unfolding table_ok_def by blast
  then have "count (mset (map fst (disco_results s))) t + count (mset (waiting s)) t = count (mset [0..<length ks]) t" by (metis count_union)
  moreover have "count (mset (map fst (disco_results s))) t = length (filter (\<lambda>x. fst x = t) (disco_results s))" by (rule count_firsts)
  moreover have "count (mset [0..<length ks]) t = 1"
    using assms(2) by (simp add: count_mset_set)
  ultimately have "length (filter (\<lambda>x. fst x = t) (disco_results s)) + count (mset (waiting s)) t = 1" by metis
  then have "length (filter (\<lambda>x. fst x = t) (disco_results s)) = (if t \<in> set (waiting s) then 0 else 1)"
    by (rule one_of_two) simp
  moreover have "ks ! t \<in> fst ` set (open_requests (disco_requests s))" if "t \<in> set (waiting s)"
    using that table_okD(1) [OF ok] by (force simp: waiting_def)
  moreover have "length (disco_sent s) = length rs + length (open_requests (disco_requests s))"
  proof -
    have "mset (disco_sent s) = mset (map fst rs) + mset (map fst (open_requests (disco_requests s)))" using ok unfolding table_ok_def by blast
    then have "size (mset (disco_sent s)) = size (mset (map fst rs) + mset (map fst (open_requests (disco_requests s))))" by (rule arg_cong)
    then show ?thesis by (simp only: size_union size_mset length_map)
  qed
  moreover have "distinct (map fst (open_requests (disco_requests s)))" using ok by (simp add: table_ok_def)
  ultimately show ?thesis using table_okD(2) [OF ok] by blast
qed

theorem disco_answers_witness:
  "length (filter (\<lambda>x. fst x = 1) (disco_results (disco_response (''a'', ''n'') (Inr True) (snd (disco_get ''a'' ''n'' Strict (snd (disco_get ''a'' ''n'' Strict new_table))))))) = 1"
proof -
  let ?s = "snd (disco_get ''a'' ''n'' Strict (snd (disco_get ''a'' ''n'' Strict (new_table :: bool disco_table))))"
  have s: "disco_reach ?s [(''a'', ''n''), (''a'', ''n'')] []"
    using disco_ask [OF disco_ask [OF disco_start]] by simp
  have "(''a'', ''n'') \<in> fst ` set (open_requests (disco_requests ?s))" by code_simp
  then have "disco_reach (disco_response (''a'', ''n'') (Inr True) ?s) [(''a'', ''n''), (''a'', ''n'')] [((''a'', ''n''), Inr True)]"
    using disco_reply [OF s] by simp
  then have "length (filter (\<lambda>x. fst x = 1) (disco_results (disco_response (''a'', ''n'') (Inr True) ?s))) =
      (if 1 \<in> set (waiting (disco_response (''a'', ''n'') (Inr True) ?s)) then 0 else 1)"
    using disco_answers [of _ _ _ 1] by fastforce
  moreover have "1 \<notin> set (waiting (disco_response (''a'', ''n'') (Inr True) ?s))" by code_simp
  ultimately show ?thesis by simp
qed


section \<open>Descriptions come back\<close>

definition identity_node :: "QXmppDiscoIdentity \<Rightarrow> dom" where
  "identity_node i = Elem ''identity'' ns_disco_info
     ((if id_language i = [] then [] else [(''xml:lang'', id_language i)]) @ (''category'', id_category i) #
      (if id_name i = [] then [] else [(''name'', id_name i)]) @ [(''type'', id_type i)]) []"

definition info_ok :: "form_env \<Rightarrow> QXmppDiscoInfo \<Rightarrow> bool" where
  "info_ok e i \<longleftrightarrow> list_all (\<lambda>x. id_category x \<noteq> [] \<and> id_type x \<noteq> []) (info_identities i) \<and> list_all (form_ok e) (info_forms i)"

lemma identity_nodes:
  "concat (map (item_nodes ns_disco_info \<circ> DiscoIdentity_toXml) is) = map identity_node is" "concat (map (item_attrs \<circ> DiscoIdentity_toXml) is) = []"
  by (induction "is") (simp_all add: DiscoIdentity_toXml_def ElementInherit_def build_def identity_node_def)

lemma identities_back:
  "list_all (\<lambda>x. id_category x \<noteq> [] \<and> id_type x \<noteq> []) is \<Longrightarrow>
   concat (map (\<lambda>c. case DiscoIdentity_fromDom c of None \<Rightarrow> [] | Some v \<Rightarrow> [v]) (map identity_node is)) = is"
  by (induction "is") (simp_all add: DiscoIdentity_fromDom_def identity_node_def attr_def)

lemma forms_nodes:
  assumes "list_all (form_ok e) fs" shows "concat (map DataForm_toXml fs) = map (\<lambda>f. Node (\<lambda>_. form_dom f)) fs"
  using assms by (induction fs) (auto simp: form_nodes)

lemma forms_back:
  assumes "list_all (form_ok e) fs" shows "concat (map (\<lambda>c. case DataForm_fromDom e c of None \<Rightarrow> [] | Some v \<Rightarrow> [v]) (map form_dom fs)) = fs"
  using assms by (induction fs) (simp_all add: form_back)

lemma info_parts:
  "matches t n (identity_node i) \<longleftrightarrow> (n = [] \<or> n = ns_disco_info) \<and> (t = [] \<or> t = ''identity'')"
  "matches t n (form_dom f) \<longleftrightarrow> (n = [] \<or> n = ns_data) \<and> (t = [] \<or> t = ''x'')" "ns_data \<noteq> ns_disco_info" "ns_disco_info \<noteq> []"
  by (auto simp: identity_node_def form_dom_def ns_data_def ns_disco_info_def)

lemma disco_feature_nodes:
  "concat (map (item_nodes ns) (SingleAttributeElements t k vs)) = map (\<lambda>v. Elem t ns [(k, v)] []) vs"
  "concat (map item_attrs (SingleAttributeElements t k vs)) = []"
  by (induction vs) (simp_all add: SingleAttributeElements_def ElementInherit_def build_def)

text \<open>A description of an entity with any identities, features and forms comes back as it was.\<close>

lemma disco_info_roundtrip:
  assumes "info_ok e i" shows "DiscoInfo_fromDom e (written (DiscoInfo_toXml i)) = Some i"
proof -
  have forms: "concat (map DataForm_toXml (info_forms i)) = map (\<lambda>f. Node (\<lambda>_. form_dom f)) (info_forms i)"
    using assms by (intro forms_nodes [of e]) (simp add: info_ok_def)
  have "written (DiscoInfo_toXml i) = Elem ''query'' ns_disco_info (if info_node i = [] then [] else [(''node'', info_node i)])
      (map identity_node (info_identities i) @ map (\<lambda>v. Elem ''feature'' ns_disco_info [(''var'', v)] []) (info_features i) @ map form_dom (info_forms i))"
    unfolding DiscoInfo_toXml_def forms by (simp add: written_def Element_def build_def identity_nodes [unfolded comp_def] disco_feature_nodes comp_def
      del: concat_eq_Nil_conv)
  then show ?thesis using assms identities_back [of "info_identities i"] forms_back [of e "info_forms i"]
    by (simp add: DiscoInfo_fromDom_def parseChildElements_def parseSingleAttributeElements_def iterChildElements_filter filter_map comp_def
        info_parts attr_def info_ok_def)
qed

end
