(* ===== verification/TransferIqs.thy ===== *)
theory TransferIqs
  imports DataForm Presence
begin

text \<open>
  The IQs of file transfers: in-band bytestreams (XEP-0047, \<^verbatim>\<open>src/base/QXmppIbbIq.cpp\<close>), SOCKS5 bytestreams (XEP-0065,
  \<^verbatim>\<open>src/base/QXmppByteStreamIq.cpp\<close>) and stream initiation (XEP-0095, \<^verbatim>\<open>src/base/QXmppStreamInitiationIq.cpp\<close>) with the
  description of a file of \<^verbatim>\<open>src/client/QXmppTransferManager.cpp\<close>.  A port that the code leaves uninitialised is 0.
\<close>

definition ns_ibb :: qstring where "ns_ibb = ''http://jabber.org/protocol/ibb''"
definition ns_bytestreams :: qstring where "ns_bytestreams = ''http://jabber.org/protocol/bytestreams''"
definition ns_stream_initiation :: qstring where "ns_stream_initiation = ''http://jabber.org/protocol/si''"
definition ns_stream_initiation_file_transfer :: qstring where
  "ns_stream_initiation_file_transfer = ''http://jabber.org/protocol/si/profile/file-transfer''"
definition ns_feature_negotiation :: qstring where "ns_feature_negotiation = ''http://jabber.org/protocol/feature-neg''"

record transfer_codec =
  tc_nonza :: nonza_env
  tc_form :: form_env
  tc_fromBase64 :: "qstring \<Rightarrow> bytes"

definition toLong :: "qstring \<Rightarrow> int" where
  "toLong s = (case to_signed 64 s of None \<Rightarrow> 0 | Some n \<Rightarrow> n)"

definition child_or_null :: "dom \<Rightarrow> qstring \<Rightarrow> qstring \<Rightarrow> dom" where
  "child_or_null el tag ns = (case firstChildElement el tag ns of None \<Rightarrow> null_element | Some c \<Rightarrow> c)"

section \<open>In-band bytestreams\<close>

record IbbOpen =
  open_sid :: qstring
  open_blockSize :: int

definition IbbOpen_parse :: "dom \<Rightarrow> IbbOpen" where
  "IbbOpen_parse element = (let el = child_or_null element ''open'' []
     in \<lparr>open_sid = attr ''sid'' el, open_blockSize = toLong (attr ''block-size'' el)\<rparr>)"

definition IbbOpen_toXml :: "IbbOpen \<Rightarrow> item" where
  "IbbOpen_toXml iq = Element ''open'' ns_ibb [Attribute ''sid'' (open_sid iq), Attribute ''block-size'' (serializeInt (open_blockSize iq))]"

definition IbbClose_parse :: "dom \<Rightarrow> qstring" where
  "IbbClose_parse element = attr ''sid'' (child_or_null element ''close'' [])"

definition IbbClose_toXml :: "qstring \<Rightarrow> item" where
  "IbbClose_toXml sid = Element ''close'' ns_ibb [Attribute ''sid'' sid]"

record IbbData =
  data_sid :: qstring
  data_seq :: nat
  data_payload :: bytes

definition IbbData_parse :: "transfer_codec \<Rightarrow> dom \<Rightarrow> IbbData" where
  "IbbData_parse e element = (let el = child_or_null element ''data'' []
     in \<lparr>data_sid = attr ''sid'' el, data_seq = (case parseInt UInt16 (attr ''seq'' el) of None \<Rightarrow> 0 | Some n \<Rightarrow> nat n),
         data_payload = tc_fromBase64 e (dom_text el)\<rparr>)"

definition IbbData_toXml :: "transfer_codec \<Rightarrow> IbbData \<Rightarrow> item" where
  "IbbData_toXml e iq = Element ''data'' ns_ibb
     [Attribute ''sid'' (data_sid iq), Attribute ''seq'' (serializeInt (int (data_seq iq))), Characters (serializeBase64 (tc_nonza e) (data_payload iq))]"

section \<open>SOCKS5 bytestreams\<close>

record StreamHost =
  host_host :: qstring
  host_jid :: qstring
  host_port :: nat
  host_zeroconf :: qstring

definition new_StreamHost :: StreamHost where
  "new_StreamHost = \<lparr>host_host = [], host_jid = [], host_port = 0, host_zeroconf = []\<rparr>"

definition StreamHost_fromDom :: "dom \<Rightarrow> StreamHost option" where
  "StreamHost_fromDom el = Some \<lparr>host_host = attr ''host'' el, host_jid = attr ''jid'' el,
     host_port = (case parseInt UInt16 (attr ''port'' el) of None \<Rightarrow> 0 | Some n \<Rightarrow> nat n), host_zeroconf = attr ''zeroconf'' el\<rparr>"

definition StreamHost_toXml :: "StreamHost \<Rightarrow> item" where
  "StreamHost_toXml h = Element ''streamhost'' ns_bytestreams
     (OptionalAttribute ''host'' (host_host h) @ OptionalAttribute ''jid'' (host_jid h) @ [Attribute ''port'' (serializeInt (int (host_port h)))] @
      OptionalAttribute ''zeroconf'' (host_zeroconf h))"

datatype StreamMode = NoMode | TcpMode | UdpMode

record ByteStream =
  bs_mode :: StreamMode
  bs_sid :: qstring
  bs_activate :: qstring
  bs_streamHosts :: "StreamHost list"
  bs_streamHostUsed :: qstring

definition new_ByteStream :: ByteStream where
  "new_ByteStream = \<lparr>bs_mode = NoMode, bs_sid = [], bs_activate = [], bs_streamHosts = [], bs_streamHostUsed = []\<rparr>"

definition ByteStream_parse :: "dom \<Rightarrow> ByteStream" where
  "ByteStream_parse element = (let el = child_or_null element ''query'' ns_bytestreams
     in \<lparr>bs_mode = (if attr ''mode'' el = ''tcp'' then TcpMode else if attr ''mode'' el = ''udp'' then UdpMode else NoMode), bs_sid = attr ''sid'' el,
         bs_activate = child_text el ''activate'' [], bs_streamHosts = parseChildElements StreamHost_fromDom el ''streamhost'' ns_bytestreams,
         bs_streamHostUsed = attr ''jid'' (child_or_null el ''streamhost-used'' [])\<rparr>)"

definition ByteStream_toXml :: "ByteStream \<Rightarrow> item" where
  "ByteStream_toXml iq = Element ''query'' ns_bytestreams
     (OptionalAttribute ''sid'' (bs_sid iq) @
      OptionalAttribute ''mode'' (if bs_mode iq = TcpMode then ''tcp'' else if bs_mode iq = UdpMode then ''udp'' else []) @
      map StreamHost_toXml (bs_streamHosts iq) @ OptionalTextElement ''activate'' (bs_activate iq) @
      SingleAttributeElements ''streamhost-used'' ''jid'' [bs_streamHostUsed iq])"

section \<open>Stream initiation\<close>

record FileInfo =
  file_date :: datetime
  file_hash :: bytes
  file_name :: qstring
  file_description :: qstring
  file_size :: int

definition new_FileInfo :: FileInfo where
  "new_FileInfo = \<lparr>file_date = None, file_hash = [], file_name = [], file_description = [], file_size = 0\<rparr>"

definition file_isNull :: "FileInfo \<Rightarrow> bool" where
  "file_isNull f \<longleftrightarrow> file_date f = None \<and> file_description f = [] \<and> file_hash f = [] \<and> file_name f = [] \<and> file_size f = 0"

definition FileInfo_parse :: "transfer_codec \<Rightarrow> dom \<Rightarrow> FileInfo" where
  "FileInfo_parse e el = \<lparr>file_date = datetimeFromString (tc_nonza e) (attr ''date'' el), file_hash = bytes_fromHex (attr ''hash'' el),
     file_name = attr ''name'' el, file_description = child_text el ''desc'' [], file_size = toLong (attr ''size'' el)\<rparr>"

definition FileInfo_toXml :: "transfer_codec \<Rightarrow> FileInfo \<Rightarrow> item" where
  "FileInfo_toXml e f = Element ''file'' ns_stream_initiation_file_transfer
     ((case file_date f of None \<Rightarrow> [] | Some t \<Rightarrow> [Attribute ''date'' (datetimeToString (tc_nonza e) (Some t))]) @
      OptionalAttribute ''hash'' (bytes_toHex (file_hash f)) @ OptionalAttribute ''name'' (file_name f) @ positive_attribute ''size'' (file_size f) @
      OptionalTextElement ''desc'' (file_description f))"

datatype SiProfile = NoProfile | FileTransfer

record StreamInitiation =
  si_form :: QXmppDataForm
  si_file :: FileInfo
  si_mimeType :: qstring
  si_profile :: SiProfile
  si_id :: qstring

definition new_StreamInitiation :: StreamInitiation where
  "new_StreamInitiation = \<lparr>si_form = new_QXmppDataForm, si_file = new_FileInfo, si_mimeType = [], si_profile = NoProfile, si_id = []\<rparr>"

definition StreamInitiation_parse :: "transfer_codec \<Rightarrow> dom \<Rightarrow> StreamInitiation" where
  "StreamInitiation_parse e element = (let el = child_or_null element ''si'' []
     in \<lparr>si_form = (case parseOptionalChildElement (DataForm_fromDom (tc_form e)) (child_or_null el ''feature'' ns_feature_negotiation) ''x'' ns_data of
           None \<Rightarrow> new_QXmppDataForm | Some f \<Rightarrow> f),
         si_file = (case parseOptionalChildElement (\<lambda>c. Some (FileInfo_parse e c)) el ''file'' ns_stream_initiation_file_transfer of
           None \<Rightarrow> new_FileInfo | Some f \<Rightarrow> f),
         si_mimeType = attr ''mime-type'' el,
         si_profile = (if attr ''profile'' el = ns_stream_initiation_file_transfer then FileTransfer else NoProfile), si_id = attr ''id'' el\<rparr>)"

definition StreamInitiation_toXml :: "transfer_codec \<Rightarrow> StreamInitiation \<Rightarrow> item" where
  "StreamInitiation_toXml e s = Element ''si'' ns_stream_initiation
     (OptionalAttribute ''id'' (si_id s) @ OptionalAttribute ''mime-type'' (si_mimeType s) @
      OptionalContent (si_profile s = FileTransfer) [Attribute ''profile'' ns_stream_initiation_file_transfer] @
      OptionalContent (\<not> file_isNull (si_file s)) [FileInfo_toXml e (si_file s)] @
      OptionalContent (\<not> form_isNull (si_form s)) [Element ''feature'' ns_feature_negotiation (DataForm_toXml (si_form s))])"

section \<open>The IQs\<close>

datatype transfer_payload = NoPayload | OpenPayload IbbOpen | ClosePayload qstring | DataPayload IbbData | ByteStreamPayload ByteStream
  | InitiationPayload StreamInitiation

record TransferIq = QXmppIq +
  tq_payload :: transfer_payload

fun payload_items :: "transfer_codec \<Rightarrow> transfer_payload \<Rightarrow> item list" where
  "payload_items e NoPayload = []"
| "payload_items e (OpenPayload iq) = [IbbOpen_toXml iq]"
| "payload_items e (ClosePayload sid) = [IbbClose_toXml sid]"
| "payload_items e (DataPayload iq) = [IbbData_toXml e iq]"
| "payload_items e (ByteStreamPayload iq) = [ByteStream_toXml iq]"
| "payload_items e (InitiationPayload iq) = [StreamInitiation_toXml e iq]"

definition TransferIq_toXml :: "transfer_codec \<Rightarrow> TransferIq \<Rightarrow> item" where
  "TransferIq_toXml e iq = ElementInherit ''iq''
     ([Attribute ''id'' (st_id iq)] @ OptionalAttribute ''to'' (st_to iq) @ OptionalAttribute ''from'' (st_from iq) @
      [Attribute ''type'' (enum_toString IqType_Values (iq_type iq))] @ payload_items e (tq_payload iq) @
      (case st_error iq of None \<Rightarrow> [] | Some err \<Rightarrow> StanzaError_toXml (tc_nonza e) err))"

text \<open>The class that reads an IQ follows from the tag of its payload.\<close>

definition payload_parse :: "transfer_codec \<Rightarrow> dom \<Rightarrow> transfer_payload" where
  "payload_parse e element = (let tag = iqPayloadXmlTag element
     in if tag = (''close'', ns_ibb) then ClosePayload (IbbClose_parse element)
        else if tag = (''data'', ns_ibb) then DataPayload (IbbData_parse e element)
        else if tag = (''open'', ns_ibb) then OpenPayload (IbbOpen_parse element)
        else if tag = (''query'', ns_bytestreams) then ByteStreamPayload (ByteStream_parse element)
        else if tag = (''si'', ns_stream_initiation) then InitiationPayload (StreamInitiation_parse e element)
        else NoPayload)"

definition TransferIq_parse :: "transfer_codec \<Rightarrow> dom \<Rightarrow> TransferIq" where
  "TransferIq_parse e element = (let s = QXmppStanza_parse (tc_nonza e) element
     in \<lparr>st_to = st_to s, st_from = st_from s, st_id = st_id s, st_lang = st_lang s, st_error = st_error s, st_extensions = st_extensions s,
         st_addresses = st_addresses s, iq_type = (case enum_fromString IqType_Values (attr ''type'' element) of None \<Rightarrow> IqGet | Some t \<Rightarrow> t),
         tq_payload = payload_parse e element\<rparr>)"

definition new_TransferIq :: "IqType \<Rightarrow> TransferIq" where
  "new_TransferIq type = \<lparr>st_to = [], st_from = [], st_id = [], st_lang = [], st_error = None, st_extensions = [], st_addresses = [],
     iq_type = type, tq_payload = NoPayload\<rparr>"

section \<open>Round trips\<close>

definition codec_laws :: "transfer_codec \<Rightarrow> bool" where
  "codec_laws e \<longleftrightarrow> nonza_laws (tc_nonza e) \<and> datetimeFromString (tc_nonza e) [] = None \<and>
     (\<forall>bs. tc_fromBase64 e (serializeBase64 (tc_nonza e) bs) = bs)"

definition file_ok :: "FileInfo \<Rightarrow> bool" where
  "file_ok f \<longleftrightarrow> 0 \<le> file_size f \<and> file_size f < 2 ^ 63"

text \<open>What the fields of a payload hold, and the markers that the serializers do not tell from their defaults.\<close>

fun payload_ok :: "transfer_codec \<Rightarrow> transfer_payload \<Rightarrow> bool" where
  "payload_ok e NoPayload \<longleftrightarrow> True"
| "payload_ok e (OpenPayload iq) \<longleftrightarrow> - (2 ^ 63) \<le> open_blockSize iq \<and> open_blockSize iq < 2 ^ 63"
| "payload_ok e (ClosePayload sid) \<longleftrightarrow> True"
| "payload_ok e (DataPayload iq) \<longleftrightarrow> data_seq iq < 2 ^ 16"
| "payload_ok e (ByteStreamPayload iq) \<longleftrightarrow> list_all (\<lambda>h. host_port h < 2 ^ 16) (bs_streamHosts iq)"
| "payload_ok e (InitiationPayload iq) \<longleftrightarrow> file_ok (si_file iq) \<and> (si_form iq = new_QXmppDataForm \<or> form_ok (tc_form e) (si_form iq))"

lemma to_signed_number: "- (2 ^ 63) \<le> n \<Longrightarrow> n < 2 ^ 63 \<Longrightarrow> toLong (serializeInt n) = n"
  using to_signed_serializeInt [of 64 n] by (simp add: toLong_def)

lemma transfer_names:
  "ns_ibb \<noteq> []" "ns_bytestreams \<noteq> []" "ns_stream_initiation \<noteq> []" "ns_stream_initiation_file_transfer \<noteq> []" "ns_feature_negotiation \<noteq> []"
  "ns_ibb \<noteq> ns_bytestreams" "ns_ibb \<noteq> ns_stream_initiation" "ns_bytestreams \<noteq> ns_stream_initiation"
  "ns_stream_initiation_file_transfer \<noteq> ns_feature_negotiation" "ns_feature_negotiation \<noteq> ns_data" "ns_data \<noteq> ns_feature_negotiation"
  by (simp_all add: ns_ibb_def ns_bytestreams_def ns_stream_initiation_def ns_stream_initiation_file_transfer_def ns_feature_negotiation_def ns_data_def)

lemma child_simps [simp]:
  "child_or_null (Elem t n as (c # cs)) tag ns = (if matches tag ns c then c else child_or_null (Elem t n as cs) tag ns)"
  "child_or_null (Elem t n as []) tag ns = null_element"
  by (simp_all add: child_or_null_def firstChildElement_find)

lemma child_append: "\<forall>c \<in> set cs. \<not> matches tag ns c \<Longrightarrow> child_or_null (Elem t n as (cs @ ds)) tag ns = child_or_null (Elem t n as ds) tag ns"
  by (induction cs) simp_all

lemma seq_back: "n < 2 ^ 16 \<Longrightarrow> parseInt UInt16 (serializeInt (int n)) = Some (int n)"
  by (rule parseInt_serializeInt) (simp_all add: int_type_range_def)

lemma open_back:
  assumes "payload_ok e (OpenPayload iq)"
  shows "payload_parse e (Elem ''iq'' n as (item_nodes m (IbbOpen_toXml iq))) = OpenPayload iq" and "item_attrs (IbbOpen_toXml iq) = []"
  using assms transfer_names
  by (auto simp: payload_parse_def iqPayloadXmlTag_def firstChildElement_find elementXmlTag_def IbbOpen_toXml_def Element_def build_def Let_def
      IbbOpen_parse_def attr_def to_signed_number)

lemma close_back:
  "payload_parse e (Elem ''iq'' n as (item_nodes m (IbbClose_toXml sid))) = ClosePayload sid" "item_attrs (IbbClose_toXml sid) = []"
  using transfer_names
  by (auto simp: payload_parse_def iqPayloadXmlTag_def firstChildElement_find elementXmlTag_def IbbClose_toXml_def Element_def build_def Let_def
      IbbClose_parse_def attr_def)

lemma data_back:
  assumes "payload_ok e (DataPayload iq)" "codec_laws e"
  shows "payload_parse e (Elem ''iq'' n as (item_nodes m (IbbData_toXml e iq))) = DataPayload iq" and "item_attrs (IbbData_toXml e iq) = []"
  using assms transfer_names seq_back [of "data_seq iq"]
  by (auto simp: payload_parse_def iqPayloadXmlTag_def firstChildElement_find elementXmlTag_def IbbData_toXml_def Element_def build_def Let_def
      IbbData_parse_def attr_def codec_laws_def)

definition host_node :: "StreamHost \<Rightarrow> dom" where
  "host_node h = Elem ''streamhost'' ns_bytestreams
     ((if host_host h = [] then [] else [(''host'', host_host h)]) @ (if host_jid h = [] then [] else [(''jid'', host_jid h)]) @
      (''port'', serializeInt (int (host_port h))) # (if host_zeroconf h = [] then [] else [(''zeroconf'', host_zeroconf h)])) []"

lemma host_nodes:
  "concat (map (\<lambda>h. item_nodes m (StreamHost_toXml h)) hs) = map host_node hs" "concat (map (\<lambda>h. item_attrs (StreamHost_toXml h)) hs) = []"
  by (induction hs) (simp_all add: StreamHost_toXml_def Element_def build_def host_node_def)

lemma host_matches [simp]: "matches t n (host_node h) \<longleftrightarrow> (n = [] \<or> n = ns_bytestreams) \<and> (t = [] \<or> t = ''streamhost'')"
  by (auto simp: host_node_def)

lemma host_back: "host_port h < 2 ^ 16 \<Longrightarrow> StreamHost_fromDom (host_node h) = Some h"
  using seq_back [of "host_port h"]
  by (cases h) (simp add: StreamHost_fromDom_def host_node_def attr_def del: parseInt.simps)

lemma hosts_back:
  "list_all (\<lambda>h. host_port h < 2 ^ 16) hs \<Longrightarrow> concat (map (\<lambda>c. case StreamHost_fromDom c of None \<Rightarrow> [] | Some v \<Rightarrow> [v]) (map host_node hs)) = hs"
  by (induction hs) (simp_all add: host_back)

definition bytestream_node :: "ByteStream \<Rightarrow> dom" where
  "bytestream_node iq = Elem ''query'' ns_bytestreams
     ((if bs_sid iq = [] then [] else [(''sid'', bs_sid iq)]) @
      (if bs_mode iq = TcpMode then [(''mode'', ''tcp'')] else if bs_mode iq = UdpMode then [(''mode'', ''udp'')] else []))
     (map host_node (bs_streamHosts iq) @ (if bs_activate iq = [] then [] else [form_text ns_bytestreams ''activate'' (bs_activate iq)]) @
      [Elem ''streamhost-used'' ns_bytestreams [(''jid'', bs_streamHostUsed iq)] []])"

lemma bytestream_nodes: "item_nodes m (ByteStream_toXml iq) = [bytestream_node iq]" "item_attrs (ByteStream_toXml iq) = []"
  by (auto simp: ByteStream_toXml_def Element_def build_def bytestream_node_def host_nodes o_def SingleAttributeElements_def ElementInherit_def)

lemma bytestream_back:
  assumes "payload_ok e (ByteStreamPayload iq)"
  shows "payload_parse e (Elem ''iq'' n as [bytestream_node iq]) = ByteStreamPayload iq"
proof -
  let ?d = "bytestream_node iq"
  have "payload_parse e (Elem ''iq'' n as [?d]) = ByteStreamPayload (ByteStream_parse (Elem ''iq'' n as [?d]))"
    using transfer_names by (simp add: payload_parse_def iqPayloadXmlTag_def firstChildElement_find elementXmlTag_def Let_def bytestream_node_def)
  moreover have "child_or_null (Elem ''iq'' n as [?d]) ''query'' ns_bytestreams = ?d" by (simp add: bytestream_node_def)
  moreover have "parseChildElements StreamHost_fromDom ?d ''streamhost'' ns_bytestreams = bs_streamHosts iq"
    using assms hosts_back [of "bs_streamHosts iq"] by (simp add: parseChildElements_def iterChildElements_filter bytestream_node_def filter_map o_def)
  moreover have "child_text ?d ''activate'' [] = bs_activate iq"
    by (simp add: child_text_def firstChildElement_find bytestream_node_def find_append find_none)
  moreover have "attr ''jid'' (child_or_null ?d ''streamhost-used'' []) = bs_streamHostUsed iq"
    by (simp add: bytestream_node_def child_append attr_def)
  moreover have "attr ''sid'' ?d = bs_sid iq" "attr ''mode'' ?d = (case bs_mode iq of TcpMode \<Rightarrow> ''tcp'' | UdpMode \<Rightarrow> ''udp'' | NoMode \<Rightarrow> [])"
    by (simp_all add: bytestream_node_def attr_def split: StreamMode.split)
  ultimately show ?thesis by (cases "bs_mode iq") (simp_all add: ByteStream_parse_def Let_def)
qed

definition file_node :: "transfer_codec \<Rightarrow> FileInfo \<Rightarrow> dom" where
  "file_node e f = Elem ''file'' ns_stream_initiation_file_transfer
     ((case file_date f of None \<Rightarrow> [] | Some t \<Rightarrow> [(''date'', datetimeToString (tc_nonza e) (Some t))]) @
      (if file_hash f = [] then [] else [(''hash'', bytes_toHex (file_hash f))]) @ (if file_name f = [] then [] else [(''name'', file_name f)]) @
      (if file_size f > 0 then [(''size'', serializeInt (file_size f))] else []))
     (if file_description f = [] then [] else [form_text ns_stream_initiation_file_transfer ''desc'' (file_description f)])"

lemma file_nodes:
  assumes "codec_laws e" shows "item_nodes m (FileInfo_toXml e f) = [file_node e f]" "item_attrs (FileInfo_toXml e f) = []"
  using assms by (auto simp: FileInfo_toXml_def Element_def build_def file_node_def codec_laws_def split: option.splits)

lemma file_back:
  assumes "codec_laws e" "file_ok f" shows "FileInfo_parse e (file_node e f) = f"
proof -
  have "datetimeFromString (tc_nonza e) (attr ''date'' (file_node e f)) = file_date f"
    using assms(1) by (simp add: file_node_def attr_def codec_laws_def nonza_laws_def split: option.split)
  moreover have "attr ''hash'' (file_node e f) = bytes_toHex (file_hash f)" "attr ''name'' (file_node e f) = file_name f"
    "attr ''size'' (file_node e f) = (if file_size f > 0 then serializeInt (file_size f) else [])"
    by (simp_all add: file_node_def attr_def bytes_toHex_def split: option.split)
  moreover have "toLong (if file_size f > 0 then serializeInt (file_size f) else []) = file_size f"
  proof -
    have "toLong [] = 0" by code_simp
    then show ?thesis using assms(2) by (simp add: file_ok_def to_signed_number)
  qed
  moreover have "child_text (file_node e f) ''desc'' [] = file_description f"
    by (simp add: child_text_def firstChildElement_find file_node_def find_append find_none)
  ultimately show ?thesis by (simp add: FileInfo_parse_def)
qed

lemma file_null_back: "file_isNull f \<Longrightarrow> f = new_FileInfo"
  by (cases f) (simp add: file_isNull_def new_FileInfo_def)

definition initiation_node :: "transfer_codec \<Rightarrow> StreamInitiation \<Rightarrow> dom" where
  "initiation_node e s = Elem ''si'' ns_stream_initiation
     ((if si_id s = [] then [] else [(''id'', si_id s)]) @ (if si_mimeType s = [] then [] else [(''mime-type'', si_mimeType s)]) @
      (if si_profile s = FileTransfer then [(''profile'', ns_stream_initiation_file_transfer)] else []))
     ((if file_isNull (si_file s) then [] else [file_node e (si_file s)]) @
      (if form_isNull (si_form s) then [] else [Elem ''feature'' ns_feature_negotiation [] [form_dom (si_form s)]]))"

lemma initiation_nodes:
  assumes "codec_laws e" "payload_ok e (InitiationPayload s)"
  shows "item_nodes m (StreamInitiation_toXml e s) = [initiation_node e s]" "item_attrs (StreamInitiation_toXml e s) = []"
proof -
  have "form_isNull (si_form s) \<or> DataForm_toXml (si_form s) = [Node (\<lambda>_. form_dom (si_form s))]"
    using assms(2) form_nodes [of "tc_form e" "si_form s"] by (auto simp: form_isNull_def new_QXmppDataForm_def)
  then show "item_nodes m (StreamInitiation_toXml e s) = [initiation_node e s]" "item_attrs (StreamInitiation_toXml e s) = []"
    using file_nodes [OF assms(1)] 
    by (auto simp: StreamInitiation_toXml_def Element_def build_def initiation_node_def OptionalContent_def)
qed

lemma initiation_back:
  assumes laws: "codec_laws e" and ok: "payload_ok e (InitiationPayload s)"
  shows "payload_parse e (Elem ''iq'' n as [initiation_node e s]) = InitiationPayload s"
proof -
  let ?d = "initiation_node e s"
  have "payload_parse e (Elem ''iq'' n as [?d]) = InitiationPayload (StreamInitiation_parse e (Elem ''iq'' n as [?d]))"
    using transfer_names by (simp add: payload_parse_def iqPayloadXmlTag_def firstChildElement_find elementXmlTag_def Let_def initiation_node_def)
  moreover have "child_or_null (Elem ''iq'' n as [?d]) ''si'' [] = ?d" by (simp add: initiation_node_def)
  moreover have "parseOptionalChildElement (\<lambda>c. Some (FileInfo_parse e c)) ?d ''file'' ns_stream_initiation_file_transfer =
      (if file_isNull (si_file s) then None else Some (si_file s))"
    using file_back [OF laws, of "si_file s"] ok
    by (simp add: parseOptionalChildElement_def firstChildElement_find initiation_node_def file_node_def)
  moreover have "parseOptionalChildElement (DataForm_fromDom (tc_form e)) (child_or_null ?d ''feature'' ns_feature_negotiation) ''x'' ns_data =
      (if form_isNull (si_form s) then None else Some (si_form s))"
  proof (cases "form_isNull (si_form s)")
    case True
    then show ?thesis using transfer_names
      by (simp add: initiation_node_def file_node_def parseOptionalChildElement_def firstChildElement_find null_element_def)
  next
    case False
    then have "form_ok (tc_form e) (si_form s)" using ok by (auto simp: form_isNull_def new_QXmppDataForm_def)
    then show ?thesis using False transfer_names form_back [of "tc_form e" "si_form s"]
      by (simp add: initiation_node_def file_node_def parseOptionalChildElement_def firstChildElement_find form_dom_def)
  qed
  moreover have "form_isNull (si_form s) \<Longrightarrow> new_QXmppDataForm = si_form s" using ok by (auto simp: form_ok_def)
  moreover have "attr ''id'' ?d = si_id s" "attr ''mime-type'' ?d = si_mimeType s"
    "(if attr ''profile'' ?d = ns_stream_initiation_file_transfer then FileTransfer else NoProfile) = si_profile s"
    using transfer_names by (cases "si_profile s"; simp add: initiation_node_def attr_def)+
  moreover have "file_isNull (si_file s) \<Longrightarrow> new_FileInfo = si_file s" using file_null_back [of "si_file s"] by simp
  ultimately show ?thesis by (simp add: StreamInitiation_parse_def Let_def)
qed

lemma payload_back:
  assumes "codec_laws e" "payload_ok e p"
  shows "payload_parse e (Elem ''iq'' n as (concat (map (item_nodes m) (payload_items e p)))) = p" and "concat (map item_attrs (payload_items e p)) = []"
proof -
  have "payload_parse e (Elem ''iq'' n as []) = NoPayload"
    by (simp add: payload_parse_def iqPayloadXmlTag_def firstChildElement_find elementXmlTag_def)
  then have "payload_parse e (Elem ''iq'' n as (concat (map (item_nodes m) (payload_items e p)))) = p \<and> concat (map item_attrs (payload_items e p)) = []"
    using assms open_back close_back data_back [OF _ assms(1)] bytestream_nodes bytestream_back
      initiation_nodes [OF assms(1)] initiation_back [OF assms(1)]
    by (cases p) simp_all
  then show "payload_parse e (Elem ''iq'' n as (concat (map (item_nodes m) (payload_items e p)))) = p" "concat (map item_attrs (payload_items e p)) = []"
    by blast+
qed

lemma payload_tags:
  assumes "codec_laws e" "payload_ok e p"
  shows "\<forall>c \<in> set (concat (map (item_nodes m) (payload_items e p))). \<not> matches ''error'' [] c \<and> \<not> matches ''addresses'' ns_extended_addressing c"
  using assms bytestream_nodes initiation_nodes [OF assms(1)]
  by (cases p) (simp_all add: IbbOpen_toXml_def IbbClose_toXml_def IbbData_toXml_def Element_def build_def bytestream_node_def initiation_node_def)

text \<open>An IQ of a file transfer, whichever payload it has, comes back as it was.\<close>

lemma transfer_iq_back:
  assumes "codec_laws e" "payload_ok e (tq_payload iq)" "st_error iq = None" "st_extensions iq = []" "st_addresses iq = []" "st_lang iq = []"
  shows "TransferIq_parse e (written (TransferIq_toXml e iq)) = iq"
proof -
  let ?cs = "concat (map (item_nodes []) (payload_items e (tq_payload iq)))"
  let ?d = "Elem ''iq'' [] ((''id'', st_id iq) # (if st_to iq = [] then [] else [(''to'', st_to iq)]) @
     (if st_from iq = [] then [] else [(''from'', st_from iq)]) @ [(''type'', enum_toString IqType_Values (iq_type iq))]) ?cs"
  have d: "written (TransferIq_toXml e iq) = ?d"
    using payload_back(2) [OF assms(1,2)] assms(3)
    by (simp add: TransferIq_toXml_def written_def ElementInherit_def build_def del: concat_eq_Nil_conv)
  have type: "enum_fromString IqType_Values (enum_toString IqType_Values t) = Some t" for t
    by (cases t) (simp_all add: enum_fromString_def enum_toString_def IqType_Values_def)
  have none: "\<forall>c \<in> set ?cs. \<not> matches ''error'' [] c \<and> \<not> matches ''addresses'' ns_extended_addressing c"
    using assms(1,2) by (rule payload_tags)
  then have "List.find (matches ''error'' []) ?cs = None" "List.find (matches ''addresses'' ns_extended_addressing) ?cs = None"
    by (intro find_none; blast)+
  then have "QXmppStanza_parse (tc_nonza e) ?d = \<lparr>st_to = st_to iq, st_from = st_from iq, st_id = st_id iq, st_lang = [], st_error = None,
      st_extensions = [], st_addresses = []\<rparr>"
    by (simp add: QXmppStanza_parse_def parseOptionalChildElement_def firstChildElement_find find_none attr_def)
  moreover have "attr ''type'' ?d = enum_toString IqType_Values (iq_type iq)" by (simp add: attr_def)
  ultimately show ?thesis unfolding d TransferIq_parse_def Let_def using payload_back(1) [OF assms(1,2)] assms(3-6) type
    by (simp add: IqType_Values_def)
qed

definition example_codec :: transfer_codec where
  "example_codec = \<lparr>tc_nonza = example_nonza_env, tc_form = example_form_env, tc_fromBase64 = (\<lambda>s. case parseBase64 example_nonza_env s of None \<Rightarrow> [] | Some b \<Rightarrow> b)\<rparr>"


lemma example_codec_laws: "codec_laws example_codec"
  using example_nonza_laws by (simp add: codec_laws_def example_codec_def nonza_laws_def) (simp add: example_nonza_env_def)

end
