(* ===== verification/TransferManager.thy ===== *)
theory TransferManager
  imports TransferIqs Utils
begin

text \<open>
  The file transfer manager and its jobs, \<^verbatim>\<open>src/client/QXmppTransferManager.cpp\<close>.

  Job objects are numbers: positions in the list of all objects.  A device gives what is left to read and takes what is written; how many
  bytes each read or write moves, and which of them fail, is a list of the outcomes to come, after which the device moves everything.  A
  socket is the number of bytes that it has not sent yet.  Signals that reach the application, packets and socket commands are appended to an
  output.  Methods that start later, \<^verbatim>\<open>_q_terminated\<close>, wait in a queue.  A call through a null pointer is a flag.
\<close>

section \<open>Devices\<close>

record device =
  dev_open :: bool
  dev_readable :: bool
  dev_writable :: bool
  dev_input :: bytes
  dev_output :: bytes
  dev_reads :: "int list"
  dev_writes :: "int list"

definition isReadable :: "device \<Rightarrow> bool" where
  "isReadable d \<longleftrightarrow> dev_open d \<and> dev_readable d"

definition isWritable :: "device \<Rightarrow> bool" where
  "isWritable d \<longleftrightarrow> dev_open d \<and> dev_writable d"

definition dev_read :: "int \<Rightarrow> device \<Rightarrow> bytes option \<times> device" where
  "dev_read maxSize d =
     (let n = nat maxSize; (r, rs) = (case dev_reads d of [] \<Rightarrow> (int n, []) | r # rs \<Rightarrow> (r, rs))
      in if \<not> isReadable d then (None, d)
         else if r < 0 then (None, d\<lparr>dev_reads := rs\<rparr>)
         else let m = min n (nat r) in (Some (take m (dev_input d)), d\<lparr>dev_reads := rs, dev_input := drop m (dev_input d)\<rparr>))"

definition dev_write :: "bytes \<Rightarrow> device \<Rightarrow> int \<times> device" where
  "dev_write bs d =
     (let (r, rs) = (case dev_writes d of [] \<Rightarrow> (int (length bs), []) | r # rs \<Rightarrow> (r, rs))
      in if \<not> isWritable d then (-1, d)
         else if r < 0 then (-1, d\<lparr>dev_writes := rs\<rparr>)
         else let m = min (length bs) (nat r) in (int m, d\<lparr>dev_writes := rs, dev_output := dev_output d @ take m bs\<rparr>))"

section \<open>Jobs and the state of the manager\<close>

datatype Direction = Incoming | Outgoing
datatype TransferError = NoTransferError | AbortError | FileAccessError | FileCorruptError | TransferProtocolError
datatype Method = NoMethod | InBandMethod | SocksMethod
datatype TransferState = OfferState | StartState | TransferringState | FinishedState

record tjob =
  tj_blockSize :: int
  tj_direction :: Direction
  tj_done :: int
  tj_error :: TransferError
  tj_hashed :: bytes
  tj_device :: "device option"
  tj_offerId :: qstring
  tj_jid :: qstring
  tj_sid :: qstring
  tj_method :: Method
  tj_mimeType :: qstring
  tj_requestId :: qstring
  tj_state :: TransferState
  tj_deviceIsOwn :: bool
  tj_info :: FileInfo
  tj_ibbSequence :: int
  tj_socket :: "int option"
  tj_socksProxy :: StreamHost
  tj_candidate :: "StreamHost option"
  tj_candidates :: "StreamHost list"
  tj_streamOfferId :: qstring
  tj_streamOfferFrom :: qstring
  tj_watched :: bool
  tj_socketWatched :: bool
  tj_sendSlots :: nat

definition new_job :: "qstring \<Rightarrow> Direction \<Rightarrow> tjob" where
  "new_job jid direction = \<lparr>tj_blockSize = 16384, tj_direction = direction, tj_done = 0, tj_error = NoTransferError, tj_hashed = [],
     tj_device = None, tj_offerId = [], tj_jid = jid, tj_sid = [], tj_method = NoMethod, tj_mimeType = [], tj_requestId = [],
     tj_state = OfferState, tj_deviceIsOwn = False, tj_info = new_FileInfo, tj_ibbSequence = 0, tj_socket = None,
     tj_socksProxy = new_StreamHost, tj_candidate = None, tj_candidates = [], tj_streamOfferId = [], tj_streamOfferFrom = [],
     tj_watched = False, tj_socketWatched = False, tj_sendSlots = 0\<rparr>"

datatype tout = SentIq TransferIq | EmitState nat TransferState | EmitError nat TransferError | EmitFinished nat | EmitProgress nat int int
  | EmitJobStarted nat | EmitJobFinished nat | EmitFileReceived nat | SocketConnect nat StreamHost qstring | SocketWrite nat bytes | SocketClose nat
  | StrangerClose

record tmanager =
  tm_objects :: "tjob list"
  tm_jobs :: "nat list"
  tm_ibbBlockSize :: int
  tm_proxy :: qstring
  tm_proxyOnly :: bool
  tm_inband :: bool
  tm_socks :: bool
  tm_fileReceivedConnected :: bool
  tm_nextId :: nat
  tm_queue :: "nat list"
  tm_out :: "tout list"
  tm_crashed :: bool

definition new_manager :: tmanager where
  "new_manager = \<lparr>tm_objects = [], tm_jobs = [], tm_ibbBlockSize = 4096, tm_proxy = [], tm_proxyOnly = False, tm_inband = True, tm_socks = True,
     tm_fileReceivedConnected = True, tm_nextId = 0, tm_queue = [], tm_out = [], tm_crashed = False\<rparr>"

record transfer_env =
  te_jid :: qstring
  te_streamHash :: "qstring \<Rightarrow> qstring \<Rightarrow> qstring \<Rightarrow> qstring"
  te_md5 :: "bytes \<Rightarrow> bytes"
  te_stanzaId :: "nat \<Rightarrow> qstring"
  te_stanzaHash :: "nat \<Rightarrow> qstring"
  te_addresses :: "qstring list"
  te_serverPort :: nat

definition job :: "tmanager \<Rightarrow> nat \<Rightarrow> tjob" where
  "job s i = tm_objects s ! i"

definition change :: "nat \<Rightarrow> (tjob \<Rightarrow> tjob) \<Rightarrow> tmanager \<Rightarrow> tmanager" where
  "change i f s = s\<lparr>tm_objects := (tm_objects s)[i := f (job s i)]\<rparr>"

definition out :: "tout \<Rightarrow> tmanager \<Rightarrow> tmanager" where
  "out x s = s\<lparr>tm_out := tm_out s @ [x]\<rparr>"

text \<open>A request gets a new id, which the job keeps.\<close>

definition request :: "transfer_env \<Rightarrow> nat \<Rightarrow> TransferIq \<Rightarrow> tmanager \<Rightarrow> tmanager" where
  "request env i iq s =
     (let newId = te_stanzaId env (tm_nextId s)
      in out (SentIq (iq\<lparr>st_id := newId\<rparr>)) (change i (\<lambda>j. j\<lparr>tj_requestId := newId\<rparr>) (s\<lparr>tm_nextId := tm_nextId s + 1\<rparr>)))"

definition stanza_error :: "ErrorType \<Rightarrow> Condition \<Rightarrow> int \<Rightarrow> StanzaError" where
  "stanza_error type condition code = new_StanzaError\<lparr>err_type := type, err_condition := condition, err_code := code\<rparr>"

definition answer_error :: "qstring \<Rightarrow> qstring \<Rightarrow> StanzaError \<Rightarrow> tout" where
  "answer_error to requestId err = SentIq ((new_TransferIq IqError)\<lparr>st_to := to, st_id := requestId, st_error := Some err\<rparr>)"

definition answer_result :: "qstring \<Rightarrow> qstring \<Rightarrow> tout" where
  "answer_result to requestId = SentIq ((new_TransferIq IqResult)\<lparr>st_to := to, st_id := requestId\<rparr>)"

section \<open>All jobs\<close>

definition terminate :: "TransferError \<Rightarrow> nat \<Rightarrow> tmanager \<Rightarrow> tmanager" where
  "terminate cause i s =
     (let j = job s i in
      if tj_state j = FinishedState then s
      else let s1 = change i (\<lambda>j. j\<lparr>tj_error := cause, tj_state := FinishedState,
             tj_device := (if tj_deviceIsOwn j then map_option (\<lambda>d. d\<lparr>dev_open := False\<rparr>) (tj_device j) else tj_device j)\<rparr>) s;
             s2 = (if tj_socket j \<noteq> None then out (SocketClose i) s1 else s1)
           in s2\<lparr>tm_queue := tm_queue s2 @ [i]\<rparr>)"

definition stream_method_field :: DataFormField where
  "stream_method_field = new_Field\<lparr>field_type := ListSingleField, field_key := ''stream-method''\<rparr>"

definition jobStateChanged :: "nat \<Rightarrow> TransferState \<Rightarrow> tmanager \<Rightarrow> tmanager" where
  "jobStateChanged i state s =
     (if i \<notin> set (tm_jobs s) \<or> tj_direction (job s i) \<noteq> Incoming then s
      else let s1 = change i (\<lambda>j. j\<lparr>tj_watched := False\<rparr>) s; j = job s1 i
           in if state \<noteq> StartState \<or> tj_device j = None \<or> \<not> isWritable (the (tj_device j))
              then terminate AbortError i (out (answer_error (tj_jid j) (tj_offerId j) (stanza_error Cancel Forbidden 403)) s1)
              else out (EmitJobStarted i) (out (SentIq ((new_TransferIq IqResult)\<lparr>st_to := tj_jid j, st_id := tj_offerId j,
                tq_payload := InitiationPayload (new_StreamInitiation\<lparr>si_profile := FileTransfer,
                  si_form := new_QXmppDataForm\<lparr>form_type := FormSubmit, form_fields := [stream_method_field\<lparr>field_value :=
                    (case tj_method j of InBandMethod \<Rightarrow> TextVariant ns_ibb | SocksMethod \<Rightarrow> TextVariant ns_bytestreams | NoMethod \<Rightarrow> NoVariant)\<rparr>]\<rparr>\<rparr>)\<rparr>)) s1))"

definition emit_stateChanged :: "nat \<Rightarrow> TransferState \<Rightarrow> tmanager \<Rightarrow> tmanager" where
  "emit_stateChanged i state s = out (EmitState i state) (if tj_watched (job s i) then jobStateChanged i state s else s)"

definition setState :: "TransferState \<Rightarrow> nat \<Rightarrow> tmanager \<Rightarrow> tmanager" where
  "setState state i s =
     (if tj_state (job s i) \<noteq> state then emit_stateChanged i state (change i (\<lambda>j. j\<lparr>tj_state := state\<rparr>) s) else s)"

definition jobError :: "transfer_env \<Rightarrow> nat \<Rightarrow> TransferError \<Rightarrow> tmanager \<Rightarrow> tmanager" where
  "jobError env i err s =
     (let j = job s i in
      if i \<in> set (tm_jobs s) \<and> tj_direction j = Outgoing \<and> tj_method j = InBandMethod \<and> err = AbortError
      then request env i ((new_TransferIq IqSet)\<lparr>st_to := tj_jid j, tq_payload := ClosePayload (tj_sid j)\<rparr>) s else s)"

definition q_terminated :: "transfer_env \<Rightarrow> nat \<Rightarrow> tmanager \<Rightarrow> tmanager" where
  "q_terminated env i s =
     (let s1 = emit_stateChanged i (tj_state (job s i)) s; err = tj_error (job s1 i);
          s2 = (if err \<noteq> NoTransferError then jobError env i err (out (EmitError i err) s1) else s1);
          s3 = out (EmitFinished i) s2
      in if i \<in> set (tm_jobs s3) then out (EmitJobFinished i) s3 else s3)"

definition abort :: "nat \<Rightarrow> tmanager \<Rightarrow> tmanager" where
  "abort = terminate AbortError"

definition accept_device :: "device option \<Rightarrow> nat \<Rightarrow> tmanager \<Rightarrow> tmanager" where
  "accept_device d i s =
     (let j = job s i in
      if tj_direction j = Incoming \<and> tj_state j = OfferState \<and> tj_device j = None
      then setState StartState i (change i (\<lambda>j. j\<lparr>tj_device := d\<rparr>) s) else s)"

text \<open>The file is a device when it could be opened.\<close>

definition accept_file :: "device option \<Rightarrow> nat \<Rightarrow> tmanager \<Rightarrow> tmanager" where
  "accept_file file i s =
     (let j = job s i in
      if tj_direction j = Incoming \<and> tj_state j = OfferState \<and> tj_device j = None
      then (case file of None \<Rightarrow> abort i s | Some d \<Rightarrow> setState StartState i (change i (\<lambda>j. j\<lparr>tj_device := Some d\<rparr>) s)) else s)"


section \<open>Incoming jobs\<close>

definition checkData :: "transfer_env \<Rightarrow> nat \<Rightarrow> tmanager \<Rightarrow> tmanager" where
  "checkData env i s =
     (let j = job s i in
      if file_size (tj_info j) \<noteq> 0 \<and> tj_done j \<noteq> file_size (tj_info j) \<or>
         file_hash (tj_info j) \<noteq> [] \<and> te_md5 env (tj_hashed j) \<noteq> file_hash (tj_info j)
      then terminate FileCorruptError i s else terminate NoTransferError i s)"

text \<open>The device has to be there; nobody looks at the result.\<close>

definition writeData :: "bytes \<Rightarrow> nat \<Rightarrow> tmanager \<Rightarrow> tmanager" where
  "writeData bs i s =
     (case tj_device (job s i) of
        None \<Rightarrow> s\<lparr>tm_crashed := True\<rparr>
      | Some d \<Rightarrow>
          (case dev_write bs d of (n, d') \<Rightarrow>
             let s1 = change i (\<lambda>j. j\<lparr>tj_device := Some d'\<rparr>) s
             in if n < 0 then s1
                else let s2 = change i (\<lambda>j. j\<lparr>tj_done := tj_done j + n,
                       tj_hashed := (if file_hash (tj_info j) \<noteq> [] then tj_hashed j @ bs else tj_hashed j)\<rparr>) s1
                     in out (EmitProgress i (tj_done (job s2 i)) (file_size (tj_info (job s2 i)))) s2))"

definition connectToNextHost :: "transfer_env \<Rightarrow> nat \<Rightarrow> tmanager \<Rightarrow> tmanager" where
  "connectToNextHost env i s =
     (let j = job s i in
      case tj_candidates j of
        [] \<Rightarrow> terminate TransferProtocolError i (out (answer_error (tj_streamOfferFrom j) (tj_streamOfferId j) (stanza_error Cancel ItemNotFound 404)) s)
      | h # hs \<Rightarrow> out (SocketConnect i h (te_streamHash env (tj_sid j) (tj_jid j) (te_jid env)))
          (change i (\<lambda>j. j\<lparr>tj_candidates := hs, tj_candidate := Some h\<rparr>) s))"

definition connectToHosts :: "transfer_env \<Rightarrow> TransferIq \<Rightarrow> ByteStream \<Rightarrow> nat \<Rightarrow> tmanager \<Rightarrow> tmanager" where
  "connectToHosts env iq b i s = connectToNextHost env i
     (change i (\<lambda>j. j\<lparr>tj_candidates := bs_streamHosts b, tj_streamOfferId := st_id iq, tj_streamOfferFrom := st_from iq\<rparr>) s)"

definition candidateReady :: "nat \<Rightarrow> tmanager \<Rightarrow> tmanager" where
  "candidateReady i s =
     (case tj_candidate (job s i) of
        None \<Rightarrow> s
      | Some h \<Rightarrow>
          (let s1 = change i (\<lambda>j. j\<lparr>tj_socket := Some 0, tj_candidate := None, tj_socketWatched := True\<rparr>) (setState TransferringState i s);
               j = job s1 i
           in out (SentIq ((new_TransferIq IqResult)\<lparr>st_id := tj_streamOfferId j, st_to := tj_streamOfferFrom j,
                tq_payload := ByteStreamPayload (new_ByteStream\<lparr>bs_sid := tj_sid j, bs_streamHostUsed := host_jid h\<rparr>)\<rparr>)) s1))"

definition candidateDisconnected :: "transfer_env \<Rightarrow> nat \<Rightarrow> tmanager \<Rightarrow> tmanager" where
  "candidateDisconnected env i s =
     (if tj_candidate (job s i) = None then s else connectToNextHost env i (change i (\<lambda>j. j\<lparr>tj_candidate := None\<rparr>) s))"

definition receiveData :: "transfer_env \<Rightarrow> bytes \<Rightarrow> nat \<Rightarrow> tmanager \<Rightarrow> tmanager" where
  "receiveData env bs i s =
     (if tj_state (job s i) \<noteq> TransferringState \<or> tj_direction (job s i) \<noteq> Incoming then s
      else let s1 = writeData bs i s; j = job s1 i
           in if file_size (tj_info j) \<noteq> 0 \<and> tj_done j \<ge> file_size (tj_info j) then checkData env i s1 else s1)"

section \<open>Outgoing jobs\<close>

definition connectToProxy :: "transfer_env \<Rightarrow> nat \<Rightarrow> tmanager \<Rightarrow> tmanager" where
  "connectToProxy env i s =
     (let j = job s i
      in out (SocketConnect i (tj_socksProxy j) (te_streamHash env (tj_sid j) (te_jid env) (tj_jid j)))
           (change i (\<lambda>j. j\<lparr>tj_socket := Some 0, tj_socketWatched := True\<rparr>) s))"

definition sendData_job :: "nat \<Rightarrow> tmanager \<Rightarrow> tmanager" where
  "sendData_job i s =
     (let j = job s i in
      case (tj_socket j, tj_device j) of
        (Some waiting, Some d) \<Rightarrow>
          (if tj_state j \<noteq> TransferringState \<or> waiting > 2 * tj_blockSize j then s
           else if file_size (tj_info j) \<noteq> 0 \<and> tj_done j \<ge> file_size (tj_info j)
           then (if waiting = 0 then terminate NoTransferError i s else s)
           else (case dev_read (tj_blockSize j) d of
                   (None, d') \<Rightarrow> terminate FileAccessError i (change i (\<lambda>j. j\<lparr>tj_device := Some d'\<rparr>) s)
                 | (Some bs, d') \<Rightarrow>
                     let s1 = change i (\<lambda>j. j\<lparr>tj_device := Some d', tj_socket := Some (waiting + int (length bs)), tj_done := tj_done j + int (length bs)\<rparr>) s
                     in out (EmitProgress i (tj_done (job s1 i)) (file_size (tj_info j))) (out (SocketWrite i bs) s1)))
      | _ \<Rightarrow> if tj_state j \<noteq> TransferringState then s else s\<lparr>tm_crashed := True\<rparr>)"

definition startSending :: "nat \<Rightarrow> tmanager \<Rightarrow> tmanager" where
  "startSending i s = sendData_job i (change i (\<lambda>j. j\<lparr>tj_sendSlots := tj_sendSlots j + 1\<rparr>) (setState TransferringState i s))"

definition outgoing_disconnected :: "nat \<Rightarrow> tmanager \<Rightarrow> tmanager" where
  "outgoing_disconnected i s =
     (let j = job s i in
      if tj_state j = FinishedState then s
      else if file_size (tj_info j) \<noteq> 0 \<and> tj_done j \<noteq> file_size (tj_info j) then terminate TransferProtocolError i s
      else terminate NoTransferError i s)"

definition proxyReady :: "transfer_env \<Rightarrow> nat \<Rightarrow> tmanager \<Rightarrow> tmanager" where
  "proxyReady env i s =
     (let j = job s i
      in request env i ((new_TransferIq IqSet)\<lparr>st_from := te_jid env, st_to := host_jid (tj_socksProxy j),
           tq_payload := ByteStreamPayload (new_ByteStream\<lparr>bs_sid := tj_sid j, bs_activate := tj_jid j\<rparr>)\<rparr>) s)"

section \<open>Sockets\<close>

definition socket_disconnected :: "transfer_env \<Rightarrow> nat \<Rightarrow> tmanager \<Rightarrow> tmanager" where
  "socket_disconnected env i s =
     (let j = job s i in
      if \<not> tj_socketWatched j then s
      else if tj_direction j = Outgoing then outgoing_disconnected i s
      else if tj_state j = FinishedState then s else checkData env i s)"

text \<open>The socket has sent bytes; each connection of the signal starts the slot once.\<close>

definition socket_sent :: "int \<Rightarrow> nat \<Rightarrow> tmanager \<Rightarrow> tmanager" where
  "socket_sent n i s =
     (let s1 = change i (\<lambda>j. j\<lparr>tj_socket := map_option (\<lambda>w. max 0 (w - n)) (tj_socket j)\<rparr>) s
      in ((sendData_job i) ^^ tj_sendSlots (job s1 i)) s1)"


section \<open>The manager\<close>

definition getJobByRequestId :: "Direction \<Rightarrow> qstring \<Rightarrow> qstring \<Rightarrow> tmanager \<Rightarrow> nat option" where
  "getJobByRequestId direction jid rid s =
     List.find (\<lambda>i. tj_direction (job s i) = direction \<and> tj_jid (job s i) = jid \<and> tj_requestId (job s i) = rid) (tm_jobs s)"

definition getIncomingJobBySid :: "qstring \<Rightarrow> qstring \<Rightarrow> tmanager \<Rightarrow> nat option" where
  "getIncomingJobBySid jid sid s =
     List.find (\<lambda>i. tj_direction (job s i) = Incoming \<and> tj_jid (job s i) = jid \<and> tj_sid (job s i) = sid) (tm_jobs s)"

definition socksServerSendOffer :: "transfer_env \<Rightarrow> nat \<Rightarrow> tmanager \<Rightarrow> tmanager" where
  "socksServerSendOffer env i s =
     (let j = job s i;
          own = (if tm_proxyOnly s then [] else map (\<lambda>a. new_StreamHost\<lparr>host_jid := te_jid env, host_host := a, host_port := te_serverPort env\<rparr>) (te_addresses env));
          hosts = own @ (if host_jid (tj_socksProxy j) \<noteq> [] then [tj_socksProxy j] else [])
      in if hosts = [] then terminate TransferProtocolError i s
         else request env i ((new_TransferIq IqSet)\<lparr>st_to := tj_jid j,
           tq_payload := ByteStreamPayload (new_ByteStream\<lparr>bs_sid := tj_sid j, bs_streamHosts := hosts\<rparr>)\<rparr>) s)"

subsection \<open>SOCKS5 bytestreams\<close>

definition byteStreamResponseReceived :: "TransferIq \<Rightarrow> tmanager \<Rightarrow> tmanager" where
  "byteStreamResponseReceived iq s =
     (case getJobByRequestId Incoming (st_from iq) (st_id iq) s of
        None \<Rightarrow> s
      | Some i \<Rightarrow> if tj_method (job s i) \<noteq> SocksMethod \<or> tj_state (job s i) \<noteq> StartState then s
                 else if iq_type iq = IqError then terminate TransferProtocolError i s else s)"

definition byteStreamResultReceived :: "transfer_env \<Rightarrow> TransferIq \<Rightarrow> ByteStream \<Rightarrow> tmanager \<Rightarrow> tmanager" where
  "byteStreamResultReceived env iq b s =
     (case getJobByRequestId Outgoing (st_from iq) (st_id iq) s of
        None \<Rightarrow> s
      | Some i \<Rightarrow>
          (let j = job s i in
           if tj_method j \<noteq> SocksMethod \<or> tj_state j \<noteq> StartState then s
           else if bs_streamHostUsed b = host_jid (tj_socksProxy j) then connectToProxy env i s
           else if tj_socket j = None then terminate TransferProtocolError i s
           else startSending i (change i (\<lambda>j. j\<lparr>tj_socketWatched := True\<rparr>) s)))"

definition byteStreamSetReceived :: "transfer_env \<Rightarrow> TransferIq \<Rightarrow> ByteStream \<Rightarrow> tmanager \<Rightarrow> tmanager" where
  "byteStreamSetReceived env iq b s =
     (case getIncomingJobBySid (st_from iq) (bs_sid b) s of
        Some i \<Rightarrow> if tj_method (job s i) = SocksMethod \<and> tj_state (job s i) = StartState then connectToHosts env iq b i s
                 else out (answer_error (st_from iq) (st_id iq) (stanza_error AuthType NotAcceptable 406)) s
      | None \<Rightarrow> out (answer_error (st_from iq) (st_id iq) (stanza_error AuthType NotAcceptable 406)) s)"

definition byteStreamIqReceived :: "transfer_env \<Rightarrow> TransferIq \<Rightarrow> ByteStream \<Rightarrow> tmanager \<Rightarrow> tmanager" where
  "byteStreamIqReceived env iq b s =
     (case List.find (\<lambda>i. host_jid (tj_socksProxy (job s i)) = st_from iq \<and> tj_requestId (job s i) = st_id iq \<and>
             iq_type iq = IqResult \<and> bs_streamHosts b \<noteq> []) (tm_jobs s) of
        Some i \<Rightarrow> socksServerSendOffer env i (change i (\<lambda>j. j\<lparr>tj_socksProxy := hd (bs_streamHosts b)\<rparr>) s)
      | None \<Rightarrow> if iq_type iq = IqResult then byteStreamResultReceived env iq b s
                else if iq_type iq = IqSet then byteStreamSetReceived env iq b s else s)"

definition socksServerConnected :: "transfer_env \<Rightarrow> qstring \<Rightarrow> nat \<Rightarrow> tmanager \<Rightarrow> tmanager" where
  "socksServerConnected env hostName port s =
     (case List.find (\<lambda>i. hostName = te_streamHash env (tj_sid (job s i)) (te_jid env) (tj_jid (job s i)) \<and> port = 0) (tm_jobs s) of
        Some i \<Rightarrow> change i (\<lambda>j. j\<lparr>tj_socket := Some 0\<rparr>) s
      | None \<Rightarrow> out StrangerClose s)"

subsection \<open>In-band bytestreams\<close>

definition ibbCloseIqReceived :: "transfer_env \<Rightarrow> TransferIq \<Rightarrow> qstring \<Rightarrow> tmanager \<Rightarrow> tmanager" where
  "ibbCloseIqReceived env iq sid s =
     (case getIncomingJobBySid (st_from iq) sid s of
        Some i \<Rightarrow> if tj_method (job s i) \<noteq> InBandMethod then out (answer_error (st_from iq) (st_id iq) (stanza_error Cancel ItemNotFound 0)) s
                 else checkData env i (out (answer_result (st_from iq) (st_id iq)) s)
      | None \<Rightarrow> out (answer_error (st_from iq) (st_id iq) (stanza_error Cancel ItemNotFound 0)) s)"

definition ibbDataIqReceived :: "TransferIq \<Rightarrow> IbbData \<Rightarrow> tmanager \<Rightarrow> tmanager" where
  "ibbDataIqReceived iq p s =
     (case getIncomingJobBySid (st_from iq) (data_sid p) s of
        Some i \<Rightarrow>
          (if tj_method (job s i) \<noteq> InBandMethod \<or> tj_state (job s i) \<noteq> TransferringState
           then out (answer_error (st_from iq) (st_id iq) (stanza_error Cancel ItemNotFound 0)) s
           else if int (data_seq p) \<noteq> tj_ibbSequence (job s i)
           then out (answer_error (st_from iq) (st_id iq) (stanza_error Cancel UnexpectedRequest 0)) s
           else out (answer_result (st_from iq) (st_id iq))
                  (change i (\<lambda>j. j\<lparr>tj_ibbSequence := tj_ibbSequence j + 1\<rparr>) (writeData (data_payload p) i s)))
      | None \<Rightarrow> out (answer_error (st_from iq) (st_id iq) (stanza_error Cancel ItemNotFound 0)) s)"

definition ibbOpenIqReceived :: "TransferIq \<Rightarrow> IbbOpen \<Rightarrow> tmanager \<Rightarrow> tmanager" where
  "ibbOpenIqReceived iq p s =
     (case getIncomingJobBySid (st_from iq) (open_sid p) s of
        Some i \<Rightarrow>
          (if tj_method (job s i) \<noteq> InBandMethod then out (answer_error (st_from iq) (st_id iq) (stanza_error Cancel ItemNotFound 0)) s
           else if open_blockSize p > tm_ibbBlockSize s
           then out (answer_error (st_from iq) (st_id iq) (stanza_error Modify ResourceConstraint 0)) s
           else out (answer_result (st_from iq) (st_id iq))
                  (setState TransferringState i (change i (\<lambda>j. j\<lparr>tj_blockSize := open_blockSize p\<rparr>) s)))
      | None \<Rightarrow> out (answer_error (st_from iq) (st_id iq) (stanza_error Cancel ItemNotFound 0)) s)"

definition send_close :: "transfer_env \<Rightarrow> nat \<Rightarrow> tmanager \<Rightarrow> tmanager" where
  "send_close env i s = request env i ((new_TransferIq IqSet)\<lparr>st_to := tj_jid (job s i), tq_payload := ClosePayload (tj_sid (job s i))\<rparr>) s"

text \<open>The next block, or the end of the stream; the number of a block is sent with 16 bits.\<close>

definition send_block :: "transfer_env \<Rightarrow> bytes \<Rightarrow> nat \<Rightarrow> tmanager \<Rightarrow> tmanager" where
  "send_block env bs i s =
     (let j = job s i;
          s1 = request env i ((new_TransferIq IqSet)\<lparr>st_to := tj_jid j, tq_payload := DataPayload \<lparr>data_sid = tj_sid j,
            data_seq = nat (tj_ibbSequence j mod 2 ^ 16), data_payload = bs\<rparr>\<rparr>) (change i (\<lambda>j. j\<lparr>tj_ibbSequence := tj_ibbSequence j + 1\<rparr>) s);
          s2 = change i (\<lambda>j. j\<lparr>tj_done := tj_done j + int (length bs)\<rparr>) s1
      in out (EmitProgress i (tj_done (job s2 i)) (file_size (tj_info (job s2 i)))) s2)"

definition ibbResponseReceived :: "transfer_env \<Rightarrow> TransferIq \<Rightarrow> tmanager \<Rightarrow> tmanager" where
  "ibbResponseReceived env iq s =
     (case getJobByRequestId Outgoing (st_from iq) (st_id iq) s of
        None \<Rightarrow> s
      | Some i \<Rightarrow>
          (if tj_method (job s i) \<noteq> InBandMethod \<or> tj_state (job s i) = FinishedState then s
           else case tj_device (job s i) of
             None \<Rightarrow> s\<lparr>tm_crashed := True\<rparr>
           | Some d \<Rightarrow>
               (if \<not> dev_open d then s
                else if iq_type iq = IqResult then
                  (case dev_read (tj_blockSize (job s i)) d of (r, d') \<Rightarrow>
                     let bs = (case r of None \<Rightarrow> [] | Some b \<Rightarrow> b);
                         s1 = setState TransferringState i (change i (\<lambda>j. j\<lparr>tj_device := Some d'\<rparr>) s)
                     in if bs \<noteq> [] then send_block env bs i s1 else terminate NoTransferError i (send_close env i s1))
                else if iq_type iq = IqError then terminate TransferProtocolError i (send_close env i s)
                else s)))"

subsection \<open>Answers without a payload\<close>

fun iqReceived_loop :: "transfer_env \<Rightarrow> TransferIq \<Rightarrow> nat list \<Rightarrow> tmanager \<Rightarrow> tmanager" where
  "iqReceived_loop env iq [] s = s"
| "iqReceived_loop env iq (i # is) s =
     (let j = job s i in
      if tj_direction j = Outgoing \<and> host_jid (tj_socksProxy j) = st_from iq \<and> tj_requestId j = st_id iq then
        (if tj_socket j \<noteq> None then
           (if iq_type iq = IqResult then startSending i s
            else if iq_type iq = IqError then terminate TransferProtocolError i s else s)
         else if iq_type iq = IqError then socksServerSendOffer env i s else s)
      else if tj_jid j = st_from iq \<and> tj_requestId j = st_id iq then
        (if tj_direction j = Outgoing \<and> tj_method j = InBandMethod then ibbResponseReceived env iq s
         else if tj_direction j = Incoming \<and> tj_method j = SocksMethod then byteStreamResponseReceived iq s
         else if tj_direction j = Outgoing \<and> iq_type iq = IqError then terminate AbortError i s
         else iqReceived_loop env iq is s)
      else iqReceived_loop env iq is s)"

definition q_iqReceived :: "transfer_env \<Rightarrow> TransferIq \<Rightarrow> tmanager \<Rightarrow> tmanager" where
  "q_iqReceived env iq s = iqReceived_loop env iq (tm_jobs s) s"


subsection \<open>Offers\<close>

definition add_object :: "tjob \<Rightarrow> tmanager \<Rightarrow> nat \<times> tmanager" where
  "add_object j s = (length (tm_objects s), s\<lparr>tm_objects := tm_objects s @ [j]\<rparr>)"

definition offered_options :: "tmanager \<Rightarrow> (qstring \<times> qstring) list" where
  "offered_options s = (if tm_inband s then [([], ns_ibb)] else []) @ (if tm_socks s then [([], ns_bytestreams)] else [])"

definition sendFile :: "transfer_env \<Rightarrow> qstring \<Rightarrow> device option \<Rightarrow> FileInfo \<Rightarrow> qstring \<Rightarrow> tmanager \<Rightarrow> nat option \<times> tmanager" where
  "sendFile env jid d info sid s =
     (if jidToResource jid = [] then (None, s)
      else let (sid', s0) = (if sid = [] then (te_stanzaHash env (tm_nextId s), s\<lparr>tm_nextId := tm_nextId s + 1\<rparr>) else (sid, s));
               (i, s1) = add_object ((new_job jid Outgoing)\<lparr>tj_sid := sid', tj_info := info, tj_device := d\<rparr>) s0
           in (Some i,
               if d = None \<or> \<not> isReadable (the d) then terminate FileAccessError i s1
               else if \<not> tm_inband s \<and> \<not> tm_socks s then terminate TransferProtocolError i s1
               else out (EmitJobStarted i) (request env i ((new_TransferIq IqSet)\<lparr>st_to := jid, tq_payload := InitiationPayload
                 (new_StreamInitiation\<lparr>si_profile := FileTransfer, si_file := info, si_id := sid',
                   si_form := new_QXmppDataForm\<lparr>form_type := FormForm, form_fields := [stream_method_field\<lparr>field_options := offered_options s\<rparr>]\<rparr>\<rparr>)\<rparr>)
                 (s1\<lparr>tm_jobs := tm_jobs s1 @ [i]\<rparr>))))"

text \<open>A file that can be opened is hashed and rewound; the job closes it.\<close>

definition sendFile_path :: "transfer_env \<Rightarrow> qstring \<Rightarrow> device option \<Rightarrow> FileInfo \<Rightarrow> tmanager \<Rightarrow> nat option \<times> tmanager" where
  "sendFile_path env jid file info s =
     (case sendFile env jid file (case file of None \<Rightarrow> info | Some d \<Rightarrow> info\<lparr>file_hash := te_md5 env (dev_input d)\<rparr>) [] s of
        (None, s') \<Rightarrow> (None, s')
      | (Some i, s') \<Rightarrow> (Some i, change i (\<lambda>j. j\<lparr>tj_deviceIsOwn := True\<rparr>) s'))"

definition accepted_method :: "tmanager \<Rightarrow> DataFormField \<Rightarrow> Method \<Rightarrow> Method" where
  "accepted_method s f m =
     (if field_key f = ''stream-method''
      then (if variant_toString (field_value f) = ns_ibb \<and> tm_inband s then InBandMethod
            else if variant_toString (field_value f) = ns_bytestreams \<and> tm_socks s then SocksMethod else m)
      else m)"

definition streamInitiationResultReceived :: "transfer_env \<Rightarrow> TransferIq \<Rightarrow> StreamInitiation \<Rightarrow> tmanager \<Rightarrow> tmanager" where
  "streamInitiationResultReceived env iq p s =
     (case getJobByRequestId Outgoing (st_from iq) (st_id iq) s of
        None \<Rightarrow> s
      | Some i \<Rightarrow>
          (if tj_state (job s i) \<noteq> OfferState then s
           else let s1 = setState StartState i (change i (\<lambda>j. j\<lparr>tj_method := fold (accepted_method s) (form_fields (si_form p)) (tj_method j)\<rparr>) s)
             in case tj_method (job s1 i) of
                  InBandMethod \<Rightarrow>
                    (let s2 = change i (\<lambda>j. j\<lparr>tj_blockSize := tm_ibbBlockSize s1\<rparr>) s1; j = job s2 i
                     in request env i ((new_TransferIq IqSet)\<lparr>st_to := tj_jid j,
                          tq_payload := OpenPayload \<lparr>open_sid = tj_sid j, open_blockSize = tj_blockSize j\<rparr>\<rparr>) s2)
                | SocksMethod \<Rightarrow>
                    (if tm_proxy s1 \<noteq> [] then
                       (let s2 = change i (\<lambda>j. j\<lparr>tj_socksProxy := (tj_socksProxy j)\<lparr>host_jid := tm_proxy s1\<rparr>\<rparr>) s1
                        in request env i ((new_TransferIq IqGet)\<lparr>st_to := tm_proxy s1,
                             tq_payload := ByteStreamPayload (new_ByteStream\<lparr>bs_sid := tj_sid (job s2 i)\<rparr>)\<rparr>) s2)
                     else socksServerSendOffer env i s1)
                | NoMethod \<Rightarrow> terminate TransferProtocolError i s1))"

definition offered :: "qstring \<Rightarrow> QXmppDataForm \<Rightarrow> bool" where
  "offered ns form \<longleftrightarrow> list_ex (\<lambda>f. field_key f = ''stream-method'' \<and> list_ex (\<lambda>o'. snd o' = ns) (field_options f)) (form_fields form)"

definition streamInitiationSetReceived :: "TransferIq \<Rightarrow> StreamInitiation \<Rightarrow> tmanager \<Rightarrow> tmanager" where
  "streamInitiationSetReceived iq p s =
     (if si_profile p \<noteq> FileTransfer then out (answer_error (st_from iq) (st_id iq) (stanza_error Cancel BadRequest 400)) s
      else if \<not> tm_fileReceivedConnected s then out (answer_error (st_from iq) (st_id iq) (stanza_error Cancel Forbidden 403)) s
      else let m = (if tm_socks s \<and> offered ns_bytestreams (si_form p) then SocksMethod
                    else if tm_inband s \<and> offered ns_ibb (si_form p) then InBandMethod else NoMethod)
           in if m = NoMethod then out (answer_error (st_from iq) (st_id iq) (stanza_error Cancel BadRequest 400)) s
              else case add_object ((new_job (st_from iq) Incoming)\<lparr>tj_offerId := st_id iq, tj_sid := si_id p, tj_mimeType := si_mimeType p,
                       tj_info := si_file p, tj_method := m, tj_watched := True\<rparr>) s of
                     (i, s1) \<Rightarrow> out (EmitFileReceived i) (s1\<lparr>tm_jobs := tm_jobs s1 @ [i]\<rparr>))"

definition streamInitiationIqReceived :: "transfer_env \<Rightarrow> TransferIq \<Rightarrow> StreamInitiation \<Rightarrow> tmanager \<Rightarrow> tmanager" where
  "streamInitiationIqReceived env iq p s =
     (if iq_type iq = IqResult then streamInitiationResultReceived env iq p s
      else if iq_type iq = IqSet then streamInitiationSetReceived iq p s else s)"

text \<open>What the client does with an IQ: the payload tells the handler, an IQ without such a payload ends up in the signal for answers.\<close>

definition handleIq_transfer :: "transfer_env \<Rightarrow> TransferIq \<Rightarrow> tmanager \<Rightarrow> tmanager" where
  "handleIq_transfer env iq s =
     (case tq_payload iq of
        ClosePayload sid \<Rightarrow> ibbCloseIqReceived env iq sid s
      | DataPayload p \<Rightarrow> ibbDataIqReceived iq p s
      | OpenPayload p \<Rightarrow> ibbOpenIqReceived iq p s
      | ByteStreamPayload b \<Rightarrow> byteStreamIqReceived env iq b s
      | InitiationPayload p \<Rightarrow> streamInitiationIqReceived env iq p s
      | NoPayload \<Rightarrow> q_iqReceived env iq s)"

definition handleStanza_transfer :: "transfer_codec \<Rightarrow> transfer_env \<Rightarrow> dom \<Rightarrow> tmanager \<Rightarrow> bool \<times> tmanager" where
  "handleStanza_transfer c env element s =
     (case payload_parse c element of
        NoPayload \<Rightarrow> (False, s)
      | _ \<Rightarrow> (True, handleIq_transfer env (TransferIq_parse c element) s))"

definition jobDestroyed :: "nat \<Rightarrow> tmanager \<Rightarrow> tmanager" where
  "jobDestroyed i s = s\<lparr>tm_jobs := removeAll i (tm_jobs s), tm_queue := removeAll i (tm_queue s)\<rparr>"

section \<open>Everything that can happen\<close>

datatype transfer_event = IqArrives TransferIq | UserAborts nat | UserAcceptsDevice nat "device option" | UserAcceptsFile nat "device option"
  | UserSends qstring "device option" FileInfo qstring | UserSendsFile qstring "device option" FileInfo | UserDestroys nat
  | QueuedCall | CandidateReady nat | CandidateLost nat | ProxyReady nat | SocketData nat bytes | SocketSent nat int | SocketLost nat
  | ServerConnection qstring nat | DeviceReadable nat

definition transfer_step :: "transfer_env \<Rightarrow> transfer_event \<Rightarrow> tmanager \<Rightarrow> tmanager" where
  "transfer_step env ev s =
     (case ev of
        IqArrives iq \<Rightarrow> handleIq_transfer env iq s
      | UserAborts i \<Rightarrow> abort i s
      | UserAcceptsDevice i d \<Rightarrow> accept_device d i s
      | UserAcceptsFile i d \<Rightarrow> accept_file d i s
      | UserSends jid d info sid \<Rightarrow> snd (sendFile env jid d info sid s)
      | UserSendsFile jid d info \<Rightarrow> snd (sendFile_path env jid d info s)
      | UserDestroys i \<Rightarrow> jobDestroyed i s
      | QueuedCall \<Rightarrow> (case tm_queue s of [] \<Rightarrow> s | i # is \<Rightarrow> q_terminated env i (s\<lparr>tm_queue := is\<rparr>))
      | CandidateReady i \<Rightarrow> candidateReady i s
      | CandidateLost i \<Rightarrow> candidateDisconnected env i s
      | ProxyReady i \<Rightarrow> proxyReady env i s
      | SocketData i bs \<Rightarrow> receiveData env bs i s
      | SocketSent i n \<Rightarrow> socket_sent n i s
      | SocketLost i \<Rightarrow> socket_disconnected env i s
      | ServerConnection name port \<Rightarrow> socksServerConnected env name port s
      | DeviceReadable i \<Rightarrow> ((sendData_job i) ^^ tj_sendSlots (job s i)) s)"

text \<open>An event is about objects that exist, and a file is received into an empty device that takes what it is given.\<close>

definition empty_device :: "device option \<Rightarrow> bool" where
  "empty_device d \<longleftrightarrow> (case d of None \<Rightarrow> True | Some x \<Rightarrow> dev_output x = [] \<and> dev_writes x = [])"

fun event_ok :: "tmanager \<Rightarrow> transfer_event \<Rightarrow> bool" where
  "event_ok s (UserAborts i) \<longleftrightarrow> i < length (tm_objects s)"
| "event_ok s (UserAcceptsDevice i d) \<longleftrightarrow> i < length (tm_objects s) \<and> empty_device d"
| "event_ok s (UserAcceptsFile i d) \<longleftrightarrow> i < length (tm_objects s) \<and> empty_device d"
| "event_ok s (CandidateReady i) \<longleftrightarrow> i < length (tm_objects s)"
| "event_ok s (CandidateLost i) \<longleftrightarrow> i < length (tm_objects s)"
| "event_ok s (ProxyReady i) \<longleftrightarrow> i < length (tm_objects s)"
| "event_ok s (SocketData i bs) \<longleftrightarrow> i < length (tm_objects s)"
| "event_ok s (SocketSent i n) \<longleftrightarrow> i < length (tm_objects s)"
| "event_ok s (SocketLost i) \<longleftrightarrow> i < length (tm_objects s)"
| "event_ok s (DeviceReadable i) \<longleftrightarrow> i < length (tm_objects s)"
| "event_ok s _ \<longleftrightarrow> True"

inductive transfer_reach :: "transfer_env \<Rightarrow> tmanager \<Rightarrow> bool" for env where
  transfer_start: "tm_objects s = [] \<Longrightarrow> tm_jobs s = [] \<Longrightarrow> tm_queue s = [] \<Longrightarrow> tm_out s = [] \<Longrightarrow> transfer_reach env s"
| transfer_more: "transfer_reach env s \<Longrightarrow> event_ok s ev \<Longrightarrow> transfer_reach env (transfer_step env ev s)"


section \<open>A file that arrives without an error is the one announced\<close>

definition received :: "tjob \<Rightarrow> bytes" where
  "received j = (case tj_device j of None \<Rightarrow> [] | Some d \<Rightarrow> dev_output d)"

definition as_announced :: "transfer_env \<Rightarrow> tjob \<Rightarrow> bool" where
  "as_announced env j \<longleftrightarrow> (file_size (tj_info j) \<noteq> 0 \<longrightarrow> int (length (received j)) = file_size (tj_info j)) \<and>
     (file_hash (tj_info j) \<noteq> [] \<longrightarrow> te_md5 env (received j) = file_hash (tj_info j))"

definition job_ok :: "transfer_env \<Rightarrow> tjob \<Rightarrow> bool" where
  "job_ok env j \<longleftrightarrow> tj_direction j = Incoming \<longrightarrow>
     tj_sendSlots j = 0 \<and> tj_done j = int (length (received j)) \<and> (\<forall>d. tj_device j = Some d \<longrightarrow> dev_writes d = []) \<and>
     (file_hash (tj_info j) \<noteq> [] \<longrightarrow> tj_hashed j = received j) \<and>
     (tj_state j = FinishedState \<longrightarrow> tj_error j = NoTransferError \<longrightarrow> as_announced env j)"

definition jobs_ok :: "transfer_env \<Rightarrow> tmanager \<Rightarrow> bool" where
  "jobs_ok env s \<longleftrightarrow> list_all (job_ok env) (tm_objects s)"

lemma jobs_ok_change:
  assumes "jobs_ok env s" "i < length (tm_objects s) \<Longrightarrow> job_ok env (job s i) \<Longrightarrow> job_ok env (f (job s i))"
  shows "jobs_ok env (change i f s)"
  using assms by (cases "i < length (tm_objects s)") (auto simp: jobs_ok_def change_def job_def list_all_length nth_list_update)

lemma jobs_ok_frame [simp]:
  "jobs_ok env (out x s) = jobs_ok env s" "jobs_ok env (s\<lparr>tm_queue := q\<rparr>) = jobs_ok env s" "jobs_ok env (s\<lparr>tm_nextId := n\<rparr>) = jobs_ok env s"
  "jobs_ok env (s\<lparr>tm_jobs := js\<rparr>) = jobs_ok env s" "jobs_ok env (s\<lparr>tm_crashed := b\<rparr>) = jobs_ok env s"
  "jobs_ok env (s\<lparr>tm_jobs := js, tm_queue := q\<rparr>) = jobs_ok env s"
  by (simp_all add: jobs_ok_def out_def)

lemma job_frame [simp]:
  "job (out x s) = job s" "job (s\<lparr>tm_queue := q\<rparr>) = job s" "job (s\<lparr>tm_nextId := n\<rparr>) = job s" "job (s\<lparr>tm_jobs := js\<rparr>) = job s"
  "job (s\<lparr>tm_crashed := b\<rparr>) = job s"
  by (simp_all add: job_def out_def fun_eq_iff)

lemma job_change: "i < length (tm_objects s) \<Longrightarrow> job (change i f s) k = (if k = i then f (job s i) else job s k)"
  by (simp add: job_def change_def)

lemma objects_frame [simp]:
  "length (tm_objects (change i f s)) = length (tm_objects s)" "tm_objects (out x s) = tm_objects s" "tm_jobs (change i f s) = tm_jobs s"
  "tm_jobs (out x s) = tm_jobs s"
  by (simp_all add: change_def out_def)

text \<open>Changes of what the contract does not look at.\<close>

lemma job_ok_simps [simp]:
  "job_ok env (j\<lparr>tj_requestId := r\<rparr>) = job_ok env j" "job_ok env (j\<lparr>tj_watched := w\<rparr>) = job_ok env j"
  "job_ok env (j\<lparr>tj_candidate := c\<rparr>) = job_ok env j" "job_ok env (j\<lparr>tj_candidates := cs\<rparr>) = job_ok env j"
  "job_ok env (j\<lparr>tj_streamOfferId := a\<rparr>) = job_ok env j" "job_ok env (j\<lparr>tj_streamOfferFrom := b\<rparr>) = job_ok env j"
  "job_ok env (j\<lparr>tj_socket := k\<rparr>) = job_ok env j"
  "job_ok env (j\<lparr>tj_socketWatched := w\<rparr>) = job_ok env j" "job_ok env (j\<lparr>tj_ibbSequence := n\<rparr>) = job_ok env j"
  "job_ok env (j\<lparr>tj_blockSize := n\<rparr>) = job_ok env j" "job_ok env (j\<lparr>tj_socksProxy := p\<rparr>) = job_ok env j"
  "job_ok env (j\<lparr>tj_method := m\<rparr>) = job_ok env j" "job_ok env (j\<lparr>tj_deviceIsOwn := w\<rparr>) = job_ok env j"
  by (simp_all add: job_ok_def as_announced_def received_def)

lemma ok_terminate:
  assumes "jobs_ok env s" "i < length (tm_objects s) \<Longrightarrow> cause = NoTransferError \<Longrightarrow> tj_direction (job s i) = Incoming \<Longrightarrow> as_announced env (job s i)"
  shows "jobs_ok env (terminate cause i s)"
proof -
  let ?f = "\<lambda>j. j\<lparr>tj_error := cause, tj_state := FinishedState,
     tj_device := (if tj_deviceIsOwn j then map_option (\<lambda>d. d\<lparr>dev_open := False\<rparr>) (tj_device j) else tj_device j)\<rparr>"
  have same: "received (?f j) = received j" for j by (simp add: received_def split: option.splits)
  have "jobs_ok env (change i ?f s)"
    using assms(1)
  proof (rule jobs_ok_change)
    assume "i < length (tm_objects s)" "job_ok env (job s i)"
    then show "job_ok env (?f (job s i))"
      using assms(2) same [of "job s i"] by (auto simp: job_ok_def as_announced_def split: if_splits)
  qed
  then show ?thesis by (simp add: terminate_def Let_def assms(1))
qed


lemma ok_terminate_error [simp]: "jobs_ok env s \<Longrightarrow> cause \<noteq> NoTransferError \<Longrightarrow> jobs_ok env (terminate cause i s)"
  by (rule ok_terminate) simp_all

lemma ok_request [simp]: "jobs_ok env s \<Longrightarrow> jobs_ok env (request env' i iq s)"
  unfolding request_def Let_def by (simp, rule jobs_ok_change, simp_all)

lemma ok_jobStateChanged: "jobs_ok env s \<Longrightarrow> jobs_ok env (jobStateChanged i state s)"
  unfolding jobStateChanged_def Let_def by (simp add: jobs_ok_change)

lemma ok_emit_stateChanged: "jobs_ok env s \<Longrightarrow> jobs_ok env (emit_stateChanged i state s)"
  unfolding emit_stateChanged_def by (simp add: ok_jobStateChanged)

lemma ok_setState [simp]: "jobs_ok env s \<Longrightarrow> state \<noteq> FinishedState \<Longrightarrow> jobs_ok env (setState state i s)"
  unfolding setState_def
  by (auto intro!: ok_emit_stateChanged jobs_ok_change) (simp add: job_ok_def received_def)

lemma ok_q_terminated: "jobs_ok env s \<Longrightarrow> jobs_ok env (q_terminated env' i s)"
  unfolding q_terminated_def jobError_def Let_def by (simp add: ok_emit_stateChanged)

lemma ok_accept:
  assumes "jobs_ok env s" "empty_device d" "tj_device (job s i) = None"
  shows "jobs_ok env (setState StartState i (change i (\<lambda>j. j\<lparr>tj_device := d\<rparr>) s))"
proof -
  have "jobs_ok env (change i (\<lambda>j. j\<lparr>tj_device := d\<rparr>) s)"
    using assms(1)
  proof (rule jobs_ok_change)
    assume "job_ok env (job s i)"
    then show "job_ok env (job s i\<lparr>tj_device := d\<rparr>)"
      using assms(2,3) by (auto simp: job_ok_def as_announced_def received_def empty_device_def split: option.splits)
  qed
  then show ?thesis by simp
qed

lemma ok_checkData [simp]:
  assumes "jobs_ok env s" shows "jobs_ok env (checkData env i s)"
proof -
  have "i < length (tm_objects s) \<Longrightarrow> job_ok env (job s i)" using assms by (simp add: jobs_ok_def job_def list_all_length)
  then show ?thesis using assms
    by (auto simp: checkData_def Let_def job_ok_def as_announced_def intro!: ok_terminate)
qed

lemma job_ok_write:
  assumes "job_ok env j" "tj_device j = Some d" "tj_state j = TransferringState" "dev_write bs d = (n, d')"
  shows "n < 0 \<Longrightarrow> job_ok env (j\<lparr>tj_device := Some d'\<rparr>)"
    and "\<not> n < 0 \<Longrightarrow> job_ok env (j\<lparr>tj_device := Some d', tj_done := tj_done j + n,
      tj_hashed := (if file_hash (tj_info j) \<noteq> [] then tj_hashed j @ bs else tj_hashed j)\<rparr>)"
  using assms by (auto simp: job_ok_def received_def dev_write_def Let_def split: if_splits)

lemma change_change: "change i g (change i f s) = change i (\<lambda>j. g (f j)) s"
  by (cases "i < length (tm_objects s)") (simp_all add: change_def job_def list_update_beyond)

lemma ok_writeData:
  assumes "jobs_ok env s" "tj_state (job s i) = TransferringState" shows "jobs_ok env (writeData bs i s)"
proof (cases "tj_device (job s i)")
  case None
  then show ?thesis using assms(1) by (simp add: writeData_def)
next
  case (Some d)
  obtain n d' where w: "dev_write bs d = (n, d')" by fastforce
  show ?thesis
  proof (cases "n < 0")
    case True
    then show ?thesis using Some w assms job_ok_write(1) [OF _ Some assms(2) w True]
      by (simp add: writeData_def Let_def jobs_ok_change)
  next
    case False
    then show ?thesis using Some w assms job_ok_write(2) [OF _ Some assms(2) w]
      by (simp add: writeData_def Let_def change_change) (rule jobs_ok_change, simp_all split del: if_split cong: if_cong)
  qed
qed

lemma ok_connectToNextHost [simp]: "jobs_ok env s \<Longrightarrow> jobs_ok env (connectToNextHost env' i s)"
  unfolding connectToNextHost_def Let_def by (auto intro!: jobs_ok_change split: list.split)

lemma ok_candidate: "jobs_ok env s \<Longrightarrow> jobs_ok env (candidateReady i s)" "jobs_ok env s \<Longrightarrow> jobs_ok env (candidateDisconnected env' i s)"
  unfolding candidateReady_def candidateDisconnected_def Let_def by (simp_all add: jobs_ok_change split: option.split)

lemma writeData_objects [simp]: "length (tm_objects (writeData bs i s)) = length (tm_objects s)"
  by (simp add: writeData_def Let_def split: option.split prod.split)

lemma ok_receiveData: "jobs_ok env s \<Longrightarrow> jobs_ok env (receiveData env bs i s)"
  by (simp add: receiveData_def Let_def ok_writeData)


definition outgoing :: "nat \<Rightarrow> tmanager \<Rightarrow> bool" where
  "outgoing i s \<longleftrightarrow> (i < length (tm_objects s) \<longrightarrow> tj_direction (job s i) = Outgoing)"

definition sending :: "transfer_env \<Rightarrow> nat \<Rightarrow> tmanager \<Rightarrow> bool" where
  "sending env i s \<longleftrightarrow> jobs_ok env s \<and> outgoing i s"

lemma sending_frame [simp]: "sending env i (out x s) = sending env i s" "sending env i (s\<lparr>tm_crashed := b\<rparr>) = sending env i s"
  "sending env i (s\<lparr>tm_queue := q\<rparr>) = sending env i s" "sending env i (s\<lparr>tm_nextId := n\<rparr>) = sending env i s"
  by (simp_all add: sending_def outgoing_def)

lemma sending_change: "sending env i s \<Longrightarrow> (\<And>j. tj_direction (f j) = tj_direction j) \<Longrightarrow> sending env i (change i f s)"
  by (auto simp: sending_def outgoing_def job_change job_ok_def intro!: jobs_ok_change)

lemma sending_terminate: "sending env i s \<Longrightarrow> sending env i (terminate cause i s)"
  unfolding terminate_def Let_def by (auto intro!: sending_change)

lemma sending_sendData_job: "sending env i s \<Longrightarrow> sending env i (sendData_job i s)"
  unfolding sendData_job_def Let_def
  by (auto intro!: sending_change sending_terminate split: option.split prod.split)

lemma sending_sendData_jobs: "sending env i s \<Longrightarrow> sending env i ((sendData_job i ^^ n) s)"
  by (induction n) (simp_all add: sending_sendData_job)

lemma sending_request: "sending env i s \<Longrightarrow> sending env i (request env' i iq s)"
  unfolding request_def Let_def by (auto intro!: sending_change)

lemma sending_setState: "sending env i s \<Longrightarrow> sending env i (setState state i s)"
  unfolding setState_def emit_stateChanged_def jobStateChanged_def Let_def
  by (auto intro!: sending_change sending_terminate)

lemma sending_startSending: "sending env i s \<Longrightarrow> sending env i (startSending i s)"
  unfolding startSending_def by (intro sending_sendData_job sending_change sending_setState) simp_all

lemma sendingI: "jobs_ok env s \<Longrightarrow> tj_direction (job s i) = Outgoing \<Longrightarrow> sending env i s"
  by (simp add: sending_def outgoing_def)

lemma sendingD: "sending env i s \<Longrightarrow> jobs_ok env s"
  by (simp add: sending_def)

lemma ok_sendData_jobs:
  assumes "jobs_ok env s" shows "jobs_ok env ((sendData_job i ^^ tj_sendSlots (job s i)) s)"
proof (cases "outgoing i s")
  case True
  then have "sending env i s" using assms by (simp add: sending_def)
  then show ?thesis using sending_sendData_jobs sendingD by blast
next
  case False
  then have "i < length (tm_objects s)" "tj_direction (job s i) = Incoming" by (auto simp: outgoing_def intro: Direction.exhaust)
  then have "tj_sendSlots (job s i) = 0" using assms by (auto simp: jobs_ok_def job_def list_all_length job_ok_def)
  then show ?thesis using assms by simp
qed

lemma ok_socket:
  assumes "jobs_ok env s"
  shows "jobs_ok env (socket_sent n i s)" and "jobs_ok env (socket_disconnected env i s)"
proof -
  let ?s = "change i (\<lambda>j. j\<lparr>tj_socket := map_option (\<lambda>w. max 0 (w - n)) (tj_socket j)\<rparr>) s"
  have "jobs_ok env ?s" using assms by (rule jobs_ok_change) simp
  then show "jobs_ok env (socket_sent n i s)" unfolding socket_sent_def Let_def by (rule ok_sendData_jobs)
  have "jobs_ok env (outgoing_disconnected i s)" if "tj_direction (job s i) = Outgoing"
    using assms sendingD [OF sending_terminate [OF sendingI [OF assms that]]] by (simp add: outgoing_disconnected_def Let_def)
  then show "jobs_ok env (socket_disconnected env i s)" using assms by (simp add: socket_disconnected_def Let_def)
qed

subsection \<open>The handlers\<close>

lemma ok_offer [simp]: "jobs_ok env s \<Longrightarrow> jobs_ok env (socksServerSendOffer env' i s)"
  unfolding socksServerSendOffer_def Let_def by simp

lemma found_job: "List.find P js = Some i \<Longrightarrow> P i"
  by (auto simp: find_Some_iff)

lemma found_outgoing: "getJobByRequestId Outgoing jid rid s = Some i \<Longrightarrow> tj_direction (job s i) = Outgoing"
  unfolding getJobByRequestId_def by (drule found_job) simp

lemma ok_byteStream:
  assumes "jobs_ok env s"
  shows "jobs_ok env (byteStreamResponseReceived iq s)" and "jobs_ok env (byteStreamResultReceived env' iq b s)"
    and "jobs_ok env (byteStreamSetReceived env' iq b s)"
proof -
  show "jobs_ok env (byteStreamResponseReceived iq s)" using assms
    by (simp add: byteStreamResponseReceived_def split: option.split)
  have watch: "jobs_ok env (change i (\<lambda>j. j\<lparr>tj_socketWatched := True\<rparr>) s)" for i using assms by (rule jobs_ok_change) simp
  have "sending env i (change i (\<lambda>j. j\<lparr>tj_socketWatched := True\<rparr>) s)" if "tj_direction (job s i) = Outgoing" for i
    using sendingI [OF assms that] by (rule sending_change) simp
  then show "jobs_ok env (byteStreamResultReceived env' iq b s)" using assms
    by (auto simp: byteStreamResultReceived_def connectToProxy_def Let_def
        intro!: jobs_ok_change sendingD [OF sending_startSending] dest!: found_outgoing split: option.split)
  show "jobs_ok env (byteStreamSetReceived env' iq b s)" using assms
    by (auto simp: byteStreamSetReceived_def connectToHosts_def intro!: ok_connectToNextHost jobs_ok_change split: option.split)
qed

lemma ok_byteStreamIq: "jobs_ok env s \<Longrightarrow> jobs_ok env (byteStreamIqReceived env' iq b s)"
  unfolding byteStreamIqReceived_def by (auto simp: ok_byteStream intro!: ok_offer jobs_ok_change split: option.split)

lemma ok_ibb:
  assumes "jobs_ok env s"
  shows "jobs_ok env (ibbCloseIqReceived env iq sid s)" and "jobs_ok env (ibbDataIqReceived iq p s)" and "jobs_ok env (ibbOpenIqReceived iq q s)"
  using assms
  by (auto simp: ibbCloseIqReceived_def ibbDataIqReceived_def ibbOpenIqReceived_def ok_writeData intro!: jobs_ok_change ok_setState ok_checkData
      split: option.split)


lemma sending_block: "sending env i s \<Longrightarrow> sending env i (send_block env' bs i s)" "sending env i s \<Longrightarrow> sending env i (send_close env' i s)"
  unfolding send_block_def send_close_def Let_def by (auto intro!: sending_change sending_request)

lemma ok_ibbResponse: "jobs_ok env s \<Longrightarrow> jobs_ok env (ibbResponseReceived env' iq s)"
proof -
  assume s: "jobs_ok env s"
  have out: "sending env i s" if "getJobByRequestId Outgoing (st_from iq) (st_id iq) s = Some i" for i
    using sendingI [OF s found_outgoing [OF that]] .
  have dev: "sending env i (setState TransferringState i (change i (\<lambda>j. j\<lparr>tj_device := d\<rparr>) s))"
    if "getJobByRequestId Outgoing (st_from iq) (st_id iq) s = Some i" for i d
    using out [OF that] by (intro sending_setState sending_change) simp_all
  show ?thesis using s
    by (auto simp: ibbResponseReceived_def Let_def intro!: sendingD [OF sending_block(1) [OF dev]]
        sendingD [OF sending_terminate [OF sending_block(2) [OF dev]]] sendingD [OF sending_terminate [OF sending_block(2) [OF out]]]
        split: option.split prod.split)
qed

lemma ok_iqReceived_loop: "jobs_ok env s \<Longrightarrow> jobs_ok env (iqReceived_loop env' iq is s)"
proof (induction "is")
  case (Cons i "is")
  have "jobs_ok env (startSending i s)" if "tj_direction (job s i) = Outgoing"
    by (rule sendingD [OF sending_startSending [OF sendingI [OF Cons.prems that]]])
  then show ?case using Cons by (simp add: Let_def ok_ibbResponse ok_byteStream)
qed simp

lemma ok_sendFile:
  assumes "jobs_ok env s" shows "jobs_ok env (snd (sendFile env' jid d info sid s))"
proof -
  have "jobs_ok env (s\<lparr>tm_nextId := n, tm_objects := tm_objects s @ [j]\<rparr>)" "jobs_ok env (s\<lparr>tm_objects := tm_objects s @ [j]\<rparr>)"
    "jobs_ok env (s\<lparr>tm_objects := tm_objects s @ [j], tm_jobs := js\<rparr>)" "jobs_ok env (s\<lparr>tm_nextId := n, tm_objects := tm_objects s @ [j], tm_jobs := js\<rparr>)"
    if "tj_direction j = Outgoing" for j n js
    using assms that by (simp_all add: jobs_ok_def job_ok_def)
  then show ?thesis using assms
    by (auto simp: sendFile_def add_object_def Let_def new_job_def split: prod.split if_splits)
qed

lemma ok_sendFile_path: assumes "jobs_ok env s" shows "jobs_ok env (snd (sendFile_path env' jid d info s))"
proof -
  have "jobs_ok env s'" if "sendFile env' jid d info' [] s = (r, s')" for info' r s'
    using ok_sendFile [OF assms, of env' jid d info' "[]"] that by simp
  then show ?thesis by (auto simp: sendFile_path_def intro!: jobs_ok_change split: prod.split option.split)
qed

lemma ok_initiation:
  assumes "jobs_ok env s" shows "jobs_ok env (streamInitiationIqReceived env' iq p s)"
proof -
  have m: "jobs_ok env (setState StartState i (change i (\<lambda>j. j\<lparr>tj_method := fold (accepted_method s) fs (tj_method j)\<rparr>) s))" for i fs
    using assms by (intro ok_setState jobs_ok_change) simp_all
  have "jobs_ok env (streamInitiationResultReceived env' iq p s)" using assms
    by (auto simp: streamInitiationResultReceived_def Let_def intro!: m ok_request ok_offer jobs_ok_change ok_terminate_error split: option.split Method.split)
  moreover have "jobs_ok env (streamInitiationSetReceived iq p s)" using assms
    by (auto simp: streamInitiationSetReceived_def add_object_def Let_def jobs_ok_def job_ok_def new_job_def received_def out_def)
  ultimately show ?thesis using assms by (simp add: streamInitiationIqReceived_def)
qed

lemma ok_step: "jobs_ok env s \<Longrightarrow> event_ok s ev \<Longrightarrow> jobs_ok env (transfer_step env ev s)"
  by (cases ev)
    (auto simp: transfer_step_def handleIq_transfer_def abort_def accept_device_def accept_file_def jobDestroyed_def proxyReady_def
      socksServerConnected_def q_iqReceived_def ok_ibb ok_byteStreamIq ok_initiation ok_iqReceived_loop ok_accept ok_sendFile ok_sendFile_path
      ok_q_terminated ok_candidate ok_receiveData ok_socket ok_sendData_jobs Let_def intro!: jobs_ok_change
      split: transfer_payload.split option.split list.split)

lemma transfer_jobs_ok: "transfer_reach env s \<Longrightarrow> jobs_ok env s"
  by (induction rule: transfer_reach.induct) (simp_all add: jobs_ok_def ok_step [unfolded jobs_ok_def])

end
