(* ===== verification/TransferSession.thy ===== *)
theory TransferSession
  imports TransferManager
begin

text \<open>
  In-band transfers between two managers that exchange their packets as XML: every file of up to 65536 blocks arrives.
\<close>

section \<open>Two clients\<close>

text \<open>Packets travel as XML, from a client whose address the server puts in.\<close>

definition packets :: "tout list \<Rightarrow> TransferIq list" where
  "packets xs = List.map_filter (\<lambda>x. case x of SentIq iq \<Rightarrow> Some iq | _ \<Rightarrow> None) xs"

definition arrive :: "transfer_codec \<Rightarrow> transfer_env \<Rightarrow> qstring \<Rightarrow> TransferIq \<Rightarrow> tmanager \<Rightarrow> tmanager" where
  "arrive c env sender iq s = handleIq_transfer env (TransferIq_parse c (written (TransferIq_toXml c (iq\<lparr>st_from := sender\<rparr>)))) s"

definition deliver :: "transfer_codec \<Rightarrow> transfer_env \<Rightarrow> qstring \<Rightarrow> tout list \<Rightarrow> tmanager \<Rightarrow> tmanager" where
  "deliver c env sender xs s = fold (arrive c env sender) (packets xs) s"

record two_clients =
  sender :: tmanager
  receiver :: tmanager

text \<open>A round takes what the sender has written since the last one to the receiver, and the answers back.\<close>

definition transfer_round :: "transfer_codec \<Rightarrow> transfer_env \<Rightarrow> transfer_env \<Rightarrow> two_clients \<Rightarrow> two_clients" where
  "transfer_round c ea eb w =
     (let b = deliver c eb (te_jid ea) (tm_out (sender w)) (receiver w);
          a = deliver c ea (te_jid eb) (tm_out b) ((sender w)\<lparr>tm_out := []\<rparr>)
      in \<lparr>sender = a, receiver = b\<lparr>tm_out := []\<rparr>\<rparr>)"

text \<open>The sender offers a file, the receiver accepts it.\<close>

definition transfer_begin :: "transfer_codec \<Rightarrow> transfer_env \<Rightarrow> transfer_env \<Rightarrow> device \<Rightarrow> FileInfo \<Rightarrow> qstring \<Rightarrow> device \<Rightarrow> two_clients" where
  "transfer_begin c ea eb file info sid target =
     (let a = snd (sendFile ea (te_jid eb) (Some file) info sid (new_manager\<lparr>tm_socks := False\<rparr>));
          b = accept_device (Some target) 0 (deliver c eb (te_jid ea) (tm_out a) new_manager)
      in \<lparr>sender = deliver c ea (te_jid eb) (tm_out b) (a\<lparr>tm_out := []\<rparr>), receiver = b\<lparr>tm_out := []\<rparr>\<rparr>)"

lemma packets_simps [simp]:
  "packets [] = []" "packets (SentIq iq # xs) = iq # packets xs" "packets (EmitState i st # xs) = packets xs" "packets (EmitError i e # xs) = packets xs"
  "packets (EmitFinished i # xs) = packets xs" "packets (EmitProgress i m n # xs) = packets xs" "packets (EmitJobStarted i # xs) = packets xs"
  "packets (EmitJobFinished i # xs) = packets xs" "packets (SocketClose i # xs) = packets xs" "packets (EmitFileReceived i # xs) = packets xs" "packets (xs @ ys) = packets xs @ packets ys"
  by (simp_all add: packets_def List.map_filter_simps) (induction xs; simp add: List.map_filter_simps split: option.split)

lemma arrive_back:
  assumes "codec_laws c" "payload_ok c (tq_payload iq)" "st_error iq = None" "st_extensions iq = []" "st_addresses iq = []" "st_lang iq = []"
  shows "arrive c env who iq s = handleIq_transfer env (iq\<lparr>st_from := who\<rparr>) s"
  using transfer_iq_back [of c "iq\<lparr>st_from := who\<rparr>"] assms by (simp add: arrive_def)

definition one :: "tmanager \<Rightarrow> tjob \<Rightarrow> bool" where
  "one s j \<longleftrightarrow> tm_objects s = [j] \<and> tm_jobs s = [0]"

lemma one_simps [simp]:
  "one s j \<Longrightarrow> job s 0 = j" "one s j \<Longrightarrow> one (change 0 f s) k \<longleftrightarrow> k = f j" "one s j \<Longrightarrow> tm_jobs s = [0]" "one (out x s) j = one s j"
  "one (s\<lparr>tm_queue := q\<rparr>) j = one s j" "one (s\<lparr>tm_nextId := n\<rparr>) j = one s j" "one (s\<lparr>tm_out := xs\<rparr>) j = one s j"
  "one s j \<Longrightarrow> job (change 0 f s) 0 = f j"
  by (auto simp: one_def job_def change_def out_def)

lemma out_simps [simp]: "tm_out (out x s) = tm_out s @ [x]" "tm_out (change i f s) = tm_out s"
  "tm_nextId (change i f s) = tm_nextId s" "tm_ibbBlockSize (change i f s) = tm_ibbBlockSize s"
  "tm_ibbBlockSize (out x s) = tm_ibbBlockSize s"
  by (simp_all add: out_def change_def)

text \<open>The receiver of a block in sequence.\<close>

lemma block_received:
  assumes b: "one b j" "tj_direction j = Incoming" "tj_method j = InBandMethod" "tj_state j = TransferringState" "tj_device j = Some d"
    "isWritable d" "dev_writes d = []"
    and iq: "st_from iq = tj_jid j" "data_sid p = tj_sid j" "int (data_seq p) = tj_ibbSequence j"
  shows "\<exists>m n. one (ibbDataIqReceived iq p b) (j\<lparr>tj_device := Some (d\<lparr>dev_output := dev_output d @ data_payload p\<rparr>),
      tj_done := tj_done j + int (length (data_payload p)),
      tj_hashed := (if file_hash (tj_info j) \<noteq> [] then tj_hashed j @ data_payload p else tj_hashed j), tj_ibbSequence := tj_ibbSequence j + 1\<rparr>) \<and>
    tm_out (ibbDataIqReceived iq p b) = tm_out b @ [EmitProgress 0 m n, answer_result (st_from iq) (st_id iq)]"
proof -
  have w: "dev_write (data_payload p) d = (int (length (data_payload p)), d\<lparr>dev_output := dev_output d @ data_payload p\<rparr>)"
    using b(6,7) by (simp add: dev_write_def)
  have "getIncomingJobBySid (tj_jid j) (tj_sid j) b = Some 0" using b by (simp add: getIncomingJobBySid_def)
  then show ?thesis using b iq w
    by (auto simp: ibbDataIqReceived_def writeData_def Let_def one_def change_def job_def out_def)
qed

definition data_iq :: "tjob \<Rightarrow> qstring \<Rightarrow> bytes \<Rightarrow> TransferIq" where
  "data_iq j r bs = (new_TransferIq IqSet)\<lparr>st_to := tj_jid j, st_id := r,
     tq_payload := DataPayload \<lparr>data_sid = tj_sid j, data_seq = nat (tj_ibbSequence j mod 2 ^ 16), data_payload = bs\<rparr>\<rparr>"

definition close_iq :: "tjob \<Rightarrow> qstring \<Rightarrow> TransferIq" where
  "close_iq j r = (new_TransferIq IqSet)\<lparr>st_to := tj_jid j, st_id := r, tq_payload := ClosePayload (tj_sid j)\<rparr>"

text \<open>The sender of a stream that waits for an answer, with what it has left to read.\<close>

definition sends :: "tjob \<Rightarrow> device \<Rightarrow> bool" where
  "sends j d \<longleftrightarrow> tj_direction j = Outgoing \<and> tj_method j = InBandMethod \<and> tj_state j \<noteq> FinishedState \<and> \<not> tj_watched j \<and>
     tj_device j = Some d \<and> isReadable d \<and> dev_reads d = [] \<and> tj_blockSize j = 4096 \<and> tj_jid j \<noteq> [] \<and> host_jid (tj_socksProxy j) = []"

lemma sendsD:
  assumes "sends j d"
  shows "tj_direction j = Outgoing" "tj_method j = InBandMethod" "tj_state j \<noteq> FinishedState" "\<not> tj_watched j" "tj_device j = Some d"
    "tj_blockSize j = 4096" "dev_open d" "dev_read 4096 d = (Some (take 4096 (dev_input d)), d\<lparr>dev_input := drop 4096 (dev_input d)\<rparr>)"
  using assms by (simp_all add: sends_def isReadable_def dev_read_def)

lemma answer_found:
  assumes "one a j" "sends j d" "st_from iq = tj_jid j" "st_id iq = tj_requestId j"
  shows "q_iqReceived env iq a = ibbResponseReceived env iq a" and "getJobByRequestId Outgoing (st_from iq) (st_id iq) a = Some 0"
proof -
  have "tj_jid j \<noteq> []" "host_jid (tj_socksProxy j) = []" using assms(2) by (simp_all add: sends_def)
  then show "q_iqReceived env iq a = ibbResponseReceived env iq a"
    using assms sendsD [OF assms(2)] by (cases "tj_jid j") (simp_all add: q_iqReceived_def Let_def)
  show "getJobByRequestId Outgoing (st_from iq) (st_id iq) a = Some 0"
    using assms sendsD [OF assms(2)] by (simp add: getJobByRequestId_def)
qed

text \<open>What the steps of a job make of the one job there is and of the packets.\<close>

lemma one_send_block:
  assumes "one s j"
  shows "\<exists>r. one (send_block env bs 0 s) (j\<lparr>tj_ibbSequence := tj_ibbSequence j + 1, tj_requestId := r, tj_done := tj_done j + int (length bs)\<rparr>) \<and>
    packets (tm_out (send_block env bs 0 s)) = packets (tm_out s) @ [data_iq j r bs]"
  using assms
  by (intro exI [of _ "te_stanzaId env (tm_nextId s)"]) (simp add: send_block_def request_def Let_def one_def change_def job_def out_def data_iq_def)

lemma one_send_close:
  assumes "one s j"
  shows "\<exists>r. one (send_close env 0 s) (j\<lparr>tj_requestId := r\<rparr>) \<and> packets (tm_out (send_close env 0 s)) = packets (tm_out s) @ [close_iq j r]"
  using assms
  by (intro exI [of _ "te_stanzaId env (tm_nextId s)"]) (simp add: send_close_def request_def Let_def one_def change_def job_def out_def close_iq_def)

definition stays :: "tjob \<Rightarrow> tjob \<Rightarrow> bool" where
  "stays j k \<longleftrightarrow> tj_direction k = tj_direction j \<and> tj_method k = tj_method j \<and> tj_socksProxy k = tj_socksProxy j \<and> tj_jid k = tj_jid j"

lemma one_terminate:
  assumes "one s j" "tj_state j \<noteq> FinishedState"
  shows "\<exists>j'. one (terminate c 0 s) j' \<and> tj_state j' = FinishedState \<and> tj_error j' = c \<and> received j' = received j \<and> stays j j' \<and>
    packets (tm_out (terminate c 0 s)) = packets (tm_out s)"
proof -
  let ?j = "j\<lparr>tj_error := c, tj_state := FinishedState,
    tj_device := (if tj_deviceIsOwn j then map_option (\<lambda>d. d\<lparr>dev_open := False\<rparr>) (tj_device j) else tj_device j)\<rparr>"
  have "one (terminate c 0 s) ?j \<and> packets (tm_out (terminate c 0 s)) = packets (tm_out s)"
    using assms by (simp add: terminate_def Let_def)
  moreover have "received ?j = received j" by (cases "tj_device j") (simp_all add: received_def)
  ultimately show ?thesis by (intro exI [of _ ?j]) (simp add: stays_def)
qed

lemma one_transferring:
  assumes "one s j" "\<not> tj_watched j"
  shows "one (setState TransferringState 0 s) (j\<lparr>tj_state := TransferringState\<rparr>)"
    and "packets (tm_out (setState TransferringState 0 s)) = packets (tm_out s)"
proof -
  have same: "j\<lparr>tj_state := TransferringState\<rparr> = j" if "tj_state j = TransferringState" using that by (cases j) simp
  show "one (setState TransferringState 0 s) (j\<lparr>tj_state := TransferringState\<rparr>)"
    using assms by (cases "tj_state j = TransferringState") (simp add: setState_def same, simp add: setState_def emit_stateChanged_def)
  show "packets (tm_out (setState TransferringState 0 s)) = packets (tm_out s)"
    using assms by (simp add: setState_def emit_stateChanged_def)
qed

lemma block_sent:
  assumes a: "one a j" "sends j d" and iq: "st_from iq = tj_jid j" "st_id iq = tj_requestId j" "iq_type iq = IqResult" and input: "dev_input d \<noteq> []"
  shows "\<exists>r. one (q_iqReceived env iq a) (j\<lparr>tj_device := Some (d\<lparr>dev_input := drop 4096 (dev_input d)\<rparr>),
      tj_state := TransferringState, tj_ibbSequence := tj_ibbSequence j + 1, tj_requestId := r,
      tj_done := tj_done j + int (length (take 4096 (dev_input d)))\<rparr>) \<and>
    packets (tm_out (q_iqReceived env iq a)) = packets (tm_out a) @ [data_iq j r (take 4096 (dev_input d))]"
proof -
  define a1 where "a1 = change 0 (\<lambda>j. j\<lparr>tj_device := Some (d\<lparr>dev_input := drop 4096 (dev_input d)\<rparr>)\<rparr>) a"
  define bs where "bs = take 4096 (dev_input d)"
  have "bs \<noteq> []" using input by (simp add: bs_def)
  then have q: "q_iqReceived env iq a = send_block env bs 0 (setState TransferringState 0 a1)"
    using answer_found [OF a iq(1,2)] a(1) sendsD(2,3,5,6,7,8) [OF a(2)] iq(3)
    by (simp add: ibbResponseReceived_def Let_def a1_def flip: bs_def)
  have a1: "one a1 (j\<lparr>tj_device := Some (d\<lparr>dev_input := drop 4096 (dev_input d)\<rparr>)\<rparr>)" "tm_out a1 = tm_out a" using a(1) by (simp_all add: a1_def)
  from one_transferring [OF a1(1)] have a2: "one (setState TransferringState 0 a1)
      (j\<lparr>tj_device := Some (d\<lparr>dev_input := drop 4096 (dev_input d)\<rparr>), tj_state := TransferringState\<rparr>)"
    "packets (tm_out (setState TransferringState 0 a1)) = packets (tm_out a)"
    using sendsD(4) [OF a(2)] a1(2) by simp_all
  from one_send_block [OF a2(1), of env bs] show ?thesis
    unfolding q a2(2) bs_def by (simp add: data_iq_def)
qed

lemma stream_closed:
  assumes a: "one a j" "sends j d" and iq: "st_from iq = tj_jid j" "st_id iq = tj_requestId j" "iq_type iq = IqResult" and input: "dev_input d = []"
  shows "\<exists>r j'. one (q_iqReceived env iq a) j' \<and> tj_state j' = FinishedState \<and> tj_error j' = NoTransferError \<and> stays j j' \<and>
      packets (tm_out (q_iqReceived env iq a)) = packets (tm_out a) @ [close_iq j r]"
proof -
  define a1 where "a1 = change 0 (\<lambda>j. j\<lparr>tj_device := Some (d\<lparr>dev_input := drop 4096 (dev_input d)\<rparr>)\<rparr>) a"
  have q: "q_iqReceived env iq a = terminate NoTransferError 0 (send_close env 0 (setState TransferringState 0 a1))"
    using answer_found [OF a iq(1,2)] a(1) sendsD(2,3,5,6,7,8) [OF a(2)] iq(3) input
    by (simp add: ibbResponseReceived_def Let_def a1_def)
  let ?j = "j\<lparr>tj_device := Some (d\<lparr>dev_input := drop 4096 (dev_input d)\<rparr>), tj_state := TransferringState\<rparr>"
  have a1: "one a1 (j\<lparr>tj_device := Some (d\<lparr>dev_input := drop 4096 (dev_input d)\<rparr>)\<rparr>)" "tm_out a1 = tm_out a" using a(1) by (simp_all add: a1_def)
  from one_transferring [OF a1(1)] have a2: "one (setState TransferringState 0 a1) ?j"
    "packets (tm_out (setState TransferringState 0 a1)) = packets (tm_out a)"
    using sendsD(4) [OF a(2)] a1(2) by simp_all
  from one_send_close [OF a2(1), of env] obtain r where r: "one (send_close env 0 (setState TransferringState 0 a1)) (?j\<lparr>tj_requestId := r\<rparr>)"
    "packets (tm_out (send_close env 0 (setState TransferringState 0 a1))) = packets (tm_out a) @ [close_iq ?j r]" using a2(2) by auto
  have "close_iq ?j r = close_iq j r" by (simp add: close_iq_def)
  then show ?thesis unfolding q using one_terminate [OF r(1), of NoTransferError] r(2) by (auto simp: stays_def)
qed

text \<open>The receiver at the end of a stream.\<close>

lemma close_received:
  assumes b: "one b j" "tj_direction j = Incoming" "tj_method j = InBandMethod" "tj_state j = TransferringState"
    and ok: "file_size (tj_info j) = 0 \<or> tj_done j = file_size (tj_info j)"
      "file_hash (tj_info j) = [] \<or> te_md5 env (tj_hashed j) = file_hash (tj_info j)"
    and iq: "st_from iq = tj_jid j" "sid = tj_sid j"
  shows "\<exists>j'. one (ibbCloseIqReceived env iq sid b) j' \<and> tj_state j' = FinishedState \<and> tj_error j' = NoTransferError \<and> received j' = received j \<and>
    packets (tm_out (ibbCloseIqReceived env iq sid b)) = packets (tm_out b) @ packets [answer_result (st_from iq) (st_id iq)]"
proof -
  have j: "getIncomingJobBySid (tj_jid j) (tj_sid j) b = Some 0" using b by (simp add: getIncomingJobBySid_def)
  have "\<not> (file_size (tj_info j) \<noteq> 0 \<and> tj_done j \<noteq> file_size (tj_info j) \<or> file_hash (tj_info j) \<noteq> [] \<and> te_md5 env (tj_hashed j) \<noteq> file_hash (tj_info j))"
    using ok by blast
  then have "ibbCloseIqReceived env iq sid b = terminate NoTransferError 0 (out (answer_result (st_from iq) (st_id iq)) b)"
    using b(1,3) iq j by (auto simp: ibbCloseIqReceived_def checkData_def Let_def)
  moreover have "one (out (answer_result (st_from iq) (st_id iq)) b) j" using b(1) by simp
  ultimately show ?thesis using one_terminate [of "out (answer_result (st_from iq) (st_id iq)) b" j NoTransferError] b(4) by (simp, blast)
qed

section \<open>Rounds\<close>

definition upto_block :: "nat \<Rightarrow> bytes \<Rightarrow> bytes" where
  "upto_block k xs = take (4096 * k) xs"

definition from_block :: "nat \<Rightarrow> bytes \<Rightarrow> bytes" where
  "from_block k xs = drop (4096 * k) xs"

lemma blocks:
  "upto_block (Suc k) xs = upto_block k xs @ take 4096 (from_block k xs)" "drop 4096 (from_block k xs) = from_block (Suc k) xs"
  "from_block k xs = [] \<longleftrightarrow> length xs \<le> 4096 * k" "length xs \<le> 4096 * k \<Longrightarrow> upto_block k xs = xs" "upto_block 0 xs = []" "from_block 0 xs = xs"
  by (simp_all add: upto_block_def from_block_def) (metis add.commute take_add)

text \<open>Both sides after a number of blocks were acknowledged, with the next packet on its way.\<close>

definition streaming :: "transfer_env \<Rightarrow> transfer_env \<Rightarrow> bytes \<Rightarrow> FileInfo \<Rightarrow> qstring \<Rightarrow> nat \<Rightarrow> two_clients \<Rightarrow> bool" where
  "streaming ea eb content info sid k w \<longleftrightarrow>
     (\<exists>ja da jb db r. one (sender w) ja \<and> sends ja da \<and> dev_input da = from_block (Suc k) content \<and> tj_jid ja = te_jid eb \<and> tj_sid ja = sid \<and>
        tj_ibbSequence ja = int (Suc k) \<and> tj_requestId ja = r \<and>
        packets (tm_out (sender w)) = [data_iq (ja\<lparr>tj_ibbSequence := int k\<rparr>) r (take 4096 (from_block k content))] \<and>
        one (receiver w) jb \<and> tj_direction jb = Incoming \<and> tj_method jb = InBandMethod \<and> tj_state jb = TransferringState \<and>
        tj_jid jb = te_jid ea \<and> tj_sid jb = sid \<and> tj_ibbSequence jb = int k \<and> tj_info jb = info \<and>
        tj_device jb = Some db \<and> isWritable db \<and> dev_writes db = [] \<and> dev_output db = upto_block k content \<and>
        tj_done jb = int (length (upto_block k content)) \<and> (file_hash info \<noteq> [] \<longrightarrow> tj_hashed jb = upto_block k content) \<and>
        tm_out (receiver w) = [])"

text \<open>The stream was closed by a sender that is content.\<close>

definition closing :: "transfer_env \<Rightarrow> transfer_env \<Rightarrow> bytes \<Rightarrow> FileInfo \<Rightarrow> qstring \<Rightarrow> two_clients \<Rightarrow> bool" where
  "closing ea eb content info sid w \<longleftrightarrow>
     (\<exists>ja jb r. one (sender w) ja \<and> tj_state ja = FinishedState \<and> tj_error ja = NoTransferError \<and>
        tj_direction ja = Outgoing \<and> tj_method ja = InBandMethod \<and> host_jid (tj_socksProxy ja) = [] \<and> te_jid eb \<noteq> [] \<and>
        packets (tm_out (sender w)) = [(new_TransferIq IqSet)\<lparr>st_to := te_jid eb, st_id := r, tq_payload := ClosePayload sid\<rparr>] \<and>
        one (receiver w) jb \<and> tj_direction jb = Incoming \<and> tj_method jb = InBandMethod \<and> tj_state jb = TransferringState \<and>
        tj_jid jb = te_jid ea \<and> tj_sid jb = sid \<and> tj_info jb = info \<and> received jb = content \<and>
        tj_done jb = int (length content) \<and> (file_hash info \<noteq> [] \<longrightarrow> tj_hashed jb = content) \<and> tm_out (receiver w) = [])"

definition complete :: "bytes \<Rightarrow> two_clients \<Rightarrow> bool" where
  "complete content w \<longleftrightarrow> tj_state (job (sender w) 0) = FinishedState \<and> tj_error (job (sender w) 0) = NoTransferError \<and>
     tj_state (job (receiver w) 0) = FinishedState \<and> tj_error (job (receiver w) 0) = NoTransferError \<and> received (job (receiver w) 0) = content"

definition announces :: "transfer_env \<Rightarrow> bytes \<Rightarrow> FileInfo \<Rightarrow> bool" where
  "announces env content info \<longleftrightarrow> file_ok info \<and> (file_size info = 0 \<or> file_size info = int (length content)) \<and>
     (file_hash info = [] \<or> file_hash info = te_md5 env content)"

lemma deliver_one: "packets xs = [iq] \<Longrightarrow> deliver c env who xs s = arrive c env who iq s"
  by (simp add: deliver_def)

lemma deliver_packets: "packets xs = packets ys \<Longrightarrow> deliver c env who xs s = deliver c env who ys s"
  by (simp add: deliver_def)

lemma arrive_data:
  assumes "codec_laws c"
  shows "arrive c env who (data_iq j r bs) s = ibbDataIqReceived ((data_iq j r bs)\<lparr>st_from := who\<rparr>)
     \<lparr>data_sid = tj_sid j, data_seq = nat (tj_ibbSequence j mod 2 ^ 16), data_payload = bs\<rparr> s"
proof -
  have "nat (tj_ibbSequence j mod 2 ^ 16) < 2 ^ 16" by (simp add: nat_less_iff)
  then show ?thesis using assms by (subst arrive_back) (simp_all add: data_iq_def new_TransferIq_def handleIq_transfer_def)
qed

lemma arrive_close:
  "codec_laws c \<Longrightarrow> arrive c env who ((new_TransferIq IqSet)\<lparr>st_to := t, st_id := r, tq_payload := ClosePayload sid\<rparr>) s =
     ibbCloseIqReceived env ((new_TransferIq IqSet)\<lparr>st_to := t, st_id := r, st_from := who, tq_payload := ClosePayload sid\<rparr>) sid s"
  by (subst arrive_back) (simp_all add: new_TransferIq_def handleIq_transfer_def)

definition result_iq :: "qstring \<Rightarrow> qstring \<Rightarrow> TransferIq" where
  "result_iq t r = (new_TransferIq IqResult)\<lparr>st_to := t, st_id := r\<rparr>"

lemma arrive_result:
  "codec_laws c \<Longrightarrow> arrive c env who (result_iq t r) s = q_iqReceived env ((result_iq t r)\<lparr>st_from := who\<rparr>) s"
  by (subst arrive_back) (simp_all add: new_TransferIq_def handleIq_transfer_def result_iq_def)

lemma answer_packets: "packets [EmitProgress i m n, answer_result t r] = [result_iq t r]" "packets [answer_result t r] = [result_iq t r]"
  by (simp_all add: answer_result_def result_iq_def)

lemma sends_next:
  "sends j d \<Longrightarrow> sends (j\<lparr>tj_device := Some (d\<lparr>dev_input := x\<rparr>), tj_state := TransferringState, tj_ibbSequence := n, tj_requestId := r, tj_done := m\<rparr>)
     (d\<lparr>dev_input := x\<rparr>)"
  by (simp add: sends_def isReadable_def)

text \<open>What a round makes of the receiver and of the answer that comes back.\<close>

lemma round_block:
  assumes c: "codec_laws c" and s: "streaming ea eb content info sid k w" and k: "k < 2 ^ 16"
  shows "\<exists>ja da jb. one ((sender w)\<lparr>tm_out := []\<rparr>) ja \<and> sends ja da \<and> dev_input da = from_block (Suc k) content \<and> tj_jid ja = te_jid eb \<and>
      tj_sid ja = sid \<and> tj_ibbSequence ja = int (Suc k) \<and>
      sender (transfer_round c ea eb w) = q_iqReceived ea ((result_iq (te_jid ea) (tj_requestId ja))\<lparr>st_from := te_jid eb\<rparr>) ((sender w)\<lparr>tm_out := []\<rparr>) \<and>
      one (receiver (transfer_round c ea eb w)) jb \<and> tj_direction jb = Incoming \<and> tj_method jb = InBandMethod \<and> tj_state jb = TransferringState \<and>
      tj_jid jb = te_jid ea \<and> tj_sid jb = sid \<and> tj_ibbSequence jb = int (Suc k) \<and> tj_info jb = info \<and>
      (\<exists>db. tj_device jb = Some db \<and> isWritable db \<and> dev_writes db = [] \<and> dev_output db = upto_block (Suc k) content) \<and>
      tj_done jb = int (length (upto_block (Suc k) content)) \<and> (file_hash info \<noteq> [] \<longrightarrow> tj_hashed jb = upto_block (Suc k) content) \<and>
      tm_out (receiver (transfer_round c ea eb w)) = []"
proof -
  let ?bs = "take 4096 (from_block k content)"
  from s obtain ja da jb db r where
    a: "one (sender w) ja" "sends ja da" "dev_input da = from_block (Suc k) content" "tj_jid ja = te_jid eb" "tj_sid ja = sid"
      "tj_ibbSequence ja = int (Suc k)" "tj_requestId ja = r" and
    out: "packets (tm_out (sender w)) = [data_iq (ja\<lparr>tj_ibbSequence := int k\<rparr>) r ?bs]" and
    b: "one (receiver w) jb" "tj_direction jb = Incoming" "tj_method jb = InBandMethod" "tj_state jb = TransferringState"
      "tj_device jb = Some db" "isWritable db" "dev_writes db = []" and
    b': "tj_jid jb = te_jid ea" "tj_sid jb = sid" "tj_ibbSequence jb = int k" "tj_info jb = info" "dev_output db = upto_block k content"
      "tj_done jb = int (length (upto_block k content))" "file_hash info \<noteq> [] \<longrightarrow> tj_hashed jb = upto_block k content"
      "tm_out (receiver w) = []"
    unfolding streaming_def by blast
  let ?iq = "(data_iq (ja\<lparr>tj_ibbSequence := int k\<rparr>) r ?bs)\<lparr>st_from := te_jid ea\<rparr>"
  let ?p = "\<lparr>data_sid = sid, data_seq = k, data_payload = ?bs\<rparr>"
  have "nat (int k mod 2 ^ 16) = k" using k by simp
  then have d: "deliver c eb (te_jid ea) (tm_out (sender w)) (receiver w) = ibbDataIqReceived ?iq ?p (receiver w)"
    using deliver_one [OF out] arrive_data [OF c] a(5) by simp
  have "st_from ?iq = tj_jid jb" "data_sid ?p = tj_sid jb" "int (data_seq ?p) = tj_ibbSequence jb" using b' by (simp_all add: data_iq_def)
  let ?jb = "jb\<lparr>tj_device := Some (db\<lparr>dev_output := dev_output db @ ?bs\<rparr>),
      tj_done := tj_done jb + int (length ?bs), tj_hashed := (if file_hash (tj_info jb) \<noteq> [] then tj_hashed jb @ ?bs else tj_hashed jb),
      tj_ibbSequence := tj_ibbSequence jb + 1\<rparr>"
  obtain m n where moved: "one (ibbDataIqReceived ?iq ?p (receiver w)) ?jb \<and>
      tm_out (ibbDataIqReceived ?iq ?p (receiver w)) = tm_out (receiver w) @ [EmitProgress 0 m n, answer_result (st_from ?iq) (st_id ?iq)]"
    using block_received [OF b \<open>st_from ?iq = tj_jid jb\<close> \<open>data_sid ?p = tj_sid jb\<close> \<open>int (data_seq ?p) = tj_ibbSequence jb\<close>]
    unfolding IbbData.simps by blast
  have one: "one (ibbDataIqReceived ?iq ?p (receiver w)) ?jb" using moved by (rule conjunct1)
  have ack: "tm_out (ibbDataIqReceived ?iq ?p (receiver w)) = [EmitProgress 0 m n, answer_result (te_jid ea) r]"
    using moved b'(8) by (simp add: data_iq_def)
  have returned: "sender (transfer_round c ea eb w) = q_iqReceived ea ((result_iq (te_jid ea) r)\<lparr>st_from := te_jid eb\<rparr>) ((sender w)\<lparr>tm_out := []\<rparr>)"
    "receiver (transfer_round c ea eb w) = (ibbDataIqReceived ?iq ?p (receiver w))\<lparr>tm_out := []\<rparr>"
    using deliver_one [OF answer_packets(1)] arrive_result [OF c] by (simp_all add: transfer_round_def Let_def d ack)
  have "tj_done jb + int (length ?bs) = int (length (upto_block (Suc k) content))" by (simp add: blocks(1) b'(6))
  moreover have "file_hash info \<noteq> [] \<Longrightarrow> tj_hashed jb @ ?bs = upto_block (Suc k) content" using b'(7) by (simp add: blocks(1))
  moreover have "isWritable (db\<lparr>dev_output := dev_output db @ ?bs\<rparr>)" using b(6) by (simp add: isWritable_def)
  moreover have "dev_output db @ ?bs = upto_block (Suc k) content" by (simp add: blocks(1) b'(5))
  ultimately show ?thesis using a b b' one returned
    by (intro exI [of _ ja] exI [of _ da] exI [of _ ?jb]) simp
qed

lemma round_streaming:
  assumes c: "codec_laws c" and s: "streaming ea eb content info sid k w" and k: "k < 2 ^ 16"
  shows "4096 * Suc k < length content \<Longrightarrow> streaming ea eb content info sid (Suc k) (transfer_round c ea eb w)"
    and "4096 * Suc k \<ge> length content \<Longrightarrow> closing ea eb content info sid (transfer_round c ea eb w)"
proof -
  let ?w = "transfer_round c ea eb w" and ?a = "(sender w)\<lparr>tm_out := []\<rparr>"
  obtain ja da jb where a: "one ?a ja" "sends ja da" "dev_input da = from_block (Suc k) content" "tj_jid ja = te_jid eb" "tj_sid ja = sid"
      "tj_ibbSequence ja = int (Suc k)"
    and q: "sender ?w = q_iqReceived ea ((result_iq (te_jid ea) (tj_requestId ja))\<lparr>st_from := te_jid eb\<rparr>) ?a"
    and b: "one (receiver ?w) jb" "tj_direction jb = Incoming" "tj_method jb = InBandMethod" "tj_state jb = TransferringState"
      "tj_jid jb = te_jid ea" "tj_sid jb = sid" "tj_ibbSequence jb = int (Suc k)" "tj_info jb = info"
      "\<exists>db. tj_device jb = Some db \<and> isWritable db \<and> dev_writes db = [] \<and> dev_output db = upto_block (Suc k) content"
      "tj_done jb = int (length (upto_block (Suc k) content))" "file_hash info \<noteq> [] \<longrightarrow> tj_hashed jb = upto_block (Suc k) content"
      "tm_out (receiver ?w) = []"
    using round_block [OF c s k] by blast
  let ?iq = "(result_iq (te_jid ea) (tj_requestId ja))\<lparr>st_from := te_jid eb\<rparr>"
  have iq: "st_from ?iq = tj_jid ja" "st_id ?iq = tj_requestId ja" "iq_type ?iq = IqResult"
    using a(4) by (simp_all add: result_iq_def new_TransferIq_def)
  show "streaming ea eb content info sid (Suc k) ?w" if more: "4096 * Suc k < length content"
  proof -
    have "dev_input da \<noteq> []" using more a(3) by (simp add: blocks(3))
    from block_sent [OF a(1,2) iq this, of ea] obtain r where
      r: "one (sender ?w) (ja\<lparr>tj_device := Some (da\<lparr>dev_input := drop 4096 (dev_input da)\<rparr>), tj_state := TransferringState,
        tj_ibbSequence := tj_ibbSequence ja + 1, tj_requestId := r, tj_done := tj_done ja + int (length (take 4096 (dev_input da)))\<rparr>)" (is "one _ ?ja")
      "packets (tm_out (sender ?w)) = [data_iq ja r (take 4096 (dev_input da))]"
      unfolding q by (auto simp del: length_take)
    have "sends ?ja (da\<lparr>dev_input := drop 4096 (dev_input da)\<rparr>)" using a(2) by (rule sends_next)
    moreover have "drop 4096 (dev_input da) = from_block (Suc (Suc k)) content" by (simp add: a(3) blocks(2))
    moreover have "data_iq ja r (take 4096 (dev_input da)) = data_iq (?ja\<lparr>tj_ibbSequence := int (Suc k)\<rparr>) r (take 4096 (from_block (Suc k) content))"
      using a(3,6) by (simp add: data_iq_def)
    moreover obtain db where "tj_device jb = Some db \<and> isWritable db \<and> dev_writes db = [] \<and> dev_output db = upto_block (Suc k) content"
      using b(9) by blast
    ultimately show ?thesis unfolding streaming_def using a(4-6) b(1-8,10-12) r
      by (intro exI [of _ ?ja] exI [of _ "da\<lparr>dev_input := drop 4096 (dev_input da)\<rparr>"] exI [of _ jb] exI [of _ db] exI [of _ r]) simp
  qed
  show "closing ea eb content info sid ?w" if last: "4096 * Suc k \<ge> length content"
  proof -
    have "dev_input da = []" using last a(3) by (simp add: blocks(3))
    from stream_closed [OF a(1,2) iq this, of ea] obtain r j' where
      r: "one (sender ?w) j'" "tj_state j' = FinishedState" "tj_error j' = NoTransferError" "packets (tm_out (sender ?w)) = [close_iq ja r]" "stays ja j'"
      unfolding q by auto
    have "tj_direction j' = Outgoing" "tj_method j' = InBandMethod" "host_jid (tj_socksProxy j') = []" "te_jid eb \<noteq> []"
      using r(5) a(2,4) by (auto simp: stays_def sends_def)
    moreover have "close_iq ja r = (new_TransferIq IqSet)\<lparr>st_to := te_jid eb, st_id := r, tq_payload := ClosePayload sid\<rparr>"
      using a(4,5) by (simp add: close_iq_def)
    moreover have "upto_block (Suc k) content = content" using last by (rule blocks(4))
    moreover from this have "received jb = content" using b(9) by (auto simp: received_def)
    ultimately show ?thesis unfolding closing_def using b r
      by (intro exI [of _ j'] exI [of _ jb] exI [of _ r]) simp
  qed
qed

lemma finished_ignores:
  assumes "one a j" "tj_state j = FinishedState" "tj_direction j = Outgoing" "tj_method j = InBandMethod" "host_jid (tj_socksProxy j) = []" "st_from iq \<noteq> []"
  shows "q_iqReceived env iq a = a"
proof -
  have "ibbResponseReceived env iq a = a"
    using assms(1,2) by (auto simp: ibbResponseReceived_def getJobByRequestId_def split: option.split)
  then show ?thesis using assms by (cases "st_from iq") (simp_all add: q_iqReceived_def Let_def)
qed

lemma round_closing:
  assumes c: "codec_laws c" and s: "closing ea eb content info sid w" and ok: "announces eb content info"
  shows "complete content (transfer_round c ea eb w)"
proof -
  from s obtain ja jb r where a: "one (sender w) ja" "tj_state ja = FinishedState" "tj_error ja = NoTransferError"
      "tj_direction ja = Outgoing" "tj_method ja = InBandMethod" "host_jid (tj_socksProxy ja) = []" "te_jid eb \<noteq> []" and
    out: "packets (tm_out (sender w)) = [(new_TransferIq IqSet)\<lparr>st_to := te_jid eb, st_id := r, tq_payload := ClosePayload sid\<rparr>]" and
    b: "one (receiver w) jb" "tj_direction jb = Incoming" "tj_method jb = InBandMethod" "tj_state jb = TransferringState" and
    b': "tj_jid jb = te_jid ea" "tj_sid jb = sid" "tj_info jb = info" "received jb = content"
      "tj_done jb = int (length content)" "file_hash info \<noteq> [] \<longrightarrow> tj_hashed jb = content" "tm_out (receiver w) = []"
    unfolding closing_def by blast
  let ?c = "(new_TransferIq IqSet)\<lparr>st_to := te_jid eb, st_id := r, st_from := te_jid ea, tq_payload := ClosePayload sid\<rparr>"
  have d: "deliver c eb (te_jid ea) (tm_out (sender w)) (receiver w) = ibbCloseIqReceived eb ?c sid (receiver w)"
    using deliver_one [OF out] arrive_close [OF c] by simp
  have "file_size (tj_info jb) = 0 \<or> tj_done jb = file_size (tj_info jb)" "file_hash (tj_info jb) = [] \<or> te_md5 eb (tj_hashed jb) = file_hash (tj_info jb)"
    using ok b' by (auto simp: announces_def)
  moreover have "st_from ?c = tj_jid jb" "sid = tj_sid jb" "st_id ?c = r" "packets (tm_out (receiver w)) = []" using b' by simp_all
  ultimately obtain j' where j': "one (ibbCloseIqReceived eb ?c sid (receiver w)) j'" "tj_state j' = FinishedState" "tj_error j' = NoTransferError"
      "received j' = content" and "packets (tm_out (ibbCloseIqReceived eb ?c sid (receiver w))) = packets [answer_result (st_from ?c) (st_id ?c)]"
    using close_received [OF b, of eb ?c sid] b'(4) by (metis append_Nil)
  then have ack: "packets (tm_out (ibbCloseIqReceived eb ?c sid (receiver w))) = [result_iq (te_jid ea) r]" by (simp add: answer_packets(2))
  have q: "sender (transfer_round c ea eb w) = q_iqReceived ea ((result_iq (te_jid ea) r)\<lparr>st_from := te_jid eb\<rparr>) ((sender w)\<lparr>tm_out := []\<rparr>)"
    "receiver (transfer_round c ea eb w) = (ibbCloseIqReceived eb ?c sid (receiver w))\<lparr>tm_out := []\<rparr>"
    using deliver_one [OF ack] arrive_result [OF c] by (simp_all add: transfer_round_def Let_def d)
  have "one ((sender w)\<lparr>tm_out := []\<rparr>) ja" using a(1) by simp
  then have "sender (transfer_round c ea eb w) = (sender w)\<lparr>tm_out := []\<rparr>" unfolding q(1) using a(2-7) by (intro finished_ignores) simp_all
  then show ?thesis using q(2) j' a by (simp add: complete_def)
qed

section \<open>The offer\<close>

text \<open>The sender asks the receiver to open the stream.\<close>

definition offered_open :: "transfer_env \<Rightarrow> transfer_env \<Rightarrow> bytes \<Rightarrow> FileInfo \<Rightarrow> qstring \<Rightarrow> two_clients \<Rightarrow> bool" where
  "offered_open ea eb content info sid w \<longleftrightarrow>
     (\<exists>ja da jb db. one (sender w) ja \<and> sends ja da \<and> dev_input da = content \<and> tj_jid ja = te_jid eb \<and> tj_sid ja = sid \<and> tj_ibbSequence ja = 0 \<and>
        packets (tm_out (sender w)) = [(new_TransferIq IqSet)\<lparr>st_to := te_jid eb, st_id := tj_requestId ja,
          tq_payload := OpenPayload \<lparr>open_sid = sid, open_blockSize = 4096\<rparr>\<rparr>] \<and>
        one (receiver w) jb \<and> tm_ibbBlockSize (receiver w) = 4096 \<and> tj_direction jb = Incoming \<and> tj_method jb = InBandMethod \<and>
        tj_state jb = StartState \<and> \<not> tj_watched jb \<and> tj_jid jb = te_jid ea \<and> tj_sid jb = sid \<and> tj_ibbSequence jb = 0 \<and> tj_info jb = info \<and>
        tj_device jb = Some db \<and> isWritable db \<and> dev_writes db = [] \<and> dev_output db = [] \<and> tj_done jb = 0 \<and> tj_hashed jb = [] \<and>
        tm_out (receiver w) = [])"

definition method_form :: "variant \<Rightarrow> FormType \<Rightarrow> (qstring \<times> qstring) list \<Rightarrow> QXmppDataForm" where
  "method_form v t os = new_QXmppDataForm\<lparr>form_type := t, form_fields := [stream_method_field\<lparr>field_value := v, field_options := os\<rparr>]\<rparr>"

lemma method_form_ok: "t \<noteq> NoForm \<Longrightarrow> form_ok e (method_form (TextVariant v) t os)"
  by (simp add: form_ok_def form_isNull_def method_form_def stream_method_field_def new_Field_def field_ok_def new_QXmppDataForm_def)

text \<open>An unset value is written like an empty one.\<close>

lemma method_form_unset: "DataForm_toXml (method_form NoVariant t os) = DataForm_toXml (method_form (TextVariant []) t os)"
  by (simp add: DataForm_toXml_def form_isNull_def method_form_def Field_toXml_def field_value_items_def stream_method_field_def new_Field_def
      field_media_items_def new_QXmppDataForm_def)

definition offer_iq :: "qstring \<Rightarrow> qstring \<Rightarrow> FileInfo \<Rightarrow> qstring \<Rightarrow> variant \<Rightarrow> TransferIq" where
  "offer_iq to r info sid v = (new_TransferIq IqSet)\<lparr>st_to := to, st_id := r, tq_payload := InitiationPayload
     (new_StreamInitiation\<lparr>si_profile := FileTransfer, si_file := info, si_id := sid, si_form := method_form v FormForm [([], ns_ibb)]\<rparr>)\<rparr>"

definition accept_iq :: "qstring \<Rightarrow> qstring \<Rightarrow> TransferIq" where
  "accept_iq to r = (new_TransferIq IqResult)\<lparr>st_to := to, st_id := r, tq_payload := InitiationPayload
     (new_StreamInitiation\<lparr>si_profile := FileTransfer, si_form := method_form (TextVariant ns_ibb) FormSubmit []\<rparr>)\<rparr>"

lemma arrive_offer:
  assumes "codec_laws c" "file_ok info"
  shows "arrive c env who (offer_iq to r info sid NoVariant) s =
    streamInitiationSetReceived ((offer_iq to r info sid (TextVariant []))\<lparr>st_from := who\<rparr>)
      (new_StreamInitiation\<lparr>si_profile := FileTransfer, si_file := info, si_id := sid, si_form := method_form (TextVariant []) FormForm [([], ns_ibb)]\<rparr>) s"
proof -
  have "form_isNull (method_form v FormForm os) = False" for v os by (simp add: form_isNull_def method_form_def new_QXmppDataForm_def)
  then have "TransferIq_toXml c ((offer_iq to r info sid NoVariant)\<lparr>st_from := who\<rparr>) = TransferIq_toXml c ((offer_iq to r info sid (TextVariant []))\<lparr>st_from := who\<rparr>)"
    by (simp add: TransferIq_toXml_def offer_iq_def StreamInitiation_toXml_def method_form_unset)
  then have "arrive c env who (offer_iq to r info sid NoVariant) s = arrive c env who (offer_iq to r info sid (TextVariant [])) s"
    by (simp add: arrive_def)
  also have "\<dots> = handleIq_transfer env ((offer_iq to r info sid (TextVariant []))\<lparr>st_from := who\<rparr>) s"
    using assms method_form_ok by (intro arrive_back) (simp_all add: offer_iq_def new_TransferIq_def new_StreamInitiation_def)
  finally show ?thesis by (simp add: handleIq_transfer_def streamInitiationIqReceived_def offer_iq_def new_TransferIq_def)
qed

lemma arrive_accept:
  assumes "codec_laws c"
  shows "arrive c env who (accept_iq to r) s = streamInitiationResultReceived env ((accept_iq to r)\<lparr>st_from := who\<rparr>)
      (new_StreamInitiation\<lparr>si_profile := FileTransfer, si_form := method_form (TextVariant ns_ibb) FormSubmit []\<rparr>) s"
proof -
  have "arrive c env who (accept_iq to r) s = handleIq_transfer env ((accept_iq to r)\<lparr>st_from := who\<rparr>) s"
    using assms method_form_ok
    by (intro arrive_back) (simp_all add: accept_iq_def new_TransferIq_def new_StreamInitiation_def new_FileInfo_def file_ok_def)
  then show ?thesis by (simp add: handleIq_transfer_def streamInitiationIqReceived_def accept_iq_def new_TransferIq_def)
qed

section \<open>The whole transfer\<close>

definition fresh_file :: "bytes \<Rightarrow> device" where
  "fresh_file content = \<lparr>dev_open = True, dev_readable = True, dev_writable = False, dev_input = content, dev_output = [], dev_reads = [], dev_writes = []\<rparr>"

definition fresh_target :: device where
  "fresh_target = \<lparr>dev_open = True, dev_readable = False, dev_writable = True, dev_input = [], dev_output = [], dev_reads = [], dev_writes = []\<rparr>"

lemma begin_offers:
  assumes c: "codec_laws c" and info: "file_ok info" and sid: "sid \<noteq> []" and jid: "jidToResource (te_jid eb) \<noteq> []"
  shows "offered_open ea eb content info sid (transfer_begin c ea eb (fresh_file content) info sid fresh_target)"
proof -
  let ?r = "te_stanzaId ea 0" and ?to = "te_jid eb" and ?from = "te_jid ea"
  define ja where "ja = (new_job ?to Outgoing)\<lparr>tj_sid := sid, tj_info := info, tj_device := Some (fresh_file content), tj_requestId := ?r\<rparr>"
  define a where "a = snd (sendFile ea ?to (Some (fresh_file content)) info sid (new_manager\<lparr>tm_socks := False\<rparr>))"
  have a: "one a ja" "tm_nextId a = 1" "tm_proxy a = []" "tm_ibbBlockSize a = 4096" "tm_inband a" "\<not> tm_socks a" "tm_out a = [SentIq (offer_iq ?to ?r info sid NoVariant), EmitJobStarted 0]"
    using sid jid
    by (simp_all add: a_def sendFile_def add_object_def Let_def new_manager_def fresh_file_def isReadable_def request_def one_def change_def job_def out_def
        ja_def new_job_def offer_iq_def method_form_def offered_options_def stream_method_field_def new_Field_def)
  define b0 where "b0 = deliver c eb ?from (tm_out a) new_manager"
  define jb where "jb = (new_job ?from Incoming)\<lparr>tj_offerId := ?r, tj_sid := sid, tj_info := info, tj_method := InBandMethod, tj_watched := True\<rparr>"
  have "b0 = arrive c eb ?from (offer_iq ?to ?r info sid NoVariant) new_manager" by (simp add: b0_def deliver_def a)
  also have "\<dots> = new_manager\<lparr>tm_objects := [jb], tm_jobs := [0], tm_out := [EmitFileReceived 0]\<rparr>"
    unfolding arrive_offer [OF c info]
    using transfer_names
    by (simp add: streamInitiationSetReceived_def new_manager_def add_object_def out_def jb_def offered_def method_form_def
        stream_method_field_def new_Field_def new_QXmppDataForm_def new_StreamInitiation_def offer_iq_def new_job_def)
  finally have b0: "one b0 jb" "tm_ibbBlockSize b0 = 4096" "packets (tm_out b0) = []" by (simp_all add: one_def new_manager_def)
  define b where "b = accept_device (Some fresh_target) 0 b0"
  let ?jb = "jb\<lparr>tj_device := Some fresh_target, tj_state := StartState, tj_watched := False\<rparr>"
  have jb: "tj_direction jb = Incoming" "tj_state jb = OfferState" "tj_device jb = None" "tj_watched jb" "tj_jid jb = ?from" "tj_offerId jb = ?r"
    "tj_method jb = InBandMethod" by (simp_all add: jb_def new_job_def)
  have "b = out (EmitState 0 StartState) (jobStateChanged 0 StartState
      (change 0 (\<lambda>j. j\<lparr>tj_state := StartState\<rparr>) (change 0 (\<lambda>j. j\<lparr>tj_device := Some fresh_target\<rparr>) b0)))"
    using b0(1) jb by (simp add: b_def accept_device_def Let_def setState_def emit_stateChanged_def)
  then have b: "one b ?jb" "tm_ibbBlockSize b = 4096" "packets (tm_out b) = [accept_iq ?from ?r]"
    using b0 jb
    by (simp_all add: jobStateChanged_def Let_def isWritable_def fresh_target_def one_def change_def job_def out_def accept_iq_def method_form_def
        stream_method_field_def new_Field_def)
  define a1 where "a1 = deliver c ea ?to (tm_out b) (a\<lparr>tm_out := []\<rparr>)"
  have a1: "a1 = streamInitiationResultReceived ea ((accept_iq ?from ?r)\<lparr>st_from := ?to\<rparr>)
      (new_StreamInitiation\<lparr>si_profile := FileTransfer, si_form := method_form (TextVariant ns_ibb) FormSubmit []\<rparr>) (a\<lparr>tm_out := []\<rparr>)"
    unfolding a1_def deliver_one [OF b(3)] by (rule arrive_accept [OF c])
  have ja: "tj_direction ja = Outgoing" "tj_method ja = NoMethod" "tj_state ja = OfferState" "\<not> tj_watched ja" "tj_jid ja = ?to" "tj_requestId ja = ?r"
    by (simp_all add: ja_def new_job_def)
  define a2 where "a2 = a\<lparr>tm_out := []\<rparr>"
  have a2: "one a2 ja" "tm_out a2 = []" "tm_inband a2" "tm_ibbBlockSize a2 = 4096" using a by (simp_all add: a2_def)
  have found: "getJobByRequestId Outgoing ?to ?r a2 = Some 0" using a2(1) ja by (simp add: getJobByRequestId_def)
  define s where "s = setState StartState 0 (change 0 (\<lambda>j. j\<lparr>tj_method := InBandMethod\<rparr>) a2)"
  have s: "one s (ja\<lparr>tj_method := InBandMethod, tj_state := StartState\<rparr>)" "packets (tm_out s) = []" "tm_ibbBlockSize s = 4096"
    using a2 ja by (simp_all add: s_def setState_def emit_stateChanged_def)
  have form: "fold (accepted_method a2) (form_fields (method_form (TextVariant ns_ibb) FormSubmit [])) NoMethod = InBandMethod"
    using a2(3) by (simp add: method_form_def accepted_method_def stream_method_field_def new_Field_def)
  have same: "change 0 (\<lambda>j. j\<lparr>tj_method := fold (accepted_method a2) (form_fields (method_form (TextVariant ns_ibb) FormSubmit [])) (tj_method j)\<rparr>) a2 =
      change 0 (\<lambda>j. j\<lparr>tj_method := InBandMethod\<rparr>) a2"
    using a2(1) ja(2) form by (simp add: change_def)
  let ?ja = "ja\<lparr>tj_method := InBandMethod, tj_state := StartState, tj_blockSize := 4096\<rparr>"
  have r: "a1 = request ea 0 ((new_TransferIq IqSet)\<lparr>st_to := ?to, tq_payload := OpenPayload \<lparr>open_sid = tj_sid ja, open_blockSize = 4096\<rparr>\<rparr>)
      (change 0 (\<lambda>j. j\<lparr>tj_blockSize := 4096\<rparr>) s)"
    unfolding a1 streamInitiationResultReceived_def a2_def [symmetric]
    using found a2(1) s ja(3,5) by (simp add: Let_def same accept_iq_def flip: s_def)
  have sender: "one a1 (?ja\<lparr>tj_requestId := te_stanzaId ea (tm_nextId s)\<rparr>)" (is "one a1 ?ja1")
    "packets (tm_out a1) = [(new_TransferIq IqSet)\<lparr>st_to := ?to, st_id := te_stanzaId ea (tm_nextId s),
      tq_payload := OpenPayload \<lparr>open_sid = sid, open_blockSize = 4096\<rparr>\<rparr>]"
    using s(1,2) unfolding r by (simp_all add: request_def Let_def one_def change_def job_def out_def ja_def)
  have "te_jid eb \<noteq> []" using jid by (auto simp: jidToResource_def)
  then have "sends ?ja1 (fresh_file content)"
    by (simp add: sends_def ja_def new_job_def fresh_file_def isReadable_def new_StreamHost_def)
  moreover have "transfer_begin c ea eb (fresh_file content) info sid fresh_target = \<lparr>sender = a1, receiver = b\<lparr>tm_out := []\<rparr>\<rparr>"
    by (simp add: transfer_begin_def Let_def a1_def b_def b0_def a_def)
  ultimately show ?thesis unfolding offered_open_def using sender b
    by (intro exI [of _ ?ja1] exI [of _ "fresh_file content"] exI [of _ ?jb] exI [of _ fresh_target])
      (simp add: ja_def new_job_def jb_def fresh_file_def fresh_target_def isWritable_def)
qed

text \<open>The first round opens the stream, and the first block goes out.\<close>

lemma round_open:
  assumes c: "codec_laws c" and s: "offered_open ea eb content info sid w"
  shows "content \<noteq> [] \<Longrightarrow> streaming ea eb content info sid 0 (transfer_round c ea eb w)"
    and "content = [] \<Longrightarrow> closing ea eb content info sid (transfer_round c ea eb w)"
proof -
  let ?w = "transfer_round c ea eb w" and ?a = "(sender w)\<lparr>tm_out := []\<rparr>"
  from s obtain ja da jb db where
    a: "one (sender w) ja" "sends ja da" "dev_input da = content" "tj_jid ja = te_jid eb" "tj_sid ja = sid" "tj_ibbSequence ja = 0" and
    out: "packets (tm_out (sender w)) = [(new_TransferIq IqSet)\<lparr>st_to := te_jid eb, st_id := tj_requestId ja,
          tq_payload := OpenPayload \<lparr>open_sid = sid, open_blockSize = 4096\<rparr>\<rparr>]" and
    b: "one (receiver w) jb" "tm_ibbBlockSize (receiver w) = 4096" "tj_direction jb = Incoming" "tj_method jb = InBandMethod"
      "tj_state jb = StartState" "\<not> tj_watched jb" "tj_jid jb = te_jid ea" "tj_sid jb = sid" and
    b': "tj_ibbSequence jb = 0" "tj_info jb = info" "tj_device jb = Some db" "isWritable db" "dev_writes db = []" "dev_output db = []"
      "tj_done jb = 0" "tj_hashed jb = []" "tm_out (receiver w) = []"
    unfolding offered_open_def by blast
  let ?o = "(new_TransferIq IqSet)\<lparr>st_to := te_jid eb, st_id := tj_requestId ja, st_from := te_jid ea,
    tq_payload := OpenPayload \<lparr>open_sid = sid, open_blockSize = 4096\<rparr>\<rparr>"
  have "deliver c eb (te_jid ea) (tm_out (sender w)) (receiver w) = handleIq_transfer eb ?o (receiver w)"
    unfolding deliver_one [OF out] using c by (subst arrive_back) (simp_all add: new_TransferIq_def)
  then have d: "deliver c eb (te_jid ea) (tm_out (sender w)) (receiver w) = ibbOpenIqReceived ?o \<lparr>open_sid = sid, open_blockSize = 4096\<rparr> (receiver w)"
    by (simp add: handleIq_transfer_def new_TransferIq_def)
  let ?jb = "jb\<lparr>tj_blockSize := 4096, tj_state := TransferringState\<rparr>"
  have "getIncomingJobBySid (te_jid ea) sid (receiver w) = Some 0" using b by (simp add: getIncomingJobBySid_def)
  then have "ibbOpenIqReceived ?o \<lparr>open_sid = sid, open_blockSize = 4096\<rparr> (receiver w) = out (answer_result (te_jid ea) (tj_requestId ja))
      (setState TransferringState 0 (change 0 (\<lambda>j. j\<lparr>tj_blockSize := 4096\<rparr>) (receiver w)))"
    using b by (simp add: ibbOpenIqReceived_def)
  moreover have "one (change 0 (\<lambda>j. j\<lparr>tj_blockSize := 4096\<rparr>) (receiver w)) (jb\<lparr>tj_blockSize := 4096\<rparr>)" using b(1) by simp
  ultimately have r: "one (ibbOpenIqReceived ?o \<lparr>open_sid = sid, open_blockSize = 4096\<rparr> (receiver w)) ?jb"
    "packets (tm_out (ibbOpenIqReceived ?o \<lparr>open_sid = sid, open_blockSize = 4096\<rparr> (receiver w))) = [result_iq (te_jid ea) (tj_requestId ja)]"
    using one_transferring b(6) b'(9) answer_packets(2) by (simp_all add: answer_result_def result_iq_def)
  let ?iq = "(result_iq (te_jid ea) (tj_requestId ja))\<lparr>st_from := te_jid eb\<rparr>"
  have q: "sender ?w = q_iqReceived ea ?iq ?a" "one (receiver ?w) ?jb" "tm_out (receiver ?w) = []"
    using deliver_one [OF r(2)] arrive_result [OF c] r(1) by (simp_all add: transfer_round_def Let_def d)
  have iq: "st_from ?iq = tj_jid ja" "st_id ?iq = tj_requestId ja" "iq_type ?iq = IqResult"
    using a(4) by (simp_all add: result_iq_def new_TransferIq_def)
  have a0: "one ?a ja" using a(1) by simp
  show "streaming ea eb content info sid 0 ?w" if "content \<noteq> []"
  proof -
    have "dev_input da \<noteq> []" using that a(3) by simp
    from block_sent [OF a0 a(2) iq this, of ea] obtain r where
      r: "one (sender ?w) (ja\<lparr>tj_device := Some (da\<lparr>dev_input := drop 4096 (dev_input da)\<rparr>), tj_state := TransferringState,
        tj_ibbSequence := tj_ibbSequence ja + 1, tj_requestId := r, tj_done := tj_done ja + int (length (take 4096 (dev_input da)))\<rparr>)" (is "one _ ?ja")
      "packets (tm_out (sender ?w)) = [data_iq ja r (take 4096 (dev_input da))]"
      unfolding q by (auto simp del: length_take)
    have "sends ?ja (da\<lparr>dev_input := drop 4096 (dev_input da)\<rparr>)" using a(2) by (rule sends_next)
    moreover have "drop 4096 (dev_input da) = from_block (Suc 0) content" using blocks(2) [of 0 content] by (simp add: a(3) blocks(6))
    moreover have "data_iq ja r (take 4096 (dev_input da)) = data_iq (?ja\<lparr>tj_ibbSequence := int 0\<rparr>) r (take 4096 (from_block 0 content))"
      using a(3,6) by (simp add: data_iq_def blocks(6))
    ultimately show ?thesis unfolding streaming_def using a(4-6) b b' r q(2,3)
      by (intro exI [of _ ?ja] exI [of _ "da\<lparr>dev_input := drop 4096 (dev_input da)\<rparr>"] exI [of _ ?jb] exI [of _ db] exI [of _ r])
        (simp add: blocks(5))
  qed
  show "closing ea eb content info sid ?w" if "content = []"
  proof -
    have "dev_input da = []" using that a(3) by simp
    from stream_closed [OF a0 a(2) iq this, of ea] obtain r j' where
      r: "one (sender ?w) j'" "tj_state j' = FinishedState" "tj_error j' = NoTransferError" "packets (tm_out (sender ?w)) = [close_iq ja r]" "stays ja j'"
      unfolding q by auto
    have "tj_direction j' = Outgoing" "tj_method j' = InBandMethod" "host_jid (tj_socksProxy j') = []" "te_jid eb \<noteq> []"
      using r(5) a(2,4) by (auto simp: stays_def sends_def)
    moreover have "close_iq ja r = (new_TransferIq IqSet)\<lparr>st_to := te_jid eb, st_id := r, tq_payload := ClosePayload sid\<rparr>"
      using a(4,5) by (simp add: close_iq_def)
    ultimately show ?thesis unfolding closing_def using b b' r q(2,3) that
      by (intro exI [of _ j'] exI [of _ ?jb] exI [of _ r]) (simp add: received_def)
  qed
qed

lemma streaming_rounds:
  assumes c: "codec_laws c" and s: "streaming ea eb content info sid 0 w"
  shows "4096 * k < length content \<Longrightarrow> k \<le> 2 ^ 16 \<Longrightarrow> streaming ea eb content info sid k ((transfer_round c ea eb ^^ k) w)"
proof (induction k)
  case 0
  then show ?case using s by simp
next
  case (Suc k)
  then have "streaming ea eb content info sid k ((transfer_round c ea eb ^^ k) w)" by simp
  then show ?case using round_streaming(1) [OF c] Suc.prems by simp
qed

definition block_count :: "bytes \<Rightarrow> nat" where
  "block_count content = (length content + 4095) div 4096"

lemma file_arrives:
  assumes c: "codec_laws c" and info: "announces eb content info" and sid: "sid \<noteq> []" and jid: "jidToResource (te_jid eb) \<noteq> []"
    and size: "block_count content \<le> 2 ^ 16"
  shows "complete content ((transfer_round c ea eb ^^ (block_count content + 2)) (transfer_begin c ea eb (fresh_file content) info sid fresh_target))"
proof -
  let ?w = "transfer_begin c ea eb (fresh_file content) info sid fresh_target"
  have "file_ok info" using info by (simp add: announces_def)
  from begin_offers [OF c this sid jid] have s: "offered_open ea eb content info sid ?w" .
  have "closing ea eb content info sid ((transfer_round c ea eb ^^ (block_count content + 1)) ?w)"
  proof (cases "content = []")
    case True
    then show ?thesis using round_open(2) [OF c s True] by (simp add: block_count_def)
  next
    case False
    then obtain n where n: "block_count content = Suc n" by (cases "block_count content") (simp_all add: block_count_def div_eq_0_iff)
    have "block_count content * 4096 + (length content + 4095) mod 4096 = length content + 4095"
      unfolding block_count_def by (rule div_mult_mod_eq)
    moreover obtain m where "(length content + 4095) mod 4096 = m" "m < 4096" by simp
    ultimately have bounds: "4096 * n < length content" "length content \<le> 4096 * Suc n" unfolding n by simp_all
    have "streaming ea eb content info sid n ((transfer_round c ea eb ^^ n) (transfer_round c ea eb ?w))"
      using size n by (intro streaming_rounds [OF c round_open(1) [OF c s False] bounds(1)]) simp
    then have "closing ea eb content info sid (transfer_round c ea eb ((transfer_round c ea eb ^^ n) (transfer_round c ea eb ?w)))"
      using size n bounds(2) by (intro round_streaming(2) [OF c]) simp_all
    then show ?thesis using n by (simp add: funpow_swap1)
  qed
  from round_closing [OF c this info] show ?thesis by simp
qed

text \<open>The receiver does not wrap the number of a block that the sender sends with 16 bits: it refuses the block with index 65536.\<close>

lemma long_file_refused:
  fixes ea eb :: transfer_env
  assumes c: "codec_laws c" and info: "file_ok info" and sid: "sid \<noteq> []" and jid: "jidToResource (te_jid eb) \<noteq> []"
    and size: "length content > 4096 * 2 ^ 16"
  defines "w \<equiv> (transfer_round c ea eb ^^ (2 ^ 16 + 1)) (transfer_begin c ea eb (fresh_file content) info sid fresh_target)"
  shows "\<exists>r. deliver c eb (te_jid ea) (tm_out (sender w)) (receiver w) = out (answer_error (te_jid ea) r (stanza_error Cancel UnexpectedRequest 0)) (receiver w)"
proof -
  let ?b = "transfer_begin c ea eb (fresh_file content) info sid fresh_target"
  have "content \<noteq> []" using size by auto
  then have "streaming ea eb content info sid 0 (transfer_round c ea eb ?b)" using round_open(1) [OF c begin_offers [OF c info sid jid]] by simp
  then have "streaming ea eb content info sid (2 ^ 16) ((transfer_round c ea eb ^^ 2 ^ 16) (transfer_round c ea eb ?b))"
    using size by (intro streaming_rounds [OF c]) simp_all
  moreover have "(transfer_round c ea eb ^^ 2 ^ 16) (transfer_round c ea eb ?b) = w"
    unfolding w_def by (metis Suc_eq_plus1 comp_apply funpow_Suc_right)
  ultimately have "streaming ea eb content info sid (2 ^ 16) w" by simp
  then obtain ja da jb r where a: "tj_sid ja = sid" and
    out: "packets (tm_out (sender w)) = [data_iq (ja\<lparr>tj_ibbSequence := int (2 ^ 16)\<rparr>) r (take 4096 (from_block (2 ^ 16) content))]" and
    b: "one (receiver w) jb" "tj_direction jb = Incoming" "tj_method jb = InBandMethod" "tj_state jb = TransferringState"
      "tj_jid jb = te_jid ea" "tj_sid jb = sid" "tj_ibbSequence jb = int (2 ^ 16)"
    unfolding streaming_def by blast
  have "getIncomingJobBySid (te_jid ea) sid (receiver w) = Some 0" using b by (simp add: getIncomingJobBySid_def)
  then have "deliver c eb (te_jid ea) (tm_out (sender w)) (receiver w) = out (answer_error (te_jid ea) r (stanza_error Cancel UnexpectedRequest 0)) (receiver w)"
    unfolding deliver_one [OF out] arrive_data [OF c] using a b by (simp add: ibbDataIqReceived_def data_iq_def)
  then show ?thesis by blast
qed

text \<open>
  C36.  A file of up to 65536 blocks that one client offers to another and that the other accepts arrives, over packets that travel as XML: after
  one round per block and two more, both jobs have finished without an error and the receiver has written the content of the file.
\<close>

theorem ibb_file_arrives:
  assumes "codec_laws c" "announces eb content info" "sid \<noteq> []" "jidToResource (te_jid eb) \<noteq> []" "block_count content \<le> 65536"
  shows "complete content ((transfer_round c ea eb ^^ (block_count content + 2)) (transfer_begin c ea eb (fresh_file content) info sid fresh_target))"
  using assms by (intro file_arrives) simp_all

definition example_transfer_env :: "qstring \<Rightarrow> transfer_env" where
  "example_transfer_env jid = \<lparr>te_jid = jid, te_streamHash = (\<lambda>a b c. a @ b @ c), te_md5 = (\<lambda>bs. bs), te_stanzaId = number, te_stanzaHash = number,
     te_addresses = [], te_serverPort = 0\<rparr>"

theorem ibb_file_arrives_witness:
  "complete (replicate 4097 7) ((transfer_round example_codec (example_transfer_env ''a@x/r'') (example_transfer_env ''b@y/s'') ^^ 4)
    (transfer_begin example_codec (example_transfer_env ''a@x/r'') (example_transfer_env ''b@y/s'') (fresh_file (replicate 4097 7))
      (new_FileInfo\<lparr>file_size := 4097\<rparr>) ''sid'' fresh_target))"
proof -
  have "block_count (replicate 4097 (7 :: byte)) = 2" by (simp add: block_count_def)
  moreover have "announces (example_transfer_env ''b@y/s'') (replicate 4097 7) (new_FileInfo\<lparr>file_size := 4097\<rparr>)"
    by (simp add: announces_def file_ok_def new_FileInfo_def)
  moreover have "jidToResource (te_jid (example_transfer_env ''b@y/s'')) \<noteq> []" by code_simp
  ultimately show ?thesis
    using ibb_file_arrives [OF example_codec_laws, of "example_transfer_env ''b@y/s''" "replicate 4097 7" _ "''sid''" "example_transfer_env ''a@x/r''"] by simp
qed

section \<open>Streams that are opened again\<close>

text \<open>A peer may open the stream of a job that has finished.\<close>

definition from_peer :: "qstring \<Rightarrow> transfer_payload \<Rightarrow> transfer_event" where
  "from_peer r p = IqArrives ((new_TransferIq IqSet)\<lparr>st_from := ''a@x/r'', st_id := r, tq_payload := p\<rparr>)"

definition peer_offer :: "int \<Rightarrow> transfer_event" where
  "peer_offer n = from_peer ''1'' (InitiationPayload (new_StreamInitiation\<lparr>si_profile := FileTransfer, si_file := new_FileInfo\<lparr>file_size := n\<rparr>,
     si_id := ''s'', si_form := method_form NoVariant FormForm [([], ns_ibb)]\<rparr>))"

definition peer_open :: transfer_event where "peer_open = from_peer ''2'' (OpenPayload \<lparr>open_sid = ''s'', open_blockSize = 10\<rparr>)"
definition peer_data :: "nat \<Rightarrow> byte \<Rightarrow> transfer_event" where
  "peer_data n b = from_peer ''3'' (DataPayload \<lparr>data_sid = ''s'', data_seq = n, data_payload = [b]\<rparr>)"
definition peer_close :: transfer_event where "peer_close = from_peer ''4'' (ClosePayload ''s'')"

definition after :: "transfer_event list \<Rightarrow> tmanager" where
  "after evs = fold (transfer_step (example_transfer_env ''b@y/s'')) evs new_manager"

text \<open>An offer that was declined: the job has no device, and the data is written through a null pointer.\<close>

lemma declined_offer_crashes: "tm_crashed (after [peer_offer 1, UserAborts 0, QueuedCall, peer_open, peer_data 0 7])"
  by code_simp

text \<open>A file that arrived and was checked gets more data.\<close>

lemma finished_file_grows:
  defines "evs \<equiv> [peer_offer 1, UserAcceptsDevice 0 (Some fresh_target), peer_open, peer_data 0 7, peer_close, QueuedCall]"
  shows "EmitJobFinished 0 \<in> set (tm_out (after evs)) \<and> tj_error (job (after evs) 0) = NoTransferError \<and> received (job (after evs) 0) = [7] \<and>
    received (job (after (evs @ [peer_open, peer_data 1 8])) 0) = [7, 8]"
proof -
  have "EmitJobFinished 0 \<in> set (tm_out (after evs))" "tj_error (job (after evs) 0) = NoTransferError" "received (job (after evs) 0) = [7]"
    unfolding evs_def by code_simp+
  moreover have "received (job (after (evs @ [peer_open, peer_data 1 8])) 0) = [7, 8]" unfolding evs_def by code_simp
  ultimately show ?thesis by blast
qed

text \<open>An answer that repeats the payload of its request, as an error may, is taken for a request and answered with an error.\<close>

lemma errors_answered:
  "tm_out (handleIq_transfer env ((new_TransferIq IqError)\<lparr>st_from := who, st_id := r, tq_payload := DataPayload p\<rparr>) new_manager) =
    [answer_error who r (stanza_error Cancel ItemNotFound 0)]"
  by (simp add: handleIq_transfer_def ibbDataIqReceived_def getIncomingJobBySid_def new_manager_def new_TransferIq_def out_def)

text \<open>
  C37.  A file that was received without an error has the size and the hash that the sender announced, whatever packets, connections and calls
  came in whatever order.
\<close>

theorem received_file_as_announced:
  assumes "transfer_reach env s" "i < length (tm_objects s)" "tj_direction (job s i) = Incoming" "tj_state (job s i) = FinishedState"
    "tj_error (job s i) = NoTransferError"
  shows "(file_size (tj_info (job s i)) \<noteq> 0 \<longrightarrow> int (length (received (job s i))) = file_size (tj_info (job s i))) \<and>
    (file_hash (tj_info (job s i)) \<noteq> [] \<longrightarrow> te_md5 env (received (job s i)) = file_hash (tj_info (job s i)))"
  using transfer_jobs_ok [OF assms(1)] assms(2-5)
  by (simp add: jobs_ok_def job_def list_all_length job_ok_def as_announced_def)

theorem received_file_as_announced_witness:
  "int (length (received (job (after [peer_offer 1, UserAcceptsDevice 0 (Some fresh_target), peer_open, peer_data 0 7, peer_close]) 0))) = 1"
proof -
  let ?env = "example_transfer_env ''b@y/s''"
  let ?evs = "[peer_offer 1, UserAcceptsDevice 0 (Some fresh_target), peer_open, peer_data 0 7, peer_close]"
  have "transfer_reach ?env new_manager" by (rule transfer_start) (simp_all add: new_manager_def)
  moreover have "event_ok (after [peer_offer 1]) (UserAcceptsDevice 0 (Some fresh_target))" by code_simp
  moreover have "event_ok s (peer_offer 1)" "event_ok s peer_open" "event_ok s (peer_data 0 7)" "event_ok s peer_close" for s
    by (simp_all add: peer_offer_def peer_open_def peer_data_def peer_close_def from_peer_def)
  ultimately have "transfer_reach ?env (after ?evs)"
    unfolding after_def by (auto intro!: transfer_more)
  moreover have "0 < length (tm_objects (after ?evs))" "tj_direction (job (after ?evs) 0) = Incoming" "tj_state (job (after ?evs) 0) = FinishedState"
    "tj_error (job (after ?evs) 0) = NoTransferError" "file_size (tj_info (job (after ?evs) 0)) = 1"
    by code_simp+
  ultimately show ?thesis using received_file_as_announced [of ?env "after ?evs" 0] by simp
qed

end
