(* ===== verification/Spec2Isabelle.thy ===== *)
theory Spec2Isabelle
  imports Prelude Utils Crc32 Dom StreamManagement TrustStorage AtmManager StunMessage
    DigestMd5 SaslMechanism SaslNonzas SaslRoundtrip SaslClient SaslExchange SaslManager Stanza StreamElements IqManager OutgoingClient ClientSafety ClientSession XmlStream Server IqHandling Blocking Presence Roster DataForm Discovery TransferIqs TransferManager TransferSession
begin

text \<open>
  A verification development for QXmpp, the C++ library for XMPP clients and servers.
\<close>

end
